(* ===== verification/Platform_Prelude.thy ===== *)
theory Platform_Prelude
  imports Complex_Main
begin

text \<open>
  Shared vocabulary of the development: Python strings, decimal numerals, dictionaries,
  JSON values, results that may raise, times, and the two interface locales every stateful
  component is an instance of.

  \<^item> A Python \<open>str\<close> is a list of characters (\<open>pystr\<close>), one per code point; the code points
    modelled are 0 to 255, on which \<^verbatim>\<open>\d\<close>, \<^verbatim>\<open>[A-Z]\<close> and the other classes the sources use
    are exactly the ASCII ranges below.
  \<^item> An operation that raises returns a sum, \<open>Inl\<close> the exception and \<open>Inr\<close> the value.
  \<^item> A \<open>dict\<close> is an association list in insertion order with distinct keys.
  \<^item> A \<open>datetime\<close> is a number of microseconds (\<open>int\<close>), a \<open>timedelta\<close> a difference of two.
\<close>

named_theorems py_simps \<open>evaluation rules for the Python library layer\<close>

section \<open>Types\<close>

type_synonym pystr = string
type_synonym datetime = int
type_synonym timedelta = int
type_synonym 'v pydict = "(pystr \<times> 'v) list"

abbreviation seconds :: "int \<Rightarrow> timedelta" where
  "seconds n \<equiv> n * 1000000"

abbreviation minutes :: "int \<Rightarrow> timedelta" where
  "minutes n \<equiv> seconds (n * 60)"

abbreviation hours :: "int \<Rightarrow> timedelta" where
  "hours n \<equiv> minutes (n * 60)"

abbreviation days :: "int \<Rightarrow> timedelta" where
  "days n \<equiv> hours (n * 24)"

section \<open>Results\<close>

definition rbind :: "'e + 'a \<Rightarrow> ('a \<Rightarrow> 'e + 'b) \<Rightarrow> 'e + 'b" where
  "rbind r k = (case r of Inl e \<Rightarrow> Inl e | Inr x \<Rightarrow> k x)"

lemma rbind_simps [simp, py_simps]:
  "rbind (Inl e) k = Inl e"
  "rbind (Inr x) k = k x"
  by (simp_all add: rbind_def)

lemma rbind_eq_Inr: "rbind r k = Inr y \<longleftrightarrow> (\<exists>x. r = Inr x \<and> k x = Inr y)"
  by (cases r) auto

lemma rbind_eq_Inl: "rbind r k = Inl e \<longleftrightarrow> r = Inl e \<or> (\<exists>x. r = Inr x \<and> k x = Inl e)"
  by (cases r) auto

text \<open>A comprehension over a fallible function stops at the first raise.\<close>

fun rmap :: "('a \<Rightarrow> 'e + 'b) \<Rightarrow> 'a list \<Rightarrow> 'e + 'b list" where
  "rmap f [] = Inr []"
| "rmap f (x # xs) = rbind (f x) (\<lambda>y. rbind (rmap f xs) (\<lambda>ys. Inr (y # ys)))"

lemma rmap_Inr: "rmap f xs = Inr ys \<longleftrightarrow> list_all2 (\<lambda>x y. f x = Inr y) xs ys"
  by (induction xs arbitrary: ys) (auto simp: rbind_eq_Inr list_all2_Cons1)

lemma rmap_Inr_length: "rmap f xs = Inr ys \<Longrightarrow> length ys = length xs"
  by (auto simp: rmap_Inr dest: list_all2_lengthD)

section \<open>Characters and character classes\<close>

definition newline :: char where
  "newline = CHR 0x0A"

definition char_range :: "char \<Rightarrow> char \<Rightarrow> char \<Rightarrow> bool" where
  "char_range lo hi c \<longleftrightarrow> (of_char lo :: nat) \<le> of_char c \<and> (of_char c :: nat) \<le> of_char hi"

abbreviation is_digit :: "char \<Rightarrow> bool" where
  "is_digit \<equiv> char_range (CHR ''0'') (CHR ''9'')"

abbreviation is_upper :: "char \<Rightarrow> bool" where
  "is_upper \<equiv> char_range (CHR ''A'') (CHR ''Z'')"

abbreviation is_lower :: "char \<Rightarrow> bool" where
  "is_lower \<equiv> char_range (CHR ''a'') (CHR ''z'')"

definition is_key_char :: "char \<Rightarrow> bool" where
  \<comment> \<open>the class \<^verbatim>\<open>[A-Z0-9_]\<close>\<close>
  "is_key_char c \<longleftrightarrow> is_upper c \<or> is_digit c \<or> c = CHR ''_''"

definition is_slug_char :: "char \<Rightarrow> bool" where
  \<comment> \<open>the class \<^verbatim>\<open>[a-z0-9-]\<close>\<close>
  "is_slug_char c \<longleftrightarrow> is_lower c \<or> is_digit c \<or> c = CHR ''-''"

definition is_slug_alnum :: "char \<Rightarrow> bool" where
  \<comment> \<open>the class \<^verbatim>\<open>[a-z0-9]\<close>\<close>
  "is_slug_alnum c \<longleftrightarrow> is_lower c \<or> is_digit c"

definition is_space :: "char \<Rightarrow> bool" where
  \<comment> \<open>\<open>str.isspace\<close> and \<^verbatim>\<open>\s\<close> on code points 0 to 255\<close>
  "is_space c \<longleftrightarrow> (of_char c :: nat) \<in> {9, 10, 11, 12, 13, 28, 29, 30, 31, 32, 133, 160}"

lemmas char_class_defs = char_range_def is_key_char_def is_slug_char_def is_slug_alnum_def

lemma digit_not_dash [simp]: "is_digit c \<Longrightarrow> c \<noteq> CHR ''-''"
  by (auto simp: char_range_def)

lemma digit_not_newline [simp]: "is_digit c \<Longrightarrow> c \<noteq> newline"
  by (auto simp: char_range_def newline_def)

lemma key_char_not_dash [simp]: "is_key_char c \<Longrightarrow> c \<noteq> CHR ''-''"
  by (auto simp: char_class_defs)

lemma key_char_not_newline [simp]: "is_key_char c \<Longrightarrow> c \<noteq> newline"
  by (auto simp: char_class_defs newline_def)

lemma upper_key_char [simp]: "is_upper c \<Longrightarrow> is_key_char c"
  by (simp add: is_key_char_def)

lemma digit_slug_char [simp]: "is_digit c \<Longrightarrow> is_slug_char c"
  by (simp add: is_slug_char_def)

lemma slug_alnum_slug_char [simp]: "is_slug_alnum c \<Longrightarrow> is_slug_char c"
  by (auto simp: is_slug_char_def is_slug_alnum_def)

lemma slug_char_not_newline [simp]: "is_slug_char c \<Longrightarrow> c \<noteq> newline"
  by (auto simp: char_class_defs newline_def)

lemma newline_in_no_class [simp]:
  "\<not> is_digit newline" "\<not> is_key_char newline" "\<not> is_slug_char newline" "\<not> is_slug_alnum newline"
  by (simp_all add: char_class_defs newline_def)

section \<open>Strings\<close>

fun strip_prefix :: "pystr \<Rightarrow> pystr \<Rightarrow> pystr option" where
  "strip_prefix [] s = Some s"
| "strip_prefix (p # ps) [] = None"
| "strip_prefix (p # ps) (c # cs) = (if p = c then strip_prefix ps cs else None)"

definition starts_with :: "pystr \<Rightarrow> pystr \<Rightarrow> bool" where
  "starts_with s p \<longleftrightarrow> strip_prefix p s \<noteq> None"

fun contains_sub :: "pystr \<Rightarrow> pystr \<Rightarrow> bool" where
  \<comment> \<open>\<open>p in s\<close>\<close>
  "contains_sub p [] = starts_with [] p"
| "contains_sub p (c # cs) = (starts_with (c # cs) p \<or> contains_sub p cs)"

definition lower_char :: "char \<Rightarrow> char" where
  "lower_char c = (if is_upper c then char_of ((of_char c :: nat) + 32) else c)"

definition lower :: "pystr \<Rightarrow> pystr" where
  \<comment> \<open>\<open>str.lower\<close>; on the ASCII letters, all the literals compared with it are ASCII\<close>
  "lower = map lower_char"

definition lstrip :: "pystr \<Rightarrow> pystr" where
  "lstrip = dropWhile is_space"

definition strip :: "pystr \<Rightarrow> pystr" where
  "strip s = rev (lstrip (rev (lstrip s)))"

definition at_dollar :: "pystr \<Rightarrow> pystr" where
  \<comment> \<open>What a pattern that ends in \<^verbatim>\<open>$\<close> has to match: Python's \<^verbatim>\<open>$\<close> also matches just before
     one newline that ends the string.\<close>
  "at_dollar s = (if s \<noteq> [] \<and> last s = newline then butlast s else s)"

lemma strip_prefix_append [simp]: "strip_prefix p (p @ s) = Some s"
  by (induction p) auto

lemma strip_prefix_Some: "strip_prefix p s = Some r \<longleftrightarrow> s = p @ r"
  by (induction p s rule: strip_prefix.induct) auto

lemma starts_with_iff: "starts_with s p \<longleftrightarrow> (\<exists>r. s = p @ r)"
  by (cases "strip_prefix p s") (auto simp: starts_with_def strip_prefix_Some)

lemma contains_sub_iff: "contains_sub p s \<longleftrightarrow> (\<exists>a b. s = a @ p @ b)"
proof (induction s)
  case Nil
  then show ?case by (auto simp: starts_with_iff)
next
  case (Cons c cs)
  show ?case
  proof
    assume "contains_sub p (c # cs)"
    then consider "starts_with (c # cs) p" | "contains_sub p cs" by auto
    then show "\<exists>a b. c # cs = a @ p @ b"
    proof cases
      case 1
      then obtain r where "c # cs = [] @ p @ r" by (auto simp: starts_with_iff)
      then show ?thesis by blast
    next
      case 2
      then obtain a b where "cs = a @ p @ b" using Cons.IH by blast
      then have "c # cs = (c # a) @ p @ b" by simp
      then show ?thesis by blast
    qed
  next
    assume "\<exists>a b. c # cs = a @ p @ b"
    then obtain a b where eq: "c # cs = a @ p @ b" by blast
    show "contains_sub p (c # cs)"
    proof (cases a)
      case Nil
      with eq have "starts_with (c # cs) p" by (auto simp: starts_with_iff)
      then show ?thesis by simp
    next
      case (Cons x a')
      with eq have "cs = a' @ p @ b" by simp
      then have "contains_sub p cs" using Cons.IH by blast
      then show ?thesis by simp
    qed
  qed
qed

lemma at_dollar_id: "newline \<notin> set s \<Longrightarrow> at_dollar s = s"
  by (auto simp: at_dollar_def dest: last_in_set)

lemma at_dollar_newline [simp]: "at_dollar (s @ [newline]) = s"
  by (simp add: at_dollar_def)

lemma at_dollar_cases: "s = at_dollar s \<or> s = at_dollar s @ [newline]"
  by (auto simp: at_dollar_def) (metis append_butlast_last_id)

section \<open>Decimal numerals\<close>

definition digit_char :: "nat \<Rightarrow> char" where
  "digit_char d = char_of (48 + d)"

definition digit_val :: "char \<Rightarrow> nat" where
  "digit_val c = of_char c - 48"

fun show_nat :: "nat \<Rightarrow> pystr" where
  "show_nat n = (if n < 10 then [digit_char n] else show_nat (n div 10) @ [digit_char (n mod 10)])"

declare show_nat.simps [simp del]

definition show_int :: "int \<Rightarrow> pystr" where
  "show_int i = (if i < 0 then CHR ''-'' # show_nat (nat (- i)) else show_nat (nat i))"

definition parse_nat :: "pystr \<Rightarrow> nat" where
  \<comment> \<open>\<open>int(s)\<close> for a string of decimal digits\<close>
  "parse_nat s = foldl (\<lambda>a c. a * 10 + digit_val c) 0 s"

lemma of_digit_char: "d < 10 \<Longrightarrow> (of_char (digit_char d) :: nat) = 48 + d"
  by (simp add: digit_char_def)

lemma is_digit_digit_char [simp]: "d < 10 \<Longrightarrow> is_digit (digit_char d)"
  by (simp add: char_range_def of_digit_char)

lemma digit_val_digit_char [simp]: "d < 10 \<Longrightarrow> digit_val (digit_char d) = d"
  by (simp add: digit_val_def of_digit_char)

lemma digit_val_lt: "is_digit c \<Longrightarrow> digit_val c < 10"
  by (auto simp: digit_val_def char_range_def)

lemma digit_char_digit_val [simp]: "is_digit c \<Longrightarrow> digit_char (digit_val c) = c"
  by (simp add: digit_val_def digit_char_def char_range_def)

lemma digit_val_zero: "is_digit c \<Longrightarrow> digit_val c = 0 \<Longrightarrow> c = CHR ''0''"
proof -
  assume "is_digit c" "digit_val c = 0"
  then have "(of_char c :: nat) = of_char (CHR ''0'')"
    by (auto simp: digit_val_def char_range_def)
  then show ?thesis by (simp only: of_char_eq_iff)
qed

lemma show_nat_digits: "list_all is_digit (show_nat n)"
proof (induction n rule: show_nat.induct)
  case (1 n)
  then show ?case by (cases "n < 10") (simp_all add: show_nat.simps [of n])
qed

lemma show_nat_nonempty [simp]: "show_nat n \<noteq> []"
  by (subst show_nat.simps) simp

lemma show_nat_no_leading_zero: "0 < n \<Longrightarrow> hd (show_nat n) \<noteq> CHR ''0''"
proof (induction n rule: show_nat.induct)
  case (1 n)
  show ?case
  proof (cases "n < 10")
    case True
    have "digit_char n \<noteq> CHR ''0''"
    proof
      assume "digit_char n = CHR ''0''"
      then have "digit_val (digit_char n) = digit_val (CHR ''0'')" by simp
      with True 1 show False by (simp add: digit_val_def of_digit_char)
    qed
    with True show ?thesis by (simp add: show_nat.simps [of n])
  next
    case False
    with 1 show ?thesis by (simp add: show_nat.simps [of n])
  qed
qed

lemma parse_nat_snoc [simp]: "parse_nat (s @ [c]) = parse_nat s * 10 + digit_val c"
  by (simp add: parse_nat_def)

lemma parse_show_nat [simp]: "parse_nat (show_nat n) = n"
proof (induction n rule: show_nat.induct)
  case (1 n)
  then show ?case
    by (cases "n < 10") (simp_all add: show_nat.simps [of n], simp add: parse_nat_def)
qed

lemma parse_nat_pos:
  "list_all is_digit s \<Longrightarrow> s \<noteq> [] \<Longrightarrow> hd s \<noteq> CHR ''0'' \<Longrightarrow> 0 < parse_nat s"
proof (induction s rule: rev_induct)
  case Nil
  then show ?case by simp
next
  case (snoc c s)
  show ?case
  proof (cases s)
    case Nil
    with snoc have "is_digit c" "c \<noteq> CHR ''0''" by simp_all
    then have "digit_val c \<noteq> 0" using digit_val_zero by blast
    with Nil show ?thesis by (simp add: parse_nat_def)
  next
    case (Cons a as)
    with snoc have "0 < parse_nat s" by simp
    then show ?thesis by simp
  qed
qed

lemma show_parse_nat:
  "list_all is_digit s \<Longrightarrow> s \<noteq> [] \<Longrightarrow> hd s \<noteq> CHR ''0'' \<Longrightarrow> show_nat (parse_nat s) = s"
proof (induction s rule: rev_induct)
  case Nil
  then show ?case by simp
next
  case (snoc c s)
  have c: "is_digit c" using snoc.prems by simp
  show ?case
  proof (cases s)
    case Nil
    with c show ?thesis by (simp add: show_nat.simps parse_nat_def digit_val_lt)
  next
    case (Cons a as)
    with snoc have IH: "show_nat (parse_nat s) = s" and pos: "0 < parse_nat s"
      by (auto intro!: parse_nat_pos)
    have "(parse_nat s * 10 + digit_val c) div 10 = parse_nat s"
      and "(parse_nat s * 10 + digit_val c) mod 10 = digit_val c"
      using digit_val_lt [OF c] by simp_all
    with pos c IH show ?thesis by (simp add: show_nat.simps [of "parse_nat s * 10 + digit_val c"])
  qed
qed

lemma show_nat_inj: "show_nat m = show_nat n \<Longrightarrow> m = n"
  by (metis parse_show_nat)

section \<open>First match in a list\<close>

lemma find_append:
  "find P (xs @ ys) = (case find P xs of None \<Rightarrow> find P ys | Some x \<Rightarrow> Some x)"
  by (induction xs) auto

lemma find_split:
  "find P xs = Some x \<Longrightarrow> \<exists>as bs. xs = as @ x # bs \<and> P x \<and> (\<forall>y \<in> set as. \<not> P y)"
proof (induction xs)
  case Nil
  then show ?case by simp
next
  case (Cons y ys)
  show ?case
  proof (cases "P y")
    case True
    with Cons.prems have "y # ys = [] @ x # ys \<and> P x" by simp
    then show ?thesis by fastforce
  next
    case False
    with Cons obtain as bs where "ys = as @ x # bs" "P x" "\<forall>z \<in> set as. \<not> P z" by auto
    with False have "y # ys = (y # as) @ x # bs \<and> P x \<and> (\<forall>z \<in> set (y # as). \<not> P z)" by simp
    then show ?thesis by blast
  qed
qed

section \<open>Dictionaries\<close>

definition dict_get :: "'v pydict \<Rightarrow> pystr \<Rightarrow> 'v option" where
  \<comment> \<open>\<open>d.get(k)\<close>, and \<open>k in d\<close> as \<open>dict_get d k \<noteq> None\<close>\<close>
  "dict_get d k = map_of d k"

fun dict_set :: "pystr \<Rightarrow> 'v \<Rightarrow> 'v pydict \<Rightarrow> 'v pydict" where
  \<comment> \<open>\<open>d[k] = v\<close>: in place when the key is there, at the end otherwise\<close>
  "dict_set k v [] = [(k, v)]"
| "dict_set k v ((k', v') # d) = (if k = k' then (k, v) # d else (k', v') # dict_set k v d)"

definition dict_del :: "pystr \<Rightarrow> 'v pydict \<Rightarrow> 'v pydict" where
  \<comment> \<open>\<open>del d[k]\<close>, and \<open>d.pop(k, None)\<close> without its value\<close>
  "dict_del k d = filter (\<lambda>(k', _). k' \<noteq> k) d"

abbreviation dict_keys :: "'v pydict \<Rightarrow> pystr list" where
  "dict_keys d \<equiv> map fst d"

definition wf_dict :: "'v pydict \<Rightarrow> bool" where
  "wf_dict d \<longleftrightarrow> distinct (dict_keys d)"

lemma dict_get_Nil [simp, py_simps]: "dict_get [] k = None"
  by (simp add: dict_get_def)

lemma dict_get_Cons [simp, py_simps]:
  "dict_get ((k', v) # d) k = (if k = k' then Some v else dict_get d k)"
  by (simp add: dict_get_def)

lemma dict_get_set [simp]: "dict_get (dict_set k v d) k' = (if k' = k then Some v else dict_get d k')"
  by (induction k v d rule: dict_set.induct) (auto split: if_splits)

lemma dict_get_del [simp]: "dict_get (dict_del k d) k' = (if k' = k then None else dict_get d k')"
  by (induction d) (auto simp: dict_del_def split: if_splits)

lemma dict_get_None_iff: "dict_get d k = None \<longleftrightarrow> k \<notin> set (dict_keys d)"
  by (induction d) (auto split: if_splits)

lemma keys_dict_set [simp]: "fst ` set (dict_set k v d) = insert k (fst ` set d)"
  by (induction k v d rule: dict_set.induct) auto

lemma keys_dict_del [simp]: "fst ` set (dict_del k d) = fst ` set d - {k}"
  by (force simp: dict_del_def)

lemma dict_del_Nil [simp]: "dict_del k [] = []"
  by (simp add: dict_del_def)

lemma dict_get_in_set: "wf_dict d \<Longrightarrow> (k, v) \<in> set d \<Longrightarrow> dict_get d k = Some v"
  by (simp add: wf_dict_def dict_get_def)

lemma dict_get_SomeD: "dict_get d k = Some v \<Longrightarrow> (k, v) \<in> set d"
  by (simp add: dict_get_def map_of_SomeD)

lemma wf_dict_Nil [simp]: "wf_dict []"
  by (simp add: wf_dict_def)

lemma wf_dict_set [simp]: "wf_dict d \<Longrightarrow> wf_dict (dict_set k v d)"
  by (induction k v d rule: dict_set.induct) (auto simp: wf_dict_def)

lemma wf_dict_del [simp]: "wf_dict d \<Longrightarrow> wf_dict (dict_del k d)"
  by (induction d) (auto simp: wf_dict_def dict_del_def)

lemma wf_dict_append_new:
  "wf_dict d \<Longrightarrow> k \<notin> set (dict_keys d) \<Longrightarrow> wf_dict (d @ [(k, v)])"
  by (simp add: wf_dict_def)

lemma dict_set_fresh: "k \<notin> set (dict_keys d) \<Longrightarrow> dict_set k v d = d @ [(k, v)]"
  by (induction k v d rule: dict_set.induct) auto

lemma length_dict_set:
  "length (dict_set k v d) = (if k \<in> set (dict_keys d) then length d else Suc (length d))"
  by (induction k v d rule: dict_set.induct) auto

section \<open>JSON-like values\<close>

datatype pyval =
    PNone
  | PBool bool
  | PInt int
  | PFloat rat
  | PStr pystr
  | PList "pyval list"
  | PTuple "pyval list"
  | PDict "(pystr \<times> pyval) list"

fun truthy :: "pyval \<Rightarrow> bool" where
  \<comment> \<open>\<open>bool(v)\<close>\<close>
  "truthy PNone = False"
| "truthy (PBool b) = b"
| "truthy (PInt i) = (i \<noteq> 0)"
| "truthy (PFloat r) = (r \<noteq> 0)"
| "truthy (PStr s) = (s \<noteq> [])"
| "truthy (PList xs) = (xs \<noteq> [])"
| "truthy (PTuple xs) = (xs \<noteq> [])"
| "truthy (PDict d) = (d \<noteq> [])"

fun as_dict :: "pyval \<Rightarrow> (pystr \<times> pyval) list option" where
  \<comment> \<open>\<open>isinstance(v, dict)\<close> with its value\<close>
  "as_dict (PDict d) = Some d"
| "as_dict _ = None"

fun as_str :: "pyval \<Rightarrow> pystr option" where
  "as_str (PStr s) = Some s"
| "as_str _ = None"

definition get_or_none :: "pyval pydict \<Rightarrow> pystr \<Rightarrow> pyval" where
  \<comment> \<open>\<open>d.get(k)\<close> as a value, \<open>None\<close> when the key is missing\<close>
  "get_or_none d k = (case dict_get d k of None \<Rightarrow> PNone | Some v \<Rightarrow> v)"

fun iter_value :: "pyval \<Rightarrow> pystr + pyval list" where
  \<comment> \<open>\<open>for x in v or []\<close>; \<open>Inl\<close> the class of the exception\<close>
  "iter_value (PList xs) = Inr xs"
| "iter_value (PTuple xs) = Inr xs"
| "iter_value (PStr s) = Inr (map (\<lambda>c. PStr [c]) s)"
| "iter_value (PDict d) = Inr (map (\<lambda>(k, _). PStr k) d)"
| "iter_value v = (if truthy v then Inl ''TypeError'' else Inr [])"

definition py_str :: "(pyval \<Rightarrow> pystr) \<Rightarrow> pyval \<Rightarrow> pystr" where
  \<comment> \<open>\<open>str(v)\<close>; \<open>repr\<close> renders floats and containers\<close>
  "py_str repr v =
     (case v of
        PStr s \<Rightarrow> s
      | PInt i \<Rightarrow> show_int i
      | PBool b \<Rightarrow> (if b then ''True'' else ''False'')
      | PNone \<Rightarrow> ''None''
      | _ \<Rightarrow> repr v)"

section \<open>Transition systems\<close>

text \<open>
  The contract of a stateful component seen from outside: an initial condition, a step function
  over its operations and an invariant each operation keeps. Every run from an initial state
  then satisfies the invariant after each operation.
\<close>

fun run_ops :: "('s \<Rightarrow> 'op \<Rightarrow> 's) \<Rightarrow> 's \<Rightarrow> 'op list \<Rightarrow> 's" where
  "run_ops step s [] = s"
| "run_ops step s (x # xs) = run_ops step (step s x) xs"

lemma run_ops_append: "run_ops step s (xs @ ys) = run_ops step (run_ops step s xs) ys"
  by (induction xs arbitrary: s) simp_all

lemma run_ops_foldl: "run_ops step s xs = foldl step s xs"
  by (induction xs arbitrary: s) simp_all

locale stateful_component =
  fixes step :: "'s \<Rightarrow> 'op \<Rightarrow> 's"
    and initial :: "'s \<Rightarrow> bool"
    and invar :: "'s \<Rightarrow> bool"
  assumes invar_initial: "initial s \<Longrightarrow> invar s"
    and invar_step: "invar s \<Longrightarrow> invar (step s x)"
begin

lemma invar_run: "invar s \<Longrightarrow> invar (run_ops step s xs)"
  by (induction xs arbitrary: s) (simp_all add: invar_step)

lemma invar_reachable: "initial s \<Longrightarrow> invar (run_ops step s xs)"
  by (simp add: invar_initial invar_run)

end

end
