(* ===== verification/Workflow_Identifiers.thy ===== *)
theory Workflow_Identifiers
  imports Platform_Prelude
begin

text \<open>
  \<^verbatim>\<open>libs/temporal-shared/src/temporal_shared/identifiers.py\<close>: the workflow-id, branch-name and
  artifact-key formatters, their validators, and \<open>parse_workflow_id\<close>, the inverse of the two
  round-trippable formatters. Every anchored pattern of the module is a hand-written recogniser
  applied to \<open>at_dollar s\<close>; the classes of the patterns determine each split (a project key has
  no dash, a numeral has no dash), so the recognisers compute the groups Python's matcher
  returns. The parameters have their annotated types, so the \<open>isinstance\<close> guards are vacuous.
\<close>

section \<open>Errors and references\<close>

datatype id_error =
    InvalidIssueKeyError pystr
  | InvalidSlugError pystr pystr \<comment> \<open>value, field\<close>
  | InvalidWorkflowIdError pystr pystr \<comment> \<open>value, reason\<close>

datatype provider = Jira | Bitbucket

record WorkflowIdRef =
  wf_provider :: provider
  wf_project_key :: "pystr option"
  wf_issue_num :: "int option"
  wf_repo_slug :: "pystr option"
  wf_pr_id :: "int option"

section \<open>Patterns\<close>

definition jira_wf_prefix :: pystr where
  "jira_wf_prefix = ''automation-jira-''"

definition bb_wf_prefix :: pystr where
  "bb_wf_prefix = ''automation-bb-''"

definition pr_infix :: pystr where
  "pr_infix = ''-pr-''"

definition split_dash :: "pystr \<Rightarrow> pystr \<times> pystr" where
  \<comment> \<open>the text before the first dash, and the rest from that dash on\<close>
  "split_dash s = (takeWhile (\<lambda>c. c \<noteq> CHR ''-'') s, dropWhile (\<lambda>c. c \<noteq> CHR ''-'') s)"

fun is_numeral :: "pystr \<Rightarrow> bool" where
  \<comment> \<open>\<^verbatim>\<open>[1-9][0-9]*\<close>\<close>
  "is_numeral [] = False"
| "is_numeral (d # ds) = (is_digit d \<and> d \<noteq> CHR ''0'' \<and> list_all is_digit ds)"

fun is_long_key :: "pystr \<Rightarrow> bool" where
  \<comment> \<open>\<^verbatim>\<open>[A-Z][A-Z0-9_]+\<close>\<close>
  "is_long_key [] = False"
| "is_long_key (c # cs) = (is_upper c \<and> cs \<noteq> [] \<and> list_all is_key_char cs)"

definition issue_key_re :: "pystr \<Rightarrow> bool" where
  "issue_key_re s =
     (case split_dash (at_dollar s) of
        (k, _ # n) \<Rightarrow> is_long_key k \<and> is_numeral n
      | _ \<Rightarrow> False)"

definition slug_re :: "pystr \<Rightarrow> bool" where
  "slug_re s =
     (case at_dollar s of
        [] \<Rightarrow> False
      | c # cs \<Rightarrow> is_slug_alnum c \<and> list_all is_slug_char cs)"

definition project_key_body :: "pystr \<Rightarrow> bool" where
  \<comment> \<open>\<^verbatim>\<open>[A-Z][A-Z0-9_]{1,9}\<close>\<close>
  "project_key_body s \<longleftrightarrow> is_long_key s \<and> length s \<le> 10"

definition jira_project_key_re :: "pystr \<Rightarrow> bool" where
  "jira_project_key_re s = project_key_body (at_dollar s)"

definition repo_slug_re :: "pystr \<Rightarrow> bool" where
  \<comment> \<open>\<^verbatim>\<open>^[a-z0-9](?:[a-z0-9-]*[a-z0-9])?$\<close>\<close>
  "repo_slug_re s =
     (let b = at_dollar s
      in b \<noteq> [] \<and> is_slug_alnum (hd b) \<and> is_slug_alnum (last b) \<and> list_all is_slug_char b)"

definition jira_wf_id_re :: "pystr \<Rightarrow> (pystr \<times> pystr) option" where
  "jira_wf_id_re s =
     (case strip_prefix jira_wf_prefix (at_dollar s) of
        None \<Rightarrow> None
      | Some r \<Rightarrow>
          (case split_dash r of
             (k, _ # n) \<Rightarrow>
               if project_key_body k \<and> n \<noteq> [] \<and> list_all is_digit n then Some (k, n) else None
           | _ \<Rightarrow> None))"

definition bb_wf_id_re :: "pystr \<Rightarrow> (pystr \<times> pystr) option" where
  "bb_wf_id_re s =
     (case strip_prefix bb_wf_prefix (at_dollar s) of
        None \<Rightarrow> None
      | Some r \<Rightarrow>
          (let n = rev (takeWhile is_digit (rev r));
               rpre = dropWhile is_digit (rev r)
           in case strip_prefix (rev pr_infix) rpre of
                None \<Rightarrow> None
              | Some rslug \<Rightarrow>
                  if n \<noteq> [] \<and> rslug \<noteq> [] \<and> list_all is_slug_char rslug
                  then Some (rev rslug, n) else None))"

section \<open>Validators and formatters\<close>

definition validate_issue_key :: "pystr \<Rightarrow> id_error + unit" where
  "validate_issue_key issue_key =
     (if \<not> issue_key_re issue_key then Inl (InvalidIssueKeyError issue_key) else Inr ())"

definition validate_slug :: "pystr \<Rightarrow> pystr \<Rightarrow> id_error + unit" where
  "validate_slug value field =
     (if \<not> slug_re value then Inl (InvalidSlugError value field) else Inr ())"

definition automation_workflow_id_jira :: "pystr \<Rightarrow> id_error + pystr" where
  "automation_workflow_id_jira issue_key =
     rbind (validate_issue_key issue_key) (\<lambda>_. Inr (jira_wf_prefix @ issue_key))"

definition automation_workflow_id_bb :: "pystr \<Rightarrow> pystr \<Rightarrow> int \<Rightarrow> id_error + pystr" where
  "automation_workflow_id_bb workspace repo pr_id =
     rbind (validate_slug workspace ''workspace'') (\<lambda>_.
     rbind (validate_slug repo ''repo'') (\<lambda>_.
       Inr (bb_wf_prefix @ workspace @ ''-'' @ repo @ ''-'' @ show_int pr_id)))"

definition agent_workflow_id :: "pystr \<Rightarrow> int \<Rightarrow> pystr" where
  "agent_workflow_id parent_id iteration = ''agent-'' @ parent_id @ ''-iter-'' @ show_int iteration"

definition execution_workflow_id :: "pystr \<Rightarrow> int \<Rightarrow> pystr" where
  "execution_workflow_id parent_id ts = ''exec-'' @ parent_id @ ''-'' @ show_int ts"

definition branch_name :: "pystr \<Rightarrow> int \<Rightarrow> id_error + pystr" where
  "branch_name issue_key iteration =
     rbind (validate_issue_key issue_key) (\<lambda>_.
       Inr (''ai/'' @ issue_key @ ''/iter-'' @ show_int iteration))"

definition agent_artifact_key :: "pystr \<Rightarrow> int \<Rightarrow> pystr \<Rightarrow> id_error + pystr" where
  "agent_artifact_key issue_key iteration filename =
     rbind (validate_issue_key issue_key) (\<lambda>_.
       Inr (''artifacts/'' @ issue_key @ ''/iter-'' @ show_int iteration @ ''/'' @ filename))"

definition execution_artifact_key :: "pystr \<Rightarrow> pystr \<Rightarrow> pystr" where
  "execution_artifact_key workflow_id name = ''executions/'' @ workflow_id @ ''/'' @ name"

definition jira_workflow_id :: "pystr \<Rightarrow> int \<Rightarrow> id_error + pystr" where
  "jira_workflow_id project_key issue_num =
     (if \<not> jira_project_key_re project_key
      then Inl (InvalidIssueKeyError (project_key @ ''-'' @ show_int issue_num))
      else if issue_num < 1
      then Inl (InvalidIssueKeyError (project_key @ ''-'' @ show_int issue_num))
      else Inr (jira_wf_prefix @ project_key @ ''-'' @ show_int issue_num))"

definition bitbucket_pr_workflow_id :: "pystr \<Rightarrow> int \<Rightarrow> id_error + pystr" where
  "bitbucket_pr_workflow_id repo_slug pr_id =
     (if \<not> repo_slug_re repo_slug then Inl (InvalidSlugError repo_slug ''repo_slug'')
      else if contains_sub ''--'' repo_slug then Inl (InvalidSlugError repo_slug ''repo_slug'')
      else if pr_id < 1 then Inl (InvalidSlugError (''pr_id='' @ show_int pr_id) ''pr_id'')
      else Inr (bb_wf_prefix @ repo_slug @ pr_infix @ show_int pr_id))"

definition parse_workflow_id :: "pystr \<Rightarrow> id_error + WorkflowIdRef" where
  "parse_workflow_id s =
     (case jira_wf_id_re s of
        Some (project_key, issue_num_str) \<Rightarrow>
          if issue_num_str \<noteq> ''0'' \<and> starts_with issue_num_str ''0''
          then Inl (InvalidWorkflowIdError s ''issue_num must not have leading zeros'')
          else if parse_nat issue_num_str < 1
          then Inl (InvalidWorkflowIdError s ''issue_num must be positive'')
          else Inr \<lparr>wf_provider = Jira, wf_project_key = Some project_key,
                    wf_issue_num = Some (int (parse_nat issue_num_str)),
                    wf_repo_slug = None, wf_pr_id = None\<rparr>
      | None \<Rightarrow>
          (case bb_wf_id_re s of
             Some (repo_slug, pr_id_str) \<Rightarrow>
               if \<not> repo_slug_re repo_slug \<or> contains_sub ''--'' repo_slug
               then Inl (InvalidWorkflowIdError s (''invalid repo_slug '' @ repo_slug))
               else if pr_id_str \<noteq> ''0'' \<and> starts_with pr_id_str ''0''
               then Inl (InvalidWorkflowIdError s ''pr_id must not have leading zeros'')
               else if parse_nat pr_id_str < 1
               then Inl (InvalidWorkflowIdError s ''pr_id must be positive'')
               else Inr \<lparr>wf_provider = Bitbucket, wf_project_key = None, wf_issue_num = None,
                         wf_repo_slug = Some repo_slug,
                         wf_pr_id = Some (int (parse_nat pr_id_str))\<rparr>
           | None \<Rightarrow> Inl (InvalidWorkflowIdError s ''unknown format'')))"

definition format_ref :: "WorkflowIdRef \<Rightarrow> id_error + pystr" where
  \<comment> \<open>the formatter that goes with the provider of a reference\<close>
  "format_ref r =
     (case wf_provider r of
        Jira \<Rightarrow> jira_workflow_id (the (wf_project_key r)) (the (wf_issue_num r))
      | Bitbucket \<Rightarrow> bitbucket_pr_workflow_id (the (wf_repo_slug r)) (the (wf_pr_id r)))"

section \<open>Recogniser lemmas\<close>

lemma is_long_key_chars: "is_long_key k \<Longrightarrow> list_all is_key_char k"
  by (cases k) auto

lemma key_no_dash: "list_all is_key_char k \<Longrightarrow> \<forall>c \<in> set k. c \<noteq> CHR ''-''"
  by (auto simp: list_all_iff)

lemma split_dash_key:
  "list_all is_key_char k \<Longrightarrow> split_dash (k @ CHR ''-'' # n) = (k, CHR ''-'' # n)"
  by (auto simp: split_dash_def list_all_iff takeWhile_append dropWhile_append)

lemma split_dash_Cons: "split_dash s = (k, d # n) \<Longrightarrow> s = k @ CHR ''-'' # n"
  by (auto simp: split_dash_def dropWhile_eq_Cons_conv)

lemma no_newline_classes:
  "list_all is_key_char k \<Longrightarrow> newline \<notin> set k"
  "list_all is_slug_char k \<Longrightarrow> newline \<notin> set k"
  "list_all is_digit k \<Longrightarrow> newline \<notin> set k"
  by (auto simp: list_all_iff)

lemma show_int_pos: "0 < i \<Longrightarrow> show_int i = show_nat (nat i)"
  by (simp add: show_int_def)

lemma show_nat_facts:
  "0 < n \<Longrightarrow> show_nat n \<noteq> ''0''"
  "0 < n \<Longrightarrow> \<not> starts_with (show_nat n) ''0''"
  using show_nat_no_leading_zero [of n] by (auto simp: starts_with_iff)

lemma literal_facts:
  "newline \<notin> set jira_wf_prefix" "newline \<notin> set bb_wf_prefix" "newline \<notin> set pr_infix"
  "newline \<noteq> CHR ''-''" "CHR ''-'' \<noteq> newline"
  "rev pr_infix = CHR ''-'' # ''rp-''"
  by (simp_all add: jira_wf_prefix_def bb_wf_prefix_def pr_infix_def newline_def)

lemma jira_wf_id_re_format:
  assumes "project_key_body k" and "n \<noteq> []" and "list_all is_digit n"
  shows "jira_wf_id_re (jira_wf_prefix @ k @ CHR ''-'' # n) = Some (k, n)"
proof -
  have k: "list_all is_key_char k" using assms(1) by (simp add: project_key_body_def is_long_key_chars)
  have "newline \<notin> set (jira_wf_prefix @ k @ CHR ''-'' # n)"
    using k assms(3) by (simp add: no_newline_classes literal_facts)
  then show ?thesis
    using assms by (simp add: jira_wf_id_re_def at_dollar_id split_dash_key [OF k])
qed

lemma bb_wf_id_re_format:
  assumes "k \<noteq> []" and "list_all is_slug_char k" and "n \<noteq> []" and "list_all is_digit n"
  shows "bb_wf_id_re (bb_wf_prefix @ k @ pr_infix @ n) = Some (k, n)"
proof -
  have nl: "newline \<notin> set (bb_wf_prefix @ k @ pr_infix @ n)"
    using assms(2,4) by (simp add: no_newline_classes literal_facts)
  have dash: "\<not> is_digit (CHR ''-'')" by (simp add: char_range_def)
  have tw: "takeWhile is_digit (rev n @ CHR ''-'' # r) = rev n"
    and dw: "dropWhile is_digit (rev n @ CHR ''-'' # r) = CHR ''-'' # r" for r
    using assms(4) dash by (auto simp: list_all_iff takeWhile_append dropWhile_append)
  show ?thesis
    using assms nl
    by (simp add: bb_wf_id_re_def at_dollar_id Let_def literal_facts tw dw)
qed

lemma jira_wf_id_re_bb: "jira_wf_id_re (bb_wf_prefix @ r) = None"
proof -
  have "at_dollar (bb_wf_prefix @ r) = bb_wf_prefix @ at_dollar r"
    by (cases r rule: rev_cases) (auto simp: at_dollar_def bb_wf_prefix_def newline_def)
  then have "strip_prefix jira_wf_prefix (at_dollar (bb_wf_prefix @ r)) = None"
    by (simp add: jira_wf_prefix_def bb_wf_prefix_def)
  then show ?thesis by (simp add: jira_wf_id_re_def)
qed

lemma jira_wf_id_re_Some:
  "jira_wf_id_re s = Some (k, n) \<Longrightarrow>
     at_dollar s = jira_wf_prefix @ k @ CHR ''-'' # n \<and> project_key_body k \<and>
     n \<noteq> [] \<and> list_all is_digit n"
  by (auto simp: jira_wf_id_re_def strip_prefix_Some split: option.splits list.splits if_splits
      prod.splits dest!: split_dash_Cons)

lemma bb_wf_id_re_Some:
  assumes "bb_wf_id_re s = Some (k, n)"
  shows "at_dollar s = bb_wf_prefix @ k @ pr_infix @ n \<and> k \<noteq> [] \<and> list_all is_slug_char k \<and>
     n \<noteq> [] \<and> list_all is_digit n"
proof -
  obtain r where r: "at_dollar s = bb_wf_prefix @ r"
    and n: "n = rev (takeWhile is_digit (rev r))"
    and p: "dropWhile is_digit (rev r) = rev pr_infix @ rev k" "k \<noteq> []" "list_all is_slug_char k" "n \<noteq> []"
    using assms
    by (auto simp: bb_wf_id_re_def strip_prefix_Some Let_def split: option.splits if_splits)
  have "rev r = takeWhile is_digit (rev r) @ dropWhile is_digit (rev r)" by simp
  then have "r = rev (dropWhile is_digit (rev r)) @ n"
    using n by (metis rev_append rev_rev_ident)
  then have "r = k @ pr_infix @ n" using p by simp
  moreover have "list_all is_digit n" using n by (auto simp: list_all_iff dest: set_takeWhileD)
  ultimately show ?thesis using r p by simp
qed

section \<open>The codec interface\<close>

text \<open>
  What the callers rely on: whenever a formatter accepts a target, the parser recovers the
  target's reference, and references identify targets. Distinct targets then never share an id,
  which is what makes the id usable as an idempotency key.
\<close>

locale id_codec =
  fixes fmt :: "'a \<Rightarrow> 'e + pystr"
    and prs :: "pystr \<Rightarrow> 'e + 'r"
    and ref :: "'a \<Rightarrow> 'r"
    and ok :: "'a \<Rightarrow> bool"
  assumes prs_fmt: "ok x \<Longrightarrow> fmt x = Inr s \<Longrightarrow> prs s = Inr (ref x)"
    and ref_inj: "ref x = ref y \<Longrightarrow> x = y"
begin

lemma fmt_inj: "ok x \<Longrightarrow> ok y \<Longrightarrow> fmt x = Inr s \<Longrightarrow> fmt y = Inr s \<Longrightarrow> x = y"
  using prs_fmt [of x s] prs_fmt [of y s] ref_inj by simp

end

datatype wf_target = JiraIssue pystr int | BitbucketPr pystr int

fun format_target :: "wf_target \<Rightarrow> id_error + pystr" where
  "format_target (JiraIssue pk n) = jira_workflow_id pk n"
| "format_target (BitbucketPr slug n) = bitbucket_pr_workflow_id slug n"

fun target_ref :: "wf_target \<Rightarrow> WorkflowIdRef" where
  "target_ref (JiraIssue pk n) =
     \<lparr>wf_provider = Jira, wf_project_key = Some pk, wf_issue_num = Some n,
      wf_repo_slug = None, wf_pr_id = None\<rparr>"
| "target_ref (BitbucketPr slug n) =
     \<lparr>wf_provider = Bitbucket, wf_project_key = None, wf_issue_num = None,
      wf_repo_slug = Some slug, wf_pr_id = Some n\<rparr>"

fun target_name :: "wf_target \<Rightarrow> pystr" where
  "target_name (JiraIssue pk n) = pk"
| "target_name (BitbucketPr slug n) = slug"

lemma target_ref_inj: "target_ref x = target_ref y \<Longrightarrow> x = y"
  by (cases x; cases y) auto

lemma parse_jira_format:
  assumes "newline \<notin> set pk" and "jira_workflow_id pk n = Inr s"
  shows "parse_workflow_id s = Inr (target_ref (JiraIssue pk n))"
proof -
  from assms have pk: "project_key_body pk" and n: "1 \<le> n"
    and s: "s = jira_wf_prefix @ pk @ CHR ''-'' # show_nat (nat n)"
    by (auto simp: jira_workflow_id_def jira_project_key_re_def at_dollar_id show_int_pos
        split: if_splits)
  have "jira_wf_id_re s = Some (pk, show_nat (nat n))"
    unfolding s by (rule jira_wf_id_re_format) (simp_all add: pk show_nat_digits)
  with n show ?thesis by (simp add: parse_workflow_id_def show_nat_facts)
qed

lemma parse_bitbucket_format:
  assumes "newline \<notin> set slug" and "bitbucket_pr_workflow_id slug n = Inr s"
  shows "parse_workflow_id s = Inr (target_ref (BitbucketPr slug n))"
proof -
  from assms have slug: "repo_slug_re slug" "\<not> contains_sub ''--'' slug" and n: "1 \<le> n"
    and s: "s = bb_wf_prefix @ slug @ pr_infix @ show_nat (nat n)"
    by (auto simp: bitbucket_pr_workflow_id_def show_int_pos split: if_splits)
  from slug assms(1) have "slug \<noteq> []" "list_all is_slug_char slug"
    by (auto simp: repo_slug_re_def Let_def at_dollar_id)
  then have "bb_wf_id_re s = Some (slug, show_nat (nat n))"
    unfolding s by (intro bb_wf_id_re_format) (simp_all add: show_nat_digits)
  moreover have "jira_wf_id_re s = None" unfolding s by (rule jira_wf_id_re_bb)
  ultimately show ?thesis using slug n by (simp add: parse_workflow_id_def show_nat_facts)
qed

interpretation wf_ids: id_codec format_target parse_workflow_id target_ref
  "\<lambda>t. newline \<notin> set (target_name t)"
proof unfold_locales
  fix x s
  assume "newline \<notin> set (target_name x)" and "format_target x = Inr s"
  then show "parse_workflow_id s = Inr (target_ref x)"
    by (cases x) (simp_all only: format_target.simps target_name.simps
        parse_jira_format parse_bitbucket_format)
next
  fix x y assume "target_ref x = target_ref y"
  then show "x = y" by (rule target_ref_inj)
qed

section \<open>Properties\<close>

text \<open>
  C31. Round trip: whenever one of the two round-trippable formatters accepts a target whose
  name holds no newline, \<open>parse_workflow_id\<close> returns exactly the reference of that target, with
  the fields of the other provider empty.
\<close>

theorem parse_format_roundtrip:
  assumes "newline \<notin> set (target_name t)" and "format_target t = Inr s"
  shows "parse_workflow_id s = Inr (target_ref t)"
  using assms by (rule wf_ids.prs_fmt)

theorem parse_format_roundtrip_witness:
  "format_target (BitbucketPr ''pay-api'' 127) = Inr ''automation-bb-pay-api-pr-127'' \<and>
   parse_workflow_id ''automation-bb-pay-api-pr-127'' = Inr (target_ref (BitbucketPr ''pay-api'' 127))"
proof -
  have f: "format_target (BitbucketPr ''pay-api'' 127) = Inr ''automation-bb-pay-api-pr-127''"
    by code_simp
  have "newline \<notin> set (target_name (BitbucketPr ''pay-api'' 127))" by code_simp
  from parse_format_roundtrip [OF this f] f show ?thesis by simp
qed

text \<open>
  Workflow ids identify their targets across both providers: two targets with the same id
  are the same issue or the same pull request.
\<close>

theorem workflow_ids_injective:
  assumes "newline \<notin> set (target_name t)" and "newline \<notin> set (target_name u)"
    and "format_target t = Inr s" and "format_target u = Inr s"
  shows "t = u"
  using assms by (rule wf_ids.fmt_inj)

theorem workflow_ids_injective_witness:
  "\<exists>s. format_target (JiraIssue ''PAY'' 7) = Inr s \<and>
     (\<forall>u. newline \<notin> set (target_name u) \<and> format_target u = Inr s \<longrightarrow> u = JiraIssue ''PAY'' 7)"
proof -
  have f: "format_target (JiraIssue ''PAY'' 7) = Inr ''automation-jira-PAY-7''" by code_simp
  have "newline \<notin> set (target_name (JiraIssue ''PAY'' 7))" by code_simp
  from workflow_ids_injective [OF this _ f] f show ?thesis by blast
qed

text \<open>
  Every id the parser accepts is canonical up to one final newline: formatting the parsed
  reference gives back the text before that newline, with no leading zero and a positive number.
\<close>

theorem parse_is_canonical:
  assumes "parse_workflow_id s = Inr r"
  shows "format_ref r = Inr (at_dollar s)"
proof (cases "jira_wf_id_re s")
  case (Some kn)
  obtain k n where kn: "kn = (k, n)" by force
  note re = jira_wf_id_re_Some [OF Some [unfolded kn]]
  from assms Some kn have n: "n = ''0'' \<or> \<not> starts_with n ''0''" "1 \<le> parse_nat n"
    and r: "r = target_ref (JiraIssue k (int (parse_nat n)))"
    by (auto simp: parse_workflow_id_def split: if_splits)
  from n have "n \<noteq> ''0''" by (auto simp: parse_nat_def digit_val_def)
  with n(1) re have "hd n \<noteq> CHR ''0''" by (cases n) (auto simp: starts_with_iff)
  with re have "show_nat (parse_nat n) = n" by (intro show_parse_nat) auto
  moreover have "newline \<notin> set k"
    using re by (auto simp: project_key_body_def dest!: is_long_key_chars no_newline_classes(1))
  ultimately show ?thesis using re n r
    by (simp add: format_ref_def jira_workflow_id_def jira_project_key_re_def at_dollar_id show_int_pos)
next
  case None
  with assms obtain k n where bb: "bb_wf_id_re s = Some (k, n)"
    and k: "repo_slug_re k" "\<not> contains_sub ''--'' k"
    and n: "n = ''0'' \<or> \<not> starts_with n ''0''" "1 \<le> parse_nat n"
    and r: "r = target_ref (BitbucketPr k (int (parse_nat n)))"
    by (auto simp: parse_workflow_id_def split: option.splits if_splits)
  note re = bb_wf_id_re_Some [OF bb]
  from n have "n \<noteq> ''0''" by (auto simp: parse_nat_def digit_val_def)
  with n(1) re have "hd n \<noteq> CHR ''0''" by (cases n) (auto simp: starts_with_iff)
  with re have "show_nat (parse_nat n) = n" by (intro show_parse_nat) auto
  with re k n r show ?thesis
    by (simp add: format_ref_def bitbucket_pr_workflow_id_def show_int_pos)
qed

theorem parse_is_canonical_witness:
  "parse_workflow_id (''automation-jira-PAY-7'' @ [newline]) = Inr (target_ref (JiraIssue ''PAY'' 7)) \<and>
   format_ref (target_ref (JiraIssue ''PAY'' 7)) = Inr ''automation-jira-PAY-7''"
proof -
  have p: "parse_workflow_id (''automation-jira-PAY-7'' @ [newline]) =
      Inr (target_ref (JiraIssue ''PAY'' 7))"
    by code_simp
  show ?thesis using p parse_is_canonical [OF p, unfolded at_dollar_newline] by (rule conjI)
qed

text \<open>
  The documented round trip \<open>parse_workflow_id(format(x)) == x\<close> for every accepted pair
  fails: Python's \<^verbatim>\<open>$\<close> lets a project key and a repository slug end in a newline, so
  both formatters accept such a name and produce an id the parser rejects.
\<close>

theorem formatters_accept_unparsable_names:
  "jira_workflow_id (''AB'' @ [newline]) 5 = Inr (''automation-jira-AB'' @ [newline] @ ''-5'') \<and>
   parse_workflow_id (''automation-jira-AB'' @ [newline] @ ''-5'') =
     Inl (InvalidWorkflowIdError (''automation-jira-AB'' @ [newline] @ ''-5'') ''unknown format'') \<and>
   bitbucket_pr_workflow_id (''ab'' @ [newline]) 5 = Inr (''automation-bb-ab'' @ [newline] @ ''-pr-5'') \<and>
   parse_workflow_id (''automation-bb-ab'' @ [newline] @ ''-pr-5'') =
     Inl (InvalidWorkflowIdError (''automation-bb-ab'' @ [newline] @ ''-pr-5'') ''unknown format'')"
  by code_simp

text \<open>
  The older pull-request formatter joins workspace, repository and number with single dashes
  although both slugs may hold dashes: the repositories \<open>w-m/r\<close> and \<open>w/m-r\<close> get the same
  workflow id for every pull-request number.
\<close>

theorem automation_workflow_id_bb_collides:
  assumes "slug_re w" and "slug_re m" and "slug_re r" and "newline \<notin> set (w @ m @ r)"
  shows "automation_workflow_id_bb (w @ ''-'' @ m) r n = automation_workflow_id_bb w (m @ ''-'' @ r) n \<and>
         (\<exists>s. automation_workflow_id_bb (w @ ''-'' @ m) r n = Inr s)"
proof -
  have join: "slug_re (a @ ''-'' @ b)" if "slug_re a" "slug_re b" "newline \<notin> set (a @ b)" for a b
  proof -
    have "newline \<notin> set (a @ ''-'' @ b)" using that(3) by (simp add: literal_facts)
    with that show ?thesis
      by (auto simp: slug_re_def at_dollar_id is_slug_char_def is_slug_alnum_def list_all_iff
          split: list.splits)
  qed
  have "slug_re (w @ ''-'' @ m)" and "slug_re (m @ ''-'' @ r)" using join [of w m] join [of m r] assms by simp_all
  with assms show ?thesis by (simp add: automation_workflow_id_bb_def validate_slug_def)
qed

theorem automation_workflow_id_bb_collides_witness:
  "automation_workflow_id_bb ''team-a'' ''api'' 3 = automation_workflow_id_bb ''team'' ''a-api'' 3"
proof -
  have "slug_re ''team''" "slug_re ''a''" "slug_re ''api''" by code_simp+
  moreover have "newline \<notin> set (''team'' @ ''a'' @ ''api'')" by code_simp
  ultimately show ?thesis using automation_workflow_id_bb_collides [of "''team''" "''a''" "''api''" 3]
    by simp
qed

end
