(* ===== verification/Capability_Gate.thy ===== *)
theory Capability_Gate
  imports Platform_Prelude
begin

text \<open>
  \<^verbatim>\<open>libs/temporal-shared/src/temporal_shared/capabilities.py\<close> and
  \<^verbatim>\<open>services/automation-service/src/decision/capability_gate.py\<close>: the capability matrix of the
  workflow types, the capabilities a department holds (derived from its bot credentials and the
  environment, or resolved from the database), and the gate that compares the two, in the split
  vocabulary (\<open>jira_read\<close>, \<open>jira_write\<close>, ...) and in the simple one (\<open>jira\<close>, ...).
\<close>

datatype key_error = KeyError pystr

section \<open>The capability matrix\<close>

definition WORKFLOW_TYPE_CAPABILITIES :: "(pystr \<times> pystr set) list" where
  "WORKFLOW_TYPE_CAPABILITIES =
     [(''code_change_with_test'',
        {''jira_read'', ''jira_write'', ''bitbucket_read'', ''bitbucket_write'', ''execution''}),
      (''code_change_commit_only'',
        {''jira_read'', ''jira_write'', ''bitbucket_read'', ''bitbucket_write''}),
      (''pr_review'', {''jira_read'', ''jira_write'', ''bitbucket_read''}),
      (''confluence_doc_create'',
        {''jira_read'', ''jira_write'', ''confluence_read'', ''confluence_write''}),
      (''confluence_doc_update'',
        {''jira_read'', ''jira_write'', ''confluence_read'', ''confluence_write''}),
      (''research_basic'', {''jira_read'', ''jira_write''}),
      (''research_with_web'', {''jira_read'', ''jira_write'', ''web_search''}),
      (''multi_step'', {''jira_read'', ''jira_write''}),
      (''noop_test'', {''jira_read''}),
      (''remote_ssh_test_only'', {''jira_read'', ''execution''}),
      (''script_execute'', {''jira_read'', ''jira_write'', ''execution''}),
      (''research_publish_confluence'',
        {''jira_read'', ''jira_write'', ''confluence_read'', ''confluence_write'', ''web_search''}),
      (''research_summary_jira'', {''jira_read'', ''jira_write''})]"

definition required_split :: "pystr \<Rightarrow> key_error + pystr set" where
  \<comment> \<open>\<open>WORKFLOW_TYPE_CAPABILITIES[workflow_type]\<close>\<close>
  "required_split workflow_type =
     (case map_of WORKFLOW_TYPE_CAPABILITIES workflow_type of
        None \<Rightarrow> Inl (KeyError workflow_type)
      | Some caps \<Rightarrow> Inr caps)"

section \<open>Departments and derived capabilities\<close>

text \<open>A bot entry is missing (\<open>None\<close>) or present with the answer of its \<open>has_credential()\<close>.\<close>

record bot_entries =
  bot_jira :: "bool option"
  bot_bitbucket :: "bool option"
  bot_confluence :: "bool option"

record department =
  web_search_enabled :: bool
  dept_bot :: bot_entries

definition env_get :: "pystr pydict \<Rightarrow> pystr \<Rightarrow> pystr \<Rightarrow> pystr" where
  "env_get env k d = (case dict_get env k of None \<Rightarrow> d | Some v \<Rightarrow> v)"

definition runner_assigned :: "pystr pydict \<Rightarrow> bool" where
  "runner_assigned env =
     list_ex (\<lambda>key. lower (strip (env_get env key '''')) \<in> {''1'', ''true'', ''yes'', ''on''})
       [''EXECUTION_RUNNER_ASSIGNED'', ''EXECUTION_RUNNER_AVAILABLE'']"

definition legacy_ssh :: "pystr pydict \<Rightarrow> bool" where
  "legacy_ssh env =
     list_ex (\<lambda>(key, value). (key = ''SSH_HOST'' \<or> starts_with key ''SSH_HOST_'') \<and> strip value \<noteq> [])
       env"

definition derive_capabilities :: "department \<Rightarrow> pystr pydict \<Rightarrow> pystr set" where
  "derive_capabilities dept env =
     (let bot = dept_bot dept
      in (if bot_jira bot = Some True then {''jira_read'', ''jira_write''} else {})
       \<union> (if bot_bitbucket bot = Some True then {''bitbucket_read'', ''bitbucket_write''} else {})
       \<union> (if bot_confluence bot = Some True then {''confluence_read'', ''confluence_write''} else {})
       \<union> (if runner_assigned env \<or> legacy_ssh env then {''execution''} else {})
       \<union> (if web_search_enabled dept \<and> env_get env ''FIRECRAWL_ENABLED'' ''false'' = ''true''
          then {''web_search''} else {}))"

section \<open>The gate\<close>

record GateDecision =
  allowed :: bool
  missing :: "pystr set"

definition gate :: "pystr \<Rightarrow> department \<Rightarrow> pystr pydict \<Rightarrow> key_error + GateDecision" where
  "gate workflow_type dept env =
     rbind (required_split workflow_type) (\<lambda>required.
       let missing_caps = required - derive_capabilities dept env
       in Inr \<lparr>allowed = (missing_caps = {}), missing = missing_caps\<rparr>)"

definition SPLIT_TO_SIMPLE :: "(pystr \<times> pystr) list" where
  "SPLIT_TO_SIMPLE =
     [(''jira_read'', ''jira''), (''jira_write'', ''jira''),
      (''bitbucket_read'', ''bitbucket''), (''bitbucket_write'', ''bitbucket''),
      (''confluence_read'', ''confluence''), (''confluence_write'', ''confluence'')]"

definition collapse_capability :: "pystr \<Rightarrow> pystr" where
  "collapse_capability cap = (case map_of SPLIT_TO_SIMPLE cap of None \<Rightarrow> cap | Some s \<Rightarrow> s)"

definition required_capabilities :: "pystr \<Rightarrow> key_error + pystr set" where
  "required_capabilities workflow_type =
     rbind (required_split workflow_type) (\<lambda>split. Inr (collapse_capability ` split))"

definition missing_capabilities :: "pystr set \<Rightarrow> pystr set \<Rightarrow> pystr set" where
  "missing_capabilities required available = required - available"

definition has_jira_credential :: "pystr set \<Rightarrow> bool" where
  "has_jira_credential dept_caps \<longleftrightarrow> ''jira'' \<in> dept_caps"

section \<open>Resolution from the database\<close>

text \<open>The rows the three queries of \<open>resolve_dept_capabilities\<close> read.\<close>

record capability_db =
  department_bots :: "(pystr \<times> pystr) list" \<comment> \<open>department id, service\<close>
  departments_web_search :: "(pystr \<times> bool) list" \<comment> \<open>id (primary key), web-search flag\<close>
  dept_ssh_assignments :: "(pystr \<times> pystr) list" \<comment> \<open>department id, runner id\<close>
  ssh_runners :: "(pystr \<times> pystr) list" \<comment> \<open>runner id (primary key), status\<close>

definition db_has_jira_credential :: "capability_db \<Rightarrow> pystr \<Rightarrow> bool" where
  "db_has_jira_credential db dept_id =
     list_ex (\<lambda>(d, service). d = dept_id \<and> service = ''jira'') (department_bots db)"

definition active_runner_count :: "capability_db \<Rightarrow> pystr \<Rightarrow> nat" where
  "active_runner_count db dept_id =
     length (filter (\<lambda>(d, r). d = dept_id \<and> map_of (ssh_runners db) r = Some ''active'')
       (dept_ssh_assignments db))"

definition resolve_dept_capabilities :: "capability_db \<Rightarrow> pystr \<Rightarrow> pystr set" where
  "resolve_dept_capabilities db dept_id =
     set (map snd (filter (\<lambda>(d, _). d = dept_id) (department_bots db)))
     \<union> (if map_of (departments_web_search db) dept_id = Some True then {''web_search''} else {})
     \<union> (if active_runner_count db dept_id > 0 then {''execution''} else {})"

section \<open>Lemmas\<close>

lemma required_split_Inr:
  "required_split wt = Inr req \<longleftrightarrow> map_of WORKFLOW_TYPE_CAPABILITIES wt = Some req"
  by (auto simp: required_split_def split: option.splits)

lemma gate_Inr:
  "gate wt d env = Inr dec \<longleftrightarrow>
     (\<exists>req. required_split wt = Inr req \<and>
        dec = \<lparr>allowed = (req \<subseteq> derive_capabilities d env), missing = req - derive_capabilities d env\<rparr>)"
  by (auto simp: gate_def rbind_eq_Inr Let_def)

definition capability_vocabulary :: "pystr set" where
  "capability_vocabulary =
     {''jira_read'', ''jira_write'', ''bitbucket_read'', ''bitbucket_write'',
      ''confluence_read'', ''confluence_write'', ''execution'', ''web_search''}"

lemma matrix_vocabulary: "\<forall>(wt, caps) \<in> set WORKFLOW_TYPE_CAPABILITIES. caps \<subseteq> capability_vocabulary"
  by (simp add: WORKFLOW_TYPE_CAPABILITIES_def capability_vocabulary_def)

lemma required_vocabulary: "required_split wt = Inr req \<Longrightarrow> req \<subseteq> capability_vocabulary"
  using matrix_vocabulary by (fastforce simp: required_split_Inr dest: map_of_SomeD)

text \<open>A derived capability set is determined by five independent facts about the department.\<close>

lemma derive_capabilities_mem [simp]:
  "''jira_read'' \<in> derive_capabilities d env \<longleftrightarrow> bot_jira (dept_bot d) = Some True"
  "''jira_write'' \<in> derive_capabilities d env \<longleftrightarrow> bot_jira (dept_bot d) = Some True"
  "''bitbucket_read'' \<in> derive_capabilities d env \<longleftrightarrow> bot_bitbucket (dept_bot d) = Some True"
  "''bitbucket_write'' \<in> derive_capabilities d env \<longleftrightarrow> bot_bitbucket (dept_bot d) = Some True"
  "''confluence_read'' \<in> derive_capabilities d env \<longleftrightarrow> bot_confluence (dept_bot d) = Some True"
  "''confluence_write'' \<in> derive_capabilities d env \<longleftrightarrow> bot_confluence (dept_bot d) = Some True"
  "''execution'' \<in> derive_capabilities d env \<longleftrightarrow> runner_assigned env \<or> legacy_ssh env"
  "''web_search'' \<in> derive_capabilities d env \<longleftrightarrow>
     web_search_enabled d \<and> env_get env ''FIRECRAWL_ENABLED'' ''false'' = ''true''"
  by (simp_all add: derive_capabilities_def Let_def)

lemma derive_capabilities_vocabulary: "derive_capabilities d env \<subseteq> capability_vocabulary"
  by (auto simp: derive_capabilities_def capability_vocabulary_def Let_def)

lemma collapse_simps [simp]:
  "collapse_capability ''jira_read'' = ''jira''" "collapse_capability ''jira_write'' = ''jira''"
  "collapse_capability ''bitbucket_read'' = ''bitbucket''"
  "collapse_capability ''bitbucket_write'' = ''bitbucket''"
  "collapse_capability ''confluence_read'' = ''confluence''"
  "collapse_capability ''confluence_write'' = ''confluence''"
  "collapse_capability ''execution'' = ''execution''"
  "collapse_capability ''web_search'' = ''web_search''"
  by (simp_all add: collapse_capability_def SPLIT_TO_SIMPLE_def)

text \<open>
  Departments hold read and write together, so on the vocabulary the collapsed name is held
  exactly when the split one is.
\<close>

lemma collapse_reflects:
  assumes "c \<in> capability_vocabulary"
  shows "collapse_capability c \<in> collapse_capability ` derive_capabilities d env \<longleftrightarrow>
         c \<in> derive_capabilities d env"
proof
  assume "collapse_capability c \<in> collapse_capability ` derive_capabilities d env"
  then obtain c' where c': "c' \<in> derive_capabilities d env" and eq: "collapse_capability c = collapse_capability c'"
    by blast
  from c' derive_capabilities_vocabulary have "c' \<in> capability_vocabulary" by blast
  with assms c' eq show "c \<in> derive_capabilities d env"
    unfolding capability_vocabulary_def by (elim insertE emptyE) simp_all
qed blast

lemma collapse_subset:
  assumes "req \<subseteq> capability_vocabulary"
  shows "collapse_capability ` req \<subseteq> collapse_capability ` derive_capabilities d env \<longleftrightarrow>
         req \<subseteq> derive_capabilities d env"
  using assms collapse_reflects by blast

section \<open>The gate interface\<close>

text \<open>
  Both gates have the same contract: a requirement per workflow type, a capability set per
  subject, and the answer \<open>allowed\<close> exactly when nothing required is missing. What a client of
  a gate relies on follows from it once.
\<close>

locale capability_gate_spec =
  fixes requirement :: "pystr \<Rightarrow> key_error + pystr set"
    and held :: "'d \<Rightarrow> pystr set"
    and decide :: "pystr \<Rightarrow> 'd \<Rightarrow> key_error + bool \<times> pystr set"
  assumes decide_spec:
    "decide wt x = rbind (requirement wt) (\<lambda>req. Inr (req - held x = {}, req - held x))"
begin

lemma decide_allowed: "decide wt x = Inr (ok, miss) \<Longrightarrow> ok \<longleftrightarrow> (\<exists>req. requirement wt = Inr req \<and> req \<subseteq> held x)"
  by (auto simp: decide_spec rbind_eq_Inr)

lemma decide_mono:
  "decide wt x = Inr (True, miss) \<Longrightarrow> held x \<subseteq> held y \<Longrightarrow> \<exists>miss'. decide wt y = Inr (True, miss')"
  by (auto simp: decide_spec rbind_eq_Inr)

lemma decide_missing_minimal:
  "decide wt x = Inr (ok, miss) \<Longrightarrow> held y = held x \<union> extra \<Longrightarrow>
     (\<exists>m. decide wt y = Inr (True, m)) \<longleftrightarrow> miss \<subseteq> extra"
  by (auto simp: decide_spec rbind_eq_Inr)

end

interpretation dept_gate: capability_gate_spec required_split "\<lambda>(d, env). derive_capabilities d env"
  "\<lambda>wt (d, env). rbind (gate wt d env) (\<lambda>g. Inr (allowed g, missing g))"
  by unfold_locales (auto simp: gate_def Let_def rbind_def split: sum.splits)

interpretation db_gate: capability_gate_spec required_capabilities "\<lambda>(db, dept). resolve_dept_capabilities db dept"
  "\<lambda>wt (db, dept). rbind (required_capabilities wt)
     (\<lambda>req. let m = missing_capabilities req (resolve_dept_capabilities db dept) in Inr (m = {}, m))"
  by unfold_locales (auto simp: missing_capabilities_def Let_def)

section \<open>Properties\<close>

text \<open>
  The split gate and the simple-vocabulary gate agree: \<open>gate\<close> allows a workflow type for a
  department exactly when \<open>missing_capabilities\<close> of \<open>required_capabilities\<close> against the collapsed
  capabilities of that department is empty, and both raise on the same workflow types.
\<close>

theorem split_and_simple_gates_agree:
  "rbind (gate wt d env) (\<lambda>g. Inr (allowed g)) =
   rbind (required_capabilities wt)
     (\<lambda>req. Inr (missing_capabilities req (collapse_capability ` derive_capabilities d env) = {}))"
proof (cases "required_split wt")
  case (Inl e)
  then show ?thesis by (simp add: gate_def required_capabilities_def)
next
  case (Inr req)
  then have "req \<subseteq> capability_vocabulary" by (rule required_vocabulary)
  with Inr show ?thesis
    by (simp add: gate_def required_capabilities_def missing_capabilities_def Let_def collapse_subset)
qed

text \<open>
  The gate's \<open>missing\<close> is exactly what has to be granted: a second department that holds the
  capabilities of the first plus some extra ones passes the gate if and only if the extra ones
  cover \<open>missing\<close>.
\<close>

theorem gate_missing_is_exact:
  assumes "gate wt d env = Inr g"
    and "derive_capabilities d' env' = derive_capabilities d env \<union> extra"
  shows "(\<exists>g'. gate wt d' env' = Inr g' \<and> allowed g') \<longleftrightarrow> missing g \<subseteq> extra"
  using dept_gate.decide_missing_minimal [of wt "(d, env)" "allowed g" "missing g" "(d', env')" extra] assms
  by (auto simp: rbind_eq_Inr)

theorem gate_missing_is_exact_witness:
  "\<exists>g'. gate ''script_execute''
      \<lparr>web_search_enabled = False,
       dept_bot = \<lparr>bot_jira = Some True, bot_bitbucket = None, bot_confluence = None\<rparr>\<rparr>
      [(''SSH_HOST'', ''runner.local'')] = Inr g' \<and> allowed g'"
proof -
  define d where "d = \<lparr>web_search_enabled = False,
       dept_bot = \<lparr>bot_jira = Some True, bot_bitbucket = None, bot_confluence = None\<rparr>\<rparr>"
  have g: "gate ''script_execute'' d [] = Inr \<lparr>allowed = False, missing = {''execution''}\<rparr>"
    unfolding d_def by code_simp
  have d: "derive_capabilities d [(''SSH_HOST'', ''runner.local'')] =
      derive_capabilities d [] \<union> {''execution''}"
    unfolding d_def by code_simp
  show ?thesis using gate_missing_is_exact [OF g d] by (simp add: d_def)
qed

text \<open>
  \<open>required_capabilities\<close> documents that \<open>"multi_step"\<close> raises \<open>KeyError\<close>; the matrix holds
  that type, so the call returns \<open>{"jira"}\<close>, and it raises exactly on the types outside the matrix.
\<close>

theorem required_capabilities_raises_iff:
  "((\<exists>e. required_capabilities wt = Inl e) \<longleftrightarrow> wt \<notin> set (map fst WORKFLOW_TYPE_CAPABILITIES)) \<and>
   required_capabilities ''multi_step'' = Inr {''jira''}"
proof
  show "(\<exists>e. required_capabilities wt = Inl e) \<longleftrightarrow> wt \<notin> set (map fst WORKFLOW_TYPE_CAPABILITIES)"
    by (auto simp: required_capabilities_def rbind_eq_Inl required_split_def map_of_eq_None_iff
        split: option.splits)
      (metis fst_conv image_eqI map_of_SomeD)
  show "required_capabilities ''multi_step'' = Inr {''jira''}"
    by code_simp
qed

end
