(* ===== verification/Multi_Step.thy ===== *)
theory Multi_Step
  imports Capability_Gate
begin

text \<open>
  \<^verbatim>\<open>libs/temporal-shared/src/temporal_shared/multi_step.py\<close>: the child proposals of a
  multi-step task, the plan that starts or skips each of them, and the aggregated output with
  the invariant its constructor enforces.
\<close>

section \<open>Data\<close>

record ChildWorkflowSpec =
  workflow_name :: pystr
  workflow_id :: pystr
  task_queue :: pystr
  input_payload :: "(pystr \<times> pyval) list"
  parent_close_policy :: pystr
  execution_timeout :: "timedelta option"

record ChildProposal =
  workflow_type :: pystr
  proposal_spec :: ChildWorkflowSpec

datatype plan_action = start | skip

datatype plan_reason =
    out_of_scope
  | unknown_workflow_type
  | nested_multi_step_forbidden
  | dispatched

record ChildPlan =
  plan_action :: plan_action
  plan_spec :: ChildWorkflowSpec
  plan_reason :: plan_reason
  plan_missing :: "pystr set"

text \<open>
  The outcome's \<open>action\<close> is a string in the source (\<open>Literal\<close> is not enforced), and the
  aggregation has a branch for every other string, so it stays a string here.
\<close>

record ChildOutcome =
  outcome_action :: pystr
  outcome_spec :: ChildWorkflowSpec
  outcome_reason :: pystr
  outcome_missing :: "pystr set"
  outcome_status :: "pystr option"
  failure_reason :: "pystr option"

record AggregatedOutput =
  started :: int
  skipped :: int
  total :: int
  child_outcomes :: "ChildOutcome list"

datatype multi_step_error = InvariantViolation pystr

section \<open>Operations\<close>

definition mk_AggregatedOutput ::
  "int \<Rightarrow> int \<Rightarrow> int \<Rightarrow> ChildOutcome list \<Rightarrow> multi_step_error + AggregatedOutput" where
  \<comment> \<open>the constructor with \<open>__post_init__\<close>\<close>
  "mk_AggregatedOutput st sk tot outs =
     (if st < 0 \<or> sk < 0 \<or> tot < 0 then Inl (InvariantViolation ''counts must be non-negative'')
      else if st + sk \<noteq> tot then Inl (InvariantViolation ''started + skipped != total'')
      else if int (length outs) \<noteq> tot then Inl (InvariantViolation ''len(child_outcomes) != total'')
      else Inr \<lparr>started = st, skipped = sk, total = tot, child_outcomes = outs\<rparr>)"

definition plan_child :: "pystr set \<Rightarrow> ChildProposal \<Rightarrow> ChildPlan" where
  \<comment> \<open>the body of the dispatch loop\<close>
  "plan_child have child =
     (let wf_type = workflow_type child
      in if wf_type = ''multi_step'' then
           \<lparr>plan_action = skip, plan_spec = proposal_spec child,
            plan_reason = nested_multi_step_forbidden, plan_missing = {}\<rparr>
         else
           (case required_capabilities wf_type of
              Inl _ \<Rightarrow>
                \<lparr>plan_action = skip, plan_spec = proposal_spec child,
                 plan_reason = unknown_workflow_type, plan_missing = {}\<rparr>
            | Inr required \<Rightarrow>
                (let missing_caps = required - have
                 in if missing_caps \<noteq> {} then
                      \<lparr>plan_action = skip, plan_spec = proposal_spec child,
                       plan_reason = out_of_scope, plan_missing = missing_caps\<rparr>
                    else
                      \<lparr>plan_action = start, plan_spec = proposal_spec child,
                       plan_reason = dispatched, plan_missing = {}\<rparr>)))"

definition multi_step_dispatch :: "ChildProposal list \<Rightarrow> pystr set \<Rightarrow> ChildPlan list" where
  "multi_step_dispatch children dept_capabilities = map (plan_child dept_capabilities) children"

fun count_outcomes :: "int \<Rightarrow> int \<Rightarrow> ChildOutcome list \<Rightarrow> multi_step_error + int \<times> int" where
  \<comment> \<open>the counting loop\<close>
  "count_outcomes st sk [] = Inr (st, sk)"
| "count_outcomes st sk (x # xs) =
     (if outcome_action x = ''started'' then count_outcomes (st + 1) sk xs
      else if outcome_action x = ''skipped'' then count_outcomes st (sk + 1) xs
      else Inl (InvariantViolation (workflow_id (outcome_spec x))))"

definition aggregated_output :: "ChildOutcome list \<Rightarrow> multi_step_error + AggregatedOutput" where
  "aggregated_output outcomes =
     rbind (count_outcomes 0 0 outcomes)
       (\<lambda>(st, sk). mk_AggregatedOutput st sk (int (length outcomes)) outcomes)"

section \<open>Lemmas\<close>

definition outcome_ok :: "ChildOutcome \<Rightarrow> bool" where
  "outcome_ok x \<longleftrightarrow> outcome_action x \<in> {''started'', ''skipped''}"

definition n_action :: "pystr \<Rightarrow> ChildOutcome list \<Rightarrow> int" where
  "n_action a xs = int (length (filter (\<lambda>x. outcome_action x = a) xs))"

lemma n_action_simps [simp]:
  "n_action a [] = 0"
  "n_action a (x # xs) = (if outcome_action x = a then 1 else 0) + n_action a xs"
  by (simp_all add: n_action_def)

lemma count_outcomes_ok:
  "list_all outcome_ok xs \<Longrightarrow>
     count_outcomes st sk xs = Inr (st + n_action ''started'' xs, sk + n_action ''skipped'' xs)"
  by (induction xs arbitrary: st sk) (auto simp: outcome_ok_def)

lemma count_outcomes_bad:
  "\<not> list_all outcome_ok xs \<Longrightarrow> \<exists>m. count_outcomes st sk xs = Inl (InvariantViolation m)"
  by (induction xs arbitrary: st sk) (auto simp: outcome_ok_def)

lemma n_action_partition:
  "list_all outcome_ok xs \<Longrightarrow> n_action ''started'' xs + n_action ''skipped'' xs = int (length xs)"
  by (induction xs) (auto simp: outcome_ok_def)

lemma n_action_nonneg [simp]: "0 \<le> n_action a xs"
  by (simp add: n_action_def)

lemma plan_child_start_iff:
  "plan_action (plan_child have c) = start \<longleftrightarrow>
     workflow_type c \<noteq> ''multi_step'' \<and>
     (\<exists>req. required_capabilities (workflow_type c) = Inr req \<and> req \<subseteq> have)"
  by (auto simp: plan_child_def Let_def split: sum.splits)

lemma plan_child_reason:
  "plan_action (plan_child have c) = start \<longleftrightarrow> plan_reason (plan_child have c) = dispatched"
  "plan_missing (plan_child have c) \<noteq> {} \<longleftrightarrow> plan_reason (plan_child have c) = out_of_scope"
  by (auto simp: plan_child_def Let_def split: sum.splits)

lemma plan_child_spec [simp]: "plan_spec (plan_child have c) = proposal_spec c"
  by (auto simp: plan_child_def Let_def split: sum.splits)

section \<open>Properties\<close>

text \<open>
  The plan has one entry per proposal, in order and for that proposal's child; an entry
  starts its child exactly when the type is a known type other than \<open>multi_step\<close> and the
  department holds every capability of it, and a child is reported out of scope exactly with a
  non-empty set of capabilities the department lacks.
\<close>

theorem multi_step_dispatch_spec:
  "list_all2 (\<lambda>c p.
       plan_spec p = proposal_spec c \<and>
       (plan_action p = start \<longleftrightarrow>
          workflow_type c \<noteq> ''multi_step'' \<and>
          (\<exists>req. required_capabilities (workflow_type c) = Inr req \<and> req \<subseteq> caps)) \<and>
       (plan_reason p = out_of_scope \<longleftrightarrow> plan_missing p \<noteq> {}) \<and>
       plan_missing p \<inter> caps = {})
     children (multi_step_dispatch children caps)"
proof -
  have m: "plan_missing (plan_child caps c) \<inter> caps = {}" for c
    by (auto simp: plan_child_def Let_def split: sum.splits)
  show ?thesis
    by (simp add: multi_step_dispatch_def list_all2_map2 list_all2_same plan_child_start_iff
        plan_child_reason(2) m)
qed

text \<open>
  Granting a department more capabilities never turns a started child into a skipped one.
\<close>

theorem multi_step_dispatch_mono:
  assumes "caps \<subseteq> caps'" and "i < length children"
    and "plan_action (multi_step_dispatch children caps ! i) = start"
  shows "plan_action (multi_step_dispatch children caps' ! i) = start"
  using assms by (auto simp: multi_step_dispatch_def plan_child_start_iff)

definition demo_spec :: ChildWorkflowSpec where
  "demo_spec = \<lparr>workflow_name = ''AgentRunnerWorkflow'', workflow_id = ''agent-1'',
     task_queue = ''agent-runner-tq'', input_payload = [], parent_close_policy = ''TERMINATE'',
     execution_timeout = None\<rparr>"

theorem multi_step_dispatch_mono_witness:
  "plan_action (multi_step_dispatch
     [\<lparr>workflow_type = ''pr_review'', proposal_spec = demo_spec\<rparr>]
     {''jira'', ''bitbucket'', ''execution''} ! 0) = start"
  by (rule multi_step_dispatch_mono [of "{''jira'', ''bitbucket''}"]) (simp, simp, code_simp)

text \<open>
  \<open>aggregated_output\<close> succeeds exactly when every outcome is \<open>started\<close> or \<open>skipped\<close>; then
  its counters are the numbers of such outcomes, they sum to \<open>total\<close>, and the constructor's
  checks never fire. Otherwise it raises.
\<close>

theorem aggregated_output_total:
  "aggregated_output outs =
     (if list_all outcome_ok outs
      then Inr \<lparr>started = n_action ''started'' outs, skipped = n_action ''skipped'' outs,
                total = int (length outs), child_outcomes = outs\<rparr>
      else Inl (InvariantViolation
             (workflow_id (outcome_spec (hd (filter (\<lambda>x. \<not> outcome_ok x) outs))))))"
proof (cases "list_all outcome_ok outs")
  case True
  then show ?thesis
    using n_action_partition [OF True]
    by (simp add: aggregated_output_def count_outcomes_ok mk_AggregatedOutput_def not_less)
next
  case False
  have "count_outcomes st sk outs =
      Inl (InvariantViolation (workflow_id (outcome_spec (hd (filter (\<lambda>x. \<not> outcome_ok x) outs)))))"
    for st sk
    using False by (induction outs arbitrary: st sk) (auto simp: outcome_ok_def)
  with False show ?thesis by (simp add: aggregated_output_def)
qed

end
