(* ===== verification/Branch_Rules.thy ===== *)
theory Branch_Rules
  imports Platform_Prelude
begin

text \<open>
  \<^verbatim>\<open>libs/temporal-shared/src/temporal_shared/branch_rules.py\<close>: branch-pattern rules and the
  first-match routing of a candidate workflow type, with the part of the standard library's
  \<open>fnmatch.fnmatchcase\<close> it calls: \<^verbatim>\<open>*\<close>, \<^verbatim>\<open>?\<close>, \<^verbatim>\<open>[seq]\<close>, \<^verbatim>\<open>[!seq]\<close> with ranges, and an
  unclosed \<^verbatim>\<open>[\<close> taken literally.
\<close>

section \<open>Shell patterns\<close>

datatype glob_item =
    GStar
  | GAny
  | GChar char
  | GSet bool "char \<Rightarrow> bool" \<comment> \<open>negated?, the characters listed\<close>

fun set_members :: "pystr \<Rightarrow> char \<Rightarrow> bool" where
  \<comment> \<open>the characters of a bracket body: \<open>x-y\<close> is a range, empty when it is descending\<close>
  "set_members (a # d # b # cs) c =
     (if d = CHR ''-'' then char_range a b c \<or> set_members cs c
      else c = a \<or> set_members (d # b # cs) c)"
| "set_members (a # cs) c = (c = a \<or> set_members cs c)"
| "set_members [] c = False"

definition take_lead :: "char \<Rightarrow> pystr \<Rightarrow> pystr \<times> pystr" where
  "take_lead c s = (if s \<noteq> [] \<and> hd s = c then ([c], tl s) else ([], s))"

definition close_bracket :: "pystr \<Rightarrow> (pystr \<times> pystr) option" where
  \<comment> \<open>the body of a bracket and the text after its closing bracket; a closing bracket that comes
     first, or first after the negation sign, belongs to the body\<close>
  "close_bracket s =
     (let (neg, s1) = take_lead (CHR ''!'') s;
          (lead, s2) = take_lead (CHR '']'') s1
      in case dropWhile (\<lambda>c. c \<noteq> CHR '']'') s2 of
           [] \<Rightarrow> None
         | _ # rest \<Rightarrow> Some (neg @ lead @ takeWhile (\<lambda>c. c \<noteq> CHR '']'') s2, rest))"

lemma take_lead_length: "length (snd (take_lead c s)) \<le> length s"
  by (simp add: take_lead_def)

lemma close_bracket_shorter:
  assumes "close_bracket s = Some (b, rest)"
  shows "length rest < length s"
proof -
  let ?s1 = "snd (take_lead (CHR ''!'') s)"
  let ?s2 = "snd (take_lead (CHR '']'') ?s1)"
  from assms obtain x where "dropWhile (\<lambda>c. c \<noteq> CHR '']'') ?s2 = x # rest"
    by (auto simp: close_bracket_def Let_def split: list.splits prod.splits)
  then have "length (x # rest) \<le> length ?s2" by (metis length_dropWhile_le)
  with take_lead_length [of "CHR '']''" ?s1] take_lead_length [of "CHR ''!''" s] show ?thesis by simp
qed

definition set_item :: "pystr \<Rightarrow> glob_item" where
  "set_item body =
     (case body of
        [] \<Rightarrow> GSet False (\<lambda>_. False)
      | c # cs \<Rightarrow>
          if c = CHR ''!'' then (if cs = [] then GAny else GSet True (set_members cs))
          else GSet False (set_members body))"

function glob_items :: "pystr \<Rightarrow> glob_item list" where
  "glob_items [] = []"
| "glob_items (c # cs) =
     (if c = CHR ''*'' then GStar # glob_items cs
      else if c = CHR ''?'' then GAny # glob_items cs
      else if c = CHR ''['' then
        (case close_bracket cs of
           None \<Rightarrow> GChar c # glob_items cs
         | Some (body, rest) \<Rightarrow> set_item body # glob_items rest)
      else GChar c # glob_items cs)"
  by pat_completeness auto
termination
  by (relation "measure length") (auto dest: close_bracket_shorter)

fun item_ok :: "glob_item \<Rightarrow> char \<Rightarrow> bool" where
  "item_ok GStar c = False"
| "item_ok GAny c = True"
| "item_ok (GChar d) c = (c = d)"
| "item_ok (GSet neg P) c = (P c \<noteq> neg)"

fun glob_match :: "glob_item list \<Rightarrow> pystr \<Rightarrow> bool" where
  "glob_match [] s = (s = [])"
| "glob_match (GStar # is) [] = glob_match is []"
| "glob_match (GStar # is) (c # cs) = (glob_match is (c # cs) \<or> glob_match (GStar # is) cs)"
| "glob_match (i # is) [] = False"
| "glob_match (i # is) (c # cs) = (item_ok i c \<and> glob_match is cs)"

definition fnmatchcase :: "pystr \<Rightarrow> pystr \<Rightarrow> bool" where
  "fnmatchcase name pat = glob_match (glob_items pat) name"

text \<open>The matcher is the declarative one: a pattern denotes a set of strings item by item.\<close>

fun glob_lang :: "glob_item list \<Rightarrow> pystr set" where
  "glob_lang [] = {[]}"
| "glob_lang (GStar # is) = {a @ b | a b. b \<in> glob_lang is}"
| "glob_lang (i # is) = {c # b | c b. item_ok i c \<and> b \<in> glob_lang is}"

lemma glob_match_lang: "glob_match is s \<longleftrightarrow> s \<in> glob_lang is"
proof (induction "is" s rule: glob_match.induct)
  case (3 "is" c cs)
  have "c # cs \<in> {a @ b | a b. b \<in> glob_lang is} \<longleftrightarrow>
      c # cs \<in> glob_lang is \<or> cs \<in> {a @ b | a b. b \<in> glob_lang is}"
    by (auto simp: Cons_eq_append_conv)
  with 3 show ?case by simp
qed auto

section \<open>Rules\<close>

datatype rule_error = ValueError pystr

record RouteDecision =
  allowed :: bool
  reason :: pystr
  matched_glob :: "pystr option"

record BranchPatternRule =
  rule_glob :: pystr
  denied_workflow_types :: "pystr list"
  allowed_workflow_types :: "pystr list"
  rule_reason :: pystr

definition mk_BranchPatternRule ::
  "pystr \<Rightarrow> pystr list \<Rightarrow> pystr list \<Rightarrow> pystr \<Rightarrow> rule_error + BranchPatternRule" where
  \<comment> \<open>the constructor with \<open>__post_init__\<close>; the frozen sets are lists of their elements\<close>
  "mk_BranchPatternRule g denied allow r =
     (if g = [] then Inl (ValueError ''glob must be a non-empty string'')
      else if denied \<noteq> [] \<and> allow \<noteq> [] then Inl (ValueError ''either denied or allowed, not both'')
      else if denied = [] \<and> allow = [] then Inl (ValueError ''at least one workflow type'')
      else Inr \<lparr>rule_glob = g, denied_workflow_types = denied, allowed_workflow_types = allow,
                rule_reason =
                  (if r \<noteq> [] then r
                   else if denied \<noteq> [] then ''branch_pattern_denied''
                   else ''branch_pattern_not_in_allowlist'')\<rparr>)"

definition DEFAULT_HOTFIX_RULE :: BranchPatternRule where
  "DEFAULT_HOTFIX_RULE =
     \<lparr>rule_glob = ''hotfix/*'', denied_workflow_types = [''code_change_commit_only''],
      allowed_workflow_types = [], rule_reason = ''hotfix_requires_pr''\<rparr>"

definition DEFAULT_RELEASE_RULE :: BranchPatternRule where
  "DEFAULT_RELEASE_RULE =
     \<lparr>rule_glob = ''release/*'', denied_workflow_types = [],
      allowed_workflow_types = [''pr_review'', ''confluence_doc_update''],
      rule_reason = ''release_branch_restricted''\<rparr>"

definition DEFAULT_BRANCH_PATTERN_RULES :: "BranchPatternRule list" where
  "DEFAULT_BRANCH_PATTERN_RULES = [DEFAULT_HOTFIX_RULE, DEFAULT_RELEASE_RULE]"

definition apply_rule :: "pystr \<Rightarrow> BranchPatternRule \<Rightarrow> RouteDecision" where
  \<comment> \<open>the loop body once the pattern matched\<close>
  "apply_rule candidate rule =
     (if denied_workflow_types rule \<noteq> [] then
        (if candidate \<in> set (denied_workflow_types rule)
         then \<lparr>allowed = False, reason = rule_reason rule, matched_glob = Some (rule_glob rule)\<rparr>
         else \<lparr>allowed = True, reason = ''branch_pattern_passthrough'',
               matched_glob = Some (rule_glob rule)\<rparr>)
      else if candidate \<in> set (allowed_workflow_types rule)
      then \<lparr>allowed = True, reason = ''matched_allowlist'', matched_glob = Some (rule_glob rule)\<rparr>
      else \<lparr>allowed = False, reason = rule_reason rule, matched_glob = Some (rule_glob rule)\<rparr>)"

definition no_rule_matched :: RouteDecision where
  "no_rule_matched = \<lparr>allowed = True, reason = ''no_rule_matched'', matched_glob = None\<rparr>"

fun route_loop :: "pystr \<Rightarrow> pystr \<Rightarrow> BranchPatternRule list \<Rightarrow> RouteDecision" where
  "route_loop branch candidate [] = no_rule_matched"
| "route_loop branch candidate (rule # rules) =
     (if \<not> fnmatchcase branch (rule_glob rule) then route_loop branch candidate rules
      else apply_rule candidate rule)"

definition route_by_branch_pattern ::
  "pystr \<Rightarrow> pystr \<Rightarrow> BranchPatternRule list \<Rightarrow> RouteDecision" where
  "route_by_branch_pattern branch candidate rules =
     (if branch = [] then no_rule_matched else route_loop branch candidate rules)"

section \<open>Lemmas\<close>

definition wf_rule :: "BranchPatternRule \<Rightarrow> bool" where
  "wf_rule r \<longleftrightarrow> rule_glob r \<noteq> [] \<and>
     (denied_workflow_types r = []) \<noteq> (allowed_workflow_types r = []) \<and> rule_reason r \<noteq> []"

lemma mk_rule_wf: "mk_BranchPatternRule g d a r = Inr x \<Longrightarrow> wf_rule x"
  by (auto simp: mk_BranchPatternRule_def wf_rule_def split: if_splits)

definition rule_permits :: "BranchPatternRule \<Rightarrow> pystr \<Rightarrow> bool" where
  "rule_permits r candidate \<longleftrightarrow>
     (if denied_workflow_types r \<noteq> [] then candidate \<notin> set (denied_workflow_types r)
      else candidate \<in> set (allowed_workflow_types r))"

lemma apply_rule_allowed: "allowed (apply_rule cand r) = rule_permits r cand"
  by (simp add: apply_rule_def rule_permits_def)

lemma route_loop_find:
  "route_loop b cand rules =
     (case find (\<lambda>r. fnmatchcase b (rule_glob r)) rules of
        None \<Rightarrow> no_rule_matched | Some r \<Rightarrow> apply_rule cand r)"
  by (induction rules) auto

lemma glob_items_no_meta:
  "list_all (\<lambda>c. c \<notin> {CHR ''*'', CHR ''?'', CHR ''[''}) p \<Longrightarrow> glob_items (p @ q) = map GChar p @ glob_items q"
  by (induction p) auto

lemma glob_match_prefix:
  "glob_match (map GChar p @ [GStar]) s \<longleftrightarrow> starts_with s p"
proof -
  have "a @ b = s \<Longrightarrow> glob_match [GStar] b" for a b s
    by (simp add: glob_match_lang)
  then have star: "glob_match [GStar] b" for b by blast
  show ?thesis
    by (induction p arbitrary: s) (simp_all add: star starts_with_def,
        case_tac s, simp_all add: starts_with_def)
qed

text \<open>A literal prefix followed by a single star matches exactly the strings with that prefix.\<close>

lemma fnmatchcase_prefix:
  assumes "list_all (\<lambda>c. c \<notin> {CHR ''*'', CHR ''?'', CHR ''[''}) p"
  shows "fnmatchcase s (p @ ''*'') \<longleftrightarrow> starts_with s p"
  using glob_items_no_meta [OF assms, of "''*''"] by (simp add: fnmatchcase_def glob_match_prefix)

lemma default_globs:
  "fnmatchcase s ''hotfix/*'' \<longleftrightarrow> starts_with s ''hotfix/''"
  "fnmatchcase s ''release/*'' \<longleftrightarrow> starts_with s ''release/''"
  using fnmatchcase_prefix [of "''hotfix/''"] fnmatchcase_prefix [of "''release/''"] by simp_all

section \<open>The first-match interface\<close>

text \<open>
  A router that takes the first applicable rule: rules after it do not matter, rules that do not
  apply can be dropped, and without an applicable rule the default is returned.
\<close>

locale first_match_router =
  fixes applies :: "'r \<Rightarrow> 'q \<Rightarrow> bool"
    and outcome :: "'r \<Rightarrow> 'q \<Rightarrow> 'd"
    and default :: "'d"
    and route :: "'q \<Rightarrow> 'r list \<Rightarrow> 'd"
  assumes route_first:
    "route q rs = (case find (\<lambda>r. applies r q) rs of None \<Rightarrow> default | Some r \<Rightarrow> outcome r q)"
begin

lemma route_shadow: "applies r q \<Longrightarrow> route q (as @ r # bs) = route q (as @ [r])"
  by (simp add: route_first find_append split: option.splits)

lemma route_skip: "\<not> applies r q \<Longrightarrow> route q (as @ r # bs) = route q (as @ bs)"
  by (simp add: route_first find_append split: option.splits)

lemma route_default: "\<forall>r \<in> set rs. \<not> applies r q \<Longrightarrow> route q rs = default"
  by (simp add: route_first find_None_iff [THEN iffD2])

lemma route_decided:
  "route q rs \<noteq> default \<Longrightarrow> \<exists>as r bs. rs = as @ r # bs \<and> applies r q \<and>
     (\<forall>x \<in> set as. \<not> applies x q) \<and> route q rs = outcome r q"
  by (cases "find (\<lambda>r. applies r q) rs") (auto simp: route_first dest!: find_split)

end

interpretation branch_router: first_match_router
  "\<lambda>r (b, cand). fnmatchcase b (rule_glob r)" "\<lambda>r (b, cand). apply_rule cand r"
  no_rule_matched "\<lambda>(b, cand) rules. route_loop b cand rules"
  by unfold_locales (auto simp: route_loop_find)

lemma route_nonempty: "b \<noteq> [] \<Longrightarrow> route_by_branch_pattern b cand rules = route_loop b cand rules"
  by (simp add: route_by_branch_pattern_def)

section \<open>Properties\<close>

text \<open>
  The first rule whose pattern matches the branch is authoritative: the decision is that
  rule's, whatever rules follow it and whatever non-matching rules precede it, so a later and
  more permissive rule never rescues a denied workflow type.
\<close>

theorem first_matching_rule_decides:
  assumes "branch \<noteq> []" and "fnmatchcase branch (rule_glob r)"
    and "\<forall>x \<in> set before. \<not> fnmatchcase branch (rule_glob x)"
  shows "route_by_branch_pattern branch cand (before @ r # rest) = apply_rule cand r \<and>
         allowed (route_by_branch_pattern branch cand (before @ r # rest)) = rule_permits r cand"
proof -
  have "route_loop branch cand (before @ r # rest) = route_loop branch cand (before @ [r])"
    using branch_router.route_shadow [of r "(branch, cand)" before rest] assms(2) by simp
  also have "\<dots> = apply_rule cand r"
    using assms(2,3) by (induction before) simp_all
  finally show ?thesis using assms(1) by (simp add: route_nonempty apply_rule_allowed)
qed

theorem first_matching_rule_decides_witness:
  "\<not> allowed (route_by_branch_pattern ''hotfix/PAY-1'' ''code_change_commit_only''
       ([DEFAULT_RELEASE_RULE] @ DEFAULT_HOTFIX_RULE #
        [\<lparr>rule_glob = ''*'', denied_workflow_types = [],
          allowed_workflow_types = [''code_change_commit_only''], rule_reason = ''open''\<rparr>]))"
proof -
  have "\<not> rule_permits DEFAULT_HOTFIX_RULE ''code_change_commit_only''" by code_simp
  moreover have "fnmatchcase ''hotfix/PAY-1'' (rule_glob DEFAULT_HOTFIX_RULE)" by code_simp
  moreover have "\<forall>x \<in> set [DEFAULT_RELEASE_RULE]. \<not> fnmatchcase ''hotfix/PAY-1'' (rule_glob x)" by code_simp
  ultimately show ?thesis using first_matching_rule_decides [of "''hotfix/PAY-1''"] by blast
qed

text \<open>
  The pinned default rules say what their comments say: on \<^verbatim>\<open>hotfix/\<close> branches everything but
  the commit-only type passes, on \<^verbatim>\<open>release/\<close> branches only pull-request review and Confluence
  updates pass, and every other branch is open.
\<close>

theorem default_branch_policy:
  "allowed (route_by_branch_pattern branch cand DEFAULT_BRANCH_PATTERN_RULES) =
     (if starts_with branch ''hotfix/'' then cand \<noteq> ''code_change_commit_only''
      else if starts_with branch ''release/'' then cand \<in> {''pr_review'', ''confluence_doc_update''}
      else True)"
proof (cases "branch = []")
  case True
  then show ?thesis
    by (simp add: route_by_branch_pattern_def no_rule_matched_def starts_with_def)
next
  case False
  then show ?thesis
    by (simp add: route_nonempty DEFAULT_BRANCH_PATTERN_RULES_def DEFAULT_HOTFIX_RULE_def
        DEFAULT_RELEASE_RULE_def default_globs apply_rule_def no_rule_matched_def)
qed

text \<open>\<open>fnmatchcase\<close> accepts exactly the names in the language of the pattern.\<close>

lemma fnmatchcase_language: "fnmatchcase s pat \<longleftrightarrow> s \<in> glob_lang (glob_items pat)"
  by (simp add: fnmatchcase_def glob_match_lang)

end
