(* ===== verification/Iteration_State.thy ===== *)
theory Iteration_State
  imports Platform_Prelude
begin

text \<open>
  \<^verbatim>\<open>libs/temporal-shared/src/temporal_shared/iteration.py\<close> with the state record of
  \<^verbatim>\<open>messages.py\<close>: the iteration cap, the debounce of fix triggers, the retest and explanation
  caches, and the needs-info limit. The explanation cache is an \<open>OrderedDict\<close> bounded by
  \<open>EXPLAIN_CACHE_MAXSIZE\<close> with the oldest insertion evicted first.
\<close>

section \<open>State\<close>

record ExplainCacheEntry =
  answer :: pystr
  issued_at :: datetime

record IterationState =
  iter_count :: int
  last_fix_trigger_at :: "datetime option"
  test_results_by_diff_hash :: "pystr pydict"
  explain_cache :: "ExplainCacheEntry pydict"
  needs_info_streak :: int

definition EXPLAIN_CACHE_MAXSIZE :: nat where
  "EXPLAIN_CACHE_MAXSIZE = 32"

definition FIX_DEBOUNCE_WINDOW :: timedelta where
  "FIX_DEBOUNCE_WINDOW = seconds 60"

definition EXPLAIN_CACHE_TTL :: timedelta where
  "EXPLAIN_CACHE_TTL = minutes 5"

definition NEEDS_INFO_MAX_STREAK :: int where
  "NEEDS_INFO_MAX_STREAK = 3"

record IterDecision =
  advance :: bool
  decision_reason :: pystr

section \<open>Decisions\<close>

definition should_advance_iter :: "IterationState \<Rightarrow> int \<Rightarrow> IterDecision" where
  "should_advance_iter state max_iter =
     (if max_iter \<le> 0 then \<lparr>advance = False, decision_reason = ''non_positive_max_iter''\<rparr>
      else if iter_count state \<ge> max_iter
      then \<lparr>advance = False, decision_reason = ''max_iter_reached''\<rparr>
      else \<lparr>advance = True, decision_reason = ''ok''\<rparr>)"

definition is_fix_debounced :: "IterationState \<Rightarrow> datetime \<Rightarrow> timedelta \<Rightarrow> bool" where
  "is_fix_debounced state now window =
     (case last_fix_trigger_at state of None \<Rightarrow> False | Some last_at \<Rightarrow> now - last_at < window)"

definition fix_should_skip_retest :: "IterationState \<Rightarrow> pystr \<Rightarrow> bool" where
  "fix_should_skip_retest state current_diff_hash =
     (if current_diff_hash = [] then False
      else dict_get (test_results_by_diff_hash state) current_diff_hash \<noteq> None)"

definition explain_should_skip_llm :: "IterationState \<Rightarrow> pystr \<Rightarrow> datetime \<Rightarrow> timedelta \<Rightarrow> bool" where
  "explain_should_skip_llm state pr_diff_hash now ttl =
     (if pr_diff_hash = [] then False
      else case dict_get (explain_cache state) pr_diff_hash of
             None \<Rightarrow> False
           | Some entry \<Rightarrow> now - issued_at entry < ttl)"

definition needs_info_should_terminate :: "IterationState \<Rightarrow> int \<Rightarrow> bool" where
  "needs_info_should_terminate state max_streak \<longleftrightarrow> needs_info_streak state \<ge> max_streak"

section \<open>Recording an explanation\<close>

function evict :: "'v pydict \<Rightarrow> 'v pydict" where
  \<comment> \<open>\<open>while len(cache) > EXPLAIN_CACHE_MAXSIZE: cache.popitem(last=False)\<close>\<close>
  "evict cache = (if length cache > EXPLAIN_CACHE_MAXSIZE then evict (tl cache) else cache)"
  by pat_completeness auto
termination
  by (relation "measure length") auto

declare evict.simps [simp del]

definition cache_put :: "pystr \<Rightarrow> 'v \<Rightarrow> 'v pydict \<Rightarrow> 'v pydict" where
  "cache_put k v cache =
     (let cache1 = (if dict_get cache k \<noteq> None then dict_del k cache else cache)
      in evict (dict_set k v cache1))"

definition record_explain_answer ::
  "IterationState \<Rightarrow> pystr \<Rightarrow> pystr \<Rightarrow> datetime \<Rightarrow> IterationState" where
  "record_explain_answer state pr_diff_hash ans now =
     state\<lparr>explain_cache :=
       cache_put pr_diff_hash \<lparr>answer = ans, issued_at = now\<rparr> (explain_cache state)\<rparr>"

section \<open>Lemmas\<close>

lemma evict_drop: "evict c = drop (length c - EXPLAIN_CACHE_MAXSIZE) c"
proof (induction c rule: evict.induct)
  case (1 c)
  show ?case
  proof (cases "length c > EXPLAIN_CACHE_MAXSIZE")
    case True
    then have "evict c = drop (length (tl c) - EXPLAIN_CACHE_MAXSIZE) (tl c)"
      using 1 by (subst evict.simps) simp
    also have "\<dots> = drop (length c - EXPLAIN_CACHE_MAXSIZE) c"
      using True by (cases c) (simp_all add: Suc_diff_le)
    finally show ?thesis .
  next
    case False
    then show ?thesis by (subst evict.simps) simp
  qed
qed

lemma dict_del_absent: "dict_get c k = None \<Longrightarrow> dict_del k c = c"
  by (force simp: dict_get_None_iff dict_del_def filter_id_conv)

lemma cache_put_eq:
  "cache_put k v c =
     drop (Suc (length (dict_del k c)) - EXPLAIN_CACHE_MAXSIZE) (dict_del k c @ [(k, v)])"
proof -
  have "dict_set k v (dict_del k c) = dict_del k c @ [(k, v)]"
    by (rule dict_set_fresh) simp
  then show ?thesis
    by (cases "dict_get c k = None") (simp_all add: cache_put_def evict_drop dict_del_absent Let_def)
qed

lemma max_pos: "0 < EXPLAIN_CACHE_MAXSIZE"
  by (simp add: EXPLAIN_CACHE_MAXSIZE_def)

lemma cache_put_last: "\<exists>n. cache_put k v c = drop n (dict_del k c) @ [(k, v)]"
proof -
  have "Suc (length (dict_del k c)) - EXPLAIN_CACHE_MAXSIZE \<le> length (dict_del k c)"
    using max_pos by simp
  then show ?thesis unfolding cache_put_eq by (metis drop_append drop_0 diff_is_0_eq)
qed

lemma wf_dict_drop: "wf_dict d \<Longrightarrow> wf_dict (drop n d)"
  by (simp add: wf_dict_def drop_map [symmetric])

lemma dict_get_drop:
  "wf_dict d \<Longrightarrow> dict_get (drop n d) k = Some v \<Longrightarrow> dict_get d k = Some v"
  by (metis dict_get_def in_set_dropD map_of_SomeD map_of_is_SomeI wf_dict_def)

lemma dict_get_drop_None: "dict_get d k = None \<Longrightarrow> dict_get (drop n d) k = None"
  by (auto simp: dict_get_None_iff dest!: in_set_dropD)

lemma dict_get_append:
  "dict_get (a @ b) k = (case dict_get a k of None \<Rightarrow> dict_get b k | Some v \<Rightarrow> Some v)"
  by (induction a) auto

lemma wf_cache_put: "wf_dict c \<Longrightarrow> wf_dict (cache_put k v c)"
proof -
  assume "wf_dict c"
  then have "wf_dict (dict_del k c @ [(k, v)])" by (intro wf_dict_append_new) simp_all
  then show ?thesis unfolding cache_put_eq by (rule wf_dict_drop)
qed

lemma get_cache_put: "wf_dict c \<Longrightarrow> dict_get (cache_put k v c) k = Some v"
proof -
  assume c: "wf_dict c"
  obtain n where eq: "cache_put k v c = drop n (dict_del k c) @ [(k, v)]" using cache_put_last [of k v c] by blast
  have "dict_get (drop n (dict_del k c)) k = None"
    by (rule dict_get_drop_None) simp
  with eq show ?thesis by (simp add: dict_get_append)
qed

lemma get_cache_put_other:
  assumes "wf_dict c" and "k' \<noteq> k" and "dict_get (cache_put k v c) k' = Some w"
  shows "dict_get c k' = Some w"
proof -
  obtain n where eq: "cache_put k v c = drop n (dict_del k c) @ [(k, v)]" using cache_put_last [of k v c] by blast
  with assms(2,3) have "dict_get (drop n (dict_del k c)) k' = Some w"
    by (cases "dict_get (drop n (dict_del k c)) k'") (simp_all add: dict_get_append)
  then have "dict_get (dict_del k c) k' = Some w" by (rule dict_get_drop [rotated]) (simp add: assms(1))
  with assms(2) show ?thesis by simp
qed

lemma length_cache_put: "length (cache_put k v c) \<le> EXPLAIN_CACHE_MAXSIZE"
  using max_pos by (simp add: cache_put_eq)

section \<open>The cache interface\<close>

text \<open>
  A cache keeps the latest value of a key or nothing at all. Whatever is put between, a hit is
  never a stale value.
\<close>

locale lossy_cache =
  fixes put :: "'k \<Rightarrow> 'v \<Rightarrow> 'c \<Rightarrow> 'c"
    and get :: "'c \<Rightarrow> 'k \<Rightarrow> 'v option"
    and invar :: "'c \<Rightarrow> bool"
    and size_of :: "'c \<Rightarrow> nat"
    and bound :: nat
  assumes get_put: "invar c \<Longrightarrow> get (put k v c) k = Some v"
    and get_put_other: "invar c \<Longrightarrow> k' \<noteq> k \<Longrightarrow> get (put k v c) k' = Some w \<Longrightarrow> get c k' = Some w"
    and invar_put: "invar c \<Longrightarrow> invar (put k v c)"
    and size_put: "invar c \<Longrightarrow> size_of (put k v c) \<le> bound"
begin

fun puts :: "'c \<Rightarrow> ('k \<times> 'v) list \<Rightarrow> 'c" where
  "puts c [] = c"
| "puts c ((k, v) # kvs) = puts (put k v c) kvs"

lemma invar_puts: "invar c \<Longrightarrow> invar (puts c kvs)"
  by (induction c kvs rule: puts.induct) (simp_all add: invar_put)

lemma size_puts: "invar c \<Longrightarrow> kvs \<noteq> [] \<Longrightarrow> size_of (puts c kvs) \<le> bound"
proof (induction c kvs rule: puts.induct)
  case (2 c k v kvs)
  then show ?case by (cases kvs) (auto simp: size_put invar_put)
qed simp

lemma hit_is_latest:
  "invar c \<Longrightarrow> get (puts c kvs) k = Some w \<Longrightarrow>
     (case map_of (rev kvs) k of Some v \<Rightarrow> w = v | None \<Rightarrow> get c k = Some w)"
proof (induction c kvs rule: puts.induct)
  case (1 c)
  then show ?case by simp
next
  case (2 c k' v kvs)
  then have IH: "case map_of (rev kvs) k of Some v \<Rightarrow> w = v | None \<Rightarrow> get (put k' v c) k = Some w"
    by (simp add: invar_put)
  show ?case
  proof (cases "map_of (rev kvs) k")
    case None
    with IH 2 show ?thesis
      by (cases "k = k'") (auto simp: map_add_def get_put dest: get_put_other)
  next
    case (Some v')
    with IH show ?thesis by (simp add: map_add_def)
  qed
qed

end

interpretation explain: lossy_cache cache_put dict_get wf_dict length EXPLAIN_CACHE_MAXSIZE
proof unfold_locales
  show "wf_dict c \<Longrightarrow> length (cache_put k v c) \<le> EXPLAIN_CACHE_MAXSIZE" for c :: "'a pydict" and k v
    by (rule length_cache_put)
qed (fact get_cache_put get_cache_put_other wf_cache_put)+

section \<open>Properties\<close>

definition wf_iteration :: "IterationState \<Rightarrow> bool" where
  "wf_iteration state \<longleftrightarrow>
     wf_dict (explain_cache state) \<and> length (explain_cache state) \<le> EXPLAIN_CACHE_MAXSIZE"

fun record_all :: "IterationState \<Rightarrow> (pystr \<times> pystr \<times> datetime) list \<Rightarrow> IterationState" where
  \<comment> \<open>a sequence of explanations, oldest first\<close>
  "record_all state [] = state"
| "record_all state ((h, a, t) # xs) = record_all (record_explain_answer state h a t) xs"

definition cache_entries :: "(pystr \<times> pystr \<times> datetime) list \<Rightarrow> ExplainCacheEntry pydict" where
  "cache_entries xs = map (\<lambda>(h, a, t). (h, \<lparr>answer = a, issued_at = t\<rparr>)) xs"

lemma record_all_cache: "explain_cache (record_all s xs) = explain.puts (explain_cache s) (cache_entries xs)"
  by (induction s xs rule: record_all.induct) (simp_all add: cache_entries_def record_explain_answer_def)

lemma record_explain_wf: "wf_iteration s \<Longrightarrow> wf_iteration (record_explain_answer s h a t)"
  by (simp add: wf_iteration_def record_explain_answer_def wf_cache_put length_cache_put)

text \<open>
  A record keeps the cache a dictionary of at most 32 entries, puts the answer in the most
  recent slot (a key already there moves), touches nothing but the cache, and evicts nothing but
  the single oldest entry, and that only when the cache was full and the key new.
\<close>

theorem record_explain_answer_spec:
  assumes "wf_iteration s"
  defines "c \<equiv> explain_cache s"
  shows "wf_iteration (record_explain_answer s h a t) \<and>
    record_explain_answer s h a t =
      s\<lparr>explain_cache :=
        (if dict_get c h = None \<and> length c = EXPLAIN_CACHE_MAXSIZE then tl c else dict_del h c)
        @ [(h, \<lparr>answer = a, issued_at = t\<rparr>)]\<rparr>"
proof -
  have le: "length c \<le> EXPLAIN_CACHE_MAXSIZE" and wf: "wf_dict c"
    using assms by (simp_all add: wf_iteration_def)
  have "length (dict_del h c) < length c" if "dict_get c h \<noteq> None"
  proof -
    from that obtain v where "map_of c h = Some v" by (auto simp: dict_get_def)
    then have "(h, v) \<in> set c" by (rule map_of_SomeD)
    then show ?thesis unfolding dict_del_def by (auto intro: length_filter_less)
  qed
  then have "cache_put h v c =
      (if dict_get c h = None \<and> length c = EXPLAIN_CACHE_MAXSIZE then tl c else dict_del h c) @ [(h, v)]" for v
    using le max_pos
    by (cases "dict_get c h = None") (auto simp: cache_put_eq dict_del_absent drop_Suc)
  then have "record_explain_answer s h a t =
      s\<lparr>explain_cache :=
        (if dict_get c h = None \<and> length c = EXPLAIN_CACHE_MAXSIZE then tl c else dict_del h c)
        @ [(h, \<lparr>answer = a, issued_at = t\<rparr>)]\<rparr>"
    by (simp add: record_explain_answer_def c_def)
  with record_explain_wf [OF assms(1)] show ?thesis by (rule conjI)
qed

theorem record_explain_answer_spec_witness:
  "\<exists>s. wf_iteration s \<and>
     record_explain_answer s ''d1'' ''because'' 7 =
       s\<lparr>explain_cache := [(''d0'', \<lparr>answer = ''old'', issued_at = 1\<rparr>),
                            (''d1'', \<lparr>answer = ''because'', issued_at = 7\<rparr>)]\<rparr>"
proof -
  define s where "s = \<lparr>iter_count = 1, last_fix_trigger_at = None, test_results_by_diff_hash = [],
     explain_cache = [(''d1'', \<lparr>answer = ''x'', issued_at = 0\<rparr>), (''d0'', \<lparr>answer = ''old'', issued_at = 1\<rparr>)],
     needs_info_streak = 0\<rparr>"
  have "wf_iteration s"
    by (simp add: s_def wf_iteration_def wf_dict_def EXPLAIN_CACHE_MAXSIZE_def)
  from record_explain_answer_spec [OF this, of "''d1''" "''because''" 7] this show ?thesis
    by (intro exI [of _ s]) (simp add: s_def dict_del_def)
qed

text \<open>
  The explanation cache never serves a stale answer: after any sequence of recorded
  explanations, an entry found for a diff hash is the last one recorded for it, or the one the
  cache started with when none was recorded.
\<close>

theorem explain_cache_never_stale:
  assumes "wf_iteration s" and "dict_get (explain_cache (record_all s xs)) h = Some e"
  shows "case map_of (rev (cache_entries xs)) h of
           Some e' \<Rightarrow> e = e'
         | None \<Rightarrow> dict_get (explain_cache s) h = Some e"
  using explain.hit_is_latest [of "explain_cache s" "cache_entries xs" h e] assms
  by (simp add: record_all_cache wf_iteration_def)

theorem explain_cache_never_stale_witness:
  "dict_get (explain_cache (record_all
      \<lparr>iter_count = 1, last_fix_trigger_at = None, test_results_by_diff_hash = [],
       explain_cache = [], needs_info_streak = 0\<rparr>
      [(''h'', ''first'', 1), (''g'', ''other'', 2), (''h'', ''second'', 3)])) ''h''
   = Some \<lparr>answer = ''second'', issued_at = 3\<rparr>"
proof -
  define s where "s = \<lparr>iter_count = 1, last_fix_trigger_at = None, test_results_by_diff_hash = [],
       explain_cache = [], needs_info_streak = 0\<rparr>"
  let ?xs = "[(''h'', ''first'', 1), (''g'', ''other'', 2), (''h'', ''second'', 3)]"
  have wf: "wf_iteration s" by (simp add: s_def wf_iteration_def)
  have "dict_get (explain_cache (record_all s ?xs)) ''h'' \<noteq> None"
    unfolding s_def by code_simp
  then obtain e where e: "dict_get (explain_cache (record_all s ?xs)) ''h'' = Some e" by blast
  from explain_cache_never_stale [OF wf e] have "e = \<lparr>answer = ''second'', issued_at = 3\<rparr>"
    by (simp add: cache_entries_def)
  with e show ?thesis by (simp only: s_def)
qed

text \<open>
  Recording an explanation suppresses the LLM for that diff for exactly the time to live,
  and a diff hash that is empty is never served from the cache.
\<close>

theorem explain_skip_window:
  assumes "wf_iteration s"
  shows "explain_should_skip_llm (record_explain_answer s h a t) h now EXPLAIN_CACHE_TTL \<longleftrightarrow>
         h \<noteq> [] \<and> now - t < 300000000"
  using assms
  by (simp add: explain_should_skip_llm_def record_explain_answer_def wf_iteration_def get_cache_put
      EXPLAIN_CACHE_TTL_def)

theorem explain_skip_window_witness:
  "explain_should_skip_llm
     (record_explain_answer
        \<lparr>iter_count = 1, last_fix_trigger_at = None, test_results_by_diff_hash = [],
         explain_cache = [], needs_info_streak = 0\<rparr> ''h'' ''a'' 0) ''h'' 299999999 EXPLAIN_CACHE_TTL"
  using explain_skip_window [of "\<lparr>iter_count = 1, last_fix_trigger_at = None,
      test_results_by_diff_hash = [], explain_cache = [], needs_info_streak = 0\<rparr>" "''h''" "''a''" 0 299999999]
  by (simp add: wf_iteration_def)

end
