(* ===== verification/Output_Actions.thy ===== *)
theory Output_Actions
  imports Platform_Prelude
begin

text \<open>
  The output actions of a run: the kinds and their classification from \<^verbatim>\<open>messages.py\<close>, the
  critical / best-effort partition and the apply record of \<^verbatim>\<open>output_actions.py\<close> (both in
  \<^verbatim>\<open>libs/temporal-shared\<close>).
\<close>

section \<open>Actions and their classification\<close>

definition CRITICAL_OUTPUT_ACTION_KINDS :: "pystr set" where
  "CRITICAL_OUTPUT_ACTION_KINDS =
     {''jira_comment'', ''bitbucket_commit'', ''bitbucket_create_pr'',
      ''confluence_create_page'', ''confluence_update_page'', ''jira_transition''}"

definition BEST_EFFORT_OUTPUT_ACTION_KINDS :: "pystr set" where
  "BEST_EFFORT_OUTPUT_ACTION_KINDS = {''slack_notify'', ''email_notify'', ''jira_attachment''}"

record OutputAction =
  kind :: pystr
  severity :: pystr
  payload :: "(pystr \<times> pyval) list"

datatype action_error = UnclassifiedKind pystr

fun partition_loop ::
  "OutputAction list \<Rightarrow> OutputAction list \<Rightarrow> OutputAction list \<Rightarrow>
     action_error + OutputAction list \<times> OutputAction list" where
  "partition_loop critical best_effort [] = Inr (critical, best_effort)"
| "partition_loop critical best_effort (a # as) =
     (if kind a \<in> CRITICAL_OUTPUT_ACTION_KINDS then partition_loop (critical @ [a]) best_effort as
      else if kind a \<in> BEST_EFFORT_OUTPUT_ACTION_KINDS
      then partition_loop critical (best_effort @ [a]) as
      else Inl (UnclassifiedKind (kind a)))"

definition partition_actions ::
  "OutputAction list \<Rightarrow> action_error + OutputAction list \<times> OutputAction list" where
  \<comment> \<open>\<open>partition\<close>\<close>
  "partition_actions actions = partition_loop [] [] actions"

section \<open>The apply record\<close>

record ApplyResult =
  successful_critical :: "pystr list"
  failed_critical :: "(pystr \<times> pystr) list"
  successful_best_effort :: "pystr list"
  failed_best_effort :: "(pystr \<times> pystr) list"

definition has_critical_failure :: "ApplyResult \<Rightarrow> bool" where
  "has_critical_failure r \<longleftrightarrow> failed_critical r \<noteq> []"

definition has_best_effort_failure :: "ApplyResult \<Rightarrow> bool" where
  "has_best_effort_failure r \<longleftrightarrow> failed_best_effort r \<noteq> []"

section \<open>Lemmas\<close>

definition is_critical :: "OutputAction \<Rightarrow> bool" where
  "is_critical a \<longleftrightarrow> kind a \<in> CRITICAL_OUTPUT_ACTION_KINDS"

definition is_best_effort :: "OutputAction \<Rightarrow> bool" where
  "is_best_effort a \<longleftrightarrow> kind a \<in> BEST_EFFORT_OUTPUT_ACTION_KINDS"

lemma kinds_disjoint: "is_critical a \<Longrightarrow> \<not> is_best_effort a"
  by (auto simp: is_critical_def is_best_effort_def CRITICAL_OUTPUT_ACTION_KINDS_def
      BEST_EFFORT_OUTPUT_ACTION_KINDS_def)

lemma partition_loop_Cons:
  "partition_loop c b (a # as) =
     (if is_critical a then partition_loop (c @ [a]) b as
      else if is_best_effort a then partition_loop c (b @ [a]) as
      else Inl (UnclassifiedKind (kind a)))"
  by (simp add: is_critical_def is_best_effort_def)

declare partition_loop.simps(2) [simp del]

lemma partition_loop_spec:
  "partition_loop c b as =
     (case find (\<lambda>a. \<not> is_critical a \<and> \<not> is_best_effort a) as of
        Some a \<Rightarrow> Inl (UnclassifiedKind (kind a))
      | None \<Rightarrow> Inr (c @ filter is_critical as, b @ filter is_best_effort as))"
proof (induction as arbitrary: c b)
  case Nil
  then show ?case by simp
next
  case (Cons a as)
  consider "is_critical a" | "is_best_effort a" | "\<not> is_critical a" "\<not> is_best_effort a" by blast
  then show ?case
  proof cases
    case 1
    with Cons kinds_disjoint [OF 1] show ?thesis by (simp add: partition_loop_Cons split: option.splits)
  next
    case 2
    with Cons have "\<not> is_critical a" using kinds_disjoint by blast
    with 2 Cons show ?thesis
      by (simp add: partition_loop_Cons split: option.splits)
  next
    case 3
    then show ?thesis by (simp add: partition_loop_Cons)
  qed
qed

section \<open>Properties\<close>

text \<open>
  \<open>partition\<close> either returns exactly the critical and the best-effort actions, each in the
  order of the input, or raises on the first action whose kind is in neither classification set;
  the two results together are a rearrangement of the input, so no action is lost or doubled.
\<close>

theorem partition_spec:
  "partition_actions as =
     (case find (\<lambda>a. \<not> is_critical a \<and> \<not> is_best_effort a) as of
        Some a \<Rightarrow> Inl (UnclassifiedKind (kind a))
      | None \<Rightarrow> Inr (filter is_critical as, filter is_best_effort as)) \<and>
   (\<forall>c b. partition_actions as = Inr (c, b) \<longrightarrow>
      length c + length b = length as \<and> set c \<union> set b = set as \<and> set c \<inter> set b = {})"
proof -
  have eq: "partition_actions as =
     (case find (\<lambda>a. \<not> is_critical a \<and> \<not> is_best_effort a) as of
        Some a \<Rightarrow> Inl (UnclassifiedKind (kind a))
      | None \<Rightarrow> Inr (filter is_critical as, filter is_best_effort as))"
    by (simp add: partition_actions_def partition_loop_spec split: option.splits)
  have "length (filter is_critical xs) + length (filter is_best_effort xs) = length xs"
    if "\<forall>a \<in> set xs. is_critical a \<or> is_best_effort a" for xs
    using that by (induction xs) (auto dest: kinds_disjoint)
  then have "length c + length b = length as \<and> set c \<union> set b = set as \<and> set c \<inter> set b = {}"
    if "partition_actions as = Inr (c, b)" for c b
    using that kinds_disjoint
    by (auto simp: eq find_None_iff split: option.splits)
  with eq show ?thesis by blast
qed

definition demo_action :: "pystr \<Rightarrow> OutputAction" where
  "demo_action k = \<lparr>kind = k, severity = ''critical'', payload = []\<rparr>"

theorem partition_spec_witness:
  "partition_actions [demo_action ''slack_notify'', demo_action ''jira_comment'', demo_action ''email_notify''] =
     Inr ([demo_action ''jira_comment''], [demo_action ''slack_notify'', demo_action ''email_notify''])"
  using conjunct1 [OF partition_spec [of "[demo_action ''slack_notify'', demo_action ''jira_comment'',
      demo_action ''email_notify'']"]]
  by (simp add: demo_action_def is_critical_def is_best_effort_def CRITICAL_OUTPUT_ACTION_KINDS_def
      BEST_EFFORT_OUTPUT_ACTION_KINDS_def)

end
