(* ===== verification/Task_Analysis.thy ===== *)
theory Task_Analysis
  imports Capability_Gate Output_Actions
begin

text \<open>
  \<^verbatim>\<open>libs/temporal-shared/src/temporal_shared/task_analysis.py\<close>: validation of the JSON an LLM
  returns for a task. The JSON text parser of the standard library is the parameter \<open>loads\<close>
  (\<open>None\<close> for a decoding error); nothing is assumed of it. Error values keep the class of the
  exception and the field it names.
\<close>

section \<open>Data\<close>

datatype parse_error =
    TaskAnalysisParseError pystr
  | AttributeError \<comment> \<open>\<open>.get\<close> on a value that is not a dictionary\<close>

datatype llm_payload = PayloadDict "pyval pydict" | PayloadStr pystr

record LlmAnalysisResult =
  res_workflow_type :: pystr
  res_confidence :: pystr
  res_target_repo :: "pystr option"
  res_target_branch :: "pystr option"
  res_target_space :: "pystr option"
  res_target_page_id :: "pystr option"
  res_title :: pystr
  res_rationale :: pystr
  res_output_actions :: "OutputAction list"
  res_needs_info_questions :: "pystr list"
  res_token_usage :: int

definition VALID_CONFIDENCES :: "pystr set" where
  "VALID_CONFIDENCES = {''high'', ''medium'', ''low''}"

text \<open>The required fields of each type, in the order \<open>sorted\<close> gives them.\<close>

definition TYPE_SPECIFIC_REQUIRED :: "(pystr \<times> pystr list) list" where
  "TYPE_SPECIFIC_REQUIRED =
     [(''code_change_with_test'', [''target_branch'', ''target_repo'']),
      (''code_change_commit_only'', [''target_branch'', ''target_repo'']),
      (''pr_review'', [''target_branch'', ''target_repo'']),
      (''remote_ssh_test_only'', [''target_branch'', ''target_repo'']),
      (''confluence_doc_create'', [''target_lang'']),
      (''confluence_doc_update'', [''target_lang'']),
      (''research_basic'', []),
      (''research_with_web'', []),
      (''multi_step'', [''children'']),
      (''noop_test'', []),
      (''script_execute'', [''target_branch'', ''target_repo'']),
      (''research_publish_confluence'', [''target_lang'']),
      (''research_summary_jira'', [])]"

definition required_fields :: "pystr \<Rightarrow> pystr list" where
  \<comment> \<open>\<open>_TYPE_SPECIFIC_REQUIRED[workflow_type]\<close>; the module asserts at load time that the two
     tables have the same keys, so the lookup of a validated type never fails\<close>
  "required_fields wt = (case map_of TYPE_SPECIFIC_REQUIRED wt of None \<Rightarrow> [] | Some fs \<Rightarrow> fs)"

section \<open>Output actions\<close>

definition coerce_draft_true :: "pyval pydict \<Rightarrow> pyval pydict" where
  "coerce_draft_true p = dict_set ''draft'' (PBool True) p"

definition infer_severity :: "pystr \<Rightarrow> pystr" where
  "infer_severity action_type =
     (if action_type \<in> CRITICAL_OUTPUT_ACTION_KINDS then ''critical''
      else if action_type \<in> BEST_EFFORT_OUTPUT_ACTION_KINDS then ''best_effort''
      else ''critical'')"

definition action_payload :: "pyval \<Rightarrow> parse_error + pyval pydict" where
  "action_payload v =
     (case v of
        PNone \<Rightarrow> Inr []
      | PDict p \<Rightarrow> Inr p
      | _ \<Rightarrow> Inl (TaskAnalysisParseError ''payload''))"

definition parse_output_action :: "pyval \<Rightarrow> parse_error + OutputAction" where
  "parse_output_action raw =
     (case raw of
        PDict d \<Rightarrow>
          (case get_or_none d ''type'' of
             PStr action_type \<Rightarrow>
               if action_type = [] then Inl (TaskAnalysisParseError ''type'')
               else
                 rbind (action_payload (get_or_none d ''payload'')) (\<lambda>p.
                   Inr \<lparr>kind = action_type, severity = infer_severity action_type,
                        payload = (if action_type = ''bitbucket_pr'' then coerce_draft_true p else p)\<rparr>)
           | _ \<Rightarrow> Inl (TaskAnalysisParseError ''type''))
      | _ \<Rightarrow> Inl (TaskAnalysisParseError ''output_actions''))"

section \<open>Fields\<close>

definition require_str :: "pyval pydict \<Rightarrow> pystr \<Rightarrow> pystr set \<Rightarrow> parse_error + pystr" where
  \<comment> \<open>the checks of \<open>workflow_type\<close> and \<open>confidence\<close>: a string of the closed vocabulary\<close>
  "require_str data f vocabulary =
     (case get_or_none data f of
        PStr s \<Rightarrow> if s \<in> vocabulary then Inr s else Inl (TaskAnalysisParseError f)
      | _ \<Rightarrow> Inl (TaskAnalysisParseError f))"

definition parse_actions :: "pyval pydict \<Rightarrow> parse_error + OutputAction list" where
  "parse_actions data =
     (case get_or_none data ''output_actions'' of
        PList xs \<Rightarrow>
          if xs = [] then Inl (TaskAnalysisParseError ''output_actions'')
          else rmap parse_output_action xs
      | _ \<Rightarrow> Inl (TaskAnalysisParseError ''output_actions''))"

definition field_ok :: "pyval pydict \<Rightarrow> pystr \<Rightarrow> bool" where
  \<comment> \<open>the check of one type-specific field\<close>
  "field_ok data f =
     (case get_or_none data f of
        PNone \<Rightarrow> False
      | v \<Rightarrow>
          if f = ''children'' then (case v of PList xs \<Rightarrow> xs \<noteq> [] | _ \<Rightarrow> False)
          else (case v of PStr s \<Rightarrow> strip s \<noteq> [] | _ \<Rightarrow> False))"

fun check_fields :: "pyval pydict \<Rightarrow> pystr list \<Rightarrow> parse_error + unit" where
  "check_fields data [] = Inr ()"
| "check_fields data (f # fs) =
     (if field_ok data f then check_fields data fs else Inl (TaskAnalysisParseError f))"

definition parse_needs_info :: "pyval pydict \<Rightarrow> pystr \<Rightarrow> parse_error + pystr list" where
  "parse_needs_info data confidence =
     (if confidence = ''low'' then
        (case get_or_none data ''needs_info_question'' of
           PStr q \<Rightarrow> if q \<noteq> [] then Inr [q] else Inl (TaskAnalysisParseError ''needs_info_question'')
         | _ \<Rightarrow> Inl (TaskAnalysisParseError ''needs_info_question''))
      else
        (case get_or_none data ''needs_info_question'' of
           PStr q \<Rightarrow> Inr (if strip q \<noteq> [] then [q] else [])
         | _ \<Rightarrow> Inr []))"

definition optional_str :: "pyval pydict \<Rightarrow> pystr \<Rightarrow> parse_error + pystr option" where
  "optional_str data f =
     (case get_or_none data f of
        PNone \<Rightarrow> Inr None
      | PStr s \<Rightarrow> Inr (Some s)
      | _ \<Rightarrow> Inl (TaskAnalysisParseError f))"

definition default_str :: "pyval pydict \<Rightarrow> pystr \<Rightarrow> parse_error + pystr" where
  \<comment> \<open>\<open>data.get(f, "") or ""\<close> and its check\<close>
  "default_str data f =
     (let v = get_or_none data f
      in if \<not> truthy v then Inr []
         else case v of PStr s \<Rightarrow> Inr s | _ \<Rightarrow> Inl (TaskAnalysisParseError f))"

definition parse_token_usage :: "pyval pydict \<Rightarrow> parse_error + int" where
  \<comment> \<open>a missing key is 0, an explicit null is rejected, and \<open>bool\<close> is a subclass of \<open>int\<close>\<close>
  "parse_token_usage data =
     (case dict_get data ''token_usage'' of
        None \<Rightarrow> Inr 0
      | Some (PInt i) \<Rightarrow> Inr i
      | Some (PBool b) \<Rightarrow> Inr (if b then 1 else 0)
      | Some _ \<Rightarrow> Inl (TaskAnalysisParseError ''token_usage''))"

section \<open>The parser\<close>

definition load_payload :: "(pystr \<Rightarrow> pyval option) \<Rightarrow> llm_payload \<Rightarrow> parse_error + pyval" where
  "load_payload loads pl =
     (case pl of
        PayloadStr s \<Rightarrow>
          (case loads s of None \<Rightarrow> Inl (TaskAnalysisParseError ''json'') | Some v \<Rightarrow> Inr v)
      | PayloadDict d \<Rightarrow> Inr (PDict d))"

definition parse_analysis_dict :: "pyval pydict \<Rightarrow> parse_error + LlmAnalysisResult" where
  "parse_analysis_dict data =
     rbind (require_str data ''workflow_type'' (set (map fst WORKFLOW_TYPE_CAPABILITIES))) (\<lambda>workflow_type.
     rbind (require_str data ''confidence'' VALID_CONFIDENCES) (\<lambda>confidence.
     rbind (parse_actions data) (\<lambda>output_actions.
     rbind (check_fields data (required_fields workflow_type)) (\<lambda>_.
     rbind (parse_needs_info data confidence) (\<lambda>questions.
     rbind (optional_str data ''target_repo'') (\<lambda>target_repo.
     rbind (optional_str data ''target_branch'') (\<lambda>target_branch.
     rbind (optional_str data ''target_space'') (\<lambda>target_space.
     rbind (optional_str data ''target_page_id'') (\<lambda>target_page_id.
     rbind (default_str data ''title'') (\<lambda>title.
     rbind (default_str data ''rationale'') (\<lambda>rationale.
     rbind (parse_token_usage data) (\<lambda>token_usage.
       Inr \<lparr>res_workflow_type = workflow_type, res_confidence = confidence,
            res_target_repo = target_repo, res_target_branch = target_branch,
            res_target_space = target_space, res_target_page_id = target_page_id,
            res_title = title, res_rationale = rationale,
            res_output_actions = output_actions, res_needs_info_questions = questions,
            res_token_usage = token_usage\<rparr>))))))))))))"

definition parse_llm_analysis ::
  "(pystr \<Rightarrow> pyval option) \<Rightarrow> llm_payload \<Rightarrow> parse_error + LlmAnalysisResult" where
  "parse_llm_analysis loads pl =
     rbind (load_payload loads pl) (\<lambda>v.
       case v of PDict data \<Rightarrow> parse_analysis_dict data | _ \<Rightarrow> Inl AttributeError)"

section \<open>Lemmas\<close>

lemma required_tables_agree:
  "map fst TYPE_SPECIFIC_REQUIRED \<noteq> [] \<and>
   set (map fst TYPE_SPECIFIC_REQUIRED) = set (map fst WORKFLOW_TYPE_CAPABILITIES)"
  by code_simp

lemma require_str_Inr: "require_str data f V = Inr s \<longleftrightarrow> get_or_none data f = PStr s \<and> s \<in> V"
  by (auto simp: require_str_def split: pyval.splits)

lemma check_fields_Inr: "check_fields data fs = Inr () \<longleftrightarrow> list_all (field_ok data) fs"
  by (induction fs) auto

lemma parse_output_action_Inr:
  "parse_output_action v = Inr a \<Longrightarrow> kind a \<noteq> [] \<and> severity a = infer_severity (kind a)"
  by (auto simp: parse_output_action_def rbind_eq_Inr split: pyval.splits if_splits)

lemma parse_actions_Inr:
  assumes "parse_actions data = Inr as"
  shows "as \<noteq> [] \<and> (\<forall>a \<in> set as. kind a \<noteq> [] \<and> severity a = infer_severity (kind a))"
proof -
  from assms obtain xs where "xs \<noteq> []" and r: "rmap parse_output_action xs = Inr as"
    by (auto simp: parse_actions_def split: pyval.splits if_splits)
  then have "list_all2 (\<lambda>x y. parse_output_action x = Inr y) xs as" by (simp add: rmap_Inr)
  then have "\<forall>a \<in> set as. kind a \<noteq> [] \<and> severity a = infer_severity (kind a)"
    by (induction rule: list_all2_induct) (auto dest: parse_output_action_Inr)
  with \<open>xs \<noteq> []\<close> rmap_Inr_length [OF r] show ?thesis by auto
qed

lemma parse_llm_analysis_Inr:
  assumes "parse_llm_analysis loads pl = Inr r"
  obtains data where "load_payload loads pl = Inr (PDict data)" and "parse_analysis_dict data = Inr r"
proof -
  from assms obtain v where "load_payload loads pl = Inr v"
    and "(case v of PDict data \<Rightarrow> parse_analysis_dict data | _ \<Rightarrow> Inl AttributeError) = Inr r"
    unfolding parse_llm_analysis_def rbind_eq_Inr by blast
  then show thesis by (cases v) (auto intro: that)
qed

lemma infer_severity_critical: "is_critical a \<Longrightarrow> infer_severity (kind a) = ''critical''"
  by (simp add: infer_severity_def is_critical_def)

lemma infer_severity_best_effort: "is_best_effort a \<Longrightarrow> infer_severity (kind a) = ''best_effort''"
  using kinds_disjoint [of a] by (auto simp: infer_severity_def is_critical_def is_best_effort_def)

section \<open>Properties\<close>

text \<open>
  Every accepted analysis satisfies the validation contract: a workflow type of the
  capability matrix, a confidence of the closed vocabulary, at least one action, every field its
  type requires present and non-blank, and a question whenever the confidence is low.
\<close>

theorem parse_llm_analysis_contract:
  assumes "parse_llm_analysis loads pl = Inr r"
  shows "\<exists>data. load_payload loads pl = Inr (PDict data) \<and>
     res_workflow_type r \<in> set (map fst WORKFLOW_TYPE_CAPABILITIES) \<and>
     res_confidence r \<in> VALID_CONFIDENCES \<and> res_output_actions r \<noteq> [] \<and>
     list_all (field_ok data) (required_fields (res_workflow_type r)) \<and>
     (res_confidence r = ''low'' \<longrightarrow> (\<exists>q. q \<noteq> [] \<and> res_needs_info_questions r = [q]))"
proof -
  from assms obtain data where l: "load_payload loads pl = Inr (PDict data)"
    and d: "parse_analysis_dict data = Inr r" by (rule parse_llm_analysis_Inr)
  from d have "res_workflow_type r \<in> set (map fst WORKFLOW_TYPE_CAPABILITIES)"
    and "res_confidence r \<in> VALID_CONFIDENCES"
    and acts: "parse_actions data = Inr (res_output_actions r)"
    and "list_all (field_ok data) (required_fields (res_workflow_type r))"
    and q: "parse_needs_info data (res_confidence r) = Inr (res_needs_info_questions r)"
    unfolding parse_analysis_dict_def
    by (auto simp: rbind_eq_Inr require_str_Inr check_fields_Inr simp del: set_map)
  moreover have "res_output_actions r \<noteq> []" using parse_actions_Inr [OF acts] by blast
  moreover have "\<exists>x. x \<noteq> [] \<and> res_needs_info_questions r = [x]" if "res_confidence r = ''low''"
    using q that by (auto simp: parse_needs_info_def split: pyval.splits if_splits)
  ultimately show ?thesis using l by blast
qed

definition demo_analysis :: "pyval pydict" where
  "demo_analysis =
     [(''workflow_type'', PStr ''pr_review''), (''confidence'', PStr ''low''),
      (''output_actions'', PList [PDict [(''type'', PStr ''jira_comment'')]]),
      (''target_repo'', PStr ''pay-api''), (''target_branch'', PStr ''main''),
      (''needs_info_question'', PStr ''which service?'')]"

theorem parse_llm_analysis_contract_witness:
  "\<exists>r. parse_llm_analysis (\<lambda>_. None) (PayloadDict demo_analysis) = Inr r \<and>
       res_needs_info_questions r = [''which service?''] \<and>
       res_workflow_type r \<in> set (map fst WORKFLOW_TYPE_CAPABILITIES)"
proof -
  have "\<exists>r. parse_llm_analysis (\<lambda>_. None) (PayloadDict demo_analysis) = Inr r \<and>
       res_needs_info_questions r = [''which service?'']"
    unfolding parse_llm_analysis_def parse_analysis_dict_def load_payload_def demo_analysis_def
    by (simp add: require_str_def get_or_none_def parse_actions_def parse_output_action_def
        action_payload_def check_fields_Inr required_fields_def TYPE_SPECIFIC_REQUIRED_def field_ok_def
        parse_needs_info_def optional_str_def default_str_def parse_token_usage_def
        WORKFLOW_TYPE_CAPABILITIES_def VALID_CONFIDENCES_def strip_def lstrip_def is_space_def)
  then obtain r where r: "parse_llm_analysis (\<lambda>_. None) (PayloadDict demo_analysis) = Inr r"
    and q: "res_needs_info_questions r = [''which service?'']" by blast
  from parse_llm_analysis_contract [OF r] r q show ?thesis by blast
qed

text \<open>
  The severities the parser writes agree with the partition the workflow applies: when the
  actions of an accepted analysis can be partitioned, every action in the critical part is marked
  \<open>critical\<close> and every action in the best-effort part \<open>best_effort\<close>.
\<close>

theorem parsed_severity_matches_partition:
  assumes "parse_llm_analysis loads pl = Inr r"
    and "partition_actions (res_output_actions r) = Inr (c, b)"
  shows "(\<forall>a \<in> set c. severity a = ''critical'') \<and> (\<forall>a \<in> set b. severity a = ''best_effort'')"
proof -
  from assms(1) obtain data where d: "parse_analysis_dict data = Inr r" by (rule parse_llm_analysis_Inr)
  then have acts: "parse_actions data = Inr (res_output_actions r)"
    unfolding parse_analysis_dict_def by (auto simp: rbind_eq_Inr)
  have "c = filter is_critical (res_output_actions r) \<and> b = filter is_best_effort (res_output_actions r)"
    using assms(2) by (auto simp: partition_actions_def partition_loop_spec split: option.splits)
  with parse_actions_Inr [OF acts] show ?thesis
    by (auto simp: infer_severity_critical infer_severity_best_effort)
qed

theorem parsed_severity_matches_partition_witness:
  "\<exists>r c b. parse_llm_analysis (\<lambda>_. None) (PayloadDict demo_analysis) = Inr r \<and>
     partition_actions (res_output_actions r) = Inr (c, b) \<and> (\<forall>a \<in> set c. severity a = ''critical'')"
proof -
  have "\<exists>r c b. parse_llm_analysis (\<lambda>_. None) (PayloadDict demo_analysis) = Inr r \<and>
     partition_actions (res_output_actions r) = Inr (c, b)"
    unfolding parse_llm_analysis_def parse_analysis_dict_def load_payload_def demo_analysis_def
    by (simp add: require_str_def get_or_none_def parse_actions_def parse_output_action_def
        action_payload_def check_fields_Inr required_fields_def TYPE_SPECIFIC_REQUIRED_def field_ok_def
        parse_needs_info_def optional_str_def default_str_def parse_token_usage_def
        WORKFLOW_TYPE_CAPABILITIES_def VALID_CONFIDENCES_def strip_def lstrip_def is_space_def
        partition_actions_def partition_loop_Cons is_critical_def CRITICAL_OUTPUT_ACTION_KINDS_def)
  then obtain r c b where r: "parse_llm_analysis (\<lambda>_. None) (PayloadDict demo_analysis) = Inr r"
    and p: "partition_actions (res_output_actions r) = Inr (c, b)" by blast
  from parsed_severity_matches_partition [OF r p] r p show ?thesis by blast
qed

text \<open>
  The accepted action vocabulary is not enforced: every non-empty action type is accepted
  and marked critical when it is unclassified, and the partition of such an analysis raises; and a
  JSON text that is not an object raises \<open>AttributeError\<close> instead of the documented error.
\<close>

theorem action_vocabulary_not_enforced:
  assumes "t \<noteq> []" and "t \<notin> CRITICAL_OUTPUT_ACTION_KINDS \<union> BEST_EFFORT_OUTPUT_ACTION_KINDS"
    and "loads text = Some (PList xs)"
  shows "(\<exists>a. parse_output_action (PDict [(''type'', PStr t)]) = Inr a \<and> severity a = ''critical'' \<and>
             partition_actions [a] = Inl (UnclassifiedKind t)) \<and>
         parse_llm_analysis loads (PayloadStr text) = Inl AttributeError"
  using assms
  by (simp add: parse_output_action_def get_or_none_def action_payload_def infer_severity_def
      partition_actions_def partition_loop.simps parse_llm_analysis_def load_payload_def)

theorem action_vocabulary_not_enforced_witness:
  "(\<exists>a. parse_output_action (PDict [(''type'', PStr ''drop_database'')]) = Inr a \<and> severity a = ''critical'') \<and>
   parse_llm_analysis (\<lambda>s. Some (PList [])) (PayloadStr ''[]'') = Inl AttributeError"
  using action_vocabulary_not_enforced [of "''drop_database''" "\<lambda>s. Some (PList [])" "''[]''" "[]"]
  by (auto simp: CRITICAL_OUTPUT_ACTION_KINDS_def BEST_EFFORT_OUTPUT_ACTION_KINDS_def)

end
