(* ===== verification/Approval_Gate.thy ===== *)
theory Approval_Gate
  imports Platform_Prelude
begin

text \<open>
  \<^verbatim>\<open>workers/automation-worker/src/automation_worker/workflows/approval_gate.py\<close>: the workflow that
  holds a commit back until an authorised user decides.

  The workflow is a state machine driven by the events the Temporal runtime delivers: the start
  of \<open>run\<close>, a signal, the end of an activity (with or without an exception, which both helpers
  swallow), an evaluation of the awaited condition, and the timer. A suspended \<open>run\<close> is its
  phase: the effects still to be awaited and where control goes afterwards. An event that is not
  enabled in a phase leaves the state as it is. The regular expressions of a department are
  compiled by the parameter \<open>rx\<close> (\<open>None\<close> for \<open>re.error\<close>); nothing is assumed of it. The comment
  texts are represented by their template and its arguments.
\<close>

section \<open>Data\<close>

record ApprovalGateInput =
  issue_key :: pystr
  dept_id :: pystr
  workflow_id :: pystr
  commit_files :: "pystr list"
  approval_required_paths :: "pystr list"
  approvers :: "pystr list"

record ApprovalGateResult =
  approved :: bool
  timed_out :: bool
  approver_id :: "pystr option"
  matched_paths :: "pystr list"

datatype comment_body =
    ApprovalRequestComment "pystr list"
  | TimeoutComment
  | RejectionComment pystr
  | ApprovalComment pystr

datatype gate_effect =
    JiraAddComment pystr pystr comment_body
  | AuditWrite pystr pystr pystr "pystr list" "pystr option"

section \<open>Helpers\<close>

definition compile_patterns :: "(pystr \<Rightarrow> (pystr \<Rightarrow> bool) option) \<Rightarrow> pystr list \<Rightarrow> (pystr \<Rightarrow> bool) list" where
  "compile_patterns rx ps = List.map_filter rx ps"

definition match_approval_paths ::
  "(pystr \<Rightarrow> (pystr \<Rightarrow> bool) option) \<Rightarrow> pystr list \<Rightarrow> pystr list \<Rightarrow> pystr list" where
  "match_approval_paths rx files patterns =
     (if patterns = [] \<or> files = [] then []
      else filter (\<lambda>f. list_ex (\<lambda>c. c f) (compile_patterns rx patterns)) files)"

definition is_authorized_approver :: "pystr \<Rightarrow> pystr list \<Rightarrow> bool" where
  "is_authorized_approver user_id as \<longleftrightarrow> user_id \<in> set as"

definition parse_approval_decision :: "pystr \<Rightarrow> pystr option" where
  "parse_approval_decision decision =
     (let l = lower decision
      in if contains_sub ''[approve]'' l then Some ''approve''
         else if contains_sub ''[reject]'' l then Some ''reject''
         else None)"

section \<open>The workflow\<close>

datatype continuation = ToWait | ToReturn ApprovalGateResult

datatype gate_phase =
    NotStarted
  | Effects "gate_effect list" continuation \<comment> \<open>suspended in the activity at the head\<close>
  | Waiting \<comment> \<open>suspended in \<open>wait_condition\<close>\<close>
  | Returned ApprovalGateResult

record gate_state =
  decision :: "pystr option" \<comment> \<open>\<open>self._decision\<close>\<close>
  decision_user_id :: "pystr option" \<comment> \<open>\<open>self._decision_user_id\<close>\<close>
  phase :: gate_phase
  attempted :: "gate_effect list" \<comment> \<open>activities that have ended, in order\<close>

datatype gate_event =
    Start
  | Signal pystr pystr
  | ActivityEnd bool \<comment> \<open>\<open>False\<close>: the activity raised\<close>
  | Evaluate
  | Timer

definition init_gate :: gate_state where
  "init_gate = \<lparr>decision = None, decision_user_id = None, phase = NotStarted, attempted = []\<rparr>"

definition approval_received :: "pystr \<Rightarrow> pystr \<Rightarrow> gate_state \<Rightarrow> gate_state" where
  "approval_received user_id text s =
     (case parse_approval_decision text of
        None \<Rightarrow> s
      | Some d \<Rightarrow> s\<lparr>decision := Some d, decision_user_id := Some user_id\<rparr>)"

definition has_authorized_decision :: "ApprovalGateInput \<Rightarrow> gate_state \<Rightarrow> bool \<times> gate_state" where
  "has_authorized_decision inp s =
     (if decision s = None then (False, s)
      else if \<not> is_authorized_approver (case decision_user_id s of None \<Rightarrow> [] | Some u \<Rightarrow> u) (approvers inp)
      then (False, s\<lparr>decision := None, decision_user_id := None\<rparr>)
      else (True, s))"

definition post_jira_comment :: "ApprovalGateInput \<Rightarrow> comment_body \<Rightarrow> gate_effect" where
  "post_jira_comment inp body = JiraAddComment (issue_key inp) (dept_id inp) body"

definition write_audit_log :: "ApprovalGateInput \<Rightarrow> pystr \<Rightarrow> pystr list \<Rightarrow> pystr option \<Rightarrow> gate_effect" where
  "write_audit_log inp event ps user =
     AuditWrite (workflow_id inp) (issue_key inp) (''approval_'' @ event) ps user"

definition skip_result :: ApprovalGateResult where
  "skip_result = \<lparr>approved = True, timed_out = False, approver_id = None, matched_paths = []\<rparr>"

definition run_begin ::
  "(pystr \<Rightarrow> (pystr \<Rightarrow> bool) option) \<Rightarrow> ApprovalGateInput \<Rightarrow> gate_phase" where
  "run_begin rx inp =
     (if approval_required_paths inp = [] then Returned skip_result
      else let ps = match_approval_paths rx (commit_files inp) (approval_required_paths inp)
           in if ps = [] then Returned skip_result
              else Effects [post_jira_comment inp (ApprovalRequestComment ps),
                            write_audit_log inp ''requested'' ps None] ToWait)"

definition run_timeout :: "ApprovalGateInput \<Rightarrow> pystr list \<Rightarrow> gate_phase" where
  "run_timeout inp ps =
     Effects [post_jira_comment inp TimeoutComment, write_audit_log inp ''timeout'' ps None]
       (ToReturn \<lparr>approved = False, timed_out = True, approver_id = None, matched_paths = ps\<rparr>)"

definition run_decide :: "ApprovalGateInput \<Rightarrow> pystr list \<Rightarrow> gate_state \<Rightarrow> gate_phase" where
  "run_decide inp ps s =
     (let user = (case decision_user_id s of None \<Rightarrow> [] | Some u \<Rightarrow> u)
      in if decision s = Some ''approve''
         then Effects [post_jira_comment inp (ApprovalComment user),
                       write_audit_log inp ''approved'' ps (Some user)]
                (ToReturn \<lparr>approved = True, timed_out = False, approver_id = Some user, matched_paths = ps\<rparr>)
         else Effects [post_jira_comment inp (RejectionComment user),
                       write_audit_log inp ''rejected'' ps (Some user)]
                (ToReturn \<lparr>approved = False, timed_out = False, approver_id = Some user, matched_paths = ps\<rparr>))"

fun next_phase :: "gate_effect list \<Rightarrow> continuation \<Rightarrow> gate_phase" where
  "next_phase (e # es) k = Effects (e # es) k"
| "next_phase [] ToWait = Waiting"
| "next_phase [] (ToReturn r) = Returned r"

definition gate_step ::
  "(pystr \<Rightarrow> (pystr \<Rightarrow> bool) option) \<Rightarrow> ApprovalGateInput \<Rightarrow> gate_state \<Rightarrow> gate_event \<Rightarrow> gate_state" where
  "gate_step rx inp s ev =
     (let ps = match_approval_paths rx (commit_files inp) (approval_required_paths inp)
      in case ev of
           Signal user_id text \<Rightarrow> approval_received user_id text s
         | Start \<Rightarrow> (case phase s of NotStarted \<Rightarrow> s\<lparr>phase := run_begin rx inp\<rparr> | _ \<Rightarrow> s)
         | ActivityEnd ok \<Rightarrow>
             (case phase s of
                Effects (e # es) k \<Rightarrow> s\<lparr>phase := next_phase es k, attempted := attempted s @ [e]\<rparr>
              | _ \<Rightarrow> s)
         | Evaluate \<Rightarrow>
             (case phase s of
                Waiting \<Rightarrow>
                  (case has_authorized_decision inp s of
                     (True, s') \<Rightarrow> s'\<lparr>phase := run_decide inp ps s'\<rparr>
                   | (False, s') \<Rightarrow> s')
              | _ \<Rightarrow> s)
         | Timer \<Rightarrow> (case phase s of Waiting \<Rightarrow> s\<lparr>phase := run_timeout inp ps\<rparr> | _ \<Rightarrow> s))"

text \<open>The machine together with the events it has received.\<close>

definition traced_step ::
  "(pystr \<Rightarrow> (pystr \<Rightarrow> bool) option) \<Rightarrow> ApprovalGateInput \<Rightarrow> gate_state \<times> gate_event list \<Rightarrow>
     gate_event \<Rightarrow> gate_state \<times> gate_event list" where
  "traced_step rx inp = (\<lambda>(s, h) ev. (gate_step rx inp s ev, h @ [ev]))"

section \<open>Specification\<close>

definition signalled :: "gate_event list \<Rightarrow> pystr \<Rightarrow> pystr \<Rightarrow> bool" where
  \<comment> \<open>\<open>user\<close> has sent a comment whose decision is \<open>d\<close>\<close>
  "signalled h user d \<longleftrightarrow>
     list_ex (\<lambda>ev. case ev of Signal u t \<Rightarrow> u = user \<and> parse_approval_decision t = Some d | _ \<Rightarrow> False) h"

definition request_trail :: "ApprovalGateInput \<Rightarrow> pystr list \<Rightarrow> gate_effect list" where
  "request_trail inp ps =
     [post_jira_comment inp (ApprovalRequestComment ps), write_audit_log inp ''requested'' ps None]"

definition outcome_trail :: "ApprovalGateInput \<Rightarrow> pystr list \<Rightarrow> ApprovalGateResult \<Rightarrow> gate_effect list" where
  "outcome_trail inp ps r =
     (case approver_id r of
        None \<Rightarrow> [post_jira_comment inp TimeoutComment, write_audit_log inp ''timeout'' ps None]
      | Some u \<Rightarrow>
          if approved r
          then [post_jira_comment inp (ApprovalComment u), write_audit_log inp ''approved'' ps (Some u)]
          else [post_jira_comment inp (RejectionComment u), write_audit_log inp ''rejected'' ps (Some u)])"

definition decided_ok :: "ApprovalGateInput \<Rightarrow> pystr list \<Rightarrow> gate_event list \<Rightarrow> ApprovalGateResult \<Rightarrow> bool" where
  \<comment> \<open>a result after the request was posted: a timeout, or the decision of an authorised user\<close>
  "decided_ok inp ps h r \<longleftrightarrow>
     ps \<noteq> [] \<and> matched_paths r = ps \<and>
     (case approver_id r of
        None \<Rightarrow> timed_out r \<and> \<not> approved r
      | Some u \<Rightarrow> \<not> timed_out r \<and> u \<in> set (approvers inp) \<and>
                  signalled h u (if approved r then ''approve'' else ''reject''))"

definition pending_ok :: "gate_event list \<Rightarrow> pystr option \<Rightarrow> pystr option \<Rightarrow> bool" where
  \<comment> \<open>a stored decision was sent by the stored user\<close>
  "pending_ok h d u =
     (case d of
        None \<Rightarrow> True
      | Some x \<Rightarrow> x \<in> {''approve'', ''reject''} \<and> (\<exists>v. u = Some v \<and> signalled h v x))"

fun phase_ok :: "ApprovalGateInput \<Rightarrow> pystr list \<Rightarrow> gate_event list \<Rightarrow> gate_phase \<Rightarrow> gate_effect list \<Rightarrow> bool" where
  \<comment> \<open>the effects so far and the effects still due make up the trail of the phase\<close>
  "phase_ok inp ps h NotStarted tr = (tr = [])"
| "phase_ok inp ps h (Effects es ToWait) tr = (es \<noteq> [] \<and> ps \<noteq> [] \<and> tr @ es = request_trail inp ps)"
| "phase_ok inp ps h (Effects es (ToReturn r)) tr =
     (es \<noteq> [] \<and> decided_ok inp ps h r \<and> tr @ es = request_trail inp ps @ outcome_trail inp ps r)"
| "phase_ok inp ps h Waiting tr = (ps \<noteq> [] \<and> tr = request_trail inp ps)"
| "phase_ok inp ps h (Returned r) tr =
     ((ps = [] \<and> r = skip_result \<and> tr = []) \<or>
      (decided_ok inp ps h r \<and> tr = request_trail inp ps @ outcome_trail inp ps r))"

definition gate_invar ::
  "(pystr \<Rightarrow> (pystr \<Rightarrow> bool) option) \<Rightarrow> ApprovalGateInput \<Rightarrow> gate_state \<times> gate_event list \<Rightarrow> bool" where
  "gate_invar rx inp = (\<lambda>(s, h).
     pending_ok h (decision s) (decision_user_id s) \<and>
     phase_ok inp (match_approval_paths rx (commit_files inp) (approval_required_paths inp)) h
       (phase s) (attempted s))"

section \<open>Lemmas\<close>

lemma parse_approval_decision_cases:
  "parse_approval_decision t = Some d \<Longrightarrow> d = ''approve'' \<or> d = ''reject''"
  by (auto simp: parse_approval_decision_def Let_def split: if_splits)

lemma signalled_snoc: "signalled h u d \<Longrightarrow> signalled (h @ [ev]) u d"
  by (simp add: signalled_def)

lemma signalled_now: "parse_approval_decision t = Some d \<Longrightarrow> signalled (h @ [Signal u t]) u d"
  by (simp add: signalled_def)

lemma decided_ok_snoc: "decided_ok inp ps h r \<Longrightarrow> decided_ok inp ps (h @ [ev]) r"
  by (auto simp: decided_ok_def signalled_snoc split: option.splits)

lemma match_approval_paths_skip: "match_approval_paths rx files [] = []"
  by (simp add: match_approval_paths_def)

lemma pending_ok_snoc: "pending_ok h d u \<Longrightarrow> pending_ok (h @ [ev]) d u"
  by (auto simp: pending_ok_def signalled_snoc split: option.splits)

lemma phase_ok_snoc: "phase_ok inp ps h p tr \<Longrightarrow> phase_ok inp ps (h @ [ev]) p tr"
  by (induction inp ps h p tr rule: phase_ok.induct) (auto simp: decided_ok_snoc)

lemma gate_invar_history: "gate_invar rx inp (s, h) \<Longrightarrow> gate_invar rx inp (s, h @ [ev])"
  by (auto simp: gate_invar_def pending_ok_snoc phase_ok_snoc)

lemma gate_invar_signal:
  assumes "gate_invar rx inp (s, h)"
  shows "gate_invar rx inp (approval_received u t s, h @ [Signal u t])"
proof (cases "parse_approval_decision t")
  case None
  with gate_invar_history [OF assms] show ?thesis by (simp add: approval_received_def)
next
  case (Some d)
  have "signalled (h @ [Signal u t]) u d" using Some by (rule signalled_now)
  with gate_invar_history [OF assms, of "Signal u t"] Some parse_approval_decision_cases [OF Some]
  show ?thesis by (auto simp: approval_received_def gate_invar_def pending_ok_def)
qed

lemma gate_invar_start:
  assumes "gate_invar rx inp (s, h)" and "phase s = NotStarted"
  shows "gate_invar rx inp (s\<lparr>phase := run_begin rx inp\<rparr>, h)"
  using assms
  by (auto simp: gate_invar_def run_begin_def Let_def request_trail_def match_approval_paths_skip)

lemma gate_invar_activity:
  assumes "gate_invar rx inp (s, h)" and "phase s = Effects (e # es) k"
  shows "gate_invar rx inp (s\<lparr>phase := next_phase es k, attempted := attempted s @ [e]\<rparr>, h)"
  using assms by (cases es; cases k) (auto simp: gate_invar_def Let_def)

lemma gate_invar_timer:
  assumes "gate_invar rx inp (s, h)" and "phase s = Waiting"
  shows "gate_invar rx inp
    (s\<lparr>phase := run_timeout inp (match_approval_paths rx (commit_files inp) (approval_required_paths inp))\<rparr>, h)"
  using assms
  by (auto simp: gate_invar_def Let_def run_timeout_def decided_ok_def outcome_trail_def)

lemma gate_invar_decide:
  assumes "gate_invar rx inp (s, h)" and "phase s = Waiting" and "has_authorized_decision inp s = (True, s')"
  shows "gate_invar rx inp
    (s'\<lparr>phase := run_decide inp (match_approval_paths rx (commit_files inp) (approval_required_paths inp)) s'\<rparr>, h)"
proof -
  from assms(3) have s': "s' = s" and "decision s \<noteq> None"
    and auth: "is_authorized_approver (case decision_user_id s of None \<Rightarrow> [] | Some u \<Rightarrow> u) (approvers inp)"
    by (auto simp: has_authorized_decision_def split: if_splits)
  then obtain d where d: "decision s = Some d" by blast
  with assms(1) obtain u where u: "decision_user_id s = Some u" "signalled h u d"
    and dd: "d = ''approve'' \<or> d = ''reject''" by (auto simp: gate_invar_def pending_ok_def)
  with auth have "u \<in> set (approvers inp)" by (simp add: is_authorized_approver_def)
  with assms(1,2) d u dd show ?thesis unfolding s'
    by (auto simp: gate_invar_def Let_def run_decide_def decided_ok_def outcome_trail_def)
qed

lemma gate_invar_reset:
  assumes "gate_invar rx inp (s, h)" and "has_authorized_decision inp s = (False, s')"
  shows "gate_invar rx inp (s', h)"
  using assms by (auto simp: gate_invar_def has_authorized_decision_def pending_ok_def split: if_splits)

lemma gate_invar_step:
  assumes "gate_invar rx inp (s, h)"
  shows "gate_invar rx inp (gate_step rx inp s ev, h @ [ev])"
proof -
  note keep = gate_invar_history [OF assms, of ev]
  show ?thesis
  proof (cases ev)
    case Start
    with keep show ?thesis
      by (auto simp: gate_step_def gate_invar_start split: gate_phase.splits)
  next
    case (Signal u t)
    with assms show ?thesis by (simp add: gate_step_def gate_invar_signal)
  next
    case (ActivityEnd ok)
    with keep show ?thesis
      by (auto simp: gate_step_def gate_invar_activity split: gate_phase.splits list.splits)
  next
    case Evaluate
    show ?thesis
    proof (cases "phase s = Waiting")
      case True
      obtain b s' where ev: "has_authorized_decision inp s = (b, s')" by fastforce
      with keep True Evaluate show ?thesis
        by (cases b) (auto simp: gate_step_def Let_def gate_invar_reset gate_invar_decide)
    next
      case False
      with keep Evaluate show ?thesis by (auto simp: gate_step_def split: gate_phase.splits)
    qed
  next
    case Timer
    with keep show ?thesis
      by (auto simp: gate_step_def Let_def gate_invar_timer split: gate_phase.splits)
  qed
qed

interpretation approval: stateful_component "traced_step rx inp" "\<lambda>x. x = (init_gate, [])" "gate_invar rx inp"
  for rx inp
proof unfold_locales
  fix x :: "gate_state \<times> gate_event list" assume "x = (init_gate, [])"
  then show "gate_invar rx inp x" by (simp add: gate_invar_def init_gate_def pending_ok_def)
next
  fix x :: "gate_state \<times> gate_event list" and ev assume "gate_invar rx inp x"
  then show "gate_invar rx inp (traced_step rx inp x ev)"
    by (cases x) (simp add: traced_step_def gate_invar_step)
qed

lemma run_traced: "run_ops (traced_step rx inp) (s, h) evs = (run_ops (gate_step rx inp) s evs, h @ evs)"
  by (induction evs arbitrary: s h) (simp_all add: traced_step_def)

lemma reachable_gate_invar: "gate_invar rx inp (run_ops (gate_step rx inp) init_gate evs, evs)"
  using approval.invar_reachable [of "(init_gate, [])" rx inp evs] by (simp add: run_traced)

section \<open>Properties\<close>

text \<open>
  C1. Whatever signals, activity failures and timers the workflow sees, it returns only one of four
  results: no file matched and nothing was posted; a timeout, never approved; or the approval or
  rejection of a user on the approvers' list who sent that decision. In the last three cases the
  trail is the request comment, the \<open>requested\<close> record, one outcome comment and one record of
  that outcome, in this order.
\<close>

theorem approval_gate_safety:
  assumes "phase (run_ops (gate_step rx inp) init_gate evs) = Returned r"
    and "ps = match_approval_paths rx (commit_files inp) (approval_required_paths inp)"
  shows "(ps = [] \<and> r = skip_result \<and> attempted (run_ops (gate_step rx inp) init_gate evs) = []) \<or>
         (decided_ok inp ps evs r \<and>
          attempted (run_ops (gate_step rx inp) init_gate evs) = request_trail inp ps @ outcome_trail inp ps r)"
  using reachable_gate_invar [of rx inp evs] assms by (simp add: gate_invar_def)

definition demo_input :: ApprovalGateInput where
  "demo_input = \<lparr>issue_key = ''PAY-1'', dept_id = ''pay'', workflow_id = ''wf'',
     commit_files = [''infra/main.tf''], approval_required_paths = [''infra/''], approvers = [''alice'']\<rparr>"

definition demo_rx :: "pystr \<Rightarrow> (pystr \<Rightarrow> bool) option" where
  "demo_rx p = Some (contains_sub p)"

theorem approval_gate_safety_witness:
  "decided_ok demo_input [''infra/main.tf'']
     [Start, ActivityEnd True, ActivityEnd False, Signal ''alice'' ''ok [Approve]'', Evaluate, ActivityEnd True, ActivityEnd True]
     \<lparr>approved = True, timed_out = False, approver_id = Some ''alice'', matched_paths = [''infra/main.tf'']\<rparr>"
proof -
  let ?evs = "[Start, ActivityEnd True, ActivityEnd False, Signal ''alice'' ''ok [Approve]'', Evaluate,
     ActivityEnd True, ActivityEnd True]"
  let ?r = "\<lparr>approved = True, timed_out = False, approver_id = Some ''alice'', matched_paths = [''infra/main.tf'']\<rparr>"
  have p: "phase (run_ops (gate_step demo_rx demo_input) init_gate ?evs) = Returned ?r" by code_simp
  have m: "[''infra/main.tf''] = match_approval_paths demo_rx (commit_files demo_input) (approval_required_paths demo_input)"
    by code_simp
  from approval_gate_safety [OF p m] show ?thesis by simp
qed

text \<open>
  A waiting workflow whose pending decision comes from an authorised user returns that decision
  after the next evaluation and two activities, whether these succeed or not; and one that is still
  waiting when the timer fires returns the timeout.
\<close>

theorem approval_gate_returns:
  assumes "phase s = Waiting" and "decision s = Some d" and "decision_user_id s = Some u"
    and "u \<in> set (approvers inp)"
  shows "phase (run_ops (gate_step rx inp) s [Evaluate, ActivityEnd a, ActivityEnd b]) =
           Returned \<lparr>approved = (d = ''approve''), timed_out = False, approver_id = Some u,
             matched_paths = match_approval_paths rx (commit_files inp) (approval_required_paths inp)\<rparr> \<and>
         phase (run_ops (gate_step rx inp) s [Timer, ActivityEnd a, ActivityEnd b]) =
           Returned \<lparr>approved = False, timed_out = True, approver_id = None,
             matched_paths = match_approval_paths rx (commit_files inp) (approval_required_paths inp)\<rparr>"
  using assms
  by (simp add: gate_step_def has_authorized_decision_def is_authorized_approver_def run_decide_def
      run_timeout_def Let_def)

theorem approval_gate_returns_witness:
  "phase (run_ops (gate_step demo_rx demo_input)
     \<lparr>decision = Some ''reject'', decision_user_id = Some ''alice'', phase = Waiting, attempted = []\<rparr>
     [Evaluate, ActivityEnd False, ActivityEnd True]) =
   Returned \<lparr>approved = False, timed_out = False, approver_id = Some ''alice'',
     matched_paths = match_approval_paths demo_rx (commit_files demo_input) (approval_required_paths demo_input)\<rparr>"
  using approval_gate_returns [of "\<lparr>decision = Some ''reject'', decision_user_id = Some ''alice'',
      phase = Waiting, attempted = []\<rparr>" "''reject''" "''alice''" demo_input demo_rx False True]
  by (simp add: demo_input_def)

text \<open>
  A signal of an unauthorised user is not ignored: one that arrives before the condition is
  evaluated replaces a pending decision of an authorised user, and the evaluation then clears both,
  so the workflow goes on waiting as if nobody had answered.
\<close>

theorem unauthorised_signal_erases_decision:
  assumes "phase s = Waiting" and "m \<notin> set (approvers inp)"
    and "parse_approval_decision yes = Some d" and "parse_approval_decision no = Some d'"
  shows "run_ops (gate_step rx inp) s [Signal u yes, Signal m no, Evaluate] =
         s\<lparr>decision := None, decision_user_id := None\<rparr>"
  using assms
  by (simp add: gate_step_def approval_received_def has_authorized_decision_def is_authorized_approver_def)

theorem unauthorised_signal_erases_decision_witness:
  "run_ops (gate_step demo_rx demo_input)
     \<lparr>decision = None, decision_user_id = None, phase = Waiting, attempted = []\<rparr>
     [Signal ''alice'' ''[approve]'', Signal ''mallory'' ''[reject]'', Evaluate] =
   \<lparr>decision = None, decision_user_id = None, phase = Waiting, attempted = []\<rparr>"
proof -
  have "parse_approval_decision ''[approve]'' = Some ''approve''"
    and "parse_approval_decision ''[reject]'' = Some ''reject''" by code_simp+
  then show ?thesis
    using unauthorised_signal_erases_decision [of "\<lparr>decision = None, decision_user_id = None,
        phase = Waiting, attempted = []\<rparr>" "''mallory''" demo_input "''[approve]''" "''approve''"
        "''[reject]''" "''reject''" demo_rx "''alice''"]
    by (simp add: demo_input_def)
qed

end
