(* ===== verification/Llm_Fallback.thy ===== *)
theory Llm_Fallback
  imports Platform_Prelude
begin

text \<open>
  \<^verbatim>\<open>libs/llm-orchestrator/src/llm_orchestrator/fallback.py\<close>: switching between a primary and a
  fallback LLM provider, and the default HTTP provider.

  The two providers are arguments of the operations: a function from the number of the call and
  the request to its outcome, so a provider may answer the same request differently each time and
  nothing is assumed of it. The counters of the state number the calls. A call of an operation is one
  step; requests in flight at the same time on one factory are not interleaved.
\<close>

section \<open>Data\<close>

record LLMProviderConfig =
  cfg_name :: pystr
  base_url :: pystr
  api_key :: pystr
  timeout_seconds :: rat

datatype error_reason =
    TimeoutAfter rat
  | TimeoutOnRetry rat nat
  | HttpAfterAttempts int nat

record FallbackEvent =
  ev_timestamp :: datetime
  failed_provider :: pystr
  ev_error_reason :: error_reason
  switched_to :: pystr

datatype fallback_error = FallbackTimeout | FallbackHttp int

record unavailable_context =
  ctx_dept_id :: pystr
  primary_provider :: pystr
  fallback_provider :: pystr
  ctx_fallback_error :: fallback_error

datatype llm_error =
    LLMUnavailableError unavailable_context
  | ProviderError pystr \<comment> \<open>any other exception of a provider, by its class\<close>

datatype outcome =
    Reply pyval
  | ProviderTimeout \<comment> \<open>\<open>asyncio.TimeoutError\<close>\<close>
  | LLMServerError int
  | OtherError pystr

record llm_request =
  prompt :: pystr
  kwargs :: "pyval pydict"

type_synonym provider = "nat \<Rightarrow> llm_request \<Rightarrow> outcome"

record factory =
  primary_config :: LLMProviderConfig
  fallback_config :: LLMProviderConfig
  using_fallback :: bool
  fallback_switch_time :: datetime
  fallback_events :: "FallbackEvent list"
  probe_scheduled :: bool \<comment> \<open>\<open>_health_probe_task\<close> exists and is not done\<close>
  primary_calls :: nat
  fallback_calls :: nat
  sleeps :: "int list" \<comment> \<open>the retry pauses in seconds\<close>

definition MAX_5XX_RETRIES :: nat where
  "MAX_5XX_RETRIES = 3"

definition RETRY_INTERVAL_SECONDS :: int where
  "RETRY_INTERVAL_SECONDS = 2"

definition new_factory :: "LLMProviderConfig \<Rightarrow> LLMProviderConfig \<Rightarrow> factory" where
  "new_factory p f =
     \<lparr>primary_config = p, fallback_config = f, using_fallback = False, fallback_switch_time = 0,
      fallback_events = [], probe_scheduled = False, primary_calls = 0, fallback_calls = 0, sleeps = []\<rparr>"

definition active_provider_name :: "factory \<Rightarrow> pystr" where
  "active_provider_name s =
     (if using_fallback s then cfg_name (fallback_config s) else cfg_name (primary_config s))"

section \<open>Completion\<close>

definition call_primary :: "provider \<Rightarrow> llm_request \<Rightarrow> factory \<Rightarrow> outcome \<times> factory" where
  "call_primary p req s = (p (primary_calls s) req, s\<lparr>primary_calls := Suc (primary_calls s)\<rparr>)"

definition call_fallback :: "provider \<Rightarrow> llm_request \<Rightarrow> factory \<Rightarrow> outcome \<times> factory" where
  "call_fallback f req s = (f (fallback_calls s) req, s\<lparr>fallback_calls := Suc (fallback_calls s)\<rparr>)"

definition schedule_health_probe :: "factory \<Rightarrow> factory" where
  \<comment> \<open>a pending probe is cancelled and replaced\<close>
  "schedule_health_probe s = s\<lparr>probe_scheduled := True\<rparr>"

definition switch_to_fallback :: "datetime \<Rightarrow> error_reason \<Rightarrow> factory \<Rightarrow> factory" where
  \<comment> \<open>a failing notification callback is swallowed\<close>
  "switch_to_fallback now reason s =
     (let event = \<lparr>ev_timestamp = now, failed_provider = cfg_name (primary_config s),
                   ev_error_reason = reason, switched_to = cfg_name (fallback_config s)\<rparr>
      in schedule_health_probe
           (s\<lparr>using_fallback := True, fallback_switch_time := now,
              fallback_events := fallback_events s @ [event]\<rparr>))"

definition unavailable :: "factory \<Rightarrow> pystr \<Rightarrow> fallback_error \<Rightarrow> llm_error" where
  "unavailable s dept e =
     LLMUnavailableError
       \<lparr>ctx_dept_id = dept, primary_provider = cfg_name (primary_config s),
        fallback_provider = cfg_name (fallback_config s), ctx_fallback_error = e\<rparr>"

definition try_fallback ::
  "provider \<Rightarrow> pystr \<Rightarrow> llm_request \<Rightarrow> factory \<Rightarrow> (llm_error + pyval) \<times> factory" where
  "try_fallback f dept req s =
     (let (r, s') = call_fallback f req s
      in case r of
           Reply t \<Rightarrow> (Inr t, s')
         | ProviderTimeout \<Rightarrow> (Inl (unavailable s' dept FallbackTimeout), s')
         | LLMServerError c \<Rightarrow> (Inl (unavailable s' dept (FallbackHttp c)), s')
         | OtherError e \<Rightarrow> (Inl (ProviderError e), s'))"

fun retry_loop ::
  "provider \<Rightarrow> provider \<Rightarrow> datetime \<Rightarrow> pystr \<Rightarrow> llm_request \<Rightarrow> nat list \<Rightarrow> int \<Rightarrow> factory \<Rightarrow>
     (llm_error + pyval) \<times> factory" where
  "retry_loop p f now dept req [] last_error s =
     try_fallback f dept req (switch_to_fallback now (HttpAfterAttempts last_error MAX_5XX_RETRIES) s)"
| "retry_loop p f now dept req (attempt # attempts) last_error s =
     (let (r, s') = call_primary p req (s\<lparr>sleeps := sleeps s @ [RETRY_INTERVAL_SECONDS]\<rparr>)
      in case r of
           Reply t \<Rightarrow> (Inr t, s')
         | ProviderTimeout \<Rightarrow>
             try_fallback f dept req
               (switch_to_fallback now (TimeoutOnRetry (timeout_seconds (primary_config s')) attempt) s')
         | LLMServerError c \<Rightarrow> retry_loop p f now dept req attempts c s'
         | OtherError e \<Rightarrow> (Inl (ProviderError e), s'))"

definition retry_primary_then_fallback ::
  "provider \<Rightarrow> provider \<Rightarrow> datetime \<Rightarrow> pystr \<Rightarrow> llm_request \<Rightarrow> int \<Rightarrow> factory \<Rightarrow>
     (llm_error + pyval) \<times> factory" where
  "retry_primary_then_fallback p f now dept req initial_error s =
     retry_loop p f now dept req [2 ..< MAX_5XX_RETRIES + 1] initial_error s"

definition try_primary ::
  "provider \<Rightarrow> provider \<Rightarrow> datetime \<Rightarrow> pystr \<Rightarrow> llm_request \<Rightarrow> factory \<Rightarrow>
     (llm_error + pyval) \<times> factory" where
  "try_primary p f now dept req s =
     (let (r, s') = call_primary p req s
      in case r of
           Reply t \<Rightarrow> (Inr t, s')
         | ProviderTimeout \<Rightarrow>
             try_fallback f dept req
               (switch_to_fallback now (TimeoutAfter (timeout_seconds (primary_config s'))) s')
         | LLMServerError c \<Rightarrow> retry_primary_then_fallback p f now dept req c s'
         | OtherError e \<Rightarrow> (Inl (ProviderError e), s'))"

definition complete ::
  "provider \<Rightarrow> provider \<Rightarrow> datetime \<Rightarrow> pystr \<Rightarrow> llm_request \<Rightarrow> factory \<Rightarrow>
     (llm_error + pyval) \<times> factory" where
  "complete p f now dept req s =
     (if \<not> using_fallback s then try_primary p f now dept req s else try_fallback f dept req s)"

section \<open>Health probe and reset\<close>

definition health_probe_primary :: "provider \<Rightarrow> factory \<Rightarrow> bool \<times> factory" where
  "health_probe_primary p s =
     (let (r, s') = call_primary p \<lparr>prompt = ''health_check'', kwargs = []\<rparr> s
      in case r of Reply _ \<Rightarrow> (True, s') | _ \<Rightarrow> (False, s'))"

definition force_health_probe :: "provider \<Rightarrow> factory \<Rightarrow> bool \<times> factory" where
  "force_health_probe p s =
     (let (success, s') = health_probe_primary p s
      in (success, if success then s'\<lparr>using_fallback := False\<rparr> else s'))"

definition delayed_health_probe :: "provider \<Rightarrow> factory \<Rightarrow> factory" where
  \<comment> \<open>the scheduled task after its sleep; it ends whatever the probe finds\<close>
  "delayed_health_probe p s =
     (if probe_scheduled s
      then let (success, s') = health_probe_primary p s
           in (if success then s'\<lparr>using_fallback := False\<rparr> else s')\<lparr>probe_scheduled := False\<rparr>
      else s)"

definition reset :: "factory \<Rightarrow> factory" where
  "reset s = s\<lparr>using_fallback := False, fallback_switch_time := 0, probe_scheduled := False\<rparr>"

datatype factory_op =
    Complete datetime pystr llm_request
  | ProbeFires
  | ForceProbe
  | Reset

fun factory_step :: "provider \<Rightarrow> provider \<Rightarrow> factory \<Rightarrow> factory_op \<Rightarrow> factory" where
  "factory_step p f s (Complete now dept req) = snd (complete p f now dept req s)"
| "factory_step p f s ProbeFires = delayed_health_probe p s"
| "factory_step p f s ForceProbe = snd (force_health_probe p s)"
| "factory_step p f s Reset = reset s"

section \<open>The HTTP provider\<close>

record http_request =
  url :: pystr
  json :: "pyval pydict"
  auth_header :: pystr

record http_response =
  status_code :: int
  body :: "pyval option" \<comment> \<open>\<open>None\<close>: the body is not JSON\<close>

definition join :: "pystr list \<Rightarrow> pystr" where
  "join xs = concat xs"

definition part_text :: "pyval \<Rightarrow> pystr list" where
  "part_text part =
     (case part of
        PDict d \<Rightarrow>
          if get_or_none d ''type'' \<in> {PStr ''output_text'', PStr ''text''}
          then (case get_or_none d ''text'' of PStr t \<Rightarrow> [t] | _ \<Rightarrow> [])
          else []
      | _ \<Rightarrow> [])"

definition item_text :: "pyval \<Rightarrow> pystr + pystr list" where
  "item_text item =
     (case item of
        PDict d \<Rightarrow>
          if get_or_none d ''type'' \<noteq> PStr ''message'' then Inr []
          else rbind (iter_value (get_or_none d ''content'')) (\<lambda>parts. Inr (concat (map part_text parts)))
      | _ \<Rightarrow> Inr [])"

definition extract_responses_text :: "pyval \<Rightarrow> pystr + pystr" where
  "extract_responses_text data =
     (case data of
        PDict d \<Rightarrow>
          let walk = rbind (iter_value (get_or_none d ''output'')) (\<lambda>items.
                     rbind (rmap item_text items) (\<lambda>chunks. Inr (join (concat chunks))))
          in (case get_or_none d ''output_text'' of
                PStr s \<Rightarrow> if s \<noteq> [] then Inr s else walk
              | PList xs \<Rightarrow>
                  let joined = join (List.map_filter as_str xs)
                  in if joined \<noteq> [] then Inr joined else walk
              | _ \<Rightarrow> walk)
      | _ \<Rightarrow> Inr [])"

definition rstrip_slash :: "pystr \<Rightarrow> pystr" where
  "rstrip_slash s = rev (dropWhile (\<lambda>c. c = CHR ''/'') (rev s))"

definition is_openai :: "LLMProviderConfig \<Rightarrow> bool" where
  "is_openai cfg \<longleftrightarrow>
     lower (strip (cfg_name cfg)) = ''openai'' \<or> contains_sub ''api.openai.com'' (lower (base_url cfg))"

definition kwarg :: "llm_request \<Rightarrow> pystr \<Rightarrow> pyval \<Rightarrow> pyval" where
  "kwarg req k d = (case dict_get (kwargs req) k of None \<Rightarrow> d | Some v \<Rightarrow> v)"

definition http_build :: "LLMProviderConfig \<Rightarrow> llm_request \<Rightarrow> http_request" where
  "http_build cfg req =
     (let base = rstrip_slash (base_url cfg); header = ''Bearer '' @ api_key cfg
      in if is_openai cfg
         then \<lparr>url = (if base \<noteq> [] then base @ ''/responses'' else ''https://api.openai.com/v1/responses''),
               json = [(''model'', kwarg req ''model'' (PStr ''default'')), (''input'', PStr (prompt req)),
                       (''max_output_tokens'', kwarg req ''max_tokens'' (PInt 2048)),
                       (''temperature'', kwarg req ''temperature'' (PFloat (2 / 10)))],
               auth_header = header\<rparr>
         else \<lparr>url = base @ ''/chat/completions'',
               json = [(''model'', kwarg req ''model'' (PStr ''default'')),
                       (''messages'', PList [PDict [(''role'', PStr ''user''), (''content'', PStr (prompt req))]]),
                       (''max_tokens'', kwarg req ''max_tokens'' (PInt 2048)),
                       (''temperature'', kwarg req ''temperature'' (PFloat (2 / 10)))],
               auth_header = header\<rparr>)"

definition dict_get_default :: "pyval \<Rightarrow> pystr \<Rightarrow> pyval \<Rightarrow> pystr + pyval" where
  \<comment> \<open>\<open>v.get(k, default)\<close>\<close>
  "dict_get_default v k d =
     (case v of PDict m \<Rightarrow> Inr (case dict_get m k of None \<Rightarrow> d | Some x \<Rightarrow> x) | _ \<Rightarrow> Inl ''AttributeError'')"

definition first_choice :: "pyval \<Rightarrow> pystr + pyval" where
  \<comment> \<open>\<open>choices[0]\<close> of a truthy value\<close>
  "first_choice v =
     (case v of
        PList xs \<Rightarrow> Inr (hd xs)
      | PTuple xs \<Rightarrow> Inr (hd xs)
      | PStr s \<Rightarrow> Inr (PStr [hd s])
      | PDict _ \<Rightarrow> Inl ''KeyError''
      | _ \<Rightarrow> Inl ''TypeError'')"

definition chat_content :: "pyval \<Rightarrow> pystr + pyval" where
  "chat_content data =
     rbind (dict_get_default data ''choices'' (PList [])) (\<lambda>choices.
       if truthy choices
       then rbind (first_choice choices) (\<lambda>c.
            rbind (dict_get_default c ''message'' (PDict [])) (\<lambda>m.
            dict_get_default m ''content'' (PStr [])))
       else Inr (PStr []))"

definition http_complete ::
  "(int \<Rightarrow> bool) \<Rightarrow> (http_request \<Rightarrow> pystr + http_response) \<Rightarrow> LLMProviderConfig \<Rightarrow> llm_request \<Rightarrow> outcome" where
  \<comment> \<open>\<open>post\<close> is the HTTP client, \<open>ok\<close> the statuses its \<open>raise_for_status\<close> lets pass\<close>
  "http_complete ok post cfg req =
     (case post (http_build cfg req) of
        Inl e \<Rightarrow> OtherError e
      | Inr resp \<Rightarrow>
          if status_code resp \<ge> 500 then LLMServerError (status_code resp)
          else if \<not> ok (status_code resp) then OtherError ''HTTPStatusError''
          else (case body resp of
                  None \<Rightarrow> OtherError ''JSONDecodeError''
                | Some data \<Rightarrow>
                    (case (if is_openai cfg
                           then (case extract_responses_text data of Inl e \<Rightarrow> Inl e | Inr t \<Rightarrow> Inr (PStr t))
                           else chat_content data) of
                       Inl e \<Rightarrow> OtherError e
                     | Inr v \<Rightarrow> Reply v)))"

section \<open>Lemmas\<close>

fun is_5xx :: "outcome \<Rightarrow> bool" where
  "is_5xx (LLMServerError _) = True"
| "is_5xx _ = False"

definition attempts :: "provider \<Rightarrow> llm_request \<Rightarrow> nat \<Rightarrow> outcome list" where
  \<comment> \<open>the outcomes of the next three calls\<close>
  "attempts p req n = [p n req, p (Suc n) req, p (Suc (Suc n)) req]"

definition failures :: "outcome list \<Rightarrow> nat" where
  "failures os = length (takeWhile is_5xx os)"

definition gives_up :: "outcome list \<Rightarrow> bool" where
  \<comment> \<open>the primary is abandoned: three server errors, or a timeout after at most two\<close>
  "gives_up os \<longleftrightarrow> failures os = 3 \<or> os ! failures os = ProviderTimeout"

lemma retry_attempts:
  "retry_primary_then_fallback p f now dept req e s = retry_loop p f now dept req [2, 3] e s"
proof -
  have "[2 ..< MAX_5XX_RETRIES + 1] = [2, 3]" by code_simp
  then show ?thesis by (simp only: retry_primary_then_fallback_def)
qed

lemma not_5xx_cases:
  assumes "\<not> is_5xx r"
  obtains t where "r = Reply t" | "r = ProviderTimeout" | e where "r = OtherError e"
  using assms by (cases r) auto

lemma is_5xxD: "is_5xx r \<Longrightarrow> \<exists>c. r = LLMServerError c"
  by (cases r) auto

lemmas completion_defs = complete_def try_primary_def retry_attempts
  call_primary_def switch_to_fallback_def schedule_health_probe_def attempts_def failures_def gives_up_def

lemma try_fallback_state: "snd (try_fallback f dept req s) = s\<lparr>fallback_calls := Suc (fallback_calls s)\<rparr>"
  by (auto simp: try_fallback_def call_fallback_def split: outcome.splits)

definition fallback_result ::
  "provider \<Rightarrow> pystr \<Rightarrow> llm_request \<Rightarrow> nat \<Rightarrow> LLMProviderConfig \<Rightarrow> LLMProviderConfig \<Rightarrow> llm_error + pyval" where
  "fallback_result f dept req n pc fc =
     (case f n req of
        Reply t \<Rightarrow> Inr t
      | OtherError e \<Rightarrow> Inl (ProviderError e)
      | ProviderTimeout \<Rightarrow> Inl (LLMUnavailableError \<lparr>ctx_dept_id = dept, primary_provider = cfg_name pc,
          fallback_provider = cfg_name fc, ctx_fallback_error = FallbackTimeout\<rparr>)
      | LLMServerError c \<Rightarrow> Inl (LLMUnavailableError \<lparr>ctx_dept_id = dept, primary_provider = cfg_name pc,
          fallback_provider = cfg_name fc, ctx_fallback_error = FallbackHttp c\<rparr>))"

lemma try_fallback_result:
  "fst (try_fallback f dept req s) =
     fallback_result f dept req (fallback_calls s) (primary_config s) (fallback_config s)"
  by (auto simp: try_fallback_def call_fallback_def unavailable_def fallback_result_def split: outcome.splits)

section \<open>Invariant of the factory\<close>

definition factory_invar :: "LLMProviderConfig \<Rightarrow> LLMProviderConfig \<Rightarrow> factory \<Rightarrow> bool" where
  "factory_invar pc fc s \<longleftrightarrow>
     primary_config s = pc \<and> fallback_config s = fc \<and>
     (using_fallback s \<longrightarrow> fallback_events s \<noteq> [] \<and>
        fallback_switch_time s = ev_timestamp (last (fallback_events s))) \<and>
     list_all (\<lambda>e. failed_provider e = cfg_name pc \<and> switched_to e = cfg_name fc) (fallback_events s) \<and>
     length (fallback_events s) \<le> fallback_calls s"

lemma factory_invar_switch:
  "factory_invar pc fc s \<Longrightarrow>
   factory_invar pc fc (snd (try_fallback f dept req (switch_to_fallback now reason s)))"
  by (auto simp: try_fallback_state switch_to_fallback_def schedule_health_probe_def factory_invar_def Let_def)

lemma factory_invar_fallback:
  "factory_invar pc fc s \<Longrightarrow> factory_invar pc fc (snd (try_fallback f dept req s))"
  by (auto simp: try_fallback_state factory_invar_def)

lemma factory_invar_counters:
  "factory_invar pc fc s \<Longrightarrow> factory_invar pc fc (s\<lparr>primary_calls := n, sleeps := xs\<rparr>)"
  "factory_invar pc fc s \<Longrightarrow> factory_invar pc fc (s\<lparr>primary_calls := n\<rparr>)"
  by (simp_all add: factory_invar_def)

lemma factory_invar_retry:
  "factory_invar pc fc s \<Longrightarrow> factory_invar pc fc (snd (retry_loop p f now dept req as e s))"
proof (induction as arbitrary: e s)
  case Nil
  then show ?case by (simp add: factory_invar_switch)
next
  case (Cons a as)
  let ?s = "s\<lparr>sleeps := sleeps s @ [RETRY_INTERVAL_SECONDS], primary_calls := Suc (primary_calls s)\<rparr>"
  have "factory_invar pc fc ?s" using Cons.prems by (simp add: factory_invar_def)
  then show ?case
    using Cons.IH [of ?s] by (auto simp: call_primary_def factory_invar_switch split: outcome.splits)
qed

lemma factory_invar_complete:
  assumes "factory_invar pc fc s"
  shows "factory_invar pc fc (snd (complete p f now dept req s))"
  using assms
  by (auto simp: complete_def try_primary_def call_primary_def retry_primary_then_fallback_def
      factory_invar_fallback factory_invar_switch factory_invar_retry factory_invar_counters
      split: outcome.splits)

lemma factory_invar_probe:
  assumes "factory_invar pc fc s"
  shows "factory_invar pc fc (delayed_health_probe p s)" and "factory_invar pc fc (snd (force_health_probe p s))"
  using assms
  by (auto simp: delayed_health_probe_def force_health_probe_def health_probe_primary_def call_primary_def
      factory_invar_def split: outcome.splits)

interpretation llm_factory: stateful_component "factory_step p f" "\<lambda>s. s = new_factory pc fc" "factory_invar pc fc"
  for p f pc fc
proof unfold_locales
  fix s assume "s = new_factory pc fc"
  then show "factory_invar pc fc s" by (simp add: factory_invar_def new_factory_def)
next
  fix s x assume "factory_invar pc fc s"
  then show "factory_invar pc fc (factory_step p f s x)"
    by (cases x) (simp_all add: factory_invar_complete factory_invar_probe, simp add: reset_def factory_invar_def)
qed

section \<open>Properties\<close>

text \<open>
  C30. What one request does while the primary is active, for every behaviour of the providers: only
  server errors are retried, at two-second pauses and within three calls in all; the first other
  outcome decides; and the request moves to the fallback exactly after three server errors or a
  timeout, with one recorded switch, one call of the fallback and a probe scheduled.
\<close>

theorem complete_primary_spec:
  assumes "\<not> using_fallback s" and "os = attempts p req (primary_calls s)"
    and "complete p f now dept req s = (r, s')"
  shows "primary_calls s' = primary_calls s + min (failures os + 1) 3 \<and>
         sleeps s' = sleeps s @ replicate (min (failures os) 2) RETRY_INTERVAL_SECONDS \<and>
         using_fallback s' = gives_up os \<and>
         probe_scheduled s' = (gives_up os \<or> probe_scheduled s) \<and>
         length (fallback_events s') = length (fallback_events s) + (if gives_up os then 1 else 0) \<and>
         fallback_calls s' = fallback_calls s + (if gives_up os then 1 else 0) \<and>
         r = (if gives_up os then fst (try_fallback f dept req s)
              else case os ! failures os of Reply t \<Rightarrow> Inr t | OtherError e \<Rightarrow> Inl (ProviderError e))"
proof -
  let ?n = "primary_calls s"
  have r: "r = fst (complete p f now dept req s)" and s': "s' = snd (complete p f now dept req s)"
    using assms(3) by simp_all
  show ?thesis
  proof (cases "is_5xx (p ?n req)")
    case False
    then show ?thesis unfolding r s' assms(2)
      by (rule not_5xx_cases) (simp_all add: completion_defs assms(1) try_fallback_state try_fallback_result)
  next
    case one: True
    then obtain c1 where 1: "p ?n req = LLMServerError c1" by (auto dest: is_5xxD)
    show ?thesis
    proof (cases "is_5xx (p (Suc ?n) req)")
      case False
      then show ?thesis unfolding r s' assms(2)
        by (rule not_5xx_cases) (simp_all add: completion_defs assms(1) 1 try_fallback_state try_fallback_result)
    next
      case two: True
      then obtain c2 where 2: "p (Suc ?n) req = LLMServerError c2" by (auto dest: is_5xxD)
      show ?thesis
      proof (cases "is_5xx (p (Suc (Suc ?n)) req)")
        case False
        then show ?thesis unfolding r s' assms(2)
          by (rule not_5xx_cases) (simp_all add: completion_defs assms(1) 1 2 try_fallback_state try_fallback_result)
      next
        case True
        then obtain c3 where "p (Suc (Suc ?n)) req = LLMServerError c3" by (auto dest: is_5xxD)
        with 1 2 show ?thesis unfolding r s' assms(2)
          by (simp add: completion_defs assms(1) try_fallback_state try_fallback_result)
      qed
    qed
  qed
qed

definition demo_primary :: LLMProviderConfig where
  "demo_primary = \<lparr>cfg_name = ''vllm'', base_url = ''http://llm/v1/'', api_key = ''k'', timeout_seconds = 30\<rparr>"

definition demo_fallback :: LLMProviderConfig where
  "demo_fallback = \<lparr>cfg_name = ''OpenAI'', base_url = [], api_key = ''k2'', timeout_seconds = 30\<rparr>"

definition demo_request :: llm_request where
  "demo_request = \<lparr>prompt = ''hello'', kwargs = []\<rparr>"

definition flaky :: provider where
  "flaky n req = (if n = 0 then LLMServerError 503 else ProviderTimeout)"

definition steady :: provider where
  "steady n req = Reply (PStr ''hi'')"

theorem complete_primary_spec_witness:
  "let (r, s') = complete flaky steady 7 ''pay'' demo_request (new_factory demo_primary demo_fallback)
   in using_fallback s' \<and> primary_calls s' = 2 \<and> sleeps s' = [2] \<and> fallback_calls s' = 1"
proof -
  let ?s = "new_factory demo_primary demo_fallback"
  let ?os = "attempts flaky demo_request (primary_calls ?s)"
  have nf: "\<not> using_fallback ?s" and f: "failures ?os = 1" and g: "gives_up ?os" by code_simp+
  obtain r s' where c: "complete flaky steady 7 ''pay'' demo_request ?s = (r, s')" by fastforce
  from complete_primary_spec [OF nf refl c] c f g show ?thesis
    by (simp add: new_factory_def RETRY_INTERVAL_SECONDS_def numeral_2_eq_2)
qed

text \<open>
  In every state a factory reaches, by any sequence of requests, probes and resets and for every
  behaviour of the providers: it routes to the fallback only after a recorded switch whose time it
  keeps, every recorded switch names the two configured providers, and every switch was followed by a
  call of the fallback.
\<close>

theorem factory_reachable_invar:
  "factory_invar pc fc (run_ops (factory_step p f) (new_factory pc fc) ops)"
  by (rule llm_factory.invar_reachable) simp

lemma stuck_on_fallback:
  assumes "using_fallback s" and "\<not> probe_scheduled s" and "list_all (\<lambda>x. x \<notin> {ForceProbe, Reset}) ops"
  shows "primary_calls (run_ops (factory_step p f) s ops) = primary_calls s \<and>
         using_fallback (run_ops (factory_step p f) s ops)"
  using assms
proof (induction ops arbitrary: s)
  case Nil
  then show ?case by simp
next
  case (Cons x ops)
  have "using_fallback (factory_step p f s x) \<and> \<not> probe_scheduled (factory_step p f s x) \<and>
        primary_calls (factory_step p f s x) = primary_calls s"
    using Cons.prems
    by (cases x) (auto simp: complete_def try_fallback_state delayed_health_probe_def)
  with Cons show ?case by simp
qed

text \<open>
  The probe after a switch is sent once and decides the routing: when it succeeds the next request
  goes to the primary; when it fails no later request or timer ever calls the primary again, only a
  forced probe or a reset can.
\<close>

theorem probe_decides_routing:
  assumes "using_fallback s" and "probe_scheduled s"
    and "list_all (\<lambda>x. x \<notin> {ForceProbe, Reset}) ops"
    and "reply = p (primary_calls s) \<lparr>prompt = ''health_check'', kwargs = []\<rparr>"
  shows "if \<exists>t. reply = Reply t then \<not> using_fallback (factory_step p f s ProbeFires)
         else primary_calls (run_ops (factory_step p f) s (ProbeFires # ops)) = Suc (primary_calls s) \<and>
              using_fallback (run_ops (factory_step p f) s (ProbeFires # ops))"
proof (cases "\<exists>t. reply = Reply t")
  case True
  with assms show ?thesis
    by (auto simp: delayed_health_probe_def health_probe_primary_def call_primary_def)
next
  case False
  let ?s = "delayed_health_probe p s"
  from False assms have "using_fallback ?s \<and> \<not> probe_scheduled ?s \<and> primary_calls ?s = Suc (primary_calls s)"
    by (auto simp: delayed_health_probe_def health_probe_primary_def call_primary_def split: outcome.splits)
  with stuck_on_fallback [of ?s ops p f] assms(3) False show ?thesis by simp
qed

theorem probe_decides_routing_witness:
  "let s = (new_factory demo_primary demo_fallback)\<lparr>using_fallback := True, probe_scheduled := True\<rparr>
   in using_fallback (run_ops (factory_step flaky steady) s [ProbeFires, Complete 9 ''pay'' demo_request])"
proof -
  let ?s = "(new_factory demo_primary demo_fallback)\<lparr>using_fallback := True, probe_scheduled := True\<rparr>"
  have 1: "using_fallback ?s" and 2: "probe_scheduled ?s"
    and 3: "list_all (\<lambda>x. x \<notin> {ForceProbe, Reset}) [Complete 9 ''pay'' demo_request]" by simp_all
  have "flaky (primary_calls ?s) r = LLMServerError 503" for r by (simp add: flaky_def new_factory_def)
  with probe_decides_routing [OF 1 2 3 refl, of flaky steady] show ?thesis by simp
qed

text \<open>
  The factory over two HTTP endpoints: when every response of the primary endpoint has a status
  of 500 or more and the fallback endpoint answers, a request posts to the primary three times and
  returns the content the fallback's response holds.
\<close>

theorem http_5xx_fails_over:
  assumes "\<not> using_fallback s"
    and "\<And>q. post (http_build (primary_config s) q) = Inr bad" and "status_code bad \<ge> 500"
    and "http_complete ok post (fallback_config s) req = Reply v"
  shows "let (r, s') = complete (\<lambda>_. http_complete ok post (primary_config s))
                                (\<lambda>_. http_complete ok post (fallback_config s)) now dept req s
         in r = Inr v \<and> primary_calls s' = primary_calls s + 3 \<and> using_fallback s'"
proof -
  have "http_complete ok post (primary_config s) q = LLMServerError (status_code bad)" for q
    using assms(2,3) by (simp add: http_complete_def)
  with assms(1,4) show ?thesis by (simp add: completion_defs try_fallback_def call_fallback_def)
qed

theorem http_5xx_fails_over_witness:
  "let s = new_factory demo_primary demo_fallback;
       post = (\<lambda>q. if url q = ''https://api.openai.com/v1/responses''
                   then Inr \<lparr>status_code = 200, body = Some (PDict [(''output_text'', PStr ''hi'')])\<rparr>
                   else Inr \<lparr>status_code = 503, body = None\<rparr>)
   in fst (complete (\<lambda>_. http_complete (\<lambda>c. c < 300) post (primary_config s))
             (\<lambda>_. http_complete (\<lambda>c. c < 300) post (fallback_config s)) 7 ''pay'' demo_request s) = Inr (PStr ''hi'')"
proof -
  let ?s = "new_factory demo_primary demo_fallback"
  let ?post = "\<lambda>q. if url q = ''https://api.openai.com/v1/responses''
                   then Inr \<lparr>status_code = 200, body = Some (PDict [(''output_text'', PStr ''hi'')])\<rparr>
                   else (Inr \<lparr>status_code = 503, body = None\<rparr> :: pystr + http_response)"
  have no: "\<not> is_openai demo_primary" by code_simp
  have "url (http_build demo_primary q) = ''http://llm/v1/chat/completions''" for q
    using no by (simp add: http_build_def Let_def demo_primary_def rstrip_slash_def)
  then have 2: "?post (http_build (primary_config ?s) q) = Inr \<lparr>status_code = 503, body = None\<rparr>" for q
    by (simp add: new_factory_def)
  have 3: "http_complete (\<lambda>c. c < 300) ?post (fallback_config ?s) demo_request = Reply (PStr ''hi'')"
    by code_simp
  have 1: "\<not> using_fallback ?s" by code_simp
  have 4: "status_code \<lparr>status_code = 503, body = None\<rparr> \<ge> 500" by simp
  from http_5xx_fails_over [of ?s ?post, OF 1 2 4 3, of 7 "''pay''"] show ?thesis
    by (simp add: case_prod_beta Let_def)
qed

end
