(* ===== verification/Webhook_Event.thy ===== *)
theory Webhook_Event
  imports Platform_Prelude
begin

text \<open>
  The normalised webhook event of
  \<^verbatim>\<open>services/automation-service/src/automation_service/webhook_filters.py\<close> and the two functions
  that build it from a Jira or Bitbucket payload. A payload is a decoded JSON object.
\<close>

datatype webhook_provider = jira | bitbucket

record WebhookEvent =
  provider :: webhook_provider
  event_type :: pystr
  delivery_id :: pystr
  actor_account_id :: "pystr option"
  body_text :: "pystr option"
  project_key :: "pystr option"
  repo_slug :: "pystr option"
  issue_key :: "pystr option"
  pr_id :: "int option"
  raw_payload :: "pyval pydict"

definition JIRA_EVENT_TYPES :: "(pystr \<times> pystr) list" where
  "JIRA_EVENT_TYPES =
     [(''jira:issue_created'', ''issue_created''), (''jira:issue_assigned'', ''issue_assigned''),
      (''jira:issue_updated'', ''issue_updated''), (''jira:issue_commented'', ''issue_commented'')]"

definition BITBUCKET_EVENT_TYPES :: "(pystr \<times> pystr) list" where
  "BITBUCKET_EVENT_TYPES =
     [(''pullrequest:created'', ''pr_created''), (''pullrequest:commented'', ''pr_commented''),
      (''pullrequest:updated'', ''pr_updated''), (''pullrequest:fulfilled'', ''pr_fulfilled'')]"

definition coerce_str :: "pyval \<Rightarrow> pystr option" where
  "coerce_str v = (case v of PStr s \<Rightarrow> if s \<noteq> [] then Some s else None | _ \<Rightarrow> None)"

definition coerce_int :: "pyval \<Rightarrow> int option" where
  "coerce_int v = (case v of PInt i \<Rightarrow> Some i | _ \<Rightarrow> None)"

definition sub_str :: "pyval pydict \<Rightarrow> pystr \<Rightarrow> pystr \<Rightarrow> pystr option" where
  \<comment> \<open>\<open>_coerce_str(d[k].get(f))\<close> guarded by \<open>isinstance(d.get(k), Mapping)\<close>\<close>
  "sub_str d k f =
     (case get_or_none d k of PDict m \<Rightarrow> coerce_str (get_or_none m f) | _ \<Rightarrow> None)"

definition sub_dict :: "pyval pydict \<Rightarrow> pystr \<Rightarrow> pyval pydict" where
  \<comment> \<open>the mapping under a key; an absent or other value contributes no field\<close>
  "sub_dict d k = (case get_or_none d k of PDict m \<Rightarrow> m | _ \<Rightarrow> [])"

definition or_else :: "'a option \<Rightarrow> 'a option \<Rightarrow> 'a option" where
  \<comment> \<open>\<open>if x is None: x = y\<close>\<close>
  "or_else x y = (case x of None \<Rightarrow> y | Some _ \<Rightarrow> x)"

definition normalize_jira_event :: "pyval pydict \<Rightarrow> pystr \<Rightarrow> pystr option \<Rightarrow> WebhookEvent" where
  "normalize_jira_event raw delivery etype =
     \<lparr>provider = jira,
      event_type =
        (case etype of
           Some t \<Rightarrow> if t \<noteq> [] then t
                     else (case coerce_str (get_or_none raw ''webhookEvent'') of None \<Rightarrow> [] | Some s \<Rightarrow> s)
         | None \<Rightarrow> (case coerce_str (get_or_none raw ''webhookEvent'') of None \<Rightarrow> [] | Some s \<Rightarrow> s)),
      delivery_id = delivery,
      actor_account_id =
        or_else (sub_str raw ''user'' ''accountId'') (sub_str (sub_dict raw ''comment'') ''author'' ''accountId''),
      body_text = sub_str raw ''comment'' ''body'',
      project_key =
        or_else (sub_str (sub_dict (sub_dict raw ''issue'') ''fields'') ''project'' ''key'')
                (sub_str raw ''project'' ''key''),
      repo_slug = None,
      issue_key = sub_str raw ''issue'' ''key'',
      pr_id = None,
      raw_payload = raw\<rparr>"

definition normalize_bitbucket_event :: "pyval pydict \<Rightarrow> pystr \<Rightarrow> pystr \<Rightarrow> WebhookEvent" where
  "normalize_bitbucket_event raw delivery etype =
     \<lparr>provider = bitbucket,
      event_type = etype,
      delivery_id = delivery,
      actor_account_id = or_else (sub_str raw ''actor'' ''account_id'') (sub_str raw ''actor'' ''uuid''),
      body_text =
        or_else (sub_str (sub_dict raw ''comment'') ''content'' ''raw'') (sub_str raw ''pullrequest'' ''title''),
      project_key = None,
      repo_slug = or_else (sub_str raw ''repository'' ''full_name'') (sub_str raw ''repository'' ''slug''),
      issue_key = None,
      pr_id = coerce_int (get_or_none (sub_dict raw ''pullrequest'') ''id''),
      raw_payload = raw\<rparr>"

section \<open>Well-formed events\<close>

definition wf_event :: "WebhookEvent \<Rightarrow> bool" where
  \<comment> \<open>no optional field is the empty string, and the fields of the other provider are absent\<close>
  "wf_event e \<longleftrightarrow>
     actor_account_id e \<noteq> Some [] \<and> body_text e \<noteq> Some [] \<and> project_key e \<noteq> Some [] \<and>
     repo_slug e \<noteq> Some [] \<and> issue_key e \<noteq> Some [] \<and>
     (case provider e of
        jira \<Rightarrow> repo_slug e = None \<and> pr_id e = None
      | bitbucket \<Rightarrow> project_key e = None \<and> issue_key e = None)"

lemma coerce_str_nonempty [simp]: "coerce_str v \<noteq> Some []"
  by (simp add: coerce_str_def split: pyval.splits)

lemma sub_str_nonempty [simp]: "sub_str d k f \<noteq> Some []"
  by (simp add: sub_str_def split: pyval.splits)

lemma or_else_nonempty [simp]: "x \<noteq> Some [] \<Longrightarrow> y \<noteq> Some [] \<Longrightarrow> or_else x y \<noteq> Some []"
  by (auto simp: or_else_def split: option.splits)

lemma wf_normalize_jira: "wf_event (normalize_jira_event raw d t)"
  by (simp add: wf_event_def normalize_jira_event_def)

lemma wf_normalize_bitbucket: "wf_event (normalize_bitbucket_event raw d t)"
  by (simp add: wf_event_def normalize_bitbucket_event_def)

end
