(* ===== verification/Burst_Window.thy ===== *)
theory Burst_Window
  imports Platform_Prelude
begin

text \<open>
  \<^verbatim>\<open>services/automation-service/src/automation_service/burst_window.py\<close>: the synchronous per-issue
  debounce window. Times are exact rationals where the code has floats; only differences and
  comparisons of them are used. Payloads are of any type.
\<close>

section \<open>State and operations\<close>

definition BURST_WINDOW_SECONDS :: rat where
  "BURST_WINDOW_SECONDS = 3"

record 'p WindowBuffer =
  window_start :: rat
  anchor_delivery_id :: pystr
  dropped_delivery_ids :: "pystr list"
  latest_payload :: 'p

record 'p BurstWindow =
  window_seconds :: rat
  buffers :: "'p WindowBuffer pydict"

datatype CoalesceDecision = coalesce_dropped | coalesce_emit

datatype burst_error = NegativeWindow | EmptyIssueKey | EmptyDeliveryId

definition new_window :: "rat \<Rightarrow> burst_error + 'p BurstWindow" where
  "new_window w = (if w < 0 then Inl NegativeWindow else Inr \<lparr>window_seconds = w, buffers = []\<rparr>)"

definition open_windows :: "'p BurstWindow \<Rightarrow> nat" where
  "open_windows b = length (buffers b)"

definition register ::
  "pystr \<Rightarrow> pystr \<Rightarrow> 'p \<Rightarrow> rat \<Rightarrow> 'p BurstWindow \<Rightarrow> burst_error + CoalesceDecision \<times> 'p BurstWindow" where
  "register issue_key delivery_id payload now b =
     (if issue_key = [] then Inl EmptyIssueKey
      else if delivery_id = [] then Inl EmptyDeliveryId
      else
        let fresh = \<lparr>window_start = now, anchor_delivery_id = delivery_id, dropped_delivery_ids = [],
                     latest_payload = payload\<rparr>
        in case dict_get (buffers b) issue_key of
             None \<Rightarrow> Inr (coalesce_emit, b\<lparr>buffers := dict_set issue_key fresh (buffers b)\<rparr>)
           | Some buffer \<Rightarrow>
               if now - window_start buffer < window_seconds b
               then Inr (coalesce_dropped,
                         b\<lparr>buffers := dict_set issue_key
                             (buffer\<lparr>dropped_delivery_ids := dropped_delivery_ids buffer @ [delivery_id],
                                     latest_payload := payload\<rparr>) (buffers b)\<rparr>)
               else Inr (coalesce_emit, b\<lparr>buffers := dict_set issue_key fresh (buffers b)\<rparr>))"

definition flush_window :: "pystr \<Rightarrow> 'p BurstWindow \<Rightarrow> (pystr list \<times> 'p) option \<times> 'p BurstWindow" where
  "flush_window issue_key b =
     (case dict_get (buffers b) issue_key of
        None \<Rightarrow> (None, b)
      | Some buffer \<Rightarrow>
          (Some (dropped_delivery_ids buffer, latest_payload buffer),
           b\<lparr>buffers := dict_del issue_key (buffers b)\<rparr>))"

definition clear :: "'p BurstWindow \<Rightarrow> 'p BurstWindow" where
  "clear b = b\<lparr>buffers := []\<rparr>"

definition has_open_window :: "pystr \<Rightarrow> 'p BurstWindow \<Rightarrow> bool" where
  "has_open_window issue_key b \<longleftrightarrow> dict_get (buffers b) issue_key \<noteq> None"

section \<open>Runs and their specification\<close>

record 'p delivery =
  d_issue :: pystr
  d_id :: pystr
  d_payload :: 'p
  d_time :: rat

fun register_all :: "'p BurstWindow \<Rightarrow> 'p delivery list \<Rightarrow> burst_error + CoalesceDecision list \<times> 'p BurstWindow" where
  "register_all b [] = Inr ([], b)"
| "register_all b (d # ds) =
     rbind (register (d_issue d) (d_id d) (d_payload d) (d_time d) b) (\<lambda>(v, b').
     rbind (register_all b' ds) (\<lambda>(vs, b''). Inr (v # vs, b'')))"

text \<open>
  The specification looks at one issue alone: a window is the delivery that opened it and the
  later deliveries it absorbed.
\<close>

type_synonym 'p window = "'p delivery \<times> 'p delivery list"

fun spec_window :: "rat \<Rightarrow> 'p window option \<Rightarrow> 'p delivery list \<Rightarrow> CoalesceDecision list \<times> 'p window option" where
  "spec_window w cur [] = ([], cur)"
| "spec_window w None (d # ds) = (let (vs, c) = spec_window w (Some (d, [])) ds in (coalesce_emit # vs, c))"
| "spec_window w (Some (a, xs)) (d # ds) =
     (if d_time d - d_time a < w
      then let (vs, c) = spec_window w (Some (a, xs @ [d])) ds in (coalesce_dropped # vs, c)
      else let (vs, c) = spec_window w (Some (d, [])) ds in (coalesce_emit # vs, c))"

definition abs_buffer :: "'p window \<Rightarrow> 'p WindowBuffer" where
  "abs_buffer = (\<lambda>(a, xs).
     \<lparr>window_start = d_time a, anchor_delivery_id = d_id a, dropped_delivery_ids = map d_id xs,
      latest_payload = d_payload (last (a # xs))\<rparr>)"

definition decisions_of :: "pystr \<Rightarrow> 'p delivery list \<Rightarrow> CoalesceDecision list \<Rightarrow> CoalesceDecision list" where
  "decisions_of k ds vs = map snd (filter (\<lambda>(d, _). d_issue d = k) (zip ds vs))"

definition deliveries_of :: "pystr \<Rightarrow> 'p delivery list \<Rightarrow> 'p delivery list" where
  "deliveries_of k ds = filter (\<lambda>d. d_issue d = k) ds"

definition well_keyed :: "'p delivery \<Rightarrow> bool" where
  "well_keyed d \<longleftrightarrow> d_issue d \<noteq> [] \<and> d_id d \<noteq> []"

section \<open>Lemmas\<close>

lemma register_total:
  assumes "k \<noteq> []" and "i \<noteq> []"
  shows "\<exists>v b'. register k i p t b = Inr (v, b') \<and> window_seconds b' = window_seconds b"
  using assms by (auto simp: register_def Let_def split: option.splits)

lemma register_other: "register k i p t b = Inr (v, b') \<Longrightarrow> k' \<noteq> k \<Longrightarrow>
   dict_get (buffers b') k' = dict_get (buffers b) k'"
  by (auto simp: register_def Let_def split: option.splits if_splits)

lemma register_wf: "register k i p t b = Inr (v, b') \<Longrightarrow> wf_dict (buffers b) \<Longrightarrow> wf_dict (buffers b')"
  by (auto simp: register_def Let_def split: option.splits if_splits)

lemma register_all_Cons:
  assumes "well_keyed d"
  obtains v b' where "register (d_issue d) (d_id d) (d_payload d) (d_time d) b = Inr (v, b')"
    and "window_seconds b' = window_seconds b"
  using register_total [of "d_issue d" "d_id d" "d_payload d" "d_time d" b] assms
  by (auto simp: well_keyed_def)

lemma decisions_of_Cons: "decisions_of k (d # ds) (v # vs) =
   (if d_issue d = k then v # decisions_of k ds vs else decisions_of k ds vs)"
  by (simp add: decisions_of_def)

lemma deliveries_of_Cons: "deliveries_of k (d # ds) =
   (if d_issue d = k then d # deliveries_of k ds else deliveries_of k ds)"
  by (simp add: deliveries_of_def)

text \<open>One registration is one step of the specification of its issue.\<close>

lemma register_step:
  assumes "well_keyed d" and "dict_get (buffers b) (d_issue d) = map_option abs_buffer cur"
    and "register (d_issue d) (d_id d) (d_payload d) (d_time d) b = Inr (v, b')"
  obtains cur' where "dict_get (buffers b') (d_issue d) = map_option abs_buffer cur'"
    and "\<And>ds. spec_window (window_seconds b) cur (d # ds) =
           (case spec_window (window_seconds b) cur' ds of (vs, c) \<Rightarrow> (v # vs, c))"
proof (cases cur)
  case None
  with assms have "v = coalesce_emit \<and> dict_get (buffers b') (d_issue d) = Some (abs_buffer (d, []))"
    by (auto simp: register_def well_keyed_def abs_buffer_def)
  with None that [of "Some (d, [])"] show thesis by simp
next
  case (Some c)
  obtain a xs where c: "c = (a, xs)" by fastforce
  show thesis
  proof (cases "d_time d - d_time a < window_seconds b")
    case True
    with assms Some c have "v = coalesce_dropped \<and>
        dict_get (buffers b') (d_issue d) = Some (abs_buffer (a, xs @ [d]))"
      by (auto simp: register_def well_keyed_def abs_buffer_def)
    with True Some c that [of "Some (a, xs @ [d])"] show thesis by simp
  next
    case False
    with assms Some c have "v = coalesce_emit \<and> dict_get (buffers b') (d_issue d) = Some (abs_buffer (d, []))"
      by (auto simp: register_def well_keyed_def abs_buffer_def)
    with False Some c that [of "Some (d, [])"] show thesis by simp
  qed
qed

lemma register_all_refines:
  assumes "list_all well_keyed ds" and "dict_get (buffers b) k = map_option abs_buffer cur"
  shows "\<exists>vs b'. register_all b ds = Inr (vs, b') \<and> length vs = length ds \<and>
           window_seconds b' = window_seconds b \<and>
           (case spec_window (window_seconds b) cur (deliveries_of k ds) of (ws, c) \<Rightarrow>
              decisions_of k ds vs = ws \<and> dict_get (buffers b') k = map_option abs_buffer c)"
  using assms
proof (induction ds arbitrary: b cur)
  case Nil
  then show ?case by (simp add: deliveries_of_def decisions_of_def)
next
  case (Cons d ds)
  have wk: "well_keyed d" using Cons.prems by simp
  obtain v b1 where r: "register (d_issue d) (d_id d) (d_payload d) (d_time d) b = Inr (v, b1)"
    and w: "window_seconds b1 = window_seconds b" by (rule register_all_Cons [OF wk])
  show ?case
  proof (cases "d_issue d = k")
    case True
    with Cons.prems obtain cur' where g: "dict_get (buffers b1) k = map_option abs_buffer cur'"
      and s: "\<And>ds. spec_window (window_seconds b) cur (d # ds) =
                 (case spec_window (window_seconds b) cur' ds of (vs, c) \<Rightarrow> (v # vs, c))"
      using register_step [OF _ _ r, of cur] by auto
    from Cons.IH [OF _ g] Cons.prems w obtain vs b2 where "register_all b1 ds = Inr (vs, b2)"
      and "length vs = length ds" and "window_seconds b2 = window_seconds b"
      and "case spec_window (window_seconds b) cur' (deliveries_of k ds) of (ws, c) \<Rightarrow>
             decisions_of k ds vs = ws \<and> dict_get (buffers b2) k = map_option abs_buffer c" by auto
    with r True s [of "deliveries_of k ds"] show ?thesis
      by (auto simp: deliveries_of_Cons decisions_of_Cons split: prod.splits)
  next
    case False
    then have g: "dict_get (buffers b1) k = map_option abs_buffer cur"
      using register_other [OF r, of k] Cons.prems by simp
    from Cons.IH [OF _ g] Cons.prems w obtain vs b2 where "register_all b1 ds = Inr (vs, b2)"
      and "length vs = length ds" and "window_seconds b2 = window_seconds b"
      and "case spec_window (window_seconds b) cur (deliveries_of k ds) of (ws, c) \<Rightarrow>
             decisions_of k ds vs = ws \<and> dict_get (buffers b2) k = map_option abs_buffer c" by auto
    with r False show ?thesis
      by (auto simp: deliveries_of_Cons decisions_of_Cons split: prod.splits)
  qed
qed

definition emitted :: "'p delivery list \<Rightarrow> CoalesceDecision list \<Rightarrow> 'p delivery list" where
  "emitted ds vs = map fst (filter (\<lambda>(_, v). v = coalesce_emit) (zip ds vs))"

lemma emitted_Cons: "emitted (d # ds) (v # vs) = (if v = coalesce_emit then d # emitted ds vs else emitted ds vs)"
  by (simp add: emitted_def)

definition apart :: "rat \<Rightarrow> 'p delivery \<Rightarrow> 'p delivery \<Rightarrow> bool" where
  "apart w a b \<longleftrightarrow> w \<le> d_time b - d_time a"

lemma spec_window_spaced:
  "successively (apart w) ((case cur of None \<Rightarrow> [] | Some (a, _) \<Rightarrow> [a]) @
     emitted ds (fst (spec_window w cur ds)))"
proof (induction w cur ds rule: spec_window.induct)
  case (1 w cur)
  then show ?case by (auto simp: emitted_def split: option.splits)
next
  case (2 w d ds)
  then show ?case by (auto simp: emitted_Cons split: prod.splits)
next
  case (3 w a xs d ds)
  then show ?case
    by (auto simp: emitted_Cons apart_def not_less split: prod.splits)
qed

section \<open>Properties\<close>

text \<open>
  C32. For every interleaving of deliveries of any issues, the window behaves, issue by issue, as if
  that issue had a coordinator of its own: every registration succeeds, the decisions are those of
  the specification, and flushing the issue afterwards returns exactly the deliveries absorbed since
  the last emitted one, in arrival order, with the payload of the latest delivery.
\<close>

theorem burst_window_refines_spec:
  assumes "new_window w = Inr b" and "list_all well_keyed ds"
    and "spec_window w None (deliveries_of k ds) = (ws, cur)"
  shows "\<exists>vs b'. register_all b ds = Inr (vs, b') \<and> length vs = length ds \<and> decisions_of k ds vs = ws \<and>
           fst (flush_window k b') =
             map_option (\<lambda>(a, xs). (map d_id xs, d_payload (last (a # xs)))) cur \<and>
           \<not> has_open_window k (snd (flush_window k b'))"
proof -
  have b: "window_seconds b = w" "buffers b = []"
    using assms(1) by (auto simp: new_window_def split: if_splits)
  then have "dict_get (buffers b) k = map_option abs_buffer None" by simp
  from register_all_refines [OF assms(2) this] b assms(3) obtain vs b'
    where "register_all b ds = Inr (vs, b')" "length vs = length ds" "decisions_of k ds vs = ws"
      and g: "dict_get (buffers b') k = map_option abs_buffer cur" by auto
  moreover have "fst (flush_window k b') =
      map_option (\<lambda>(a, xs). (map d_id xs, d_payload (last (a # xs)))) cur"
    using g by (cases cur) (auto simp: flush_window_def abs_buffer_def)
  moreover have "\<not> has_open_window k (snd (flush_window k b'))"
    using g by (cases cur) (auto simp: flush_window_def has_open_window_def)
  ultimately show ?thesis by blast
qed

definition demo_deliveries :: "nat delivery list" where
  "demo_deliveries =
     [\<lparr>d_issue = ''A-1'', d_id = ''d1'', d_payload = 1, d_time = 0\<rparr>,
      \<lparr>d_issue = ''B-1'', d_id = ''d2'', d_payload = 2, d_time = 1\<rparr>,
      \<lparr>d_issue = ''A-1'', d_id = ''d3'', d_payload = 3, d_time = 2\<rparr>,
      \<lparr>d_issue = ''A-1'', d_id = ''d4'', d_payload = 4, d_time = 5 / 2\<rparr>]"

theorem burst_window_refines_spec_witness:
  "\<exists>vs b'. register_all \<lparr>window_seconds = 3, buffers = []\<rparr> demo_deliveries = Inr (vs, b') \<and>
     decisions_of ''A-1'' demo_deliveries vs = [coalesce_emit, coalesce_dropped, coalesce_dropped] \<and>
     fst (flush_window ''A-1'' b') = Some ([''d3'', ''d4''], 4)"
proof -
  have 1: "new_window 3 = Inr (\<lparr>window_seconds = 3, buffers = []\<rparr> :: nat BurstWindow)"
    by (simp add: new_window_def)
  have 2: "list_all well_keyed demo_deliveries" by code_simp
  obtain a xs where 3: "spec_window 3 None (deliveries_of ''A-1'' demo_deliveries) =
      ([coalesce_emit, coalesce_dropped, coalesce_dropped], Some (a, xs))"
    and "map d_id xs = [''d3'', ''d4'']" "d_payload (last (a # xs)) = 4"
    by (simp add: deliveries_of_def demo_deliveries_def)
  with burst_window_refines_spec [OF 1 2 3] show ?thesis by auto
qed

text \<open>
  Bursts are bounded: two consecutive deliveries of an issue that the window lets through are at
  least the window apart, whatever arrives in between and on other issues.
\<close>

theorem burst_emits_are_spaced:
  assumes "new_window w = Inr b" and "list_all well_keyed ds" and "register_all b ds = Inr (vs, b')"
  shows "successively (apart w) (emitted (deliveries_of k ds) (decisions_of k ds vs))"
proof -
  have b: "window_seconds b = w" "dict_get (buffers b) k = map_option abs_buffer None"
    using assms(1) by (auto simp: new_window_def split: if_splits)
  from register_all_refines [OF assms(2) b(2)] b(1) assms(3)
  have "decisions_of k ds vs = fst (spec_window w None (deliveries_of k ds))"
    by (auto split: prod.splits)
  with spec_window_spaced [of w None "deliveries_of k ds"] show ?thesis by simp
qed

theorem burst_emits_are_spaced_witness:
  "\<exists>vs b'. register_all (\<lparr>window_seconds = 3, buffers = []\<rparr> :: nat BurstWindow) demo_deliveries = Inr (vs, b') \<and>
     successively (apart 3) (emitted (deliveries_of ''A-1'' demo_deliveries) (decisions_of ''A-1'' demo_deliveries vs))"
proof -
  let ?b = "\<lparr>window_seconds = 3, buffers = []\<rparr> :: nat BurstWindow"
  have 1: "new_window 3 = Inr ?b" by (simp add: new_window_def)
  have 2: "list_all well_keyed demo_deliveries" by code_simp
  have "dict_get (buffers ?b) [] = map_option abs_buffer None" by simp
  from register_all_refines [OF 2 this] obtain vs b' where r: "register_all ?b demo_deliveries = Inr (vs, b')"
    by blast
  from burst_emits_are_spaced [OF 1 2 r] r show ?thesis by blast
qed

end
