(* ===== verification/Burst_Debounce.thy ===== *)
theory Burst_Debounce
  imports Webhook_Event "HOL-Library.Multiset" "HOL-Library.Sublist"
begin

text \<open>
  \<^verbatim>\<open>services/automation-service/src/automation_service/burst_debounce.py\<close>: the asynchronous debounce
  coordinator. The event loop is the list of steps it takes: an \<open>observe\<close> call, a timer that
  fires, a flush task that gets the lock, the two halves of \<open>flush_all\<close> (draining under the lock,
  then one callback after the other) and \<open>aclose\<close>. Every critical section under the lock is one step,
  and steps of different tasks interleave in any order. Invocations of the dispatch callback are
  recorded in order; an exception of the callback is swallowed, so its outcome does not matter.
\<close>

section \<open>State\<close>

record BufferedDelivery =
  last_event :: WebhookEvent
  delivery_ids :: "pystr list"
  flush_handle :: nat

record coordinator =
  buffers :: "BufferedDelivery pydict"
  closed :: bool
  timers :: "(nat \<times> pystr) list" \<comment> \<open>armed \<open>call_later\<close> handles and their issue\<close>
  next_handle :: nat
  flush_tasks :: "pystr list" \<comment> \<open>\<open>_flush_one\<close> tasks that have not had the lock yet\<close>
  draining :: "BufferedDelivery list" \<comment> \<open>popped by \<open>flush_all\<close>, callback still to come\<close>
  dispatched :: "WebhookEvent list" \<comment> \<open>arguments of the dispatch callback\<close>
  observed :: "WebhookEvent list" \<comment> \<open>events \<open>observe\<close> accepted\<close>

datatype CoalesceResult = dispatch_now WebhookEvent | buffered nat

datatype debounce_error = RuntimeError | ValueError

definition new_coordinator :: coordinator where
  "new_coordinator =
     \<lparr>buffers = [], closed = False, timers = [], next_handle = 0, flush_tasks = [], draining = [],
      dispatched = [], observed = []\<rparr>"

definition COALESCED_PAYLOAD_KEY :: pystr where
  "COALESCED_PAYLOAD_KEY = ''_burst_coalesced_with''"

section \<open>Operations\<close>

definition attach_coalesced_marker :: "WebhookEvent \<Rightarrow> pystr list \<Rightarrow> WebhookEvent" where
  "attach_coalesced_marker e ids =
     e\<lparr>raw_payload := dict_set COALESCED_PAYLOAD_KEY (PTuple (map PStr ids)) (raw_payload e)\<rparr>"

definition extract_coalesced_marker :: "WebhookEvent \<Rightarrow> pystr list" where
  "extract_coalesced_marker e =
     (case get_or_none (raw_payload e) COALESCED_PAYLOAD_KEY of
        PTuple xs \<Rightarrow> if list_all (\<lambda>x. as_str x \<noteq> None) xs then List.map_filter as_str xs else []
      | _ \<Rightarrow> [])"

definition observe :: "WebhookEvent \<Rightarrow> coordinator \<Rightarrow> debounce_error + CoalesceResult \<times> coordinator" where
  "observe e s =
     (if closed s then Inl RuntimeError
      else case issue_key e of
             None \<Rightarrow> Inl ValueError
           | Some k \<Rightarrow>
               (case dict_get (buffers s) k of
                  None \<Rightarrow>
                    Inr (dispatch_now e,
                         s\<lparr>buffers := dict_set k \<lparr>last_event = e, delivery_ids = [delivery_id e],
                                                  flush_handle = next_handle s\<rparr> (buffers s),
                           timers := (next_handle s, k) # timers s,
                           next_handle := Suc (next_handle s),
                           observed := observed s @ [e]\<rparr>)
                | Some b \<Rightarrow>
                    let ids = delivery_ids b @ [delivery_id e]
                    in Inr (buffered (length ids),
                            s\<lparr>buffers := dict_set k (b\<lparr>last_event := e, delivery_ids := ids\<rparr>) (buffers s),
                              observed := observed s @ [e]\<rparr>)))"

definition dispatch_buffered :: "BufferedDelivery \<Rightarrow> coordinator \<Rightarrow> coordinator" where
  "dispatch_buffered b s =
     s\<lparr>dispatched := dispatched s @ [attach_coalesced_marker (last_event b) (delivery_ids b)]\<rparr>"

definition on_window_expired :: "nat \<Rightarrow> pystr \<Rightarrow> coordinator \<Rightarrow> coordinator" where
  \<comment> \<open>the timer callback, when the handle is still armed\<close>
  "on_window_expired h k s =
     (if (h, k) \<in> set (timers s)
      then let s' = s\<lparr>timers := filter (\<lambda>t. t \<noteq> (h, k)) (timers s)\<rparr>
           in if closed s then s' else s'\<lparr>flush_tasks := flush_tasks s @ [k]\<rparr>
      else s)"

definition flush_one :: "pystr \<Rightarrow> coordinator \<Rightarrow> coordinator" where
  \<comment> \<open>a pending flush task of the issue gets the lock\<close>
  "flush_one k s =
     (if k \<in> set (flush_tasks s)
      then let s' = s\<lparr>flush_tasks := remove1 k (flush_tasks s)\<rparr>
           in case dict_get (buffers s) k of
                None \<Rightarrow> s'
              | Some b \<Rightarrow> dispatch_buffered b (s'\<lparr>buffers := dict_del k (buffers s)\<rparr>)
      else s)"

definition cancelled :: "BufferedDelivery pydict \<Rightarrow> (nat \<times> pystr) list \<Rightarrow> (nat \<times> pystr) list" where
  \<comment> \<open>\<open>flush_handle.cancel()\<close> for every buffer\<close>
  "cancelled bs ts = filter (\<lambda>(h, _). h \<notin> set (map (\<lambda>(_, b). flush_handle b) bs)) ts"

definition flush_all :: "coordinator \<Rightarrow> coordinator" where
  \<comment> \<open>the part under the lock; the callbacks follow one by one, as \<open>drain_next\<close> steps\<close>
  "flush_all s =
     (if closed s then s
      else s\<lparr>timers := cancelled (buffers s) (timers s), draining := draining s @ map snd (buffers s),
             buffers := []\<rparr>)"

definition drain_next :: "coordinator \<Rightarrow> coordinator" where
  "drain_next s =
     (case draining s of [] \<Rightarrow> s | b # bs \<Rightarrow> dispatch_buffered b (s\<lparr>draining := bs\<rparr>))"

definition aclose :: "coordinator \<Rightarrow> coordinator" where
  "aclose s =
     (if closed s then s
      else s\<lparr>closed := True, timers := cancelled (buffers s) (timers s), buffers := []\<rparr>)"

datatype loop_step =
    Observe WebhookEvent
  | TimerFires nat pystr
  | FlushTask pystr
  | FlushAll
  | DrainNext
  | Close

fun loop_exec :: "coordinator \<Rightarrow> loop_step \<Rightarrow> coordinator" where
  "loop_exec s (Observe e) = (case observe e s of Inl _ \<Rightarrow> s | Inr (_, s') \<Rightarrow> s')"
| "loop_exec s (TimerFires h k) = on_window_expired h k s"
| "loop_exec s (FlushTask k) = flush_one k s"
| "loop_exec s FlushAll = flush_all s"
| "loop_exec s DrainNext = drain_next s"
| "loop_exec s Close = aclose s"

section \<open>Specification\<close>

definition on_issue :: "pystr \<Rightarrow> WebhookEvent list \<Rightarrow> WebhookEvent list" where
  "on_issue k es = filter (\<lambda>e. issue_key e = Some k) es"

definition ids_on :: "pystr \<Rightarrow> WebhookEvent list \<Rightarrow> pystr list" where
  "ids_on k es = map delivery_id (on_issue k es)"

definition buffer_ids :: "pystr \<Rightarrow> coordinator \<Rightarrow> pystr list" where
  "buffer_ids k s = (case dict_get (buffers s) k of None \<Rightarrow> [] | Some b \<Rightarrow> delivery_ids b)"

definition draining_ids :: "pystr \<Rightarrow> coordinator \<Rightarrow> pystr list" where
  "draining_ids k s = concat (map delivery_ids (filter (\<lambda>b. issue_key (last_event b) = Some k) (draining s)))"

definition dispatched_ids :: "pystr \<Rightarrow> coordinator \<Rightarrow> pystr list" where
  "dispatched_ids k s = concat (map extract_coalesced_marker (on_issue k (dispatched s)))"

definition window_ok :: "WebhookEvent list \<Rightarrow> pystr \<Rightarrow> BufferedDelivery \<Rightarrow> bool" where
  \<comment> \<open>the deliveries of a window are deliveries of its issue in arrival order, the last one its event\<close>
  "window_ok obs k b \<longleftrightarrow>
     issue_key (last_event b) = Some k \<and> delivery_ids b \<noteq> [] \<and>
     last (delivery_ids b) = delivery_id (last_event b) \<and> last_event b \<in> set obs \<and>
     subseq (delivery_ids b) (ids_on k obs)"

definition marker_ok :: "WebhookEvent list \<Rightarrow> WebhookEvent \<Rightarrow> bool" where
  \<comment> \<open>a dispatched event names, in arrival order, deliveries of its own issue, itself the last\<close>
  "marker_ok obs e \<longleftrightarrow>
     (\<exists>k. issue_key e = Some k \<and> extract_coalesced_marker e \<noteq> [] \<and>
        last (extract_coalesced_marker e) = delivery_id e \<and>
        subseq (extract_coalesced_marker e) (ids_on k obs))"

definition flush_due :: "coordinator \<Rightarrow> pystr \<Rightarrow> BufferedDelivery \<Rightarrow> bool" where
  "flush_due s k b \<longleftrightarrow> (flush_handle b, k) \<in> set (timers s) \<or> k \<in> set (flush_tasks s)"

definition windows_invar :: "coordinator \<Rightarrow> bool" where
  "windows_invar s \<longleftrightarrow>
     wf_dict (buffers s) \<and>
     (\<forall>k b. dict_get (buffers s) k = Some b \<longrightarrow> window_ok (observed s) k b \<and> flush_due s k b) \<and>
     (\<forall>b \<in> set (draining s). \<exists>k. window_ok (observed s) k b) \<and>
     (\<forall>e \<in> set (dispatched s). marker_ok (observed s) e) \<and>
     (closed s \<longrightarrow> buffers s = [])"

definition accounted :: "coordinator \<Rightarrow> pystr \<Rightarrow> pystr multiset" where
  "accounted s k = mset (dispatched_ids k s) + mset (draining_ids k s) + mset (buffer_ids k s)"

definition coordinator_invar :: "coordinator \<Rightarrow> bool" where
  \<comment> \<open>open windows are well-formed and due, and no delivery is lost or dispatched twice\<close>
  "coordinator_invar s \<longleftrightarrow>
     windows_invar s \<and>
     (\<forall>k. accounted s k \<subseteq># mset (ids_on k (observed s))) \<and>
     (\<not> closed s \<longrightarrow> (\<forall>k. accounted s k = mset (ids_on k (observed s))))"

section \<open>Lemmas\<close>

lemma map_filter_as_str [simp]: "List.map_filter as_str (map PStr ids) = ids"
  by (induction ids) (simp_all add: List.map_filter_simps)

lemma marker_roundtrip [simp]: "extract_coalesced_marker (attach_coalesced_marker e ids) = ids"
  by (simp add: extract_coalesced_marker_def attach_coalesced_marker_def get_or_none_def list_all_iff)

lemma attach_delivery_id [simp]: "delivery_id (attach_coalesced_marker e ids) = delivery_id e"
  by (simp add: attach_coalesced_marker_def)

lemma attach_issue_key [simp]: "issue_key (attach_coalesced_marker e ids) = issue_key e"
  by (simp add: attach_coalesced_marker_def)

lemma on_issue_snoc: "on_issue k (es @ [e]) = (if issue_key e = Some k then on_issue k es @ [e] else on_issue k es)"
  by (simp add: on_issue_def)

lemma ids_on_snoc:
  "ids_on k (es @ [e]) = (if issue_key e = Some k then ids_on k es @ [delivery_id e] else ids_on k es)"
  by (simp add: ids_on_def on_issue_snoc)

lemma dispatched_ids_snoc:
  "dispatched_ids k (dispatch_buffered b s) =
     (if issue_key (last_event b) = Some k then dispatched_ids k s @ delivery_ids b else dispatched_ids k s)"
  by (simp add: dispatched_ids_def dispatch_buffered_def on_issue_snoc)

lemmas id_defs =  buffer_ids_def draining_ids_def dispatched_ids_def

lemma window_ok_mono: "window_ok obs k b \<Longrightarrow> window_ok (obs @ [e]) k b"
  by (auto simp: window_ok_def ids_on_snoc intro: list_emb_prefix)

lemma window_ok_open:
  "issue_key e = Some k \<Longrightarrow>
   window_ok (obs @ [e]) k \<lparr>last_event = e, delivery_ids = [delivery_id e], flush_handle = h\<rparr>"
  by (auto simp: window_ok_def ids_on_snoc subseq_singleton_left)

lemma window_ok_extend:
  "window_ok obs k b \<Longrightarrow> issue_key e = Some k \<Longrightarrow>
   window_ok (obs @ [e]) k (b\<lparr>last_event := e, delivery_ids := delivery_ids b @ [delivery_id e]\<rparr>)"
  by (auto simp: window_ok_def ids_on_snoc intro: list_emb_append_mono)

lemma draining_mono:
  "\<forall>b \<in> D. \<exists>k. window_ok obs k b \<Longrightarrow> \<forall>b \<in> D. \<exists>k. window_ok (obs @ [e]) k b"
  using window_ok_mono by blast

lemma marker_ok_mono: "marker_ok obs e \<Longrightarrow> marker_ok (obs @ [e']) e"
  by (auto simp: marker_ok_def ids_on_snoc intro: list_emb_prefix)

lemma marker_ok_window: "window_ok obs k b \<Longrightarrow> marker_ok obs (attach_coalesced_marker (last_event b) (delivery_ids b))"
  by (auto simp: marker_ok_def window_ok_def)

lemma observe_Inr:
  assumes "observe e s = Inr (r, s')"
  obtains k where "issue_key e = Some k" and "\<not> closed s" and "dict_get (buffers s) k = None"
      and "r = dispatch_now e"
      and "s' = s\<lparr>buffers := dict_set k \<lparr>last_event = e, delivery_ids = [delivery_id e],
                    flush_handle = next_handle s\<rparr> (buffers s),
                 timers := (next_handle s, k) # timers s, next_handle := Suc (next_handle s),
                 observed := observed s @ [e]\<rparr>"
    | k b where "issue_key e = Some k" and "\<not> closed s" and "dict_get (buffers s) k = Some b"
      and "r = buffered (Suc (length (delivery_ids b)))"
      and "s' = s\<lparr>buffers := dict_set k (b\<lparr>last_event := e, delivery_ids := delivery_ids b @ [delivery_id e]\<rparr>)
                    (buffers s),
                 observed := observed s @ [e]\<rparr>"
  using assms by (auto simp: observe_def Let_def split: if_splits option.splits)

lemma windows_invar_observe:
  assumes "windows_invar s" and "observe e s = Inr (r, s')"
  shows "windows_invar s'"
proof -
  have d: "\<forall>b \<in> set (draining s). \<exists>k. window_ok (observed s @ [e]) k b"
    using assms(1) by (intro draining_mono) (simp add: windows_invar_def)
  show ?thesis using assms(2)
  proof (cases rule: observe_Inr)
    case (1 k)
    then show ?thesis
      using assms(1) d by (auto simp: windows_invar_def flush_due_def window_ok_open intro: window_ok_mono marker_ok_mono)
  next
    case (2 k b)
    then show ?thesis
      using assms(1) d by (auto simp: windows_invar_def flush_due_def window_ok_extend intro: window_ok_mono marker_ok_mono)
  qed
qed

lemma accounted_observe:
  assumes "observe e s = Inr (r, s')"
  shows "\<not> closed s \<and> closed s' = closed s \<and> observed s' = observed s @ [e] \<and>
         accounted s' k = accounted s k + (if issue_key e = Some k then {# delivery_id e #} else {#})"
  using assms
proof (cases rule: observe_Inr)
  case (1 k')
  then show ?thesis by (auto simp: accounted_def id_defs)
next
  case (2 k' b)
  then show ?thesis by (auto simp: accounted_def id_defs)
qed

lemma invar_observe:
  assumes "coordinator_invar s" and "observe e s = Inr (r, s')"
  shows "coordinator_invar s'"
  using assms windows_invar_observe accounted_observe [OF assms(2)]
  by (auto simp: coordinator_invar_def ids_on_snoc)

lemma invar_timer:
  assumes "coordinator_invar s"
  shows "coordinator_invar (on_window_expired h k s)"
proof -
  have "windows_invar (on_window_expired h k s)"
    using assms
    by (auto simp: coordinator_invar_def windows_invar_def on_window_expired_def flush_due_def Let_def)
  moreover have "accounted (on_window_expired h k s) = accounted s"
    and "observed (on_window_expired h k s) = observed s"
    and "closed (on_window_expired h k s) = closed s" for k'
    by (auto simp: on_window_expired_def accounted_def id_defs Let_def fun_eq_iff)
  ultimately show ?thesis using assms by (simp add: coordinator_invar_def)
qed

lemma flush_one_cases:
  obtains "k \<notin> set (flush_tasks s)" and "flush_one k s = s"
    | "dict_get (buffers s) k = None" and "flush_one k s = s\<lparr>flush_tasks := remove1 k (flush_tasks s)\<rparr>"
    | b where "dict_get (buffers s) k = Some b"
        and "flush_one k s = dispatch_buffered b
               (s\<lparr>flush_tasks := remove1 k (flush_tasks s), buffers := dict_del k (buffers s)\<rparr>)"
  by (cases "k \<in> set (flush_tasks s)"; cases "dict_get (buffers s) k") (auto simp: flush_one_def Let_def)

lemma in_set_remove1_other: "x \<noteq> y \<Longrightarrow> x \<in> set (remove1 y xs) \<longleftrightarrow> x \<in> set xs"
  by (induction xs) auto

lemma invar_flush_one:
  assumes "coordinator_invar s"
  shows "coordinator_invar (flush_one k s)"
proof (cases k s rule: flush_one_cases)
  case 1
  with assms show ?thesis by simp
next
  case 2
  have "k' \<noteq> k" if "dict_get (buffers s) k' = Some b" for k' b using 2(1) that by auto
  then have "windows_invar (flush_one k s)"
    using assms unfolding 2(2)
    by (fastforce simp: coordinator_invar_def windows_invar_def flush_due_def in_set_remove1_other)
  moreover have "accounted (flush_one k s) = accounted s" and "observed (flush_one k s) = observed s"
    and "closed (flush_one k s) = closed s" for k'
    unfolding 2(2) by (simp_all add: accounted_def id_defs fun_eq_iff)
  ultimately show ?thesis using assms by (simp add: coordinator_invar_def)
next
  case (3 b)
  have k: "issue_key (last_event b) = Some k" and ok: "window_ok (observed s) k b"
    using assms 3(1) by (auto simp: coordinator_invar_def windows_invar_def window_ok_def)
  have "windows_invar (flush_one k s)"
    using assms marker_ok_window [OF ok] unfolding 3(2)
    by (auto simp: coordinator_invar_def windows_invar_def flush_due_def
        dispatch_buffered_def in_set_remove1_other split: if_splits)
  moreover have "accounted (flush_one k s) k' = accounted s k'" and "observed (flush_one k s) = observed s"
    and "closed (flush_one k s) = closed s" for k'
    using k 3(1) unfolding 3(2)
    by (auto simp: accounted_def dispatched_ids_snoc) (auto simp: id_defs dispatch_buffered_def)
  ultimately show ?thesis using assms by (simp add: coordinator_invar_def)
qed

lemma concat_ids_of_buffers:
  assumes "wf_dict bs" and "\<forall>(k', b) \<in> set bs. issue_key (last_event b) = Some k'"
  shows "concat (map delivery_ids (filter (\<lambda>b. issue_key (last_event b) = Some k) (map snd bs))) =
           (case dict_get bs k of None \<Rightarrow> [] | Some b \<Rightarrow> delivery_ids b)"
  using assms
proof (induction bs)
  case Nil
  then show ?case by simp
next
  case (Cons x bs)
  obtain k' b where x: "x = (k', b)" by fastforce
  have wf: "wf_dict bs" "k' \<notin> fst ` set bs" using Cons.prems x by (simp_all add: wf_dict_def)
  then have "dict_get bs k' = None" by (simp add: dict_get_None_iff)
  with Cons wf x show ?case by (auto split: option.splits)
qed

lemma invar_flush_all:
  assumes "coordinator_invar s"
  shows "coordinator_invar (flush_all s)"
proof (cases "closed s")
  case True
  with assms show ?thesis by (simp add: flush_all_def)
next
  case False
  have w: "windows_invar s" using assms by (simp add: coordinator_invar_def)
  then have ok: "window_ok (observed s) k b" if "(k, b) \<in> set (buffers s)" for k b
    using that by (auto simp: windows_invar_def dict_get_in_set)
  then have "windows_invar (flush_all s)"
    using w False by (fastforce simp: windows_invar_def flush_all_def)
  moreover have "accounted (flush_all s) k = accounted s k" for k
  proof -
    have "concat (map delivery_ids (filter (\<lambda>b. issue_key (last_event b) = Some k) (map snd (buffers s)))) =
        (case dict_get (buffers s) k of None \<Rightarrow> [] | Some b \<Rightarrow> delivery_ids b)"
      using w ok by (intro concat_ids_of_buffers) (auto simp: windows_invar_def window_ok_def)
    with False show ?thesis by (simp add: accounted_def flush_all_def id_defs)
  qed
  moreover have "observed (flush_all s) = observed s" and "closed (flush_all s) = closed s"
    by (simp_all add: flush_all_def)
  ultimately show ?thesis using assms by (simp add: coordinator_invar_def)
qed

lemma invar_drain_next:
  assumes "coordinator_invar s"
  shows "coordinator_invar (drain_next s)"
proof (cases "draining s")
  case Nil
  with assms show ?thesis by (simp add: drain_next_def)
next
  case (Cons b bs)
  have "windows_invar (drain_next s)"
    using assms Cons
    by (auto simp: coordinator_invar_def windows_invar_def flush_due_def drain_next_def dispatch_buffered_def
        marker_ok_window)
  moreover have "accounted (drain_next s) k = accounted s k" for k
    using Cons by (auto simp: accounted_def drain_next_def dispatched_ids_snoc)
      (auto simp: id_defs dispatch_buffered_def)
  moreover have "observed (drain_next s) = observed s" and "closed (drain_next s) = closed s"
    using Cons by (simp_all add: drain_next_def dispatch_buffered_def)
  ultimately show ?thesis using assms by (simp add: coordinator_invar_def)
qed

lemma invar_aclose:
  assumes "coordinator_invar s"
  shows "coordinator_invar (aclose s)"
proof (cases "closed s")
  case True
  with assms show ?thesis by (simp add: aclose_def)
next
  case False
  have "accounted (aclose s) k \<subseteq># accounted s k" for k
    using False by (simp add: accounted_def aclose_def id_defs)
  with assms False show ?thesis
    by (auto simp: coordinator_invar_def windows_invar_def aclose_def)
qed

interpretation debounce: stateful_component loop_exec "\<lambda>s. s = new_coordinator" coordinator_invar
proof unfold_locales
  fix s assume "s = new_coordinator"
  then show "coordinator_invar s"
    by (simp add: coordinator_invar_def windows_invar_def new_coordinator_def accounted_def id_defs ids_on_def
        on_issue_def)
next
  fix s x assume "coordinator_invar s"
  then show "coordinator_invar (loop_exec s x)"
    by (cases x) (auto simp: invar_timer invar_flush_one invar_flush_all invar_drain_next invar_aclose
        intro: invar_observe split: sum.splits)
qed

section \<open>Properties\<close>

text \<open>
  C25. For every interleaving of requests, timers, flush tasks and \<open>flush_all\<close> calls on a coordinator
  that has not been closed, every accepted delivery of an issue is in exactly one place: in the marker
  of one dispatched event, in a window being drained, or in the open window; and every dispatched
  event names deliveries of its own issue only, in arrival order and ending with itself.
\<close>

theorem debounce_exactly_once:
  assumes "s = run_ops loop_exec new_coordinator steps" and "\<not> closed s"
  shows "mset (dispatched_ids k s) + mset (draining_ids k s) + mset (buffer_ids k s) =
           mset (ids_on k (observed s)) \<and>
         list_all (marker_ok (observed s)) (dispatched s)"
  using debounce.invar_reachable [of new_coordinator steps] assms
  by (auto simp: coordinator_invar_def windows_invar_def accounted_def list_all_iff)

definition demo_event :: "pystr \<Rightarrow> pystr \<Rightarrow> WebhookEvent" where
  "demo_event k d =
     \<lparr>provider = jira, event_type = ''jira:issue_commented'', delivery_id = d, actor_account_id = Some ''u'',
      body_text = None, project_key = None, repo_slug = None, issue_key = Some k, pr_id = None, raw_payload = []\<rparr>"

definition demo_steps :: "loop_step list" where
  "demo_steps = [Observe (demo_event ''A-1'' ''d1''), Observe (demo_event ''B-1'' ''d2''),
     Observe (demo_event ''A-1'' ''d3''), TimerFires 0 ''A-1'', FlushTask ''A-1'']"

theorem debounce_exactly_once_witness:
  "dispatched_ids ''A-1'' (run_ops loop_exec new_coordinator demo_steps) = [''d1'', ''d3''] \<and>
   list_all (marker_ok (observed (run_ops loop_exec new_coordinator demo_steps)))
     (dispatched (run_ops loop_exec new_coordinator demo_steps))"
proof -
  have nc: "\<not> closed (run_ops loop_exec new_coordinator demo_steps)" by code_simp
  have "dispatched_ids ''A-1'' (run_ops loop_exec new_coordinator demo_steps) = [''d1'', ''d3'']" by code_simp
  with debounce_exactly_once [OF refl nc] show ?thesis by blast
qed

text \<open>
  No window is forgotten: in every reachable state, when the timer of an open window fires and a
  flush task of its issue runs, the callback receives the latest event of the window with all its
  deliveries, whichever of the two had already happened.
\<close>

theorem open_window_is_flushed:
  assumes "s = run_ops loop_exec new_coordinator steps" and "dict_get (buffers s) k = Some b"
  shows "dispatched (run_ops loop_exec s [TimerFires (flush_handle b) k, FlushTask k]) =
           dispatched s @ [attach_coalesced_marker (last_event b) (delivery_ids b)]"
proof -
  have "coordinator_invar s" using debounce.invar_reachable [of new_coordinator steps] assms(1) by simp
  with assms(2) have "\<not> closed s" and "(flush_handle b, k) \<in> set (timers s) \<or> k \<in> set (flush_tasks s)"
    by (auto simp: coordinator_invar_def windows_invar_def flush_due_def)
  with assms(2) show ?thesis
    by (auto simp: on_window_expired_def flush_one_def dispatch_buffered_def)
qed

theorem open_window_is_flushed_witness:
  "dispatched (run_ops loop_exec (run_ops loop_exec new_coordinator [Observe (demo_event ''A-1'' ''d1'')])
      [TimerFires 0 ''A-1'', FlushTask ''A-1'']) =
   [attach_coalesced_marker (demo_event ''A-1'' ''d1'') [''d1'']]"
proof -
  let ?s = "run_ops loop_exec new_coordinator [Observe (demo_event ''A-1'' ''d1'')]"
  have b: "dict_get (buffers ?s) ''A-1'' =
      Some \<lparr>last_event = demo_event ''A-1'' ''d1'', delivery_ids = [''d1''], flush_handle = 0\<rparr>"
    and d: "dispatched ?s = []"
    by (simp_all add: observe_def new_coordinator_def demo_event_def)
  from open_window_is_flushed [OF refl b] d show ?thesis by simp
qed

text \<open>
  An event that is alone in its window reaches the workflow twice: \<open>observe\<close> tells the caller to
  dispatch it at once, and the expiry of the window dispatches it again through the callback.
\<close>

theorem lone_event_is_dispatched_twice:
  assumes "issue_key e = Some k"
  shows "\<exists>s. observe e new_coordinator = Inr (dispatch_now e, s) \<and>
             dispatched (run_ops loop_exec s [TimerFires 0 k, FlushTask k]) =
               [attach_coalesced_marker e [delivery_id e]]"
  using assms
  by (simp add: observe_def new_coordinator_def on_window_expired_def flush_one_def dispatch_buffered_def)

theorem lone_event_is_dispatched_twice_witness:
  "\<exists>s. observe (demo_event ''A-1'' ''d1'') new_coordinator = Inr (dispatch_now (demo_event ''A-1'' ''d1''), s) \<and>
       length (dispatched (run_ops loop_exec s [TimerFires 0 ''A-1'', FlushTask ''A-1''])) = 1"
  using lone_event_is_dispatched_twice [of "demo_event ''A-1'' ''d1''" "''A-1''"]
  by (auto simp: demo_event_def)

end
