(* ===== verification/Webhook_Filters.thy ===== *)
theory Webhook_Filters
  imports Webhook_Event Burst_Window
begin

text \<open>
  \<^verbatim>\<open>services/automation-service/src/automation_service/webhook_filters.py\<close>: the filter chain every
  webhook event passes before it reaches a workflow. The callbacks the chain is built from are the
  fields of a record: pure look-ups, and the burst callback, which has a state of its own that the
  chain threads through.
\<close>

section \<open>Verdicts and callbacks\<close>

datatype filter_action = Drop | Pass

record FilterDecision =
  action :: filter_action
  reason :: pystr
  coalesced_with :: "pystr list"

datatype filter_error = WebhookHmacInvalidError | WebhookDeptUnresolvedError

record BurstRegisterResult =
  burst_decision :: CoalesceDecision
  burst_coalesced_with :: "pystr list"

record 's filter_chain =
  verify_hmac :: "WebhookEvent \<Rightarrow> bool"
  resolve_dept :: "WebhookEvent \<Rightarrow> pystr option"
  bot_account_ids :: "pystr set"
  is_processed :: "pystr \<Rightarrow> bool"
  mention_set_for :: "pystr \<Rightarrow> pystr set"
  iter_count_for :: "pystr \<Rightarrow> int"
  reporter_for :: "pystr \<Rightarrow> pystr"
  burst_register :: "(WebhookEvent \<Rightarrow> 's \<Rightarrow> BurstRegisterResult option \<times> 's) option"

definition JIRA_COMMENT_EVENT_TYPE :: pystr where
  "JIRA_COMMENT_EVENT_TYPE = ''jira:issue_commented''"

definition STREAMLIT_BYPASS_TAG :: pystr where
  "STREAMLIT_BYPASS_TAG = ''[bot:hear]''"

definition REASON_DUPLICATE_EVENT_DROPPED :: pystr where
  "REASON_DUPLICATE_EVENT_DROPPED = ''duplicate_event_dropped''"

definition REASON_COMMENT_IGNORED_UNAUTHORIZED_ACTOR :: pystr where
  "REASON_COMMENT_IGNORED_UNAUTHORIZED_ACTOR = ''comment_ignored_unauthorized_actor''"

definition REASON_MENTION_FILTER_FIRST_ITER_EXCEPTION :: pystr where
  "REASON_MENTION_FILTER_FIRST_ITER_EXCEPTION = ''mention_filter_first_iter_exception''"

definition REASON_STREAMLIT_INLINE_REPLY_WITH_BYPASS :: pystr where
  "REASON_STREAMLIT_INLINE_REPLY_WITH_BYPASS = ''streamlit_inline_reply_with_bypass''"

definition REASON_FILTER_CHAIN_PASS :: pystr where
  "REASON_FILTER_CHAIN_PASS = ''filter_chain_pass''"

definition REASON_LOOP_GUARD_DROPPED :: pystr where
  "REASON_LOOP_GUARD_DROPPED = ''loop_guard_dropped''"

definition REASON_LOOP_GUARD_REGEX_DROPPED :: pystr where
  "REASON_LOOP_GUARD_REGEX_DROPPED = ''loop_guard_regex_dropped''"

definition REASON_BURST_COALESCED :: pystr where
  "REASON_BURST_COALESCED = ''burst_coalesced''"

definition verdict :: "filter_action \<Rightarrow> pystr \<Rightarrow> FilterDecision" where
  \<comment> \<open>\<open>FilterDecision(action, reason, coalesced_with=())\<close>\<close>
  "verdict a r = \<lparr>action = a, reason = r, coalesced_with = []\<rparr>"

section \<open>Stages\<close>

definition stage_verify_hmac :: "'s filter_chain \<Rightarrow> WebhookEvent \<Rightarrow> filter_error + unit" where
  "stage_verify_hmac c e = (if \<not> verify_hmac c e then Inl WebhookHmacInvalidError else Inr ())"

definition stage_resolve_dept :: "'s filter_chain \<Rightarrow> WebhookEvent \<Rightarrow> filter_error + unit" where
  "stage_resolve_dept c e = (if resolve_dept c e = None then Inl WebhookDeptUnresolvedError else Inr ())"

definition bot_prefix_regex :: "pystr \<Rightarrow> bool" where
  \<comment> \<open>\<^verbatim>\<open>^\s*\[bot:\<close>, searched without the multi-line flag\<close>
  "bot_prefix_regex body \<longleftrightarrow> starts_with (lstrip body) ''[bot:''"

definition stage_loop_guard :: "'s filter_chain \<Rightarrow> WebhookEvent \<Rightarrow> FilterDecision option" where
  "stage_loop_guard c e =
     (case actor_account_id e of
        Some actor \<Rightarrow>
          if actor \<in> bot_account_ids c then Some (verdict Drop REASON_LOOP_GUARD_DROPPED) else None
      | None \<Rightarrow>
          (case body_text e of
             Some body \<Rightarrow>
               if bot_prefix_regex body then Some (verdict Drop REASON_LOOP_GUARD_REGEX_DROPPED) else None
           | None \<Rightarrow> None))"

definition has_streamlit_bypass_tag :: "pystr option \<Rightarrow> bool" where
  "has_streamlit_bypass_tag body \<longleftrightarrow>
     (case body of None \<Rightarrow> False | Some b \<Rightarrow> b \<noteq> [] \<and> contains_sub STREAMLIT_BYPASS_TAG (lower b))"

definition stage_streamlit_bypass :: "WebhookEvent \<Rightarrow> FilterDecision option" where
  "stage_streamlit_bypass e =
     (if has_streamlit_bypass_tag (body_text e)
      then Some (verdict Pass REASON_STREAMLIT_INLINE_REPLY_WITH_BYPASS) else None)"

definition stage_replay_dedup :: "'s filter_chain \<Rightarrow> WebhookEvent \<Rightarrow> FilterDecision option" where
  "stage_replay_dedup c e =
     (if is_processed c (delivery_id e) then Some (verdict Drop REASON_DUPLICATE_EVENT_DROPPED) else None)"

definition stage_mention_filter :: "'s filter_chain \<Rightarrow> WebhookEvent \<Rightarrow> FilterDecision option" where
  "stage_mention_filter c e =
     (if event_type e \<noteq> JIRA_COMMENT_EVENT_TYPE then None
      else case issue_key e of
             None \<Rightarrow> None
           | Some k \<Rightarrow>
               let iter_count = iter_count_for c k; actor = actor_account_id e
               in if iter_count \<le> 1 \<and> actor \<noteq> None \<and> Some (reporter_for c k) = actor
                  then Some (verdict Pass REASON_MENTION_FILTER_FIRST_ITER_EXCEPTION)
                  else if iter_count > 1 \<and>
                          (case actor of None \<Rightarrow> True | Some a \<Rightarrow> a \<notin> mention_set_for c k)
                  then Some (verdict Drop REASON_COMMENT_IGNORED_UNAUTHORIZED_ACTOR)
                  else None)"

definition stage_burst_debounce :: "'s filter_chain \<Rightarrow> WebhookEvent \<Rightarrow> 's \<Rightarrow> FilterDecision option \<times> 's" where
  "stage_burst_debounce c e s =
     (case burst_register c of
        None \<Rightarrow> (None, s)
      | Some reg \<Rightarrow>
          (case reg e s of
             (None, s') \<Rightarrow> (None, s')
           | (Some r, s') \<Rightarrow>
               (if burst_decision r = coalesce_dropped
                then Some \<lparr>action = Drop, reason = REASON_BURST_COALESCED, coalesced_with = burst_coalesced_with r\<rparr>
                else None, s')))"

definition evaluate :: "'s filter_chain \<Rightarrow> WebhookEvent \<Rightarrow> 's \<Rightarrow> (filter_error + FilterDecision) \<times> 's" where
  "evaluate c e s =
     (case stage_verify_hmac c e of
        Inl x \<Rightarrow> (Inl x, s)
      | Inr _ \<Rightarrow>
     (case stage_resolve_dept c e of
        Inl x \<Rightarrow> (Inl x, s)
      | Inr _ \<Rightarrow>
     (case stage_loop_guard c e of
        Some d \<Rightarrow> (Inr d, s)
      | None \<Rightarrow>
     (case stage_streamlit_bypass e of
        Some d \<Rightarrow> (Inr d, s)
      | None \<Rightarrow>
     (case stage_replay_dedup c e of
        Some d \<Rightarrow> (Inr d, s)
      | None \<Rightarrow>
     (case stage_mention_filter c e of
        Some d \<Rightarrow> (Inr d, s)
      | None \<Rightarrow>
     (case stage_burst_debounce c e s of
        (Some d, s') \<Rightarrow> (Inr d, s')
      | (None, s') \<Rightarrow> (Inr (verdict Pass REASON_FILTER_CHAIN_PASS), s'))))))))"

section \<open>The callback interface of the burst stage\<close>

text \<open>
  What the chain may rely on from a burst callback: it keeps an invariant of its own state and leaves
  events without an issue alone. Every chain over such a callback then keeps the invariant, and treats
  events without an issue the same in every state.
\<close>

locale burst_callback =
  fixes reg :: "WebhookEvent \<Rightarrow> 's \<Rightarrow> BurstRegisterResult option \<times> 's"
    and inv :: "'s \<Rightarrow> bool"
  assumes keeps: "inv s \<Longrightarrow> inv (snd (reg e s))"
    and out_of_scope: "issue_key e = None \<Longrightarrow> reg e s = (None, s)"
begin

lemma burst_stage_keeps: "inv s \<Longrightarrow> burst_register c = Some reg \<Longrightarrow> inv (snd (stage_burst_debounce c e s))"
  using keeps [of s e] by (auto simp: stage_burst_debounce_def split: prod.splits option.splits)

lemma evaluate_keeps: "inv s \<Longrightarrow> burst_register c = Some reg \<Longrightarrow> inv (snd (evaluate c e s))"
  using burst_stage_keeps [of s c e]
  by (auto simp: evaluate_def split: sum.splits option.splits prod.splits)

lemma evaluate_without_issue:
  assumes "burst_register c = Some reg" and "issue_key e = None"
  shows "snd (evaluate c e s) = s \<and> fst (evaluate c e s) = fst (evaluate c e s')"
  using assms by (auto simp: evaluate_def stage_burst_debounce_def out_of_scope split: sum.splits option.splits)

end

text \<open>
  The adapter from the chain to a burst window, at the time \<open>now\<close> the callback reads: an event without
  an issue is out of scope, any other is registered with its delivery id and payload. A registration
  that raises is outside the callback's domain and is left without effect here.
\<close>

definition window_adapter ::
  "rat \<Rightarrow> WebhookEvent \<Rightarrow> pyval pydict BurstWindow \<Rightarrow> BurstRegisterResult option \<times> pyval pydict BurstWindow" where
  "window_adapter now e b =
     (case issue_key e of
        None \<Rightarrow> (None, b)
      | Some k \<Rightarrow>
          (case register k (delivery_id e) (raw_payload e) now b of
             Inl _ \<Rightarrow> (None, b)
           | Inr (coalesce_emit, b') \<Rightarrow> (Some \<lparr>burst_decision = coalesce_emit, burst_coalesced_with = []\<rparr>, b')
           | Inr (coalesce_dropped, b') \<Rightarrow>
               (Some \<lparr>burst_decision = coalesce_dropped,
                      burst_coalesced_with =
                        (case dict_get (buffers b') k of None \<Rightarrow> [] | Some w \<Rightarrow> dropped_delivery_ids w)\<rparr>, b')))"

lemma window_adapter_wf:
  "wf_dict (buffers b) \<Longrightarrow> wf_dict (buffers (snd (window_adapter now e b)))"
  by (auto simp: window_adapter_def split: option.splits sum.splits prod.splits CoalesceDecision.splits
      intro: register_wf)

interpretation window_burst: burst_callback "window_adapter now" "\<lambda>b. wf_dict (buffers b)" for now
  by unfold_locales (simp add: window_adapter_wf, simp add: window_adapter_def)

section \<open>Specification\<close>

definition bot_authored :: "'s filter_chain \<Rightarrow> WebhookEvent \<Rightarrow> bool" where
  "bot_authored c e \<longleftrightarrow>
     (case actor_account_id e of
        Some a \<Rightarrow> a \<in> bot_account_ids c
      | None \<Rightarrow> (case body_text e of Some b \<Rightarrow> bot_prefix_regex b | None \<Rightarrow> False))"

definition comment_on :: "WebhookEvent \<Rightarrow> pystr \<Rightarrow> bool" where
  "comment_on e k \<longleftrightarrow> event_type e = JIRA_COMMENT_EVENT_TYPE \<and> issue_key e = Some k"

definition first_iter_reporter :: "'s filter_chain \<Rightarrow> WebhookEvent \<Rightarrow> bool" where
  "first_iter_reporter c e \<longleftrightarrow>
     (\<exists>k. comment_on e k \<and> iter_count_for c k \<le> 1 \<and> actor_account_id e = Some (reporter_for c k))"

definition unauthorised_comment :: "'s filter_chain \<Rightarrow> WebhookEvent \<Rightarrow> bool" where
  "unauthorised_comment c e \<longleftrightarrow>
     (\<exists>k. comment_on e k \<and> iter_count_for c k > 1 \<and>
          (\<forall>a \<in> mention_set_for c k. actor_account_id e \<noteq> Some a))"

definition coalesced :: "'s filter_chain \<Rightarrow> WebhookEvent \<Rightarrow> 's \<Rightarrow> bool" where
  "coalesced c e s \<longleftrightarrow> fst (stage_burst_debounce c e s) \<noteq> None"

definition survives_filters :: "'s filter_chain \<Rightarrow> WebhookEvent \<Rightarrow> bool" where
  \<comment> \<open>no stage before the burst stage decides\<close>
  "survives_filters c e \<longleftrightarrow>
     verify_hmac c e \<and> resolve_dept c e \<noteq> None \<and> \<not> bot_authored c e \<and>
     \<not> has_streamlit_bypass_tag (body_text e) \<and> \<not> is_processed c (delivery_id e) \<and>
     \<not> first_iter_reporter c e \<and> \<not> unauthorised_comment c e"

section \<open>Lemmas\<close>

lemma stage_loop_guard_eq:
  "stage_loop_guard c e =
     (if bot_authored c e
      then Some (verdict Drop (if actor_account_id e = None then REASON_LOOP_GUARD_REGEX_DROPPED
                               else REASON_LOOP_GUARD_DROPPED))
      else None)"
  by (auto simp: stage_loop_guard_def bot_authored_def split: option.splits)

lemma stage_mention_filter_eq:
  "stage_mention_filter c e =
     (if first_iter_reporter c e then Some (verdict Pass REASON_MENTION_FILTER_FIRST_ITER_EXCEPTION)
      else if unauthorised_comment c e then Some (verdict Drop REASON_COMMENT_IGNORED_UNAUTHORIZED_ACTOR)
      else None)"
  by (auto simp: stage_mention_filter_def first_iter_reporter_def unauthorised_comment_def comment_on_def
      split: option.splits)

lemmas early_stages = stage_verify_hmac_def stage_resolve_dept_def stage_loop_guard_eq
  stage_streamlit_bypass_def stage_replay_dedup_def stage_mention_filter_eq

lemma burst_stage_drops: "stage_burst_debounce c e s = (Some d, s') \<Longrightarrow> action d = Drop"
  by (auto simp: stage_burst_debounce_def split: option.splits prod.splits if_splits)

lemma action_verdict [simp]: "action (verdict a r) = a"
  by (simp add: verdict_def)

section \<open>Properties\<close>

text \<open>
  C11. Exactly which events pass the chain, for every choice of callbacks: authentic ones of a known
  department that no bot wrote, and of these the tagged inline replies, and among the others the
  unprocessed deliveries that are either the reporter's comment of the first iteration, or neither an
  unauthorised comment nor absorbed by an open burst window.
\<close>

theorem evaluate_passes_iff:
  "(\<exists>d s'. evaluate c e s = (Inr d, s') \<and> action d = Pass) \<longleftrightarrow>
     verify_hmac c e \<and> resolve_dept c e \<noteq> None \<and> \<not> bot_authored c e \<and>
     (has_streamlit_bypass_tag (body_text e) \<or>
      \<not> is_processed c (delivery_id e) \<and>
      (first_iter_reporter c e \<or> \<not> unauthorised_comment c e \<and> \<not> coalesced c e s))"
  by (auto simp: evaluate_def early_stages coalesced_def
      dest: burst_stage_drops split: prod.splits option.splits)

definition demo_chain :: "pyval pydict BurstWindow filter_chain" where
  "demo_chain =
     \<lparr>verify_hmac = (\<lambda>_. True), resolve_dept = (\<lambda>_. Some ''pay''), bot_account_ids = {''bot-1''},
      is_processed = (\<lambda>d. d = ''old''), mention_set_for = (\<lambda>_. {''alice''}), iter_count_for = (\<lambda>_. 2),
      reporter_for = (\<lambda>_. ''bob''), burst_register = Some (window_adapter 10)\<rparr>"

definition demo_comment :: WebhookEvent where
  "demo_comment =
     \<lparr>provider = jira, event_type = ''jira:issue_commented'', delivery_id = ''d1'', actor_account_id = Some ''alice'',
      body_text = Some ''please fix'', project_key = None, repo_slug = None, issue_key = Some ''A-1'',
      pr_id = None, raw_payload = []\<rparr>"

theorem evaluate_passes_iff_witness:
  "\<exists>d s'. evaluate demo_chain demo_comment \<lparr>window_seconds = 3, buffers = []\<rparr> = (Inr d, s') \<and> action d = Pass"
proof -
  have "verify_hmac demo_chain demo_comment" "resolve_dept demo_chain demo_comment \<noteq> None"
    "\<not> bot_authored demo_chain demo_comment" "\<not> is_processed demo_chain (delivery_id demo_comment)"
    "\<not> unauthorised_comment demo_chain demo_comment"
    by (simp_all add: demo_chain_def demo_comment_def bot_authored_def unauthorised_comment_def)
  moreover have "\<not> coalesced demo_chain demo_comment \<lparr>window_seconds = 3, buffers = []\<rparr>"
    by (simp add: coalesced_def stage_burst_debounce_def demo_chain_def demo_comment_def window_adapter_def
        register_def)
  ultimately show ?thesis
    using evaluate_passes_iff [of demo_chain demo_comment "\<lparr>window_seconds = 3, buffers = []\<rparr>"] by blast
qed

text \<open>
  The burst window sees survivors only: an event that an earlier stage decides or rejects leaves the
  state of the burst callback untouched and gets the same verdict in every state; an event that
  survives them is dropped exactly when the callback coalesces it.
\<close>

theorem burst_sees_survivors_only:
  "if survives_filters c e
   then evaluate c e s =
          (case stage_burst_debounce c e s of
             (Some d, s') \<Rightarrow> (Inr d, s') | (None, s') \<Rightarrow> (Inr (verdict Pass REASON_FILTER_CHAIN_PASS), s'))
   else snd (evaluate c e s) = s \<and> fst (evaluate c e s) = fst (evaluate c e t)"
  by (auto simp: evaluate_def early_stages survives_filters_def split: prod.splits option.splits)

text \<open>
  From the payload to the verdict: a Jira delivery whose \<open>user.accountId\<close> is a registered bot
  never passes, whatever its text, even with the bypass tag, and in every state of the chain.
\<close>

theorem bot_jira_payload_never_passes:
  assumes "get_or_none raw ''user'' = PDict u" and "get_or_none u ''accountId'' = PStr b"
    and "b \<noteq> []" and "b \<in> bot_account_ids c"
  shows "\<not> (\<exists>d s'. evaluate c (normalize_jira_event raw delivery etype) s = (Inr d, s') \<and> action d = Pass)"
proof -
  have "actor_account_id (normalize_jira_event raw delivery etype) = Some b"
    using assms(1-3) by (simp add: normalize_jira_event_def sub_str_def coerce_str_def or_else_def)
  with assms(4) have "bot_authored c (normalize_jira_event raw delivery etype)"
    by (simp add: bot_authored_def)
  then show ?thesis by (auto simp: evaluate_def early_stages)
qed

theorem bot_jira_payload_never_passes_witness:
  "\<not> (\<exists>d s'. evaluate demo_chain
        (normalize_jira_event [(''user'', PDict [(''accountId'', PStr ''bot-1'')]),
           (''comment'', PDict [(''body'', PStr ''[bot:hear] go'')])] ''d1'' None)
        \<lparr>window_seconds = 3, buffers = []\<rparr> = (Inr d, s') \<and> action d = Pass)"
  by (rule bot_jira_payload_never_passes [where u = "[(''accountId'', PStr ''bot-1'')]" and b = "''bot-1''"])
    (simp_all add: get_or_none_def demo_chain_def)

text \<open>
  A comment without an actor that starts with the bypass tag is dropped as a bot's own comment:
  the loop guard matches the tag's prefix before the bypass stage is reached.
\<close>

theorem actorless_inline_reply_is_dropped:
  assumes "verify_hmac c e" and "resolve_dept c e \<noteq> None" and "actor_account_id e = None"
    and "body_text e = Some (STREAMLIT_BYPASS_TAG @ rest)"
  shows "has_streamlit_bypass_tag (body_text e) \<and>
         evaluate c e s = (Inr (verdict Drop REASON_LOOP_GUARD_REGEX_DROPPED), s)"
proof -
  have "lower (STREAMLIT_BYPASS_TAG @ rest) = [] @ STREAMLIT_BYPASS_TAG @ lower rest"
    by (simp add: lower_def STREAMLIT_BYPASS_TAG_def lower_char_def char_range_def)
  then have "contains_sub STREAMLIT_BYPASS_TAG (lower (STREAMLIT_BYPASS_TAG @ rest))"
    unfolding contains_sub_iff by blast
  then have tag: "has_streamlit_bypass_tag (body_text e)"
    using assms(4) by (simp add: has_streamlit_bypass_tag_def STREAMLIT_BYPASS_TAG_def)
  have "lstrip (STREAMLIT_BYPASS_TAG @ rest) = ''[bot:'' @ ''hear]'' @ rest"
    by (simp add: lstrip_def STREAMLIT_BYPASS_TAG_def is_space_def)
  then have "bot_prefix_regex (STREAMLIT_BYPASS_TAG @ rest)"
    unfolding bot_prefix_regex_def starts_with_iff by blast
  with assms have "bot_authored c e" by (simp add: bot_authored_def)
  with assms tag show ?thesis by (auto simp: evaluate_def early_stages)
qed

definition demo_reply :: WebhookEvent where
  "demo_reply =
     \<lparr>provider = jira, event_type = ''jira:issue_commented'', delivery_id = ''d1'', actor_account_id = None,
      body_text = Some (''[bot:hear] go''), project_key = None, repo_slug = None, issue_key = Some ''A-1'',
      pr_id = None, raw_payload = []\<rparr>"

theorem actorless_inline_reply_is_dropped_witness:
  "evaluate demo_chain demo_reply \<lparr>window_seconds = 3, buffers = []\<rparr> =
     (Inr (verdict Drop REASON_LOOP_GUARD_REGEX_DROPPED), \<lparr>window_seconds = 3, buffers = []\<rparr>)"
proof -
  have "verify_hmac demo_chain demo_reply" "resolve_dept demo_chain demo_reply \<noteq> None"
    "actor_account_id demo_reply = None" "body_text demo_reply = Some (STREAMLIT_BYPASS_TAG @ '' go'')"
    by (simp_all add: demo_chain_def demo_reply_def STREAMLIT_BYPASS_TAG_def)
  from actorless_inline_reply_is_dropped [OF this] show ?thesis by blast
qed

end
