(* ===== verification/Loop_Guard.thy ===== *)
theory Loop_Guard
  imports Platform_Prelude
begin

text \<open>
  The bot loop guard: the pure predicates of
  \<^verbatim>\<open>services/automation-service/src/decision/loop_guard.py\<close> and the stateful stage of
  \<^verbatim>\<open>services/automation-service/src/webhooks/loop_guard.py\<close>. The two tables the stage writes
  are part of its state, with whether an audit logger and an administrator's notifier are configured; which of
  the calls of a check to the database, the logger and the notifier fail is an argument (\<open>db_faults\<close>), so the
  fail-open branches are covered. One call of \<open>check\<close> reads one time.
\<close>

section \<open>Predicates\<close>

definition ACCEPTED_EVENT_TYPES :: "pystr set" where
  "ACCEPTED_EVENT_TYPES =
     {''jira:issue_created'', ''jira:issue_assigned'', ''jira:issue_updated'', ''jira:comment_created'',
      ''pullrequest:reviewer_added'', ''pullrequest:comment_created''}"

definition is_self_actor :: "pystr option \<Rightarrow> pystr set \<Rightarrow> bool" where
  "is_self_actor actor bots = (case actor of None \<Rightarrow> False | Some a \<Rightarrow> a \<in> bots)"

definition is_bot_assignee :: "pystr option \<Rightarrow> pystr set \<Rightarrow> bool" where
  "is_bot_assignee assignee bots = (case assignee of None \<Rightarrow> False | Some a \<Rightarrow> a \<in> bots)"

fun in_bots :: "pyval \<Rightarrow> pystr set \<Rightarrow> pystr + bool" where
  \<comment> \<open>\<open>v in bots\<close>: lists and dictionaries are not hashable\<close>
  "in_bots (PStr s) bots = Inr (s \<in> bots)"
| "in_bots (PList _) bots = Inl ''TypeError''"
| "in_bots (PDict _) bots = Inl ''TypeError''"
| "in_bots _ bots = Inr False"

fun scan_items :: "pystr set \<Rightarrow> pyval list \<Rightarrow> pystr + bool" where
  "scan_items bots [] = Inr False"
| "scan_items bots (item # items) =
     (case item of
        PDict d \<Rightarrow>
          if get_or_none d ''field'' \<noteq> PStr ''assignee'' then scan_items bots items
          else if get_or_none d ''to'' = PNone then scan_items bots items
          else rbind (in_bots (get_or_none d ''to'') bots) (\<lambda>hit.
                 if hit then Inr True else scan_items bots items)
      | _ \<Rightarrow> scan_items bots items)"

definition assignee_changed_to_bot :: "pyval pydict option \<Rightarrow> pystr set \<Rightarrow> pystr + bool" where
  "assignee_changed_to_bot changelog bots =
     (case changelog of
        None \<Rightarrow> Inr False
      | Some d \<Rightarrow>
          if \<not> truthy (get_or_none d ''items'') then Inr False
          else rbind (iter_value (get_or_none d ''items'')) (scan_items bots))"

datatype routing = accepted | ignored

definition route :: "pystr \<Rightarrow> routing" where
  "route event_type = (if event_type \<in> ACCEPTED_EVENT_TYPES then accepted else ignored)"

section \<open>The stage\<close>

definition STORM_THRESHOLD :: nat where
  "STORM_THRESHOLD = 3"

abbreviation STORM_WINDOW :: timedelta where
  "STORM_WINDOW \<equiv> seconds 60"

abbreviation STORM_BLOCK :: timedelta where
  "STORM_BLOCK \<equiv> seconds 300"

abbreviation BOT_IDS_CACHE_TTL :: timedelta where
  "BOT_IDS_CACHE_TTL \<equiv> seconds 300"

datatype StageResult = StageDrop pystr | StagePass

record WebhookPayload =
  actor_account_id :: "pystr option"
  issue_key :: pystr
  event_type :: pystr
  comment_body :: "pystr option"
  assignee_account_id :: "pystr option"
  reporter_account_id :: "pystr option"
  dept_id :: "pystr option"
  trace_id :: "pystr option"

record drop_row =
  dr_issue_key :: pystr
  dr_dept_id :: "pystr option"
  dr_event_type :: pystr
  dr_actor :: pystr
  dropped_at :: datetime

record guard =
  has_db :: bool
  guard_audit_logger :: bool \<comment> \<open>whether one is configured\<close>
  guard_admin_notifier :: bool
  drops :: "drop_row list" \<comment> \<open>\<open>shared.loop_guard_drops\<close>\<close>
  blocks :: "datetime pydict" \<comment> \<open>\<open>shared.loop_guard_blocks\<close>: issue to \<open>blocked_until\<close>\<close>
  department_bots :: "pystr set" \<comment> \<open>the non-empty account ids of \<open>automation.department_bots\<close>\<close>
  bot_ids_provider :: "pystr set option"
  bot_ids_cache :: "pystr set option"
  bot_ids_cache_at :: "datetime option"
  audits :: "(pystr \<times> pystr) list" \<comment> \<open>reason and issue of the events the logger has written\<close>
  notices :: "(pystr \<times> pystr) list" \<comment> \<open>notifications the notifier has sent\<close>

record db_faults =
  blocked_fails :: bool
  bot_ids_fails :: bool
  record_fails :: bool
  storm_fails :: bool
  block_fails :: bool
  audit_fails :: bool
  notify_fails :: bool

definition healthy :: db_faults where
  "healthy = \<lparr>blocked_fails = False, bot_ids_fails = False, record_fails = False, storm_fails = False,
     block_fails = False, audit_fails = False, notify_fails = False\<rparr>"

definition is_blocked :: "db_faults \<Rightarrow> pystr \<Rightarrow> datetime \<Rightarrow> guard \<Rightarrow> bool" where
  "is_blocked fl k now g \<longleftrightarrow>
     has_db g \<and> \<not> blocked_fails fl \<and> (case dict_get (blocks g) k of None \<Rightarrow> False | Some u \<Rightarrow> u > now)"

definition fetch_bot_ids_from_db :: "db_faults \<Rightarrow> guard \<Rightarrow> pystr set" where
  "fetch_bot_ids_from_db fl g =
     (if has_db g \<and> \<not> bot_ids_fails fl then department_bots g
      else case bot_ids_cache g of None \<Rightarrow> {} | Some c \<Rightarrow> c)"

definition get_bot_ids :: "db_faults \<Rightarrow> datetime \<Rightarrow> guard \<Rightarrow> pystr set \<times> guard" where
  "get_bot_ids fl now g =
     (let fresh = (case bot_ids_provider g of Some ids \<Rightarrow> ids | None \<Rightarrow> fetch_bot_ids_from_db fl g);
          refreshed = (fresh, g\<lparr>bot_ids_cache := Some fresh, bot_ids_cache_at := Some now\<rparr>)
      in case (bot_ids_cache g, bot_ids_cache_at g) of
           (Some c, Some t) \<Rightarrow> if now - t < BOT_IDS_CACHE_TTL then (c, g) else refreshed
         | _ \<Rightarrow> refreshed)"

definition approval_gate_pattern :: "pystr \<Rightarrow> bool" where
  "approval_gate_pattern b \<longleftrightarrow> contains_sub ''[approve]'' (lower b) \<or> contains_sub ''[reject]'' (lower b)"

definition nonempty :: "pystr option \<Rightarrow> bool" where
  "nonempty x \<longleftrightarrow> (case x of None \<Rightarrow> False | Some s \<Rightarrow> s \<noteq> [])"

definition is_approval_gate_exempt :: "WebhookPayload \<Rightarrow> bool" where
  "is_approval_gate_exempt p \<longleftrightarrow>
     event_type p = ''jira:comment_created'' \<and>
     (case comment_body p of None \<Rightarrow> False | Some b \<Rightarrow> b \<noteq> [] \<and> approval_gate_pattern b) \<and>
     \<not> (nonempty (actor_account_id p) \<and> nonempty (assignee_account_id p) \<and>
        actor_account_id p = assignee_account_id p)"

definition record_drop :: "db_faults \<Rightarrow> WebhookPayload \<Rightarrow> datetime \<Rightarrow> guard \<Rightarrow> guard" where
  "record_drop fl p now g =
     (if \<not> has_db g \<or> record_fails fl then g
      else g\<lparr>drops := drops g @
               [\<lparr>dr_issue_key = issue_key p, dr_dept_id = dept_id p, dr_event_type = event_type p,
                 dr_actor = (case actor_account_id p of None \<Rightarrow> [] | Some a \<Rightarrow> a), dropped_at = now\<rparr>]\<rparr>)"

definition drop_count :: "pystr \<Rightarrow> datetime \<Rightarrow> guard \<Rightarrow> nat" where
  "drop_count k since g = length (filter (\<lambda>r. dr_issue_key r = k \<and> dropped_at r \<ge> since) (drops g))"

definition is_storm :: "db_faults \<Rightarrow> pystr \<Rightarrow> datetime \<Rightarrow> guard \<Rightarrow> bool" where
  "is_storm fl k now g \<longleftrightarrow>
     has_db g \<and> \<not> storm_fails fl \<and> drop_count k (now - STORM_WINDOW) g \<ge> STORM_THRESHOLD"

definition block_issue :: "db_faults \<Rightarrow> pystr \<Rightarrow> datetime \<Rightarrow> guard \<Rightarrow> guard" where
  "block_issue fl k now g =
     (if \<not> has_db g \<or> block_fails fl then g
      else g\<lparr>blocks := dict_set k (now + STORM_BLOCK) (blocks g)\<rparr>)"

definition notify_admin :: "db_faults \<Rightarrow> pystr \<Rightarrow> pystr \<Rightarrow> guard \<Rightarrow> guard" where
  "notify_admin fl event k g =
     (if guard_admin_notifier g \<and> \<not> notify_fails fl then g\<lparr>notices := notices g @ [(event, k)]\<rparr> else g)"

definition audit_drop :: "db_faults \<Rightarrow> WebhookPayload \<Rightarrow> pystr \<Rightarrow> guard \<Rightarrow> guard" where
  "audit_drop fl p reason g =
     (if guard_audit_logger g \<and> \<not> audit_fails fl then g\<lparr>audits := audits g @ [(reason, issue_key p)]\<rparr> else g)"

definition after_drop :: "db_faults \<Rightarrow> WebhookPayload \<Rightarrow> datetime \<Rightarrow> guard \<Rightarrow> guard" where
  \<comment> \<open>storm detection at the end of \<open>check\<close>\<close>
  "after_drop fl p now g =
     (if issue_key p \<noteq> [] \<and> is_storm fl (issue_key p) now g
      then notify_admin fl ''loop_storm_detected'' (issue_key p) (block_issue fl (issue_key p) now g)
      else g)"

definition check :: "db_faults \<Rightarrow> datetime \<Rightarrow> WebhookPayload \<Rightarrow> guard \<Rightarrow> StageResult \<times> guard" where
  "check fl now p g =
     (if issue_key p \<noteq> [] \<and> is_blocked fl (issue_key p) now g
      then (StageDrop ''loop_guard_blocked'', audit_drop fl p ''loop_guard_blocked_issue'' g)
      else let (bot_ids, g) = get_bot_ids fl now g
           in if \<not> is_self_actor (actor_account_id p) bot_ids then (StagePass, g)
              else if is_approval_gate_exempt p then (StagePass, g)
              else (StageDrop ''loop_guard'',
                    after_drop fl p now (audit_drop fl p ''loop_guard_dropped'' (record_drop fl p now g))))"

section \<open>Lemmas\<close>

lemma scan_items_spec:
  assumes "list_all (\<lambda>x. case x of PDict d \<Rightarrow> get_or_none d ''to'' = PNone \<or> (\<exists>s. get_or_none d ''to'' = PStr s) | _ \<Rightarrow> True) items"
  shows "scan_items bots items =
    Inr (list_ex (\<lambda>x. case x of PDict d \<Rightarrow> get_or_none d ''field'' = PStr ''assignee'' \<and>
                         (\<exists>s \<in> bots. get_or_none d ''to'' = PStr s) | _ \<Rightarrow> False) items)"
  using assms by (induction items) (auto split: pyval.splits)

lemma get_bot_ids_frame:
  assumes "get_bot_ids fl now g = (ids, g')"
  shows "has_db g' = has_db g \<and> drops g' = drops g \<and> blocks g' = blocks g \<and> notices g' = notices g
       \<and> guard_admin_notifier g' = guard_admin_notifier g"
  using assms by (auto simp: get_bot_ids_def Let_def split: option.splits if_splits)

lemma drop_count_record:
  "has_db g \<Longrightarrow> \<not> record_fails fl \<Longrightarrow> since \<le> now \<Longrightarrow>
   drop_count (issue_key p) since (record_drop fl p now g) = Suc (drop_count (issue_key p) since g)"
  by (simp add: drop_count_def record_drop_def)

lemma drop_count_audit [simp]: "drop_count k since (audit_drop fl p r g) = drop_count k since g"
  by (simp add: drop_count_def audit_drop_def)

lemma check_blocked:
  "issue_key p \<noteq> [] \<Longrightarrow> is_blocked fl (issue_key p) now g \<Longrightarrow>
   check fl now p g = (StageDrop ''loop_guard_blocked'', audit_drop fl p ''loop_guard_blocked_issue'' g)"
  by (simp add: check_def)

definition guard_step :: "guard \<Rightarrow> db_faults \<times> datetime \<times> WebhookPayload \<Rightarrow> guard" where
  "guard_step g = (\<lambda>(fl, t, p). snd (check fl t p g))"

definition blocked_until :: "pystr \<Rightarrow> datetime \<Rightarrow> guard \<Rightarrow> bool" where
  "blocked_until k u g \<longleftrightarrow> has_db g \<and> (\<exists>v \<ge> u. dict_get (blocks g) k = Some v)"

lemma report_frame [simp]:
  "blocks (notify_admin fl e k g) = blocks g" "has_db (notify_admin fl e k g) = has_db g"
  "blocks (audit_drop fl p r g) = blocks g" "has_db (audit_drop fl p r g) = has_db g"
  "drops (audit_drop fl p r g) = drops g" "notices (audit_drop fl p r g) = notices g"
  "guard_admin_notifier (audit_drop fl p r g) = guard_admin_notifier g"
  by (simp_all add: notify_admin_def audit_drop_def)

lemma record_frame [simp]:
  "blocks (record_drop fl p now g) = blocks g" "has_db (record_drop fl p now g) = has_db g"
  "notices (record_drop fl p now g) = notices g" "guard_admin_notifier (record_drop fl p now g) = guard_admin_notifier g"
  by (simp_all add: record_drop_def)

lemma blocked_until_block:
  assumes "blocked_until k u g" "u \<le> t + STORM_BLOCK"
  shows "blocked_until k u (block_issue fl k' t g)"
  using assms by (cases "k' = k") (auto simp: blocked_until_def block_issue_def)

lemma blocked_until_frame:
  "blocked_until k u (notify_admin fl e k' g) = blocked_until k u g" "blocked_until k u (audit_drop fl p r g) = blocked_until k u g"
  "blocked_until k u (record_drop fl p t g) = blocked_until k u g"
  by (simp_all add: blocked_until_def)

lemma check_keeps_block:
  assumes "blocked_until k u g" "u \<le> t + STORM_BLOCK"
  shows "blocked_until k u (snd (check fl t p g))"
proof -
  obtain ids g1 where b: "get_bot_ids fl t g = (ids, g1)" by fastforce
  have "blocked_until k u g1" using assms(1) get_bot_ids_frame [OF b] by (simp add: blocked_until_def)
  with assms show ?thesis
    by (simp add: check_def b after_drop_def blocked_until_frame blocked_until_block)
qed

lemma run_keeps_block:
  assumes "blocked_until k u g" "list_all (\<lambda>(_, t, _). u \<le> t + STORM_BLOCK) xs"
  shows "blocked_until k u (run_ops guard_step g xs)"
  using assms
proof (induction xs arbitrary: g)
  case (Cons x xs)
  obtain fl t p where "x = (fl, t, p)" by (cases x)
  with Cons check_keeps_block [of k u g t fl p] show ?case by (simp add: guard_step_def)
qed simp

section \<open>Properties\<close>

text \<open>
  Whatever database calls fail, an event passes exactly when its issue is not seen as blocked and
  its actor is not a bot by the ids in force, or the event is an exempt approval comment; so a bot's
  own event is dropped even when recording the drop, detecting the storm or blocking the issue fails.
\<close>

theorem check_passes_iff:
  "fst (check fl now p g) = StagePass \<longleftrightarrow>
     \<not> (issue_key p \<noteq> [] \<and> is_blocked fl (issue_key p) now g) \<and>
     (is_self_actor (actor_account_id p) (fst (get_bot_ids fl now g)) \<longrightarrow> is_approval_gate_exempt p)"
  by (auto simp: check_def split: prod.splits)

definition demo_guard :: guard where
  "demo_guard = \<lparr>has_db = True, guard_audit_logger = True, guard_admin_notifier = True, drops = [], blocks = [], department_bots = {''bot-1''}, bot_ids_provider = None,
     bot_ids_cache = None, bot_ids_cache_at = None, audits = [], notices = []\<rparr>"

definition demo_payload :: "pystr \<Rightarrow> WebhookPayload" where
  "demo_payload actor = \<lparr>actor_account_id = Some actor, issue_key = ''A-1'', event_type = ''jira:comment_created'',
     comment_body = Some ''done'', assignee_account_id = None, reporter_account_id = None, dept_id = None,
     trace_id = None\<rparr>"

theorem check_passes_iff_witness:
  "fst (check \<lparr>blocked_fails = True, bot_ids_fails = False, record_fails = True, storm_fails = True, block_fails = True,
     audit_fails = True, notify_fails = False\<rparr>
     0 (demo_payload ''bot-1'') demo_guard) \<noteq> StagePass"
proof -
  have "is_self_actor (actor_account_id (demo_payload ''bot-1'')) (fst (get_bot_ids
      \<lparr>blocked_fails = True, bot_ids_fails = False, record_fails = True, storm_fails = True, block_fails = True,
     audit_fails = True, notify_fails = False\<rparr> 0 demo_guard))"
    and "\<not> is_approval_gate_exempt (demo_payload ''bot-1'')" by code_simp+
  with check_passes_iff show ?thesis by blast
qed

text \<open>
  C34. Loop storms are cut. When a bot event on an issue is dropped while at least two drops of that issue lie in the
  last minute, and recording the drop, counting the drops and writing the block succeed, then for the next five minutes
  every event on that issue whose look-up of the block succeeds is dropped as blocked, whoever its actor is and whatever
  events, with whatever failures, the guard has seen in between. The administrator is notified exactly when a notifier
  is configured and does not fail.
\<close>

theorem storm_blocks_issue:
  assumes "has_db g" and "issue_key p \<noteq> []" and "\<not> is_blocked fl (issue_key p) now g"
    and "is_self_actor (actor_account_id p) (fst (get_bot_ids fl now g))" and "\<not> is_approval_gate_exempt p"
    and "2 \<le> length (filter (\<lambda>r. dr_issue_key r = issue_key p \<and> now - seconds 60 \<le> dropped_at r) (drops g))"
    and "\<not> record_fails fl" and "\<not> storm_fails fl" and "\<not> block_fails fl"
  shows "fst (check fl now p g) = StageDrop ''loop_guard''
    \<and> notices (snd (check fl now p g)) =
        notices g @ (if guard_admin_notifier g \<and> \<not> notify_fails fl then [(''loop_storm_detected'', issue_key p)] else [])
    \<and> (\<forall>xs fl' t p'. list_all (\<lambda>(_, t, _). now \<le> t) xs \<and> t < now + seconds 300 \<and> issue_key p' = issue_key p \<and> \<not> blocked_fails fl' \<longrightarrow>
         fst (check fl' t p' (run_ops guard_step (snd (check fl now p g)) xs)) = StageDrop ''loop_guard_blocked'')"
proof -
  obtain ids g1 where b: "get_bot_ids fl now g = (ids, g1)" by fastforce
  note frame = get_bot_ids_frame [OF b]
  let ?g2 = "audit_drop fl p ''loop_guard_dropped'' (record_drop fl p now g1)"
  have "drop_count (issue_key p) (now - STORM_WINDOW) g1 \<ge> 2"
    using assms(6) frame by (simp add: drop_count_def)
  then have st: "is_storm fl (issue_key p) now ?g2"
    using frame assms(1,7,8) by (simp add: is_storm_def STORM_THRESHOLD_def drop_count_record)
  define g' where "g' = notify_admin fl ''loop_storm_detected'' (issue_key p) (block_issue fl (issue_key p) now ?g2)"
  have c: "check fl now p g = (StageDrop ''loop_guard'', g')"
    using assms(2-5) b st by (simp add: check_def after_drop_def g'_def)
  have "blocked_until (issue_key p) (now + STORM_BLOCK) g'"
    using frame assms(1,9) by (simp add: blocked_until_def g'_def block_issue_def)
  then have "fst (check fl' t p' (run_ops guard_step g' xs)) = StageDrop ''loop_guard_blocked''"
    if "list_all (\<lambda>(_, t, _). now \<le> t) xs" "t < now + STORM_BLOCK" "issue_key p' = issue_key p" "\<not> blocked_fails fl'" for xs fl' t p'
    using run_keeps_block [of "issue_key p" "now + STORM_BLOCK" g' xs] that assms(2)
    by (fastforce simp: check_def is_blocked_def blocked_until_def list_all_iff)
  moreover have "notices g' = notices g @ (if guard_admin_notifier g \<and> \<not> notify_fails fl then [(''loop_storm_detected'', issue_key p)] else [])"
    using frame by (simp add: g'_def notify_admin_def block_issue_def)
  ultimately show ?thesis using c by simp
qed

definition demo_drop :: drop_row where
  "demo_drop = \<lparr>dr_issue_key = ''A-1'', dr_dept_id = None, dr_event_type = ''jira:comment_created'',
     dr_actor = ''bot-1'', dropped_at = 0\<rparr>"

theorem storm_blocks_issue_witness:
  "let g' = snd (check healthy (seconds 30) (demo_payload ''bot-1'') (demo_guard\<lparr>drops := [demo_drop, demo_drop]\<rparr>))
   in notices g' = [(''loop_storm_detected'', ''A-1'')] \<and>
      fst (check healthy (seconds 300) (demo_payload ''alice'')
        (run_ops guard_step g' [(healthy, seconds 200, demo_payload ''alice''), (healthy\<lparr>blocked_fails := True\<rparr>, seconds 210, demo_payload ''bot-1'')]))
      = StageDrop ''loop_guard_blocked''"
proof -
  let ?g = "demo_guard\<lparr>drops := [demo_drop, demo_drop]\<rparr>"
  let ?p = "demo_payload ''bot-1''"
  have "has_db ?g" "issue_key ?p \<noteq> []" "\<not> is_blocked healthy (issue_key ?p) (seconds 30) ?g"
    "is_self_actor (actor_account_id ?p) (fst (get_bot_ids healthy (seconds 30) ?g))" "\<not> is_approval_gate_exempt ?p"
    "2 \<le> length (filter (\<lambda>r. dr_issue_key r = issue_key ?p \<and> seconds 30 - seconds 60 \<le> dropped_at r) (drops ?g))"
    "\<not> record_fails healthy" "\<not> storm_fails healthy" "\<not> block_fails healthy" by code_simp+
  note storm = storm_blocks_issue [OF this]
  let ?xs = "[(healthy, seconds 200, demo_payload ''alice''), (healthy\<lparr>blocked_fails := True\<rparr>, seconds 210, ?p)]"
  have "fst (check healthy (seconds 300) (demo_payload ''alice'') (run_ops guard_step (snd (check healthy (seconds 30) ?p ?g)) ?xs)) =
      StageDrop ''loop_guard_blocked''"
    by (rule storm [THEN conjunct2, THEN conjunct2, rule_format]) (simp add: demo_payload_def healthy_def)
  with storm show ?thesis by (simp add: Let_def demo_guard_def demo_payload_def healthy_def)
qed

text \<open>
  A failed look-up of the bot ids is cached like a successful one: when the first look-up fails,
  every event on an issue that is not blocked passes for the next five minutes, a bot's own events
  included, although the database is available again.
\<close>

theorem failed_lookup_disables_guard:
  assumes "bot_ids_cache g = None" and "bot_ids_provider g = None" and "bot_ids_fails fl"
    and "\<not> is_blocked fl (issue_key p) now g" and "t - now < BOT_IDS_CACHE_TTL"
    and "\<not> is_blocked healthy (issue_key p') t g"
  shows "let (r, g') = check fl now p g
         in r = StagePass \<and> fst (check healthy t p' g') = StagePass"
proof -
  let ?g = "g\<lparr>bot_ids_cache := Some {}, bot_ids_cache_at := Some now\<rparr>"
  have "check fl now p g = (StagePass, ?g)"
    using assms(1-4) by (auto simp: check_def get_bot_ids_def fetch_bot_ids_from_db_def is_self_actor_def
        split: option.splits)
  moreover have "\<not> is_blocked healthy (issue_key p') t ?g" using assms(6) by (simp add: is_blocked_def)
  ultimately show ?thesis
    using assms(5) by (auto simp: check_def get_bot_ids_def is_self_actor_def split: option.splits)
qed

theorem failed_lookup_disables_guard_witness:
  "let (r, g') = check (healthy\<lparr>bot_ids_fails := True\<rparr>) 0 (demo_payload ''alice'') demo_guard
   in fst (check healthy (seconds 60) (demo_payload ''bot-1'') g') = StagePass"
proof -
  have "bot_ids_cache demo_guard = None" "bot_ids_provider demo_guard = None"
    "bot_ids_fails (healthy\<lparr>bot_ids_fails := True\<rparr>)"
    "\<not> is_blocked (healthy\<lparr>bot_ids_fails := True\<rparr>) (issue_key (demo_payload ''alice'')) 0 demo_guard"
    "seconds 60 - 0 < BOT_IDS_CACHE_TTL"
    "\<not> is_blocked healthy (issue_key (demo_payload ''bot-1'')) (seconds 60) demo_guard"
    by (simp_all add: demo_guard_def is_blocked_def healthy_def)
  from failed_lookup_disables_guard [OF this] show ?thesis by (simp add: case_prod_beta Let_def)
qed

end
