(* ===== verification/Budget_Policy.thy ===== *)
theory Budget_Policy
  imports Platform_Prelude
begin

text \<open>
  \<^verbatim>\<open>services/automation-service/src/automation_service/budget/policy.py\<close>: the cost caps of a
  department and its users. The cost table is an argument, its sums are those of the two SQL
  queries at the time \<open>now\<close>; \<open>Decimal\<close> amounts are exact rationals. The audit records, the alarm
  notifications and the threshold table are state, and which notifications and updates fail is an
  argument.
\<close>

section \<open>Data\<close>

datatype scope = dept_weekly | user_weekly | dept_monthly | user_monthly

definition SCOPE_ORDER :: "scope list" where
  "SCOPE_ORDER = [dept_weekly, user_weekly, dept_monthly, user_monthly]"

record BudgetCaps =
  weekly_usd_dept :: rat
  weekly_usd_user :: rat
  monthly_usd_dept :: rat
  monthly_usd_user :: rat

record BudgetUsage =
  dept_weekly_usd :: rat
  user_weekly_usd :: rat
  dept_monthly_usd :: rat
  user_monthly_usd :: rat

datatype BudgetDecision = allow | deny scope

datatype alarm_period = weekly | monthly
datatype alarm_scope = user | dept

record AlarmThreshold =
  th_id :: pystr
  th_period :: alarm_period
  th_scope :: alarm_scope
  threshold_pct :: int
  notify_channel :: pystr
  last_alarmed_at :: "datetime option"

record cost_row =
  cost_dept :: pystr
  cost_user :: "pystr option"
  cost_tag :: pystr
  cost_usd :: rat
  created_at :: datetime

datatype audit_record =
    BudgetExceeded pystr "pystr option" scope rat rat \<comment> \<open>department, user, scope, limit, usage\<close>
  | BudgetAlarmTriggered pystr AlarmThreshold rat rat rat \<comment> \<open>usage, cap, percentage\<close>

record alarm_notice =
  an_channel :: pystr
  an_dept :: pystr
  an_threshold :: AlarmThreshold
  an_current :: rat
  an_cap :: rat

record policy =
  caps_of :: "BudgetCaps pydict" \<comment> \<open>\<open>StaticBudgetCapsProvider.caps\<close>\<close>
  alarms_wired :: bool \<comment> \<open>a threshold store and a dispatcher are configured\<close>
  thresholds :: "AlarmThreshold list pydict" \<comment> \<open>the threshold table by department\<close>
  audit_log :: "audit_record list"
  alarms_sent :: "alarm_notice list"

datatype budget_error = ValueError | KeyError pystr

section \<open>Usage\<close>

definition caps_provider_get :: "policy \<Rightarrow> pystr \<Rightarrow> budget_error + BudgetCaps" where
  "caps_provider_get p dept_id =
     (case dict_get (caps_of p) dept_id of None \<Rightarrow> Inl (KeyError dept_id) | Some c \<Rightarrow> Inr c)"

definition usage_dept :: "cost_row list \<Rightarrow> datetime \<Rightarrow> pystr \<Rightarrow> timedelta \<Rightarrow> rat" where
  "usage_dept rows now d iv =
     sum_list (map cost_usd (filter (\<lambda>r. cost_dept r = d \<and> cost_tag r = ''production'' \<and>
       created_at r \<ge> now - iv) rows))"

definition usage_user :: "cost_row list \<Rightarrow> datetime \<Rightarrow> pystr \<Rightarrow> timedelta \<Rightarrow> pystr \<Rightarrow> rat" where
  "usage_user rows now d iv u =
     sum_list (map cost_usd (filter (\<lambda>r. cost_dept r = d \<and> cost_tag r = ''production'' \<and>
       cost_user r = Some u \<and> created_at r \<ge> now - iv) rows))"

definition usage :: "cost_row list \<Rightarrow> datetime \<Rightarrow> pystr \<Rightarrow> pystr option \<Rightarrow> BudgetUsage" where
  "usage rows now d u =
     \<lparr>dept_weekly_usd = usage_dept rows now d (days 7),
      user_weekly_usd = (case u of None \<Rightarrow> 0 | Some x \<Rightarrow> usage_user rows now d (days 7) x),
      dept_monthly_usd = usage_dept rows now d (days 30),
      user_monthly_usd = (case u of None \<Rightarrow> 0 | Some x \<Rightarrow> usage_user rows now d (days 30) x)\<rparr>"

fun get_cap_for_scope :: "BudgetCaps \<Rightarrow> scope \<Rightarrow> rat" where
  "get_cap_for_scope c dept_weekly = weekly_usd_dept c"
| "get_cap_for_scope c user_weekly = weekly_usd_user c"
| "get_cap_for_scope c dept_monthly = monthly_usd_dept c"
| "get_cap_for_scope c user_monthly = monthly_usd_user c"

fun get_usage_for_scope :: "BudgetUsage \<Rightarrow> scope \<Rightarrow> rat" where
  "get_usage_for_scope u dept_weekly = dept_weekly_usd u"
| "get_usage_for_scope u user_weekly = user_weekly_usd u"
| "get_usage_for_scope u dept_monthly = dept_monthly_usd u"
| "get_usage_for_scope u user_monthly = user_monthly_usd u"

section \<open>Alarms\<close>

definition resolve_threshold_usage_and_cap ::
  "AlarmThreshold \<Rightarrow> BudgetCaps \<Rightarrow> BudgetUsage \<Rightarrow> pystr option \<Rightarrow> (rat \<times> rat) option" where
  "resolve_threshold_usage_and_cap t caps u usr =
     (case (th_period t, th_scope t) of
        (weekly, dept) \<Rightarrow> Some (dept_weekly_usd u, weekly_usd_dept caps)
      | (weekly, user) \<Rightarrow> if usr = None then None else Some (user_weekly_usd u, weekly_usd_user caps)
      | (monthly, dept) \<Rightarrow> Some (dept_monthly_usd u, monthly_usd_dept caps)
      | (monthly, user) \<Rightarrow> if usr = None then None else Some (user_monthly_usd u, monthly_usd_user caps))"

definition period_length :: "alarm_period \<Rightarrow> timedelta" where
  "period_length p = (case p of weekly \<Rightarrow> days 7 | monthly \<Rightarrow> days 30)"

definition already_alarmed_in_period :: "datetime option \<Rightarrow> alarm_period \<Rightarrow> datetime \<Rightarrow> bool" where
  "already_alarmed_in_period last_at p now \<longleftrightarrow>
     (case last_at of None \<Rightarrow> False | Some t \<Rightarrow> t \<ge> now - period_length p)"

definition alarm_due :: "BudgetCaps \<Rightarrow> BudgetUsage \<Rightarrow> pystr option \<Rightarrow> datetime \<Rightarrow> AlarmThreshold \<Rightarrow> bool" where
  \<comment> \<open>the four \<open>continue\<close> conditions of the loop, negated\<close>
  "alarm_due caps u usr now t \<longleftrightarrow>
     (case resolve_threshold_usage_and_cap t caps u usr of
        None \<Rightarrow> False
      | Some (usage_val, cap_val) \<Rightarrow>
          \<not> cap_val \<le> 0 \<and> \<not> (usage_val / cap_val) * 100 < of_int (threshold_pct t) \<and>
          \<not> already_alarmed_in_period (last_alarmed_at t) (th_period t) now)"

definition update_last_alarmed_at :: "pystr \<Rightarrow> pystr \<Rightarrow> datetime \<Rightarrow> policy \<Rightarrow> policy" where
  "update_last_alarmed_at d i now p =
     (case dict_get (thresholds p) d of
        None \<Rightarrow> p
      | Some ts \<Rightarrow> p\<lparr>thresholds := dict_set d
          (map (\<lambda>t. if th_id t = i then t\<lparr>last_alarmed_at := Some now\<rparr> else t) ts) (thresholds p)\<rparr>)"

record alarm_faults =
  send_fails :: "pystr \<Rightarrow> bool"
  update_fails :: "pystr \<Rightarrow> bool"
  fetch_fails :: bool

definition raise_alarm ::
  "alarm_faults \<Rightarrow> pystr \<Rightarrow> pystr option \<Rightarrow> BudgetCaps \<Rightarrow> BudgetUsage \<Rightarrow> datetime \<Rightarrow> policy \<Rightarrow>
     AlarmThreshold \<Rightarrow> policy" where
  \<comment> \<open>one iteration of the loop\<close>
  "raise_alarm fl d usr caps u now p t =
     (if \<not> alarm_due caps u usr now t then p
      else case resolve_threshold_usage_and_cap t caps u usr of
             None \<Rightarrow> p
           | Some (usage_val, cap_val) \<Rightarrow>
               if send_fails fl (th_id t) then p
               else
                 let notice = \<lparr>an_channel = notify_channel t, an_dept = d, an_threshold = t,
                               an_current = usage_val, an_cap = cap_val\<rparr>;
                     p = p\<lparr>alarms_sent := alarms_sent p @ [notice]\<rparr>;
                     p = (if update_fails fl (th_id t) then p else update_last_alarmed_at d (th_id t) now p)
                 in p\<lparr>audit_log := audit_log p @
                        [BudgetAlarmTriggered d t usage_val cap_val ((usage_val / cap_val) * 100)]\<rparr>)"

definition check_alarm_thresholds ::
  "alarm_faults \<Rightarrow> pystr \<Rightarrow> pystr option \<Rightarrow> BudgetCaps \<Rightarrow> BudgetUsage \<Rightarrow> datetime \<Rightarrow> policy \<Rightarrow> policy" where
  "check_alarm_thresholds fl d usr caps u now p =
     (if fetch_fails fl then p
      else foldl (raise_alarm fl d usr caps u now) p
             (case dict_get (thresholds p) d of None \<Rightarrow> [] | Some ts \<Rightarrow> ts))"

section \<open>Enforcement\<close>

definition emit_denied :: "pystr \<Rightarrow> pystr option \<Rightarrow> scope \<Rightarrow> rat \<Rightarrow> rat \<Rightarrow> policy \<Rightarrow> policy" where
  "emit_denied d usr sc limit usage_value p =
     p\<lparr>audit_log := audit_log p @ [BudgetExceeded d usr sc limit usage_value]\<rparr>"

definition enforce ::
  "alarm_faults \<Rightarrow> cost_row list \<Rightarrow> datetime \<Rightarrow> pystr \<Rightarrow> pystr option \<Rightarrow> policy \<Rightarrow>
     (budget_error + BudgetDecision) \<times> policy" where
  "enforce fl rows now d usr p =
     (if d = [] then (Inl ValueError, p)
      else case caps_provider_get p d of
             Inl e \<Rightarrow> (Inl e, p)
           | Inr caps \<Rightarrow>
               let u = usage rows now d usr
               in if dept_weekly_usd u \<ge> weekly_usd_dept caps
                  then (Inr (deny dept_weekly), emit_denied d usr dept_weekly (weekly_usd_dept caps) (dept_weekly_usd u) p)
                  else if usr \<noteq> None \<and> user_weekly_usd u \<ge> weekly_usd_user caps
                  then (Inr (deny user_weekly), emit_denied d usr user_weekly (weekly_usd_user caps) (user_weekly_usd u) p)
                  else if dept_monthly_usd u \<ge> monthly_usd_dept caps
                  then (Inr (deny dept_monthly), emit_denied d usr dept_monthly (monthly_usd_dept caps) (dept_monthly_usd u) p)
                  else if usr \<noteq> None \<and> user_monthly_usd u \<ge> monthly_usd_user caps
                  then (Inr (deny user_monthly), emit_denied d usr user_monthly (monthly_usd_user caps) (user_monthly_usd u) p)
                  else (Inr allow,
                        if alarms_wired p then check_alarm_thresholds fl d usr caps u now p else p))"

section \<open>The pre-workflow check and the pre-call guard\<close>

datatype exceeded = ExceededScope scope | ConfigurationError

datatype budget_comment =
    DenialComment scope rat rat
  | WarningComment "scope list"

record BudgetCheckResult =
  res_allowed :: bool
  exceeded_scope :: "exceeded option"
  warning_scopes :: "scope list"
  current_usage :: "(scope \<times> rat) list"

definition scope_checks :: "BudgetCaps \<Rightarrow> BudgetUsage \<Rightarrow> pystr option \<Rightarrow> (scope \<times> rat \<times> rat) list" where
  "scope_checks caps u usr =
     [(dept_weekly, dept_weekly_usd u, weekly_usd_dept caps),
      (dept_monthly, dept_monthly_usd u, monthly_usd_dept caps)] @
     (if usr \<noteq> None
      then [(user_weekly, user_weekly_usd u, weekly_usd_user caps),
            (user_monthly, user_monthly_usd u, monthly_usd_user caps)]
      else [])"

definition check_budget ::
  "bool \<Rightarrow> cost_row list \<Rightarrow> datetime \<Rightarrow> pystr \<Rightarrow> pystr option \<Rightarrow> policy \<Rightarrow>
     (budget_error + BudgetCheckResult) \<times> budget_comment list \<times> policy" where
  \<comment> \<open>\<open>callback\<close>: a comment callback is configured; the comments are the calls made to it\<close>
  "check_budget callback rows now d usr p =
     (if d = [] then (Inl ValueError, [], p)
      else case caps_provider_get p d of
             Inl _ \<Rightarrow> (Inr \<lparr>res_allowed = False, exceeded_scope = Some ConfigurationError, warning_scopes = [],
                           current_usage = []\<rparr>, [], p)
           | Inr caps \<Rightarrow>
               let u = usage rows now d usr;
                   current = [(dept_weekly, dept_weekly_usd u), (dept_monthly, dept_monthly_usd u)] @
                     (if usr \<noteq> None then [(user_weekly, user_weekly_usd u), (user_monthly, user_monthly_usd u)] else []);
                   checks = scope_checks caps u usr
               in case find (\<lambda>(_, usage_val, cap_val). cap_val > 0 \<and> usage_val \<ge> cap_val) checks of
                    Some (sc, _) \<Rightarrow>
                      (Inr \<lparr>res_allowed = False, exceeded_scope = Some (ExceededScope sc), warning_scopes = [],
                            current_usage = current\<rparr>,
                       if callback then [DenialComment sc (get_usage_for_scope u sc) (get_cap_for_scope caps sc)] else [],
                       emit_denied d usr sc (get_cap_for_scope caps sc) (get_usage_for_scope u sc) p)
                  | None \<Rightarrow>
                      let ws = map fst (filter (\<lambda>(_, usage_val, cap_val). cap_val > 0 \<and> usage_val \<ge> cap_val * (9 / 10)) checks)
                      in (Inr \<lparr>res_allowed = True, exceeded_scope = None, warning_scopes = ws,
                               current_usage = current\<rparr>,
                          if ws \<noteq> [] \<and> callback then [WarningComment ws] else [], p))"

definition pre_llm_budget_guard :: "cost_row list \<Rightarrow> datetime \<Rightarrow> pystr \<Rightarrow> pystr option \<Rightarrow> policy \<Rightarrow> bool" where
  "pre_llm_budget_guard rows now d usr p =
     (if d = [] then False
      else case caps_provider_get p d of
             Inl _ \<Rightarrow> False
           | Inr caps \<Rightarrow>
               let u = usage rows now d usr
               in if dept_weekly_usd u \<ge> weekly_usd_dept caps then False
                  else if usr \<noteq> None \<and> user_weekly_usd u \<ge> weekly_usd_user caps then False
                  else if dept_monthly_usd u \<ge> monthly_usd_dept caps then False
                  else if usr \<noteq> None \<and> user_monthly_usd u \<ge> monthly_usd_user caps then False
                  else True)"

section \<open>Responses and the dashboard snapshot\<close>

definition deny_response_body :: "BudgetDecision \<Rightarrow> pystr \<Rightarrow> budget_error + (pystr \<times> pystr \<times> scope)" where
  "deny_response_body decision d =
     (case decision of allow \<Rightarrow> Inl ValueError | deny sc \<Rightarrow> Inr (''budget_exceeded'', d, sc))"

definition pct :: "rat \<Rightarrow> rat \<Rightarrow> rat" where
  "pct usage_val cap_val = (if cap_val = 0 then 0 else (usage_val / cap_val) * 100)"

record budget_snapshot =
  snap_dept :: pystr
  snap_caps :: BudgetCaps
  snap_usage :: BudgetUsage
  snap_percentages :: "(scope \<times> rat) list"
  snap_warning_scopes :: "scope list"

definition get_budget_usage_snapshot ::
  "cost_row list \<Rightarrow> datetime \<Rightarrow> pystr \<Rightarrow> pystr option \<Rightarrow> policy \<Rightarrow> budget_error + budget_snapshot" where
  "get_budget_usage_snapshot rows now d usr p =
     rbind (caps_provider_get p d) (\<lambda>caps.
       let u = usage rows now d usr
       in Inr \<lparr>snap_dept = d, snap_caps = caps, snap_usage = u,
               snap_percentages = map (\<lambda>(sc, usage_val, cap_val). (sc, pct usage_val cap_val)) (scope_checks caps u usr),
               snap_warning_scopes =
                 map fst (filter (\<lambda>(_, usage_val, cap_val). cap_val > 0 \<and> usage_val \<ge> cap_val * (9 / 10))
                   (scope_checks caps u usr))\<rparr>)"

section \<open>Specification\<close>

definition applies :: "pystr option \<Rightarrow> scope \<Rightarrow> bool" where
  \<comment> \<open>user scopes apply only when there is a user\<close>
  "applies usr sc \<longleftrightarrow> (sc \<in> {user_weekly, user_monthly} \<longrightarrow> usr \<noteq> None)"

definition over_cap :: "BudgetCaps \<Rightarrow> BudgetUsage \<Rightarrow> pystr option \<Rightarrow> scope \<Rightarrow> bool" where
  "over_cap caps u usr sc \<longleftrightarrow> applies usr sc \<and> get_usage_for_scope u sc \<ge> get_cap_for_scope caps sc"

definition no_faults :: alarm_faults where
  "no_faults = \<lparr>send_fails = (\<lambda>_. False), update_fails = (\<lambda>_. False), fetch_fails = False\<rparr>"

definition alarm_ids :: "alarm_notice list \<Rightarrow> pystr set" where
  "alarm_ids ns = (\<lambda>n. th_id (an_threshold n)) ` set ns"

section \<open>Lemmas\<close>

lemma all_scopes: "(\<forall>sc. P sc) \<longleftrightarrow> P dept_weekly \<and> P user_weekly \<and> P dept_monthly \<and> P user_monthly"
proof
  assume "P dept_weekly \<and> P user_weekly \<and> P dept_monthly \<and> P user_monthly"
  then show "\<forall>sc. P sc" by (metis scope.exhaust)
qed simp

lemma pre_llm_spec:
  assumes "d \<noteq> []" and "caps_provider_get p d = Inr caps"
  shows "pre_llm_budget_guard rows now d usr p \<longleftrightarrow> (\<forall>sc. \<not> over_cap caps (usage rows now d usr) usr sc)"
  using assms by (auto simp: pre_llm_budget_guard_def all_scopes over_cap_def applies_def Let_def)

lemma enforce_allow_iff:
  assumes "d \<noteq> []" and "caps_provider_get p d = Inr caps"
  shows "fst (enforce fl rows now d usr p) = Inr allow \<longleftrightarrow> (\<forall>sc. \<not> over_cap caps (usage rows now d usr) usr sc)"
  using assms by (auto simp: enforce_def all_scopes over_cap_def applies_def Let_def)

lemma check_budget_allow_iff:
  assumes "d \<noteq> []" and "caps_provider_get p d = Inr caps"
  shows "(\<exists>r. fst (check_budget cb rows now d usr p) = Inr r \<and> res_allowed r) \<longleftrightarrow>
         (\<forall>sc. get_cap_for_scope caps sc > 0 \<longrightarrow> \<not> over_cap caps (usage rows now d usr) usr sc)"
  using assms by (auto simp: check_budget_def scope_checks_def all_scopes over_cap_def applies_def Let_def)

lemma update_thresholds:
  "dict_get (thresholds p) d = Some ts \<Longrightarrow>
   dict_get (thresholds (update_last_alarmed_at d i now p)) d =
     Some (map (\<lambda>t. if th_id t = i then t\<lparr>last_alarmed_at := Some now\<rparr> else t) ts) \<and>
   alarms_sent (update_last_alarmed_at d i now p) = alarms_sent p"
  by (simp add: update_last_alarmed_at_def)

text \<open>What one pass over the thresholds does when nothing fails.\<close>

lemma raise_alarm_step:
  assumes "dict_get (thresholds p) d = Some ts"
  shows "if alarm_due caps u usr now t
         then dict_get (thresholds (raise_alarm no_faults d usr caps u now p t)) d =
                Some (map (\<lambda>x. if th_id x = th_id t then x\<lparr>last_alarmed_at := Some now\<rparr> else x) ts) \<and>
              (\<exists>n. an_threshold n = t \<and> alarms_sent (raise_alarm no_faults d usr caps u now p t) = alarms_sent p @ [n])
         else raise_alarm no_faults d usr caps u now p t = p"
proof (cases "alarm_due caps u usr now t")
  case True
  then obtain uv cv where r: "resolve_threshold_usage_and_cap t caps u usr = Some (uv, cv)"
    by (auto simp: alarm_due_def split: option.splits)
  with True update_thresholds [of "p\<lparr>alarms_sent := alarms_sent p @
      [\<lparr>an_channel = notify_channel t, an_dept = d, an_threshold = t, an_current = uv, an_cap = cv\<rparr>]\<rparr>" d ts "th_id t" now] assms
  show ?thesis by (auto simp: raise_alarm_def no_faults_def Let_def)
next
  case False
  then show ?thesis by (simp add: raise_alarm_def)
qed

lemma alarm_pass:
  assumes "dict_get (thresholds p) d = Some ts"
  shows "\<exists>ns. map an_threshold ns = filter (alarm_due caps u usr now) xs \<and>
     alarms_sent (foldl (raise_alarm no_faults d usr caps u now) p xs) = alarms_sent p @ ns \<and>
     dict_get (thresholds (foldl (raise_alarm no_faults d usr caps u now) p xs)) d =
       Some (map (\<lambda>t. if th_id t \<in> alarm_ids ns then t\<lparr>last_alarmed_at := Some now\<rparr> else t) ts)"
  using assms
proof (induction xs arbitrary: p ts)
  case Nil
  then show ?case by (simp add: alarm_ids_def)
next
  case (Cons x xs)
  show ?case
  proof (cases "alarm_due caps u usr now x")
    case False
    with Cons raise_alarm_step [OF Cons.prems, of caps u usr now x] show ?thesis by simp
  next
    case True
    with raise_alarm_step [OF Cons.prems, of caps u usr now x] obtain n where
      t: "dict_get (thresholds (raise_alarm no_faults d usr caps u now p x)) d =
            Some (map (\<lambda>y. if th_id y = th_id x then y\<lparr>last_alarmed_at := Some now\<rparr> else y) ts)"
      and n: "an_threshold n = x"
      and s: "alarms_sent (raise_alarm no_faults d usr caps u now p x) = alarms_sent p @ [n]" by auto
    from Cons.IH [OF t] obtain ns where ns: "map an_threshold ns = filter (alarm_due caps u usr now) xs"
      "alarms_sent (foldl (raise_alarm no_faults d usr caps u now) (raise_alarm no_faults d usr caps u now p x) xs) =
         alarms_sent p @ [n] @ ns"
      "dict_get (thresholds (foldl (raise_alarm no_faults d usr caps u now)
          (raise_alarm no_faults d usr caps u now p x) xs)) d =
       Some (map (\<lambda>t. if th_id t \<in> alarm_ids ns then t\<lparr>last_alarmed_at := Some now\<rparr> else t)
         (map (\<lambda>y. if th_id y = th_id x then y\<lparr>last_alarmed_at := Some now\<rparr> else y) ts))"
      unfolding s by auto
    then show ?thesis using n True
      by (intro exI [of _ "n # ns"]) (auto simp: alarm_ids_def)
  qed
qed

section \<open>Properties\<close>

text \<open>
  \<open>enforce\<close> looks at the scopes in the documented order: it denies with the first scope in
  \<open>SCOPE_ORDER\<close> that applies and whose usage has reached its cap, writing one audit record with that
  scope, its limit and its usage; and when there is none it allows and only raises alarms.
\<close>

theorem enforce_first_exceeded_scope:
  assumes "d \<noteq> []" and "caps_provider_get p d = Inr caps"
  shows "enforce fl rows now d usr p =
    (case find (over_cap caps (usage rows now d usr) usr) SCOPE_ORDER of
       Some sc \<Rightarrow> (Inr (deny sc), emit_denied d usr sc (get_cap_for_scope caps sc)
                    (get_usage_for_scope (usage rows now d usr) sc) p)
     | None \<Rightarrow> (Inr allow, if alarms_wired p
                    then check_alarm_thresholds fl d usr caps (usage rows now d usr) now p else p))"
  using assms by (auto simp: enforce_def SCOPE_ORDER_def over_cap_def applies_def Let_def)

definition demo_policy :: "rat \<Rightarrow> policy" where
  "demo_policy c =
     \<lparr>caps_of = [(''pay'', \<lparr>weekly_usd_dept = c, weekly_usd_user = c, monthly_usd_dept = 2 * c, monthly_usd_user = 2 * c\<rparr>)],
      alarms_wired = True,
      thresholds = [(''pay'', [\<lparr>th_id = ''t1'', th_period = weekly, th_scope = dept, threshold_pct = 50,
                               notify_channel = ''slack'', last_alarmed_at = None\<rparr>])],
      audit_log = [], alarms_sent = []\<rparr>"

definition demo_costs :: "cost_row list" where
  "demo_costs = [\<lparr>cost_dept = ''pay'', cost_user = Some ''u1'', cost_tag = ''production'', cost_usd = 60, created_at = 0\<rparr>]"

theorem enforce_first_exceeded_scope_witness:
  "fst (enforce no_faults demo_costs (days 1) ''pay'' (Some ''u1'') (demo_policy 60)) = Inr (deny dept_weekly)"
proof -
  have "caps_provider_get (demo_policy 60) ''pay'' = Inr \<lparr>weekly_usd_dept = 60, weekly_usd_user = 60,
      monthly_usd_dept = 120, monthly_usd_user = 120\<rparr>"
    by (simp add: caps_provider_get_def demo_policy_def)
  from enforce_first_exceeded_scope [OF _ this, of no_faults demo_costs "days 1" "Some ''u1''"] show ?thesis
    by (simp add: SCOPE_ORDER_def over_cap_def applies_def usage_def usage_dept_def demo_costs_def)
qed

text \<open>
  C35. The three budget checks agree on departments whose applicable caps are all positive: the workflow
  start, the pre-workflow check and the guard before each LLM call allow in the same situations.
\<close>

theorem budget_checks_agree:
  assumes "d \<noteq> []" and "caps_provider_get p d = Inr caps"
    and "\<And>sc. applies usr sc \<Longrightarrow> get_cap_for_scope caps sc > 0"
  shows "(fst (enforce fl rows now d usr p) = Inr allow) = pre_llm_budget_guard rows now d usr p \<and>
         (\<exists>r. fst (check_budget cb rows now d usr p) = Inr r \<and> res_allowed r) = pre_llm_budget_guard rows now d usr p"
  unfolding pre_llm_spec [OF assms(1,2)] enforce_allow_iff [OF assms(1,2)] check_budget_allow_iff [OF assms(1,2)]
  using assms(3) by (auto simp: over_cap_def)

theorem budget_checks_agree_witness:
  "(fst (enforce no_faults demo_costs (days 1) ''pay'' (Some ''u1'') (demo_policy 100)) = Inr allow) =
     pre_llm_budget_guard demo_costs (days 1) ''pay'' (Some ''u1'') (demo_policy 100)"
proof -
  let ?c = "\<lparr>weekly_usd_dept = 100, weekly_usd_user = 100, monthly_usd_dept = 200, monthly_usd_user = 200\<rparr> :: BudgetCaps"
  have c: "caps_provider_get (demo_policy 100) ''pay'' = Inr ?c"
    by (simp add: caps_provider_get_def demo_policy_def)
  have pos: "get_cap_for_scope ?c sc > 0" for sc by (cases sc) simp_all
  from budget_checks_agree [OF _ c, of "Some ''u1''" no_faults demo_costs "days 1" True] pos show ?thesis by simp
qed

text \<open>
  A cap of zero means opposite things: for a department whose caps are all zero, the workflow
  start and the guard before each LLM call refuse everything, while the pre-workflow check, described as
  a wrapper of the former, allows everything, without a warning and whatever has been spent.
\<close>

theorem zero_caps_diverge:
  assumes "d \<noteq> []" and "list_all (\<lambda>r. cost_usd r \<ge> 0) rows"
    and "caps_provider_get p d = Inr \<lparr>weekly_usd_dept = 0, weekly_usd_user = 0, monthly_usd_dept = 0, monthly_usd_user = 0\<rparr>"
  shows "fst (enforce fl rows now d usr p) = Inr (deny dept_weekly) \<and>
         \<not> pre_llm_budget_guard rows now d usr p \<and>
         (\<exists>r. check_budget cb rows now d usr p = (Inr r, [], p) \<and> res_allowed r \<and> warning_scopes r = [])"
proof -
  have nn: "usage_dept rows now d iv \<ge> 0" for iv
    unfolding usage_dept_def using assms(2) by (intro sum_list_nonneg) (auto simp: list_all_iff)
  have "fst (enforce fl rows now d usr p) = Inr (deny dept_weekly)"
    using assms(1,3) nn by (simp add: enforce_def usage_def)
  moreover have "\<not> pre_llm_budget_guard rows now d usr p"
    using assms(1,3) nn by (simp add: pre_llm_budget_guard_def usage_def)
  moreover have "\<exists>r. check_budget cb rows now d usr p = (Inr r, [], p) \<and> res_allowed r \<and> warning_scopes r = []"
    using assms(1,3) by (cases usr) (simp_all add: check_budget_def scope_checks_def Let_def)
  ultimately show ?thesis by blast
qed

theorem zero_caps_diverge_witness:
  "fst (enforce no_faults demo_costs (days 1) ''pay'' None (demo_policy 0)) = Inr (deny dept_weekly) \<and>
   (\<exists>r. check_budget True demo_costs (days 1) ''pay'' None (demo_policy 0) = (Inr r, [], demo_policy 0) \<and> res_allowed r)"
proof -
  have "list_all (\<lambda>r. cost_usd r \<ge> 0) demo_costs" by (simp add: demo_costs_def)
  moreover have "caps_provider_get (demo_policy 0) ''pay'' =
      Inr \<lparr>weekly_usd_dept = 0, weekly_usd_user = 0, monthly_usd_dept = 0, monthly_usd_user = 0\<rparr>"
    by (simp add: caps_provider_get_def demo_policy_def)
  ultimately show ?thesis
    using zero_caps_diverge [of "''pay''" demo_costs "demo_policy 0" no_faults "days 1" None True] by blast
qed

text \<open>
  An alarm is not repeated within its period: when nothing fails, a second check at most seven days
  after a first one raises no alarm for a threshold that the first one raised, whatever was spent and
  whoever asks.
\<close>

theorem alarm_not_repeated:
  assumes "dict_get (thresholds p) d = Some ts" and "t - now \<le> days 7"
    and "p1 = check_alarm_thresholds no_faults d usr caps u now p" and "alarms_sent p1 = alarms_sent p @ ns1"
    and "p2 = check_alarm_thresholds no_faults d usr' caps' u' t p1" and "alarms_sent p2 = alarms_sent p1 @ ns2"
  shows "alarm_ids ns1 \<inter> alarm_ids ns2 = {}"
proof -
  let ?ts1 = "map (\<lambda>x. if th_id x \<in> alarm_ids ns1 then x\<lparr>last_alarmed_at := Some now\<rparr> else x) ts"
  have p1: "dict_get (thresholds p1) d = Some ?ts1"
    using alarm_pass [OF assms(1), of caps u usr now ts] assms(1,3,4)
    by (auto simp: check_alarm_thresholds_def no_faults_def)
  from alarm_pass [OF p1, of caps' u' usr' t ?ts1] assms(5,6) p1
  have ns2: "map an_threshold ns2 = filter (alarm_due caps' u' usr' t) ?ts1"
    by (auto simp: check_alarm_thresholds_def no_faults_def)
  have "\<not> alarm_due caps' u' usr' t x" if "last_alarmed_at x = Some now" for x
    using that assms(2) by (cases "th_period x")
      (auto simp: alarm_due_def already_alarmed_in_period_def period_length_def split: option.splits)
  then have "th_id x \<notin> alarm_ids ns1" if "x \<in> set (filter (alarm_due caps' u' usr' t) ?ts1)" for x
    using that by (auto split: if_splits)
  then have "th_id x \<notin> alarm_ids ns1" if "x \<in> set (map an_threshold ns2)" for x
    using that unfolding ns2 by blast
  then have "th_id (an_threshold n) \<notin> alarm_ids ns1" if "n \<in> set ns2" for n using that by simp
  then show ?thesis unfolding alarm_ids_def [of ns2] by blast
qed

theorem alarm_not_repeated_witness:
  "alarm_ids (alarms_sent (check_alarm_thresholds no_faults ''pay'' None
       \<lparr>weekly_usd_dept = 100, weekly_usd_user = 100, monthly_usd_dept = 200, monthly_usd_user = 200\<rparr>
       (usage demo_costs (days 1) ''pay'' None) (days 1) (demo_policy 100))) = {''t1''} \<and>
   (\<exists>p1 ns2. alarms_sent (check_alarm_thresholds no_faults ''pay'' None
       \<lparr>weekly_usd_dept = 100, weekly_usd_user = 100, monthly_usd_dept = 200, monthly_usd_user = 200\<rparr>
       (usage demo_costs (days 2) ''pay'' None) (days 2) p1) = alarms_sent p1 @ ns2 \<and> ''t1'' \<notin> alarm_ids ns2)"
proof -
  let ?c = "\<lparr>weekly_usd_dept = 100, weekly_usd_user = 100, monthly_usd_dept = 200, monthly_usd_user = 200\<rparr> :: BudgetCaps"
  let ?u = "\<lambda>t. usage demo_costs t ''pay'' None"
  define p1 where "p1 = check_alarm_thresholds no_faults ''pay'' None ?c (?u (days 1)) (days 1) (demo_policy 100)"
  define p2 where "p2 = check_alarm_thresholds no_faults ''pay'' None ?c (?u (days 2)) (days 2) p1"
  obtain ts where ts: "dict_get (thresholds (demo_policy 100)) ''pay'' = Some ts" by (simp add: demo_policy_def)
  have one: "alarm_ids (alarms_sent p1) = {''t1''}" unfolding p1_def by code_simp
  have 1: "alarms_sent p1 = alarms_sent (demo_policy 100) @ alarms_sent p1" by (simp add: demo_policy_def)
  obtain ts1 where ts1: "dict_get (thresholds p1) ''pay'' = Some ts1"
    unfolding p1_def using alarm_pass [OF ts, of ?c "?u (days 1)" None "days 1" ts] ts
    by (auto simp: check_alarm_thresholds_def no_faults_def)
  obtain ns2 where 2: "alarms_sent p2 = alarms_sent p1 @ ns2"
    unfolding p2_def using alarm_pass [OF ts1, of ?c "?u (days 2)" None "days 2" ts1] ts1
    by (auto simp: check_alarm_thresholds_def no_faults_def)
  have "alarm_ids (alarms_sent p1) \<inter> alarm_ids ns2 = {}"
    by (rule alarm_not_repeated [OF ts _ p1_def 1 p2_def 2]) simp
  with one 2 show ?thesis unfolding p1_def p2_def by blast
qed

end
