(* ===== verification/Replay_Dedup.thy ===== *)
theory Replay_Dedup
  imports Platform_Prelude
begin

text \<open>
  The three stores against repeated webhook deliveries, all under
  \<^verbatim>\<open>services/automation-service/src\<close>: \<^verbatim>\<open>automation_service/processed_events.py\<close> (claims of delivery
  ids), \<^verbatim>\<open>decision/replay.py\<close> (payload hashes with a time to live) and \<^verbatim>\<open>webhooks/dedup.py\<close>
  (event ids with a time to live, failing open). A table is a dictionary by its primary key, each SQL
  statement one step on it at the database time \<open>now\<close>. SHA-256 is the parameter \<open>sha\<close> and
  \<open>str\<close> of floats and containers the parameter \<open>repr\<close>; nothing is assumed of either.
\<close>

section \<open>Delivery claims\<close>

datatype claim_provider = jira | bitbucket

type_synonym claims = "claim_provider pydict" \<comment> \<open>\<open>automation.processed_events\<close> by \<open>delivery_id\<close>\<close>

definition claim :: "claim_provider \<Rightarrow> pystr \<Rightarrow> claims \<Rightarrow> bool \<times> claims" where
  "claim prov delivery_id t =
     (case dict_get t delivery_id of None \<Rightarrow> (True, dict_set delivery_id prov t) | Some _ \<Rightarrow> (False, t))"

definition is_processed :: "pystr \<Rightarrow> claims \<Rightarrow> bool" where
  "is_processed delivery_id t \<longleftrightarrow> dict_get t delivery_id \<noteq> None"

definition release :: "pystr \<Rightarrow> claims \<Rightarrow> bool \<times> claims" where
  "release delivery_id t =
     (dict_get t delivery_id \<noteq> None, dict_del delivery_id t)"

section \<open>Payload hashes\<close>

type_synonym hash_table = "datetime pydict" \<comment> \<open>\<open>event_hash\<close> to \<open>expires_at\<close>\<close>

definition check_and_insert :: "datetime \<times> timedelta \<Rightarrow> pystr \<Rightarrow> hash_table \<Rightarrow> bool \<times> hash_table" where
  "check_and_insert = (\<lambda>(now, ttl) payload_hash t.
     case dict_get t payload_hash of
       None \<Rightarrow> (True, dict_set payload_hash (now + ttl) t)
     | Some _ \<Rightarrow> (False, t))"

definition cleanup_hashes :: "datetime \<Rightarrow> hash_table \<Rightarrow> nat \<times> hash_table" where
  "cleanup_hashes now t =
     (length (filter (\<lambda>(_, e). e < now) t), filter (\<lambda>(_, e). \<not> e < now) t)"

section \<open>Event ids\<close>

record dedup_payload =
  headers :: "pystr pydict"
  body :: "pyval pydict"

record dedup_row =
  row_issue_key :: "pystr option"
  row_event_type :: "pystr option"
  received_at :: datetime
  expires_at :: datetime

type_synonym dedup_table = "dedup_row pydict" \<comment> \<open>\<open>shared.webhook_dedup\<close> by \<open>event_id\<close>\<close>

datatype dedup_result = Duplicate | Continue

record dedup_faults =
  read_fails :: bool
  write_fails :: bool

abbreviation TTL :: timedelta where
  "TTL \<equiv> hours 24"

definition webhook_event :: "dedup_payload \<Rightarrow> pystr option" where
  "webhook_event p = as_str (get_or_none (body p) ''webhookEvent'')"

definition timestamp :: "dedup_payload \<Rightarrow> pyval option" where
  \<comment> \<open>\<open>bool\<close> is a subclass of \<open>int\<close>\<close>
  "timestamp p =
     (case get_or_none (body p) ''timestamp'' of
        PInt i \<Rightarrow> Some (PInt i) | PBool b \<Rightarrow> Some (PBool b) | _ \<Rightarrow> None)"

definition issue_id :: "(pyval \<Rightarrow> pystr) \<Rightarrow> dedup_payload \<Rightarrow> pystr option" where
  "issue_id repr p =
     (case get_or_none (body p) ''issue'' of
        PDict d \<Rightarrow> (case get_or_none d ''id'' of PNone \<Rightarrow> None | v \<Rightarrow> Some (py_str repr v))
      | _ \<Rightarrow> None)"

definition issue_key :: "dedup_payload \<Rightarrow> pystr option" where
  "issue_key p =
     (case get_or_none (body p) ''issue'' of PDict d \<Rightarrow> as_str (get_or_none d ''key'') | _ \<Rightarrow> None)"

definition atlassian_webhook_identifier :: "dedup_payload \<Rightarrow> pystr option" where
  "atlassian_webhook_identifier p = dict_get (headers p) ''x-atlassian-webhook-identifier''"

definition or_empty :: "pystr option \<Rightarrow> pystr" where
  "or_empty x = (case x of None \<Rightarrow> [] | Some s \<Rightarrow> s)"

definition derive_event_id :: "(pystr \<Rightarrow> pystr) \<Rightarrow> (pyval \<Rightarrow> pystr) \<Rightarrow> dedup_payload \<Rightarrow> pystr" where
  "derive_event_id sha repr p =
     (case atlassian_webhook_identifier p of
        Some (c # cs) \<Rightarrow> c # cs
      | _ \<Rightarrow>
          let ts = (case timestamp p of Some v \<Rightarrow> if truthy v then py_str repr v else [] | None \<Rightarrow> [])
          in sha (or_empty (webhook_event p) @ '':'' @ ts @ '':'' @ or_empty (issue_id repr p)))"

definition dedup_exists :: "datetime \<Rightarrow> pystr \<Rightarrow> dedup_table \<Rightarrow> bool" where
  "dedup_exists now event_id t \<longleftrightarrow>
     (case dict_get t event_id of None \<Rightarrow> False | Some r \<Rightarrow> expires_at r > now)"

definition dedup_insert :: "datetime \<Rightarrow> pystr \<Rightarrow> dedup_payload \<Rightarrow> dedup_table \<Rightarrow> dedup_table" where
  "dedup_insert now event_id p t =
     (case dict_get t event_id of
        Some _ \<Rightarrow> t
      | None \<Rightarrow> dict_set event_id
          \<lparr>row_issue_key = issue_key p, row_event_type = webhook_event p, received_at = now,
           expires_at = now + TTL\<rparr> t)"

definition check ::
  "(pystr \<Rightarrow> pystr) \<Rightarrow> (pyval \<Rightarrow> pystr) \<Rightarrow> dedup_faults \<Rightarrow> datetime \<Rightarrow> dedup_payload \<Rightarrow> dedup_table \<Rightarrow>
     dedup_result \<times> dedup_table" where
  "check sha repr fl now p t =
     (let event_id = derive_event_id sha repr p
      in if read_fails fl then (Continue, t)
         else if dedup_exists now event_id t then (Duplicate, t)
         else if write_fails fl then (Continue, t)
         else (Continue, dedup_insert now event_id p t))"

definition cleanup_expired :: "datetime \<Rightarrow> dedup_table \<Rightarrow> nat \<times> dedup_table" where
  "cleanup_expired now t =
     (length (filter (\<lambda>(_, r). expires_at r < now) t), filter (\<lambda>(_, r). \<not> expires_at r < now) t)"

section \<open>The contract of a claim store\<close>

text \<open>
  A store whose claim is one atomic insert promises: a claim succeeds exactly on an unprocessed key,
  makes that key processed and changes no other. Any sequence of claims, by any callers, then succeeds
  at most once for each key.
\<close>

locale claim_store =
  fixes claim_op :: "'a \<Rightarrow> 'k \<Rightarrow> 's \<Rightarrow> bool \<times> 's"
    and processed :: "'k \<Rightarrow> 's \<Rightarrow> bool"
  assumes claim_result: "fst (claim_op a k s) \<longleftrightarrow> \<not> processed k s"
    and claim_processed: "processed k' (snd (claim_op a k s)) \<longleftrightarrow> k' = k \<or> processed k' s"
begin

fun claim_all :: "'s \<Rightarrow> ('a \<times> 'k) list \<Rightarrow> bool list \<times> 's" where
  "claim_all s [] = ([], s)"
| "claim_all s ((a, k) # xs) =
     (let (r, s') = claim_op a k s; (rs, s'') = claim_all s' xs in (r # rs, s''))"

definition successes :: "'k \<Rightarrow> ('a \<times> 'k) list \<Rightarrow> bool list \<Rightarrow> nat" where
  "successes k xs rs = length (filter (\<lambda>((_, k'), r). k' = k \<and> r) (zip xs rs))"

lemma claim_all_once:
  "successes k xs (fst (claim_all s xs)) = (if k \<in> snd ` set xs \<and> \<not> processed k s then 1 else 0)"
proof (induction s xs rule: claim_all.induct)
  case (1 s)
  then show ?case by (simp add: successes_def)
next
  case (2 s a k' xs)
  obtain r s' where c: "claim_op a k' s = (r, s')" by fastforce
  obtain rs s'' where cs: "claim_all s' xs = (rs, s'')" by fastforce
  have r: "r \<longleftrightarrow> \<not> processed k' s" and p: "processed k s' \<longleftrightarrow> k = k' \<or> processed k s"
    using claim_result [of a k' s] claim_processed [of k a k' s] c by simp_all
  have "successes k ((a, k') # xs) (r # rs) = (if k' = k \<and> r then 1 else 0) + successes k xs rs"
    by (simp add: successes_def)
  with 2 [OF c [symmetric] refl] c cs r p show ?case by auto
qed

end

interpretation delivery_claims: claim_store claim is_processed
  by unfold_locales (auto simp: claim_def is_processed_def split: option.splits)

interpretation hash_claims: claim_store check_and_insert "\<lambda>h t. dict_get t h \<noteq> None"
  by unfold_locales (auto simp: check_and_insert_def split: option.splits)

section \<open>Runs\<close>

datatype claim_op = Claim claim_provider pystr | Release pystr

fun run_claims :: "claims \<Rightarrow> claim_op list \<Rightarrow> bool list \<times> claims" where
  "run_claims t [] = ([], t)"
| "run_claims t (Claim prov d # xs) =
     (let (r, t') = claim prov d t; (rs, t'') = run_claims t' xs in (r # rs, t''))"
| "run_claims t (Release d # xs) =
     (let (r, t') = release d t; (rs, t'') = run_claims t' xs in (r # rs, t''))"

definition won :: "pystr \<Rightarrow> claim_op list \<Rightarrow> bool list \<Rightarrow> nat" where
  "won d xs rs = length (filter (\<lambda>(x, r). (\<exists>p. x = Claim p d) \<and> r) (zip xs rs))"

definition given_back :: "pystr \<Rightarrow> claim_op list \<Rightarrow> bool list \<Rightarrow> nat" where
  "given_back d xs rs = length (filter (\<lambda>(x, r). x = Release d \<and> r) (zip xs rs))"

datatype dedup_op = Check dedup_faults datetime dedup_payload | Cleanup datetime

fun op_time :: "dedup_op \<Rightarrow> datetime" where
  "op_time (Check _ t _) = t"
| "op_time (Cleanup t) = t"

fun dedup_step :: "(pystr \<Rightarrow> pystr) \<Rightarrow> (pyval \<Rightarrow> pystr) \<Rightarrow> dedup_table \<Rightarrow> dedup_op \<Rightarrow> dedup_table" where
  "dedup_step sha repr tbl (Check fl now p) = snd (check sha repr fl now p tbl)"
| "dedup_step sha repr tbl (Cleanup now) = snd (cleanup_expired now tbl)"

definition no_db_faults :: dedup_faults where
  "no_db_faults = \<lparr>read_fails = False, write_fails = False\<rparr>"

section \<open>Lemmas\<close>

lemma dict_get_filter_keep:
  assumes "dict_get t k = Some r" and "P r"
  shows "dict_get (filter (\<lambda>(_, x). P x) t) k = Some r"
  using assms by (induction t) (auto split: if_splits)

lemma dedup_step_keeps_row:
  assumes "dict_get tbl i = Some r" and "op_time x \<le> expires_at r"
  shows "dict_get (dedup_step sha repr tbl x) i = Some r"
proof (cases x)
  case (Check fl now p)
  with assms show ?thesis by (auto simp: check_def dedup_insert_def Let_def split: option.splits)
next
  case (Cleanup now)
  with assms dict_get_filter_keep [of tbl i r "\<lambda>r. \<not> expires_at r < now"] show ?thesis
    by (simp add: cleanup_expired_def)
qed

lemma dedup_run_keeps_row:
  assumes "dict_get tbl i = Some r" and "list_all (\<lambda>x. op_time x \<le> expires_at r) xs"
  shows "dict_get (run_ops (dedup_step sha repr) tbl xs) i = Some r"
  using assms by (induction xs arbitrary: tbl) (auto simp: dedup_step_keeps_row)

lemma check_records_row:
  assumes "dict_get tbl (derive_event_id sha repr p) = None"
  shows "\<exists>r. dict_get (snd (check sha repr no_db_faults now p tbl)) (derive_event_id sha repr p) = Some r \<and>
             expires_at r = now + TTL \<and> fst (check sha repr no_db_faults now p tbl) = Continue"
  using assms by (simp add: check_def no_db_faults_def dedup_exists_def dedup_insert_def)

lemma check_live_row:
  assumes "dict_get tbl (derive_event_id sha repr p) = Some r" and "t < expires_at r"
  shows "check sha repr no_db_faults t p tbl = (Duplicate, tbl)"
  using assms by (simp add: check_def no_db_faults_def dedup_exists_def)

section \<open>Properties\<close>

text \<open>
  C36. Claims of webhook deliveries are exactly-once: in every sequence of claims and releases by any
  callers, the claims of a delivery that succeed outnumber its successful releases by at most one, by
  exactly one when the delivery was free at the start and is held at the end.
\<close>

theorem delivery_claims_balance:
  "won d xs (fst (run_claims t xs)) + of_bool (is_processed d t) =
   given_back d xs (fst (run_claims t xs)) + of_bool (is_processed d (snd (run_claims t xs)))"
proof (induction xs arbitrary: t)
  case Nil
  then show ?case by (simp add: won_def given_back_def)
next
  case (Cons x xs)
  show ?case
  proof (cases x)
    case (Claim prov d')
    then show ?thesis
      using Cons.IH [of "snd (claim prov d' t)"]
      by (cases "dict_get t d'")
        (auto simp: claim_def is_processed_def won_def given_back_def split: prod.splits if_splits)
  next
    case (Release d')
    then show ?thesis
      using Cons.IH [of "snd (release d' t)"]
      by (cases "dict_get t d'")
        (auto simp: release_def is_processed_def won_def given_back_def split: prod.splits if_splits)
  qed
qed

text \<open>
  A delivery whose event id was recorded is dropped for the next 24 hours, whatever other
  deliveries, database failures and clean-ups happen in between.
\<close>

theorem dedup_drops_within_ttl:
  assumes "dict_get tbl (derive_event_id sha repr p) = None"
    and "derive_event_id sha repr p' = derive_event_id sha repr p"
    and "list_all (\<lambda>x. op_time x \<le> now + TTL) xs" and "t < now + TTL"
  shows "fst (check sha repr no_db_faults now p tbl) = Continue \<and>
         fst (check sha repr no_db_faults t p'
           (run_ops (dedup_step sha repr) (snd (check sha repr no_db_faults now p tbl)) xs)) = Duplicate"
proof -
  obtain r where r: "dict_get (snd (check sha repr no_db_faults now p tbl)) (derive_event_id sha repr p) = Some r"
    and e: "expires_at r = now + TTL" and c: "fst (check sha repr no_db_faults now p tbl) = Continue"
    using check_records_row [OF assms(1)] by blast
  note dedup_run_keeps_row [OF r, of xs sha repr]
  with assms e c show ?thesis by (auto simp: check_live_row)
qed

definition demo_dedup :: dedup_payload where
  "demo_dedup = \<lparr>headers = [(''x-atlassian-webhook-identifier'', ''w1'')], body = []\<rparr>"

theorem dedup_drops_within_ttl_witness:
  "fst (check (\<lambda>s. s) (\<lambda>_. []) no_db_faults (hours 20) demo_dedup
     (run_ops (dedup_step (\<lambda>s. s) (\<lambda>_. [])) (snd (check (\<lambda>s. s) (\<lambda>_. []) no_db_faults 0 demo_dedup []))
       [Cleanup (hours 5)])) = Duplicate"
  using dedup_drops_within_ttl [of "[]" "\<lambda>s. s" "\<lambda>_. []" demo_dedup demo_dedup 0 "[Cleanup (hours 5)]" "hours 20"]
  by simp

text \<open>
  An expired row switches deduplication off for its event id until the clean-up removes it: the
  check ignores the row, the insert leaves it as it is, and so every further delivery passes, however
  often and however quickly it is repeated.
\<close>

theorem expired_row_disables_dedup:
  assumes "dict_get tbl (derive_event_id sha repr p) = Some r" and "list_all (\<lambda>t. expires_at r \<le> t) ts"
    and "tbl' = run_ops (dedup_step sha repr) tbl (map (\<lambda>t. Check no_db_faults t p) ts)" and "expires_at r \<le> now"
  shows "tbl' = tbl \<and> fst (check sha repr no_db_faults now p tbl') = Continue"
proof -
  have step: "check sha repr no_db_faults t p tbl = (Continue, tbl)" if "expires_at r \<le> t" for t
    using assms(1) that by (simp add: check_def no_db_faults_def dedup_exists_def dedup_insert_def)
  have "run_ops (dedup_step sha repr) tbl (map (\<lambda>t. Check no_db_faults t p) ts) = tbl"
    using assms(2) by (induction ts) (simp_all add: step)
  with step assms(3,4) show ?thesis by simp
qed

theorem expired_row_disables_dedup_witness:
  "let tbl = [(''w1'', \<lparr>row_issue_key = None, row_event_type = None, received_at = 0, expires_at = TTL\<rparr>)];
       tbl' = run_ops (dedup_step (\<lambda>s. s) (\<lambda>_. [])) tbl [Check no_db_faults (hours 24) demo_dedup]
   in fst (check (\<lambda>s. s) (\<lambda>_. []) no_db_faults (hours 24) demo_dedup tbl') = Continue"
proof -
  let ?r = "\<lparr>row_issue_key = None, row_event_type = None, received_at = 0, expires_at = TTL\<rparr>"
  have r: "dict_get [(''w1'', ?r)] (derive_event_id (\<lambda>s. s) (\<lambda>_. []) demo_dedup) = Some ?r"
    by (simp add: derive_event_id_def atlassian_webhook_identifier_def demo_dedup_def)
  have "list_all (\<lambda>t. expires_at ?r \<le> t) [hours 24]" "expires_at ?r \<le> hours 24" by simp_all
  from expired_row_disables_dedup [OF r this(1) refl this(2)] show ?thesis
    unfolding Let_def list.map by (rule conjunct2)
qed

end
