(* ===== verification/Auth_Policy.thy ===== *)
theory Auth_Policy
  imports Platform_Prelude
begin

text \<open>
  \<^verbatim>\<open>libs/auth-shared/src/auth_shared/policy.py\<close>: role-based access control. Roles of an actor are
  strings, as in a hand-built context; the role a guard requires is a string too, so that the errors for
  unknown roles are covered.
\<close>

section \<open>Data\<close>

record AuthContext =
  actor_id :: pystr
  actor_role :: pystr
  dept_ids :: "pystr set"

definition ROLES :: "pystr set" where
  "ROLES = {''viewer'', ''lead'', ''admin'', ''dept_admin''}"

definition ROLES_THAT_SATISFY :: "(pystr \<times> pystr set) list" where
  "ROLES_THAT_SATISFY =
     [(''viewer'', {''viewer'', ''lead'', ''admin'', ''dept_admin''}),
      (''lead'', {''lead'', ''admin'', ''dept_admin''}),
      (''admin'', {''admin''}),
      (''dept_admin'', {''admin'', ''dept_admin''})]"

datatype auth_error =
    ValueError pystr
  | MissingActorError pystr "pystr option"
  | AttributeError \<comment> \<open>the actor argument is not a context\<close>
  | PermissionDenied pystr pystr "pystr option" \<comment> \<open>actor role, required role, department\<close>
  | NotAMember pystr pystr pystr \<comment> \<open>\<open>PermissionDenied\<close> with the membership reason\<close>

section \<open>The guard\<close>

definition allowed_roles :: "pystr \<Rightarrow> pystr set" where
  \<comment> \<open>\<open>_ROLES_THAT_SATISFY[required_role]\<close>, for a role that is in the table\<close>
  "allowed_roles r = (case map_of ROLES_THAT_SATISFY r of None \<Rightarrow> {} | Some rs \<Rightarrow> rs)"

definition check :: "AuthContext option \<Rightarrow> pystr \<Rightarrow> pystr option \<Rightarrow> auth_error + unit" where
  "check actor required_role dept_id =
     (if required_role \<notin> ROLES then Inl (ValueError required_role)
      else case actor of
             None \<Rightarrow> Inl (MissingActorError required_role dept_id)
           | Some a \<Rightarrow>
               if actor_role a \<notin> ROLES then Inl (PermissionDenied (actor_role a) required_role dept_id)
               else if actor_role a \<notin> allowed_roles required_role
               then Inl (PermissionDenied (actor_role a) required_role dept_id)
               else case dept_id of
                      None \<Rightarrow> Inr ()
                    | Some d \<Rightarrow>
                        if actor_role a \<noteq> ''admin'' \<and> d \<notin> dept_ids a
                        then Inl (NotAMember (actor_role a) required_role d) else Inr ())"

fun is_permission_denied :: "auth_error \<Rightarrow> bool" where
  "is_permission_denied (ValueError _) = False"
| "is_permission_denied AttributeError = False"
| "is_permission_denied _ = True"

definition is_allowed :: "AuthContext option \<Rightarrow> pystr \<Rightarrow> pystr option \<Rightarrow> auth_error + bool" where
  "is_allowed actor required_role dept_id =
     (case check actor required_role dept_id of
        Inl e \<Rightarrow> if is_permission_denied e then Inr False else Inl e
      | Inr _ \<Rightarrow> Inr True)"

definition requires_role :: "AuthContext option \<Rightarrow> pystr \<Rightarrow> pystr option \<Rightarrow> auth_error + unit" where
  "requires_role actor r dept_id = check actor r dept_id"

section \<open>The decorator\<close>

text \<open>
  Arguments are of the kinds the guarded callables have: a context, a string or \<open>None\<close>. A department
  argument has its annotated type, a string or \<open>None\<close>.
\<close>

datatype arg = ActorArg AuthContext | StrArg pystr | NoneArg

fun as_actor :: "arg \<Rightarrow> AuthContext option" where
  "as_actor (ActorArg a) = Some a"
| "as_actor _ = None"

definition first_actor :: "arg list \<Rightarrow> AuthContext option" where
  "first_actor args = (case List.map_filter as_actor args of [] \<Rightarrow> None | a # _ \<Rightarrow> Some a)"

record call =
  bound :: "arg pydict" \<comment> \<open>\<open>bind_partial(...).arguments\<close>, empty when binding fails\<close>
  positional :: "arg list"

definition resolve_call ::
  "pystr \<Rightarrow> pystr option \<Rightarrow> pystr option \<Rightarrow> call \<Rightarrow> auth_error + AuthContext option \<times> pystr option" where
  "resolve_call actor_arg dept_id_arg dept_id c =
     rbind (case dict_get (bound c) actor_arg of
              Some (ActorArg a) \<Rightarrow> Inr (Some a)
            | Some (StrArg _) \<Rightarrow> Inl AttributeError
            | _ \<Rightarrow> Inr (first_actor (positional c))) (\<lambda>actor.
       Inr (actor,
            case dept_id_arg of
              Some n \<Rightarrow> (case dict_get (bound c) n of Some (StrArg d) \<Rightarrow> Some d | _ \<Rightarrow> None)
            | None \<Rightarrow> dept_id))"

definition requires ::
  "pystr \<Rightarrow> pystr option \<Rightarrow> pystr \<Rightarrow> pystr option \<Rightarrow> (call \<Rightarrow> auth_error + 'r) \<Rightarrow>
     auth_error + (call \<Rightarrow> auth_error + 'r)" where
  \<comment> \<open>the decorator applied to a callable; \<open>Inl\<close> when decoration itself raises\<close>
  "requires role dept_id actor_arg dept_id_arg func =
     (if dept_id \<noteq> None \<and> dept_id_arg \<noteq> None then Inl (ValueError ''dept_id'')
      else if role \<notin> ROLES then Inl (ValueError role)
      else Inr (\<lambda>c. rbind (resolve_call actor_arg dept_id_arg dept_id c) (\<lambda>(actor, target).
             rbind (check actor role target) (\<lambda>_. func c))))"

section \<open>Lemmas\<close>

definition rank :: "pystr \<Rightarrow> nat" where
  \<comment> \<open>strictness of a requirement\<close>
  "rank r = (if r = ''viewer'' then 0 else if r = ''lead'' then 1 else if r = ''dept_admin'' then 2 else 3)"

lemma allowed_roles_antimono:
  assumes "r \<in> ROLES" and "r' \<in> ROLES" and "rank r' \<le> rank r"
  shows "allowed_roles r \<subseteq> allowed_roles r'"
proof -
  have "\<forall>x \<in> ROLES. \<forall>y \<in> ROLES. rank y \<le> rank x \<longrightarrow> allowed_roles x \<subseteq> allowed_roles y" by code_simp
  with assms show ?thesis by blast
qed

lemma policy_check_passes_iff:
  "check (Some a) r dept = Inr () \<longleftrightarrow>
     r \<in> ROLES \<and> actor_role a \<in> ROLES \<and> actor_role a \<in> allowed_roles r \<and>
     (case dept of None \<Rightarrow> True | Some d \<Rightarrow> actor_role a = ''admin'' \<or> d \<in> dept_ids a)"
  by (auto simp: check_def split: option.splits)

lemma requires_runs_only_when_allowed:
  assumes "requires role dept aa da f = Inr g" and "g c = Inr x"
  shows "\<exists>actor target. resolve_call aa da dept c = Inr (actor, target) \<and> check actor role target = Inr () \<and> f c = Inr x"
  using assms by (auto simp: requires_def rbind_eq_Inr split: if_splits)

section \<open>Properties\<close>

text \<open>
  C37. Access rights are ordered and departments are isolated: an actor who passes a guard passes every
  guard that is at most as strict, with the same department or with none; an actor other than a global
  administrator passes a guard of a department only as its member; and only global administrators pass
  the \<open>admin\<close> guard.
\<close>

theorem rbac_ordered_and_isolated:
  assumes "check (Some a) r dept = Inr ()" and "r' \<in> ROLES" and "rank r' \<le> rank r" and "dept' = None \<or> dept' = dept"
  shows "check (Some a) r' dept' = Inr () \<and>
         (actor_role a = ''admin'' \<or> (r \<noteq> ''admin'' \<and> (\<forall>d. dept = Some d \<longrightarrow> d \<in> dept_ids a)))"
proof -
  from assms(1) have r: "r \<in> ROLES" "actor_role a \<in> ROLES" "actor_role a \<in> allowed_roles r"
    and d: "case dept of None \<Rightarrow> True | Some d \<Rightarrow> actor_role a = ''admin'' \<or> d \<in> dept_ids a"
    by (simp_all add: policy_check_passes_iff)
  have "actor_role a \<in> allowed_roles r'" using allowed_roles_antimono [OF r(1) assms(2,3)] r(3) by blast
  then have "check (Some a) r' dept' = Inr ()"
    using r(2) d assms(2,4) by (auto simp: policy_check_passes_iff)
  moreover have "actor_role a = ''admin''" if "r = ''admin''"
    using r(3) that by (simp add: allowed_roles_def ROLES_THAT_SATISFY_def)
  ultimately show ?thesis using d by auto
qed

definition demo_actor :: "pystr \<Rightarrow> AuthContext" where
  "demo_actor r = \<lparr>actor_id = ''u'', actor_role = r, dept_ids = {''pay''}\<rparr>"

theorem rbac_ordered_and_isolated_witness:
  "check (Some (demo_actor ''dept_admin'')) ''lead'' (Some ''pay'') = Inr ()"
proof -
  have "check (Some (demo_actor ''dept_admin'')) ''dept_admin'' (Some ''pay'') = Inr ()" by code_simp
  moreover have "''lead'' \<in> ROLES" "rank ''lead'' \<le> rank ''dept_admin''" by code_simp+
  ultimately show ?thesis using rbac_ordered_and_isolated by blast
qed

text \<open>
  The decision matrix documents \<open>lead\<close> as a role that passes \<open>lead\<close> and \<open>viewer\<close> guards
  globally; the guard in fact refuses a lead, and a viewer, on every department they are not a member of.
\<close>

theorem lead_is_not_global:
  assumes "actor_role a \<in> {''lead'', ''viewer''}" and "d \<notin> dept_ids a" and "r \<in> {''lead'', ''viewer''}"
  shows "is_allowed (Some a) r (Some d) = Inr False"
proof -
  have "\<forall>x \<in> {''lead'', ''viewer''}. x \<in> ROLES \<and> x \<noteq> ''admin''" by code_simp
  with assms(1,3) have "actor_role a \<in> ROLES" "actor_role a \<noteq> ''admin''" "r \<in> ROLES" by blast+
  with assms(2) show ?thesis by (simp add: is_allowed_def check_def)
qed

theorem lead_is_not_global_witness:
  "is_allowed (Some (demo_actor ''lead'')) ''lead'' (Some ''hr'') = Inr False"
  by (rule lead_is_not_global) (simp_all add: demo_actor_def)

end
