(* ===== verification/License_Cap.thy ===== *)
theory License_Cap
  imports Platform_Prelude
begin

text \<open>
  \<^verbatim>\<open>services/automation-service/src/middleware/license_cap.py\<close>: the licence caps checked before a
  workflow starts. The tables the queries read are a record, each query one function on it; \<open>Decimal\<close>
  and \<open>numeric\<close> amounts are exact rationals and times are UTC, in microseconds since 1970.
\<close>

section \<open>Data\<close>

datatype LimitType = concurrent | daily | monthly_token

record LicenseCap =
  license_id :: "pystr option"
  max_concurrent_workflows :: int
  max_workflows_per_day :: int
  max_token_usd_per_month :: rat

definition DEFAULT_LICENSE_CAP :: LicenseCap where
  "DEFAULT_LICENSE_CAP =
     \<lparr>license_id = None, max_concurrent_workflows = 10, max_workflows_per_day = 100, max_token_usd_per_month = 1000\<rparr>"

record cap_row =
  cap_concurrent :: int
  cap_daily :: int
  cap_monthly :: rat

record work_item =
  department_id :: pystr
  status :: pystr
  wi_created_at :: datetime

record cost_entry =
  ce_dept :: pystr
  ce_tag :: pystr
  ce_usd :: rat
  ce_created_at :: datetime

record license_db =
  departments :: "(pystr option) pydict" \<comment> \<open>id to \<open>license_id\<close>\<close>
  bot_license_caps :: "cap_row pydict" \<comment> \<open>by \<open>license_id\<close>\<close>
  work_items :: "work_item list"
  cost_tracking :: "cost_entry list"

record cap_exceeded =
  limit_type :: LimitType
  current :: rat
  max_value :: rat
  ex_license_id :: "pystr option"
  ex_dept_id :: pystr
  ex_issue_key :: "pystr option"

section \<open>Queries\<close>

definition fetch_cap_for_dept :: "license_db \<Rightarrow> pystr \<Rightarrow> LicenseCap" where
  "fetch_cap_for_dept db d =
     (case dict_get (departments db) d of
        None \<Rightarrow> DEFAULT_LICENSE_CAP
      | Some None \<Rightarrow> DEFAULT_LICENSE_CAP
      | Some (Some l) \<Rightarrow>
          (case dict_get (bot_license_caps db) l of
             None \<Rightarrow> DEFAULT_LICENSE_CAP\<lparr>license_id := Some l\<rparr>
           | Some r \<Rightarrow> \<lparr>license_id = Some l, max_concurrent_workflows = cap_concurrent r,
                        max_workflows_per_day = cap_daily r, max_token_usd_per_month = cap_monthly r\<rparr>))"

definition in_scope :: "license_db \<Rightarrow> pystr option \<Rightarrow> pystr \<Rightarrow> pystr \<Rightarrow> bool" where
  \<comment> \<open>the two WHERE clauses: by department without a licence, by the licence of the row's
     department otherwise\<close>
  "in_scope db l d row_dept =
     (case l of None \<Rightarrow> row_dept = d | Some x \<Rightarrow> dict_get (departments db) row_dept = Some (Some x))"

definition count_concurrent_workflows :: "license_db \<Rightarrow> pystr option \<Rightarrow> pystr \<Rightarrow> int" where
  "count_concurrent_workflows db l d =
     int (length (filter (\<lambda>w. in_scope db l d (department_id w) \<and> status w = ''running'') (work_items db)))"

definition count_workflows_today :: "license_db \<Rightarrow> pystr option \<Rightarrow> pystr \<Rightarrow> datetime \<Rightarrow> int" where
  "count_workflows_today db l d day_start =
     int (length (filter (\<lambda>w. in_scope db l d (department_id w) \<and> wi_created_at w \<ge> day_start) (work_items db)))"

definition sum_monthly_token_cost :: "license_db \<Rightarrow> pystr option \<Rightarrow> pystr \<Rightarrow> datetime \<Rightarrow> rat" where
  "sum_monthly_token_cost db l d month_start =
     sum_list (map ce_usd (filter (\<lambda>c. in_scope db l d (ce_dept c) \<and> ce_tag c = ''production'' \<and>
       ce_created_at c \<ge> month_start) (cost_tracking db)))"

section \<open>Calendar\<close>

definition start_of_utc_day :: "datetime \<Rightarrow> datetime" where
  "start_of_utc_day now = now - now mod days 1"

definition day_of_month :: "int \<Rightarrow> int" where
  \<comment> \<open>the day of the month in the proleptic Gregorian calendar, for a number of days since 1970-01-01\<close>
  "day_of_month z =
     (let doe = (z + 719468) mod 146097;
          yoe = (doe - doe div 1460 + doe div 36524 - doe div 146096) div 365;
          doy = doe - (365 * yoe + yoe div 4 - yoe div 100);
          mp = (5 * doy + 2) div 153
      in doy - (153 * mp + 2) div 5 + 1)"

definition start_of_utc_month :: "datetime \<Rightarrow> datetime" where
  "start_of_utc_month now =
     (let d = start_of_utc_day now in d - days (day_of_month (d div days 1) - 1))"

section \<open>Enforcement\<close>

definition cap_error ::
  "LimitType \<Rightarrow> rat \<Rightarrow> rat \<Rightarrow> LicenseCap \<Rightarrow> pystr \<Rightarrow> pystr option \<Rightarrow> cap_exceeded" where
  "cap_error t cur mx cap d issue =
     \<lparr>limit_type = t, current = cur, max_value = mx, ex_license_id = license_id cap, ex_dept_id = d, ex_issue_key = issue\<rparr>"

definition enforce_license_cap ::
  "license_db \<Rightarrow> datetime \<Rightarrow> pystr \<Rightarrow> pystr option \<Rightarrow> (cap_exceeded + unit) \<times> cap_exceeded list" where
  \<comment> \<open>the list holds the audit events offered to the audit logger, with the fields of the error;
     a failing write is swallowed\<close>
  "enforce_license_cap db now d issue =
     (let cap = fetch_cap_for_dept db d;
          reject = (\<lambda>t cur mx. let e = cap_error t cur mx cap d issue in (Inl e, [e]));
          c = count_concurrent_workflows db (license_id cap) d;
          t = count_workflows_today db (license_id cap) d (start_of_utc_day now);
          m = sum_monthly_token_cost db (license_id cap) d (start_of_utc_month now)
      in if c \<ge> max_concurrent_workflows cap
         then reject concurrent (of_int c) (of_int (max_concurrent_workflows cap))
         else if t \<ge> max_workflows_per_day cap
         then reject daily (of_int t) (of_int (max_workflows_per_day cap))
         else if m \<ge> max_token_usd_per_month cap
         then reject monthly_token m (max_token_usd_per_month cap)
         else (Inr (), []))"

section \<open>Specification\<close>

definition usage_of :: "license_db \<Rightarrow> datetime \<Rightarrow> pystr \<Rightarrow> LimitType \<Rightarrow> rat" where
  "usage_of db now d t =
     (let l = license_id (fetch_cap_for_dept db d)
      in case t of
           concurrent \<Rightarrow> of_int (count_concurrent_workflows db l d)
         | daily \<Rightarrow> of_int (count_workflows_today db l d (start_of_utc_day now))
         | monthly_token \<Rightarrow> sum_monthly_token_cost db l d (start_of_utc_month now))"

definition limit_of :: "license_db \<Rightarrow> pystr \<Rightarrow> LimitType \<Rightarrow> rat" where
  "limit_of db d t =
     (let cap = fetch_cap_for_dept db d
      in case t of
           concurrent \<Rightarrow> of_int (max_concurrent_workflows cap)
         | daily \<Rightarrow> of_int (max_workflows_per_day cap)
         | monthly_token \<Rightarrow> max_token_usd_per_month cap)"

lemma day_of_month_dates:
  \<comment> \<open>1970-01-01, 2024-02-29, 2024-03-01, 1999-12-31, 1900-03-01, 2100-02-28\<close>
  "map day_of_month [0, 19782, 19783, 10956, -25508, 47540] = [1, 29, 1, 31, 1, 28]"
  by code_simp

section \<open>Properties\<close>

text \<open>
  The caps are checked in the documented order and fail closed: a start is refused exactly when
  some usage has reached its limit, with the first such limit of \<open>concurrent\<close>, \<open>daily\<close>,
  \<open>monthly_token\<close>, its usage and its maximum, in one audit event and in the error; otherwise it is
  allowed and nothing is audited.
\<close>

theorem license_cap_first_limit:
  "enforce_license_cap db now d issue =
     (case find (\<lambda>t. usage_of db now d t \<ge> limit_of db d t) [concurrent, daily, monthly_token] of
        None \<Rightarrow> (Inr (), [])
      | Some t \<Rightarrow>
          let e = cap_error t (usage_of db now d t) (limit_of db d t) (fetch_cap_for_dept db d) d issue
          in (Inl e, [e]))"
  by (simp add: enforce_license_cap_def usage_of_def limit_of_def Let_def)

end
