(* ===== verification/Concurrency_Cap.thy ===== *)
theory Concurrency_Cap
  imports Platform_Prelude
begin

text \<open>
  \<^verbatim>\<open>services/automation-service/src/concurrency.py\<close>: the cap on the workflows of a department that run
  at the same time. The number of open executions is read from Temporal visibility (the parameter
  \<open>visibility\<close>, from a query to a count, \<open>None\<close> when the call raises) and from the table
  \<open>automation.work_items\<close> otherwise.
\<close>

section \<open>Data\<close>

record work_item =
  wi_issue_key :: pystr
  wi_department_id :: pystr
  wi_status :: pystr
  wi_created_at :: datetime

record ConcurrencyCheckResult =
  cc_dept_id :: pystr
  cc_current :: int
  cc_max_allowed :: "int option"
  cc_source :: pystr

datatype concurrency_error =
    ConcurrencyLimitExceeded pystr int int pystr \<comment> \<open>department, current, maximum, source\<close>
  | DatabaseError

definition AUTOMATION_WORKFLOW_TYPE :: pystr where
  "AUTOMATION_WORKFLOW_TYPE = ''AutomationWorkflow''"

section \<open>Counting\<close>

definition dquote :: char where
  "dquote = CHR 0x22"

definition in_quotes :: "pystr \<Rightarrow> pystr" where
  "in_quotes s = dquote # s @ [dquote]"

definition escape_quotes :: "pystr \<Rightarrow> pystr" where
  \<comment> \<open>the \<open>replace\<close> of \<open>safe_dept\<close>: a quote becomes a backslash and a quote\<close>
  "escape_quotes s = concat (map (\<lambda>c. if c = dquote then [CHR 0x5C, dquote] else [c]) s)"

definition visibility_query :: "pystr \<Rightarrow> pystr" where
  "visibility_query dept_id =
     ''WorkflowType='' @ in_quotes AUTOMATION_WORKFLOW_TYPE @
     '' AND ExecutionStatus='' @ in_quotes ''Running'' @
     '' AND DeptId='' @ in_quotes (escape_quotes dept_id)"

definition count_via_temporal :: "(pystr \<Rightarrow> int option) \<Rightarrow> pystr \<Rightarrow> int option" where
  "count_via_temporal visibility dept_id = visibility (visibility_query dept_id)"

definition count_via_postgres :: "bool \<Rightarrow> work_item list \<Rightarrow> pystr \<Rightarrow> concurrency_error + int" where
  \<comment> \<open>the flag: the query fails\<close>
  "count_via_postgres fails items dept_id =
     (if fails then Inl DatabaseError
      else Inr (int (length (filter (\<lambda>w. wi_department_id w = dept_id \<and> wi_status w = ''running'') items))))"

definition count_active_workflows ::
  "(pystr \<Rightarrow> int option) option \<Rightarrow> bool \<Rightarrow> work_item list \<Rightarrow> pystr \<Rightarrow> concurrency_error + int \<times> pystr" where
  "count_active_workflows temporal fails items dept_id =
     (case (case temporal of None \<Rightarrow> None | Some visibility \<Rightarrow> count_via_temporal visibility dept_id) of
        Some n \<Rightarrow> Inr (n, ''temporal'')
      | None \<Rightarrow> rbind (count_via_postgres fails items dept_id) (\<lambda>n. Inr (n, ''postgres'')))"

section \<open>The check\<close>

definition check_dept_concurrency ::
  "(pystr \<Rightarrow> int option) option \<Rightarrow> bool \<Rightarrow> work_item list \<Rightarrow> pystr \<Rightarrow> int option \<Rightarrow>
     concurrency_error + ConcurrencyCheckResult" where
  "check_dept_concurrency temporal fails items dept_id max_concurrent =
     rbind (count_active_workflows temporal fails items dept_id) (\<lambda>(current, source).
       case max_concurrent of
         None \<Rightarrow> Inr \<lparr>cc_dept_id = dept_id, cc_current = current, cc_max_allowed = None, cc_source = source\<rparr>
       | Some m \<Rightarrow>
           if current \<ge> m then Inl (ConcurrencyLimitExceeded dept_id current m source)
           else Inr \<lparr>cc_dept_id = dept_id, cc_current = current, cc_max_allowed = Some m, cc_source = source\<rparr>)"

definition extract_max_concurrent :: "pyval \<Rightarrow> int option" where
  "extract_max_concurrent config_json =
     (case config_json of
        PDict d \<Rightarrow>
          (case get_or_none d ''max_concurrent_workflows'' of
             PInt i \<Rightarrow> if i < 1 then None else Some i
           | _ \<Rightarrow> None)
      | _ \<Rightarrow> None)"

section \<open>Lemmas\<close>

lemma check_dept_concurrency_admits:
  assumes "check_dept_concurrency temporal fails items d (Some m) = Inr r"
  shows "cc_current r < m \<and> count_active_workflows temporal fails items d = Inr (cc_current r, cc_source r)"
  using assms by (auto simp: check_dept_concurrency_def rbind_eq_Inr split: if_splits)

lemma check_dept_concurrency_iff:
  "(\<exists>r. check_dept_concurrency temporal fails items d (Some m) = Inr r) \<longleftrightarrow>
   (\<exists>n src. count_active_workflows temporal fails items d = Inr (n, src) \<and> n < m)"
  by (cases "count_active_workflows temporal fails items d") (auto simp: check_dept_concurrency_def split: if_splits)

lemma check_dept_concurrency_database:
  "check_dept_concurrency temporal fails items d m = Inl DatabaseError \<longleftrightarrow>
   fails \<and> (case temporal of None \<Rightarrow> True | Some v \<Rightarrow> v (visibility_query d) = None)"
  by (auto simp: check_dept_concurrency_def count_active_workflows_def count_via_postgres_def
      count_via_temporal_def rbind_eq_Inl split: option.splits if_splits)

lemma extract_max_concurrent_pos: "extract_max_concurrent c = Some m \<Longrightarrow> m \<ge> 1"
  by (auto simp: extract_max_concurrent_def split: pyval.splits if_splits)

lemma escape_quotes_plain: "dquote \<notin> set s \<Longrightarrow> escape_quotes s = s"
  by (induction s) (auto simp: escape_quotes_def)

end
