(* ===== verification/Workflow_Registry.thy ===== *)
theory Workflow_Registry
  imports Platform_Prelude
begin

text \<open>
  \<^verbatim>\<open>libs/temporal-shared/src/temporal_shared/workflow_registry.py\<close>: the task queue of each workflow.
\<close>

section \<open>Task queues\<close>

definition WORKFLOW_TASK_QUEUES :: "pystr pydict" where
  "WORKFLOW_TASK_QUEUES =
     [(''AutomationWorkflow'', ''automation-tq''), (''AgentRunnerWorkflow'', ''agent-runner-tq''),
      (''ExecutionRunWorkflow'', ''execution-runner-tq''), (''BotBranchRetention'', ''automation-tq'')]"

definition task_queue_for :: "pystr \<Rightarrow> pystr + pystr" where
  \<comment> \<open>\<open>Inl\<close> the key of the \<open>KeyError\<close>\<close>
  "task_queue_for workflow_name =
     (case dict_get WORKFLOW_TASK_QUEUES workflow_name of None \<Rightarrow> Inl workflow_name | Some q \<Rightarrow> Inr q)"

end
