(* ===== verification/Webhook_Dispatcher.thy ===== *)
theory Webhook_Dispatcher
  imports Loop_Guard Budget_Policy Concurrency_Cap Workflow_Registry
begin

text \<open>
  \<^verbatim>\<open>services/automation-service/src/webhooks/dispatcher.py\<close>: the last stage of the webhook pipeline,
  which resolves the department of the assigned bot and starts or signals a workflow.

  What one call reads from outside is the record \<open>dispatch_env\<close>: the database tables, the process
  environment, the answers of Temporal, the clocks, the generated identifiers, and which of the calls
  raise. \<open>json.loads\<close> is the parameter \<open>loads\<close>. The state is the two caches and the log of what the
  dispatcher did: audit events, calls to Temporal (with their success) and Jira comments. A query with
  \<open>LIMIT 1\<close> and no order returns the first row of the table.
\<close>

section \<open>Data\<close>

record BotIdentityEntry =
  bi_account_id :: pystr
  bi_department_id :: pystr
  bi_service :: pystr

record DepartmentConfig =
  dc_dept_id :: pystr
  dc_mode :: pystr
  dc_approvers :: "pystr list"
  dc_max_concurrent_workflows :: "int option"

datatype response_body =
    ConfigurationErrorBody pystr
  | DenyBody "pystr \<times> pystr \<times> scope"

record DispatchResult =
  action :: pystr
  reason :: "pystr option"
  result_trace_id :: "pystr option"
  result_dept_id :: "pystr option"
  status_code :: "int option"
  body :: "response_body option"

record audit_event =
  ae_actor_id :: pyval
  ae_dept_id :: pyval
  ae_action :: pystr
  ae_resource :: pystr
  ae_result :: pystr
  ae_payload :: "pyval pydict"

datatype temporal_call =
    SignalWorkflow pystr pystr pyval bool \<comment> \<open>workflow id, signal, payload, delivered\<close>
  | StartWorkflow pystr pystr pystr pyval bool \<comment> \<open>type, workflow id, queue, input, started\<close>

datatype dispatch_comment =
    BudgetComment budget_comment
  | ConcurrencyRejection int int \<comment> \<open>current, maximum\<close>

record bot_row =
  br_account_id :: "pystr option"
  br_department_id :: pystr
  br_service :: pystr
  br_credential_ref :: "pystr option"

record department_row =
  dr_id :: pystr
  dr_mode :: pystr
  dr_config_json :: pyval
  dr_web_search_enabled :: bool

datatype describe_result =
    DescribeRaises \<comment> \<open>no handle function, or the call raises\<close>
  | StatusNamed pystr
  | StatusPlain "int option"

record dispatch_env =
  bots :: "bot_row list"
  departments :: "department_row list"
  ssh_assignments :: "(pystr \<times> pystr) list" \<comment> \<open>department and runner\<close>
  ssh_runners :: "(pystr \<times> pystr) list" \<comment> \<open>runner and status\<close>
  work_items :: "work_item list"
  environ :: "pystr pydict"
  cost_rows :: "cost_row list"
  loads :: "pystr \<Rightarrow> pyval option"
  describe :: "pystr \<Rightarrow> describe_result"
  visibility :: "pystr \<Rightarrow> int option"
  signal_fails :: "pystr \<Rightarrow> bool"
  start_fails :: "pystr \<Rightarrow> bool"
  refresh_fails :: bool
  resolve_fails :: bool
  config_fails :: bool
  capabilities_fail :: bool
  needs_info_fails :: bool
  count_fails :: bool
  usage_fails :: bool
  budget_audit_fails :: bool
  monotonic :: int
  utc_now :: datetime
  uuid4 :: pystr
  uuid4_hex8 :: pystr

record dispatcher =
  has_audit_logger :: bool
  has_commenter :: bool
  budget_policy :: "policy option"
  bot_identity_cache :: "BotIdentityEntry pydict"
  dept_config_cache :: "DepartmentConfig pydict"
  last_cache_refresh :: int
  audit_events :: "audit_event list"
  temporal_calls :: "temporal_call list"
  jira_comments :: "(pystr \<times> pystr \<times> dispatch_comment) list" \<comment> \<open>department, issue, comment\<close>

abbreviation CACHE_REFRESH_INTERVAL :: timedelta where
  "CACHE_REFRESH_INTERVAL \<equiv> seconds 300"

definition WORKFLOW_NAME :: pystr where
  "WORKFLOW_NAME = ''AutomationWorkflow''"

definition AUTOMATION_TASK_QUEUE :: pystr where
  "AUTOMATION_TASK_QUEUE = ''automation-tq''"

definition opt_str :: "pystr option \<Rightarrow> pyval" where
  "opt_str x = (case x of None \<Rightarrow> PNone | Some s \<Rightarrow> PStr s)"

section \<open>Configuration\<close>

definition decode_config_json :: "(pystr \<Rightarrow> pyval option) \<Rightarrow> pyval \<Rightarrow> pyval pydict option" where
  "decode_config_json json_loads config_json =
     (case (case config_json of PStr s \<Rightarrow> json_loads s | v \<Rightarrow> Some v) of
        Some (PDict d) \<Rightarrow> Some d
      | _ \<Rightarrow> None)"

definition extract_approvers :: "(pystr \<Rightarrow> pyval option) \<Rightarrow> pyval \<Rightarrow> pystr list" where
  "extract_approvers json_loads config_json =
     (case (case config_json of PStr s \<Rightarrow> json_loads s | v \<Rightarrow> Some v) of
        Some (PDict d) \<Rightarrow>
          (case get_or_none d ''approvers'' of
             PList raw \<Rightarrow> List.map_filter (\<lambda>e. case e of PStr s \<Rightarrow> if s \<noteq> [] then Some s else None | _ \<Rightarrow> None) raw
           | _ \<Rightarrow> [])
      | _ \<Rightarrow> [])"

definition extract_max_concurrent_from_config :: "(pystr \<Rightarrow> pyval option) \<Rightarrow> pyval \<Rightarrow> int option" where
  "extract_max_concurrent_from_config json_loads config_json =
     (case decode_config_json json_loads config_json of
        None \<Rightarrow> None
      | Some d \<Rightarrow> extract_max_concurrent (PDict d))"

definition department_config :: "(pystr \<Rightarrow> pyval option) \<Rightarrow> department_row \<Rightarrow> DepartmentConfig" where
  "department_config json_loads row =
     \<lparr>dc_dept_id = dr_id row, dc_mode = dr_mode row, dc_approvers = extract_approvers json_loads (dr_config_json row),
      dc_max_concurrent_workflows = extract_max_concurrent_from_config json_loads (dr_config_json row)\<rparr>"

section \<open>Comments\<close>

definition is_comment_created :: "pystr \<Rightarrow> bool" where
  "is_comment_created t \<longleftrightarrow> t = ''comment_created'' \<or> t = ''jira:comment_created''"

definition is_iterate_command :: "pystr \<Rightarrow> bool" where
  "is_iterate_command b = contains_sub ''[iterate]'' (lower b)"

definition is_approval_comment :: "pystr \<Rightarrow> bool" where
  "is_approval_comment b \<longleftrightarrow> contains_sub ''[approve]'' (lower b) \<or> contains_sub ''[reject]'' (lower b)"

fun after_iterate :: "pystr \<Rightarrow> pystr" where
  \<comment> \<open>the text behind the first match of the iterate pattern, empty without a match\<close>
  "after_iterate [] = []"
| "after_iterate (c # cs) =
     (if starts_with (lower (c # cs)) ''[iterate]'' then List.drop (length ''[iterate]'') (c # cs)
      else after_iterate cs)"

fun decision_token :: "pystr \<Rightarrow> pystr" where
  \<comment> \<open>the first match of the approval pattern, without brackets and in lower case\<close>
  "decision_token [] = ''unknown''"
| "decision_token (c # cs) =
     (if starts_with (lower (c # cs)) ''[approve]'' then ''approve''
      else if starts_with (lower (c # cs)) ''[reject]'' then ''reject''
      else decision_token cs)"

section \<open>Audit\<close>

definition audit_ok :: "pystr \<Rightarrow> bool" where
  "audit_ok act \<longleftrightarrow>
     contains_sub ''workflow_started'' act \<or> contains_sub ''signaled'' act \<or> act = ''approval_signal_forwarded''"

definition audit :: "pystr \<Rightarrow> pyval pydict \<Rightarrow> dispatcher \<Rightarrow> dispatcher" where
  \<comment> \<open>\<open>issue_key\<close> is a string in every call\<close>
  "audit act fs s =
     (if has_audit_logger s
      then s\<lparr>audit_events := audit_events s @
        [\<lparr>ae_actor_id = (case dict_get fs ''assignee_account_id'' of None \<Rightarrow> PStr ''webhook-dispatcher'' | Some v \<Rightarrow> v),
          ae_dept_id = get_or_none fs ''dept_id'', ae_action = act,
          ae_resource = ''issue:'' @ (case get_or_none fs ''issue_key'' of PStr k \<Rightarrow> k | _ \<Rightarrow> ''unknown''),
          ae_result = (if audit_ok act then ''ok'' else ''denied''),
          ae_payload = filter (\<lambda>(_, v). v \<noteq> PNone) fs\<rparr>]\<rparr>
      else s)"

definition event_fields :: "WebhookPayload \<Rightarrow> pyval pydict" where
  \<comment> \<open>the two fields every audit of a dispatch starts with\<close>
  "event_fields p = [(''issue_key'', PStr (issue_key p)), (''event_type'', PStr (event_type p))]"

section \<open>Caches\<close>

definition refresh_cache :: "dispatch_env \<Rightarrow> dispatcher \<Rightarrow> dispatcher" where
  "refresh_cache env s =
     (if refresh_fails env then s
      else s\<lparr>bot_identity_cache :=
               foldl (\<lambda>c row. case br_account_id row of
                        None \<Rightarrow> c
                      | Some a \<Rightarrow>
                          if a = [] then c
                          else dict_set a \<lparr>bi_account_id = a, bi_department_id = br_department_id row,
                                           bi_service = br_service row\<rparr> c) [] (bots env),
             dept_config_cache :=
               foldl (\<lambda>c row. dict_set (dr_id row) (department_config (loads env) row) c) [] (departments env),
             last_cache_refresh := monotonic env\<rparr>)"

definition maybe_refresh_cache :: "dispatch_env \<Rightarrow> dispatcher \<Rightarrow> dispatcher" where
  "maybe_refresh_cache env s =
     (if monotonic env - last_cache_refresh s \<ge> CACHE_REFRESH_INTERVAL then refresh_cache env s else s)"

definition invalidate_cache :: "dispatcher \<Rightarrow> dispatcher" where
  "invalidate_cache s = s\<lparr>last_cache_refresh := 0\<rparr>"

definition resolve_dept :: "dispatch_env \<Rightarrow> pystr \<Rightarrow> dispatcher \<Rightarrow> pystr option \<times> dispatcher" where
  "resolve_dept env account_id s =
     (case dict_get (bot_identity_cache s) account_id of
        Some entry \<Rightarrow> (Some (bi_department_id entry), s)
      | None \<Rightarrow>
          if resolve_fails env then (None, s)
          else case find (\<lambda>row. br_account_id row = Some account_id) (bots env) of
                 None \<Rightarrow> (None, s)
               | Some row \<Rightarrow>
                   (Some (br_department_id row),
                    s\<lparr>bot_identity_cache := dict_set account_id
                        \<lparr>bi_account_id = account_id, bi_department_id = br_department_id row,
                         bi_service = br_service row\<rparr> (bot_identity_cache s)\<rparr>))"

definition get_dept_config :: "dispatch_env \<Rightarrow> pystr \<Rightarrow> dispatcher \<Rightarrow> DepartmentConfig option \<times> dispatcher" where
  "get_dept_config env d s =
     (case dict_get (dept_config_cache s) d of
        Some config \<Rightarrow> (Some config, s)
      | None \<Rightarrow>
          if config_fails env then (None, s)
          else case find (\<lambda>row. dr_id row = d) (departments env) of
                 None \<Rightarrow> (None, s)
               | Some row \<Rightarrow>
                   let config = department_config (loads env) row
                   in (Some config, s\<lparr>dept_config_cache := dict_set d config (dept_config_cache s)\<rparr>))"

section \<open>Capabilities of the workflow envelope\<close>

definition execution_capable :: "dispatch_env \<Rightarrow> pystr \<Rightarrow> bool" where
  "execution_capable env d \<longleftrightarrow>
     list_ex (\<lambda>(a, r). a = d \<and> list_ex (\<lambda>(r', st). r' = r \<and> st = ''active'') (ssh_runners env)) (ssh_assignments env) \<or>
     list_ex (\<lambda>(k, v). (k = ''SSH_HOST'' \<or> starts_with k ''SSH_HOST_'') \<and> strip v \<noteq> []) (environ env)"

definition web_search_capable :: "dispatch_env \<Rightarrow> pystr \<Rightarrow> bool" where
  "web_search_capable env d \<longleftrightarrow>
     (case find (\<lambda>row. dr_id row = d) (departments env) of None \<Rightarrow> False | Some row \<Rightarrow> dr_web_search_enabled row) \<and>
     lower (strip (case dict_get (environ env) ''FIRECRAWL_ENABLED'' of None \<Rightarrow> ''false'' | Some v \<Rightarrow> v))
       \<in> {''1'', ''true'', ''yes'', ''on''}"

definition service_granted :: "dispatch_env \<Rightarrow> pystr \<Rightarrow> pystr \<Rightarrow> bool" where
  "service_granted env d service \<longleftrightarrow>
     list_ex (\<lambda>row. br_department_id row = d \<and>
                    (case br_credential_ref row of None \<Rightarrow> False | Some c \<Rightarrow> c \<noteq> []) \<and>
                    lower (strip (br_service row)) = service) (bots env)"

definition resolve_available_capabilities :: "dispatch_env \<Rightarrow> pystr \<Rightarrow> pystr list" where
  \<comment> \<open>\<open>sorted(caps)\<close>: the five names that can be in the set, in order\<close>
  "resolve_available_capabilities env d =
     (if capabilities_fail env then []
      else filter (\<lambda>c. if c = ''execution'' then execution_capable env d
                        else if c = ''web_search'' then web_search_capable env d
                        else service_granted env d c)
             [''bitbucket'', ''confluence'', ''execution'', ''jira'', ''web_search''])"

section \<open>Temporal\<close>

definition gateway_id :: "pystr \<Rightarrow> pystr" where
  "gateway_id k = ''automation-jira-'' @ k"

definition is_gateway_running :: "dispatch_env \<Rightarrow> pystr \<Rightarrow> bool" where
  "is_gateway_running env k =
     (case describe env (gateway_id k) of
        DescribeRaises \<Rightarrow> False
      | StatusNamed n \<Rightarrow> n = ''RUNNING''
      | StatusPlain v \<Rightarrow> v = Some 1)"

definition latest_item :: "work_item list \<Rightarrow> work_item option" where
  \<comment> \<open>\<open>ORDER BY created_at DESC LIMIT 1\<close>\<close>
  "latest_item ws =
     (case ws of
        [] \<Rightarrow> None
      | w # ws' \<Rightarrow> Some (foldl (\<lambda>best w. if wi_created_at w > wi_created_at best then w else best) w ws'))"

definition is_needs_info :: "dispatch_env \<Rightarrow> pystr \<Rightarrow> bool" where
  "is_needs_info env k \<longleftrightarrow>
     is_gateway_running env k \<or>
     (\<not> needs_info_fails env \<and>
      (case latest_item (filter (\<lambda>w. wi_issue_key w = k) (work_items env)) of
         None \<Rightarrow> False | Some w \<Rightarrow> wi_status w = ''needs_info''))"

definition call_temporal :: "temporal_call \<Rightarrow> dispatcher \<Rightarrow> dispatcher" where
  "call_temporal c s = s\<lparr>temporal_calls := temporal_calls s @ [c]\<rparr>"

definition signal_workflow :: "dispatch_env \<Rightarrow> pystr \<Rightarrow> pystr \<Rightarrow> pystr option \<Rightarrow> dispatcher \<Rightarrow> dispatcher" where
  "signal_workflow env k signal_name text s =
     call_temporal (SignalWorkflow (gateway_id k) signal_name (opt_str text) (\<not> signal_fails env (gateway_id k))) s"

definition extra_instructions :: "pystr option \<Rightarrow> pystr option" where
  "extra_instructions b =
     (case b of
        None \<Rightarrow> None
      | Some text \<Rightarrow>
          if is_iterate_command text \<and> strip (after_iterate text) \<noteq> [] then Some (strip (after_iterate text))
          else None)"

definition iteration_input :: "WebhookPayload \<Rightarrow> pystr \<Rightarrow> pyval pydict" where
  \<comment> \<open>\<open>workflow_input\<close>\<close>
  "iteration_input p d =
     [(''trigger'', PStr ''iterate''), (''issue_key'', PStr (issue_key p)), (''department_id'', PStr d),
      (''extra_instructions'', opt_str (extra_instructions (comment_body p))),
      (''comment_body'', opt_str (comment_body p)), (''actor_account_id'', opt_str (actor_account_id p))]"

definition start_iteration :: "dispatch_env \<Rightarrow> WebhookPayload \<Rightarrow> pystr \<Rightarrow> dispatcher \<Rightarrow> dispatcher" where
  "start_iteration env p d s =
     (let wid = ''iteration-'' @ issue_key p @ ''-'' @ uuid4_hex8 env
      in call_temporal (StartWorkflow ''IterationWorkflow'' wid AUTOMATION_TASK_QUEUE (PDict (iteration_input p d))
           (\<not> start_fails env wid)) s)"

definition start_workflow :: "dispatch_env \<Rightarrow> pystr \<Rightarrow> pystr \<Rightarrow> pystr \<Rightarrow> dispatcher \<Rightarrow> dispatcher" where
  "start_workflow env k d trace s =
     (let inp = PDict [(''trigger'', PStr ''jira''), (''issue_key'', PStr k), (''department_id'', PStr d),
                       (''trace_id'', PStr trace),
                       (''available_capabilities'', PList (map PStr (resolve_available_capabilities env d)))]
      in call_temporal
           (StartWorkflow WORKFLOW_NAME (gateway_id k) AUTOMATION_TASK_QUEUE inp (\<not> start_fails env (gateway_id k))) s)"

section \<open>Branches of a dispatch\<close>

definition is_iterate_authorized :: "WebhookPayload \<Rightarrow> DepartmentConfig option \<Rightarrow> bool" where
  "is_iterate_authorized p cfg =
     (case actor_account_id p of
        None \<Rightarrow> False
      | Some actor \<Rightarrow>
          if actor = [] then False
          else if nonempty (reporter_account_id p) \<and> reporter_account_id p = Some actor then True
          else actor \<in> set (case cfg of None \<Rightarrow> [] | Some c \<Rightarrow> dc_approvers c))"

definition forward_approval_signal :: "dispatch_env \<Rightarrow> WebhookPayload \<Rightarrow> pystr \<Rightarrow> dispatcher \<Rightarrow> dispatcher" where
  "forward_approval_signal env p d s =
     (let child = ''ApprovalGateWorkflow-'' @ gateway_id (issue_key p) @ ''-'' @ issue_key p;
          payload = PDict [(''user_id'', opt_str (actor_account_id p)), (''decision'', opt_str (comment_body p))];
          token = (case comment_body p of None \<Rightarrow> ''unknown'' | Some b \<Rightarrow> decision_token b);
          ok = (\<not> signal_fails env child);
          fs = event_fields p @ [(''dept_id'', PStr d), (''decision'', PStr token),
                 (''actor_account_id'', opt_str (actor_account_id p)), (''child_workflow_id'', PStr child)]
      in audit (if ok then ''approval_signal_forwarded'' else ''approval_signal_forwarding_failed'') fs
           (call_temporal (SignalWorkflow child ''approval_received'' payload ok) s))"

definition handle_concurrency_rejection ::
  "WebhookPayload \<Rightarrow> pystr \<Rightarrow> int \<Rightarrow> int \<Rightarrow> pystr \<Rightarrow> dispatcher \<Rightarrow> dispatcher" where
  "handle_concurrency_rejection p d current max_allowed source s =
     (let s = audit ''dispatch_concurrency_rejected''
                (event_fields p @ [(''dept_id'', PStr d), (''current'', PInt current), (''max_allowed'', PInt max_allowed),
                   (''source'', PStr source)]) s
      in if has_commenter s \<and> issue_key p \<noteq> []
         then s\<lparr>jira_comments := jira_comments s @ [(d, issue_key p, ConcurrencyRejection current max_allowed)]\<rparr>
         else s)"

definition run_check_budget ::
  "dispatch_env \<Rightarrow> WebhookPayload \<Rightarrow> pystr \<Rightarrow> bool \<Rightarrow> policy \<Rightarrow>
     BudgetCheckResult option \<times> budget_comment list \<times> policy" where
  \<comment> \<open>\<open>check_budget\<close> inside its \<open>try\<close>: \<open>None\<close> when it raises, because the arguments are rejected, the
     usage query fails or the audit row of a denial cannot be written\<close>
  "run_check_budget env p d callback pol =
     (if usage_fails env \<and> d \<noteq> [] \<and> dict_get (caps_of pol) d \<noteq> None then (None, [], pol)
      else case check_budget callback (cost_rows env) (utc_now env) d (actor_account_id p) pol of
             (Inl _, _, pol') \<Rightarrow> (None, [], pol')
           | (Inr r, cs, pol') \<Rightarrow>
               if budget_audit_fails env \<and> \<not> res_allowed r \<and> exceeded_scope r \<noteq> Some ConfigurationError
               then (None, [], pol) else (Some r, cs, pol'))"

definition check_budget_pre_start ::
  "dispatch_env \<Rightarrow> WebhookPayload \<Rightarrow> pystr \<Rightarrow> dispatcher \<Rightarrow> DispatchResult option \<times> dispatcher" where
  "check_budget_pre_start env p d s =
     (case budget_policy s of
        None \<Rightarrow> (None, s)
      | Some pol \<Rightarrow>
          let (outcome, cs, pol') = run_check_budget env p d (has_commenter s) pol;
              s = s\<lparr>budget_policy := Some pol',
                    jira_comments := jira_comments s @ map (\<lambda>c. (d, issue_key p, BudgetComment c)) cs\<rparr>
          in case outcome of
               None \<Rightarrow> (None, audit ''dispatch_budget_check_error'' (event_fields p @ [(''dept_id'', PStr d)]) s)
             | Some r \<Rightarrow>
                 if res_allowed r then (None, s)
                 else case exceeded_scope r of
                        Some (ExceededScope sc) \<Rightarrow>
                          (Some \<lparr>action = ''budget_exceeded'', reason = Some ''budget_exceeded'', result_trace_id = None,
                                 result_dept_id = Some d, status_code = Some 429,
                                 body = (case deny_response_body (deny sc) d of Inl _ \<Rightarrow> None | Inr b \<Rightarrow> Some (DenyBody b))\<rparr>, s)
                      | _ \<Rightarrow>
                          (Some \<lparr>action = ''budget_configuration_error'', reason = Some ''budget_configuration_error'',
                                 result_trace_id = None, result_dept_id = Some d, status_code = Some 422,
                                 body = Some (ConfigurationErrorBody d)\<rparr>,
                           audit ''dispatch_budget_configuration_error'' (event_fields p @ [(''dept_id'', PStr d)]) s))"

definition outcome :: "pystr \<Rightarrow> pystr option \<Rightarrow> pystr option \<Rightarrow> pystr option \<Rightarrow> DispatchResult" where
  \<comment> \<open>a result with the default status and body\<close>
  "outcome act why trace d =
     \<lparr>action = act, reason = why, result_trace_id = trace, result_dept_id = d, status_code = None, body = None\<rparr>"

definition dispatch_iterate ::
  "dispatch_env \<Rightarrow> WebhookPayload \<Rightarrow> pystr \<Rightarrow> DepartmentConfig option \<Rightarrow> dispatcher \<Rightarrow>
     DispatchResult \<times> dispatcher" where
  "dispatch_iterate env p d cfg s =
     (if \<not> is_iterate_authorized p cfg
      then (outcome ''drop'' (Some ''iteration_unauthorized'') None (Some d),
            audit ''dispatch_iteration_unauthorized''
              (event_fields p @ [(''dept_id'', PStr d), (''actor_account_id'', opt_str (actor_account_id p))]) s)
      else case check_budget_pre_start env p d s of
             (Some rejection, s) \<Rightarrow> (rejection, s)
           | (None, s) \<Rightarrow>
               (outcome ''iteration_started'' None None (Some d),
                audit ''dispatch_iteration_started'' (event_fields p @ [(''dept_id'', PStr d)])
                  (start_iteration env p d s)))"

definition dispatch_info :: "dispatch_env \<Rightarrow> WebhookPayload \<Rightarrow> pystr \<Rightarrow> dispatcher \<Rightarrow> DispatchResult \<times> dispatcher" where
  "dispatch_info env p d s =
     (outcome ''signaled'' None None (Some d),
      audit ''dispatch_signaled'' (event_fields p @ [(''dept_id'', PStr d), (''signal'', PStr ''info_received'')])
        (signal_workflow env (issue_key p) ''info_received'' (comment_body p) s))"

definition dispatch_start ::
  "dispatch_env \<Rightarrow> WebhookPayload \<Rightarrow> pystr \<Rightarrow> dispatcher \<Rightarrow> DispatchResult \<times> dispatcher" where
  \<comment> \<open>behind the concurrency cap\<close>
  "dispatch_start env p d s =
     (case check_budget_pre_start env p d s of
        (Some rejection, s) \<Rightarrow> (rejection, s)
      | (None, s) \<Rightarrow>
          let trace = (case trace_id p of Some (c # cs) \<Rightarrow> c # cs | _ \<Rightarrow> uuid4 env)
          in (outcome ''workflow_started'' None (Some trace) (Some d),
              audit ''dispatch_workflow_started'' (event_fields p @ [(''dept_id'', PStr d), (''trace_id'', PStr trace)])
                (start_workflow env (issue_key p) d trace s)))"

definition concurrency_gate ::
  "dispatch_env \<Rightarrow> pystr \<Rightarrow> DepartmentConfig option \<Rightarrow> concurrency_error + unit" where
  \<comment> \<open>the \<open>concurrency\<close> module is importable\<close>
  "concurrency_gate env d cfg =
     (case (case cfg of None \<Rightarrow> None | Some c \<Rightarrow> dc_max_concurrent_workflows c) of
        None \<Rightarrow> Inr ()
      | Some m \<Rightarrow>
          rbind (check_dept_concurrency (Some (visibility env)) (count_fails env) (work_items env) d (Some m))
            (\<lambda>_. Inr ()))"

definition dispatch_normal ::
  "dispatch_env \<Rightarrow> WebhookPayload \<Rightarrow> pystr \<Rightarrow> DepartmentConfig option \<Rightarrow> dispatcher \<Rightarrow>
     (pystr + DispatchResult) \<times> dispatcher" where
  "dispatch_normal env p d cfg s =
     (case concurrency_gate env d cfg of
        Inl (ConcurrencyLimitExceeded _ current m source) \<Rightarrow>
          (Inr (outcome ''drop'' (Some ''concurrency_limit_exceeded'') None (Some d)),
           handle_concurrency_rejection p d current m source s)
      | Inl DatabaseError \<Rightarrow> (Inl ''DatabaseError'', s)
      | Inr _ \<Rightarrow> (let (r, s) = dispatch_start env p d s in (Inr r, s)))"

definition comment_is :: "(pystr \<Rightarrow> bool) \<Rightarrow> WebhookPayload \<Rightarrow> bool" where
  \<comment> \<open>a new comment whose body satisfies the predicate\<close>
  "comment_is P p \<longleftrightarrow> is_comment_created (event_type p) \<and> (case comment_body p of None \<Rightarrow> False | Some b \<Rightarrow> P b)"

definition dispatch_resolved ::
  "dispatch_env \<Rightarrow> WebhookPayload \<Rightarrow> pystr \<Rightarrow> DepartmentConfig option \<Rightarrow> dispatcher \<Rightarrow>
     (pystr + DispatchResult) \<times> dispatcher" where
  \<comment> \<open>\<open>dispatch\<close> once the department is known\<close>
  "dispatch_resolved env p d cfg s =
     (if (case cfg of None \<Rightarrow> False | Some c \<Rightarrow> dc_mode c = ''disabled'')
      then (Inr (outcome ''drop'' (Some ''dept_disabled'') None (Some d)),
            audit ''webhook_dept_disabled'' (event_fields p @ [(''dept_id'', PStr d)]) s)
      else if comment_is is_iterate_command p
      then (let (r, s) = dispatch_iterate env p d cfg s in (Inr r, s))
      else if is_comment_created (event_type p) \<and> is_needs_info env (issue_key p)
      then (let (r, s) = dispatch_info env p d s in (Inr r, s))
      else if comment_is is_approval_comment p
      then (Inr (outcome ''approval_forwarded'' None None (Some d)), forward_approval_signal env p d s)
      else dispatch_normal env p d cfg s)"

definition dispatch ::
  "dispatch_env \<Rightarrow> WebhookPayload \<Rightarrow> dispatcher \<Rightarrow> (pystr + DispatchResult) \<times> dispatcher" where
  \<comment> \<open>\<open>Inl\<close> the class of an exception that leaves \<open>dispatch\<close>\<close>
  "dispatch env p s =
     (case assignee_account_id p of
        None \<Rightarrow>
          (Inr (outcome ''drop'' (Some ''dispatch_unassigned'') None None),
           audit ''dispatch_unassigned'' (event_fields p) s)
      | Some account \<Rightarrow>
          (case resolve_dept env account (maybe_refresh_cache env s) of
             (None, s) \<Rightarrow>
               (Inr (outcome ''drop'' (Some ''not_bot'') None None),
                audit ''dispatch_not_bot'' (event_fields p @ [(''assignee_account_id'', PStr account)]) s)
           | (Some d, s) \<Rightarrow>
               (case get_dept_config env d s of (cfg, s) \<Rightarrow> dispatch_resolved env p d cfg s)))"

section \<open>Specification\<close>

fun call_kind :: "temporal_call \<Rightarrow> pystr \<times> pystr" where
  \<comment> \<open>the signal or the workflow type, and the workflow id\<close>
  "call_kind (SignalWorkflow w n _ _) = (n, w)"
| "call_kind (StartWorkflow t w _ _ _) = (t, w)"

definition expected_calls :: "dispatch_env \<Rightarrow> WebhookPayload \<Rightarrow> DispatchResult \<Rightarrow> (pystr \<times> pystr) list" where
  \<comment> \<open>the one call a result stands for\<close>
  "expected_calls env p r =
     (if action r = ''workflow_started'' then [(''AutomationWorkflow'', gateway_id (issue_key p))]
      else if action r = ''iteration_started''
      then [(''IterationWorkflow'', ''iteration-'' @ issue_key p @ ''-'' @ uuid4_hex8 env)]
      else if action r = ''signaled'' then [(''info_received'', gateway_id (issue_key p))]
      else if action r = ''approval_forwarded''
      then [(''approval_received'', ''ApprovalGateWorkflow-'' @ gateway_id (issue_key p) @ ''-'' @ issue_key p)]
      else [])"

fun start_of :: "temporal_call \<Rightarrow> (pystr \<times> pystr \<times> bool) list" where
  \<comment> \<open>the workflow type, the workflow id and whether Temporal accepted the start\<close>
  "start_of (StartWorkflow t w _ _ ok) = [(t, w, ok)]"
| "start_of (SignalWorkflow _ _ _ _) = []"

definition requested_starts :: "dispatcher \<Rightarrow> dispatcher \<Rightarrow> (pystr \<times> pystr \<times> bool) list" where
  \<comment> \<open>the starts asked of Temporal between two states\<close>
  "requested_starts s s' = concat (map start_of (List.drop (length (temporal_calls s)) (temporal_calls s')))"

definition department_of_bot :: "dispatch_env \<Rightarrow> dispatcher \<Rightarrow> pystr \<Rightarrow> pystr option" where
  \<comment> \<open>the cached identity, after a refresh when one is due, and else the first row of the account\<close>
  "department_of_bot env s a =
     (case dict_get (bot_identity_cache (maybe_refresh_cache env s)) a of
        Some entry \<Rightarrow> Some (bi_department_id entry)
      | None \<Rightarrow> if resolve_fails env then None
                else map_option br_department_id (find (\<lambda>row. br_account_id row = Some a) (bots env)))"

definition config_of_department :: "dispatch_env \<Rightarrow> dispatcher \<Rightarrow> pystr \<Rightarrow> DepartmentConfig option" where
  "config_of_department env s d =
     (case dict_get (dept_config_cache (maybe_refresh_cache env s)) d of
        Some c \<Rightarrow> Some c
      | None \<Rightarrow> if config_fails env then None
                else map_option (department_config (loads env)) (find (\<lambda>row. dr_id row = d) (departments env)))"

definition target :: "dispatch_env \<Rightarrow> WebhookPayload \<Rightarrow> dispatcher \<Rightarrow> (pystr \<times> DepartmentConfig option) option" where
  \<comment> \<open>the department of the assigned bot and its configuration\<close>
  "target env p s =
     (case assignee_account_id p of
        None \<Rightarrow> None
      | Some a \<Rightarrow> map_option (\<lambda>d. (d, config_of_department env s d)) (department_of_bot env s a))"

definition new_comment :: "WebhookPayload \<Rightarrow> bool" where
  "new_comment p \<longleftrightarrow> event_type p \<in> {''comment_created'', ''jira:comment_created''}"

definition comment_mentions :: "WebhookPayload \<Rightarrow> pystr \<Rightarrow> bool" where
  \<comment> \<open>the event is a new comment that holds the word, in either case\<close>
  "comment_mentions p word \<longleftrightarrow> new_comment p \<and> (\<exists>b. comment_body p = Some b \<and> contains_sub word (lower b))"

definition authorised_author :: "WebhookPayload \<Rightarrow> DepartmentConfig option \<Rightarrow> bool" where
  \<comment> \<open>the author is the reporter or one of the approvers\<close>
  "authorised_author p cfg \<longleftrightarrow>
     (\<exists>a. actor_account_id p = Some a \<and> a \<noteq> [] \<and>
        (reporter_account_id p = Some a \<or> (\<exists>c. cfg = Some c \<and> a \<in> set (dc_approvers c))))"

definition awaits_info :: "dispatch_env \<Rightarrow> pystr \<Rightarrow> bool" where
  \<comment> \<open>the gateway of the issue runs, or the newest of its work items has the status \<open>needs_info\<close>\<close>
  "awaits_info env k \<longleftrightarrow>
     describe env (''automation-jira-'' @ k) \<in> {StatusNamed ''RUNNING'', StatusPlain (Some 1)} \<or>
     \<not> needs_info_fails env \<and>
       (\<exists>xs w ys. filter (\<lambda>w. wi_issue_key w = k) (work_items env) = xs @ w # ys \<and> wi_status w = ''needs_info'' \<and>
          (\<forall>x\<in>set xs. wi_created_at x < wi_created_at w) \<and> (\<forall>y\<in>set ys. wi_created_at y \<le> wi_created_at w))"

definition below_cap :: "dispatch_env \<Rightarrow> pystr \<Rightarrow> DepartmentConfig option \<Rightarrow> bool" where
  \<comment> \<open>Temporal counts the running workflows, and when it cannot, the table of work items is counted\<close>
  "below_cap env d cfg \<longleftrightarrow>
     (\<forall>c m. cfg = Some c \<and> dc_max_concurrent_workflows c = Some m \<longrightarrow>
        (case visibility env (visibility_query d) of
           Some n \<Rightarrow> n < m
         | None \<Rightarrow> \<not> count_fails env \<and>
             int (length (filter (\<lambda>w. wi_department_id w = d \<and> wi_status w = ''running'') (work_items env))) < m))"

definition budget_left :: "dispatch_env \<Rightarrow> pystr \<Rightarrow> pystr option \<Rightarrow> BudgetCaps \<Rightarrow> bool" where
  \<comment> \<open>production costs of the last 7 and 30 days, of the department and of the actor; a cap that is not positive does not count\<close>
  "budget_left env d usr caps \<longleftrightarrow>
     (weekly_usd_dept caps > 0 \<longrightarrow> usage_dept (cost_rows env) (utc_now env) d (days 7) < weekly_usd_dept caps) \<and>
     (monthly_usd_dept caps > 0 \<longrightarrow> usage_dept (cost_rows env) (utc_now env) d (days 30) < monthly_usd_dept caps) \<and>
     (\<forall>u. usr = Some u \<longrightarrow>
        (weekly_usd_user caps > 0 \<longrightarrow> usage_user (cost_rows env) (utc_now env) d (days 7) u < weekly_usd_user caps) \<and>
        (monthly_usd_user caps > 0 \<longrightarrow> usage_user (cost_rows env) (utc_now env) d (days 30) u < monthly_usd_user caps))"

definition budget_open :: "dispatch_env \<Rightarrow> WebhookPayload \<Rightarrow> pystr \<Rightarrow> dispatcher \<Rightarrow> bool" where
  \<comment> \<open>no policy is wired, or the department has caps and budget left; a failing query or denial record lets everything pass\<close>
  "budget_open env p d s \<longleftrightarrow>
     (\<forall>pol. budget_policy s = Some pol \<longrightarrow> d = [] \<or>
        (\<exists>caps. dict_get (caps_of pol) d = Some caps \<and>
           (usage_fails env \<or> budget_audit_fails env \<or> budget_left env d (actor_account_id p) caps)))"

definition under_cap :: "dispatch_env \<Rightarrow> pystr \<Rightarrow> DepartmentConfig option \<Rightarrow> bool" where
  "under_cap env d cfg \<longleftrightarrow>
     (\<forall>c m. cfg = Some c \<and> dc_max_concurrent_workflows c = Some m \<longrightarrow>
        (\<exists>n src. count_active_workflows (Some (visibility env)) (count_fails env) (work_items env) d = Inr (n, src) \<and> n < m))"

definition within_budget :: "dispatch_env \<Rightarrow> WebhookPayload \<Rightarrow> pystr \<Rightarrow> dispatcher \<Rightarrow> bool" where
  \<comment> \<open>no policy is wired, the check fails open, or the check allows\<close>
  "within_budget env p d s \<longleftrightarrow>
     (\<forall>pol. budget_policy s = Some pol \<longrightarrow>
        (\<forall>r. fst (run_check_budget env p d (has_commenter s) pol) = Some r \<longrightarrow> res_allowed r))"

definition enabled :: "DepartmentConfig option \<Rightarrow> bool" where
  "enabled cfg \<longleftrightarrow> (\<forall>c. cfg = Some c \<longrightarrow> dc_mode c \<noteq> ''disabled'')"

section \<open>Lemmas\<close>

lemma audit_frame [simp]:
  "temporal_calls (audit a fs s) = temporal_calls s" "budget_policy (audit a fs s) = budget_policy s"
  "has_commenter (audit a fs s) = has_commenter s" "has_audit_logger (audit a fs s) = has_audit_logger s"
  by (simp_all add: audit_def)

lemma maybe_refresh_frame [simp]:
  "temporal_calls (maybe_refresh_cache env s) = temporal_calls s"
  "budget_policy (maybe_refresh_cache env s) = budget_policy s"
  "has_commenter (maybe_refresh_cache env s) = has_commenter s"
  "has_audit_logger (maybe_refresh_cache env s) = has_audit_logger s"
  by (simp_all add: maybe_refresh_cache_def refresh_cache_def)

lemma resolve_dept_frame:
  assumes "resolve_dept env a s = (d, s')"
  shows "temporal_calls s' = temporal_calls s \<and> budget_policy s' = budget_policy s \<and> has_commenter s' = has_commenter s \<and>
         has_audit_logger s' = has_audit_logger s"
  using assms by (auto simp: resolve_dept_def split: option.splits if_splits)

lemma get_dept_config_frame:
  assumes "get_dept_config env d s = (cfg, s')"
  shows "temporal_calls s' = temporal_calls s \<and> budget_policy s' = budget_policy s \<and> has_commenter s' = has_commenter s \<and>
         has_audit_logger s' = has_audit_logger s"
  using assms by (auto simp: get_dept_config_def Let_def split: option.splits if_splits)

lemma resolve_dept_spec:
  "fst (resolve_dept env a (maybe_refresh_cache env s)) = department_of_bot env s a"
  "dept_config_cache (snd (resolve_dept env a s)) = dept_config_cache s"
  by (auto simp: resolve_dept_def department_of_bot_def split: option.split)

lemma get_dept_config_spec:
  "dept_config_cache s1 = dept_config_cache (maybe_refresh_cache env s) \<Longrightarrow>
   fst (get_dept_config env d s1) = config_of_department env s d"
  by (auto simp: get_dept_config_def config_of_department_def Let_def split: option.split)

lemma comment_is_iff:
  "comment_is is_iterate_command p \<longleftrightarrow> comment_mentions p ''[iterate]''"
  "comment_is is_approval_comment p \<longleftrightarrow> comment_mentions p ''[approve]'' \<or> comment_mentions p ''[reject]''"
  "is_comment_created (event_type p) \<longleftrightarrow> new_comment p"
  by (auto simp: comment_is_def is_iterate_command_def is_approval_comment_def comment_mentions_def new_comment_def
      is_comment_created_def split: option.split)

lemma is_iterate_authorized_iff: "is_iterate_authorized p cfg \<longleftrightarrow> authorised_author p cfg"
  by (auto simp: is_iterate_authorized_def authorised_author_def nonempty_def split: option.splits)

lemma newest_item:
  "\<exists>xs ys. w # ws = xs @ foldl (\<lambda>best w. if wi_created_at w > wi_created_at best then w else best) w ws # ys \<and>
     (\<forall>x\<in>set xs. wi_created_at x < wi_created_at (foldl (\<lambda>best w. if wi_created_at w > wi_created_at best then w else best) w ws)) \<and>
     (\<forall>y\<in>set ys. wi_created_at y \<le> wi_created_at (foldl (\<lambda>best w. if wi_created_at w > wi_created_at best then w else best) w ws))"
proof (induction ws rule: rev_induct)
  case (snoc v ws)
  let ?b = "foldl (\<lambda>best w. if wi_created_at w > wi_created_at best then w else best) w ws"
  from snoc obtain xs ys where b: "w # ws = xs @ ?b # ys" "\<forall>x\<in>set xs. wi_created_at x < wi_created_at ?b"
    "\<forall>y\<in>set ys. wi_created_at y \<le> wi_created_at ?b" by blast
  show ?case
  proof (cases "wi_created_at v > wi_created_at ?b")
    case True
    have "\<forall>x\<in>set (w # ws). wi_created_at x < wi_created_at v"
      unfolding b(1) using b(2,3) True by auto
    with True show ?thesis by (intro exI [of _ "w # ws"] exI [of _ "[]"]) simp
  next
    case False
    with b show ?thesis by (intro exI [of _ xs] exI [of _ "ys @ [v]"]) auto
  qed
next
  case Nil
  show ?case by (intro exI [of _ "[]"]) simp
qed

lemma newest_unique:
  assumes "xs @ w # ys = xs' @ w' # ys'"
    and "\<forall>x\<in>set xs. wi_created_at x < wi_created_at w" "\<forall>y\<in>set ys. wi_created_at y \<le> wi_created_at w"
    and "\<forall>x\<in>set xs'. wi_created_at x < wi_created_at w'" "\<forall>y\<in>set ys'. wi_created_at y \<le> wi_created_at w'"
  shows "w = w'"
proof -
  from assms(1) consider "w = w'" | "w \<in> set xs'" "w' \<in> set ys" | "w' \<in> set xs" "w \<in> set ys'"
    by (auto simp: append_eq_append_conv2 append_eq_Cons_conv Cons_eq_append_conv)
  then show ?thesis using assms(2-5) by cases (auto dest!: bspec)
qed

definition newest_of :: "work_item list \<Rightarrow> work_item \<Rightarrow> bool" where
  "newest_of ws w \<longleftrightarrow>
     (\<exists>xs ys. ws = xs @ w # ys \<and> (\<forall>x\<in>set xs. wi_created_at x < wi_created_at w) \<and> (\<forall>y\<in>set ys. wi_created_at y \<le> wi_created_at w))"

lemma newest_of_inj: "newest_of ws w \<Longrightarrow> newest_of ws w' \<Longrightarrow> w = w'"
  unfolding newest_of_def using newest_unique by metis

lemma latest_item_iff: "latest_item ws = Some w \<longleftrightarrow> newest_of ws w"
proof (cases ws)
  case (Cons v vs)
  then obtain b where "latest_item ws = Some b" "newest_of ws b"
    using newest_item [of v vs] by (auto simp: latest_item_def newest_of_def)
  then show ?thesis using newest_of_inj by auto
qed (simp add: latest_item_def newest_of_def)

lemma is_needs_info_iff: "is_needs_info env k \<longleftrightarrow> awaits_info env k"
proof -
  have "(case latest_item ws of None \<Rightarrow> False | Some w \<Rightarrow> wi_status w = ''needs_info'') \<longleftrightarrow>
      (\<exists>w. latest_item ws = Some w \<and> wi_status w = ''needs_info'')" for ws
    by (auto split: option.split)
  then have item: "(case latest_item ws of None \<Rightarrow> False | Some w \<Rightarrow> wi_status w = ''needs_info'') \<longleftrightarrow>
      (\<exists>xs w ys. ws = xs @ w # ys \<and> wi_status w = ''needs_info'' \<and> (\<forall>x\<in>set xs. wi_created_at x < wi_created_at w) \<and>
         (\<forall>y\<in>set ys. wi_created_at y \<le> wi_created_at w))" for ws
    unfolding latest_item_iff newest_of_def by blast
  have "is_gateway_running env k \<longleftrightarrow>
      describe env (''automation-jira-'' @ k) \<in> {StatusNamed ''RUNNING'', StatusPlain (Some 1)}"
    by (simp add: is_gateway_running_def gateway_id_def split: describe_result.split)
  then show ?thesis by (simp add: is_needs_info_def awaits_info_def item)
qed

lemma under_cap_iff: "under_cap env d cfg \<longleftrightarrow> below_cap env d cfg"
  by (auto simp: under_cap_def below_cap_def count_active_workflows_def count_via_temporal_def count_via_postgres_def
      rbind_eq_Inr split: option.split)

lemma within_budget_iff: "within_budget env p d s \<longleftrightarrow> budget_open env p d s"
proof (cases "budget_policy s")
  case (Some pol)
  let ?u = "actor_account_id p"
  show ?thesis
  proof (cases "dict_get (caps_of pol) d")
    case None
    with Some show ?thesis
      by (auto simp: within_budget_def budget_open_def run_check_budget_def check_budget_def caps_provider_get_def)
  next
    case caps: (Some caps)
    have "(\<forall>sc. get_cap_for_scope caps sc > 0 \<longrightarrow> \<not> over_cap caps (usage (cost_rows env) (utc_now env) d ?u) ?u sc) \<longleftrightarrow>
        budget_left env d ?u caps"
      by (cases ?u) (auto simp: all_scopes over_cap_def applies_def usage_def budget_left_def not_le)
    with check_budget_allow_iff [of d pol caps "has_commenter s" "cost_rows env" "utc_now env" ?u] caps
    have allow: "d \<noteq> [] \<Longrightarrow> (\<exists>r. fst (check_budget (has_commenter s) (cost_rows env) (utc_now env) d ?u pol) = Inr r \<and> res_allowed r) \<longleftrightarrow>
        budget_left env d ?u caps" by (simp add: caps_provider_get_def)
    obtain x cs pol' where c: "check_budget (has_commenter s) (cost_rows env) (utc_now env) d ?u pol = (x, cs, pol')"
      by (cases "check_budget (has_commenter s) (cost_rows env) (utc_now env) d ?u pol")
    show ?thesis
    proof (cases "d = []")
      case True
      with Some caps show ?thesis by (simp add: within_budget_def budget_open_def run_check_budget_def check_budget_def)
    next
      case False
      then obtain r where x: "x = Inr r" and sc: "exceeded_scope r \<noteq> Some ConfigurationError"
        using c caps by (auto simp: check_budget_def caps_provider_get_def Let_def split: option.splits)
      from allow [OF False] have "res_allowed r \<longleftrightarrow> budget_left env d ?u caps" using c x by simp
      with Some caps False c x sc show ?thesis
        by (auto simp: within_budget_def budget_open_def run_check_budget_def)
    qed
  qed
qed (simp add: within_budget_def budget_open_def)

lemma check_budget_pre_start_cases:
  assumes "check_budget_pre_start env p d s = (r, s')"
  shows "temporal_calls s' = temporal_calls s \<and> (r = None \<longleftrightarrow> within_budget env p d s) \<and>
         (\<forall>x. r = Some x \<longrightarrow> action x \<in> {''budget_exceeded'', ''budget_configuration_error''})"
  using assms
  by (auto simp: check_budget_pre_start_def within_budget_def Let_def deny_response_body_def
      split: option.splits prod.splits if_splits exceeded.splits)

lemma check_budget_pre_start_audits:
  assumes "check_budget_pre_start env p d s = (r, s')"
  shows "has_audit_logger s' = has_audit_logger s"
  using assms
  by (auto simp: check_budget_pre_start_def Let_def split: option.splits prod.splits if_splits exceeded.splits)

lemma check_budget_pre_start_status:
  assumes "check_budget_pre_start env p d s = (Some x, s')"
  shows "(action x, status_code x) \<in> {(''budget_exceeded'', Some 429), (''budget_configuration_error'', Some 422)} \<and>
         reason x = Some (action x)"
  using assms
  by (auto simp: check_budget_pre_start_def Let_def split: option.splits prod.splits if_splits exceeded.splits)

lemma concurrency_gate_Inr: "concurrency_gate env d cfg = Inr () \<longleftrightarrow> under_cap env d cfg"
  by (cases cfg) (auto simp: concurrency_gate_def under_cap_def rbind_eq_Inr check_dept_concurrency_iff split: option.splits)

text \<open>A dispatch ends in one of the early drops or in \<open>dispatch_resolved\<close> on the department of the bot.\<close>

lemma dispatch_cases:
  obtains r s' where "target env p s = None" and "dispatch env p s = (Inr r, s')" and "action r = ''drop''"
      and "temporal_calls s' = temporal_calls s"
    | d cfg s' where "target env p s = Some (d, cfg)" and "dispatch env p s = dispatch_resolved env p d cfg s'"
      and "temporal_calls s' = temporal_calls s" and "budget_policy s' = budget_policy s"
      and "has_commenter s' = has_commenter s" and "has_audit_logger s' = has_audit_logger s"
proof (cases "assignee_account_id p")
  case None
  then show ?thesis using that(1) by (simp add: target_def dispatch_def outcome_def)
next
  case (Some a)
  obtain d s1 where r: "resolve_dept env a (maybe_refresh_cache env s) = (d, s1)" by fastforce
  note f1 = resolve_dept_frame [OF r]
  show ?thesis
  proof (cases d)
    case None
    with Some r f1 show ?thesis using that(1) resolve_dept_spec [of env a s] by (simp add: target_def dispatch_def outcome_def)
  next
    case d: (Some x)
    obtain cfg s2 where c: "get_dept_config env x s1 = (cfg, s2)" by fastforce
    show ?thesis
      using that(2) [of x cfg s2] Some r d c f1 get_dept_config_frame [OF c]
        resolve_dept_spec [of env a s] resolve_dept_spec(2) [of env a "maybe_refresh_cache env s"] get_dept_config_spec [of s1 env s x]
      by (simp add: target_def dispatch_def)
  qed
qed

lemma dispatch_start_cases:
  assumes "dispatch_start env p d s = (r, s')"
  shows "\<exists>cs. temporal_calls s' = temporal_calls s @ cs \<and> map call_kind cs = expected_calls env p r \<and>
     action r \<in> {''workflow_started'', ''budget_exceeded'', ''budget_configuration_error''} \<and>
     (action r = ''workflow_started'' \<longleftrightarrow> within_budget env p d s)"
proof -
  obtain x s1 where b: "check_budget_pre_start env p d s = (x, s1)" by fastforce
  note c = check_budget_pre_start_cases [OF b]
  show ?thesis
    using assms b c
    by (cases x) (auto simp: dispatch_start_def expected_calls_def outcome_def start_workflow_def call_temporal_def
        WORKFLOW_NAME_def Let_def)
qed

lemma dispatch_iterate_cases:
  assumes "dispatch_iterate env p d cfg s = (r, s')"
  shows "\<exists>cs. temporal_calls s' = temporal_calls s @ cs \<and> map call_kind cs = expected_calls env p r \<and>
     action r \<in> {''drop'', ''iteration_started'', ''budget_exceeded'', ''budget_configuration_error''} \<and>
     (action r = ''iteration_started'' \<longleftrightarrow> is_iterate_authorized p cfg \<and> within_budget env p d s)"
proof -
  obtain x s1 where b: "check_budget_pre_start env p d s = (x, s1)" by fastforce
  note c = check_budget_pre_start_cases [OF b]
  show ?thesis
    using assms b c
    by (cases x) (auto simp: dispatch_iterate_def expected_calls_def outcome_def start_iteration_def call_temporal_def
        Let_def split: if_splits)
qed

lemma handle_concurrency_rejection_calls [simp]:
  "temporal_calls (handle_concurrency_rejection p d c m src s) = temporal_calls s"
  by (simp add: handle_concurrency_rejection_def Let_def)

lemma dispatch_normal_cases:
  assumes "dispatch_normal env p d cfg s = (x, s')"
  shows "(under_cap env d cfg \<and> x = Inr (fst (dispatch_start env p d s)) \<and> s' = snd (dispatch_start env p d s)) \<or>
         (\<not> under_cap env d cfg \<and> temporal_calls s' = temporal_calls s \<and> (\<forall>r. x = Inr r \<longrightarrow> action r = ''drop''))"
proof (cases "concurrency_gate env d cfg")
  case (Inl e)
  then have "\<not> under_cap env d cfg" by (simp flip: concurrency_gate_Inr)
  with assms Inl show ?thesis by (cases e) (auto simp: dispatch_normal_def outcome_def)
next
  case (Inr u)
  then have "under_cap env d cfg" by (simp flip: concurrency_gate_Inr)
  with assms Inr show ?thesis by (auto simp: dispatch_normal_def split: prod.splits)
qed

lemma dispatch_iterate_started:
  assumes "dispatch_iterate env p d cfg s = (r, s')" and "action r = ''iteration_started''"
  shows "\<exists>w q ok. last (temporal_calls s') = StartWorkflow ''IterationWorkflow'' w q (PDict (iteration_input p d)) ok"
proof -
  obtain x s1 where b: "check_budget_pre_start env p d s = (x, s1)" by fastforce
  with assms show ?thesis
    using check_budget_pre_start_cases [OF b]
    by (cases x) (auto simp: dispatch_iterate_def outcome_def start_iteration_def call_temporal_def Let_def split: if_splits)
qed

lemma disabled_iff: "(case cfg of None \<Rightarrow> False | Some c \<Rightarrow> dc_mode c = ''disabled'') \<longleftrightarrow> \<not> enabled cfg"
  by (auto simp: enabled_def split: option.splits)

lemma dispatch_resolved_cases:
  obtains (Disabled) s' where "\<not> enabled cfg" and "temporal_calls s' = temporal_calls s"
      and "dispatch_resolved env p d cfg s = (Inr (outcome ''drop'' (Some ''dept_disabled'') None (Some d)), s')"
    | (Iterate) r s' where "enabled cfg" and "comment_is is_iterate_command p"
      and "dispatch_iterate env p d cfg s = (r, s')" and "dispatch_resolved env p d cfg s = (Inr r, s')"
    | (Info) "enabled cfg" and "\<not> comment_is is_iterate_command p"
      and "is_comment_created (event_type p)" and "is_needs_info env (issue_key p)"
      and "dispatch_resolved env p d cfg s =
             (Inr (fst (dispatch_info env p d s)), snd (dispatch_info env p d s))"
    | (Approval) "enabled cfg" and "\<not> comment_is is_iterate_command p"
      and "\<not> (is_comment_created (event_type p) \<and> is_needs_info env (issue_key p))"
      and "comment_is is_approval_comment p"
      and "dispatch_resolved env p d cfg s =
             (Inr (outcome ''approval_forwarded'' None None (Some d)), forward_approval_signal env p d s)"
    | (Normal) "enabled cfg" and "\<not> comment_is is_iterate_command p"
      and "\<not> (is_comment_created (event_type p) \<and> is_needs_info env (issue_key p))"
      and "\<not> comment_is is_approval_comment p"
      and "dispatch_resolved env p d cfg s = dispatch_normal env p d cfg s"
proof -
  obtain r s' where i: "dispatch_iterate env p d cfg s = (r, s')" by fastforce
  let ?info = "is_comment_created (event_type p) \<and> is_needs_info env (issue_key p)"
  consider "\<not> enabled cfg" | "enabled cfg" "comment_is is_iterate_command p"
    | "enabled cfg" "\<not> comment_is is_iterate_command p" ?info
    | "enabled cfg" "\<not> comment_is is_iterate_command p" "\<not> ?info" "comment_is is_approval_comment p"
    | "enabled cfg" "\<not> comment_is is_iterate_command p" "\<not> ?info" "\<not> comment_is is_approval_comment p"
    by blast
  then show ?thesis
  proof cases
    case 1
    then show ?thesis by (intro Disabled) (simp_all add: dispatch_resolved_def disabled_iff)
  next
    case 2
    then show ?thesis by (intro Iterate [OF _ _ i]) (simp_all add: dispatch_resolved_def disabled_iff i)
  next
    case 3
    then show ?thesis by (intro Info) (simp_all add: dispatch_resolved_def disabled_iff split_beta)
  next
    case 4
    then show ?thesis by (intro Approval) (auto simp: dispatch_resolved_def disabled_iff)
  next
    case 5
    then show ?thesis by (intro Normal) (auto simp: dispatch_resolved_def disabled_iff)
  qed
qed

lemma dispatch_resolved_calls:
  assumes "dispatch_resolved env p d cfg s = (x, s')"
  shows "case x of
           Inl _ \<Rightarrow> temporal_calls s' = temporal_calls s
         | Inr r \<Rightarrow> \<exists>cs. temporal_calls s' = temporal_calls s @ cs \<and> map call_kind cs = expected_calls env p r"
proof (cases rule: dispatch_resolved_cases [where cfg = cfg and s = s and env = env and p = p and d = d])
  case Disabled
  with assms show ?thesis by (auto simp: expected_calls_def outcome_def)
next
  case Iterate
  with assms dispatch_iterate_cases [of env p d cfg s] show ?thesis by fastforce
next
  case Info
  with assms show ?thesis
    by (auto simp: dispatch_info_def outcome_def expected_calls_def signal_workflow_def call_temporal_def)
next
  case Approval
  with assms show ?thesis
    by (auto simp: forward_approval_signal_def outcome_def expected_calls_def call_temporal_def Let_def)
next
  case Normal
  obtain r s1 where st: "dispatch_start env p d s = (r, s1)" by fastforce
  with assms Normal dispatch_normal_cases [of env p d cfg s x s'] dispatch_start_cases [OF st] show ?thesis
    by (auto simp: expected_calls_def split: sum.splits)
qed

lemma requested_starts_same [simp]: "temporal_calls s' = temporal_calls s \<Longrightarrow> requested_starts s s' = []"
  by (simp add: requested_starts_def)

lemma requested_starts_snoc: "temporal_calls s' = temporal_calls s @ [c] \<Longrightarrow> requested_starts s s' = start_of c"
  by (simp add: requested_starts_def)

lemma requested_starts_from: "temporal_calls s = temporal_calls t \<Longrightarrow> requested_starts s = requested_starts t"
  by (simp add: requested_starts_def fun_eq_iff)

lemma dispatch_start_requests:
  "requested_starts s (snd (dispatch_start env p d s)) =
     (if within_budget env p d s then [(''AutomationWorkflow'', gateway_id (issue_key p), \<not> start_fails env (gateway_id (issue_key p)))] else [])"
proof -
  obtain x s1 where b: "check_budget_pre_start env p d s = (x, s1)" by fastforce
  with check_budget_pre_start_cases [OF b] show ?thesis
    by (cases x) (auto simp: dispatch_start_def start_workflow_def call_temporal_def WORKFLOW_NAME_def Let_def requested_starts_snoc)
qed

lemma dispatch_iterate_requests:
  "requested_starts s (snd (dispatch_iterate env p d cfg s)) =
     (let wid = ''iteration-'' @ issue_key p @ ''-'' @ uuid4_hex8 env
      in if is_iterate_authorized p cfg \<and> within_budget env p d s then [(''IterationWorkflow'', wid, \<not> start_fails env wid)] else [])"
proof -
  obtain x s1 where b: "check_budget_pre_start env p d s = (x, s1)" by fastforce
  with check_budget_pre_start_cases [OF b] show ?thesis
    by (cases x) (auto simp: dispatch_iterate_def start_iteration_def call_temporal_def Let_def requested_starts_snoc)
qed

lemma dispatch_resolved_requests:
  "requested_starts s (snd (dispatch_resolved env p d cfg s)) =
   (if enabled cfg \<and> within_budget env p d s \<and>
       (if comment_is is_iterate_command p then is_iterate_authorized p cfg
        else \<not> (is_comment_created (event_type p) \<and> is_needs_info env (issue_key p)) \<and>
             \<not> comment_is is_approval_comment p \<and> under_cap env d cfg)
    then let (t, w) = (if comment_is is_iterate_command p then (''IterationWorkflow'', ''iteration-'' @ issue_key p @ ''-'' @ uuid4_hex8 env)
                       else (''AutomationWorkflow'', gateway_id (issue_key p)))
         in [(t, w, \<not> start_fails env w)]
    else [])"
proof (cases rule: dispatch_resolved_cases [where cfg = cfg and s = s and env = env and p = p and d = d])
  case Disabled
  then show ?thesis by simp
next
  case (Iterate r s')
  with dispatch_iterate_requests [of s env p d cfg] show ?thesis by (simp add: Let_def)
next
  case Info
  then show ?thesis by (simp add: dispatch_info_def signal_workflow_def call_temporal_def requested_starts_snoc)
next
  case Approval
  then show ?thesis by (simp add: forward_approval_signal_def call_temporal_def Let_def requested_starts_snoc)
next
  case Normal
  obtain x s' where n: "dispatch_normal env p d cfg s = (x, s')" by fastforce
  with Normal dispatch_normal_cases [OF n] dispatch_start_requests [of s env p d] show ?thesis by auto
qed

definition status_fits :: "DispatchResult \<Rightarrow> bool" where
  \<comment> \<open>an HTTP status is set for the two budget rejections only\<close>
  "status_fits r \<longleftrightarrow>
     status_code r = (if action r = ''budget_exceeded'' then Some 429
                      else if action r = ''budget_configuration_error'' then Some 422 else None)"

lemma status_fits_outcome:
  "act \<notin> {''budget_exceeded'', ''budget_configuration_error''} \<Longrightarrow> status_fits (outcome act why trace d)"
  by (simp add: status_fits_def outcome_def)

lemma status_fits_budget:
  "check_budget_pre_start env p d s = (Some x, s') \<Longrightarrow> status_fits x"
  using check_budget_pre_start_status [of env p d s x s'] by (auto simp: status_fits_def)

lemma dispatch_normal_status:
  assumes "dispatch_normal env p d cfg s = (Inr r, s')"
  shows "status_fits r"
proof (cases "concurrency_gate env d cfg")
  case (Inl e)
  with assms show ?thesis by (cases e) (auto simp: dispatch_normal_def status_fits_outcome)
next
  case Inr
  then show ?thesis
    using assms status_fits_budget [of env p d s]
    by (cases "check_budget_pre_start env p d s"; cases "fst (check_budget_pre_start env p d s)")
      (auto simp: dispatch_normal_def dispatch_start_def Let_def status_fits_outcome)
qed

lemma dispatch_status:
  assumes "dispatch env p s = (Inr r, s')"
  shows "status_fits r"
proof (cases rule: dispatch_cases [where env = env and p = p and s = s])
  case 1
  have "fst (resolve_dept env a (maybe_refresh_cache env s)) = None" if "assignee_account_id p = Some a" for a
    using 1(1) that by (simp add: target_def resolve_dept_spec)
  with assms show ?thesis
    by (fastforce simp: dispatch_def status_fits_outcome split: option.splits prod.splits)
next
  case (2 d cfg s1)
  show ?thesis
  proof (cases rule: dispatch_resolved_cases [where cfg = cfg and s = s1 and env = env and p = p and d = d])
    case (Iterate r' s2)
    then have "status_fits r'"
      using status_fits_budget [of env p d s1]
      by (cases "check_budget_pre_start env p d s1"; cases "fst (check_budget_pre_start env p d s1)")
        (auto simp: dispatch_iterate_def status_fits_outcome split: if_splits)
    with Iterate assms 2 show ?thesis by simp
  next
    case Normal
    with assms 2 dispatch_normal_status [of env p d cfg s1 r s'] show ?thesis by simp
  qed (use assms 2 in \<open>auto simp: dispatch_info_def status_fits_outcome\<close>)
qed

lemma dispatch_iteration_started:
  assumes "dispatch env p s = (Inr r, s')" and "action r = ''iteration_started''"
  shows "\<exists>d w q ok. last (temporal_calls s') = StartWorkflow ''IterationWorkflow'' w q (PDict (iteration_input p d)) ok"
proof (cases rule: dispatch_cases [where env = env and p = p and s = s])
  case 1
  with assms show ?thesis by simp
next
  case (2 d cfg s1)
  show ?thesis
  proof (cases rule: dispatch_resolved_cases [where cfg = cfg and s = s1 and env = env and p = p and d = d])
    case (Iterate r' s2)
    with assms 2 dispatch_iterate_started [of env p d cfg s1 r s'] show ?thesis by auto
  next
    case Normal
    obtain y s3 where st: "dispatch_start env p d s1 = (y, s3)" by fastforce
    with assms 2 Normal dispatch_normal_cases [of env p d cfg s1 "Inr r" s'] dispatch_start_cases [OF st]
    show ?thesis by auto
  qed (use assms 2 in \<open>auto simp: dispatch_info_def outcome_def\<close>)
qed

lemma dispatch_raises_calls:
  assumes "dispatch env p s = (Inl e, s')"
  shows "temporal_calls s' = temporal_calls s"
proof (cases rule: dispatch_cases [where env = env and p = p and s = s])
  case 1
  with assms show ?thesis by simp
next
  case (2 d cfg s1)
  with assms dispatch_resolved_calls [of env p d cfg s1 "Inl e" s'] show ?thesis by simp
qed

section \<open>Properties\<close>

text \<open>
  What a dispatch reports is what it asked of Temporal: at most one call is made, of the kind and to
  the workflow id the reported action stands for, and a dispatch that drops, is rejected or raises makes
  none. (Whether the call succeeded is another matter.)
\<close>

theorem dispatch_call_matches_result:
  "case dispatch env p s of
     (Inl _, s') \<Rightarrow> temporal_calls s' = temporal_calls s
   | (Inr r, s') \<Rightarrow>
       \<exists>cs. temporal_calls s' = temporal_calls s @ cs \<and> map call_kind cs = expected_calls env p r"
proof (cases rule: dispatch_cases [where env = env and p = p and s = s])
  case (1 r s')
  then show ?thesis by (simp add: expected_calls_def)
next
  case (2 d cfg s1)
  obtain x s' where "dispatch_resolved env p d cfg s1 = (x, s')" by fastforce
  with 2 dispatch_resolved_calls [of env p d cfg s1 x s'] show ?thesis by (auto split: sum.splits)
qed

text \<open>
  C4. Exactly what a dispatch asks Temporal to start. A start is requested when the assigned account is a bot of a
  department that is not disabled and that has budget left (no policy is wired, or it has caps and every positive cap of
  department and actor is above the production costs of the last 7 and 30 days; a cost query or a denial record that
  fails lets everything pass), and when besides: for a comment with \<open>[iterate]\<close>, its author is the reporter or an
  approver; for anything else, the event is no comment on an issue that awaits information, no comment with \<open>[approve]\<close>
  or \<open>[reject]\<close>, and fewer workflows of the department run than its cap. Then it is one start, of the iteration workflow or
  of the gateway of the issue, and otherwise none, whatever the forwarding of a decision or Temporal answers; whether
  the requested start succeeds is Temporal's answer and changes nothing else.
\<close>

theorem dispatch_starts_iff:
  "requested_starts s (snd (dispatch env p s)) =
   (if \<exists>d cfg. target env p s = Some (d, cfg) \<and> enabled cfg \<and> budget_open env p d s \<and>
         (if comment_mentions p ''[iterate]'' then authorised_author p cfg
          else \<not> (new_comment p \<and> awaits_info env (issue_key p)) \<and>
               \<not> comment_mentions p ''[approve]'' \<and> \<not> comment_mentions p ''[reject]'' \<and> below_cap env d cfg)
    then let (t, w) = (if comment_mentions p ''[iterate]'' then (''IterationWorkflow'', ''iteration-'' @ issue_key p @ ''-'' @ uuid4_hex8 env)
                       else (''AutomationWorkflow'', ''automation-jira-'' @ issue_key p))
         in [(t, w, \<not> start_fails env w)]
    else [])"
proof (cases rule: dispatch_cases [where env = env and p = p and s = s])
  case (1 r s')
  then show ?thesis by simp
next
  case (2 d cfg s')
  then have "within_budget env p d s' = within_budget env p d s" by (simp add: within_budget_def)
  with 2 dispatch_resolved_requests [of s' env p d cfg] requested_starts_from [OF 2(3)] show ?thesis
    by (simp add: comment_is_iff is_iterate_authorized_iff is_needs_info_iff under_cap_iff within_budget_iff gateway_id_def)
qed

text \<open>
  While the gateway workflow of an issue runs, a decision comment does not reach the approval gate:
  it is delivered to the gateway as \<open>info_received\<close>, and nothing is sent to the child that waits for
  \<open>approval_received\<close>.
\<close>

theorem running_gateway_takes_decision:
  assumes "target env p s = Some (d, cfg)" and "enabled cfg" and "is_comment_created (event_type p)"
    and "comment_body p = Some b" and "\<not> is_iterate_command b" and "is_gateway_running env (issue_key p)"
  shows "\<exists>s'. dispatch env p s = (Inr (outcome ''signaled'' None None (Some d)), s') \<and>
    temporal_calls s' = temporal_calls s @
      [SignalWorkflow (gateway_id (issue_key p)) ''info_received'' (PStr b) (\<not> signal_fails env (gateway_id (issue_key p)))]"
proof (cases rule: dispatch_cases [where env = env and p = p and s = s])
  case 1
  with assms show ?thesis by simp
next
  case (2 d' cfg' s')
  with assms show ?thesis
    by (simp add: dispatch_resolved_def disabled_iff comment_is_def is_needs_info_def dispatch_info_def
        signal_workflow_def call_temporal_def opt_str_def)
qed

definition demo_env :: dispatch_env where
  "demo_env = \<lparr>bots = [\<lparr>br_account_id = Some ''bot-1'', br_department_id = ''dev'', br_service = ''jira'',
       br_credential_ref = Some ''ref''\<rparr>],
     departments = [\<lparr>dr_id = ''dev'', dr_mode = ''active'',
       dr_config_json = PDict [(''approvers'', PList [PStr ''lead-1'']), (''max_concurrent_workflows'', PInt 2)],
       dr_web_search_enabled = False\<rparr>],
     ssh_assignments = [], ssh_runners = [], work_items = [], environ = [], cost_rows = [], loads = (\<lambda>_. None),
     describe = (\<lambda>w. if w = ''automation-jira-A-1'' then StatusNamed ''RUNNING'' else DescribeRaises),
     visibility = (\<lambda>_. None), signal_fails = (\<lambda>_. False), start_fails = (\<lambda>_. False), refresh_fails = False,
     resolve_fails = False, config_fails = False, capabilities_fail = False, needs_info_fails = False,
     count_fails = False, usage_fails = False, budget_audit_fails = False, monotonic = seconds 1000, utc_now = 0,
     uuid4 = ''trace-1'', uuid4_hex8 = ''0a1b2c3d''\<rparr>"

definition demo_dispatcher :: dispatcher where
  "demo_dispatcher = \<lparr>has_audit_logger = True, has_commenter = True, budget_policy = None, bot_identity_cache = [],
     dept_config_cache = [], last_cache_refresh = 0, audit_events = [], temporal_calls = [], jira_comments = []\<rparr>"

definition demo_comment :: "pystr \<Rightarrow> pystr \<Rightarrow> WebhookPayload" where
  "demo_comment k b = \<lparr>actor_account_id = Some ''lead-1'', issue_key = k, event_type = ''jira:comment_created'',
     comment_body = Some b, assignee_account_id = Some ''bot-1'', reporter_account_id = Some ''rep-1'', dept_id = None,
     trace_id = None\<rparr>"

theorem running_gateway_takes_decision_witness:
  "\<exists>s'. dispatch demo_env (demo_comment ''A-1'' ''[approve]'') demo_dispatcher =
          (Inr (outcome ''signaled'' None None (Some ''dev'')), s') \<and>
        map call_kind (temporal_calls s') = [(''info_received'', ''automation-jira-A-1'')]"
proof -
  let ?p = "demo_comment ''A-1'' ''[approve]''"
  let ?cfg = "Some \<lparr>dc_dept_id = ''dev'', dc_mode = ''active'', dc_approvers = [''lead-1''],
                dc_max_concurrent_workflows = Some 2\<rparr>"
  have t: "target demo_env ?p demo_dispatcher = Some (''dev'', ?cfg)" by code_simp
  have "enabled ?cfg" and "is_comment_created (event_type ?p)" and "comment_body ?p = Some ''[approve]''"
    and "\<not> is_iterate_command ''[approve]''" and "is_gateway_running demo_env (issue_key ?p)"
    by (simp_all add: enabled_def demo_comment_def is_comment_created_def is_iterate_command_def lower_def lower_char_def
        char_range_def starts_with_def is_gateway_running_def demo_env_def gateway_id_def)
  note running_gateway_takes_decision [OF t this]
  then show ?thesis by (auto simp: demo_comment_def demo_dispatcher_def gateway_id_def)
qed

text \<open>
  A start that fails is reported and audited like one that succeeded: when Temporal refuses the
  start, the dispatch still answers \<open>workflow_started\<close> and the audit row of the event says \<open>ok\<close>.
\<close>

theorem failed_start_audited_ok:
  assumes "dispatch env p s = (Inr r, s')" and "action r = ''workflow_started''"
    and "start_fails env (gateway_id (issue_key p))" and "has_audit_logger s"
  shows "(\<exists>q inp. last (temporal_calls s') = StartWorkflow WORKFLOW_NAME (gateway_id (issue_key p)) q inp False) \<and>
         ae_action (last (audit_events s')) = ''dispatch_workflow_started'' \<and>
         ae_result (last (audit_events s')) = ''ok''"
proof (cases rule: dispatch_cases [where env = env and p = p and s = s])
  case 1
  with assms show ?thesis by simp
next
  case (2 d cfg s1)
  with assms(1,2) have n: "dispatch_normal env p d cfg s1 = (Inr r, s')"
    by (cases rule: dispatch_resolved_cases [where cfg = cfg and s = s1 and env = env and p = p and d = d])
      (auto simp: outcome_def dispatch_info_def dest: dispatch_iterate_cases)
  with assms(2) have st: "dispatch_start env p d s1 = (r, s')"
    using dispatch_normal_cases [OF n] by (cases "dispatch_start env p d s1") auto
  obtain x s2 where b: "check_budget_pre_start env p d s1 = (x, s2)" by fastforce
  with st assms(2) have "x = None"
    using check_budget_pre_start_status [of env p d s1] by (cases x) (auto simp: dispatch_start_def)
  moreover have "has_audit_logger s2" using check_budget_pre_start_audits [OF b] 2 assms(4) by simp
  moreover have "audit_ok ''dispatch_workflow_started''" by code_simp
  ultimately show ?thesis
    using st b assms(3)
    by (auto simp: dispatch_start_def start_workflow_def call_temporal_def audit_def Let_def)
qed

theorem failed_start_audited_ok_witness:
  "ae_result (last (audit_events (snd (dispatch (demo_env\<lparr>start_fails := \<lambda>_. True\<rparr>) (demo_comment ''B-2'' ''hello'')
     demo_dispatcher)))) = ''ok''"
proof -
  obtain r s' where d: "dispatch (demo_env\<lparr>start_fails := \<lambda>_. True\<rparr>) (demo_comment ''B-2'' ''hello'') demo_dispatcher =
      (Inr r, s') \<and> action r = ''workflow_started''"
  proof -
    have "case dispatch (demo_env\<lparr>start_fails := \<lambda>_. True\<rparr>) (demo_comment ''B-2'' ''hello'') demo_dispatcher of
        (Inl _, _) \<Rightarrow> False | (Inr r, _) \<Rightarrow> action r = ''workflow_started''" by code_simp
    then show ?thesis using that by (auto split: prod.splits sum.splits)
  qed
  have "has_audit_logger demo_dispatcher" by (simp add: demo_dispatcher_def)
  with d failed_start_audited_ok [of "demo_env\<lparr>start_fails := \<lambda>_. True\<rparr>" "demo_comment ''B-2'' ''hello''" demo_dispatcher r s']
  show ?thesis by simp
qed

text \<open>
  The monotonic clock starts with the machine: in its first five minutes an invalidated cache is not
  refreshed, since invalidation resets the time of the last refresh to zero.
\<close>

lemma invalidation_before_first_interval:
  assumes "monotonic env < CACHE_REFRESH_INTERVAL"
  shows "maybe_refresh_cache env (invalidate_cache s) = invalidate_cache s"
  using assms by (simp add: maybe_refresh_cache_def invalidate_cache_def)

end
