(* ===== verification/Webhook_Pipeline.thy ===== *)
theory Webhook_Pipeline
  imports Webhook_Dispatcher Replay_Dedup
begin

text \<open>
  \<^verbatim>\<open>services/automation-service/src/webhooks/pipeline.py\<close>: the chain of deduplication, loop guard and
  dispatcher behind the Jira webhook endpoint, composed of the three components' own models. The state
  is that of the three stages; the answers of the outside world during one request are the record
  \<open>pipeline_env\<close>. JSON values at positions annotated as strings are strings or absent; SHA-256, \<open>repr\<close>
  and \<open>json.loads\<close> are parameters and nothing is assumed of them.
\<close>

section \<open>Data\<close>

datatype StageAction =
    PASS | DROP | SIGNALED | WORKFLOW_STARTED | ITERATION_STARTED | BUDGET_EXCEEDED
  | BUDGET_CONFIGURATION_ERROR | APPROVAL_FORWARDED

record PipelinePayload =
  pl_event_id :: "pystr option"
  pl_event_type :: pystr
  pl_issue_key :: pystr
  pl_actor_account_id :: "pystr option"
  pl_assignee_account_id :: "pystr option"
  pl_reporter_account_id :: "pystr option"
  pl_comment_body :: "pystr option"
  pl_trace_id :: "pystr option"
  pl_raw_payload :: "pyval pydict"
  pl_headers :: "pystr pydict"

record stage_metadata =
  md_dept_id :: "pystr option"
  md_status_code :: "int option"
  md_body :: "response_body option"

record stage_result =
  sr_action :: StageAction
  sr_reason :: "pystr option"
  sr_trace_id :: "pystr option"
  sr_metadata :: stage_metadata

record PipelineResult =
  final_action :: StageAction
  stage_results :: "(pystr \<times> stage_result) list"
  stopped_at :: "pystr option" \<comment> \<open>\<open>dropped_at\<close>\<close>
  pr_trace_id :: "pystr option"

record pipeline_state =
  dedup_rows :: dedup_table
  guard_state :: guard
  dispatcher_state :: dispatcher

record pipeline_env =
  pe_now :: datetime
  pe_dedup_faults :: dedup_faults
  pe_guard_faults :: db_faults
  pe_dispatch :: dispatch_env

type_synonym stage = "pystr \<times> (PipelinePayload \<Rightarrow> pipeline_state \<Rightarrow> (pystr + stage_result) \<times> pipeline_state)"

definition no_metadata :: stage_metadata where
  "no_metadata = \<lparr>md_dept_id = None, md_status_code = None, md_body = None\<rparr>"

definition plain_result :: "StageAction \<Rightarrow> pystr option \<Rightarrow> stage_result" where
  "plain_result act why = \<lparr>sr_action = act, sr_reason = why, sr_trace_id = None, sr_metadata = no_metadata\<rparr>"

section \<open>The payload\<close>

definition derive_pipeline_event_id :: "(pystr \<Rightarrow> pystr) \<Rightarrow> (pyval \<Rightarrow> pystr) \<Rightarrow> pyval pydict \<Rightarrow> pystr" where
  "derive_pipeline_event_id sha repr payload =
     (let get = (\<lambda>d k. case dict_get d k of None \<Rightarrow> PStr [] | Some v \<Rightarrow> v);
          issue_id = (case dict_get payload ''issue'' of
                        Some (PDict d) \<Rightarrow> py_str repr (get d ''id'')
                      | _ \<Rightarrow> [])
      in sha (py_str repr (get payload ''webhookEvent'') @ '':'' @ py_str repr (get payload ''timestamp'') @ '':'' @ issue_id))"

definition sub_dict :: "pyval pydict \<Rightarrow> pystr \<Rightarrow> pyval pydict" where
  \<comment> \<open>the dictionary at a key; empty when there is none, which all lookups below treat alike\<close>
  "sub_dict d k = (case get_or_none d k of PDict x \<Rightarrow> x | _ \<Rightarrow> [])"

definition extract_webhook_payload ::
  "(pystr \<Rightarrow> pystr) \<Rightarrow> (pyval \<Rightarrow> pystr) \<Rightarrow> pyval pydict \<Rightarrow> pystr pydict \<Rightarrow> PipelinePayload" where
  "extract_webhook_payload sha repr raw hs =
     (let issue = sub_dict raw ''issue''; fs = sub_dict issue ''fields''
      in \<lparr>pl_event_id =
            (case dict_get hs ''x-atlassian-webhook-identifier'' of
               Some (c # cs) \<Rightarrow> Some (c # cs)
             | _ \<Rightarrow> Some (derive_pipeline_event_id sha repr raw)),
          pl_event_type = or_empty (as_str (get_or_none raw ''webhookEvent'')),
          pl_issue_key = or_empty (as_str (get_or_none issue ''key'')),
          pl_actor_account_id = as_str (get_or_none (sub_dict raw ''user'') ''accountId''),
          pl_assignee_account_id = as_str (get_or_none (sub_dict fs ''assignee'') ''accountId''),
          pl_reporter_account_id = as_str (get_or_none (sub_dict fs ''reporter'') ''accountId''),
          pl_comment_body = as_str (get_or_none (sub_dict raw ''comment'') ''body''),
          pl_trace_id = dict_get hs ''x-trace-id'',
          pl_raw_payload = raw, pl_headers = hs\<rparr>)"

section \<open>Stages\<close>

definition dedup_payload_of :: "PipelinePayload \<Rightarrow> dedup_payload" where
  "dedup_payload_of p = \<lparr>headers = pl_headers p, body = pl_raw_payload p\<rparr>"

definition dedup_check ::
  "(pystr \<Rightarrow> pystr) \<Rightarrow> (pyval \<Rightarrow> pystr) \<Rightarrow> pipeline_env \<Rightarrow> PipelinePayload \<Rightarrow> pipeline_state \<Rightarrow>
     (pystr + stage_result) \<times> pipeline_state" where
  "dedup_check sha repr env p st =
     (let (r, t) = Replay_Dedup.check sha repr (pe_dedup_faults env) (pe_now env) (dedup_payload_of p) (dedup_rows st)
      in (Inr (case r of Duplicate \<Rightarrow> plain_result DROP (Some ''duplicate'') | Continue \<Rightarrow> plain_result PASS None),
          st\<lparr>dedup_rows := t\<rparr>))"

definition loop_guard_payload :: "PipelinePayload \<Rightarrow> WebhookPayload" where
  "loop_guard_payload p =
     \<lparr>actor_account_id = pl_actor_account_id p, issue_key = pl_issue_key p, event_type = pl_event_type p,
      comment_body = pl_comment_body p, assignee_account_id = pl_assignee_account_id p,
      reporter_account_id = pl_reporter_account_id p, dept_id = None, trace_id = pl_trace_id p\<rparr>"

definition loop_guard_check ::
  "pipeline_env \<Rightarrow> PipelinePayload \<Rightarrow> pipeline_state \<Rightarrow> (pystr + stage_result) \<times> pipeline_state" where
  "loop_guard_check env p st =
     (let (r, g) = Loop_Guard.check (pe_guard_faults env) (pe_now env) (loop_guard_payload p) (guard_state st)
      in (Inr (case r of
                 StageDrop why \<Rightarrow> plain_result DROP (Some (if why = [] then ''loop_guard'' else why))
               | StagePass \<Rightarrow> plain_result PASS None),
          st\<lparr>guard_state := g\<rparr>))"

definition action_map :: "StageAction pydict" where
  "action_map =
     [(''drop'', DROP), (''signaled'', SIGNALED), (''workflow_started'', WORKFLOW_STARTED),
      (''iteration_started'', ITERATION_STARTED), (''approval_forwarded'', APPROVAL_FORWARDED),
      (''budget_exceeded'', BUDGET_EXCEEDED), (''budget_configuration_error'', BUDGET_CONFIGURATION_ERROR),
      (''pass'', PASS)]"

definition dispatcher_result :: "DispatchResult \<Rightarrow> stage_result" where
  "dispatcher_result r =
     \<lparr>sr_action = (case dict_get action_map (action r) of None \<Rightarrow> DROP | Some a \<Rightarrow> a),
      sr_reason = reason r, sr_trace_id = result_trace_id r,
      sr_metadata =
        \<lparr>md_dept_id = (if nonempty (result_dept_id r) then result_dept_id r else None),
         md_status_code = status_code r, md_body = DispatchResult.body r\<rparr>\<rparr>"

definition dispatcher_check ::
  "pipeline_env \<Rightarrow> PipelinePayload \<Rightarrow> pipeline_state \<Rightarrow> (pystr + stage_result) \<times> pipeline_state" where
  "dispatcher_check env p st =
     (let (x, s) = dispatch (pe_dispatch env) (loop_guard_payload p) (dispatcher_state st)
      in (case x of Inl e \<Rightarrow> Inl e | Inr r \<Rightarrow> Inr (dispatcher_result r), st\<lparr>dispatcher_state := s\<rparr>))"

definition build_webhook_pipeline ::
  "(pystr \<Rightarrow> pystr) \<Rightarrow> (pyval \<Rightarrow> pystr) \<Rightarrow> pipeline_env \<Rightarrow> stage list" where
  "build_webhook_pipeline sha repr env =
     [(''dedup'', dedup_check sha repr env), (''loop_guard'', loop_guard_check env), (''dispatcher'', dispatcher_check env)]"

section \<open>The run\<close>

definition stage_error :: "pystr \<Rightarrow> stage_result" where
  "stage_error e = plain_result PASS (Some (''stage_error: '' @ e))"

fun run_stages ::
  "PipelinePayload \<Rightarrow> stage list \<Rightarrow> (pystr \<times> stage_result) list \<Rightarrow> pystr option \<Rightarrow> pipeline_state \<Rightarrow>
     PipelineResult \<times> pipeline_state" where
  "run_stages p [] results trace st =
     (\<lparr>final_action = (if results = [] then PASS else sr_action (snd (List.last results))), stage_results = results,
       stopped_at = None, pr_trace_id = trace\<rparr>, st)"
| "run_stages p ((name, check_stage) # stages) results trace st =
     (let (x, st) = check_stage p st;
          r = (case x of Inr r \<Rightarrow> r | Inl e \<Rightarrow> stage_error e);
          trace = (if nonempty (sr_trace_id r) then sr_trace_id r else trace);
          results = results @ [(name, r)]
      in if sr_action r \<noteq> PASS
         then (\<lparr>final_action = sr_action r, stage_results = results, stopped_at = Some name, pr_trace_id = trace\<rparr>, st)
         else run_stages p stages results trace st)"

definition process :: "stage list \<Rightarrow> PipelinePayload \<Rightarrow> pipeline_state \<Rightarrow> PipelineResult \<times> pipeline_state" where
  "process stages p st = run_stages p stages [] (pl_trace_id p) st"

section \<open>The endpoint\<close>

datatype response_content =
    ErrorContent pystr "pystr option"
  | ResultContent StageAction "pystr option" "pystr option" "pystr option" stage_metadata
      \<comment> \<open>status, \<open>dropped_at\<close>, \<open>trace_id\<close>, \<open>reason\<close> and the merged metadata\<close>
  | BodyContent response_body

record http_response =
  http_status :: int
  content :: response_content

definition truthy_opt :: "pystr option \<Rightarrow> pystr option" where
  "truthy_opt x = (if nonempty x then x else None)"

definition respond :: "PipelineResult \<Rightarrow> http_response" where
  "respond res =
     (let last_result = (if stage_results res = [] then None else Some (snd (List.last (stage_results res))));
          last_reason = (case last_result of None \<Rightarrow> None | Some r \<Rightarrow> truthy_opt (sr_reason r));
          meta = (case last_result of None \<Rightarrow> no_metadata | Some r \<Rightarrow> sr_metadata r);
          code = (if last_reason = Some ''concurrency_limit_exceeded'' then 429
                  else case md_status_code meta of Some c \<Rightarrow> c | None \<Rightarrow> 200)
      in case md_body meta of
           Some b \<Rightarrow> \<lparr>http_status = code, content = BodyContent b\<rparr>
         | None \<Rightarrow>
             \<lparr>http_status = code,
              content = ResultContent (final_action res) (truthy_opt (stopped_at res)) (truthy_opt (pr_trace_id res))
                last_reason meta\<rparr>)"

definition post_jira_webhook_pipeline ::
  "(pystr \<Rightarrow> pystr) \<Rightarrow> (pyval \<Rightarrow> pystr) \<Rightarrow> (pystr \<Rightarrow> pyval option) \<Rightarrow> stage list option \<Rightarrow> pystr \<Rightarrow> pystr pydict \<Rightarrow>
     pipeline_state \<Rightarrow> http_response \<times> pipeline_state" where
  "post_jira_webhook_pipeline sha repr json_loads pipeline raw_body request_headers st =
     (let bad = (\<lambda>why. (\<lparr>http_status = 400, content = ErrorContent ''bad_request'' (Some why)\<rparr>, st))
      in case pipeline of
           None \<Rightarrow> (\<lparr>http_status = 503, content = ErrorContent ''pipeline_not_configured'' None\<rparr>, st)
         | Some stages \<Rightarrow>
             (case json_loads (if raw_body = [] then ''{}'' else raw_body) of
                None \<Rightarrow> bad ''invalid_json''
              | Some (PDict decoded) \<Rightarrow>
                  let hs = foldl (\<lambda>d (k, v). dict_set (lower k) v d) [] request_headers;
                      p = extract_webhook_payload sha repr decoded hs
                  in if pl_event_type p = [] then bad ''missing_event_type''
                     else if pl_issue_key p = [] then bad ''missing_issue_key''
                     else (let (res, st) = process stages p st in (respond res, st))
              | Some _ \<Rightarrow> bad ''payload_not_object''))"

section \<open>What a stage leaves alone\<close>

text \<open>
  The pipeline relies on each stage changing its own state only. A view that every stage of a list
  keeps is kept by the run of the list, wherever the run stops.
\<close>

locale pipeline_frame =
  fixes stages :: "stage list"
    and view :: "pipeline_state \<Rightarrow> 'v"
  assumes stage_keeps: "(n, c) \<in> set stages \<Longrightarrow> view (snd (c p st)) = view st"
begin

lemma run_keeps: "set ss \<subseteq> set stages \<Longrightarrow> view (snd (run_stages p ss results trace st)) = view st"
proof (induction ss arbitrary: results trace st)
  case Nil
  then show ?case by simp
next
  case (Cons x ss)
  obtain n c where x: "x = (n, c)" by fastforce
  obtain y st' where c: "c p st = (y, st')" by fastforce
  have "view st' = view st" using stage_keeps [of n c p st] Cons.prems x c by simp
  with Cons x c show ?case by (auto simp: Let_def)
qed

end

lemma dedup_check_frame:
  "guard_state (snd (dedup_check sha repr env p st)) = guard_state st"
  "dispatcher_state (snd (dedup_check sha repr env p st)) = dispatcher_state st"
  by (simp_all add: dedup_check_def split_beta)

lemma loop_guard_check_frame:
  "dedup_rows (snd (loop_guard_check env p st)) = dedup_rows st"
  "dispatcher_state (snd (loop_guard_check env p st)) = dispatcher_state st"
  by (simp_all add: loop_guard_check_def split_beta)

lemma dispatcher_check_frame:
  "dedup_rows (snd (dispatcher_check env p st)) = dedup_rows st"
  "guard_state (snd (dispatcher_check env p st)) = guard_state st"
  by (simp_all add: dispatcher_check_def split_beta)

interpretation behind_dedup:
  pipeline_frame "[(''loop_guard'', loop_guard_check env), (''dispatcher'', dispatcher_check env)]" dedup_rows
  for env
  by unfold_locales (auto simp: loop_guard_check_frame dispatcher_check_frame)

interpretation behind_guard: pipeline_frame "[(''dispatcher'', dispatcher_check env)]" "\<lambda>st. (dedup_rows st, guard_state st)"
  for env
  by unfold_locales (auto simp: dispatcher_check_frame)

interpretation before_dispatch:
  pipeline_frame "[(''dedup'', dedup_check sha repr env), (''loop_guard'', loop_guard_check env)]" dispatcher_state
  for sha repr env
  by unfold_locales (auto simp: loop_guard_check_frame dedup_check_frame)

section \<open>Lemmas\<close>

definition dedup_outcome ::
  "(pystr \<Rightarrow> pystr) \<Rightarrow> (pyval \<Rightarrow> pystr) \<Rightarrow> pipeline_env \<Rightarrow> PipelinePayload \<Rightarrow> pipeline_state \<Rightarrow> dedup_result \<times> dedup_table" where
  "dedup_outcome sha repr env p st =
     Replay_Dedup.check sha repr (pe_dedup_faults env) (pe_now env) (dedup_payload_of p) (dedup_rows st)"

definition guard_outcome :: "pipeline_env \<Rightarrow> PipelinePayload \<Rightarrow> pipeline_state \<Rightarrow> StageResult \<times> guard" where
  "guard_outcome env p st =
     Loop_Guard.check (pe_guard_faults env) (pe_now env) (loop_guard_payload p) (guard_state st)"

lemma process_duplicate:
  assumes "fst (dedup_outcome sha repr env p st) = Duplicate"
  shows "process (build_webhook_pipeline sha repr env) p st =
    (\<lparr>final_action = DROP, stage_results = [(''dedup'', plain_result DROP (Some ''duplicate''))],
      stopped_at = Some ''dedup'', pr_trace_id = pl_trace_id p\<rparr>,
     st\<lparr>dedup_rows := snd (dedup_outcome sha repr env p st)\<rparr>)"
  using assms
  by (simp add: process_def build_webhook_pipeline_def dedup_check_def dedup_outcome_def split_beta plain_result_def
      nonempty_def)

lemma process_guard_drop:
  assumes "fst (dedup_outcome sha repr env p st) = Continue" and "guard_outcome env p st = (StageDrop why, g)"
  shows "\<exists>res. process (build_webhook_pipeline sha repr env) p st =
    (res, st\<lparr>dedup_rows := snd (dedup_outcome sha repr env p st), guard_state := g\<rparr>) \<and>
    final_action res = DROP \<and> stopped_at res = Some ''loop_guard''"
  using assms
  by (simp add: process_def build_webhook_pipeline_def dedup_check_def dedup_outcome_def loop_guard_check_def
      guard_outcome_def split_beta plain_result_def nonempty_def)

lemma process_dispatched:
  assumes "fst (dedup_outcome sha repr env p st) = Continue" and "guard_outcome env p st = (StagePass, g)"
    and "dispatch (pe_dispatch env) (loop_guard_payload p) (dispatcher_state st) = (x, s)"
    and "r = (case x of Inl e \<Rightarrow> stage_error e | Inr r \<Rightarrow> dispatcher_result r)"
  shows "process (build_webhook_pipeline sha repr env) p st =
    (\<lparr>final_action = sr_action r,
      stage_results = [(''dedup'', plain_result PASS None), (''loop_guard'', plain_result PASS None), (''dispatcher'', r)],
      stopped_at = (if sr_action r = PASS then None else Some ''dispatcher''),
      pr_trace_id = (if nonempty (sr_trace_id r) then sr_trace_id r else pl_trace_id p)\<rparr>,
     st\<lparr>dedup_rows := snd (dedup_outcome sha repr env p st), guard_state := g, dispatcher_state := s\<rparr>)"
  using assms
  by (cases x) (simp_all add: process_def build_webhook_pipeline_def dedup_check_def dedup_outcome_def loop_guard_check_def
      guard_outcome_def dispatcher_check_def split_beta plain_result_def nonempty_def stage_error_def Let_def)

lemma process_dedup_rows:
  "dedup_rows (snd (process (build_webhook_pipeline sha repr env) p st)) = snd (dedup_outcome sha repr env p st)"
proof (cases "fst (dedup_outcome sha repr env p st)")
  case Duplicate
  then show ?thesis by (simp add: process_duplicate)
next
  case Continue
  have "process (build_webhook_pipeline sha repr env) p st =
      run_stages p [(''loop_guard'', loop_guard_check env), (''dispatcher'', dispatcher_check env)]
        [(''dedup'', plain_result PASS None)] (pl_trace_id p) (st\<lparr>dedup_rows := snd (dedup_outcome sha repr env p st)\<rparr>)"
    using Continue
    by (simp add: process_def build_webhook_pipeline_def dedup_check_def dedup_outcome_def split_beta plain_result_def
        nonempty_def)
  then show ?thesis by (simp only: behind_dedup.run_keeps [OF subset_refl]) simp
qed

section \<open>Sequences of requests\<close>

datatype pipeline_op =
    Serve pipeline_env PipelinePayload \<comment> \<open>a request\<close>
  | Purge datetime \<comment> \<open>a run of the hourly clean-up of the deduplication table\<close>

fun pipeline_step ::
  "(pystr \<Rightarrow> pystr) \<Rightarrow> (pyval \<Rightarrow> pystr) \<Rightarrow> pipeline_state \<Rightarrow> pipeline_op \<Rightarrow> pipeline_state" where
  "pipeline_step sha repr st (Serve env p) = snd (process (build_webhook_pipeline sha repr env) p st)"
| "pipeline_step sha repr st (Purge now) = st\<lparr>dedup_rows := snd (cleanup_expired now (dedup_rows st))\<rparr>"

fun dedup_view :: "pipeline_op \<Rightarrow> dedup_op" where
  "dedup_view (Serve env p) = Check (pe_dedup_faults env) (pe_now env) (dedup_payload_of p)"
| "dedup_view (Purge now) = Cleanup now"

abbreviation pipeline_op_time :: "pipeline_op \<Rightarrow> datetime" where
  "pipeline_op_time x \<equiv> op_time (dedup_view x)"

text \<open>The deduplication table of the pipeline is driven by the first stage and the clean-up alone.\<close>

lemma pipeline_dedup_refines:
  "dedup_rows (run_ops (pipeline_step sha repr) st xs) =
   run_ops (dedup_step sha repr) (dedup_rows st) (map dedup_view xs)"
proof (induction xs arbitrary: st)
  case (Cons x xs)
  then show ?case by (cases x) (simp_all add: process_dedup_rows dedup_outcome_def)
qed simp

lemma redelivery_keeps_state:
  assumes "dict_get (dedup_rows st) (derive_event_id sha repr (dedup_payload_of p)) = Some r"
    and "pe_dedup_faults env = no_db_faults" and "pe_now env < expires_at r"
  shows "\<exists>res. process (build_webhook_pipeline sha repr env) p st = (res, st) \<and> final_action res = DROP \<and>
               stopped_at res = Some ''dedup''"
proof -
  have "dedup_outcome sha repr env p st = (Duplicate, dedup_rows st)"
    using assms by (simp add: dedup_outcome_def check_live_row)
  then show ?thesis by (simp add: process_duplicate)
qed

lemma first_delivery_is_recorded:
  assumes "dict_get (dedup_rows st) (derive_event_id sha repr (dedup_payload_of p)) = None"
    and "pe_dedup_faults env = no_db_faults"
    and "list_all (\<lambda>x. pipeline_op_time x \<le> pe_now env + TTL) xs"
  shows "\<exists>r. dict_get (dedup_rows (run_ops (pipeline_step sha repr) st (Serve env p # xs)))
               (derive_event_id sha repr (dedup_payload_of p)) = Some r \<and> expires_at r = pe_now env + TTL"
proof -
  obtain r where r: "dict_get (snd (dedup_outcome sha repr env p st)) (derive_event_id sha repr (dedup_payload_of p)) = Some r"
    and e: "expires_at r = pe_now env + TTL"
    using check_records_row [OF assms(1)] assms(2) by (auto simp: dedup_outcome_def)
  have "list_all (\<lambda>x. op_time x \<le> expires_at r) (map dedup_view xs)"
    using assms(3) e by (simp add: list_all_iff)
  from dedup_run_keeps_row [OF r this] e show ?thesis
    by (simp add: pipeline_dedup_refines process_dedup_rows)
qed

section \<open>Properties\<close>

text \<open>
  C10. End to end, one event is acted upon once while the deduplication table can be read and written: when no row of
  the event id is present and neither the look-up nor the insertion of the two deliveries fails, then after a first
  delivery through the whole pipeline a redelivery with the same event id less than 24 hours later is dropped by the
  first stage and changes neither the table nor the loop guard nor the dispatcher. In between the pipeline may have
  served any other requests, with any failures, and the clean-up may have run any number of times, none of it later
  than 24 hours after the first delivery. (A look-up or insertion that fails lets its delivery pass, and an expired
  row that is still present is never renewed.)
\<close>

theorem redelivery_is_dropped:
  assumes "dict_get (dedup_rows st) (derive_event_id sha repr (dedup_payload_of p)) = None"
    and "pe_dedup_faults env = no_db_faults" and "pe_dedup_faults env' = no_db_faults"
    and "list_all (\<lambda>x. pipeline_op_time x \<le> pe_now env + TTL) xs" and "pe_now env' < pe_now env + TTL"
    and "derive_event_id sha repr (dedup_payload_of p') = derive_event_id sha repr (dedup_payload_of p)"
    and "st' = run_ops (pipeline_step sha repr) st (Serve env p # xs)"
  shows "\<exists>res. process (build_webhook_pipeline sha repr env') p' st' = (res, st') \<and> final_action res = DROP \<and>
               stopped_at res = Some ''dedup''"
proof -
  obtain r where "dict_get (dedup_rows st') (derive_event_id sha repr (dedup_payload_of p)) = Some r"
    and "expires_at r = pe_now env + TTL"
    using first_delivery_is_recorded [OF assms(1,2,4)] assms(7) by blast
  with redelivery_keeps_state [of st' sha repr p' r env'] assms(3,5,6) show ?thesis by simp
qed

definition demo_pipeline_env :: "datetime \<Rightarrow> pipeline_env" where
  "demo_pipeline_env t = \<lparr>pe_now = t, pe_dedup_faults = no_db_faults, pe_guard_faults = healthy, pe_dispatch = demo_env\<rparr>"

definition demo_state :: pipeline_state where
  "demo_state = \<lparr>dedup_rows = [], guard_state = demo_guard, dispatcher_state = demo_dispatcher\<rparr>"

definition demo_webhook :: "pystr \<Rightarrow> PipelinePayload" where
  "demo_webhook actor = \<lparr>pl_event_id = Some ''w1'', pl_event_type = ''jira:issue_updated'', pl_issue_key = ''B-2'',
     pl_actor_account_id = Some actor, pl_assignee_account_id = Some ''bot-1'', pl_reporter_account_id = None,
     pl_comment_body = None, pl_trace_id = None, pl_raw_payload = [],
     pl_headers = [(''x-atlassian-webhook-identifier'', ''w1'')]\<rparr>"

theorem redelivery_is_dropped_witness:
  "\<exists>res. process (build_webhook_pipeline (\<lambda>s. s) (\<lambda>_. []) (demo_pipeline_env (hours 3))) (demo_webhook ''u'')
     (run_ops (pipeline_step (\<lambda>s. s) (\<lambda>_. [])) demo_state [Serve (demo_pipeline_env 0) (demo_webhook ''u''), Purge (hours 2)]) =
     (res, run_ops (pipeline_step (\<lambda>s. s) (\<lambda>_. [])) demo_state [Serve (demo_pipeline_env 0) (demo_webhook ''u''), Purge (hours 2)]) \<and>
   stopped_at res = Some ''dedup''"
  using redelivery_is_dropped [of demo_state "\<lambda>s. s" "\<lambda>_. []" "demo_webhook ''u''" "demo_pipeline_env 0"
      "demo_pipeline_env (hours 3)" "[Purge (hours 2)]" "demo_webhook ''u''"]
  by (auto simp: demo_state_def demo_pipeline_env_def)

text \<open>
  The dispatcher sees an event exactly when the first two stages let it pass; in particular an event
  whose actor is a bot by the ids in force, and that is not an exempt approval comment, is dropped and
  makes no call to Temporal, starts no workflow and posts no comment.
\<close>

theorem bot_event_never_dispatched:
  assumes "is_self_actor (pl_actor_account_id p) (fst (get_bot_ids (pe_guard_faults env) (pe_now env) (guard_state st)))"
    and "\<not> is_approval_gate_exempt (loop_guard_payload p)"
    and "process (build_webhook_pipeline sha repr env) p st = (res, st')"
  shows "final_action res = DROP \<and> dispatcher_state st' = dispatcher_state st"
proof (cases "fst (dedup_outcome sha repr env p st)")
  case Duplicate
  with assms(3) show ?thesis by (auto simp: process_duplicate)
next
  case Continue
  obtain x g where g: "guard_outcome env p st = (x, g)" by fastforce
  with assms(1,2) have "x \<noteq> StagePass"
    by (auto simp: guard_outcome_def Loop_Guard.check_def loop_guard_payload_def split: prod.splits if_splits)
  then obtain why where "x = StageDrop why" by (cases x) auto
  with process_guard_drop [OF Continue, of why g] g assms(3) show ?thesis by auto
qed

theorem bot_event_never_dispatched_witness:
  "final_action (fst (process (build_webhook_pipeline (\<lambda>s. s) (\<lambda>_. []) (demo_pipeline_env 0)) (demo_webhook ''bot-1'') demo_state)) = DROP"
proof -
  have "is_self_actor (pl_actor_account_id (demo_webhook ''bot-1''))
          (fst (get_bot_ids (pe_guard_faults (demo_pipeline_env 0)) (pe_now (demo_pipeline_env 0)) (guard_state demo_state)))"
    by (simp add: demo_webhook_def demo_pipeline_env_def demo_state_def demo_guard_def is_self_actor_def get_bot_ids_def
        fetch_bot_ids_from_db_def healthy_def Let_def)
  moreover have "\<not> is_approval_gate_exempt (loop_guard_payload (demo_webhook ''bot-1''))"
    by (simp add: is_approval_gate_exempt_def loop_guard_payload_def demo_webhook_def)
  ultimately show ?thesis
    using bot_event_never_dispatched [of "demo_webhook ''bot-1''" "demo_pipeline_env 0" demo_state "\<lambda>s. s" "\<lambda>_. []"]
    by (metis surjective_pairing)
qed

text \<open>
  An event whose dispatch raises is lost: the endpoint reports \<open>pass\<close> with HTTP 200, no workflow
  is started or signalled, and a redelivery within 24 hours is dropped as a duplicate.
\<close>

theorem raising_dispatch_loses_event:
  assumes "dict_get (dedup_rows st) (derive_event_id sha repr (dedup_payload_of p)) = None"
    and "pe_dedup_faults env = no_db_faults" and "guard_outcome env p st = (StagePass, g)"
    and "dispatch (pe_dispatch env) (loop_guard_payload p) (dispatcher_state st) = (Inl e, s)"
    and "process (build_webhook_pipeline sha repr env) p st = (res, st')"
    and "pe_dedup_faults env' = no_db_faults" and "pe_now env' < pe_now env + TTL"
  shows "final_action res = PASS \<and> http_status (respond res) = 200 \<and>
         temporal_calls (dispatcher_state st') = temporal_calls (dispatcher_state st) \<and>
         (\<exists>res'. process (build_webhook_pipeline sha repr env') p st' = (res', st') \<and> stopped_at res' = Some ''dedup'')"
proof -
  have c: "fst (dedup_outcome sha repr env p st) = Continue"
    using check_records_row [OF assms(1)] assms(2) by (auto simp: dedup_outcome_def)
  have "temporal_calls s = temporal_calls (dispatcher_state st)"
    using dispatch_raises_calls [OF assms(4)] .
  moreover obtain r where "dict_get (dedup_rows (snd (process (build_webhook_pipeline sha repr env) p st)))
      (derive_event_id sha repr (dedup_payload_of p)) = Some r" and "expires_at r = pe_now env + TTL"
    using first_delivery_is_recorded [OF assms(1,2), of "[]"] by auto
  ultimately show ?thesis
    using process_dispatched [OF c assms(3,4) refl] assms(5-7) redelivery_keeps_state [of st' sha repr p r env']
    by (auto simp: stage_error_def plain_result_def respond_def no_metadata_def truthy_opt_def nonempty_def)
qed

theorem raising_dispatch_loses_event_witness:
  "\<exists>res st' res'. process (build_webhook_pipeline (\<lambda>s. s) (\<lambda>_. [])
       ((demo_pipeline_env 0)\<lparr>pe_dispatch := demo_env\<lparr>count_fails := True\<rparr>\<rparr>)) (demo_webhook ''u'') demo_state = (res, st') \<and>
     final_action res = PASS \<and>
     process (build_webhook_pipeline (\<lambda>s. s) (\<lambda>_. []) (demo_pipeline_env (hours 1))) (demo_webhook ''u'') st' = (res', st') \<and>
     stopped_at res' = Some ''dedup''"
proof -
  let ?env = "(demo_pipeline_env 0)\<lparr>pe_dispatch := demo_env\<lparr>count_fails := True\<rparr>\<rparr>"
  have "case dispatch (pe_dispatch ?env) (loop_guard_payload (demo_webhook ''u'')) (dispatcher_state demo_state) of
      (Inl _, _) \<Rightarrow> True | (Inr r, _) \<Rightarrow> False" by code_simp
  then obtain e s where d:
    "dispatch (pe_dispatch ?env) (loop_guard_payload (demo_webhook ''u'')) (dispatcher_state demo_state) = (Inl e, s)"
    by (auto split: prod.splits sum.splits)
  have "fst (guard_outcome ?env (demo_webhook ''u'') demo_state) = StagePass" by code_simp
  then obtain g where g: "guard_outcome ?env (demo_webhook ''u'') demo_state = (StagePass, g)" by (metis prod.collapse)
  obtain res st' where p: "process (build_webhook_pipeline (\<lambda>s. s) (\<lambda>_. []) ?env) (demo_webhook ''u'') demo_state = (res, st')"
    by fastforce
  from raising_dispatch_loses_event [OF _ _ g d p, of "demo_pipeline_env (hours 1)"] p show ?thesis
    by (auto simp: demo_state_def demo_pipeline_env_def)
qed

lemma dispatcher_action: "status_fits r \<Longrightarrow>
  (sr_action (dispatcher_result r) = BUDGET_EXCEEDED \<longleftrightarrow> status_code r = Some 429) \<and>
  (sr_action (dispatcher_result r) = BUDGET_CONFIGURATION_ERROR \<longleftrightarrow> status_code r = Some 422) \<and>
  status_code r \<in> {None, Some 429, Some 422}"
  by (auto simp: status_fits_def dispatcher_result_def action_map_def)

lemma http_status_respond:
  assumes "stage_results res = xs @ [(n, r)]"
  shows "http_status (respond res) =
    (if sr_reason r = Some ''concurrency_limit_exceeded'' then 429
     else case md_status_code (sr_metadata r) of Some c \<Rightarrow> c | None \<Rightarrow> 200)"
  using assms
  by (cases "md_body (sr_metadata r)") (auto simp: respond_def Let_def truthy_opt_def nonempty_def)

lemma http_status_dispatched:
  assumes "status_fits r" and "stage_results res = xs @ [(n, dispatcher_result r)]"
    and "final_action res = sr_action (dispatcher_result r)"
  shows "http_status (respond res) =
    (if final_action res = BUDGET_EXCEEDED \<or>
        sr_reason (snd (last (stage_results res))) = Some ''concurrency_limit_exceeded'' then 429
     else if final_action res = BUDGET_CONFIGURATION_ERROR then 422 else 200)"
proof -
  have "md_status_code (sr_metadata (dispatcher_result r)) = status_code r" by (simp add: dispatcher_result_def)
  with http_status_respond [OF assms(2)] dispatcher_action [OF assms(1)] assms(2,3) show ?thesis by auto
qed

lemma http_status_processed:
  assumes "process (build_webhook_pipeline sha repr env) p st = (res, st')"
  shows "http_status (respond res) =
    (if final_action res = BUDGET_EXCEEDED \<or>
        sr_reason (snd (last (stage_results res))) = Some ''concurrency_limit_exceeded'' then 429
     else if final_action res = BUDGET_CONFIGURATION_ERROR then 422 else 200)"
proof (cases "fst (dedup_outcome sha repr env p st)")
  case Duplicate
  with assms show ?thesis
    by (auto simp: process_duplicate respond_def plain_result_def no_metadata_def truthy_opt_def nonempty_def)
next
  case Continue
  obtain x g where g: "guard_outcome env p st = (x, g)" by fastforce
  show ?thesis
  proof (cases x)
    case (StageDrop why)
    then have "why \<in> {''loop_guard'', ''loop_guard_blocked''}"
      using g by (auto simp: guard_outcome_def Loop_Guard.check_def split: if_splits prod.splits)
    with g StageDrop assms Continue show ?thesis
      by (auto simp: process_def build_webhook_pipeline_def dedup_check_def dedup_outcome_def loop_guard_check_def
          guard_outcome_def split_beta plain_result_def nonempty_def respond_def no_metadata_def truthy_opt_def)
  next
    case StagePass
    obtain y s where d: "dispatch (pe_dispatch env) (loop_guard_payload p) (dispatcher_state st) = (y, s)" by fastforce
    note pr = process_dispatched [OF Continue g [unfolded StagePass] d refl]
    show ?thesis
    proof (cases y)
      case (Inl e)
      with pr assms show ?thesis
        by (auto simp: respond_def stage_error_def plain_result_def no_metadata_def truthy_opt_def nonempty_def)
    next
      case (Inr r)
      have "stage_results res = [(''dedup'', plain_result PASS None), (''loop_guard'', plain_result PASS None)] @
          [(''dispatcher'', dispatcher_result r)]" and "final_action res = sr_action (dispatcher_result r)"
        using pr assms Inr by auto
      from http_status_dispatched [OF dispatch_status [OF d [unfolded Inr]] this] show ?thesis .
    qed
  qed
qed

text \<open>
  The HTTP status of the endpoint tells the sender exactly the rejections it can act on: 429 for an
  exceeded budget or concurrency cap, 422 for a department without budget configuration, and 200 for
  every other outcome, a drop or a failed stage included.
\<close>

theorem http_status_of_pipeline:
  "let res = fst (process (build_webhook_pipeline sha repr env) p st)
   in http_status (respond res) =
      (if final_action res = BUDGET_EXCEEDED \<or>
          sr_reason (snd (last (stage_results res))) = Some ''concurrency_limit_exceeded'' then 429
       else if final_action res = BUDGET_CONFIGURATION_ERROR then 422 else 200)"
  using http_status_processed [of sha repr env p st]
  by (cases "process (build_webhook_pipeline sha repr env) p st") (simp add: Let_def)

end
