(* ===== verification/Iteration_Manager.thy ===== *)
theory Iteration_Manager
  imports Workflow_Identifiers
begin

text \<open>
  \<^verbatim>\<open>workers/automation-worker/src/automation_worker/activities/iteration_manager.py\<close> and
  \<^verbatim>\<open>workflows/iteration_workflow.py\<close>: the activity that allocates the next iteration of an issue and the
  workflow around it.

  Activities run concurrently on one table. An activity suspends twice, to read the latest row and to
  insert its own, so a run of it is a process with a phase, and the system is the inductive relation that
  lets any process take its next step, any statement fail and new activities arrive. The table has the
  unique constraint of \<^verbatim>\<open>infra/postgres/migrations/014_workflow_iterations.sql\<close>. The base path is the
  process-wide setting; generated identifiers and the time of an activity are its environment.
\<close>

section \<open>Data\<close>

definition MAX_ITERATION_NUMBER :: int where
  "MAX_ITERATION_NUMBER = 999"

definition MAX_ITERATIONS_PER_ISSUE :: int where
  "MAX_ITERATIONS_PER_ISSUE = 10"

record PrepareIterationInput =
  in_issue_key :: pystr
  in_comment_body :: pystr
  in_comment_author :: pystr
  in_issue_reporter :: "pystr option"
  in_dept_id :: pystr
  in_dept_config :: "pyval pydict"
  in_trace_id :: pystr

record IterationContext =
  authorized :: bool
  cx_reason :: pystr
  cx_issue_key :: pystr
  cx_iteration_number :: int
  cx_workflow_id :: pystr
  cx_workspace_path :: pystr
  cx_previous_branch :: "pystr option"
  cx_previous_pr_id :: "int option"
  cx_extra_instructions :: "pystr option"
  cx_dept_id :: pystr
  cx_trace_id :: pystr
  cx_current_count :: "int option"

record IterationRecord =
  it_issue_key :: pystr
  it_number :: int
  it_workflow_id :: pystr
  it_previous_branch :: "pystr option"
  it_previous_pr_id :: "int option"
  it_workspace_path :: pystr
  it_status :: pystr
  it_created_at :: datetime

type_synonym iteration_table = "IterationRecord list"

record activity_env =
  ae_trace_uuid :: pystr
  ae_hex8 :: pystr
  ae_now :: datetime

section \<open>Pure helpers\<close>

definition is_iterate_command :: "pystr \<Rightarrow> bool" where
  "is_iterate_command b = contains_sub ''[iterate]'' (lower b)"

fun behind_iterate :: "pystr \<Rightarrow> pystr option" where
  \<comment> \<open>the text behind the first match of the pattern\<close>
  "behind_iterate [] = None"
| "behind_iterate (c # cs) =
     (if starts_with (lower (c # cs)) ''[iterate]'' then Some (List.drop (length ''[iterate]'') (c # cs))
      else behind_iterate cs)"

definition extract_extra_instructions :: "pystr \<Rightarrow> pystr option" where
  "extract_extra_instructions b =
     (case behind_iterate b of
        None \<Rightarrow> None
      | Some rest \<Rightarrow> if strip rest = [] then None else Some (strip rest))"

definition is_authorized_for_iterate :: "pystr \<Rightarrow> pystr list \<Rightarrow> pystr option \<Rightarrow> bool" where
  "is_authorized_for_iterate author approvers reporter =
     (if author = [] then False
      else if author \<in> set approvers then True
      else if reporter \<noteq> None \<and> reporter \<noteq> Some [] \<and> reporter = Some author then True
      else False)"

definition issue_key_ok :: "pystr \<Rightarrow> bool" where
  \<comment> \<open>\<open>fullmatch\<close> of \<^verbatim>\<open>^[A-Z][A-Z0-9_]*-\d+$\<close>\<close>
  "issue_key_ok s =
     (case split_dash s of
        (c # cs, _ # n) \<Rightarrow> is_upper c \<and> list_all is_key_char cs \<and> n \<noteq> [] \<and> list_all is_digit n
      | _ \<Rightarrow> False)"

definition rstrip_slash :: "pystr \<Rightarrow> pystr" where
  "rstrip_slash b = rev (dropWhile (\<lambda>c. c = CHR ''/'') (rev b))"

datatype path_error = BadIssueKey pystr | OutOfRange int

definition build_iteration_workspace_path :: "pystr \<Rightarrow> pystr \<Rightarrow> int \<Rightarrow> path_error + pystr" where
  "build_iteration_workspace_path base k n =
     (if \<not> issue_key_ok k then Inl (BadIssueKey k)
      else if n < 1 \<or> n > MAX_ITERATION_NUMBER then Inl (OutOfRange n)
      else Inr (rstrip_slash base @ ''/'' @ k @ ''/iter-'' @ show_int n))"

section \<open>The store\<close>

fun latest_iteration :: "iteration_table \<Rightarrow> pystr \<Rightarrow> IterationRecord option" where
  \<comment> \<open>\<open>ORDER BY iteration_number DESC LIMIT 1\<close>\<close>
  "latest_iteration [] k = None"
| "latest_iteration (r # rs) k =
     (if it_issue_key r \<noteq> k then latest_iteration rs k
      else case latest_iteration rs k of
             None \<Rightarrow> Some r
           | Some x \<Rightarrow> if it_number x > it_number r then Some x else Some r)"

definition insert_iteration :: "bool \<Rightarrow> IterationRecord \<Rightarrow> iteration_table \<Rightarrow> iteration_table option" where
  \<comment> \<open>\<open>None\<close> when the statement raises: the flag, or the unique constraint\<close>
  "insert_iteration fails row t =
     (if fails \<or> list_ex (\<lambda>r. it_issue_key r = it_issue_key row \<and> it_number r = it_number row) t then None
      else Some (t @ [row]))"

section \<open>The activity\<close>

definition unauthorized_result :: "PrepareIterationInput \<Rightarrow> pystr \<Rightarrow> pystr \<Rightarrow> int option \<Rightarrow> IterationContext" where
  "unauthorized_result inp why trace count =
     \<lparr>authorized = False, cx_reason = why, cx_issue_key = in_issue_key inp, cx_iteration_number = 0,
      cx_workflow_id = [], cx_workspace_path = [], cx_previous_branch = None, cx_previous_pr_id = None,
      cx_extra_instructions = None, cx_dept_id = in_dept_id inp, cx_trace_id = trace, cx_current_count = count\<rparr>"

definition trace_of :: "activity_env \<Rightarrow> PrepareIterationInput \<Rightarrow> pystr" where
  "trace_of env inp = (if in_trace_id inp \<noteq> [] then in_trace_id inp else ae_trace_uuid env)"

definition approvers_of :: "pyval pydict \<Rightarrow> pystr list" where
  "approvers_of cfg =
     (case get_or_none cfg ''approvers'' of PList xs \<Rightarrow> List.map_filter as_str xs | _ \<Rightarrow> [])"

definition may_iterate :: "PrepareIterationInput \<Rightarrow> bool" where
  "may_iterate inp =
     is_authorized_for_iterate (in_comment_author inp) (approvers_of (in_dept_config inp)) (in_issue_reporter inp)"

definition prev_number :: "IterationRecord option \<Rightarrow> int" where
  \<comment> \<open>\<open>previous_iteration_number\<close>\<close>
  "prev_number latest = (case latest of None \<Rightarrow> 0 | Some r \<Rightarrow> it_number r)"

definition iteration_row ::
  "activity_env \<Rightarrow> PrepareIterationInput \<Rightarrow> IterationRecord option \<Rightarrow> pystr \<Rightarrow> IterationRecord" where
  "iteration_row env inp latest path =
     (let n = prev_number latest + 1
      in \<lparr>it_issue_key = in_issue_key inp, it_number = n,
          it_workflow_id = ''iteration-'' @ in_issue_key inp @ ''-'' @ show_int n @ ''-'' @ ae_hex8 env,
          it_previous_branch = (case latest of None \<Rightarrow> None | Some r \<Rightarrow> it_previous_branch r),
          it_previous_pr_id = (case latest of None \<Rightarrow> None | Some r \<Rightarrow> it_previous_pr_id r),
          it_workspace_path = path, it_status = ''pending'', it_created_at = ae_now env\<rparr>)"

definition granted_result :: "activity_env \<Rightarrow> PrepareIterationInput \<Rightarrow> IterationRecord \<Rightarrow> IterationContext" where
  "granted_result env inp row =
     \<lparr>authorized = True, cx_reason = [], cx_issue_key = in_issue_key inp, cx_iteration_number = it_number row,
      cx_workflow_id = it_workflow_id row, cx_workspace_path = it_workspace_path row,
      cx_previous_branch = it_previous_branch row, cx_previous_pr_id = it_previous_pr_id row,
      cx_extra_instructions = extract_extra_instructions (in_comment_body inp), cx_dept_id = in_dept_id inp,
      cx_trace_id = trace_of env inp, cx_current_count = None\<rparr>"

definition prepare_finish ::
  "pystr \<Rightarrow> activity_env \<Rightarrow> PrepareIterationInput \<Rightarrow> IterationRecord option \<Rightarrow> bool \<Rightarrow> iteration_table \<Rightarrow>
     IterationContext \<times> iteration_table" where
  \<comment> \<open>the activity from the answer of \<open>latest_iteration\<close> on; the flag: the insert fails\<close>
  "prepare_finish base env inp latest fails t =
     (let prev = prev_number latest;
          deny = (\<lambda>why count. (unauthorized_result inp why (trace_of env inp) count, t))
      in if prev \<ge> MAX_ITERATIONS_PER_ISSUE then deny ''max_iteration_exceeded'' (Some prev)
         else if prev + 1 > MAX_ITERATION_NUMBER then deny ''max_iteration_exceeded'' (Some prev)
         else case build_iteration_workspace_path base (in_issue_key inp) (prev + 1) of
                Inl _ \<Rightarrow> deny ''invalid_workspace_path'' None
              | Inr path \<Rightarrow>
                  let row = iteration_row env inp latest path
                  in case insert_iteration fails row t of
                       None \<Rightarrow> deny ''insert_failed'' None
                     | Some t' \<Rightarrow> (granted_result env inp row, t'))"

definition prepare_iteration ::
  "pystr \<Rightarrow> activity_env \<Rightarrow> PrepareIterationInput \<Rightarrow> bool \<Rightarrow> bool \<Rightarrow> iteration_table \<Rightarrow>
     IterationContext option \<times> iteration_table" where
  \<comment> \<open>a run without interleaving; the flags: the read raises, the insert fails; \<open>None\<close>: the activity raises\<close>
  "prepare_iteration base env inp read_raises insert_fails t =
     (if \<not> may_iterate inp then (Some (unauthorized_result inp ''not_authorized'' (trace_of env inp) None), t)
      else if read_raises then (None, t)
      else let (c, t') = prepare_finish base env inp (latest_iteration t (in_issue_key inp)) insert_fails t
           in (Some c, t'))"

section \<open>Concurrent activities\<close>

datatype prep_phase =
    Begun
  | Loaded "IterationRecord option"
  | Finished IterationContext
  | Raised

record process =
  pr_input :: PrepareIterationInput
  pr_env :: activity_env
  pr_phase :: prep_phase

inductive prep_step :: "pystr \<Rightarrow> iteration_table \<Rightarrow> process \<Rightarrow> iteration_table \<Rightarrow> process \<Rightarrow> bool"
  for base where
  reject: "pr_phase p = Begun \<Longrightarrow> \<not> may_iterate (pr_input p) \<Longrightarrow>
    prep_step base t p t (p\<lparr>pr_phase := Finished (unauthorized_result (pr_input p) ''not_authorized''
      (trace_of (pr_env p) (pr_input p)) None)\<rparr>)"
| load: "pr_phase p = Begun \<Longrightarrow> may_iterate (pr_input p) \<Longrightarrow>
    prep_step base t p t (p\<lparr>pr_phase := Loaded (latest_iteration t (in_issue_key (pr_input p)))\<rparr>)"
| load_raises: "pr_phase p = Begun \<Longrightarrow> may_iterate (pr_input p) \<Longrightarrow>
    prep_step base t p t (p\<lparr>pr_phase := Raised\<rparr>)"
| finish: "pr_phase p = Loaded l \<Longrightarrow> prepare_finish base (pr_env p) (pr_input p) l fails t = (c, t') \<Longrightarrow>
    prep_step base t p t' (p\<lparr>pr_phase := Finished c\<rparr>)"

inductive sys_step :: "pystr \<Rightarrow> iteration_table \<times> process list \<Rightarrow> iteration_table \<times> process list \<Rightarrow> bool"
  for base where
  arrive: "pr_phase p = Begun \<Longrightarrow> sys_step base (t, ps) (t, ps @ [p])"
| run: "i < length ps \<Longrightarrow> prep_step base t (ps ! i) t' p' \<Longrightarrow> sys_step base (t, ps) (t', ps[i := p'])"

inductive reachable :: "pystr \<Rightarrow> iteration_table \<times> process list \<Rightarrow> bool" for base where
  start: "reachable base ([], [])"
| step: "reachable base s \<Longrightarrow> sys_step base s s' \<Longrightarrow> reachable base s'"

inductive_cases prep_stepE: "prep_step base t p t' p'"

section \<open>Specification\<close>

definition numbers :: "iteration_table \<Rightarrow> pystr \<Rightarrow> int list" where
  "numbers t k = map it_number (filter (\<lambda>r. it_issue_key r = k) t)"

definition table_ok :: "pystr \<Rightarrow> iteration_table \<Rightarrow> bool" where
  \<comment> \<open>the iterations of an issue are numbered from 1 without gaps, up to the cap, in their own workspaces\<close>
  "table_ok base t \<longleftrightarrow>
     (\<forall>k. \<exists>m. 0 \<le> m \<and> m \<le> MAX_ITERATIONS_PER_ISSUE \<and> distinct (numbers t k) \<and> set (numbers t k) = {1..m}) \<and>
     (\<forall>r \<in> set t. build_iteration_workspace_path base (it_issue_key r) (it_number r) = Inr (it_workspace_path r))"

definition claimed :: "process \<Rightarrow> (pystr \<times> int \<times> pystr) option" where
  \<comment> \<open>issue, number and workspace a finished activity was granted\<close>
  "claimed p =
     (case pr_phase p of
        Finished c \<Rightarrow> if authorized c then Some (cx_issue_key c, cx_iteration_number c, cx_workspace_path c) else None
      | _ \<Rightarrow> None)"

definition process_ok :: "iteration_table \<Rightarrow> process \<Rightarrow> bool" where
  "process_ok t p \<longleftrightarrow>
     (\<forall>l. pr_phase p = Loaded l \<longrightarrow> prev_number l = 0 \<or> prev_number l \<in> set (numbers t (in_issue_key (pr_input p)))) \<and>
     (\<forall>k n w. claimed p = Some (k, n, w) \<longrightarrow>
        (\<exists>r \<in> set t. it_issue_key r = k \<and> it_number r = n \<and> it_workspace_path r = w))"

definition exclusive :: "process list \<Rightarrow> bool" where
  "exclusive ps \<longleftrightarrow>
     (\<forall>i j. i < length ps \<and> j < length ps \<and> i \<noteq> j \<and> claimed (ps ! i) \<noteq> None \<longrightarrow> claimed (ps ! i) \<noteq> claimed (ps ! j))"

definition system_ok :: "pystr \<Rightarrow> iteration_table \<times> process list \<Rightarrow> bool" where
  "system_ok base = (\<lambda>(t, ps). table_ok base t \<and> list_all (process_ok t) ps \<and> exclusive ps)"

section \<open>Lemmas\<close>

lemma numbers_snoc: "numbers (t @ [r]) k = numbers t k @ (if it_issue_key r = k then [it_number r] else [])"
  by (simp add: numbers_def)

lemma in_numbers: "n \<in> set (numbers t k) \<longleftrightarrow> (\<exists>r \<in> set t. it_issue_key r = k \<and> it_number r = n)"
  by (auto simp: numbers_def)

lemma latest_iteration_None: "latest_iteration t k = None \<longleftrightarrow> numbers t k = []"
  by (induction t) (auto simp: numbers_def split: option.splits)

lemma latest_iteration_Some:
  "latest_iteration t k = Some r \<Longrightarrow> it_number r \<in> set (numbers t k) \<and> (\<forall>n \<in> set (numbers t k). n \<le> it_number r)"
proof (induction t arbitrary: r)
  case Nil
  then show ?case by simp
next
  case (Cons x t)
  show ?case
  proof (cases "latest_iteration t k")
    case None
    then have "numbers t k = []" by (simp add: latest_iteration_None)
    with Cons.prems None show ?thesis
      by (cases "it_issue_key x = k") (auto simp: numbers_def)
  next
    case (Some y)
    from Cons.IH [OF Some] Cons.prems Some show ?thesis
      by (cases "it_issue_key x = k") (auto simp: numbers_def split: if_splits)
  qed
qed

lemma latest_prev_number: "prev_number (latest_iteration t k) = 0 \<or> prev_number (latest_iteration t k) \<in> set (numbers t k)"
  by (cases "latest_iteration t k") (auto simp: prev_number_def dest: latest_iteration_Some)

lemma iteration_row_sel [simp]:
  "it_issue_key (iteration_row env inp l path) = in_issue_key inp"
  "it_number (iteration_row env inp l path) = prev_number l + 1"
  "it_workspace_path (iteration_row env inp l path) = path"
  by (simp_all add: iteration_row_def Let_def)

lemma insert_iteration_Some:
  "insert_iteration fails row t = Some t' \<longleftrightarrow>
   \<not> fails \<and> it_number row \<notin> set (numbers t (it_issue_key row)) \<and> t' = t @ [row]"
  by (auto simp: insert_iteration_def in_numbers list_ex_iff)

lemma prepare_finish_cases:
  assumes "prepare_finish base env inp l fails t = (c, t')"
  obtains (Denied) "\<not> authorized c" and "t' = t"
    | (Granted) path where "c = granted_result env inp (iteration_row env inp l path)"
      and "t' = t @ [iteration_row env inp l path]" and "prev_number l < MAX_ITERATIONS_PER_ISSUE"
      and "prev_number l + 1 \<notin> set (numbers t (in_issue_key inp))"
      and "build_iteration_workspace_path base (in_issue_key inp) (prev_number l + 1) = Inr path"
  using assms
  by (auto simp: prepare_finish_def Let_def insert_iteration_Some unauthorized_result_def
      split: if_splits sum.splits option.splits)

lemma numbers_mono: "n \<in> set (numbers t k) \<Longrightarrow> n \<in> set (numbers (t @ [r]) k)"
  by (simp add: numbers_snoc)

lemma process_ok_mono: "process_ok t p \<Longrightarrow> process_ok (t @ [r]) p"
  by (fastforce simp: process_ok_def numbers_snoc)

lemma claimed_row:
  "process_ok t p \<Longrightarrow> claimed p = Some (k, n, w) \<Longrightarrow>
   \<exists>r \<in> set t. it_issue_key r = k \<and> it_number r = n \<and> it_workspace_path r = w"
  by (simp add: process_ok_def)

lemma claimed_in_table:
  assumes "process_ok t p" and "claimed p = Some (k, n, w)"
  shows "n \<in> set (numbers t k)"
  using claimed_row [OF assms] by (auto simp: in_numbers)

lemma table_ok_grant:
  assumes "table_ok base t" and "it_number r = m + 1" and "m = 0 \<or> m \<in> set (numbers t (it_issue_key r))"
    and "m < MAX_ITERATIONS_PER_ISSUE" and "m + 1 \<notin> set (numbers t (it_issue_key r))"
    and "build_iteration_workspace_path base (it_issue_key r) (it_number r) = Inr (it_workspace_path r)"
  shows "table_ok base (t @ [r])"
proof -
  have "\<exists>m. 0 \<le> m \<and> m \<le> MAX_ITERATIONS_PER_ISSUE \<and> distinct (numbers (t @ [r]) k) \<and> set (numbers (t @ [r]) k) = {1..m}" for k
  proof -
    obtain m' where m': "0 \<le> m'" "m' \<le> MAX_ITERATIONS_PER_ISSUE" "distinct (numbers t k)" "set (numbers t k) = {1..m'}"
      using assms(1) unfolding table_ok_def by blast
    show ?thesis
    proof (cases "it_issue_key r = k")
      case True
      with assms(3,5) m' have "m = m'" by auto
      with True assms(2,4,5) m' have "distinct (numbers (t @ [r]) k)" and "set (numbers (t @ [r]) k) = {1..m' + 1}"
        by (auto simp: numbers_snoc)
      with m' \<open>m = m'\<close> assms(4) show ?thesis by (intro exI [of _ "m' + 1"]) simp
    next
      case False
      with m' show ?thesis by (auto simp: numbers_snoc)
    qed
  qed
  with assms(1,6) show ?thesis by (simp add: table_ok_def)
qed

lemma prep_step_frame: "prep_step base t p t' p' \<Longrightarrow> pr_input p' = pr_input p \<and> claimed p = None"
  by (auto elim!: prep_stepE simp: claimed_def)

lemma claimed_unauthorized [simp]: "\<not> authorized c \<Longrightarrow> claimed (p\<lparr>pr_phase := Finished c\<rparr>) = None"
  by (simp add: claimed_def)

lemma prep_step_cases:
  assumes "prep_step base t p t' p'" and "table_ok base t" and "process_ok t p"
  obtains (Same) "t' = t" and "claimed p' = None" and "process_ok t p'"
    | (Grant) r where "t' = t @ [r]" and "table_ok base t'" and "process_ok t' p'"
      and "claimed p' = Some (it_issue_key r, it_number r, it_workspace_path r)"
      and "it_number r \<notin> set (numbers t (it_issue_key r))"
  using assms(1)
proof cases
  case reject
  then show ?thesis by (intro Same) (simp_all add: process_ok_def unauthorized_result_def claimed_def)
next
  case load
  then show ?thesis by (intro Same) (simp_all add: process_ok_def claimed_def latest_prev_number)
next
  case load_raises
  then show ?thesis by (intro Same) (simp_all add: process_ok_def claimed_def)
next
  case (finish l fails c)
  show ?thesis using finish(3)
  proof (cases rule: prepare_finish_cases)
    case Denied
    with finish show ?thesis by (intro Same) (simp_all add: process_ok_def)
  next
    case (Granted path)
    let ?r = "iteration_row (pr_env p) (pr_input p) l path"
    have "prev_number l = 0 \<or> prev_number l \<in> set (numbers t (it_issue_key ?r))"
      using assms(3) finish(2) by (simp add: process_ok_def)
    then have "table_ok base (t @ [?r])"
      using Granted assms(2) by (intro table_ok_grant [where m = "prev_number l"]) simp_all
    moreover have c: "claimed p' = Some (it_issue_key ?r, it_number ?r, it_workspace_path ?r)"
      using finish(1) Granted(1) by (simp add: claimed_def granted_result_def)
    moreover have "process_ok (t @ [?r]) p'" using c finish(1) by (simp add: process_ok_def)
    ultimately show ?thesis using Grant [of ?r] Granted by simp
  qed
qed

lemma exclusive_update:
  assumes "exclusive ps" and "i < length ps"
    and "\<And>j. j < length ps \<Longrightarrow> claimed p' \<noteq> None \<Longrightarrow> claimed (ps ! j) \<noteq> claimed p'"
  shows "exclusive (ps[i := p'])"
proof -
  have "claimed (ps[i := p'] ! a) \<noteq> claimed (ps[i := p'] ! b)"
    if ab: "a < length ps" "b < length ps" "a \<noteq> b" and c: "claimed (ps[i := p'] ! a) \<noteq> None" for a b
  proof (cases "a = i")
    case True
    with assms(2,3) ab c show ?thesis by (metis nth_list_update)
  next
    case False
    then have "claimed (ps ! a) \<noteq> None" using c by simp
    with False assms ab show ?thesis unfolding exclusive_def by (cases "b = i") (metis nth_list_update)+
  qed
  then show ?thesis by (simp add: exclusive_def)
qed

lemma system_ok_run:
  assumes "system_ok base (t, ps)" and "i < length ps" and "prep_step base t (ps ! i) t' p'"
  shows "system_ok base (t', ps[i := p'])"
proof -
  have ok: "table_ok base t" "exclusive ps" "process_ok t (ps ! j)" if "j < length ps" for j
    using assms(1,2) that by (auto simp: system_ok_def list_all_length)
  show ?thesis using assms(3) ok(1,3) [OF assms(2)]
  proof (cases rule: prep_step_cases)
    case Same
    then show ?thesis
      using ok assms(2) exclusive_update [of ps i p'] by (auto simp: system_ok_def list_all_length nth_list_update)
  next
    case (Grant r)
    have "claimed (ps ! j) \<noteq> claimed p'" if "j < length ps" for j
      using claimed_in_table [OF ok(3) [OF that]] Grant(4,5) by auto
    with Grant ok assms(2) show ?thesis
      by (auto simp: system_ok_def list_all_length nth_list_update process_ok_mono intro: exclusive_update)
  qed
qed

lemma system_ok_reachable: "reachable base s \<Longrightarrow> system_ok base s"
proof (induction rule: reachable.induct)
  case start
  have "set (numbers [] k) = {1..0::int}" for k by (simp add: numbers_def)
  then show ?case
    by (auto simp: system_ok_def table_ok_def exclusive_def numbers_def MAX_ITERATIONS_PER_ISSUE_def intro!: exI [of _ "0::int"])
next
  case (step s s')
  obtain t ps where s: "s = (t, ps)" by fastforce
  from step.hyps(2) [unfolded s] show ?case
  proof cases
    case (arrive p)
    with step.IH s show ?thesis
      by (auto simp: system_ok_def process_ok_def exclusive_def claimed_def nth_append)
  next
    case (run i t' p')
    with step.IH s system_ok_run show ?thesis by simp
  qed
qed

lemma issue_key_no_slash:
  assumes "issue_key_ok k"
  shows "CHR ''/'' \<notin> set k"
proof -
  obtain c cs d n where k: "split_dash k = (c # cs, d # n)" and "is_upper c" "list_all is_key_char cs" "list_all is_digit n"
    using assms by (auto simp: issue_key_ok_def split: prod.splits list.splits)
  have "k = (c # cs) @ d # n" using k by (metis split_dash_def prod.inject takeWhile_dropWhile_id)
  moreover have "d = CHR ''-''" using k hd_dropWhile [of "\<lambda>c. c \<noteq> CHR ''-''" k] by (auto simp: split_dash_def)
  moreover have "\<not> is_upper (CHR ''/'')" "\<not> is_key_char (CHR ''/'')" "\<not> is_digit (CHR ''/'')"
    by (simp_all add: char_class_defs)
  ultimately show ?thesis
    using \<open>is_upper c\<close> \<open>list_all is_key_char cs\<close> \<open>list_all is_digit n\<close> by (auto simp: list_all_iff)
qed

lemma takeWhile_no_slash: "CHR ''/'' \<notin> set k \<Longrightarrow> takeWhile (\<lambda>c. c \<noteq> CHR ''/'') (k @ CHR ''/'' # s) = k"
  by (induction k) auto

lemma workspace_path_inj:
  assumes "build_iteration_workspace_path base k n = Inr w" and "build_iteration_workspace_path base k' n' = Inr w"
  shows "k = k' \<and> n = n'"
proof -
  have ok: "issue_key_ok k" "issue_key_ok k'" "1 \<le> n" "1 \<le> n'"
    and eq: "k @ CHR ''/'' # ''iter-'' @ show_int n = k' @ CHR ''/'' # ''iter-'' @ show_int n'"
    using assms by (auto simp: build_iteration_workspace_path_def split: if_splits)
  have "k = k'"
    using arg_cong [OF eq, of "takeWhile (\<lambda>c. c \<noteq> CHR ''/'')"]
      takeWhile_no_slash [OF issue_key_no_slash [OF ok(1)]] takeWhile_no_slash [OF issue_key_no_slash [OF ok(2)]]
    by simp
  with eq have "show_int n = show_int n'" by simp
  with ok(3,4) have "n = n'" by (auto simp: show_int_def dest: show_nat_inj)
  with \<open>k = k'\<close> show ?thesis by simp
qed

lemma table_ok_distinct_paths:
  assumes "table_ok base t" and "r \<in> set t" and "r' \<in> set t" and "it_workspace_path r = it_workspace_path r'"
  shows "it_issue_key r = it_issue_key r' \<and> it_number r = it_number r'"
  using assms workspace_path_inj unfolding table_ok_def by metis

section \<open>Properties\<close>

text \<open>
  C24. Whatever activities run concurrently, in whatever order their reads and inserts interleave and
  whichever of them fail, the iterations of an issue are numbered 1, 2, 3, ... without gaps or repetitions
  up to the cap of ten, and no two activities are granted the same iteration or the same workspace.
\<close>

theorem iterations_are_consecutive_and_exclusive:
  assumes "reachable base (t, ps)"
  shows "(\<exists>m. 0 \<le> m \<and> m \<le> MAX_ITERATIONS_PER_ISSUE \<and> distinct (numbers t k) \<and> set (numbers t k) = {1..m}) \<and>
    (\<forall>i j a b. i < length ps \<and> j < length ps \<and> i \<noteq> j \<and> claimed (ps ! i) = Some a \<and> claimed (ps ! j) = Some b \<longrightarrow>
       snd (snd a) \<noteq> snd (snd b))"
proof -
  have ok: "table_ok base t" "list_all (process_ok t) ps" "exclusive ps"
    using system_ok_reachable [OF assms] by (simp_all add: system_ok_def)
  have "snd (snd a) \<noteq> snd (snd b)"
    if ij: "i < length ps" "j < length ps" "i \<noteq> j" and ab: "claimed (ps ! i) = Some a" "claimed (ps ! j) = Some b" for i j a b
  proof
    assume eq: "snd (snd a) = snd (snd b)"
    obtain k n w k' n' w' where a: "a = (k, n, w)" and b: "b = (k', n', w')" by (cases a, cases b) auto
    have "process_ok t (ps ! i)" and "process_ok t (ps ! j)" using ok(2) ij by (simp_all add: list_all_length)
    then have "\<exists>r \<in> set t. it_issue_key r = k \<and> it_number r = n \<and> it_workspace_path r = w"
      and "\<exists>r \<in> set t. it_issue_key r = k' \<and> it_number r = n' \<and> it_workspace_path r = w'"
      using ab a b by (simp_all add: claimed_row)
    then obtain r r' where "r \<in> set t" "r' \<in> set t" and r: "k = it_issue_key r" "n = it_number r" "w = it_workspace_path r"
      and r': "k' = it_issue_key r'" "n' = it_number r'" "w' = it_workspace_path r'" by blast
    moreover have "it_workspace_path r = it_workspace_path r'" using eq a b r r' by simp
    ultimately have "a = b" using table_ok_distinct_paths [OF ok(1), of r r'] a b by simp
    with ab ij ok(3) show False unfolding exclusive_def by (metis option.distinct(1))
  qed
  with ok(1) show ?thesis unfolding table_ok_def by blast
qed

definition demo_process :: "pystr \<Rightarrow> process" where
  "demo_process hex8 = \<lparr>pr_input = \<lparr>in_issue_key = ''A-1'', in_comment_body = ''[iterate]'', in_comment_author = ''rep'',
       in_issue_reporter = Some ''rep'', in_dept_id = ''dev'', in_dept_config = [], in_trace_id = ''t''\<rparr>,
     pr_env = \<lparr>ae_trace_uuid = ''u'', ae_hex8 = hex8, ae_now = 0\<rparr>, pr_phase = Begun\<rparr>"

abbreviation demo_finish :: "pystr \<Rightarrow> iteration_table \<Rightarrow> IterationContext \<times> iteration_table" where
  "demo_finish hex8 t \<equiv> prepare_finish ''/r'' (pr_env (demo_process hex8)) (pr_input (demo_process hex8)) None False t"

lemma demo_race:
  defines "t1 \<equiv> snd (demo_finish ''a'' [])"
  shows "reachable ''/r''
    (snd (demo_finish ''b'' t1),
     [(demo_process ''a'')\<lparr>pr_phase := Finished (fst (demo_finish ''a'' []))\<rparr>,
      (demo_process ''b'')\<lparr>pr_phase := Finished (fst (demo_finish ''b'' t1))\<rparr>])"
proof -
  let ?p = "demo_process ''a''" and ?q = "demo_process ''b''"
  let ?lp = "?p\<lparr>pr_phase := Loaded None\<rparr>" and ?lq = "?q\<lparr>pr_phase := Loaded None\<rparr>"
  have b: "pr_phase ?p = Begun" "pr_phase ?q = Begun" "may_iterate (pr_input ?p)" "may_iterate (pr_input ?q)"
    by (simp_all add: demo_process_def may_iterate_def is_authorized_for_iterate_def)
  have "reachable ''/r'' ([], [?p])" using reachable.step [OF reachable.start sys_step.arrive [of ?p]] b by simp
  then have "reachable ''/r'' ([], [?p, ?q])" using reachable.step [OF _ sys_step.arrive [of ?q]] b by fastforce
  then have "reachable ''/r'' ([], [?lp, ?q])"
    using reachable.step [OF _ sys_step.run [of 0 "[?p, ?q]" "''/r''" "[]" "[]" ?lp]] prep_step.load [of ?p "''/r''" "[]"] b
    by simp
  then have "reachable ''/r'' ([], [?lp, ?lq])"
    using reachable.step [OF _ sys_step.run [of 1 "[?lp, ?q]" "''/r''" "[]" "[]" ?lq]] prep_step.load [of ?q "''/r''" "[]"] b
    by simp
  then have "reachable ''/r'' (t1, [?p\<lparr>pr_phase := Finished (fst (demo_finish ''a'' []))\<rparr>, ?lq])"
    using reachable.step [OF _ sys_step.run [of 0 "[?lp, ?lq]" "''/r''" "[]" t1]]
      prep_step.finish [of ?lp None "''/r''" False "[]" "fst (demo_finish ''a'' [])" t1] by (simp add: t1_def)
  then show ?thesis
    using reachable.step [OF _ sys_step.run [of 1 "[?p\<lparr>pr_phase := Finished (fst (demo_finish ''a'' []))\<rparr>, ?lq]" "''/r''" t1
          "snd (demo_finish ''b'' t1)"]]
      prep_step.finish [of ?lq None "''/r''" False t1 "fst (demo_finish ''b'' t1)" "snd (demo_finish ''b'' t1)"] by simp
qed

theorem iterations_are_consecutive_and_exclusive_witness:
  "\<exists>t ps m. reachable ''/r'' (t, ps) \<and> numbers t ''A-1'' = [1] \<and> set (numbers t ''A-1'') = {1..m} \<and>
     claimed (ps ! 0) = Some (''A-1'', 1, ''/r/A-1/iter-1'') \<and> claimed (ps ! 1) = None"
proof -
  let ?t = "snd (demo_finish ''b'' (snd (demo_finish ''a'' [])))"
  let ?p = "(demo_process ''a'')\<lparr>pr_phase := Finished (fst (demo_finish ''a'' []))\<rparr>"
  let ?q = "(demo_process ''b'')\<lparr>pr_phase := Finished (fst (demo_finish ''b'' (snd (demo_finish ''a'' []))))\<rparr>"
  have n: "numbers ?t ''A-1'' = [1]" by code_simp
  have p: "claimed ?p = Some (''A-1'', 1, ''/r/A-1/iter-1'')" by code_simp
  have q: "claimed ?q = None" by code_simp
  obtain m where m: "set (numbers ?t ''A-1'') = {1..m}"
    using iterations_are_consecutive_and_exclusive [OF demo_race, of "''A-1''"] by blast
  have "claimed ([?p, ?q] ! 0) = Some (''A-1'', 1, ''/r/A-1/iter-1'')" and "claimed ([?p, ?q] ! 1) = None"
    using p q by simp_all
  with demo_race n m show ?thesis by blast
qed

end
