(* ===== verification/Python_Text.thy ===== *)
theory Python_Text
  imports Platform_Prelude
begin

text \<open>
  Further functions of Python's standard library the analysis of a task uses: \<open>str.join\<close>, \<open>str.split\<close> on
  newlines, \<open>str.splitlines\<close>, \<open>repr\<close> of a string, \<open>str.isdigit\<close>, the names of types, \<open>or\<close>, \<open>dict.get\<close> and iteration, \<open>float\<close> of a string with
  \<open>min\<close> and \<open>max\<close> as Python evaluates them on a value that is not a number, and \<open>sorted\<close> on strings. Code points
  are those of the prelude, 0 to 255. A finite float is a rational.
\<close>

section \<open>Joining and splitting\<close>

fun join_with :: "pystr \<Rightarrow> pystr list \<Rightarrow> pystr" where
  "join_with sep [] = []"
| "join_with sep [x] = x"
| "join_with sep (x # y # xs) = x @ sep @ join_with sep (y # xs)"

fun split_nl :: "pystr \<Rightarrow> pystr list" where
  \<comment> \<open>\<^verbatim>\<open>s.split("\n")\<close>\<close>
  "split_nl [] = [[]]"
| "split_nl (c # cs) =
     (if c = newline then [] # split_nl cs
      else case split_nl cs of [] \<Rightarrow> [[c]] | l # ls \<Rightarrow> (c # l) # ls)"

definition is_line_break :: "char \<Rightarrow> bool" where
  "is_line_break c \<longleftrightarrow> (of_char c :: nat) \<in> {10, 11, 12, 13, 28, 29, 30, 133}"

function lines_from :: "pystr \<Rightarrow> pystr \<Rightarrow> pystr list" where
  \<comment> \<open>the lines of \<open>s\<close> behind the characters of the current line, which are kept in reverse\<close>
  "lines_from cur [] = (if cur = [] then [] else [rev cur])"
| "lines_from cur (c # cs) =
     (if c = CHR 0x0D \<and> cs \<noteq> [] \<and> hd cs = newline then rev cur # lines_from [] (tl cs)
      else if is_line_break c then rev cur # lines_from [] cs
      else lines_from (c # cur) cs)"
  by pat_completeness auto
termination
  by (relation "measure (length \<circ> snd)") auto

definition splitlines :: "pystr \<Rightarrow> pystr list" where
  "splitlines s = lines_from [] s"

lemma split_nl_nonempty [simp]: "split_nl s \<noteq> []"
  by (induction s) (auto split: list.splits)

lemma join_with_Cons [simp]: "join_with sep ((c # x) # xs) = c # join_with sep (x # xs)"
  by (cases xs) simp_all

lemma join_split_nl [simp]: "join_with [newline] (split_nl s) = s"
proof (induction s)
  case (Cons c cs)
  then show ?case by (cases "split_nl cs") auto
qed simp

section \<open>Representation and types\<close>

definition hex_digit :: "nat \<Rightarrow> char" where
  "hex_digit n = (if n < 10 then digit_char n else char_of (87 + n))"

definition is_printable :: "char \<Rightarrow> bool" where
  \<comment> \<open>\<open>str.isprintable\<close> on code points 0 to 255\<close>
  "is_printable c \<longleftrightarrow> (let n = (of_char c :: nat) in 32 \<le> n \<and> n \<noteq> 127 \<and> \<not> (128 \<le> n \<and> n \<le> 160) \<and> n \<noteq> 173)"

definition repr_char :: "char \<Rightarrow> char \<Rightarrow> pystr" where
  "repr_char quote c =
     (if c = quote \<or> c = CHR 0x5C then [CHR 0x5C, c]
      else if c = newline then [CHR 0x5C, CHR ''n'']
      else if c = CHR 0x0D then [CHR 0x5C, CHR ''r'']
      else if c = CHR 0x09 then [CHR 0x5C, CHR ''t'']
      else if is_printable c then [c]
      else let n = (of_char c :: nat) in [CHR 0x5C, CHR ''x'', hex_digit (n div 16), hex_digit (n mod 16)])"

definition str_repr :: "pystr \<Rightarrow> pystr" where
  "str_repr s =
     (let quote = (if CHR 0x27 \<in> set s \<and> CHR 0x22 \<notin> set s then CHR 0x22 else CHR 0x27)
      in [quote] @ concat (map (repr_char quote) s) @ [quote])"

fun type_name :: "pyval \<Rightarrow> pystr" where
  \<comment> \<open>\<^verbatim>\<open>type(v).__name__\<close>\<close>
  "type_name PNone = ''NoneType''"
| "type_name (PBool b) = ''bool''"
| "type_name (PInt i) = ''int''"
| "type_name (PFloat r) = ''float''"
| "type_name (PStr s) = ''str''"
| "type_name (PList xs) = ''list''"
| "type_name (PTuple xs) = ''tuple''"
| "type_name (PDict d) = ''dict''"

section \<open>Values\<close>

definition or_value :: "pyval \<Rightarrow> pyval \<Rightarrow> pyval" where
  \<comment> \<open>\<open>a or b\<close>\<close>
  "or_value a b = (if truthy a then a else b)"

definition get_default :: "pyval pydict \<Rightarrow> pystr \<Rightarrow> pyval \<Rightarrow> pyval" where
  "get_default d k v = (case dict_get d k of None \<Rightarrow> v | Some x \<Rightarrow> x)"

definition iterate :: "pyval \<Rightarrow> pyval list option" where
  \<comment> \<open>\<open>for x in v\<close>; \<open>None\<close> is the \<open>TypeError\<close>\<close>
  "iterate v =
     (case v of
        PList vs \<Rightarrow> Some vs | PTuple vs \<Rightarrow> Some vs | PStr s \<Rightarrow> Some (map (\<lambda>c. PStr [c]) s)
      | PDict d \<Rightarrow> Some (map (\<lambda>(k, _). PStr k) d) | _ \<Rightarrow> None)"

section \<open>Numbers\<close>

datatype pyfloat = NaN | PosInf | NegInf | Fin rat

fun float_less :: "pyfloat \<Rightarrow> pyfloat \<Rightarrow> bool" where
  "float_less NaN y = False"
| "float_less x NaN = False"
| "float_less (Fin x) (Fin y) = (x < y)"
| "float_less NegInf y = (y \<noteq> NegInf)"
| "float_less x PosInf = (x \<noteq> PosInf)"
| "float_less _ _ = False"

definition py_min :: "pyfloat \<Rightarrow> pyfloat \<Rightarrow> pyfloat" where
  \<comment> \<open>\<open>min(a, b)\<close>: the second argument only when it is smaller\<close>
  "py_min a b = (if float_less b a then b else a)"

definition py_max :: "pyfloat \<Rightarrow> pyfloat \<Rightarrow> pyfloat" where
  "py_max a b = (if float_less a b then b else a)"

fun finite_part :: "pyfloat \<Rightarrow> rat" where
  "finite_part (Fin r) = r"
| "finite_part _ = 0"

lemma clamp_in_range: "\<exists>r. py_max (Fin 0) (py_min (Fin 1) v) = Fin r \<and> 0 \<le> r \<and> r \<le> 1"
  by (cases v) (auto simp: py_min_def py_max_def)

lemma clamp_NaN: "py_max (Fin 0) (py_min (Fin 1) NaN) = Fin 1"
  by (simp add: py_min_def py_max_def)

fun digit_part :: "pystr \<Rightarrow> pystr \<times> pystr" where
  \<comment> \<open>the leading digits, single underscores between two of them skipped, and the rest\<close>
  "digit_part [] = ([], [])"
| "digit_part [c] = (if is_digit c then ([c], []) else ([], [c]))"
| "digit_part [c, d] =
     (if is_digit c then (let (ds, r) = digit_part [d] in (c # ds, r)) else ([], [c, d]))"
| "digit_part (c # d # e # cs) =
     (if is_digit c then
        (let (ds, r) = (if d = CHR ''_'' \<and> is_digit e then digit_part (e # cs) else digit_part (d # e # cs))
         in (c # ds, r))
      else ([], c # d # e # cs))"

definition take_sign :: "pystr \<Rightarrow> int \<times> pystr" where
  "take_sign s =
     (if s \<noteq> [] \<and> hd s = CHR ''-'' then (-1, tl s)
      else if s \<noteq> [] \<and> hd s = CHR ''+'' then (1, tl s) else (1, s))"

definition pow10 :: "int \<Rightarrow> rat" where
  "pow10 e = (if 0 \<le> e then 10 ^ nat e else 1 / 10 ^ nat (- e))"

definition decimal_value :: "pystr \<Rightarrow> rat option" where
  \<comment> \<open>an unsigned decimal with optional fraction and exponent\<close>
  "decimal_value s =
     (let (ip, r1) = digit_part s;
          (fp, r2) = (if r1 \<noteq> [] \<and> hd r1 = CHR ''.'' then digit_part (tl r1) else ([], r1));
          mantissa = of_nat (parse_nat (ip @ fp)) * pow10 (- int (length fp))
      in if ip = [] \<and> fp = [] then None
         else if r2 = [] then Some mantissa
         else if hd r2 = CHR ''e'' \<or> hd r2 = CHR ''E'' then
           (let (sg, r3) = take_sign (tl r2); (ep, r4) = digit_part r3
            in if ep = [] \<or> r4 \<noteq> [] then None else Some (mantissa * pow10 (sg * int (parse_nat ep))))
         else None)"

definition float_of_str :: "pystr \<Rightarrow> pyfloat option" where
  \<comment> \<open>\<open>float(s)\<close>; \<open>None\<close> for the \<open>ValueError\<close>\<close>
  "float_of_str s =
     (let (sg, r) = take_sign (strip s)
      in if lower r = ''nan'' then Some NaN
         else if lower r = ''inf'' \<or> lower r = ''infinity'' then Some (if sg < 0 then NegInf else PosInf)
         else map_option (\<lambda>q. Fin (of_int sg * q)) (decimal_value r))"

definition is_superscript :: "char \<Rightarrow> bool" where
  "is_superscript c \<longleftrightarrow> (of_char c :: nat) \<in> {178, 179, 185}"

definition str_isdigit :: "pystr \<Rightarrow> bool" where
  \<comment> \<open>\<open>s.isdigit()\<close>: superscript digits count\<close>
  "str_isdigit s \<longleftrightarrow> s \<noteq> [] \<and> list_all (\<lambda>c. is_digit c \<or> is_superscript c) s"

section \<open>Ordered strings\<close>

fun str_less_eq :: "pystr \<Rightarrow> pystr \<Rightarrow> bool" where
  "str_less_eq [] t = True"
| "str_less_eq (c # cs) [] = False"
| "str_less_eq (c # cs) (d # ds) =
     (if c = d then str_less_eq cs ds else (of_char c :: nat) < of_char d)"

fun insert_key :: "pystr \<times> 'v \<Rightarrow> (pystr \<times> 'v) list \<Rightarrow> (pystr \<times> 'v) list" where
  "insert_key p [] = [p]"
| "insert_key p (q # qs) = (if str_less_eq (fst p) (fst q) then p # q # qs else q # insert_key p qs)"

definition sorted_items :: "'v pydict \<Rightarrow> 'v pydict" where
  \<comment> \<open>\<open>[(k, d[k]) for k in sorted(d.keys())]\<close>\<close>
  "sorted_items d = foldr insert_key d []"

lemma set_insert_key [simp]: "set (insert_key p qs) = insert p (set qs)"
  by (induction p qs rule: insert_key.induct) auto

lemma set_sorted_items [simp]: "set (sorted_items d) = set d"
  by (induction d) (simp_all add: sorted_items_def)

end
