(* ===== verification/Iteration_Workflow.thy ===== *)
theory Iteration_Workflow
  imports Iteration_Manager Python_Text
begin

text \<open>
  \<^verbatim>\<open>workers/automation-worker/src/automation_worker/workflows/iteration_workflow.py\<close>: the workflow the
  dispatcher starts for an iterate command. It normalises the dispatcher's dictionary, runs the
  activity of \<open>Iteration_Manager\<close> and starts the gateway workflow as a child. The answers of Temporal (the
  activity raised on all its attempts, the child could not be started, the child's result) are the
  record \<open>iteration_env\<close>; the child's result is of any type. Values at positions annotated as strings are
  strings or absent.
\<close>

section \<open>Data\<close>

record IterationWorkflowInput =
  iw_trigger :: pystr
  iw_issue_key :: pystr
  iw_department_id :: pystr
  iw_extra_instructions :: "pystr option"
  iw_comment_body :: "pystr option"
  iw_actor_account_id :: "pystr option"
  iw_issue_reporter_account_id :: "pystr option"
  iw_dept_config :: "pyval pydict"
  iw_available_capabilities :: "pystr list"
  iw_available_repos :: "pystr list"
  iw_available_spaces :: "pystr list"
  iw_default_language :: pystr
  iw_trace_id :: pystr

record AutomationWorkflowInput =
  aw_issue_key :: pystr
  aw_department_id :: pystr
  aw_available_capabilities :: "pystr list"
  aw_available_repos :: "pystr list"
  aw_available_spaces :: "pystr list"
  aw_default_language :: pystr
  aw_trigger_event :: pystr
  aw_iteration :: int
  aw_raw_event :: "pystr option option" \<comment> \<open>of the event only its \<open>body_text\<close>, the one field that is read\<close>
  aw_trace_id :: pystr
  aw_notify_on_success :: bool
  aw_notify_channels :: "pystr list"
  aw_slack_webhook :: "pystr option"
  aw_notify_email :: "pystr option"

record 'o IterationWorkflowOutput =
  io_decision :: pystr
  io_iteration_number :: int
  io_workspace_path :: pystr
  io_reason :: pystr
  io_child_workflow_id :: "pystr option"
  io_automation_output :: "'o option"

datatype iteration_effect =
    AuditMaxExceeded pystr pystr pystr int int \<comment> \<open>department, issue, trace, count, cap\<close>
  | CommentMaxExceeded pystr pystr int int \<comment> \<open>issue, department, cap, count\<close>
  | StartChild pystr AutomationWorkflowInput

record 'o iteration_env =
  ie_activity :: activity_env
  ie_read_raises :: bool
  ie_insert_fails :: bool
  ie_start_raises :: bool
  ie_child_result :: "'o option" \<comment> \<open>\<open>None\<close>: the child failed\<close>

section \<open>Input\<close>

definition str_tuple :: "(pyval \<Rightarrow> pystr) \<Rightarrow> pyval pydict \<Rightarrow> pystr \<Rightarrow> pystr list" where
  \<comment> \<open>\<open>_tuple\<close>: a value that cannot be iterated gives the empty tuple\<close>
  "str_tuple repr d k =
     (case iter_value (get_default d k (PTuple [])) of Inl _ \<Rightarrow> [] | Inr xs \<Rightarrow> map (py_str repr) xs)"

definition coerce_input :: "(pyval \<Rightarrow> pystr) \<Rightarrow> pyval pydict \<Rightarrow> IterationWorkflowInput" where
  "coerce_input repr d =
     \<lparr>iw_trigger = py_str repr (get_default d ''trigger'' (PStr ''iterate'')),
      iw_issue_key = py_str repr (get_default d ''issue_key'' (PStr [])),
      iw_department_id = py_str repr (get_default d ''department_id'' (PStr [])),
      iw_extra_instructions = as_str (get_or_none d ''extra_instructions''),
      iw_comment_body = as_str (get_or_none d ''comment_body''),
      iw_actor_account_id = as_str (get_or_none d ''actor_account_id''),
      iw_issue_reporter_account_id = as_str (get_or_none d ''issue_reporter_account_id''),
      iw_dept_config = (case get_or_none d ''dept_config'' of PDict c \<Rightarrow> c | _ \<Rightarrow> []),
      iw_available_capabilities = str_tuple repr d ''available_capabilities'',
      iw_available_repos = str_tuple repr d ''available_repos'',
      iw_available_spaces = str_tuple repr d ''available_spaces'',
      iw_default_language = py_str repr (get_default d ''default_language'' (PStr ''tr'')),
      iw_trace_id = py_str repr (get_default d ''trace_id'' (PStr []))\<rparr>"

definition prepare_input :: "IterationWorkflowInput \<Rightarrow> PrepareIterationInput" where
  "prepare_input w =
     \<lparr>in_issue_key = iw_issue_key w,
      in_comment_body = (case iw_comment_body w of None \<Rightarrow> [] | Some b \<Rightarrow> b),
      in_comment_author = (case iw_actor_account_id w of None \<Rightarrow> [] | Some a \<Rightarrow> a),
      in_issue_reporter = iw_issue_reporter_account_id w,
      in_dept_id = iw_department_id w, in_dept_config = iw_dept_config w, in_trace_id = iw_trace_id w\<rparr>"

definition child_input :: "IterationWorkflowInput \<Rightarrow> IterationContext \<Rightarrow> AutomationWorkflowInput" where
  "child_input w c =
     \<lparr>aw_issue_key = iw_issue_key w, aw_department_id = iw_department_id w,
      aw_available_capabilities = iw_available_capabilities w, aw_available_repos = iw_available_repos w,
      aw_available_spaces = iw_available_spaces w, aw_default_language = iw_default_language w,
      aw_trigger_event = ''jira:iterate'', aw_iteration = cx_iteration_number c, aw_raw_event = None,
      aw_trace_id = cx_trace_id c, aw_notify_on_success = False, aw_notify_channels = [], aw_slack_webhook = None,
      aw_notify_email = None\<rparr>"

section \<open>The run\<close>

definition handle_max_iteration_exceeded :: "IterationWorkflowInput \<Rightarrow> IterationContext \<Rightarrow> iteration_effect list" where
  \<comment> \<open>both activities are attempted; their failures are swallowed\<close>
  "handle_max_iteration_exceeded w c =
     (let cap = MAX_ITERATIONS_PER_ISSUE;
          count = (case cx_current_count c of None \<Rightarrow> cap | Some n \<Rightarrow> n)
      in [AuditMaxExceeded (iw_department_id w) (iw_issue_key w) (cx_trace_id c) count cap,
          CommentMaxExceeded (iw_issue_key w) (iw_department_id w) cap count])"

definition declined :: "IterationWorkflowInput \<Rightarrow> IterationContext \<Rightarrow> 'o IterationWorkflowOutput \<times> iteration_effect list" where
  "declined w c =
     (\<lparr>io_decision = ''unauthorized'', io_iteration_number = cx_iteration_number c,
       io_workspace_path = cx_workspace_path c, io_reason = cx_reason c, io_child_workflow_id = None,
       io_automation_output = None\<rparr>,
      if cx_reason c = ''max_iteration_exceeded'' then handle_max_iteration_exceeded w c else [])"

definition run_child ::
  "'o iteration_env \<Rightarrow> IterationWorkflowInput \<Rightarrow> IterationContext \<Rightarrow> 'o IterationWorkflowOutput \<times> iteration_effect list" where
  "run_child env w c =
     (let out = (\<lambda>decision why child result.
            \<lparr>io_decision = decision, io_iteration_number = cx_iteration_number c,
             io_workspace_path = cx_workspace_path c, io_reason = why, io_child_workflow_id = child,
             io_automation_output = result\<rparr>);
          wid = cx_workflow_id c
      in if ie_start_raises env then (out ''failed'' ''child_dispatch_failed'' None None, [])
         else (case ie_child_result env of
                 None \<Rightarrow> out ''failed'' ''child_workflow_failed'' (Some wid) None
               | Some r \<Rightarrow> out ''dispatched'' [] (Some wid) (Some r),
               [StartChild wid (child_input w c)]))"

definition run_iteration ::
  "(pyval \<Rightarrow> pystr) \<Rightarrow> pystr \<Rightarrow> 'o iteration_env \<Rightarrow> pyval pydict \<Rightarrow> iteration_table \<Rightarrow>
     'o IterationWorkflowOutput \<times> iteration_effect list \<times> iteration_table" where
  "run_iteration repr base env d t =
     (let w = coerce_input repr d;
          (x, t') = prepare_iteration base (ie_activity env) (prepare_input w) (ie_read_raises env) (ie_insert_fails env) t
      in case x of
           None \<Rightarrow>
             (\<lparr>io_decision = ''failed'', io_iteration_number = 0, io_workspace_path = [],
               io_reason = ''prepare_iteration_exception'', io_child_workflow_id = None, io_automation_output = None\<rparr>,
              [], t')
         | Some c \<Rightarrow>
             let (out, effects) = (if \<not> authorized c then declined w c else run_child env w c)
             in (out, effects, t'))"

section \<open>Lemmas\<close>

lemma prepare_iteration_granted:
  assumes "prepare_iteration base env inp rr fails t = (Some c, t')"
  shows "if authorized c
         then \<exists>path. t' = t @ [iteration_row env inp (latest_iteration t (in_issue_key inp)) path] \<and>
                c = granted_result env inp (iteration_row env inp (latest_iteration t (in_issue_key inp)) path)
         else t' = t"
  using assms
  by (auto simp: prepare_iteration_def unauthorized_result_def granted_result_def split: if_splits prod.splits
      elim!: prepare_finish_cases)

section \<open>Properties\<close>

text \<open>
  A run allocates at most one iteration, and what it reports and starts is that iteration: either the
  table is unchanged, no child is started and the decision is a refusal or a failure; or one row is
  added, the output carries its number and workspace, and the child, if Temporal accepts it, runs
  under the row's workflow id and number. A child that cannot be started leaves the row behind.
\<close>

theorem run_iteration_allocates_once:
  "case run_iteration repr base env d t of
     (out, effects, t') \<Rightarrow>
       (t' = t \<and> io_decision out \<in> {''unauthorized'', ''failed''} \<and> io_child_workflow_id out = None \<and>
        list_all (\<lambda>e. case e of StartChild _ _ \<Rightarrow> False | _ \<Rightarrow> True) effects) \<or>
       (\<exists>r. t' = t @ [r] \<and> io_iteration_number out = it_number r \<and> io_workspace_path out = it_workspace_path r \<and>
          (if ie_start_raises env then effects = [] \<and> io_decision out = ''failed''
           else (\<exists>i. effects = [StartChild (it_workflow_id r) i] \<and> aw_iteration i = it_number r) \<and>
                (io_decision out = ''dispatched'' \<longleftrightarrow> ie_child_result env \<noteq> None)))"
proof -
  let ?w = "coerce_input repr d"
  obtain x t' where p: "prepare_iteration base (ie_activity env) (prepare_input ?w) (ie_read_raises env)
      (ie_insert_fails env) t = (x, t')" by fastforce
  show ?thesis
  proof (cases x)
    case None
    with p have "t' = t" by (auto simp: prepare_iteration_def split: if_splits prod.splits)
    with p None show ?thesis by (simp add: run_iteration_def)
  next
    case (Some c)
    note g = prepare_iteration_granted [OF p [unfolded Some]]
    show ?thesis
    proof (cases "authorized c")
      case True
      with g p Some show ?thesis
        by (auto simp: run_iteration_def run_child_def Let_def granted_result_def child_input_def split: option.splits)
    next
      case False
      with g p Some show ?thesis
        by (auto simp: run_iteration_def declined_def handle_max_iteration_exceeded_def Let_def)
    qed
  qed
qed

end
