(* ===== verification/Description_Parser.thy ===== *)
theory Description_Parser
  imports Python_Text
begin

text \<open>
  \<^verbatim>\<open>workers/automation-worker/.../activities/description_parser.py\<close>: the YAML block at the head of an issue
  description. The pattern that delimits the block is written out as the search the regular-expression engine
  makes (greedy white space first, then the shortest body). \<open>yaml.safe_load\<close> is the parameter \<open>yaml\<close> (\<open>None\<close>
  when the package is missing; its value \<open>None\<close> for a \<open>YAMLError\<close>); the mappings it returns have string keys.
  Error texts are the values of \<open>field_error\<close>.
\<close>

section \<open>Vocabulary\<close>

definition VALID_WORKFLOW_TYPES :: "pystr list" where
  "VALID_WORKFLOW_TYPES =
     [''code_change_with_test'', ''code_change_commit_only'', ''pr_review'', ''remote_ssh_test_only'',
      ''script_execute'', ''confluence_doc_create'', ''confluence_doc_update'', ''research_publish_confluence'',
      ''research_summary_jira'', ''research_basic'', ''research_with_web'', ''multi_step'', ''noop_test'']"

definition WORKFLOW_TYPE_ALIASES :: "pystr pydict" where
  "WORKFLOW_TYPE_ALIASES =
     [(''research'', ''research_basic''), (''research_web'', ''research_with_web''),
      (''doc_generation'', ''confluence_doc_create''), (''po_review_request'', ''pr_review''),
      (''test'', ''remote_ssh_test_only'')]"

definition VALID_CLEANUP_POLICIES :: "pystr list" where
  "VALID_CLEANUP_POLICIES = [''on_success'', ''always'', ''never'']"

definition TIMEOUT_SECONDS_MIN :: int where "TIMEOUT_SECONDS_MIN = 60"

definition TIMEOUT_SECONDS_MAX :: int where "TIMEOUT_SECONDS_MAX = 7200"

definition VALID_OUTPUT_TYPES :: "pystr list" where
  "VALID_OUTPUT_TYPES =
     [''jira_comment'', ''jira_attachment'', ''bitbucket_commit'', ''bitbucket_create_pr'',
      ''confluence_create_page'', ''confluence_update_page'', ''jira_transition'']"

definition OUTPUT_TYPE_ALIASES :: "pystr pydict" where
  "OUTPUT_TYPE_ALIASES =
     [(''bitbucket_put_file'', ''bitbucket_commit''), (''bitbucket_pr'', ''bitbucket_create_pr''),
      (''confluence_page'', ''confluence_create_page'')]"

definition COMMAND_FIELDS :: "pystr list" where
  "COMMAND_FIELDS = [''execution_command'', ''test_command'', ''command'', ''script'', ''commands'']"

definition COMMAND_LENGTH_MAX :: nat where "COMMAND_LENGTH_MAX = 8000"

definition IDENTIFIER_PARAM_KEYS :: "pystr list" where
  "IDENTIFIER_PARAM_KEYS =
     [''project_key'', ''repo_slug'', ''workspace'', ''space_key'', ''branch'', ''source_branch'',
      ''target_branch'', ''from_branch'', ''to_branch'']"

definition alias_of :: "pystr pydict \<Rightarrow> pystr \<Rightarrow> pystr" where
  \<comment> \<open>\<open>table.get(x, x)\<close>\<close>
  "alias_of table x = (case dict_get table x of None \<Rightarrow> x | Some y \<Rightarrow> y)"

datatype field_error =
    ExpectedString pystr pystr
  | EmptyString pystr
  | ExpectedBoolean pystr pystr
  | ExpectedInteger pystr
  | InvalidValue pystr pystr
  | TimeoutOutOfRange int
  | ItemExpectedString pystr nat pystr
  | ItemEmpty pystr nat
  | EmptyCommandList pystr
  | ExpectedStringOrList pystr pystr
  | ForbiddenCharacters pystr
  | CommandTooLong pystr nat
  | OutputExpectedList pystr
  | OutputExpectedMapping nat pystr
  | OutputMissingType nat
  | OutputInvalidType nat pystr
  | OutputParamsNotMapping nat pystr

record ParsedFrontMatter =
  fm_workflow_type :: "pystr option"
  fm_repo :: "pystr option"
  fm_branch :: "pystr option"
  fm_needs_ssh :: "bool option"
  fm_needs_docker :: "bool option"
  fm_execution_command :: "pystr option"
  fm_cleanup :: "pystr option"
  fm_timeout_seconds :: "int option"
  fm_web_search :: "bool option"
  fm_output :: "pyval list option"
  fm_parse_errors :: "field_error list"

type_synonym 'a coerced = "'a option \<times> field_error option"

section \<open>Identifiers that Jira rendered as markup\<close>

definition is_alnum :: "char \<Rightarrow> bool" where
  "is_alnum c \<longleftrightarrow> is_upper c \<or> is_lower c \<or> is_digit c"

fun restore_from :: "char option \<Rightarrow> pystr \<Rightarrow> pystr" where
  \<comment> \<open>the substitution behind the given character of the original text\<close>
  "restore_from prev [] = []"
| "restore_from prev (c # cs) =
     (if c = CHR ''*'' \<and> (case prev of None \<Rightarrow> False | Some p \<Rightarrow> is_alnum p) \<and> cs \<noteq> [] \<and> is_alnum (hd cs)
      then CHR ''_'' else c) # restore_from (Some c) cs"

definition restore_jira_identifier_markup :: "pystr \<Rightarrow> pystr" where
  "restore_jira_identifier_markup s = restore_from None s"

definition identifier_value_re :: "pystr \<Rightarrow> bool" where
  \<comment> \<open>\<open>fullmatch\<close> of \<^verbatim>\<open>^[A-Za-z0-9][A-Za-z0-9*._/-]*$\<close>\<close>
  "identifier_value_re s =
     (case s of
        [] \<Rightarrow> False
      | c # cs \<Rightarrow> is_alnum c \<and> list_all (\<lambda>d. is_alnum d \<or> d \<in> set ''*._/-'') cs)"

definition restore_jira_identifier_value :: "pystr \<Rightarrow> pystr" where
  "restore_jira_identifier_value s =
     (if CHR ''*'' \<notin> set s \<or> \<not> identifier_value_re s then s else restore_jira_identifier_markup s)"

definition dict_of_items :: "(pystr \<times> 'v) list \<Rightarrow> 'v pydict" where
  \<comment> \<open>a dictionary comprehension: a later item with the same key replaces the earlier value\<close>
  "dict_of_items kvs = foldl (\<lambda>d (k, v). dict_set k v d) [] kvs"

primrec normalise_mapping_keys :: "pyval \<Rightarrow> pyval" where
  "normalise_mapping_keys PNone = PNone"
| "normalise_mapping_keys (PBool b) = PBool b"
| "normalise_mapping_keys (PInt i) = PInt i"
| "normalise_mapping_keys (PFloat r) = PFloat r"
| "normalise_mapping_keys (PStr s) = PStr s"
| "normalise_mapping_keys (PList xs) = PList (map normalise_mapping_keys xs)"
| "normalise_mapping_keys (PTuple xs) = PTuple xs"
| "normalise_mapping_keys (PDict d) =
     PDict (dict_of_items (map (map_prod restore_jira_identifier_markup id) (map (map_prod id normalise_mapping_keys) d)))"

definition normalise_identifier_params :: "pyval pydict \<Rightarrow> pyval pydict" where
  "normalise_identifier_params params =
     map (\<lambda>(k, v). (k, case v of PStr s \<Rightarrow> if k \<in> set IDENTIFIER_PARAM_KEYS then PStr (restore_jira_identifier_value s) else v
                            | _ \<Rightarrow> v)) params"

section \<open>Coercion of one field\<close>

definition coerce_str :: "pyval \<Rightarrow> pystr \<Rightarrow> bool \<Rightarrow> pystr coerced" where
  "coerce_str v name allow_empty =
     (case v of
        PNone \<Rightarrow> (None, None)
      | PStr s \<Rightarrow>
          let stripped = strip s
          in if stripped = [] \<and> \<not> allow_empty then (None, Some (EmptyString name))
             else (Some (if name = ''repo'' \<or> name = ''branch'' then restore_jira_identifier_value stripped
                         else stripped), None)
      | _ \<Rightarrow> (None, Some (ExpectedString name (type_name v))))"

definition coerce_bool :: "pyval \<Rightarrow> pystr \<Rightarrow> bool coerced" where
  "coerce_bool v name =
     (case v of
        PNone \<Rightarrow> (None, None)
      | PBool b \<Rightarrow> (Some b, None)
      | _ \<Rightarrow> (None, Some (ExpectedBoolean name (type_name v))))"

definition coerce_workflow_type :: "pyval \<Rightarrow> pystr coerced" where
  "coerce_workflow_type v =
     (let (x, err) = coerce_str v ''workflow_type'' False
      in case x of
           None \<Rightarrow> (None, err)
         | Some s \<Rightarrow>
             if err \<noteq> None then (None, err)
             else let t = alias_of WORKFLOW_TYPE_ALIASES (restore_jira_identifier_markup s)
                  in if t \<notin> set VALID_WORKFLOW_TYPES then (None, Some (InvalidValue ''workflow_type'' t))
                     else (Some t, None))"

definition coerce_cleanup :: "pyval \<Rightarrow> pystr coerced" where
  "coerce_cleanup v =
     (let (x, err) = coerce_str v ''cleanup'' False
      in case x of
           None \<Rightarrow> (None, err)
         | Some s \<Rightarrow>
             if err \<noteq> None then (None, err)
             else if s \<notin> set VALID_CLEANUP_POLICIES then (None, Some (InvalidValue ''cleanup'' s))
             else (Some s, None))"

definition coerce_timeout_seconds :: "pyval \<Rightarrow> int coerced" where
  "coerce_timeout_seconds v =
     (case v of
        PNone \<Rightarrow> (None, None)
      | PInt i \<Rightarrow>
          if i < TIMEOUT_SECONDS_MIN \<or> i > TIMEOUT_SECONDS_MAX then (None, Some (TimeoutOutOfRange i))
          else (Some i, None)
      | _ \<Rightarrow> (None, Some (ExpectedInteger (type_name v))))"

fun command_parts :: "pystr \<Rightarrow> nat \<Rightarrow> pyval list \<Rightarrow> field_error + pystr list" where
  \<comment> \<open>the loop over a list of commands\<close>
  "command_parts name i [] = Inr []"
| "command_parts name i (v # vs) =
     (case v of
        PStr s \<Rightarrow>
          if strip s = [] then Inl (ItemEmpty name i)
          else rbind (command_parts name (Suc i) vs) (\<lambda>ps. Inr (strip s # ps))
      | _ \<Rightarrow> Inl (ItemExpectedString name i (type_name v)))"

definition check_command :: "pystr \<Rightarrow> pystr \<Rightarrow> pystr coerced" where
  "check_command command name =
     (if CHR 0x00 \<in> set command \<or> CHR 0x0D \<in> set command then (None, Some (ForbiddenCharacters name))
      else if length command > COMMAND_LENGTH_MAX then (None, Some (CommandTooLong name (length command)))
      else (Some command, None))"

definition coerce_command :: "pyval \<Rightarrow> pystr \<Rightarrow> pystr coerced" where
  "coerce_command v name =
     (case v of
        PNone \<Rightarrow> (None, None)
      | PStr s \<Rightarrow> if strip s = [] then (None, Some (EmptyString name)) else check_command (strip s) name
      | PList vs \<Rightarrow>
          (case command_parts name 0 vs of
             Inl e \<Rightarrow> (None, Some e)
           | Inr parts \<Rightarrow>
               let command = join_with '' && '' parts
               in if command = [] then (None, Some (EmptyCommandList name)) else check_command command name)
      | _ \<Rightarrow> (None, Some (ExpectedStringOrList name (type_name v))))"

definition coerce_action :: "nat \<Rightarrow> pyval \<Rightarrow> field_error + pyval" where
  \<comment> \<open>one round of the loop of \<open>_coerce_output\<close>\<close>
  "coerce_action i v =
     (let raw = (case v of PStr s \<Rightarrow> PDict [(''type'', PStr (strip s)), (''params'', PDict [])] | _ \<Rightarrow> v)
      in case as_dict raw of
           None \<Rightarrow> Inl (OutputExpectedMapping i (type_name raw))
         | Some d \<Rightarrow>
             (case get_or_none d ''type'' of
                PStr t \<Rightarrow>
                  if strip t = [] then Inl (OutputMissingType i)
                  else let canonical = alias_of OUTPUT_TYPE_ALIASES (restore_jira_identifier_markup (strip t))
                       in if canonical \<notin> set VALID_OUTPUT_TYPES then Inl (OutputInvalidType i t)
                          else (case get_or_none d ''params'' of
                                  PNone \<Rightarrow> Inr (PDict [(''type'', PStr canonical), (''params'', PDict [])])
                                | PDict ps \<Rightarrow> Inr (PDict [(''type'', PStr canonical),
                                                      (''params'', PDict (normalise_identifier_params ps))])
                                | p \<Rightarrow> Inl (OutputParamsNotMapping i (type_name p)))
              | _ \<Rightarrow> Inl (OutputMissingType i)))"

fun coerce_actions :: "nat \<Rightarrow> pyval list \<Rightarrow> pyval list \<times> field_error list" where
  "coerce_actions i [] = ([], [])"
| "coerce_actions i (v # vs) =
     (let (as, es) = coerce_actions (Suc i) vs
      in case coerce_action i v of Inl e \<Rightarrow> (as, e # es) | Inr a \<Rightarrow> (a # as, es))"

definition coerce_output :: "pyval \<Rightarrow> pyval list option \<times> field_error list" where
  "coerce_output v =
     (case v of
        PNone \<Rightarrow> (None, [])
      | PList vs \<Rightarrow> let (as, es) = coerce_actions 0 vs in (Some as, es)
      | _ \<Rightarrow> (None, [OutputExpectedList (type_name v)]))"

section \<open>The block\<close>

definition is_dash :: "char \<Rightarrow> bool" where
  "is_dash c \<longleftrightarrow> c = CHR ''-''"

definition closes :: "pystr \<Rightarrow> bool" where
  \<comment> \<open>the text starts with \<^verbatim>\<open>\n-{3,}\s*(?:\n|$)\<close>\<close>
  "closes s =
     (case s of
        [] \<Rightarrow> False
      | c # t \<Rightarrow>
          c = newline \<and> 3 \<le> length (takeWhile is_dash t) \<and>
          (let r = dropWhile is_dash t; w = takeWhile is_space r in newline \<in> set w \<or> r = w))"

fun body_until :: "pystr \<Rightarrow> pystr option" where
  \<comment> \<open>the shortest body in front of a closing line\<close>
  "body_until [] = None"
| "body_until (c # cs) = (if closes (c # cs) then Some [] else map_option (Cons c) (body_until cs))"

fun after_newlines :: "pystr \<Rightarrow> pystr list" where
  \<comment> \<open>what follows each newline of the leading white space\<close>
  "after_newlines [] = []"
| "after_newlines (c # cs) =
     (if \<not> is_space c then []
      else if c = newline then cs # after_newlines cs else after_newlines cs)"

fun first_some :: "'a option list \<Rightarrow> 'a option" where
  "first_some [] = None"
| "first_some (None # xs) = first_some xs"
| "first_some (Some x # xs) = Some x"

definition extract_front_matter_body :: "pystr \<Rightarrow> pystr option" where
  \<comment> \<open>\<open>match\<close> of \<^verbatim>\<open>\A\s*-{3,}\s*\n(?P<body>.*?)\n-{3,}\s*(?:\n|$)\<close> with \<open>DOTALL\<close>\<close>
  "extract_front_matter_body d =
     (let s = dropWhile is_space d
      in if length (takeWhile is_dash s) < 3 then None
         else first_some (map body_until (rev (after_newlines (dropWhile is_dash s)))))"

fun first_command :: "pyval pydict \<Rightarrow> pystr list \<Rightarrow> pystr coerced" where
  \<comment> \<open>the first of the command fields the block has decides\<close>
  "first_command d [] = (None, None)"
| "first_command d (f # fs) =
     (case dict_get d f of None \<Rightarrow> first_command d fs | Some v \<Rightarrow> coerce_command v f)"

definition ai_bot_block :: "pyval \<Rightarrow> pyval pydict option" where
  "ai_bot_block parsed =
     (case normalise_mapping_keys parsed of
        PDict d \<Rightarrow>
          (case get_or_none d ''ai-bot'' of
             PNone \<Rightarrow> as_dict (get_or_none d ''ai_bot'')
           | v \<Rightarrow> as_dict v)
      | _ \<Rightarrow> None)"

definition output_field :: "pyval pydict \<Rightarrow> pyval" where
  "output_field d = (case dict_get d ''output'' of None \<Rightarrow> get_or_none d ''output_actions'' | Some v \<Rightarrow> v)"

definition option_list :: "'a option \<Rightarrow> 'a list" where
  "option_list x = (case x of None \<Rightarrow> [] | Some y \<Rightarrow> [y])"

definition parse_block :: "pyval pydict \<Rightarrow> ParsedFrontMatter" where
  "parse_block d =
     (let (wt, e1) = coerce_workflow_type (get_or_none d ''workflow_type'');
          (repo, e2) = coerce_str (get_or_none d ''repo'') ''repo'' False;
          (branch, e3) = coerce_str (get_or_none d ''branch'') ''branch'' False;
          (ssh, e4) = coerce_bool (get_or_none d ''needs_ssh'') ''needs_ssh'';
          (docker, e5) = coerce_bool (get_or_none d ''needs_docker'') ''needs_docker'';
          (command, e6) = first_command d COMMAND_FIELDS;
          (cleanup, e7) = coerce_cleanup (get_or_none d ''cleanup'');
          (timeout, e8) = coerce_timeout_seconds (get_or_none d ''timeout_seconds'');
          (web, e9) = coerce_bool (get_or_none d ''web_search'') ''web_search'';
          (output, es) = coerce_output (output_field d)
      in \<lparr>fm_workflow_type = wt, fm_repo = repo, fm_branch = branch, fm_needs_ssh = ssh, fm_needs_docker = docker,
          fm_execution_command = command, fm_cleanup = cleanup, fm_timeout_seconds = timeout,
          fm_web_search = web, fm_output = output,
          fm_parse_errors = concat (map option_list [e1, e2, e3, e4, e5, e6, e7, e8, e9]) @ es\<rparr>)"

definition parse_description_frontmatter ::
  "(pystr \<Rightarrow> pyval option) option \<Rightarrow> pystr option \<Rightarrow> ParsedFrontMatter option" where
  "parse_description_frontmatter yaml description =
     (case description of
        None \<Rightarrow> None
      | Some text \<Rightarrow>
          (case extract_front_matter_body text of
             None \<Rightarrow> None
           | Some body \<Rightarrow>
               (case yaml of
                  None \<Rightarrow> None
                | Some safe_load \<Rightarrow>
                    (case safe_load body of
                       None \<Rightarrow> None
                     | Some parsed \<Rightarrow> map_option parse_block (ai_bot_block parsed)))))"

section \<open>Lemmas\<close>

lemma length_restore_from [simp]: "length (restore_from p s) = length s"
  by (induction p s rule: restore_from.induct) simp_all

lemma restore_value_nonempty [simp]: "restore_jira_identifier_value s = [] \<longleftrightarrow> s = []"
proof -
  have "restore_from None s = [] \<longleftrightarrow> s = []" using length_restore_from [of None s] by (cases s) auto
  then show ?thesis by (simp add: restore_jira_identifier_value_def restore_jira_identifier_markup_def)
qed

lemma alnum_not_star: "is_alnum c \<Longrightarrow> c \<noteq> CHR ''*''"
  by (auto simp: is_alnum_def char_range_def)

lemma restore_from_idem:
  assumes "case q of None \<Rightarrow> True | Some x \<Rightarrow> is_alnum x \<longrightarrow> q = p"
  shows "restore_from q (restore_from p s) = restore_from p s"
  using assms
proof (induction p s arbitrary: q rule: restore_from.induct)
  case (2 p c cs)
  define c' where "c' = (if c = CHR ''*'' \<and> (case p of None \<Rightarrow> False | Some p \<Rightarrow> is_alnum p) \<and> cs \<noteq> [] \<and> is_alnum (hd cs)
    then CHR ''_'' else c)"
  let ?R = "restore_from (Some c) cs"
  have R: "?R = [] \<longleftrightarrow> cs = []" "cs \<noteq> [] \<Longrightarrow> is_alnum (hd ?R) \<longleftrightarrow> is_alnum (hd cs)"
    by (cases cs; auto simp: is_alnum_def char_range_def)+
  have "restore_from (Some c') ?R = ?R"
    by (rule "2.IH") (auto simp: c'_def is_alnum_def char_range_def)
  moreover have "\<not> (c' = CHR ''*'' \<and> (case q of None \<Rightarrow> False | Some p \<Rightarrow> is_alnum p) \<and> ?R \<noteq> [] \<and> is_alnum (hd ?R))"
    using "2.prems" R by (auto simp: c'_def split: option.splits if_splits)
  ultimately have "restore_from q (c' # ?R) = c' # ?R" by (simp only: restore_from.simps(2) if_False)
  then show ?case by (simp only: restore_from.simps(2) [of p] c'_def)
qed simp

lemma restore_markup_idem [simp]:
  "restore_jira_identifier_markup (restore_jira_identifier_markup s) = restore_jira_identifier_markup s"
  by (simp add: restore_jira_identifier_markup_def restore_from_idem)

lemma coerce_str_Some:
  "fst (coerce_str v n False) = Some s \<Longrightarrow> s \<noteq> []"
  by (auto simp: coerce_str_def Let_def split: pyval.splits if_splits)

lemma coerce_str_error: "snd (coerce_str v n False) = None \<longleftrightarrow> (fst (coerce_str v n False) \<noteq> None) = (v \<noteq> PNone)"
  by (cases v) (auto simp: coerce_str_def Let_def)

lemma coerce_bool_error: "snd (coerce_bool v n) = None \<longleftrightarrow> (fst (coerce_bool v n) \<noteq> None) = (v \<noteq> PNone)"
  by (cases v) (auto simp: coerce_bool_def)

lemma coerce_workflow_type_Some: "fst (coerce_workflow_type v) = Some t \<Longrightarrow> t \<in> set VALID_WORKFLOW_TYPES"
  by (auto simp: coerce_workflow_type_def Let_def split: prod.splits option.splits if_splits)

lemma coerce_str_cases:
  obtains (absent) "v = PNone" "coerce_str v n False = (None, None)"
    | (bad) e where "v \<noteq> PNone" "coerce_str v n False = (None, Some e)"
    | (good) s where "v \<noteq> PNone" "coerce_str v n False = (Some s, None)"
proof (cases v)
  case (PStr s)
  then show thesis using bad good by (cases "strip s = []") (simp_all add: coerce_str_def Let_def)
qed (use absent bad in \<open>simp_all add: coerce_str_def\<close>)

lemma coerce_workflow_type_error:
  "snd (coerce_workflow_type v) = None \<longleftrightarrow> (fst (coerce_workflow_type v) \<noteq> None) = (v \<noteq> PNone)"
  by (cases rule: coerce_str_cases [of v "''workflow_type''"]) (auto simp: coerce_workflow_type_def Let_def)

lemma coerce_cleanup_Some: "fst (coerce_cleanup v) = Some t \<Longrightarrow> t \<in> set VALID_CLEANUP_POLICIES"
  by (auto simp: coerce_cleanup_def Let_def split: prod.splits option.splits if_splits)

lemma coerce_cleanup_error: "snd (coerce_cleanup v) = None \<longleftrightarrow> (fst (coerce_cleanup v) \<noteq> None) = (v \<noteq> PNone)"
  by (cases rule: coerce_str_cases [of v "''cleanup''"]) (auto simp: coerce_cleanup_def Let_def)

lemma coerce_timeout_Some:
  "fst (coerce_timeout_seconds v) = Some i \<Longrightarrow> TIMEOUT_SECONDS_MIN \<le> i \<and> i \<le> TIMEOUT_SECONDS_MAX"
  by (auto simp: coerce_timeout_seconds_def split: pyval.splits if_splits)

lemma coerce_timeout_error:
  "snd (coerce_timeout_seconds v) = None \<longleftrightarrow> (fst (coerce_timeout_seconds v) \<noteq> None) = (v \<noteq> PNone)"
  by (cases v) (auto simp: coerce_timeout_seconds_def)

definition command_ok :: "pystr \<Rightarrow> bool" where
  "command_ok c \<longleftrightarrow> c \<noteq> [] \<and> length c \<le> COMMAND_LENGTH_MAX \<and> CHR 0x00 \<notin> set c \<and> CHR 0x0D \<notin> set c"

lemma check_command_Some: "fst (check_command c n) = Some s \<Longrightarrow> c \<noteq> [] \<Longrightarrow> command_ok s"
  by (auto simp: check_command_def command_ok_def split: if_splits)

lemma check_command_error: "snd (check_command c n) = None \<longleftrightarrow> fst (check_command c n) \<noteq> None"
  by (simp add: check_command_def)

lemma coerce_command_Some: "fst (coerce_command v n) = Some s \<Longrightarrow> command_ok s"
  by (auto simp: coerce_command_def Let_def dest: check_command_Some split: pyval.splits if_splits sum.splits)

lemma coerce_command_error:
  "snd (coerce_command v n) = None \<longleftrightarrow> (fst (coerce_command v n) \<noteq> None) = (v \<noteq> PNone)"
  by (cases v) (auto simp: coerce_command_def check_command_error Let_def split: sum.splits)

definition given_command :: "pyval pydict \<Rightarrow> pyval" where
  \<comment> \<open>the value of the first command field the block has\<close>
  "given_command d =
     (case find (\<lambda>f. dict_get d f \<noteq> None) COMMAND_FIELDS of None \<Rightarrow> PNone | Some f \<Rightarrow> get_or_none d f)"

lemma first_command_Some: "fst (first_command d fs) = Some s \<Longrightarrow> command_ok s"
  by (induction fs) (auto dest: coerce_command_Some split: option.splits)

lemma first_command_given:
  "first_command d fs =
     (case find (\<lambda>f. dict_get d f \<noteq> None) fs of None \<Rightarrow> (None, None) | Some f \<Rightarrow> coerce_command (get_or_none d f) f)"
  by (induction fs) (auto simp: get_or_none_def split: option.splits)

lemma first_command_error:
  "snd (first_command d COMMAND_FIELDS) = None \<longleftrightarrow>
     (fst (first_command d COMMAND_FIELDS) \<noteq> None) = (given_command d \<noteq> PNone)"
  by (simp add: first_command_given given_command_def coerce_command_error split: option.splits)

definition action_ok :: "pyval \<Rightarrow> bool" where
  "action_ok a \<longleftrightarrow> (\<exists>t ps. a = PDict [(''type'', PStr t), (''params'', PDict ps)] \<and> t \<in> set VALID_OUTPUT_TYPES)"

lemma coerce_action_ok: "coerce_action i v = Inr a \<Longrightarrow> action_ok a"
  by (auto simp: coerce_action_def action_ok_def Let_def split: pyval.splits option.splits if_splits)

lemma coerce_actions_ok: "list_all action_ok (fst (coerce_actions i vs))"
  by (induction i vs rule: coerce_actions.induct)
     (auto dest: coerce_action_ok split: prod.splits sum.splits)

lemma coerce_actions_count: "length (fst (coerce_actions i vs)) + length (snd (coerce_actions i vs)) = length vs"
  by (induction i vs rule: coerce_actions.induct) (auto split: prod.splits sum.splits)

lemma coerce_actions_error: "snd (coerce_actions i vs) = [] \<longleftrightarrow> length (fst (coerce_actions i vs)) = length vs"
  using coerce_actions_count [of i vs] by (cases "snd (coerce_actions i vs)") auto

lemma coerce_output_error:
  "snd (coerce_output v) = [] \<longleftrightarrow>
     (case v of PNone \<Rightarrow> True
      | PList vs \<Rightarrow> \<exists>as. fst (coerce_output v) = Some as \<and> length as = length vs
      | _ \<Rightarrow> False)"
  by (cases v) (simp_all add: coerce_output_def split_beta coerce_actions_error)

lemma option_list_Nil [simp]: "option_list x = [] \<longleftrightarrow> x = None"
  by (cases x) (simp_all add: option_list_def)

lemma parse_block_sel:
  "fm_workflow_type (parse_block d) = fst (coerce_workflow_type (get_or_none d ''workflow_type''))"
  "fm_repo (parse_block d) = fst (coerce_str (get_or_none d ''repo'') ''repo'' False)"
  "fm_branch (parse_block d) = fst (coerce_str (get_or_none d ''branch'') ''branch'' False)"
  "fm_needs_ssh (parse_block d) = fst (coerce_bool (get_or_none d ''needs_ssh'') ''needs_ssh'')"
  "fm_needs_docker (parse_block d) = fst (coerce_bool (get_or_none d ''needs_docker'') ''needs_docker'')"
  "fm_execution_command (parse_block d) = fst (first_command d COMMAND_FIELDS)"
  "fm_cleanup (parse_block d) = fst (coerce_cleanup (get_or_none d ''cleanup''))"
  "fm_timeout_seconds (parse_block d) = fst (coerce_timeout_seconds (get_or_none d ''timeout_seconds''))"
  "fm_web_search (parse_block d) = fst (coerce_bool (get_or_none d ''web_search'') ''web_search'')"
  "fm_output (parse_block d) = fst (coerce_output (output_field d))"
  by (simp_all add: parse_block_def Let_def split_beta)

lemma parse_block_errors:
  "fm_parse_errors (parse_block d) = [] \<longleftrightarrow>
     snd (coerce_workflow_type (get_or_none d ''workflow_type'')) = None \<and>
     snd (coerce_str (get_or_none d ''repo'') ''repo'' False) = None \<and>
     snd (coerce_str (get_or_none d ''branch'') ''branch'' False) = None \<and>
     snd (coerce_bool (get_or_none d ''needs_ssh'') ''needs_ssh'') = None \<and>
     snd (coerce_bool (get_or_none d ''needs_docker'') ''needs_docker'') = None \<and>
     snd (first_command d COMMAND_FIELDS) = None \<and>
     snd (coerce_cleanup (get_or_none d ''cleanup'')) = None \<and>
     snd (coerce_timeout_seconds (get_or_none d ''timeout_seconds'')) = None \<and>
     snd (coerce_bool (get_or_none d ''web_search'') ''web_search'') = None \<and>
     snd (coerce_output (output_field d)) = []"
  by (simp add: parse_block_def Let_def split_beta)

lemma parse_frontmatter_block:
  assumes "parse_description_frontmatter yaml description = Some p"
  obtains d where "p = parse_block d"
  using assms by (auto simp: parse_description_frontmatter_def split: option.splits)

section \<open>Properties\<close>

text \<open>
  Whatever a user writes into the block and whatever the YAML library makes of it, the fields that are handed on
  are in range: the workflow type and the cleanup policy are known ones, the timeout is between one minute and
  two hours, a command is not empty, at most 8000 characters long and free of NUL and carriage returns, repository and
  branch are not empty, and every output action has a known type.
\<close>

theorem front_matter_fields_in_range:
  assumes "parse_description_frontmatter yaml description = Some p"
  shows "pred_option (\<lambda>t. t \<in> set VALID_WORKFLOW_TYPES) (fm_workflow_type p) \<and>
    pred_option (\<lambda>t. t \<in> set VALID_CLEANUP_POLICIES) (fm_cleanup p) \<and>
    pred_option (\<lambda>i. 60 \<le> i \<and> i \<le> 7200) (fm_timeout_seconds p) \<and>
    pred_option (\<lambda>c. c \<noteq> [] \<and> length c \<le> 8000 \<and> CHR 0x00 \<notin> set c \<and> CHR 0x0D \<notin> set c) (fm_execution_command p) \<and>
    pred_option (\<lambda>r. r \<noteq> []) (fm_repo p) \<and> pred_option (\<lambda>b. b \<noteq> []) (fm_branch p) \<and>
    pred_option (list_all action_ok) (fm_output p)"
proof -
  obtain d where p: "p = parse_block d" using assms by (rule parse_frontmatter_block)
  have out: "list_all action_ok as" if "fst (coerce_output v) = Some as" for v as
    using that coerce_actions_ok [of 0] by (auto simp: coerce_output_def split: pyval.splits prod.splits)
      (metis fst_conv)
  have cmd: "c \<noteq> [] \<and> length c \<le> 8000 \<and> CHR 0x00 \<notin> set c \<and> CHR 0x0D \<notin> set c"
    if "fst (first_command d COMMAND_FIELDS) = Some c" for c
    using first_command_Some [OF that] by (simp add: command_ok_def COMMAND_LENGTH_MAX_def)
  have tm: "60 \<le> i \<and> i \<le> 7200" if "fst (coerce_timeout_seconds v) = Some i" for v i
    using coerce_timeout_Some [OF that] by (simp add: TIMEOUT_SECONDS_MIN_def TIMEOUT_SECONDS_MAX_def)
  show ?thesis
    unfolding p parse_block_sel option.pred_set
    by (intro conjI ballI) (auto dest: coerce_workflow_type_Some coerce_cleanup_Some tm cmd coerce_str_Some out)
qed

definition demo_block :: pyval where
  "demo_block = PDict [(''ai*bot'', PDict [(''workflow_type'', PStr '' test ''), (''repo'', PStr ''a*b''),
     (''timeout_seconds'', PInt 30), (''commands'', PList [PStr ''make '', PStr ''make check''])])]"

theorem front_matter_fields_in_range_witness:
  "\<exists>p. parse_description_frontmatter (Some (\<lambda>_. Some demo_block)) (Some ([newline] @ ''---'' @ [newline] @ ''x'' @ [newline] @ ''----'')) = Some p \<and>
     fm_workflow_type p = Some ''remote_ssh_test_only'' \<and> fm_repo p = Some ''a_b'' \<and> fm_timeout_seconds p = None \<and>
     fm_execution_command p = Some ''make && make check'' \<and>
     pred_option (\<lambda>c. c \<noteq> [] \<and> length c \<le> 8000 \<and> CHR 0x00 \<notin> set c \<and> CHR 0x0D \<notin> set c) (fm_execution_command p)"
proof -
  let ?t = "Some ([newline] @ ''---'' @ [newline] @ ''x'' @ [newline] @ ''----'')"
  let ?d = "[(''workflow_type'', PStr '' test ''), (''repo'', PStr ''a*b''),
     (''timeout_seconds'', PInt 30), (''commands'', PList [PStr ''make '', PStr ''make check''])]"
  have p: "parse_description_frontmatter (Some (\<lambda>_. Some demo_block)) ?t = Some (parse_block ?d)" by code_simp
  have f: "fm_workflow_type (parse_block ?d) = Some ''remote_ssh_test_only''" "fm_repo (parse_block ?d) = Some ''a_b''"
    "fm_timeout_seconds (parse_block ?d) = None" "fm_execution_command (parse_block ?d) = Some ''make && make check''"
    by code_simp+
  show ?thesis using front_matter_fields_in_range [OF p] p f by blast
qed

text \<open>
  Nothing the block says is dropped without a message: no error is reported exactly when every field that is given
  is taken (for the command, the first of the five spellings that is present) and no output action is lost.
\<close>

theorem front_matter_reports_dropped_fields:
  "fm_parse_errors (parse_block d) = [] \<longleftrightarrow>
     (fm_workflow_type (parse_block d) \<noteq> None) = (get_or_none d ''workflow_type'' \<noteq> PNone) \<and>
     (fm_repo (parse_block d) \<noteq> None) = (get_or_none d ''repo'' \<noteq> PNone) \<and>
     (fm_branch (parse_block d) \<noteq> None) = (get_or_none d ''branch'' \<noteq> PNone) \<and>
     (fm_needs_ssh (parse_block d) \<noteq> None) = (get_or_none d ''needs_ssh'' \<noteq> PNone) \<and>
     (fm_needs_docker (parse_block d) \<noteq> None) = (get_or_none d ''needs_docker'' \<noteq> PNone) \<and>
     (fm_execution_command (parse_block d) \<noteq> None) = (given_command d \<noteq> PNone) \<and>
     (fm_cleanup (parse_block d) \<noteq> None) = (get_or_none d ''cleanup'' \<noteq> PNone) \<and>
     (fm_timeout_seconds (parse_block d) \<noteq> None) = (get_or_none d ''timeout_seconds'' \<noteq> PNone) \<and>
     (fm_web_search (parse_block d) \<noteq> None) = (get_or_none d ''web_search'' \<noteq> PNone) \<and>
     (case output_field d of
        PNone \<Rightarrow> True
      | PList vs \<Rightarrow> \<exists>as. fm_output (parse_block d) = Some as \<and> length as = length vs
      | _ \<Rightarrow> False)"
  unfolding parse_block_errors parse_block_sel coerce_workflow_type_error coerce_str_error coerce_bool_error
    first_command_error coerce_cleanup_error coerce_timeout_error coerce_output_error by (rule refl)

end
