(* ===== verification/Task_Analyzer.thy ===== *)
theory Task_Analyzer
  imports Description_Parser Task_Analysis
begin

text \<open>
  \<^verbatim>\<open>workers/automation-worker/.../activities/task_analyzer.py\<close>: the \<open>analyze_task\<close> activity, which turns an issue
  into a workflow type with its parameters, by the front-matter block, by the rule for epics, or by an LLM; and
  \<^verbatim>\<open>workflows/description_override.py\<close>, which passes its result on to the gateway. What is outside the module is
  the record \<open>analyzer_env\<close>: the YAML and JSON parsers, the prompt file, the LLM and whether a Jira commenter is
  wired. The prompt is kept as its template and its context value rather than as rendered text. Jira comments are
  the values of \<open>analysis_comment\<close>. \<open>repr\<close> renders a cleanup policy that is not a string.
\<close>

section \<open>Data\<close>

record TaskAnalysisInput =
  ti_issue_key :: pystr
  ti_title :: pystr
  ti_description :: pystr
  ti_labels :: "pystr list"
  ti_custom_fields :: "pystr option pydict"
  ti_dept_id :: pystr
  ti_dept_config :: "pyval pydict"
  ti_trace_id :: pystr
  ti_issue_meta :: "pyval pydict"

record TaskAnalysisResult =
  tr_accepted :: bool
  tr_workflow_type :: "pystr option"
  tr_needs_ssh :: bool
  tr_needs_docker :: bool
  tr_execution_command :: "pystr option"
  tr_repo :: "pystr option"
  tr_branch :: "pystr option"
  tr_cleanup_policy :: pystr
  tr_timeout_seconds :: "int option"
  tr_web_search :: bool
  tr_output_actions :: "pyval list"
  tr_confidence :: rat
  tr_missing_fields :: "pystr list"
  tr_reasoning :: pystr
  tr_source :: pystr
  tr_status :: pystr
  tr_error :: "pystr option"
  tr_downgraded :: bool

record DeptDefaults =
  dd_web_search_enabled :: bool
  dd_cleanup_policy :: pystr
  dd_default_timeout_seconds :: "int option"

datatype analysis_error =
    AttributeErr
  | OverflowErr
  | ValueErr
  | RuntimeErr

datatype analysis_comment =
    FrontMatterWarning "field_error list"
  | EpicNeedsSubtasks
  | InvalidWorkflowComment pystr
  | DowngradeComment pystr
  | MissingCommandComment pystr
  | NeedsInfoComment "pystr list"

record llm_prompt =
  lp_template :: pystr
  lp_context :: "pyval pydict"

record analyzer_env =
  an_repr :: "pyval \<Rightarrow> pystr"
  an_yaml :: "(pystr \<Rightarrow> pyval option) option"
  an_loads :: "pystr \<Rightarrow> pystr + pyval"
  an_prompt_path :: pystr
  an_prompt_file :: "pystr + int \<times> pystr" \<comment> \<open>\<open>Inl\<close> the message of \<open>FileNotFoundError\<close>; else time and content\<close>
  an_llm :: "(llm_prompt \<Rightarrow> pystr \<Rightarrow> pystr + pystr) option"
  an_commenter :: bool

definition CONFIDENCE_THRESHOLD :: rat where "CONFIDENCE_THRESHOLD = 7 / 10"

definition WEB_SEARCH_WORKFLOW_TYPES :: "pystr list" where
  "WEB_SEARCH_WORKFLOW_TYPES = [''research_with_web'', ''research_publish_confluence'']"

definition EXECUTION_COMMAND_WORKFLOW_TYPES :: "pystr list" where
  "EXECUTION_COMMAND_WORKFLOW_TYPES = [''code_change_with_test'', ''remote_ssh_test_only'', ''script_execute'']"

definition ANALYZER_OUTPUT_TYPES :: "pystr list" where
  \<comment> \<open>\<open>_VALID_OUTPUT_ACTION_TYPES\<close>\<close>
  "ANALYZER_OUTPUT_TYPES =
     [''jira_comment'', ''jira_attachment'', ''bitbucket_commit'', ''bitbucket_create_pr'', ''confluence_create_page'',
      ''confluence_update_page'', ''jira_transition'', ''slack_notify'', ''email_notify'']"

definition canonical_workflow_type :: "pystr option \<Rightarrow> pystr option" where
  "canonical_workflow_type v = map_option (alias_of WORKFLOW_TYPE_ALIASES) v"

section \<open>The prompt\<close>

record PromptCache =
  pc_content :: "pystr option"
  pc_mtime :: "int option"
  pc_path :: "pystr option"

definition empty_cache :: PromptCache where
  "empty_cache = \<lparr>pc_content = None, pc_mtime = None, pc_path = None\<rparr>"

definition cache_load :: "pystr \<Rightarrow> pystr + int \<times> pystr \<Rightarrow> PromptCache \<Rightarrow> (pystr + pystr) \<times> PromptCache" where
  "cache_load path file c =
     (case file of
        Inl msg \<Rightarrow> (Inl msg, empty_cache)
      | Inr (mtime, content) \<Rightarrow>
          (case pc_content c of
             Some old \<Rightarrow>
               if pc_mtime c = Some mtime \<and> pc_path c = Some path then (Inr old, c)
               else (Inr content, \<lparr>pc_content = Some content, pc_mtime = Some mtime, pc_path = Some path\<rparr>)
           | None \<Rightarrow> (Inr content, \<lparr>pc_content = Some content, pc_mtime = Some mtime, pc_path = Some path\<rparr>)))"

definition PROMPT_CONFIG_KEYS :: "pystr list" where
  "PROMPT_CONFIG_KEYS =
     [''available_repos'', ''available_spaces'', ''available_capabilities'', ''default_language'',
      ''web_search_enabled'', ''docker_defaults'', ''repo_mappings'', ''approvers'', ''max_concurrent_workflows'']"

definition safe_dept_config_for_prompt :: "pyval pydict \<Rightarrow> pyval pydict" where
  "safe_dept_config_for_prompt cfg =
     List.map_filter (\<lambda>k. map_option (Pair k) (dict_get cfg k)) PROMPT_CONFIG_KEYS"

definition render_prompt :: "pystr \<Rightarrow> TaskAnalysisInput \<Rightarrow> llm_prompt" where
  "render_prompt template inp =
     \<lparr>lp_template = template,
      lp_context =
        [(''issue_key'', PStr (ti_issue_key inp)), (''title'', PStr (ti_title inp)),
         (''description'', PStr (ti_description inp)), (''labels'', PList (map PStr (ti_labels inp))),
         (''custom_fields'', PDict (map (map_prod id (\<lambda>v. case v of None \<Rightarrow> PNone | Some s \<Rightarrow> PStr s)) (ti_custom_fields inp))),
         (''dept_id'', PStr (ti_dept_id inp)),
         (''dept_config'', PDict (safe_dept_config_for_prompt (ti_dept_config inp))),
         (''trace_id'', PStr (ti_trace_id inp))]\<rparr>"

section \<open>The answer of the LLM\<close>

definition fence :: pystr where "fence = replicate 3 (CHR 0x60)"

definition strip_markdown_fence :: "pystr \<Rightarrow> pystr" where
  "strip_markdown_fence text =
     (let body = strip text
      in if \<not> starts_with body fence then body
         else let lines = tl (split_nl body);
                  lines = (if lines \<noteq> [] \<and> starts_with (strip (List.last lines)) fence then butlast lines else lines)
              in strip (join_with [newline] lines))"

definition parse_json_response :: "(pystr \<Rightarrow> pystr + pyval) \<Rightarrow> pystr \<Rightarrow> pystr + pyval pydict" where
  \<comment> \<open>\<open>Inl\<close> the text of the \<open>TaskAnalysisError\<close>\<close>
  "parse_json_response loads raw =
     (let body = strip_markdown_fence raw
      in case loads body of
           Inl msg \<Rightarrow> Inl (''LLM returned invalid JSON: '' @ msg @ ''. Raw response (first 200 chars): '' @ str_repr (take 200 body))
         | Inr (PDict d) \<Rightarrow> Inr d
         | Inr v \<Rightarrow> Inl (''LLM JSON must be an object, got '' @ type_name v))"

definition CONFIDENCE_LEVELS :: "rat pydict" where
  "CONFIDENCE_LEVELS = [(''high'', 1), (''medium'', 8 / 10), (''low'', 3 / 10), (''none'', 0)]"

definition clamp :: "pyfloat \<Rightarrow> rat" where
  "clamp v = finite_part (py_max (Fin 0) (py_min (Fin 1) v))"

definition coerce_confidence :: "pyval \<Rightarrow> analysis_error + rat" where
  "coerce_confidence raw =
     (case raw of
        PStr s \<Rightarrow>
          (case dict_get CONFIDENCE_LEVELS (lower (strip s)) of
             Some level \<Rightarrow> Inr level
           | None \<Rightarrow> Inr (case float_of_str s of None \<Rightarrow> 0 | Some v \<Rightarrow> clamp v))
      | PBool b \<Rightarrow> Inr (if b then 1 else 0)
      | PInt i \<Rightarrow> if \<bar>i\<bar> \<ge> 2 ^ 1024 - 2 ^ 970 then Inl OverflowErr else Inr (clamp (Fin (of_int i)))
      | PFloat r \<Rightarrow> Inr (clamp (Fin r))
      | _ \<Rightarrow> Inr 0)"

definition llm_bool :: "pyval \<Rightarrow> bool \<Rightarrow> bool" where
  "llm_bool v dflt =
     (case v of
        PBool b \<Rightarrow> b
      | PStr s \<Rightarrow> lower (strip s) \<in> set [''true'', ''yes'', ''1'']
      | _ \<Rightarrow> dflt)"

definition str_or_none :: "pyval \<Rightarrow> pystr option" where
  "str_or_none v = (case v of PStr s \<Rightarrow> if strip s = [] then None else Some (strip s) | _ \<Rightarrow> None)"

definition or_else :: "'a option \<Rightarrow> 'a option \<Rightarrow> 'a option" where
  \<comment> \<open>\<open>a or b\<close> where an empty \<open>a\<close> is \<open>None\<close>\<close>
  "or_else a b = (case a of None \<Rightarrow> b | Some x \<Rightarrow> Some x)"

definition command_of :: "pyval \<Rightarrow> pystr option" where
  \<comment> \<open>one round of \<open>_command_or_none\<close>\<close>
  "command_of v =
     (let command =
        (case v of
           PStr s \<Rightarrow> if strip s = [] then None else Some (strip s)
         | PList vs \<Rightarrow>
             let parts = map strip (List.map_filter as_str vs)
             in if parts = [] \<or> length parts \<noteq> length vs then None else Some (join_with '' && '' parts)
         | _ \<Rightarrow> None)
      in case command of
           Some c \<Rightarrow> if c \<noteq> [] \<and> CHR 0x00 \<notin> set c \<and> CHR 0x0D \<notin> set c then Some c else None
         | None \<Rightarrow> None)"

definition command_or_none :: "pyval pydict \<Rightarrow> pystr list \<Rightarrow> pystr option" where
  "command_or_none d fs = first_some (map (\<lambda>f. command_of (get_or_none d f)) fs)"

definition llm_action :: "pyval \<Rightarrow> pyval option" where
  \<comment> \<open>one round of \<open>_list_of_output_actions\<close>\<close>
  "llm_action item =
     (let parsed =
        (case item of
           PStr s \<Rightarrow> if strip s = [] then None else Some (strip s, [])
         | PDict d \<Rightarrow>
             (case (case dict_get d ''type'' of None \<Rightarrow> get_or_none d ''kind'' | Some v \<Rightarrow> v) of
                PStr k \<Rightarrow>
                  if strip k = [] then None
                  else Some (strip k,
                    case (case get_or_none d ''params'' of PNone \<Rightarrow> get_or_none d ''payload'' | v \<Rightarrow> v) of
                      PDict ps \<Rightarrow> ps | _ \<Rightarrow> [])
              | _ \<Rightarrow> None)
         | _ \<Rightarrow> None)
      in case parsed of
           None \<Rightarrow> None
         | Some (k, ps) \<Rightarrow>
             let kind = alias_of OUTPUT_TYPE_ALIASES k
             in if kind \<in> set ANALYZER_OUTPUT_TYPES then Some (PDict [(''type'', PStr kind), (''params'', PDict ps)])
                else None)"

definition list_of_output_actions :: "pyval \<Rightarrow> pyval list" where
  "list_of_output_actions v = (case v of PList vs \<Rightarrow> List.map_filter llm_action vs | _ \<Rightarrow> [])"

definition llm_missing_fields :: "pyval \<Rightarrow> pystr list" where
  "llm_missing_fields v = (case v of PList vs \<Rightarrow> filter (\<lambda>m. m \<noteq> []) (List.map_filter as_str vs) | _ \<Rightarrow> [])"

definition llm_timeout :: "pyval \<Rightarrow> int option \<Rightarrow> analysis_error + int option" where
  \<comment> \<open>\<open>int(s)\<close> raises on a superscript digit and on more than 4300 digits\<close>
  "llm_timeout v dflt =
     (case v of
        PInt i \<Rightarrow> Inr (Some i)
      | PStr s \<Rightarrow>
          if \<not> str_isdigit s then Inr dflt
          else if list_all is_digit s \<and> length s \<le> 4300 then Inr (Some (int (parse_nat s)))
          else Inl ValueErr
      | _ \<Rightarrow> Inr dflt)"

definition result_from_llm :: "pyval pydict \<Rightarrow> DeptDefaults \<Rightarrow> analysis_error + TaskAnalysisResult" where
  "result_from_llm d dd =
     rbind (coerce_confidence (get_or_none d ''confidence'')) (\<lambda>confidence.
     rbind (llm_timeout (get_or_none d ''timeout_seconds'') (dd_default_timeout_seconds dd)) (\<lambda>timeout.
       Inr \<lparr>tr_accepted = True,
            tr_workflow_type = canonical_workflow_type (str_or_none (get_or_none d ''workflow_type'')),
            tr_needs_ssh = llm_bool (get_or_none d ''needs_ssh'') False,
            tr_needs_docker = llm_bool (get_or_none d ''needs_docker'') False,
            tr_execution_command = command_or_none d COMMAND_FIELDS,
            tr_repo = or_else (str_or_none (get_or_none d ''repo'')) (str_or_none (get_or_none d ''target_repo'')),
            tr_branch = or_else (str_or_none (get_or_none d ''branch'')) (str_or_none (get_or_none d ''target_branch'')),
            tr_cleanup_policy = (case str_or_none (get_or_none d ''cleanup_policy'') of None \<Rightarrow> dd_cleanup_policy dd | Some p \<Rightarrow> p),
            tr_timeout_seconds = timeout,
            tr_web_search = llm_bool (get_or_none d ''web_search'') False,
            tr_output_actions = list_of_output_actions
              (case dict_get d ''output_actions'' of None \<Rightarrow> get_or_none d ''output'' | Some v \<Rightarrow> v),
            tr_confidence = confidence,
            tr_missing_fields = llm_missing_fields (get_or_none d ''missing_fields''),
            tr_reasoning = (case str_or_none (get_or_none d ''reasoning'') of None \<Rightarrow> [] | Some s \<Rightarrow> s),
            tr_source = ''llm_analysis'', tr_status = ''ready'', tr_error = None, tr_downgraded = False\<rparr>))"

section \<open>The other sources of a result\<close>

definition extract_dept_defaults :: "(pyval \<Rightarrow> pystr) \<Rightarrow> pyval pydict \<Rightarrow> analysis_error + DeptDefaults" where
  \<comment> \<open>\<open>default_timeout_seconds\<close> is annotated as an integer or \<open>None\<close>\<close>
  "extract_dept_defaults repr cfg =
     (let raw = get_or_none cfg ''docker_defaults''
      in case (if truthy raw then as_dict raw else Some []) of
           None \<Rightarrow> Inl AttributeErr
         | Some d \<Rightarrow>
             Inr \<lparr>dd_web_search_enabled = truthy (get_or_none cfg ''web_search_enabled''),
                  dd_cleanup_policy = (case dict_get d ''cleanup_policy'' of None \<Rightarrow> ''on_success'' | Some v \<Rightarrow> py_str repr v),
                  dd_default_timeout_seconds = (case get_or_none d ''default_timeout_seconds'' of PInt i \<Rightarrow> Some i | _ \<Rightarrow> None)\<rparr>)"

fun after_dashes :: "pystr list \<Rightarrow> pystr list option" where
  \<comment> \<open>the lines behind the first line of three dashes\<close>
  "after_dashes [] = None"
| "after_dashes (l # ls) = (if strip l = ''---'' then Some ls else after_dashes ls)"

definition description_without_frontmatter :: "pystr \<Rightarrow> pystr" where
  "description_without_frontmatter description =
     (case splitlines description of
        [] \<Rightarrow> strip description
      | l # ls \<Rightarrow>
          if strip l \<noteq> ''---'' then strip description
          else case after_dashes ls of
                 None \<Rightarrow> strip description
               | Some rest \<Rightarrow> strip (join_with [newline] rest))"

definition result_from_frontmatter :: "ParsedFrontMatter \<Rightarrow> TaskAnalysisInput \<Rightarrow> DeptDefaults \<Rightarrow> TaskAnalysisResult" where
  "result_from_frontmatter p inp dd =
     (let wt = (case fm_workflow_type p of None \<Rightarrow> [] | Some t \<Rightarrow> t);
          details = description_without_frontmatter (ti_description inp);
          reasoning = ''Derived from YAML front-matter (deterministic path).''
      in \<lparr>tr_accepted = True, tr_workflow_type = Some wt,
          tr_needs_ssh = (case fm_needs_ssh p of None \<Rightarrow> wt \<in> set EXECUTION_COMMAND_WORKFLOW_TYPES | Some b \<Rightarrow> b),
          tr_needs_docker = (case fm_needs_docker p of None \<Rightarrow> False | Some b \<Rightarrow> b),
          tr_execution_command = fm_execution_command p, tr_repo = fm_repo p, tr_branch = fm_branch p,
          tr_cleanup_policy = (case fm_cleanup p of None \<Rightarrow> dd_cleanup_policy dd | Some c \<Rightarrow> c),
          tr_timeout_seconds = or_else (fm_timeout_seconds p) (dd_default_timeout_seconds dd),
          tr_web_search = (case fm_web_search p of None \<Rightarrow> False | Some b \<Rightarrow> b),
          tr_output_actions = (case fm_output p of None \<Rightarrow> [] | Some as \<Rightarrow> as),
          tr_confidence = 1, tr_missing_fields = [],
          tr_reasoning = (if details = [] then reasoning
                          else reasoning @ [newline, newline] @ ''Task details:'' @ [newline] @ details),
          tr_source = ''yaml_frontmatter'', tr_status = ''ready'', tr_error = None, tr_downgraded = False\<rparr>)"

definition is_epic_issue :: "TaskAnalysisInput \<Rightarrow> bool" where
  "is_epic_issue inp =
     (case get_or_none (ti_issue_meta inp) ''issuetype'' of
        PDict d \<Rightarrow> (case get_or_none d ''name'' of PStr n \<Rightarrow> lower (strip n) = ''epic'' | _ \<Rightarrow> False)
      | _ \<Rightarrow> False)"

definition get_epic_subtasks :: "TaskAnalysisInput \<Rightarrow> pyval list" where
  "get_epic_subtasks inp =
     (case get_or_none (ti_issue_meta inp) ''subtasks'' of
        PList vs \<Rightarrow> filter (\<lambda>v. as_dict v \<noteq> None) vs
      | _ \<Rightarrow> [])"

definition epic_result :: TaskAnalysisResult where
  \<comment> \<open>the fields both results for an epic share\<close>
  "epic_result =
     \<lparr>tr_accepted = True, tr_workflow_type = Some ''multi_step'', tr_needs_ssh = False, tr_needs_docker = False,
      tr_execution_command = None, tr_repo = None, tr_branch = None, tr_cleanup_policy = ''on_success'',
      tr_timeout_seconds = None, tr_web_search = False, tr_output_actions = [], tr_confidence = 1,
      tr_missing_fields = [], tr_reasoning = ''Epic with subtasks - deterministic multi_step assignment.'',
      tr_source = ''epic_auto_detect'', tr_status = ''ready'', tr_error = None, tr_downgraded = False\<rparr>"

definition result_for_epic_multi_step :: "TaskAnalysisInput \<Rightarrow> TaskAnalysisResult" where
  "result_for_epic_multi_step inp =
     epic_result\<lparr>tr_output_actions :=
       [PDict [(''_meta'', PStr ''epic_auto_detect''), (''subtask_count'', PInt (int (length (get_epic_subtasks inp))))]]\<rparr>"

definition result_for_epic_needs_subtasks :: TaskAnalysisResult where
  "result_for_epic_needs_subtasks =
     epic_result\<lparr>tr_accepted := False, tr_missing_fields := [''subtasks''],
       tr_reasoning := ''Epic without subtasks - needs_info to request subtask breakdown.'', tr_status := ''needs_info''\<rparr>"

definition failed_analysis :: "DeptDefaults \<Rightarrow> bool \<Rightarrow> pystr \<Rightarrow> pystr \<Rightarrow> pystr \<Rightarrow> pystr \<Rightarrow> TaskAnalysisResult" where
  \<comment> \<open>the results without a workflow type of \<open>_run_llm_analysis\<close>\<close>
  "failed_analysis dd acc what reasoning status err =
     \<lparr>tr_accepted = acc, tr_workflow_type = None, tr_needs_ssh = False, tr_needs_docker = False,
      tr_execution_command = None, tr_repo = None, tr_branch = None, tr_cleanup_policy = dd_cleanup_policy dd,
      tr_timeout_seconds = dd_default_timeout_seconds dd, tr_web_search = False, tr_output_actions = [],
      tr_confidence = 0, tr_missing_fields = [what], tr_reasoning = reasoning, tr_source = ''llm_analysis'',
      tr_status = status, tr_error = Some err, tr_downgraded = False\<rparr>"

definition run_llm_analysis ::
  "analyzer_env \<Rightarrow> PromptCache \<Rightarrow> TaskAnalysisInput \<Rightarrow> DeptDefaults \<Rightarrow>
     (analysis_error + TaskAnalysisResult) \<times> PromptCache" where
  "run_llm_analysis env cache inp dd =
     (let (loaded, cache') = cache_load (an_prompt_path env) (an_prompt_file env) cache
      in (case loaded of
            Inl msg \<Rightarrow>
              let text = ''Prompt file not found: '' @ msg
              in Inr (failed_analysis dd False ''task_analysis_prompt'' text ''rejected'' text)
          | Inr template \<Rightarrow>
              (case an_llm env of
                 None \<Rightarrow> Inl RuntimeErr
               | Some call \<Rightarrow>
                   (case call (render_prompt template inp) (ti_dept_id inp) of
                      Inl exc \<Rightarrow> Inr (failed_analysis dd True ''llm_analysis_failed'' (''LLM call failed: '' @ exc) ''ready'' exc)
                    | Inr raw \<Rightarrow>
                        (case parse_json_response (an_loads env) raw of
                           Inl msg \<Rightarrow> Inr (failed_analysis dd True ''invalid_llm_json'' msg ''ready'' msg)
                         | Inr d \<Rightarrow> result_from_llm d dd))),
          cache'))"

section \<open>The activity\<close>

definition apply_web_search_downgrade :: "TaskAnalysisResult \<Rightarrow> DeptDefaults \<Rightarrow> TaskAnalysisResult" where
  "apply_web_search_downgrade r dd =
     (case tr_workflow_type r of
        Some wt \<Rightarrow>
          if dd_web_search_enabled dd \<or> wt \<notin> set WEB_SEARCH_WORKFLOW_TYPES then r
          else r\<lparr>tr_workflow_type := Some ''research_basic'', tr_web_search := False, tr_downgraded := True,
                 tr_reasoning := (if tr_reasoning r = [] then [] else tr_reasoning r @ '' | '') @ ''Downgraded from '' @ wt @
                   '' to research_basic because the department's web_search_enabled flag is false.''\<rparr>
      | None \<Rightarrow> r)"

definition add_missing :: "pystr list \<Rightarrow> pystr \<Rightarrow> pystr list" where
  \<comment> \<open>\<open>list(dict.fromkeys([*xs, x]))\<close>: the first occurrence of each\<close>
  "add_missing xs x = rev (remdups (rev (xs @ [x])))"

definition require_command :: "TaskAnalysisResult \<Rightarrow> pystr \<Rightarrow> TaskAnalysisResult \<times> analysis_comment list" where
  \<comment> \<open>from the check of the command on\<close>
  "require_command r wt =
     (if wt \<in> set EXECUTION_COMMAND_WORKFLOW_TYPES \<and> (case tr_execution_command r of None \<Rightarrow> True | Some c \<Rightarrow> c = []) then
        (r\<lparr>tr_accepted := False, tr_status := ''needs_info'', tr_missing_fields := add_missing (tr_missing_fields r) ''test_command'',
           tr_reasoning := (if tr_reasoning r = [] then [] else tr_reasoning r @ '' | '') @
             ''Execution workflow requires a non-empty test_command.''\<rparr>,
         [MissingCommandComment wt])
      else if tr_confidence r < CONFIDENCE_THRESHOLD then
        (r\<lparr>tr_accepted := False, tr_status := ''needs_info''\<rparr>, [NeedsInfoComment (tr_missing_fields r)])
      else (r, []))"

definition validate_result :: "DeptDefaults \<Rightarrow> TaskAnalysisResult \<Rightarrow> TaskAnalysisResult \<times> analysis_comment list" where
  \<comment> \<open>from the check of the workflow type on\<close>
  "validate_result dd r =
     (let reject = (\<lambda>bad.
            (r\<lparr>tr_accepted := False, tr_status := ''rejected'', tr_error := Some (''Invalid workflow_type: '' @ str_repr bad)\<rparr>,
             [InvalidWorkflowComment bad]))
      in case tr_workflow_type r of
           None \<Rightarrow> reject ''<missing>''
         | Some wt \<Rightarrow>
             if wt \<notin> set VALID_WORKFLOW_TYPES then reject (if wt = [] then ''<missing>'' else wt)
             else let r' = apply_web_search_downgrade r dd;
                      (x, cs) = require_command r' (case tr_workflow_type r' of None \<Rightarrow> [] | Some t \<Rightarrow> t)
                  in (x, (if tr_downgraded r' then [DowngradeComment wt] else []) @ cs))"

definition analyze_checked ::
  "analyzer_env \<Rightarrow> PromptCache \<Rightarrow> TaskAnalysisInput \<Rightarrow> DeptDefaults \<Rightarrow> ParsedFrontMatter option \<Rightarrow>
     (analysis_error + TaskAnalysisResult) \<times> analysis_comment list \<times> PromptCache" where
  "analyze_checked env cache inp dd fm =
     (case (case fm of None \<Rightarrow> None | Some p \<Rightarrow> map_option (\<lambda>_. p) (fm_workflow_type p)) of
        Some p \<Rightarrow> let (r, cs) = validate_result dd (result_from_frontmatter p inp dd) in (Inr r, cs, cache)
      | None \<Rightarrow>
          if is_epic_issue inp then
            (if get_epic_subtasks inp \<noteq> [] then (Inr (result_for_epic_multi_step inp), [], cache)
             else (Inr result_for_epic_needs_subtasks, [EpicNeedsSubtasks], cache))
          else
            let (x, cache') = run_llm_analysis env cache inp dd
            in case x of
                 Inl e \<Rightarrow> (Inl e, [], cache')
               | Inr r0 \<Rightarrow> let (r, cs) = validate_result dd r0 in (Inr r, cs, cache'))"

definition analyze_task ::
  "analyzer_env \<Rightarrow> PromptCache \<Rightarrow> TaskAnalysisInput \<Rightarrow>
     (analysis_error + TaskAnalysisResult) \<times> analysis_comment list \<times> PromptCache" where
  "analyze_task env cache inp =
     (case extract_dept_defaults (an_repr env) (ti_dept_config inp) of
        Inl e \<Rightarrow> (Inl e, [], cache)
      | Inr dd \<Rightarrow>
          let fm = parse_description_frontmatter (an_yaml env) (Some (ti_description inp));
              errors = (case fm of None \<Rightarrow> [] | Some p \<Rightarrow> fm_parse_errors p);
              (x, cs, cache') = analyze_checked env cache inp dd fm
          in (x, if an_commenter env then (if errors = [] then [] else [FrontMatterWarning errors]) @ cs else [], cache'))"

section \<open>The result for the gateway\<close>

record gateway_analysis = LlmAnalysisResult +
  ga_needs_docker :: bool
  ga_needs_ssh :: bool
  ga_execution_command :: "pystr option"

record DescriptionOverride =
  ov_workflow_type :: pystr
  ov_cleanup_policy :: "pystr option"
  ov_timeout_seconds :: "int option"
  ov_web_search :: bool
  ov_target_repo :: "pystr option"
  ov_target_branch :: "pystr option"
  ov_output_actions :: "(pystr \<times> pyval pydict) list"
  ov_execution_command :: "pystr option"

definition override_action :: "pyval \<Rightarrow> (pystr \<times> pyval pydict) option" where
  \<comment> \<open>the shared head of both loops over the output actions\<close>
  "override_action raw =
     (case raw of
        PDict d \<Rightarrow>
          (case get_or_none d ''type'' of
             PStr k \<Rightarrow>
               if k = [] then None
               else Some (alias_of OUTPUT_TYPE_ALIASES k,
                          sorted_items (case get_or_none d ''params'' of PDict ps \<Rightarrow> ps | _ \<Rightarrow> []))
           | _ \<Rightarrow> None)
      | _ \<Rightarrow> None)"

definition build_description_override :: "TaskAnalysisResult \<Rightarrow> DescriptionOverride" where
  "build_description_override r =
     \<lparr>ov_workflow_type = (case tr_workflow_type r of None \<Rightarrow> [] | Some t \<Rightarrow> t),
      ov_cleanup_policy = (if tr_cleanup_policy r = [] then None else Some (tr_cleanup_policy r)),
      ov_timeout_seconds = tr_timeout_seconds r, ov_web_search = tr_web_search r,
      ov_target_repo = tr_repo r, ov_target_branch = tr_branch r,
      ov_output_actions = List.map_filter override_action (tr_output_actions r),
      ov_execution_command = tr_execution_command r\<rparr>"

definition gateway_action :: "pyval \<Rightarrow> OutputAction option" where
  "gateway_action raw =
     (case override_action raw of
        None \<Rightarrow> None
      | Some (k, ps) \<Rightarrow>
          if k \<in> CRITICAL_OUTPUT_ACTION_KINDS then Some \<lparr>kind = k, severity = ''critical'', payload = ps\<rparr>
          else if k \<in> BEST_EFFORT_OUTPUT_ACTION_KINDS then Some \<lparr>kind = k, severity = ''best_effort'', payload = ps\<rparr>
          else None)"

definition confidence_literal :: "rat \<Rightarrow> pystr" where
  "confidence_literal score = (if 85 / 100 \<le> score then ''high'' else if 7 / 10 \<le> score then ''medium'' else ''low'')"

definition to_llm_analysis_result :: "TaskAnalysisResult \<Rightarrow> gateway_analysis" where
  "to_llm_analysis_result r =
     \<lparr>res_workflow_type = (case tr_workflow_type r of None \<Rightarrow> [] | Some t \<Rightarrow> t),
      res_confidence = confidence_literal (tr_confidence r),
      res_target_repo = tr_repo r, res_target_branch = tr_branch r, res_target_space = None,
      res_target_page_id = None, res_title = [], res_rationale = tr_reasoning r,
      res_output_actions = List.map_filter gateway_action (tr_output_actions r),
      res_needs_info_questions = tr_missing_fields r, res_token_usage = 0,
      ga_needs_docker = tr_needs_docker r, ga_needs_ssh = tr_needs_ssh r,
      ga_execution_command = tr_execution_command r\<rparr>"

section \<open>Lemmas\<close>

lemma clamp_range: "0 \<le> clamp v \<and> clamp v \<le> 1"
  using clamp_in_range [of v] by (auto simp: clamp_def)

lemma coerce_confidence_range: "coerce_confidence v = Inr q \<Longrightarrow> 0 \<le> q \<and> q \<le> 1"
  by (auto simp: coerce_confidence_def CONFIDENCE_LEVELS_def clamp_range split: pyval.splits if_splits option.splits)

lemma first_some_in: "first_some xs = Some x \<Longrightarrow> Some x \<in> set xs"
  by (induction xs rule: first_some.induct) auto

lemma command_of_nonempty: "command_of v = Some c \<Longrightarrow> c \<noteq> []"
  by (auto simp: command_of_def Let_def split: option.splits if_splits)

lemma result_from_llm_fields:
  assumes "result_from_llm d dd = Inr r"
  shows "tr_accepted r" "tr_status r = ''ready''" "0 \<le> tr_confidence r" "tr_confidence r \<le> 1" "\<not> tr_downgraded r"
  using assms by (auto simp: result_from_llm_def rbind_eq_Inr dest: coerce_confidence_range)

lemma failed_analysis_workflow_type [simp]: "tr_workflow_type (failed_analysis dd acc w rs st e) = None"
  by (simp add: failed_analysis_def)

lemma run_llm_analysis_cases:
  assumes "run_llm_analysis env cache inp dd = (Inr r, cache')"
  shows "tr_workflow_type r = None \<or>
    tr_accepted r \<and> tr_status r = ''ready'' \<and> 0 \<le> tr_confidence r \<and> tr_confidence r \<le> 1 \<and> \<not> tr_downgraded r"
  using assms
  by (auto simp: run_llm_analysis_def Let_def split: prod.splits sum.splits option.splits dest: result_from_llm_fields)

definition analysis_ok :: "bool \<Rightarrow> TaskAnalysisResult \<Rightarrow> bool" where
  \<comment> \<open>what the gateway may rely on; the flag: the department may search the web\<close>
  "analysis_ok web r \<longleftrightarrow>
     tr_status r \<in> {''ready'', ''needs_info'', ''rejected''} \<and>
     (tr_accepted r \<longleftrightarrow> tr_status r = ''ready'') \<and>
     (tr_status r = ''rejected'' \<longleftrightarrow> (case tr_workflow_type r of None \<Rightarrow> True | Some t \<Rightarrow> t \<notin> set VALID_WORKFLOW_TYPES)) \<and>
     (tr_status r = ''ready'' \<longrightarrow>
        7 / 10 \<le> tr_confidence r \<and> tr_confidence r \<le> 1 \<and>
        (\<forall>t. tr_workflow_type r = Some t \<longrightarrow>
           (t \<in> set WEB_SEARCH_WORKFLOW_TYPES \<longrightarrow> web) \<and>
           (t \<in> set EXECUTION_COMMAND_WORKFLOW_TYPES \<longrightarrow> (\<exists>c. tr_execution_command r = Some c \<and> c \<noteq> []))))"

lemma research_basic_types:
  "''research_basic'' \<in> set VALID_WORKFLOW_TYPES" "''research_basic'' \<notin> set WEB_SEARCH_WORKFLOW_TYPES"
  "''multi_step'' \<in> set VALID_WORKFLOW_TYPES" "''multi_step'' \<notin> set WEB_SEARCH_WORKFLOW_TYPES"
  "''multi_step'' \<notin> set EXECUTION_COMMAND_WORKFLOW_TYPES"
  by code_simp+

lemma downgrade_fields:
  assumes "tr_workflow_type r = Some wt" "wt \<in> set VALID_WORKFLOW_TYPES"
  obtains t where "tr_workflow_type (apply_web_search_downgrade r dd) = Some t" "t \<in> set VALID_WORKFLOW_TYPES"
    "t \<in> set WEB_SEARCH_WORKFLOW_TYPES \<Longrightarrow> dd_web_search_enabled dd"
    "tr_confidence (apply_web_search_downgrade r dd) = tr_confidence r"
    "tr_accepted (apply_web_search_downgrade r dd) = tr_accepted r"
    "tr_status (apply_web_search_downgrade r dd) = tr_status r"
  using assms research_basic_types
  by (cases "dd_web_search_enabled dd \<or> wt \<notin> set WEB_SEARCH_WORKFLOW_TYPES")
     (auto simp: apply_web_search_downgrade_def)

lemma require_command_ok:
  assumes "tr_workflow_type r = Some t" "t \<in> set VALID_WORKFLOW_TYPES" "t \<in> set WEB_SEARCH_WORKFLOW_TYPES \<Longrightarrow> web"
    and "tr_accepted r" "tr_status r = ''ready''" "tr_confidence r \<le> 1"
  shows "analysis_ok web (fst (require_command r t))"
proof -
  have "tr_confidence r < 7 / 10 \<or> 7 / 10 \<le> tr_confidence r" by linarith
  then show ?thesis
    using assms by (auto simp: require_command_def analysis_ok_def CONFIDENCE_THRESHOLD_def split: option.splits)
qed

lemma validate_result_ok:
  assumes "tr_workflow_type r = None \<or> tr_accepted r \<and> tr_status r = ''ready'' \<and> tr_confidence r \<le> 1"
  shows "analysis_ok (dd_web_search_enabled dd) (fst (validate_result dd r))"
proof (cases "\<exists>wt. tr_workflow_type r = Some wt \<and> wt \<in> set VALID_WORKFLOW_TYPES")
  case True
  then obtain wt where wt: "tr_workflow_type r = Some wt" "wt \<in> set VALID_WORKFLOW_TYPES" by blast
  then obtain t where t: "tr_workflow_type (apply_web_search_downgrade r dd) = Some t" "t \<in> set VALID_WORKFLOW_TYPES"
    "t \<in> set WEB_SEARCH_WORKFLOW_TYPES \<Longrightarrow> dd_web_search_enabled dd"
    "tr_confidence (apply_web_search_downgrade r dd) = tr_confidence r"
    "tr_accepted (apply_web_search_downgrade r dd) = tr_accepted r"
    "tr_status (apply_web_search_downgrade r dd) = tr_status r"
    by (rule downgrade_fields [where dd = dd]) blast
  then have "analysis_ok (dd_web_search_enabled dd) (fst (require_command (apply_web_search_downgrade r dd) t))"
    using wt assms by (intro require_command_ok) auto
  with wt t show ?thesis by (simp add: validate_result_def Let_def split_beta)
next
  case False
  then have "fst (validate_result dd r) =
      r\<lparr>tr_accepted := False, tr_status := ''rejected'',
        tr_error := tr_error (fst (validate_result dd r))\<rparr>"
    by (auto simp: validate_result_def Let_def split: option.splits)
  then obtain e where "fst (validate_result dd r) = r\<lparr>tr_accepted := False, tr_status := ''rejected'', tr_error := e\<rparr>" by blast
  with False show ?thesis by (simp add: analysis_ok_def split: option.splits)
qed

lemma frontmatter_result_fields:
  "tr_accepted (result_from_frontmatter p inp dd)" "tr_status (result_from_frontmatter p inp dd) = ''ready''"
  "tr_confidence (result_from_frontmatter p inp dd) = 1"
  by (simp_all add: result_from_frontmatter_def Let_def)

lemma epic_results_ok:
  "analysis_ok web (result_for_epic_multi_step inp)" "analysis_ok web result_for_epic_needs_subtasks"
  using research_basic_types
  by (auto simp: analysis_ok_def result_for_epic_multi_step_def result_for_epic_needs_subtasks_def epic_result_def)

lemma analyze_checked_ok:
  assumes "analyze_checked env cache inp dd fm = (Inr r, cs, cache')"
  shows "analysis_ok (dd_web_search_enabled dd) r"
proof (cases "case fm of None \<Rightarrow> None | Some p \<Rightarrow> map_option (\<lambda>_. p) (fm_workflow_type p)")
  case (Some p)
  with assms have "r = fst (validate_result dd (result_from_frontmatter p inp dd))"
    by (simp add: analyze_checked_def split_beta)
  then show ?thesis by (simp add: validate_result_ok frontmatter_result_fields)
next
  case no_type: None
  show ?thesis
  proof (cases "is_epic_issue inp")
    case True
    with no_type assms show ?thesis by (auto simp: analyze_checked_def epic_results_ok split: if_splits)
  next
    case False
    obtain x c where x: "run_llm_analysis env cache inp dd = (x, c)" by fastforce
    with no_type False assms obtain r0 where r0: "x = Inr r0" "r = fst (validate_result dd r0)"
      by (auto simp: analyze_checked_def split_beta split: sum.splits)
    show ?thesis unfolding r0(2) by (rule validate_result_ok) (use run_llm_analysis_cases x r0 in blast)
  qed
qed

lemma analyze_task_Inr:
  assumes "analyze_task env cache inp = (Inr r, cs, cache')"
  obtains dd fm cs0 where "extract_dept_defaults (an_repr env) (ti_dept_config inp) = Inr dd"
    "analyze_checked env cache inp dd fm = (Inr r, cs0, cache')"
  using assms by (auto simp: analyze_task_def Let_def split: sum.splits prod.splits)

section \<open>Properties\<close>

text \<open>
  C23. Every result of the activity is well formed, whatever the issue, the YAML library and the LLM say: the status
  is one of three and the result is accepted exactly when it is ready; it is rejected exactly when its workflow type is
  missing or unknown; and a ready result has a confidence between 0.7 and 1, a command when its type runs one, and a
  type that searches the web only when the department allows it.
\<close>

theorem analyze_task_result_is_well_formed:
  assumes "analyze_task env cache inp = (Inr r, cs, cache')"
  shows "analysis_ok (truthy (get_or_none (ti_dept_config inp) ''web_search_enabled'')) r"
proof -
  obtain dd fm cs0 where dd: "extract_dept_defaults (an_repr env) (ti_dept_config inp) = Inr dd"
    and r: "analyze_checked env cache inp dd fm = (Inr r, cs0, cache')"
    using assms by (rule analyze_task_Inr)
  have "dd_web_search_enabled dd = truthy (get_or_none (ti_dept_config inp) ''web_search_enabled'')"
    using dd by (auto simp: extract_dept_defaults_def Let_def split: option.splits)
  with analyze_checked_ok [OF r] show ?thesis by simp
qed

definition demo_issue :: "pystr \<Rightarrow> TaskAnalysisInput" where
  "demo_issue descr =
     \<lparr>ti_issue_key = ''A-1'', ti_title = [], ti_description = descr, ti_labels = [], ti_custom_fields = [],
      ti_dept_id = ''d'', ti_dept_config = [], ti_trace_id = [], ti_issue_meta = []\<rparr>"

definition demo_analyzer :: "pystr + pystr \<Rightarrow> pyval \<Rightarrow> analyzer_env" where
  \<comment> \<open>an environment whose LLM gives the answer and whose JSON parser reads every answer as the value\<close>
  "demo_analyzer answer v =
     \<lparr>an_repr = \<lambda>_. [], an_yaml = None, an_loads = \<lambda>_. Inr v, an_prompt_path = ''p'', an_prompt_file = Inr (1, ''t''),
      an_llm = Some (\<lambda>_ _. answer), an_commenter = True\<rparr>"

theorem analyze_task_result_is_well_formed_witness:
  "\<exists>r cs c. analyze_task (demo_analyzer (Inr ''x'') (PDict [(''workflow_type'', PStr ''research_web''), (''confidence'', PStr ''High'')]))
        empty_cache (demo_issue ''do it'') = (Inr r, cs, c) \<and>
     tr_workflow_type r = Some ''research_basic'' \<and> tr_status r = ''ready'' \<and> cs = [DowngradeComment ''research_with_web''] \<and>
     7 / 10 \<le> tr_confidence r \<and> tr_confidence r \<le> 1"
proof -
  let ?v = "PDict [(''workflow_type'', PStr ''research_web''), (''confidence'', PStr ''High'')]"
  let ?a = "analyze_task (demo_analyzer (Inr ''x'') ?v) empty_cache (demo_issue ''do it'')"
  obtain r c where a: "?a = (Inr r, [DowngradeComment ''research_with_web''], c)"
    and r: "tr_workflow_type r = Some ''research_basic''" "tr_status r = ''ready''"
  proof -
    have "\<not> isl (fst ?a)" "fst (snd ?a) = [DowngradeComment ''research_with_web'']"
      "tr_workflow_type (projr (fst ?a)) = Some ''research_basic''" "tr_status (projr (fst ?a)) = ''ready''"
      by code_simp+
    with that [of "projr (fst ?a)" "snd (snd ?a)"] show thesis by (metis prod.collapse sum.collapse(2))
  qed
  show ?thesis using analyze_task_result_is_well_formed [OF a] a r by (auto simp: analysis_ok_def)
qed

lemma safe_config_cong:
  assumes "\<forall>k \<in> set PROMPT_CONFIG_KEYS. dict_get cfg k = dict_get cfg' k"
  shows "safe_dept_config_for_prompt cfg = safe_dept_config_for_prompt cfg'"
proof -
  have "List.map_filter f ks = List.map_filter g ks" if "\<forall>k \<in> set ks. f k = g k" for f g :: "pystr \<Rightarrow> (pystr \<times> pyval) option" and ks
    using that by (induction ks) (auto simp: List.map_filter_def)
  then show ?thesis unfolding safe_dept_config_for_prompt_def using assms by simp
qed

lemma dept_defaults_cong:
  assumes "\<forall>k \<in> set PROMPT_CONFIG_KEYS. dict_get cfg k = dict_get cfg' k"
  shows "extract_dept_defaults repr cfg = extract_dept_defaults repr cfg'"
proof -
  have "''docker_defaults'' \<in> set PROMPT_CONFIG_KEYS" "''web_search_enabled'' \<in> set PROMPT_CONFIG_KEYS" by code_simp+
  with assms have "get_or_none cfg ''docker_defaults'' = get_or_none cfg' ''docker_defaults''"
    "get_or_none cfg ''web_search_enabled'' = get_or_none cfg' ''web_search_enabled''"
    by (simp_all add: get_or_none_def)
  then show ?thesis unfolding extract_dept_defaults_def by (simp only:)
qed

lemma analyze_checked_config:
  assumes "safe_dept_config_for_prompt cfg = safe_dept_config_for_prompt cfg'"
  shows "analyze_checked env cache (inp\<lparr>ti_dept_config := cfg\<rparr>) dd fm = analyze_checked env cache (inp\<lparr>ti_dept_config := cfg'\<rparr>) dd fm"
proof -
  have p: "render_prompt t (inp\<lparr>ti_dept_config := cfg\<rparr>) = render_prompt t (inp\<lparr>ti_dept_config := cfg'\<rparr>)" for t
    by (simp add: render_prompt_def assms)
  have q: "ti_dept_id (inp\<lparr>ti_dept_config := c\<rparr>) = ti_dept_id inp" for c by simp
  have l: "run_llm_analysis env cache (inp\<lparr>ti_dept_config := cfg\<rparr>) dd = run_llm_analysis env cache (inp\<lparr>ti_dept_config := cfg'\<rparr>) dd"
    unfolding run_llm_analysis_def p q by (rule refl)
  have e: "is_epic_issue (inp\<lparr>ti_dept_config := c\<rparr>) = is_epic_issue inp"
    "get_epic_subtasks (inp\<lparr>ti_dept_config := c\<rparr>) = get_epic_subtasks inp"
    "result_for_epic_multi_step (inp\<lparr>ti_dept_config := c\<rparr>) = result_for_epic_multi_step inp"
    "result_from_frontmatter q (inp\<lparr>ti_dept_config := c\<rparr>) dd = result_from_frontmatter q inp dd" for c q
    by (simp_all add: is_epic_issue_def get_epic_subtasks_def result_for_epic_multi_step_def result_from_frontmatter_def)
  show ?thesis unfolding analyze_checked_def l e by (rule refl)
qed

text \<open>
  The analysis never depends on what the department's configuration holds outside the nine fields meant for the
  prompt, credential references in particular: two configurations that agree on those fields give the same result,
  the same comments and the same prompt cache, whatever the LLM does with the prompts it sees.
\<close>

theorem analysis_ignores_secret_config:
  assumes "\<forall>k \<in> set PROMPT_CONFIG_KEYS. dict_get cfg k = dict_get cfg' k"
  shows "analyze_task env cache (inp\<lparr>ti_dept_config := cfg\<rparr>) = analyze_task env cache (inp\<lparr>ti_dept_config := cfg'\<rparr>)"
proof -
  have sel: "ti_dept_config (inp\<lparr>ti_dept_config := c\<rparr>) = c" "ti_description (inp\<lparr>ti_dept_config := c\<rparr>) = ti_description inp" for c
    by simp_all
  show ?thesis
    unfolding analyze_task_def sel dept_defaults_cong [OF assms] analyze_checked_config [OF safe_config_cong [OF assms]]
    by (rule refl)
qed

theorem analysis_ignores_secret_config_witness:
  "analyze_task (demo_analyzer (Inr ''x'') PNone) empty_cache
       ((demo_issue ''t'')\<lparr>ti_dept_config := [(''bot'', PStr ''token''), (''approvers'', PList [])]\<rparr>) =
     analyze_task (demo_analyzer (Inr ''x'') PNone) empty_cache ((demo_issue ''t'')\<lparr>ti_dept_config := [(''approvers'', PList [])]\<rparr>)"
proof (rule analysis_ignores_secret_config)
  show "\<forall>k \<in> set PROMPT_CONFIG_KEYS. dict_get [(''bot'', PStr ''token''), (''approvers'', PList [])] k =
      dict_get [(''approvers'', PList [])] k"
    by code_simp
qed

lemma failed_answer_cases:
  assumes "cache_load (an_prompt_path env) (an_prompt_file env) cache = (Inr template, cache')" "an_llm env = Some call"
    and "isl (call (render_prompt template inp) (ti_dept_id inp)) \<or>
      (\<exists>raw. call (render_prompt template inp) (ti_dept_id inp) = Inr raw \<and> isl (parse_json_response (an_loads env) raw))"
  shows "\<exists>w rs e. run_llm_analysis env cache inp dd = (Inr (failed_analysis dd True w rs ''ready'' e), cache')"
  using assms by (auto simp: run_llm_analysis_def isl_def) (intro exI, rule refl)+

text \<open>
  A task is lost when the LLM is unreachable or answers with anything but a JSON object: the result is a
  rejection for the workflow type \<open>'<missing>'\<close>, with a comment that blames the issue, and never the \<open>needs_info\<close> the
  low confidence of the failed analysis was meant to lead to.
\<close>

theorem llm_failure_rejects_task:
  assumes "extract_dept_defaults (an_repr env) (ti_dept_config inp) = Inr dd"
    and "parse_description_frontmatter (an_yaml env) (Some (ti_description inp)) = None" and "\<not> is_epic_issue inp"
    and "cache_load (an_prompt_path env) (an_prompt_file env) cache = (Inr template, cache')" and "an_llm env = Some call"
    and "isl (call (render_prompt template inp) (ti_dept_id inp)) \<or>
      (\<exists>raw. call (render_prompt template inp) (ti_dept_id inp) = Inr raw \<and> isl (parse_json_response (an_loads env) raw))"
  shows "\<exists>r. analyze_task env cache inp =
      (Inr r, if an_commenter env then [InvalidWorkflowComment ''<missing>''] else [], cache') \<and>
    tr_status r = ''rejected'' \<and> tr_confidence r = 0 \<and>
    tr_error r = Some (''Invalid workflow_type: '' @ str_repr ''<missing>'')"
proof -
  obtain w rs e where "run_llm_analysis env cache inp dd = (Inr (failed_analysis dd True w rs ''ready'' e), cache')"
    using failed_answer_cases [OF assms(4-6)] by blast
  with assms(1-3) show ?thesis
    by (simp add: analyze_task_def analyze_checked_def validate_result_def) (simp add: failed_analysis_def)
qed

theorem llm_failure_rejects_task_witness:
  "\<exists>r. analyze_task (demo_analyzer (Inl ''503'') PNone) empty_cache (demo_issue ''fix it'') =
      (Inr r, [InvalidWorkflowComment ''<missing>''], \<lparr>pc_content = Some ''t'', pc_mtime = Some 1, pc_path = Some ''p''\<rparr>) \<and>
    tr_status r = ''rejected''"
proof -
  have d: "extract_dept_defaults (an_repr (demo_analyzer (Inl ''503'') PNone)) (ti_dept_config (demo_issue ''fix it'')) =
      Inr \<lparr>dd_web_search_enabled = False, dd_cleanup_policy = ''on_success'', dd_default_timeout_seconds = None\<rparr>"
    by (simp add: extract_dept_defaults_def demo_analyzer_def demo_issue_def get_or_none_def)
  have f: "parse_description_frontmatter (an_yaml (demo_analyzer (Inl ''503'') PNone)) (Some (ti_description (demo_issue ''fix it''))) = None"
    by code_simp
  have c: "cache_load (an_prompt_path (demo_analyzer (Inl ''503'') PNone)) (an_prompt_file (demo_analyzer (Inl ''503'') PNone)) empty_cache =
      (Inr ''t'', \<lparr>pc_content = Some ''t'', pc_mtime = Some 1, pc_path = Some ''p''\<rparr>)"
    by code_simp
  have e: "\<not> is_epic_issue (demo_issue ''fix it'')" by code_simp
  have l: "an_llm (demo_analyzer (Inl ''503'') PNone) = Some (\<lambda>_ _. Inl ''503'')" "an_commenter (demo_analyzer (Inl ''503'') PNone)"
    by (simp_all add: demo_analyzer_def)
  show ?thesis using llm_failure_rejects_task [OF d f e c l(1)] l(2) by auto
qed

end
