(* ===== verification/Analysis_Input.thy ===== *)
theory Analysis_Input
  imports Task_Analyzer Iteration_Workflow
begin

text \<open>
  \<^verbatim>\<open>workers/automation-worker/.../activities/platform_io.py\<close>: the activities that read the Jira issue and the
  department's configuration for the analysis, look up Jira transitions and load branch rules. The MCP caller is its
  answer; \<open>loads\<close> is the JSON parser; the parsed \<^verbatim>\<open>config/departments.json\<close> is an argument (\<open>None\<close> when it cannot be
  loaded); the process environment is a dictionary. \<open>Inl\<close> is the class of an exception. Turkish letters outside
  the modelled code points are written with their closest ASCII letter in the status names and in the heading of
  a reply.
\<close>

section \<open>Transitions\<close>

definition LOGICAL_STATUS_ALIASES :: "pystr list pydict" where
  "LOGICAL_STATUS_ALIASES =
     [(''todo'', [''To Do'', ''Yapilacaklar'', ''Open'', ''Backlog'']),
      (''in_progress'', [''In Progress'', ''Devam Ediyor'', ''Basladi'']),
      (''review'', [''In Review'', ''Review'', ''Incelemede'', ''Code Review'']),
      (''done'', [''Done'', ''Tamam'', ''Tamamlandi'', ''Closed'', ''Resolved'']),
      (''stale'', [''Stale'', ''Bayat'', ''On Hold'', ''Beklemede'']),
      (''needs_info'', [''Needs Info'', ''Bilgi Bekleniyor'', ''Waiting for support''])]"

fun add_new :: "pystr list \<Rightarrow> pystr list \<Rightarrow> pystr list" where
  "add_new acc [] = acc"
| "add_new acc (x # xs) = add_new (if x \<in> set acc then acc else acc @ [x]) xs"

definition candidate_status_names :: "pystr \<Rightarrow> pystr list" where
  "candidate_status_names target =
     (let raw = strip target
      in add_new (if raw = [] then [] else [raw])
           (case dict_get LOGICAL_STATUS_ALIASES (lower raw) of None \<Rightarrow> [] | Some as \<Rightarrow> as))"

fun transitions_by_name :: "(pyval \<Rightarrow> pystr) \<Rightarrow> pystr pydict \<Rightarrow> pyval list \<Rightarrow> pystr pydict" where
  "transitions_by_name repr acc [] = acc"
| "transitions_by_name repr acc (e # es) =
     transitions_by_name repr
       (case as_dict e of
          None \<Rightarrow> acc
        | Some d \<Rightarrow>
            let name = lower (strip (py_str repr (get_default d ''name'' (PStr []))));
                tid = get_or_none d ''id''
            in if name \<noteq> [] \<and> tid \<noteq> PNone then dict_set name (py_str repr tid) acc else acc) es"

definition match_transition_id :: "(pyval \<Rightarrow> pystr) \<Rightarrow> pyval list \<Rightarrow> pystr \<Rightarrow> pystr option" where
  "match_transition_id repr transitions target =
     (let by_name = transitions_by_name repr [] transitions
      in first_some (map (\<lambda>c. dict_get by_name (lower (strip c))) (candidate_status_names target)))"

definition coerce_transitions :: "pyval \<Rightarrow> pyval list" where
  "coerce_transitions result =
     (let dicts = filter (\<lambda>v. as_dict v \<noteq> None)
      in case result of
           PList vs \<Rightarrow> dicts vs
         | PDict d \<Rightarrow>
             (case first_some (map (\<lambda>k. case get_or_none d k of PList vs \<Rightarrow> Some vs | _ \<Rightarrow> None)
                 [''transitions'', ''result'', ''values'']) of
                None \<Rightarrow> [] | Some vs \<Rightarrow> dicts vs)
         | _ \<Rightarrow> [])"

datatype mcp_call =
    GetTransitions pystr pystr
  | TransitionIssue pystr pystr pystr \<comment> \<open>issue, transition id, department\<close>
  | AddIssueComment pystr pystr pystr

definition jira_transition_issue ::
  "(pyval \<Rightarrow> pystr) \<Rightarrow> pystr + pyval \<Rightarrow> pystr \<Rightarrow> pystr \<Rightarrow> pystr \<Rightarrow> (pystr + unit) \<times> mcp_call list" where
  \<comment> \<open>\<open>answer\<close>: what \<open>jira_get_transitions\<close> returns; a failure of the transition itself is the caller's\<close>
  "jira_transition_issue repr answer issue target dept =
     (case answer of
        Inl e \<Rightarrow> (Inl e, [GetTransitions issue dept])
      | Inr result \<Rightarrow>
          (Inr (), GetTransitions issue dept #
             (case match_transition_id repr (coerce_transitions result) target of
                None \<Rightarrow> [] | Some tid \<Rightarrow> [TransitionIssue issue tid dept])))"

definition noop_test_post_result :: "pystr \<Rightarrow> pystr \<Rightarrow> pystr \<Rightarrow> int option \<Rightarrow> mcp_call list" where
  "noop_test_post_result issue dept stdout exit_code =
     (let code = (case exit_code of None \<Rightarrow> ''unknown'' | Some c \<Rightarrow> show_int c);
          tick = [CHR 0x60]
      in [AddIssueComment issue
            (''Noop test tamamlandi.'' @ [newline, newline] @ ''* Exit code: '' @ tick @ code @ tick @ [newline] @
             ''* Output: '' @ tick @ (if stdout = [] then ''(empty)'' else stdout) @ tick) dept])"

section \<open>Repository names in a description\<close>

definition repo_keywords :: "pystr list" where
  "repo_keywords = [''repo'', ''repository'', ''bitbucket_repo'', ''target_repo'']"

definition repo_after :: "pystr \<Rightarrow> pystr \<Rightarrow> pystr option" where
  \<comment> \<open>one alternative of the pattern at the start of a text\<close>
  "repo_after s k =
     (if \<not> starts_with (lower s) k then None
      else let r = lstrip (List.drop (length k) s)
           in if r = [] \<or> hd r \<noteq> CHR '':'' then None
              else let w = takeWhile (\<lambda>c. \<not> is_space c) (lstrip (tl r)) in if w = [] then None else Some w)"

fun line_starts :: "pystr \<Rightarrow> pystr list" where
  \<comment> \<open>the suffixes behind each newline\<close>
  "line_starts [] = []"
| "line_starts (c # cs) = (if c = newline then cs # line_starts cs else line_starts cs)"

definition repo_search :: "pystr \<Rightarrow> pystr option" where
  \<comment> \<open>\<^verbatim>\<open>(?im)^\s*(?:repo|repository|bitbucket_repo|target_repo)\s*:\s*(\S+)\<close>\<close>
  "repo_search s =
     first_some (map (\<lambda>t. first_some (map (repo_after (lstrip t)) repo_keywords)) (s # line_starts s))"

definition parse_repo_from_description ::
  "(pyval \<Rightarrow> pystr) \<Rightarrow> pystr \<Rightarrow> pyval pydict list \<Rightarrow> pystr option \<times> rat" where
  "parse_repo_from_description repr description mappings =
     (case repo_search description of
        Some w \<Rightarrow> (Some (strip w), 95 / 100)
      | None \<Rightarrow>
          (case map (\<lambda>m. strip (py_str repr (get_or_none m ''bitbucket_repo'')))
                  (filter (\<lambda>m. truthy (get_or_none m ''bitbucket_repo'')) mappings) of
             [r] \<Rightarrow> (Some r, 9 / 10)
           | _ \<Rightarrow> (None, 0)))"

section \<open>Configuration\<close>

definition load_department_config :: "pyval option \<Rightarrow> pystr \<Rightarrow> pystr + pyval pydict" where
  "load_department_config file dept =
     (case file of
        None \<Rightarrow> Inr []
      | Some data \<Rightarrow>
          (case as_dict data of
             None \<Rightarrow> Inl ''AttributeError''
           | Some d \<Rightarrow>
               rbind (case get_default d ''departments'' (PList []) of PNone \<Rightarrow> Inl ''TypeError'' | v \<Rightarrow> iter_value v) (\<lambda>vs.
                 Inr (case find (\<lambda>v. case v of PDict c \<Rightarrow> get_or_none c ''id'' = PStr dept | _ \<Rightarrow> False) vs of
                        Some (PDict c) \<Rightarrow> c | _ \<Rightarrow> []))))"

definition sub_mapping :: "pyval pydict \<Rightarrow> pystr \<Rightarrow> pyval pydict" where
  \<comment> \<open>\<open>d.get(k) if isinstance(d.get(k), Mapping) else {}\<close>\<close>
  "sub_mapping d k = (case get_or_none d k of PDict c \<Rightarrow> c | _ \<Rightarrow> [])"

definition environ_get :: "pystr pydict \<Rightarrow> pystr \<Rightarrow> pystr" where
  "environ_get environ k = (case dict_get environ k of None \<Rightarrow> [] | Some v \<Rightarrow> v)"

definition config_capabilities :: "pyval pydict \<Rightarrow> pystr pydict \<Rightarrow> pystr list" where
  \<comment> \<open>\<open>_derive_capabilities\<close>; the possible names in the order \<open>sorted\<close> gives them\<close>
  "config_capabilities config environ =
     (let bot = sub_mapping config ''bot'';
          service = (\<lambda>s. truthy (get_or_none (sub_mapping bot s) ''credential_ref''));
          runner = list_ex (\<lambda>k. lower (strip (environ_get environ k)) \<in> set [''1'', ''true'', ''yes'', ''on''])
            [''EXECUTION_RUNNER_ASSIGNED'', ''EXECUTION_RUNNER_AVAILABLE'']
      in map fst (filter snd
           [(''bitbucket'', service ''bitbucket''), (''confluence'', service ''confluence''),
            (''execution'', runner \<or> environ_get environ ''SSH_HOST'' \<noteq> []), (''jira'', service ''jira''),
            (''web_search'', truthy (get_or_none config ''web_search_enabled'') \<and>
               dict_get environ ''FIRECRAWL_ENABLED'' = Some ''true'')]))"

definition load_branch_pattern_rules :: "pyval option \<Rightarrow> pystr \<Rightarrow> pystr + pyval list" where
  "load_branch_pattern_rules file dept =
     rbind (load_department_config file dept) (\<lambda>config. iter_value (get_or_none config ''branch_pattern_rules''))"

section \<open>The answer of the MCP server\<close>

definition jsonish_mapping :: "(pystr \<Rightarrow> pystr + pyval) \<Rightarrow> pyval \<Rightarrow> pyval pydict option" where
  "jsonish_mapping loads v =
     (case v of
        PDict d \<Rightarrow> Some d
      | PStr s \<Rightarrow> (case loads s of Inr (PDict d) \<Rightarrow> Some d | _ \<Rightarrow> None)
      | _ \<Rightarrow> None)"

definition normalise_mcp_mapping :: "(pystr \<Rightarrow> pystr + pyval) \<Rightarrow> pyval pydict \<Rightarrow> pyval pydict" where
  "normalise_mcp_mapping loads d =
     (case jsonish_mapping loads (get_or_none d ''result'') of
        Some nested \<Rightarrow> nested
      | None \<Rightarrow>
          (case get_or_none d ''result'' of
             PStr s \<Rightarrow> if length d = 1 then [(''description'', PStr s)] else d
           | _ \<Rightarrow> d))"

definition unwrap_mcp_payload :: "(pystr \<Rightarrow> pystr + pyval) \<Rightarrow> pyval \<Rightarrow> pyval pydict" where
  "unwrap_mcp_payload loads result =
     (case result of
        PDict d \<Rightarrow>
          let rest = normalise_mcp_mapping loads (case get_or_none d ''result'' of PDict n \<Rightarrow> n | _ \<Rightarrow> d);
              first_text = (case get_or_none d ''content'' of
                              PList (PDict f # _) \<Rightarrow> as_str (get_or_none f ''text'') | _ \<Rightarrow> None)
          in (case get_or_none d ''structuredContent'' of
                PDict s \<Rightarrow> normalise_mcp_mapping loads s
              | _ \<Rightarrow>
                  (case first_text of
                     None \<Rightarrow> rest
                   | Some text \<Rightarrow>
                       (case loads text of
                          Inl _ \<Rightarrow> [(''description'', PStr text)]
                        | Inr (PDict p) \<Rightarrow> normalise_mcp_mapping loads p
                        | Inr _ \<Rightarrow> rest)))
      | _ \<Rightarrow> [])"

lemma size_dict_get: "dict_get d k = Some v \<Longrightarrow> size v < size (PDict d)"
  by (induction d) (auto split: if_splits)

lemma size_in_list: "v \<in> set vs \<Longrightarrow> size v < size (PList vs)" "v \<in> set vs \<Longrightarrow> size v < size (PTuple vs)"
  by (induction vs) auto

lemma rmap_cong [fundef_cong]: "xs = ys \<Longrightarrow> (\<And>x. x \<in> set ys \<Longrightarrow> f x = g x) \<Longrightarrow> rmap f xs = rmap g ys"
  by (induction xs arbitrary: ys) auto

function adf_to_text :: "(pyval \<Rightarrow> pystr) \<Rightarrow> pyval \<Rightarrow> pystr + pystr" where
  "adf_to_text repr v =
     (case v of
        PStr s \<Rightarrow> Inr s
      | PDict d \<Rightarrow>
          if get_or_none d ''type'' = PStr ''text'' then Inr (py_str repr (get_default d ''text'' (PStr [])))
          else rbind (case dict_get d ''content'' of
                        None \<Rightarrow> Inr []
                      | Some (PList vs) \<Rightarrow> rmap (adf_to_text repr) vs
                      | Some (PTuple vs) \<Rightarrow> rmap (adf_to_text repr) vs
                      | Some (PStr s) \<Rightarrow> Inr (map (\<lambda>c. [c]) s)
                      | Some (PDict e) \<Rightarrow> Inr (map fst e)
                      | Some _ \<Rightarrow> Inl ''TypeError'')
                 (\<lambda>parts. Inr (join_with [newline] (filter (\<lambda>p. p \<noteq> []) parts)))
      | PList vs \<Rightarrow> rbind (rmap (adf_to_text repr) vs) (\<lambda>parts. Inr (join_with [newline] parts))
      | PNone \<Rightarrow> Inr []
      | _ \<Rightarrow> Inr (py_str repr v))"
  by pat_completeness auto
termination
proof (relation "measure (size \<circ> snd)", goal_cases)
  case (2 repr v vs x)
  then show ?case using size_in_list(1) [of x vs] by simp
next
  case (3 repr v d w vs x)
  then show ?case using size_in_list(1) [of x vs] size_dict_get [of d "''content''" "PList vs"] by simp
next
  case (4 repr v d w vs x)
  then show ?case using size_in_list(2) [of x vs] size_dict_get [of d "''content''" "PTuple vs"] by simp
qed simp

declare adf_to_text.simps [simp del]

section \<open>The input of the analysis\<close>

definition reply_heading :: pystr where
  "reply_heading = ''Ek kullanici cevabi:''"

definition with_reply :: "pystr \<Rightarrow> pystr \<Rightarrow> pystr" where
  "with_reply description comment =
     (if strip comment = [] then description
      else description @ [newline, newline] @ reply_heading @ [newline] @ strip comment)"

definition is_custom_field :: "pystr \<Rightarrow> bool" where
  "is_custom_field k \<longleftrightarrow> starts_with k ''customfield_'' \<or> lower k \<in> set [''repository'', ''repo'']"

definition custom_fields_of :: "(pyval \<Rightarrow> pystr) \<Rightarrow> pyval pydict \<Rightarrow> pystr + pystr option pydict" where
  "custom_fields_of repr flds =
     rmap (\<lambda>(k, v). case v of PNone \<Rightarrow> Inr (k, None) | _ \<Rightarrow> rbind (adf_to_text repr v) (\<lambda>t. Inr (k, Some t)))
       (filter (\<lambda>(k, _). is_custom_field k) flds)"

definition input_description :: "(pyval \<Rightarrow> pystr) \<Rightarrow> pyval pydict \<Rightarrow> pyval pydict \<Rightarrow> pystr option option \<Rightarrow> pystr + pystr" where
  "input_description repr flds issue raw_event =
     rbind (adf_to_text repr (or_value (get_or_none flds ''description'') (get_or_none issue ''description''))) (\<lambda>t.
       Inr (if t \<noteq> [] then t else case raw_event of Some (Some b) \<Rightarrow> b | _ \<Rightarrow> []))"

definition configured_repos :: "(pyval \<Rightarrow> pystr) \<Rightarrow> pyval pydict \<Rightarrow> pystr + pyval list" where
  "configured_repos repr config =
     rbind (iter_value (get_or_none config ''repo_mappings'')) (\<lambda>ms.
       Inr (List.map_filter (\<lambda>m. case m of
                               PDict d \<Rightarrow> if truthy (get_or_none d ''bitbucket_repo'')
                                           then Some (PStr (py_str repr (get_or_none d ''bitbucket_repo''))) else None
                             | _ \<Rightarrow> None) ms))"

definition merged_config ::
  "(pyval \<Rightarrow> pystr) \<Rightarrow> pystr pydict \<Rightarrow> AutomationWorkflowInput \<Rightarrow> pyval pydict \<Rightarrow> pystr + pyval pydict" where
  "merged_config repr environ inp config =
     rbind (if aw_available_repos inp \<noteq> [] then Inr (map PStr (aw_available_repos inp)) else configured_repos repr config) (\<lambda>repos.
     rbind (if aw_available_spaces inp \<noteq> [] then Inr (map PStr (aw_available_spaces inp))
            else iter_value (get_or_none config ''confluence_space_keys'')) (\<lambda>spaces.
       Inr (dict_set ''default_language''
              (PStr (if aw_default_language inp \<noteq> [] then aw_default_language inp
                     else py_str repr (or_value (get_or_none config ''default_language'') (PStr ''tr''))))
           (dict_set ''available_spaces'' (PList spaces)
           (dict_set ''available_repos'' (PList repos)
           (dict_set ''available_capabilities''
              (PList (map PStr (if aw_available_capabilities inp \<noteq> [] then aw_available_capabilities inp
                                else config_capabilities config environ))) config))))))"

definition issue_payload_to_input ::
  "(pyval \<Rightarrow> pystr) \<Rightarrow> pystr pydict \<Rightarrow> pyval option \<Rightarrow> AutomationWorkflowInput \<Rightarrow> pyval pydict \<Rightarrow> pystr \<Rightarrow>
     pystr + TaskAnalysisInput" where
  "issue_payload_to_input repr environ file inp body comment =
     (let issue = (case dict_get body ''issue'' of None \<Rightarrow> body | Some (PDict d) \<Rightarrow> d | Some _ \<Rightarrow> []);
          flds = sub_mapping issue ''fields'';
          summary = py_str repr (or_value (or_value (get_or_none flds ''summary'') (get_or_none issue ''summary'')) (PStr (aw_issue_key inp)));
          labels = (case get_or_none flds ''labels'' of PList vs \<Rightarrow> vs | _ \<Rightarrow> [])
      in rbind (input_description repr flds issue (aw_raw_event inp)) (\<lambda>description.
         rbind (custom_fields_of repr flds) (\<lambda>custom.
         rbind (load_department_config file (aw_department_id inp)) (\<lambda>config.
         rbind (merged_config repr environ inp config) (\<lambda>dept_config.
           Inr \<lparr>ti_issue_key = aw_issue_key inp, ti_title = summary, ti_description = with_reply description comment,
                ti_labels = map (py_str repr) labels, ti_custom_fields = custom, ti_dept_id = aw_department_id inp,
                ti_dept_config = dept_config, ti_trace_id = aw_trace_id inp,
                ti_issue_meta = [(''fields'', PDict flds)]\<rparr>)))))"

definition prepare_task_analysis_input ::
  "(pyval \<Rightarrow> pystr) \<Rightarrow> (pystr \<Rightarrow> pystr + pyval) \<Rightarrow> pystr pydict \<Rightarrow> pyval option \<Rightarrow> pystr + pyval \<Rightarrow>
     AutomationWorkflowInput \<Rightarrow> pystr \<Rightarrow> pystr + TaskAnalysisInput" where
  \<comment> \<open>\<open>answer\<close>: what \<open>jira_get_issue\<close> returns or raises\<close>
  "prepare_task_analysis_input repr loads environ file answer inp comment =
     issue_payload_to_input repr environ file inp
       (case answer of Inl _ \<Rightarrow> [] | Inr result \<Rightarrow> unwrap_mcp_payload loads result) comment"

section \<open>Lemmas\<close>

lemma prepared_fields:
  assumes "prepare_task_analysis_input repr loads environ file answer inp comment = Inr ti"
  obtains flds description where "ti_issue_meta ti = [(''fields'', PDict flds)]"
    "ti_description ti = with_reply description comment" "ti_issue_key ti = aw_issue_key inp"
  using assms
  by (auto simp: prepare_task_analysis_input_def issue_payload_to_input_def Let_def rbind_eq_Inr)

lemma with_reply_suffix: "strip comment \<noteq> [] \<Longrightarrow> \<exists>p. with_reply description comment = p @ strip comment"
  by (simp add: with_reply_def)

lemma meta_of_fields_not_epic: "ti_issue_meta ti = [(''fields'', PDict flds)] \<Longrightarrow> \<not> is_epic_issue ti"
  by (simp add: is_epic_issue_def get_or_none_def)

lemma validate_source: "tr_source (fst (validate_result dd r)) = tr_source r"
  by (simp add: validate_result_def require_command_def apply_web_search_downgrade_def Let_def split_beta split: option.splits)

lemma run_llm_source: "run_llm_analysis env cache inp dd = (Inr r, cache') \<Longrightarrow> tr_source r = ''llm_analysis''"
  by (auto simp: run_llm_analysis_def failed_analysis_def result_from_llm_def rbind_eq_Inr Let_def
      split: prod.splits sum.splits option.splits)

lemma analyze_checked_source:
  assumes "analyze_checked env cache inp dd fm = (Inr r, cs, cache')" "\<not> is_epic_issue inp"
  shows "tr_source r = ''yaml_frontmatter'' \<or> tr_source r = ''llm_analysis''"
proof (cases "case fm of None \<Rightarrow> None | Some p \<Rightarrow> map_option (\<lambda>_. p) (fm_workflow_type p)")
  case (Some p)
  with assms have "r = fst (validate_result dd (result_from_frontmatter p inp dd))"
    by (simp add: analyze_checked_def split_beta)
  then show ?thesis by (simp add: validate_source) (simp add: result_from_frontmatter_def Let_def)
next
  case None
  obtain x c where x: "run_llm_analysis env cache inp dd = (x, c)" by fastforce
  with None assms obtain r0 where "x = Inr r0" "r = fst (validate_result dd r0)"
    by (auto simp: analyze_checked_def split_beta split: sum.splits)
  with x show ?thesis by (simp add: validate_source run_llm_source)
qed

section \<open>Properties\<close>

text \<open>
  Epics are never recognised: the activity that prepares the analysis nests the issue's fields one level too deep for
  the test of the analyser, so whatever Jira returns, no prepared issue counts as an epic and no analysis has the
  source \<open>epic_auto_detect\<close>; an epic is analysed by the LLM like any other issue.
\<close>

theorem epic_detection_never_fires:
  assumes "prepare_task_analysis_input repr loads environ file answer inp comment = Inr ti"
    and "analyze_task env cache ti = (Inr r, cs, cache')"
  shows "\<not> is_epic_issue ti \<and> (tr_source r = ''yaml_frontmatter'' \<or> tr_source r = ''llm_analysis'')"
proof -
  have "\<not> is_epic_issue ti"
    using assms(1) by (rule prepared_fields) (rule meta_of_fields_not_epic)
  moreover obtain dd fm cs0 where "analyze_checked env cache ti dd fm = (Inr r, cs0, cache')"
    using assms(2) by (rule analyze_task_Inr)
  ultimately show ?thesis using analyze_checked_source by blast
qed

definition demo_automation :: AutomationWorkflowInput where
  "demo_automation =
     \<lparr>aw_issue_key = ''A-1'', aw_department_id = ''d'', aw_available_capabilities = [''jira'', ''execution''],
      aw_available_repos = [], aw_available_spaces = [], aw_default_language = ''tr'', aw_trigger_event = ''jira:issue_assigned'',
      aw_iteration = 1, aw_raw_event = None, aw_trace_id = [], aw_notify_on_success = False, aw_notify_channels = [],
      aw_slack_webhook = None, aw_notify_email = None\<rparr>"

definition epic_answer :: pyval where
  "epic_answer = PDict [(''fields'', PDict [(''summary'', PStr ''s''), (''issuetype'', PDict [(''name'', PStr ''Epic'')]),
     (''subtasks'', PList [PDict [(''key'', PStr ''A-2'')]])])]"

theorem epic_detection_never_fires_witness:
  "\<exists>ti r cs c. prepare_task_analysis_input (\<lambda>_. []) (\<lambda>_. Inl []) [] None (Inr epic_answer) demo_automation [] = Inr ti \<and>
     analyze_task (demo_analyzer (Inl ''503'') PNone) empty_cache ti = (Inr r, cs, c) \<and> tr_status r = ''rejected'' \<and>
     (tr_source r = ''yaml_frontmatter'' \<or> tr_source r = ''llm_analysis'')"
proof -
  let ?p = "prepare_task_analysis_input (\<lambda>_. []) (\<lambda>_. Inl []) [] None (Inr epic_answer) demo_automation []"
  let ?a = "analyze_task (demo_analyzer (Inl ''503'') PNone) empty_cache (projr ?p)"
  have "\<not> isl ?p" "\<not> isl (fst ?a)" and s: "tr_status (projr (fst ?a)) = ''rejected''" by code_simp+
  then have "?p = Inr (projr ?p)" "?a = (Inr (projr (fst ?a)), fst (snd ?a), snd (snd ?a))" by simp_all
  from epic_detection_never_fires [OF this] this s show ?thesis by blast
qed

end
