(* ===== verification/Gateway_Workflow.thy ===== *)
theory Gateway_Workflow
  imports Analysis_Input Branch_Rules Workflow_Registry
begin

text \<open>
  \<^verbatim>\<open>workers/automation-worker/.../workflows/automation_workflow.py\<close>: the \<open>AutomationWorkflow\<close> gateway, from the
  acknowledgement of a task over its analysis, the questions to the user, the capability gate and the branch rules to the
  start of the child workflow, its results and the final notification.

  Every await is a value of \<open>gateway_call\<close>; the state of a run holds the calls made so far, in order, and the three
  fields the signal \<open>info_received\<close> changes. The world is the record \<open>gateway_env\<close>: for each kind of await, what it
  yields as a function of the calls up to and including it, and which signals are delivered while it is pending. An
  await whose result is ignored and whose exceptions are swallowed has only its signals. A wait that no signal ends
  times out. Texts of comments are the values of \<open>gateway_comment\<close>. A decoded activity result is a JSON value, so
  branch rules arrive as dictionaries, never as \<open>BranchPatternRule\<close> objects.
\<close>

section \<open>Constants\<close>

definition NEEDS_INFO_MAX_ITERATIONS :: nat where "NEEDS_INFO_MAX_ITERATIONS = 3"

definition NEEDS_INFO_TIMEOUT :: timedelta where "NEEDS_INFO_TIMEOUT = days 7"

definition EXECUTION_DEFAULT_BUCKET :: pystr where "EXECUTION_DEFAULT_BUCKET = ''ai-runs''"

definition AGENT_RUNNER_WORKFLOW_TYPES :: "pystr list" where
  "AGENT_RUNNER_WORKFLOW_TYPES =
     [''code_change_with_test'', ''code_change_commit_only'', ''pr_review'', ''confluence_doc_create'',
      ''confluence_doc_update'', ''research_basic'', ''research_with_web'', ''research_publish_confluence'',
      ''research_summary_jira'', ''multi_step'']"

definition EXECUTION_RUN_WORKFLOW_TYPES :: "pystr list" where
  "EXECUTION_RUN_WORKFLOW_TYPES = [''remote_ssh_test_only'', ''noop_test'', ''script_execute'']"

definition BRANCH_AWARE_WORKFLOW_TYPES :: "pystr list" where
  "BRANCH_AWARE_WORKFLOW_TYPES = [''code_change_with_test'', ''code_change_commit_only'', ''pr_review'']"

section \<open>Data\<close>

record AutomationStop =
  st_decision :: pystr
  st_workflow_type :: "pystr option"
  st_summary :: pystr
  st_failure_reason :: pystr
  st_missing_capabilities :: "pystr list"

record AutomationWorkflowOutput =
  ao_decision :: pystr
  ao_workflow_type :: "pystr option"
  ao_child_workflow_id :: "pystr option"
  ao_summary :: pystr
  ao_failure_reason :: "pystr option"
  ao_missing_capabilities :: "pystr list"

record ChildWorkflowSpec =
  cs_workflow_name :: pystr
  cs_workflow_id :: pystr
  cs_task_queue :: pystr
  cs_parent_close_policy :: pystr

record AgentRunnerWorkflowInput =
  ar_parent_workflow_id :: pystr
  ar_issue_key :: pystr
  ar_department_id :: pystr
  ar_workflow_type :: pystr
  ar_analysis :: gateway_analysis
  ar_target_repo :: "pystr option"
  ar_target_branch :: "pystr option"
  ar_iteration :: int
  ar_max_iter :: int
  ar_default_language :: pystr
  ar_trace_id :: pystr
  ar_available_capabilities :: "pystr list"
  ar_available_repos :: "pystr list"
  ar_available_spaces :: "pystr list"

record ExecutionRunWorkflowInput =
  er_parent_workflow_id :: pystr
  er_command :: pystr
  er_workdir :: "pystr option"
  er_environment :: "(pystr \<times> pystr) list"
  er_artifact_minio_prefix :: pystr
  er_department_id :: pystr
  er_workflow_type :: pystr
  er_start_to_close_timeout :: "int option"
  er_trace_id :: pystr
  er_needs_docker :: bool
  er_docker_image_tag :: "pystr option"
  er_docker_dockerfile_path :: "pystr option"

datatype child_args = AgentArgs AgentRunnerWorkflowInput | ExecutionArgs ExecutionRunWorkflowInput

datatype child_result =
    RunOutput "int option" "pystr option" "pystr option" \<comment> \<open>exit code, stdout and stderr of \<open>ExecutionRunWorkflowOutput\<close>\<close>
  | ChildValue pyval

datatype ActionType = JIRA_COMMENT | JIRA_ATTACHMENT | BITBUCKET_COMMIT | BITBUCKET_PR | CONFLUENCE_PAGE | JIRA_TRANSITION

record ExecutorOutputAction =
  ea_type :: ActionType
  ea_params :: "pyval pydict"
  ea_index :: nat

datatype failure_cause =
    TableInconsistency
  | ChildNotStarted pystr
  | UnexpectedStatus pystr
  | InputNotLoaded pystr
  | ActivityFailed pystr

datatype gateway_comment =
    AckComment
  | MissingCapsComment pystr "pystr list"
  | UnknownTypeComment pystr
  | BranchDeniedComment pystr pystr RouteDecision
  | AnalysisFailedComment failure_cause
  | QuestionsComment "pystr list"
  | NeedsInfoTimeoutComment
  | LoopCapComment

datatype audit_row =
    StopAudit AutomationStop
  | AnalyserParked nat "pystr option" "pystr list" rat pystr \<comment> \<open>iteration, type, missing fields, confidence, source\<close>
  | QuestionsParked nat pystr "pystr list"
  | EpicDetected pyval

datatype gateway_call =
    AddComment gateway_comment
  | Transition pystr
  | AuditWrite audit_row
  | PrepareInput pystr
  | AnalyzeTask TaskAnalysisInput
  | LlmAnalyzeTask
  | LoadBranchRules
  | WaitInfo
  | StartChild ChildWorkflowSpec child_args
  | AwaitChild
  | PostNoopResult pystr "int option"
  | ExecuteOutputActions "ExecutorOutputAction list" pystr
  | Notify pystr pystr "pystr option" \<comment> \<open>status, summary, error\<close>

record gateway_run =
  gr_info_received :: bool
  gr_pending_comment_body :: "pystr option"
  gr_history :: "pystr list"
  gr_calls :: "gateway_call list"

record gateway_env =
  ge_repr :: "pyval \<Rightarrow> pystr"
  ge_workflow_id :: pystr
  ge_runners_importable :: bool
  ge_signals :: "gateway_call list \<Rightarrow> pyval list"
  ge_prepare :: "gateway_call list \<Rightarrow> pystr + TaskAnalysisInput"
  ge_analyze :: "gateway_call list \<Rightarrow> pystr + TaskAnalysisResult"
  ge_llm :: "gateway_call list \<Rightarrow> pystr + gateway_analysis"
  ge_rules :: "gateway_call list \<Rightarrow> pystr + pyval"
  ge_start :: "gateway_call list \<Rightarrow> pystr option" \<comment> \<open>the exception of a start that fails\<close>
  ge_child :: "gateway_call list \<Rightarrow> pystr + child_result"

section \<open>Signals and awaits\<close>

definition signal_text :: "(pyval \<Rightarrow> pystr) \<Rightarrow> pyval \<Rightarrow> pystr" where
  "signal_text repr v =
     (case v of
        PStr s \<Rightarrow> s
      | PDict d \<Rightarrow> py_str repr (or_value (get_default d ''comment_body'' (PStr [])) (PStr []))
      | PNone \<Rightarrow> []
      | _ \<Rightarrow> py_str repr v)"

definition info_received :: "(pyval \<Rightarrow> pystr) \<Rightarrow> gateway_run \<Rightarrow> pyval \<Rightarrow> gateway_run" where
  "info_received repr r v =
     (let text = signal_text repr v
      in r\<lparr>gr_pending_comment_body := Some text,
           gr_history := (if text = [] then gr_history r else gr_history r @ [text]),
           gr_info_received := True\<rparr>)"

definition perform :: "gateway_env \<Rightarrow> gateway_call \<Rightarrow> gateway_run \<Rightarrow> gateway_run" where
  \<comment> \<open>an await: the call is made, then the signals that arrive until it completes are handled\<close>
  "perform env c r =
     (let r' = r\<lparr>gr_calls := gr_calls r @ [c]\<rparr>
      in foldl (info_received (ge_repr env)) r' (ge_signals env (gr_calls r')))"

definition initial_run :: gateway_run where
  "initial_run = \<lparr>gr_info_received = False, gr_pending_comment_body = None, gr_history = [], gr_calls = []\<rparr>"

section \<open>Stopping\<close>

definition best_effort_jira_comment :: "gateway_env \<Rightarrow> gateway_comment option \<Rightarrow> gateway_run \<Rightarrow> gateway_run" where
  \<comment> \<open>\<open>None\<close> is the empty body\<close>
  "best_effort_jira_comment env body r = (case body of None \<Rightarrow> r | Some c \<Rightarrow> perform env (AddComment c) r)"

definition stop_with_audit ::
  "gateway_env \<Rightarrow> pystr \<Rightarrow> pystr option \<Rightarrow> pystr \<Rightarrow> pystr \<Rightarrow> gateway_comment option \<Rightarrow> pystr list \<Rightarrow> gateway_run \<Rightarrow>
     AutomationStop \<times> gateway_run" where
  "stop_with_audit env decision wt why summary message missing_caps r =
     (let stop = \<lparr>st_decision = decision, st_workflow_type = wt, st_summary = summary, st_failure_reason = why,
                  st_missing_capabilities = missing_caps\<rparr>
      in (stop, best_effort_jira_comment env message (perform env (AuditWrite (StopAudit stop)) r)))"

definition stop_to_output :: "AutomationStop \<Rightarrow> AutomationWorkflowOutput" where
  "stop_to_output stop =
     \<lparr>ao_decision = st_decision stop, ao_workflow_type = st_workflow_type stop, ao_child_workflow_id = None,
      ao_summary = st_summary stop, ao_failure_reason = Some (st_failure_reason stop),
      ao_missing_capabilities = st_missing_capabilities stop\<rparr>"

definition finalize_stop :: "gateway_env \<Rightarrow> AutomationStop \<times> gateway_run \<Rightarrow> AutomationWorkflowOutput \<times> gateway_run" where
  "finalize_stop env sr =
     (case sr of (stop, r) \<Rightarrow>
        (stop_to_output stop, perform env (Notify ''failed'' (st_summary stop) (Some (st_failure_reason stop))) r))"

type_synonym 'a gated = "(AutomationStop + 'a) \<times> gateway_run"

definition stopped :: "AutomationStop \<times> gateway_run \<Rightarrow> 'a gated" where
  "stopped sr = (Inl (fst sr), snd sr)"

definition gbind :: "'a gated \<Rightarrow> ('a \<Rightarrow> gateway_run \<Rightarrow> 'b gated) \<Rightarrow> 'b gated" where
  \<comment> \<open>\<open>if isinstance(x, _AutomationStop): return x\<close>\<close>
  "gbind x k = (case x of (Inl stop, r) \<Rightarrow> (Inl stop, r) | (Inr a, r) \<Rightarrow> k a r)"

section \<open>Analysis\<close>

definition prepare_and_analyse ::
  "gateway_env \<Rightarrow> pystr option \<Rightarrow> gateway_run \<Rightarrow> TaskAnalysisResult gated" where
  "prepare_and_analyse env comment r =
     (let r1 = perform env (PrepareInput (case comment of None \<Rightarrow> [] | Some c \<Rightarrow> c)) r
      in case ge_prepare env (gr_calls r1) of
           Inl exc \<Rightarrow>
             stopped (stop_with_audit env ''failed'' None ''task_analysis_failed''
               (''prepare_task_analysis_input failed: '' @ exc) (Some (AnalysisFailedComment (InputNotLoaded exc))) [] r1)
         | Inr ti \<Rightarrow>
             let r2 = perform env (AnalyzeTask ti) r1
             in case ge_analyze env (gr_calls r2) of
                  Inl exc \<Rightarrow>
                    stopped (stop_with_audit env ''failed'' None ''task_analysis_failed''
                      (''analyze_task failed: '' @ exc) (Some (AnalysisFailedComment (ActivityFailed exc))) [] r2)
                | Inr t \<Rightarrow> (Inr t, r2))"

definition is_rejected :: "TaskAnalysisResult \<Rightarrow> bool" where
  "is_rejected t \<longleftrightarrow> \<not> tr_accepted t \<and> tr_status t = ''rejected''"

definition or_text :: "pystr option \<Rightarrow> pystr \<Rightarrow> pystr" where
  \<comment> \<open>\<open>text or default\<close>\<close>
  "or_text x d = (case x of None \<Rightarrow> d | Some s \<Rightarrow> if s = [] then d else s)"

definition stop_rejected :: "gateway_env \<Rightarrow> TaskAnalysisResult \<Rightarrow> pystr \<Rightarrow> gateway_run \<Rightarrow> 'a gated" where
  "stop_rejected env t dflt r =
     stopped (stop_with_audit env ''denied'' (tr_workflow_type t) ''task_analysis_rejected'' (or_text (tr_error t) dflt) None [] r)"

definition await_info :: "gateway_env \<Rightarrow> gateway_run \<Rightarrow> gateway_run" where
  \<comment> \<open>the flag is reset, then the run waits for a signal or the timeout\<close>
  "await_info env r = perform env WaitInfo (r\<lparr>gr_info_received := False, gr_pending_comment_body := None\<rparr>)"

definition stop_timed_out :: "gateway_env \<Rightarrow> pystr option \<Rightarrow> pystr \<Rightarrow> gateway_run \<Rightarrow> 'a gated" where
  "stop_timed_out env wt summary r =
     stopped (stop_with_audit env ''failed'' wt ''needs_info_timeout'' summary (Some NeedsInfoTimeoutComment) []
       (perform env (Transition ''stale'') r))"

definition iteration_number :: "nat \<Rightarrow> nat" where
  \<comment> \<open>\<open>iteration + 1\<close> when \<open>n\<close> rounds follow the current one\<close>
  "iteration_number n = NEEDS_INFO_MAX_ITERATIONS - n"

fun analyser_loop :: "gateway_env \<Rightarrow> nat \<Rightarrow> TaskAnalysisResult \<Rightarrow> gateway_run \<Rightarrow> TaskAnalysisResult gated" where
  "analyser_loop env 0 t r =
     stopped (stop_with_audit env ''failed'' (tr_workflow_type t) ''loop_cap_reached''
       (''task_analyser needs_info loop cap reached after '' @ show_nat NEEDS_INFO_MAX_ITERATIONS @ '' iterations'')
       (Some LoopCapComment) [] r)"
| "analyser_loop env (Suc n) t r =
     (let r1 = perform env (AuditWrite (AnalyserParked (iteration_number n) (tr_workflow_type t) (tr_missing_fields t)
                 (tr_confidence t) (tr_source t))) r;
          r2 = await_info env r1
      in if \<not> gr_info_received r2 then
           stop_timed_out env (tr_workflow_type t)
             (''task_analyser needs_info timed out after 24h (iteration '' @ show_nat (iteration_number n) @ '')'') r2
         else gbind (prepare_and_analyse env (gr_pending_comment_body r2) r2) (\<lambda>t' r3.
           if is_rejected t' then stop_rejected env t' ''task analyzer rejected after re-analysis'' r3
           else if tr_status t' = ''ready'' then (Inr t', r3)
           else analyser_loop env n t' r3))"

definition subtask_count :: "pyval list \<Rightarrow> pyval" where
  "subtask_count actions =
     (case find (\<lambda>a. case a of PDict d \<Rightarrow> get_or_none d ''_meta'' = PStr ''epic_auto_detect'' | _ \<Rightarrow> False) actions of
        Some (PDict d) \<Rightarrow> get_default d ''subtask_count'' (PInt 0)
      | _ \<Rightarrow> PInt 0)"

definition finish_analysis ::
  "gateway_env \<Rightarrow> TaskAnalysisResult \<Rightarrow> gateway_run \<Rightarrow> (TaskAnalysisResult \<times> DescriptionOverride) gated" where
  "finish_analysis env t r =
     (if tr_status t \<noteq> ''ready'' then
        stopped (stop_with_audit env ''failed'' (tr_workflow_type t) ''task_analysis_failed''
          (''task analyzer returned unexpected status '' @ str_repr (tr_status t))
          (Some (AnalysisFailedComment (UnexpectedStatus (tr_status t)))) [] r)
      else (Inr (t, build_description_override t),
            if tr_source t = ''epic_auto_detect'' then perform env (AuditWrite (EpicDetected (subtask_count (tr_output_actions t)))) r
            else r))"

definition run_task_analyser :: "gateway_env \<Rightarrow> gateway_run \<Rightarrow> (TaskAnalysisResult \<times> DescriptionOverride) gated" where
  "run_task_analyser env r =
     gbind (prepare_and_analyse env None r) (\<lambda>t r1.
       if is_rejected t then stop_rejected env t ''task analyzer rejected the request'' r1
       else gbind (if tr_status t = ''needs_info''
                   then analyser_loop env NEEDS_INFO_MAX_ITERATIONS t (perform env (Transition ''needs_info'') r1)
                   else (Inr t, r1)) (finish_analysis env))"

section \<open>Questions\<close>

definition settled :: "gateway_analysis \<Rightarrow> bool" where
  "settled a \<longleftrightarrow> res_confidence a \<noteq> ''low'' \<or> res_needs_info_questions a = []"

fun question_loop :: "gateway_env \<Rightarrow> nat \<Rightarrow> gateway_analysis \<Rightarrow> gateway_run \<Rightarrow> gateway_analysis gated" where
  "question_loop env 0 a r =
     stopped (stop_with_audit env ''failed'' (Some (res_workflow_type a)) ''loop_cap_reached''
       (''needs_info loop cap reached after '' @ show_nat NEEDS_INFO_MAX_ITERATIONS @ '' iterations'') (Some LoopCapComment) [] r)"
| "question_loop env (Suc n) a r =
     (let r1 = perform env (AddComment (QuestionsComment (res_needs_info_questions a))) r;
          r2 = perform env (Transition ''needs_info'') r1;
          r3 = perform env (AuditWrite (QuestionsParked (iteration_number n) (res_workflow_type a) (res_needs_info_questions a))) r2;
          r4 = await_info env r3
      in if \<not> gr_info_received r4 then
           stop_timed_out env (Some (res_workflow_type a))
             (''needs_info timed out after 24h - issue marked stale (iteration '' @ show_nat (iteration_number n) @ '')'') r4
         else
           let r5 = perform env LlmAnalyzeTask r4 \<comment> \<open>\<open>_with_comment_appended\<close> returns the input unchanged\<close>
           in case ge_llm env (gr_calls r5) of
                Inl exc \<Rightarrow>
                  stopped (stop_with_audit env ''failed'' (Some (res_workflow_type a)) ''task_analysis_failed''
                    (''needs_info re-analysis failed: '' @ exc) (Some (AnalysisFailedComment (ActivityFailed exc))) [] r5)
              | Inr a' \<Rightarrow> if settled a' then (Inr a', r5) else question_loop env n a' r5)"

definition handle_needs_info_loop :: "gateway_env \<Rightarrow> gateway_analysis \<Rightarrow> gateway_run \<Rightarrow> gateway_analysis gated" where
  "handle_needs_info_loop env a r =
     (if settled a then (Inr a, r) else question_loop env NEEDS_INFO_MAX_ITERATIONS a r)"

section \<open>The gates\<close>

definition sorted_names :: "pystr set \<Rightarrow> pystr list" where
  \<comment> \<open>\<open>sorted(missing)\<close>: the names a capability can have, in order\<close>
  "sorted_names s =
     filter (\<lambda>c. c \<in> s) [''bitbucket'', ''confluence'', ''execution'', ''jira'', ''web_search'']"

definition capability_gate :: "gateway_env \<Rightarrow> AutomationWorkflowInput \<Rightarrow> pystr \<Rightarrow> gateway_run \<Rightarrow> unit gated" where
  "capability_gate env inp wt r =
     (case required_capabilities wt of
        Inl _ \<Rightarrow>
          if map_of WORKFLOW_TYPE_CAPABILITIES wt \<noteq> None then
            stopped (stop_with_audit env ''failed'' (Some wt) ''capability_table_inconsistency''
              (''workflow_type '' @ str_repr wt @ '' present in WORKFLOW_TYPE_CAPABILITIES but rejected by required_capabilities - table inconsistency.'')
              (Some (AnalysisFailedComment TableInconsistency)) [] r)
          else
            stopped (stop_with_audit env ''denied'' (Some wt) ''unknown_workflow_type'' (''unknown workflow_type '' @ str_repr wt)
              (Some (UnknownTypeComment wt)) [] r)
      | Inr required \<Rightarrow>
          let lack = missing_capabilities required (set (aw_available_capabilities inp));
              lacking = sorted_names lack
          in if lack \<noteq> {} then
               stopped (stop_with_audit env ''denied'' (Some wt) ''missing_capability''
                 (''missing capabilities for '' @ wt @ '': '' @ join_with '', '' lacking) (Some (MissingCapsComment wt lacking)) lacking r)
             else (Inr (), r))"

definition type_set :: "pyval \<Rightarrow> pystr list option" where
  \<comment> \<open>\<open>frozenset(v or ())\<close>; an element that is no string never equals a workflow type and is written as the empty
     name; an unhashable one raises\<close>
  "type_set v =
     (if \<not> truthy v then Some []
      else case iterate v of
             None \<Rightarrow> None
           | Some xs \<Rightarrow>
               if list_ex (\<lambda>x. case x of PList _ \<Rightarrow> True | PDict _ \<Rightarrow> True | _ \<Rightarrow> False) xs then None
               else Some (map (\<lambda>x. case x of PStr s \<Rightarrow> s | _ \<Rightarrow> []) xs))"

definition coerce_rule :: "(pyval \<Rightarrow> pystr) \<Rightarrow> pyval \<Rightarrow> BranchPatternRule option" where
  "coerce_rule repr item =
     (case item of
        PDict d \<Rightarrow>
          (case (type_set (get_or_none d ''denied_workflow_types''), type_set (get_or_none d ''allowed_workflow_types'')) of
             (Some denied, Some permitted) \<Rightarrow>
               (case mk_BranchPatternRule (py_str repr (get_default d ''glob'' (PStr []))) denied permitted
                       (py_str repr (get_default d ''reason'' (PStr []))) of
                  Inl _ \<Rightarrow> None | Inr rule \<Rightarrow> Some rule)
           | _ \<Rightarrow> None)
      | _ \<Rightarrow> None)"

fun collect_rules :: "(pyval \<Rightarrow> pystr) \<Rightarrow> pyval list \<Rightarrow> BranchPatternRule list option" where
  "collect_rules repr [] = Some []"
| "collect_rules repr (x # xs) =
     (case coerce_rule repr x of
        None \<Rightarrow> None
      | Some rule \<Rightarrow> map_option (Cons rule) (collect_rules repr xs))"

definition coerce_rules :: "(pyval \<Rightarrow> pystr) \<Rightarrow> pyval \<Rightarrow> BranchPatternRule list" where
  \<comment> \<open>an item that cannot be coerced, or nothing to iterate over, gives the pinned defaults\<close>
  "coerce_rules repr loaded =
     (case iterate loaded of
        None \<Rightarrow> DEFAULT_BRANCH_PATTERN_RULES
      | Some items \<Rightarrow>
          (case collect_rules repr items of None \<Rightarrow> DEFAULT_BRANCH_PATTERN_RULES | Some rules \<Rightarrow> rules))"

definition loaded_rules :: "gateway_env \<Rightarrow> gateway_call list \<Rightarrow> BranchPatternRule list" where
  "loaded_rules env calls =
     (case ge_rules env calls of
        Inl _ \<Rightarrow> DEFAULT_BRANCH_PATTERN_RULES
      | Inr loaded \<Rightarrow> coerce_rules (ge_repr env) loaded)"

definition evaluate_branch_pattern_rules ::
  "gateway_env \<Rightarrow> pystr \<Rightarrow> pystr \<Rightarrow> gateway_run \<Rightarrow> RouteDecision \<times> gateway_run" where
  "evaluate_branch_pattern_rules env branch wt r =
     (let r1 = perform env LoadBranchRules r
      in (route_by_branch_pattern branch wt (loaded_rules env (gr_calls r1)), r1))"

definition branch_gate :: "gateway_env \<Rightarrow> gateway_analysis \<Rightarrow> gateway_run \<Rightarrow> unit gated" where
  "branch_gate env a r =
     (case res_target_branch a of
        Some branch \<Rightarrow>
          if res_workflow_type a \<in> set BRANCH_AWARE_WORKFLOW_TYPES \<and> branch \<noteq> [] then
            let (d, r1) = evaluate_branch_pattern_rules env branch (res_workflow_type a) r
            in if allowed d then (Inr (), r1)
               else stopped (stop_with_audit env ''out_of_scope'' (Some (res_workflow_type a)) ''branch_rule_denied''
                 (''branch_pattern_rules denied '' @ res_workflow_type a @ '' on '' @ branch @ '': '' @ reason d)
                 (Some (BranchDeniedComment (res_workflow_type a) branch d)) [] r1)
          else (Inr (), r)
      | None \<Rightarrow> (Inr (), r))"

section \<open>The child\<close>

definition awaits_child :: "gateway_analysis \<Rightarrow> bool" where
  "awaits_child a \<longleftrightarrow>
     res_workflow_type a = ''noop_test'' \<or>
     (res_workflow_type a \<in> set [''remote_ssh_test_only'', ''script_execute''] \<and> res_output_actions a \<noteq> [])"

definition child_workflow_name :: "pystr \<Rightarrow> pystr" where
  "child_workflow_name wt =
     (if wt \<in> set AGENT_RUNNER_WORKFLOW_TYPES then ''AgentRunnerWorkflow''
      else if wt \<in> set EXECUTION_RUN_WORKFLOW_TYPES then ''ExecutionRunWorkflow''
      else ''AgentRunnerWorkflow'')"

definition build_child_spec :: "pystr \<Rightarrow> gateway_analysis \<Rightarrow> ChildWorkflowSpec" where
  \<comment> \<open>both names are registered, so the look-up of the queue never fails\<close>
  "build_child_spec parent a =
     (let name = child_workflow_name (res_workflow_type a)
      in \<lparr>cs_workflow_name = name, cs_workflow_id = name @ ''-'' @ parent @ ''-iter-1'',
          cs_task_queue = (case task_queue_for name of Inl _ \<Rightarrow> [] | Inr q \<Rightarrow> q),
          cs_parent_close_policy = (if awaits_child a then ''TERMINATE'' else ''ABANDON'')\<rparr>)"

definition nonempty :: "pystr option \<Rightarrow> pystr option" where
  "nonempty x = (case x of None \<Rightarrow> None | Some s \<Rightarrow> if s = [] then None else Some s)"

definition MAX_ITER :: int where "MAX_ITER = 999"

definition build_workspace_path :: "pystr \<Rightarrow> pystr \<Rightarrow> int \<Rightarrow> path_error + pystr" where
  "build_workspace_path base key n =
     (if \<not> issue_key_ok key then Inl (BadIssueKey key)
      else if n < 0 \<or> n > MAX_ITER then Inl (OutOfRange n)
      else Inr (rstrip_slash base @ ''/'' @ key @ ''/iter-'' @ show_int n))"

definition execution_input :: "gateway_env \<Rightarrow> AutomationWorkflowInput \<Rightarrow> gateway_analysis \<Rightarrow> DescriptionOverride \<Rightarrow> ExecutionRunWorkflowInput" where
  "execution_input env inp a ov =
     (let key = aw_issue_key inp;
          command = (if res_workflow_type a = ''noop_test'' then ''echo \"noop_test ok: '' @ key @ ''\"''
                     else or_text (nonempty (ga_execution_command a)) (or_text (ov_execution_command ov) []));
          docker = ga_needs_docker a
      in \<lparr>er_parent_workflow_id = key, er_command = command,
          er_workdir = (if ge_runners_importable env
                        then (case build_workspace_path ''/var/ai-runner'' key (aw_iteration inp) of Inl _ \<Rightarrow> None | Inr p \<Rightarrow> Some p)
                        else None),
          er_environment = [(''CLEANUP_POLICY'', or_text (ov_cleanup_policy ov) ''on_success'')],
          er_artifact_minio_prefix = rstrip_slash (execution_artifact_key key []),
          er_department_id = aw_department_id inp, er_workflow_type = res_workflow_type a,
          er_start_to_close_timeout = ov_timeout_seconds ov, er_trace_id = aw_trace_id inp, er_needs_docker = docker,
          er_docker_image_tag = (if docker then Some (''ai-bot-'' @ lower key @ ''-iter-'' @ show_int (aw_iteration inp) @ '':latest'') else None),
          er_docker_dockerfile_path = (if docker then Some ''Dockerfile'' else None)\<rparr>)"

definition child_args_of ::
  "gateway_env \<Rightarrow> ChildWorkflowSpec \<Rightarrow> AutomationWorkflowInput \<Rightarrow> gateway_analysis \<Rightarrow> DescriptionOverride \<Rightarrow> child_args" where
  "child_args_of env spec inp a ov =
     (if cs_workflow_name spec = ''AgentRunnerWorkflow'' then
        AgentArgs
          \<lparr>ar_parent_workflow_id = aw_issue_key inp, ar_issue_key = aw_issue_key inp,
           ar_department_id = aw_department_id inp, ar_workflow_type = res_workflow_type a, ar_analysis = a,
           ar_target_repo = or_else (nonempty (ov_target_repo ov)) (res_target_repo a),
           ar_target_branch = or_else (nonempty (ov_target_branch ov)) (res_target_branch a),
           ar_iteration = aw_iteration inp, ar_max_iter = 5, ar_default_language = aw_default_language inp,
           ar_trace_id = aw_trace_id inp, ar_available_capabilities = aw_available_capabilities inp,
           ar_available_repos = aw_available_repos inp, ar_available_spaces = aw_available_spaces inp\<rparr>
      else ExecutionArgs (execution_input env inp a ov))"

definition start_child ::
  "gateway_env \<Rightarrow> AutomationWorkflowInput \<Rightarrow> gateway_analysis \<Rightarrow> DescriptionOverride \<Rightarrow> gateway_run \<Rightarrow> ChildWorkflowSpec gated" where
  "start_child env inp a ov r =
     (let spec = build_child_spec (ge_workflow_id env) a;
          r1 = perform env (StartChild spec (child_args_of env spec inp a ov)) r
      in case ge_start env (gr_calls r1) of
           Some exc \<Rightarrow>
             stopped (stop_with_audit env ''failed'' (Some (res_workflow_type a)) ''child_dispatch_failed''
               (''start_child_workflow failed: '' @ exc) (Some (AnalysisFailedComment (ChildNotStarted exc))) [] r1)
         | None \<Rightarrow> (Inr spec, r1))"

section \<open>Results of the child\<close>

definition str_field :: "pyval pydict \<Rightarrow> pystr \<Rightarrow> pystr option" where
  "str_field d k = as_str (get_or_none d k)"

fun extract_noop_stdout :: "child_result \<Rightarrow> pystr" where
  "extract_noop_stdout (RunOutput code out err) = (case out of None \<Rightarrow> [] | Some u \<Rightarrow> u)"
| "extract_noop_stdout (ChildValue v) =
     (case v of
        PDict d \<Rightarrow> (case first_some [str_field d ''stdout'', str_field d ''stdout_uri''] of None \<Rightarrow> [] | Some s \<Rightarrow> s)
      | _ \<Rightarrow> [])"

fun extract_noop_exit_code :: "child_result \<Rightarrow> int option" where
  "extract_noop_exit_code (RunOutput code out err) = code"
| "extract_noop_exit_code (ChildValue v) =
     (case v of
        PDict d \<Rightarrow> (case get_or_none d ''exit_code'' of PInt i \<Rightarrow> Some i | PBool b \<Rightarrow> Some (if b then 1 else 0) | _ \<Rightarrow> None)
      | _ \<Rightarrow> None)"

definition await_noop_test_and_post_result :: "gateway_env \<Rightarrow> gateway_run \<Rightarrow> gateway_run" where
  "await_noop_test_and_post_result env r =
     (let r1 = perform env AwaitChild r
      in case ge_child env (gr_calls r1) of
           Inl _ \<Rightarrow> r1
         | Inr result \<Rightarrow> perform env (PostNoopResult (extract_noop_stdout result) (extract_noop_exit_code result)) r1)"

fun extract_execution_stdout_uri :: "child_result \<Rightarrow> pystr option" where
  "extract_execution_stdout_uri (RunOutput code out err) = out"
| "extract_execution_stdout_uri (ChildValue v) = (case v of PDict d \<Rightarrow> str_field d ''stdout_uri'' | _ \<Rightarrow> None)"

fun extract_execution_stderr_uri :: "child_result \<Rightarrow> pystr option" where
  "extract_execution_stderr_uri (RunOutput code out err) = err"
| "extract_execution_stderr_uri (ChildValue v) = (case v of PDict d \<Rightarrow> str_field d ''stderr_uri'' | _ \<Rightarrow> None)"

definition strip_slashes :: "pystr \<Rightarrow> pystr" where
  "strip_slashes s = rstrip_slash (dropWhile (\<lambda>c. c = CHR ''/'') s)"

definition split_minio_uri :: "pystr option \<Rightarrow> pystr \<Rightarrow> pystr \<times> pystr" where
  "split_minio_uri uri fallback =
     (case nonempty uri of
        None \<Rightarrow> (EXECUTION_DEFAULT_BUCKET, fallback)
      | Some u \<Rightarrow>
          let raw = strip_slashes (strip (case strip_prefix ''s3://'' u of None \<Rightarrow> u | Some t \<Rightarrow> t));
              bucket = takeWhile (\<lambda>c. c \<noteq> CHR ''/'') raw;
              key = dropWhile (\<lambda>c. c = CHR ''/'') (dropWhile (\<lambda>c. c \<noteq> CHR ''/'') raw)
          in if CHR ''/'' \<notin> set raw then (EXECUTION_DEFAULT_BUCKET, fallback)
             else (if bucket = [] then EXECUTION_DEFAULT_BUCKET else bucket, if key = [] then fallback else key))"

definition ACTION_TYPES :: "(pystr \<times> ActionType) list" where
  "ACTION_TYPES =
     [(''jira_comment'', JIRA_COMMENT), (''jira_attachment'', JIRA_ATTACHMENT), (''bitbucket_commit'', BITBUCKET_COMMIT),
      (''bitbucket_put_file'', BITBUCKET_COMMIT), (''bitbucket_create_pr'', BITBUCKET_PR), (''bitbucket_pr'', BITBUCKET_PR),
      (''confluence_create_page'', CONFLUENCE_PAGE), (''confluence_update_page'', CONFLUENCE_PAGE),
      (''confluence_page'', CONFLUENCE_PAGE), (''jira_transition'', JIRA_TRANSITION)]"

definition kind_to_action_type :: "pystr \<Rightarrow> ActionType option" where
  \<comment> \<open>\<open>None\<close> is the \<open>ValueError\<close>\<close>
  "kind_to_action_type k = dict_get ACTION_TYPES k"

definition payload_to_params :: "(pystr \<times> pyval) list \<Rightarrow> pyval pydict" where
  "payload_to_params entries = dict_of_items (filter (\<lambda>(k, _). k \<noteq> []) entries)"

definition setdefault :: "pystr \<Rightarrow> pyval \<Rightarrow> pyval pydict \<Rightarrow> pyval pydict" where
  "setdefault k v d = (if dict_get d k = None then dict_set k v d else d)"

definition attachment_params ::
  "(pyval \<Rightarrow> pystr) \<Rightarrow> pystr \<times> pystr \<Rightarrow> pystr \<times> pystr \<Rightarrow> pyval pydict \<Rightarrow> pyval pydict" where
  \<comment> \<open>an attachment without a file is the run's stdout or stderr log\<close>
  "attachment_params repr out err params =
     (if dict_get params ''file_path'' = None \<and> dict_get params ''key'' = None then
        let requested = py_str repr (get_default params ''key_name'' (PStr ''stdout.log''));
            (bucket, key) = (if starts_with requested ''stderr'' then err else out)
        in setdefault ''file_name'' (PStr requested) (dict_set ''key'' (PStr key) (dict_set ''bucket'' (PStr bucket) params))
      else params)"

fun executor_actions ::
  "(pyval \<Rightarrow> pystr) \<Rightarrow> AutomationWorkflowInput \<Rightarrow> pystr \<times> pystr \<Rightarrow> pystr \<times> pystr \<Rightarrow> nat \<Rightarrow> OutputAction list \<Rightarrow>
     ExecutorOutputAction list" where
  "executor_actions repr inp out err i [] = []"
| "executor_actions repr inp out err i (a # as) =
     (case kind_to_action_type (kind a) of
        None \<Rightarrow> executor_actions repr inp out err (Suc i) as
      | Some t \<Rightarrow>
          let params = setdefault ''dept_id'' (PStr (aw_department_id inp))
                (setdefault ''issue_key'' (PStr (aw_issue_key inp)) (payload_to_params (payload a)));
              params = (if t = JIRA_ATTACHMENT then attachment_params repr out err params else params)
          in \<lparr>ea_type = t, ea_params = params, ea_index = i\<rparr> # executor_actions repr inp out err (Suc i) as)"

definition await_execution_run_and_publish_results ::
  "gateway_env \<Rightarrow> AutomationWorkflowInput \<Rightarrow> pystr \<Rightarrow> OutputAction list \<Rightarrow> gateway_run \<Rightarrow> gateway_run" where
  "await_execution_run_and_publish_results env inp child actions r =
     (if actions = [] then r
      else
        let r1 = perform env AwaitChild r;
            (out, err) = (case ge_child env (gr_calls r1) of
                            Inl _ \<Rightarrow> (None, None)
                          | Inr result \<Rightarrow> (extract_execution_stdout_uri result, extract_execution_stderr_uri result));
            batch = executor_actions (ge_repr env) inp (split_minio_uri out (execution_artifact_key child ''stdout.log''))
                      (split_minio_uri err (execution_artifact_key child ''stderr.log'')) 0 actions
        in if batch = [] then r1 else perform env (ExecuteOutputActions batch child) r1)"

section \<open>The run\<close>

definition after_start ::
  "gateway_env \<Rightarrow> AutomationWorkflowInput \<Rightarrow> gateway_analysis \<Rightarrow> ChildWorkflowSpec \<Rightarrow> gateway_run \<Rightarrow> gateway_run" where
  "after_start env inp a spec r =
     (if res_workflow_type a = ''noop_test'' then await_noop_test_and_post_result env r
      else if res_workflow_type a \<in> set [''remote_ssh_test_only'', ''script_execute''] \<and> res_output_actions a \<noteq> []
      then await_execution_run_and_publish_results env inp (cs_workflow_id spec) (res_output_actions a) r
      else r)"

definition gateway_checks ::
  "gateway_env \<Rightarrow> AutomationWorkflowInput \<Rightarrow> gateway_run \<Rightarrow> (gateway_analysis \<times> DescriptionOverride) gated" where
  \<comment> \<open>the run up to the last gate\<close>
  "gateway_checks env inp r =
     gbind (run_task_analyser env (perform env (AddComment AckComment) r)) (\<lambda>(t, ov) r1.
     gbind (handle_needs_info_loop env (to_llm_analysis_result t) r1) (\<lambda>a r2.
     gbind (capability_gate env inp (res_workflow_type a) r2) (\<lambda>_ r3.
     gbind (branch_gate env a r3) (\<lambda>_ r4. (Inr (a, ov), r4)))))"

definition gateway_gates ::
  "gateway_env \<Rightarrow> AutomationWorkflowInput \<Rightarrow> gateway_run \<Rightarrow> (gateway_analysis \<times> ChildWorkflowSpec) gated" where
  \<comment> \<open>the run up to the start of the child\<close>
  "gateway_gates env inp r =
     gbind (gateway_checks env inp r) (\<lambda>(a, ov) r1.
     gbind (start_child env inp a ov r1) (\<lambda>spec r2. (Inr (a, spec), r2)))"

definition run_gateway ::
  "gateway_env \<Rightarrow> AutomationWorkflowInput \<Rightarrow> gateway_run \<Rightarrow> AutomationWorkflowOutput \<times> gateway_run" where
  "run_gateway env inp r0 =
     (case gateway_gates env inp r0 of
        (Inl stop, r) \<Rightarrow> finalize_stop env (stop, r)
      | (Inr (a, spec), r) \<Rightarrow>
          let summary = ''Dispatched '' @ cs_workflow_name spec @ '' ('' @ res_workflow_type a @ '') for '' @ aw_issue_key inp
          in (\<lparr>ao_decision = ''dispatched'', ao_workflow_type = Some (res_workflow_type a),
               ao_child_workflow_id = Some (cs_workflow_id spec), ao_summary = summary, ao_failure_reason = None,
               ao_missing_capabilities = []\<rparr>,
              perform env (Notify ''completed'' summary None) (after_start env inp a spec r)))"

section \<open>What the steps add to the run\<close>

text \<open>
  A call is plain when it neither notifies, nor starts a child, nor records the end of a run. A gated step is
  tame when it adds plain calls only, at most \<open>m\<close> when it goes on; when it stops, at most \<open>n\<close>, among them exactly
  one that records the stop it returns.
\<close>

fun plain :: "gateway_call \<Rightarrow> bool" where
  "plain (Notify s t e) = False"
| "plain (StartChild s a) = False"
| "plain (AuditWrite (StopAudit s)) = False"
| "plain _ = True"

definition records_stop :: "AutomationStop \<Rightarrow> gateway_call list \<Rightarrow> bool" where
  "records_stop stop cs \<longleftrightarrow>
     (\<exists>pre post. cs = pre @ AuditWrite (StopAudit stop) # post \<and> list_all plain pre \<and> list_all plain post)"

definition tame :: "nat \<Rightarrow> nat \<Rightarrow> gateway_run \<Rightarrow> 'a gated \<Rightarrow> bool" where
  "tame m n r x \<longleftrightarrow>
     (\<exists>cs. gr_calls (snd x) = gr_calls r @ cs \<and>
        (case fst x of
           Inr _ \<Rightarrow> length cs \<le> m \<and> list_all plain cs
         | Inl stop \<Rightarrow> length cs \<le> n \<and> records_stop stop cs))"

lemma foldl_info_calls: "gr_calls (foldl (info_received repr) r vs) = gr_calls r"
  by (induction vs arbitrary: r) (simp_all add: info_received_def Let_def)

lemma calls_perform [simp]: "gr_calls (perform env c r) = gr_calls r @ [c]"
  by (simp add: perform_def foldl_info_calls Let_def)

lemma calls_await_info [simp]: "gr_calls (await_info env r) = gr_calls r @ [WaitInfo]"
  by (simp add: await_info_def)

lemma records_stop_prefix: "list_all plain pre \<Longrightarrow> records_stop stop cs \<Longrightarrow> records_stop stop (pre @ cs)"
  unfolding records_stop_def by (metis append.assoc list_all_append)

lemma tame_go: "m' = 0 \<Longrightarrow> tame m' n r (Inr a, r)"
  by (simp add: tame_def)

lemma tame_Inr: "gr_calls r' = gr_calls r @ cs \<Longrightarrow> length cs \<le> m \<Longrightarrow> list_all plain cs \<Longrightarrow> tame m n r (Inr a, r')"
  by (auto simp: tame_def)

lemma records_stopI: "list_all plain pre \<Longrightarrow> list_all plain post \<Longrightarrow> records_stop stop (pre @ AuditWrite (StopAudit stop) # post)"
  by (auto simp: records_stop_def)

lemma tame_stop_silent:
  "gr_calls r' = gr_calls r @ cs \<Longrightarrow> length cs + 1 \<le> n \<Longrightarrow> list_all plain cs \<Longrightarrow>
     tame m n r (stopped (stop_with_audit env d wt why summary None caps r'))"
  by (simp add: tame_def stopped_def stop_with_audit_def best_effort_jira_comment_def Let_def records_stopI)

lemma tame_stop:
  "gr_calls r' = gr_calls r @ cs \<Longrightarrow> length cs + 2 \<le> n \<Longrightarrow> list_all plain cs \<Longrightarrow>
     tame m n r (stopped (stop_with_audit env d wt why summary msg caps r'))"
  by (cases msg)
     (simp_all add: tame_def stopped_def stop_with_audit_def best_effort_jira_comment_def Let_def records_stopI)

lemma tame_after:
  assumes "gr_calls r' = gr_calls r @ cs" "list_all plain cs" "tame m n r' x" "length cs + m \<le> m'" "length cs + n \<le> n'"
  shows "tame m' n' r x"
  using assms records_stop_prefix unfolding tame_def by (fastforce split: sum.splits)

lemma tame_gbind:
  assumes "tame m n r x" "\<And>a r'. x = (Inr a, r') \<Longrightarrow> tame m' n' r' (k a r')"
    and "m + m' \<le> p" "n \<le> q" "m + n' \<le> q"
  shows "tame p q r (gbind x k)"
proof (cases "fst x")
  case (Inl stop)
  with assms(1) show ?thesis using \<open>n \<le> q\<close> by (cases x) (auto simp: tame_def gbind_def)
next
  case (Inr a)
  then obtain r' where x: "x = (Inr a, r')" by (cases x) auto
  with assms(1) obtain cs where cs: "gr_calls r' = gr_calls r @ cs" "length cs \<le> m" "list_all plain cs"
    by (auto simp: tame_def)
  have "tame p q r (k a r')"
    by (rule tame_after [OF cs(1,3) assms(2) [OF x]]) (use cs(2) assms(3,5) in linarith)+
  with x show ?thesis by (simp add: gbind_def)
qed

lemma tame_mono: "tame m n r x \<Longrightarrow> m \<le> m' \<Longrightarrow> n \<le> n' \<Longrightarrow> tame m' n' r x"
  by (rule tame_after [of r r "[]"]) simp_all

lemma tame_if: "tame m n r x \<Longrightarrow> tame m n r y \<Longrightarrow> tame m n r (if b then x else y)"
  by simp

lemma tame_case_sum:
  "(\<And>e. tame m n r (f e)) \<Longrightarrow> (\<And>v. tame m n r (g v)) \<Longrightarrow> tame m n r (case x of Inl e \<Rightarrow> f e | Inr v \<Rightarrow> g v)"
  by (cases x) simp_all

lemma tame_prepare: "tame 2 4 r (prepare_and_analyse env comment r)"
proof -
  let ?p = "PrepareInput (case comment of None \<Rightarrow> [] | Some c \<Rightarrow> c)"
  show ?thesis
    by (auto simp: prepare_and_analyse_def Let_def split: sum.splits
        intro: tame_stop [where cs = "[?p]"] tame_stop [where cs = "[?p, AnalyzeTask _]"] tame_Inr [where cs = "[?p, AnalyzeTask _]"])
qed

lemma tame_timed_out: "3 \<le> n \<Longrightarrow> tame m n r (stop_timed_out env wt summary r)"
  unfolding stop_timed_out_def by (rule tame_stop [where cs = "[Transition ''stale'']"]) simp_all

lemma tame_rejected: "1 \<le> n \<Longrightarrow> tame m n r (stop_rejected env t d r)"
  unfolding stop_rejected_def by (rule tame_stop_silent [where cs = "[]"]) simp_all

lemma tame_analyser_loop: "tame (4 * n) (4 * n + 2) r (analyser_loop env n t r)"
proof (induction n arbitrary: t r)
  case 0
  show ?case unfolding analyser_loop.simps by (rule tame_stop [where cs = "[]"]) simp_all
next
  case (Suc n)
  let ?A = "AuditWrite (AnalyserParked (iteration_number n) (tr_workflow_type t) (tr_missing_fields t) (tr_confidence t) (tr_source t))"
  let ?r2 = "await_info env (perform env ?A r)"
  let ?rest = "\<lambda>t' r3. if is_rejected t' then stop_rejected env t' ''task analyzer rejected after re-analysis'' r3
    else if tr_status t' = ''ready'' then (Inr t', r3) else analyser_loop env n t' r3"
  have rest: "tame (4 * n) (4 * n + 2) r3 (?rest t' r3)" for t' r3
    using Suc.IH by (auto intro: tame_Inr [where cs = "[]"] tame_rejected)
  have on: "tame (4 * n + 2) (4 * n + 4) ?r2 (gbind (prepare_and_analyse env c ?r2) ?rest)" for c
    by (rule tame_gbind [OF tame_prepare rest]) simp_all
  have calls: "gr_calls ?r2 = gr_calls r @ [?A, WaitInfo]" by simp
  show ?case
    unfolding analyser_loop.simps Let_def
  proof (rule tame_if)
    show "tame (4 * Suc n) (4 * Suc n + 2) r (gbind (prepare_and_analyse env (gr_pending_comment_body ?r2) ?r2) ?rest)"
      by (rule tame_after [OF calls _ on]) simp_all
  qed (rule tame_after [OF calls _ tame_timed_out [of 3 0]], simp_all)
qed

lemma tame_finish: "tame 1 2 r (finish_analysis env t r)"
  unfolding finish_analysis_def
  by (auto intro: tame_stop [where cs = "[]"] tame_Inr [where cs = "[]"]
      tame_Inr [where cs = "[AuditWrite (EpicDetected (subtask_count (tr_output_actions t)))]"])

lemma tame_task_analyser: "tame 16 17 r (run_task_analyser env r)"
proof -
  have "tame 13 15 r1 (if tr_status t = ''needs_info''
      then analyser_loop env NEEDS_INFO_MAX_ITERATIONS t (perform env (Transition ''needs_info'') r1) else (Inr t, r1))" for t r1
    using tame_after [OF calls_perform [of env "Transition ''needs_info''" r1] _ tame_analyser_loop [of 3], of 13 15]
    by (auto simp: NEEDS_INFO_MAX_ITERATIONS_def intro: tame_Inr [where cs = "[]"])
  then have "tame 14 15 r1 (gbind (if tr_status t = ''needs_info''
      then analyser_loop env NEEDS_INFO_MAX_ITERATIONS t (perform env (Transition ''needs_info'') r1) else (Inr t, r1))
      (finish_analysis env))" for t r1
    by (rule tame_gbind [OF _ tame_finish]) simp_all
  then show ?thesis
    unfolding run_task_analyser_def
    by (intro tame_gbind [OF tame_prepare, where m' = 14 and n' = 15]) (auto intro: tame_rejected)
qed

lemma tame_question_loop: "tame (5 * n) (5 * n + 2) r (question_loop env n a r)"
proof (induction n arbitrary: a r)
  case 0
  show ?case unfolding question_loop.simps by (rule tame_stop [where cs = "[]"]) simp_all
next
  case (Suc n)
  let ?C = "AddComment (QuestionsComment (res_needs_info_questions a))"
  let ?P = "AuditWrite (QuestionsParked (iteration_number n) (res_workflow_type a) (res_needs_info_questions a))"
  let ?r4 = "await_info env (perform env ?P (perform env (Transition ''needs_info'') (perform env ?C r)))"
  let ?r5 = "perform env LlmAnalyzeTask ?r4"
  have c4: "gr_calls ?r4 = gr_calls r @ [?C, Transition ''needs_info'', ?P, WaitInfo]" by simp
  have c5: "gr_calls ?r5 = gr_calls r @ [?C, Transition ''needs_info'', ?P, WaitInfo, LlmAnalyzeTask]" by simp
  have timeout: "tame (5 * Suc n) (5 * Suc n + 2) r (stop_timed_out env wt s ?r4)" for wt s
    by (rule tame_after [OF c4 _ tame_timed_out [of 3 0]]) simp_all
  have failed: "tame (5 * Suc n) (5 * Suc n + 2) r (stopped (stop_with_audit env d wt w s m cp ?r5))" for d wt w s m cp
    by (rule tame_stop [OF c5]) simp_all
  have more: "tame (5 * Suc n) (5 * Suc n + 2) r (if settled a' then (Inr a', ?r5) else question_loop env n a' ?r5)" for a'
  proof (cases "settled a'")
    case True
    have "tame (5 * Suc n) (5 * Suc n + 2) r (Inr a', ?r5)" by (rule tame_Inr [OF c5]) simp_all
    with True show ?thesis by simp
  next
    case False
    have "tame (5 * Suc n) (5 * Suc n + 2) r (question_loop env n a' ?r5)" by (rule tame_after [OF c5 _ Suc.IH]) simp_all
    with False show ?thesis by simp
  qed
  show ?case unfolding question_loop.simps Let_def by (intro tame_if tame_case_sum timeout failed more)
qed

lemma tame_needs_info: "tame 15 17 r (handle_needs_info_loop env a r)"
  using tame_question_loop [of 3] by (simp add: handle_needs_info_loop_def NEEDS_INFO_MAX_ITERATIONS_def tame_Inr [where cs = "[]"])

lemma tame_capability_gate: "tame 0 2 r (capability_gate env inp wt r)"
  unfolding capability_gate_def Let_def
  by (auto intro: tame_stop [where cs = "[]"] tame_Inr [where cs = "[]"] split: sum.splits)

lemma tame_branch_gate: "tame 1 3 r (branch_gate env a r)"
  unfolding branch_gate_def evaluate_branch_pattern_rules_def Let_def
  by (auto intro: tame_stop [where cs = "[LoadBranchRules]"] tame_Inr [where cs = "[LoadBranchRules]"] tame_Inr [where cs = "[]"]
      split: option.splits)

lemma tame_checks: "tame 33 35 r (gateway_checks env inp r)"
proof -
  let ?last = "\<lambda>a ov r3. gbind (branch_gate env a r3) (\<lambda>_ r4. (Inr (a, ov), r4))"
  have b: "tame 1 3 r3 (?last a ov r3)" for a ov r3
    by (rule tame_gbind [OF tame_branch_gate tame_go [where n = 0]]) simp_all
  have c: "tame 1 3 r2 (gbind (capability_gate env inp (res_workflow_type a) r2) (\<lambda>_. ?last a ov))" for a ov r2
    by (rule tame_gbind [OF tame_capability_gate b]) simp_all
  have q: "tame 16 18 r1 (gbind (handle_needs_info_loop env x r1)
      (\<lambda>a r2. gbind (capability_gate env inp (res_workflow_type a) r2) (\<lambda>_. ?last a ov)))" for x ov r1
    by (rule tame_gbind [OF tame_needs_info c]) simp_all
  have "tame 32 34 (perform env (AddComment AckComment) r) (gbind (run_task_analyser env (perform env (AddComment AckComment) r))
      (\<lambda>(t, ov) r1. gbind (handle_needs_info_loop env (to_llm_analysis_result t) r1)
      (\<lambda>a r2. gbind (capability_gate env inp (res_workflow_type a) r2) (\<lambda>_. ?last a ov))))"
    by (rule tame_gbind [OF tame_task_analyser]) (auto split: prod.splits intro: q)
  from tame_after [OF calls_perform _ this, of 33 35] show ?thesis unfolding gateway_checks_def by simp
qed

lemma start_child_cases:
  assumes "start_child env inp a ov r = (x, r')"
  obtains (failed) stop cs where "x = Inl stop" "length cs \<le> 2" "records_stop stop cs"
      "gr_calls r' = gr_calls r @ StartChild (build_child_spec (ge_workflow_id env) a)
         (child_args_of env (build_child_spec (ge_workflow_id env) a) inp a ov) # cs"
    | (started) "x = Inr (build_child_spec (ge_workflow_id env) a)"
      "gr_calls r' = gr_calls r @ [StartChild (build_child_spec (ge_workflow_id env) a)
         (child_args_of env (build_child_spec (ge_workflow_id env) a) inp a ov)]"
proof -
  let ?s = "build_child_spec (ge_workflow_id env) a"
  let ?r1 = "perform env (StartChild ?s (child_args_of env ?s inp a ov)) r"
  show thesis
  proof (cases "ge_start env (gr_calls ?r1)")
    case None
    with assms have "x = Inr ?s" "r' = ?r1" by (auto simp: start_child_def Let_def)
    with started show thesis by simp
  next
    case (Some exc)
    then obtain d wt w s m cp where e: "stopped (stop_with_audit env d wt w s m cp ?r1) = (x, r')"
      using assms unfolding start_child_def Let_def by (simp del: append.simps)
    have "tame 0 2 ?r1 (x, r')" unfolding e [symmetric] by (rule tame_stop [where cs = "[]"]) simp_all
    moreover obtain stop where "x = Inl stop"
      using assms Some by (auto simp: start_child_def Let_def stopped_def)
    ultimately show thesis using failed by (auto simp: tame_def)
  qed
qed

lemma calls_after_start:
  obtains cs where "gr_calls (after_start env inp a spec r) = gr_calls r @ cs" "length cs \<le> 2" "list_all plain cs"
proof -
  have "\<exists>cs. gr_calls (after_start env inp a spec r) = gr_calls r @ cs \<and> length cs \<le> 2 \<and> list_all plain cs"
    by (auto simp: after_start_def await_noop_test_and_post_result_def await_execution_run_and_publish_results_def Let_def
        split: sum.splits prod.splits)
  then show thesis using that by blast
qed

definition gateway_trace :: "gateway_env \<Rightarrow> AutomationWorkflowInput \<Rightarrow> gateway_call list" where
  \<comment> \<open>the calls of a run from its start\<close>
  "gateway_trace env inp = gr_calls (snd (run_gateway env inp initial_run))"

definition accounted :: "AutomationWorkflowOutput \<Rightarrow> pystr \<Rightarrow> gateway_call list \<Rightarrow> bool" where
  \<comment> \<open>the calls before the notification of a run, by its result\<close>
  "accounted out status cs \<longleftrightarrow>
     (case ao_child_workflow_id out of
        Some wid \<Rightarrow>
          ao_decision out = ''dispatched'' \<and> status = ''completed'' \<and>
          (\<exists>pre spec args post. cs = pre @ StartChild spec args # post \<and> cs_workflow_id spec = wid \<and>
             list_all plain pre \<and> list_all plain post)
      | None \<Rightarrow>
          status = ''failed'' \<and>
          (\<exists>pre stop post. cs = pre @ AuditWrite (StopAudit stop) # post \<and> out = stop_to_output stop \<and>
             list_all plain post \<and>
             (list_all plain pre \<or> (\<exists>qs spec args qs'. pre = qs @ StartChild spec args # qs' \<and> list_all plain qs \<and> list_all plain qs'))))"

lemma run_gateway_stopped:
  assumes "records_stop stop cs" "pre = [] \<or> (\<exists>qs spec args. pre = qs @ [StartChild spec args] \<and> list_all plain qs)"
  shows "accounted (stop_to_output stop) ''failed'' (pre @ cs)"
proof -
  obtain p post where cs: "cs = p @ AuditWrite (StopAudit stop) # post" "list_all plain p" "list_all plain post"
    using assms(1) by (auto simp: records_stop_def)
  have "list_all plain (pre @ p) \<or> (\<exists>qs spec args qs'. pre @ p = qs @ StartChild spec args # qs' \<and> list_all plain qs \<and> list_all plain qs')"
    using assms(2) cs(2) by fastforce
  moreover have "pre @ cs = (pre @ p) @ AuditWrite (StopAudit stop) # post" using cs by simp
  moreover have none: "ao_child_workflow_id (stop_to_output stop) = None" by (simp add: stop_to_output_def)
  ultimately show ?thesis using cs(3) unfolding accounted_def none option.case by blast
qed

lemma run_gateway_cases:
  obtains cs status where
    "gateway_trace env inp = cs @ [Notify status (ao_summary (fst (run_gateway env inp initial_run)))
       (ao_failure_reason (fst (run_gateway env inp initial_run)))]"
    "length cs \<le> 36" "accounted (fst (run_gateway env inp initial_run)) status cs"
proof -
  have empty: "gr_calls initial_run = []" by (simp add: initial_run_def)
  obtain x r1 where c: "gateway_checks env inp initial_run = (x, r1)" by fastforce
  have t: "tame 33 35 initial_run (x, r1)" using tame_checks [of initial_run env inp] c by simp
  show thesis
  proof (cases x)
    case (Inl stop)
    with c have g: "gateway_gates env inp initial_run = (Inl stop, r1)" by (simp add: gateway_gates_def gbind_def)
    from t Inl empty have l: "length (gr_calls r1) \<le> 35" and s: "records_stop stop (gr_calls r1)" by (auto simp: tame_def)
    show thesis
      using that [of "gr_calls r1" "''failed''"] l run_gateway_stopped [OF s, of "[]"] g
      by (simp add: gateway_trace_def run_gateway_def finalize_stop_def stop_to_output_def)
  next
    case (Inr y)
    then obtain a ov where x: "x = Inr (a, ov)" by (cases y) auto
    from t x empty have l: "length (gr_calls r1) \<le> 33" and p: "list_all plain (gr_calls r1)" by (auto simp: tame_def)
    obtain z r2 where sc: "start_child env inp a ov r1 = (z, r2)" by fastforce
    from sc show thesis
    proof (cases rule: start_child_cases)
      case (failed stop cs)
      have g: "gateway_gates env inp initial_run = (Inl stop, r2)"
        using c x sc failed(1) by (simp add: gateway_gates_def gbind_def)
      let ?sc = "StartChild (build_child_spec (ge_workflow_id env) a) (child_args_of env (build_child_spec (ge_workflow_id env) a) inp a ov)"
      have acc: "accounted (stop_to_output stop) ''failed'' ((gr_calls r1 @ [?sc]) @ cs)"
        by (rule run_gateway_stopped [OF failed(3)]) (use p in blast)
      show thesis
        using that [of "gr_calls r2" "''failed''"] l acc failed(2,4) g
        by (simp add: gateway_trace_def run_gateway_def finalize_stop_def stop_to_output_def)
    next
      case started
      let ?spec = "build_child_spec (ge_workflow_id env) a"
      have g: "gateway_gates env inp initial_run = (Inr (a, ?spec), r2)"
        using c x sc started(1) by (simp add: gateway_gates_def gbind_def)
      obtain qs where q: "gr_calls (after_start env inp a ?spec r2) = gr_calls r2 @ qs" "length qs \<le> 2" "list_all plain qs"
        by (rule calls_after_start)
      show thesis
        using that [of "gr_calls r2 @ qs" "''completed''"] l p q started(2) g
        by (simp add: gateway_trace_def run_gateway_def Let_def accounted_def) blast
    qed
  qed
qed

section \<open>Properties\<close>

text \<open>
  C29. The gateway always comes to an end: whatever the activities return and whenever signals arrive, a run makes at most
  37 awaits, since each of its two loops asks the user at most three times. (A wait for the user lasts at most seven
  days, and every activity has a timeout.)
\<close>

theorem gateway_run_is_bounded: "length (gateway_trace env inp) \<le> 37"
  by (rule run_gateway_cases [of env inp]) simp

text \<open>
  C12. Every run is accounted for. Its last await, and no other, is the notification, with the summary and the error of the
  result. If the result is a dispatched child, exactly that one child was started and no end was recorded in the
  audit log; otherwise the audit log has exactly one entry for the end of the run, the one the result reports, and at most
  one child was asked for, whose start failed.
\<close>

theorem gateway_run_is_accounted:
  "\<exists>cs status. gateway_trace env inp =
     cs @ [Notify status (ao_summary (fst (run_gateway env inp initial_run))) (ao_failure_reason (fst (run_gateway env inp initial_run)))] \<and>
     accounted (fst (run_gateway env inp initial_run)) status cs"
  by (rule run_gateway_cases [of env inp]) blast

section \<open>With the analyses of the activity\<close>

definition analysed_by_activity :: "gateway_env \<Rightarrow> bool" where
  \<comment> \<open>every result of the activity is one \<open>analyze_task\<close> can return\<close>
  "analysed_by_activity env \<longleftrightarrow>
     (\<forall>cs t. ge_analyze env cs = Inr t \<longrightarrow> (\<exists>an cache ti posted cache'. analyze_task an cache ti = (Inr t, posted, cache')))"

lemma gbind_go: "gbind (Inr a, r) k = k a r"
  by (simp add: gbind_def)

lemma gbind_Inr: "gbind x k = (Inr b, r') \<Longrightarrow> \<exists>a r1. x = (Inr a, r1) \<and> k a r1 = (Inr b, r')"
  by (cases x) (auto simp: gbind_def split: sum.splits)

lemma stopped_not_Inr [simp]: "stopped sr \<noteq> (Inr b, r')"
  by (simp add: stopped_def)

lemma stops_not_Inr [simp]: "stop_rejected env t d r \<noteq> (Inr b, r')" "stop_timed_out env wt s r \<noteq> (Inr b, r')"
  by (simp_all add: stop_rejected_def stop_timed_out_def)

lemma prepare_Inr: "prepare_and_analyse env c r = (Inr t, r') \<Longrightarrow> \<exists>cs. ge_analyze env cs = Inr t"
  by (auto simp: prepare_and_analyse_def Let_def split: sum.splits)

lemma analyser_loop_Inr: "analyser_loop env n t r = (Inr t', r') \<Longrightarrow> \<exists>cs. ge_analyze env cs = Inr t'"
proof (induction n arbitrary: t r)
  case (Suc n)
  then show ?case
    unfolding analyser_loop.simps Let_def by (auto dest!: gbind_Inr dest: prepare_Inr split: if_splits)
qed simp

lemma finish_Inr: "finish_analysis env t r = (Inr (t', ov), r') \<Longrightarrow> t' = t \<and> tr_status t = ''ready'' \<and> ov = build_description_override t"
  by (auto simp: finish_analysis_def split: if_splits)

lemma task_analyser_Inr:
  assumes "run_task_analyser env r = (Inr (t, ov), r')"
  shows "tr_status t = ''ready'' \<and> ov = build_description_override t \<and> (\<exists>cs. ge_analyze env cs = Inr t)"
  using assms unfolding run_task_analyser_def
  by (auto dest!: gbind_Inr finish_Inr dest: prepare_Inr analyser_loop_Inr split: if_splits)

lemma activity_result_ok:
  assumes "analysed_by_activity env" "ge_analyze env cs = Inr t" "tr_status t = ''ready''"
  obtains wt where "tr_workflow_type t = Some wt" "wt \<in> set VALID_WORKFLOW_TYPES" "7 / 10 \<le> tr_confidence t"
    "wt \<in> set EXECUTION_COMMAND_WORKFLOW_TYPES \<Longrightarrow> \<exists>c. tr_execution_command t = Some c \<and> c \<noteq> []"
proof -
  obtain web where "analysis_ok web t"
    using assms(1,2) unfolding analysed_by_activity_def by (meson analyze_task_Inr analyze_checked_ok)
  with assms(3) that show thesis by (auto simp: analysis_ok_def split: option.splits)
qed

lemma settled_result: "7 / 10 \<le> tr_confidence t \<Longrightarrow> settled (to_llm_analysis_result t)"
  by (simp add: settled_def to_llm_analysis_result_def confidence_literal_def)

lemma no_questions:
  assumes "analysed_by_activity env" "run_task_analyser env r = (Inr (t, ov), r')"
  shows "handle_needs_info_loop env (to_llm_analysis_result t) r'' = (Inr (to_llm_analysis_result t), r'')"
proof -
  obtain cs where "tr_status t = ''ready''" "ge_analyze env cs = Inr t" using task_analyser_Inr [OF assms(2)] by blast
  then have "7 / 10 \<le> tr_confidence t" using assms(1) by (meson activity_result_ok)
  then show ?thesis by (simp add: handle_needs_info_loop_def settled_result)
qed

lemma capability_gate_Inr:
  "capability_gate env inp wt r = (Inr u, r') \<Longrightarrow>
     \<exists>req. required_capabilities wt = Inr req \<and> req \<subseteq> set (aw_available_capabilities inp)"
  by (auto simp: capability_gate_def missing_capabilities_def Let_def split: sum.splits if_splits)

definition branch_admitted :: "gateway_env \<Rightarrow> pystr \<Rightarrow> pystr option \<Rightarrow> bool" where
  \<comment> \<open>the rules loaded at some point allow the type on the branch\<close>
  "branch_admitted env wt branch \<longleftrightarrow>
     (\<forall>b. wt \<in> set BRANCH_AWARE_WORKFLOW_TYPES \<and> branch = Some b \<and> b \<noteq> [] \<longrightarrow>
        (\<exists>cs. allowed (route_by_branch_pattern b wt (loaded_rules env cs))))"

lemma branch_gate_Inr: "branch_gate env a r = (Inr u, r') \<Longrightarrow> branch_admitted env (res_workflow_type a) (res_target_branch a)"
  by (auto simp: branch_gate_def branch_admitted_def evaluate_branch_pattern_rules_def Let_def split: option.splits if_splits)

lemma checks_Inr:
  assumes "analysed_by_activity env" "gateway_checks env inp r = (Inr (a, ov), r')"
  obtains t cs req where "ge_analyze env cs = Inr t" "tr_status t = ''ready''" "a = to_llm_analysis_result t"
    "ov = build_description_override t" "required_capabilities (res_workflow_type a) = Inr req"
    "req \<subseteq> set (aw_available_capabilities inp)" "branch_admitted env (res_workflow_type a) (res_target_branch a)"
proof -
  obtain t r1 a' r2 where t: "run_task_analyser env (perform env (AddComment AckComment) r) = (Inr (t, ov), r1)"
    and q: "handle_needs_info_loop env (to_llm_analysis_result t) r1 = (Inr a', r2)" "a' = a"
    and rest: "\<exists>u r3. capability_gate env inp (res_workflow_type a) r2 = (Inr u, r3)" "\<exists>u r3 r4. branch_gate env a r3 = (Inr u, r4)"
    using assms(2) unfolding gateway_checks_def by (auto dest!: gbind_Inr) blast
  have "a = to_llm_analysis_result t" using q no_questions [OF assms(1) t] by simp
  with rest show thesis using that task_analyser_Inr [OF t] capability_gate_Inr branch_gate_Inr by metis
qed

lemma plain_no_start: "list_all plain cs \<Longrightarrow> StartChild s a \<notin> set cs"
  by (auto simp: list_all_iff)

lemma records_stop_no_start: "records_stop stop cs \<Longrightarrow> StartChild s a \<notin> set cs"
  by (auto simp: records_stop_def dest: plain_no_start)

lemma trace_start_child:
  assumes "StartChild spec args \<in> set (gateway_trace env inp)"
  obtains a ov r1 where "gateway_checks env inp initial_run = (Inr (a, ov), r1)"
    "spec = build_child_spec (ge_workflow_id env) a" "args = child_args_of env spec inp a ov"
proof -
  have empty: "gr_calls initial_run = []" by (simp add: initial_run_def)
  obtain x r1 where c: "gateway_checks env inp initial_run = (x, r1)" by fastforce
  have t: "tame 33 35 initial_run (x, r1)" using tame_checks [of initial_run env inp] c by simp
  show thesis
  proof (cases x)
    case (Inl stop)
    with c have "gateway_gates env inp initial_run = (Inl stop, r1)" by (simp add: gateway_gates_def gbind_def)
    moreover from t Inl empty have "records_stop stop (gr_calls r1)" by (auto simp: tame_def)
    ultimately show thesis
      using assms records_stop_no_start by (auto simp: gateway_trace_def run_gateway_def finalize_stop_def)
  next
    case (Inr y)
    then obtain a ov where x: "x = Inr (a, ov)" by (cases y) auto
    from t x empty have p: "list_all plain (gr_calls r1)" by (auto simp: tame_def)
    obtain z r2 where sc: "start_child env inp a ov r1 = (z, r2)" by fastforce
    then have "spec = build_child_spec (ge_workflow_id env) a \<and> args = child_args_of env spec inp a ov"
    proof (cases rule: start_child_cases)
      case (failed stop cs)
      have "gateway_gates env inp initial_run = (Inl stop, r2)"
        using c x sc failed(1) by (simp add: gateway_gates_def gbind_def)
      then show ?thesis
        using assms failed(3,4) plain_no_start [OF p] records_stop_no_start
        by (auto simp: gateway_trace_def run_gateway_def finalize_stop_def)
    next
      case started
      have g: "gateway_gates env inp initial_run = (Inr (a, build_child_spec (ge_workflow_id env) a), r2)"
        using c x sc started(1) by (simp add: gateway_gates_def gbind_def)
      obtain qs where "gr_calls (after_start env inp a (build_child_spec (ge_workflow_id env) a) r2) = gr_calls r2 @ qs"
        "list_all plain qs" by (rule calls_after_start)
      then show ?thesis
        using assms started(2) g plain_no_start [OF p] plain_no_start
        by (auto simp: gateway_trace_def run_gateway_def Let_def)
    qed
    with c x that show thesis by blast
  qed
qed

lemma execution_type_command:
  "cs_workflow_name (build_child_spec p a) \<noteq> ''AgentRunnerWorkflow'' \<Longrightarrow>
     res_workflow_type a = ''noop_test'' \<or> res_workflow_type a \<in> set EXECUTION_COMMAND_WORKFLOW_TYPES"
  by (auto simp: build_child_spec_def child_workflow_name_def EXECUTION_RUN_WORKFLOW_TYPES_def
      EXECUTION_COMMAND_WORKFLOW_TYPES_def Let_def split: if_splits)

lemma execution_command_nonempty:
  assumes "res_workflow_type a = ''noop_test'' \<or> (\<exists>c. ga_execution_command a = Some c \<and> c \<noteq> [])"
  shows "er_command (execution_input env inp a ov) \<noteq> []"
  using assms by (auto simp: execution_input_def Let_def nonempty_def or_text_def)

text \<open>
  C3. A child is started only for a task that passed the gates: the department has every capability its workflow type
  requires, the branch the agent is given is one the department's branch rules allow for that type, and a run on a
  remote host is given a command that is not empty. The analyses are those the activity can return; everything else
  (replies of the user, failing activities, the rules that are loaded) is arbitrary.
\<close>

theorem gateway_starts_only_admitted_tasks:
  assumes "analysed_by_activity env" "StartChild spec args \<in> set (gateway_trace env inp)"
  shows "\<exists>wt req. required_capabilities wt = Inr req \<and> req \<subseteq> set (aw_available_capabilities inp) \<and>
    (case args of
       AgentArgs x \<Rightarrow> ar_workflow_type x = wt \<and> branch_admitted env wt (ar_target_branch x)
     | ExecutionArgs x \<Rightarrow> er_workflow_type x = wt \<and> er_command x \<noteq> [])"
proof -
  obtain a ov r1 where c: "gateway_checks env inp initial_run = (Inr (a, ov), r1)"
    and spec: "spec = build_child_spec (ge_workflow_id env) a" and args: "args = child_args_of env spec inp a ov"
    using assms(2) by (rule trace_start_child)
  obtain t cs req where t: "ge_analyze env cs = Inr t" "tr_status t = ''ready''" and a: "a = to_llm_analysis_result t"
    and ov: "ov = build_description_override t" and req: "required_capabilities (res_workflow_type a) = Inr req"
      "req \<subseteq> set (aw_available_capabilities inp)" and br: "branch_admitted env (res_workflow_type a) (res_target_branch a)"
    using assms(1) c by (rule checks_Inr)
  obtain wt where wt: "tr_workflow_type t = Some wt"
    and cmd: "wt \<in> set EXECUTION_COMMAND_WORKFLOW_TYPES \<Longrightarrow> \<exists>c. tr_execution_command t = Some c \<and> c \<noteq> []"
    by (rule activity_result_ok [OF assms(1) t]) blast
  have type: "res_workflow_type a = wt" and command: "ga_execution_command a = tr_execution_command t"
    by (simp_all add: a wt to_llm_analysis_result_def)
  have "or_else (nonempty (ov_target_branch ov)) (res_target_branch a) = res_target_branch a"
    by (simp add: a ov to_llm_analysis_result_def build_description_override_def or_else_def nonempty_def split: option.splits)
  moreover have "er_command (execution_input env inp a ov) \<noteq> []" if "cs_workflow_name spec \<noteq> ''AgentRunnerWorkflow''"
    using execution_type_command that cmd command type unfolding spec by (intro execution_command_nonempty) metis
  ultimately show ?thesis
    using req br by (auto simp: args child_args_of_def execution_input_def Let_def)
qed

definition demo_task :: TaskAnalysisResult where
  "demo_task = projr (fst (analyze_task (demo_analyzer (Inr ''x'')
     (PDict [(''workflow_type'', PStr ''script_execute''), (''confidence'', PStr ''high''), (''command'', PStr ''make'')]))
     empty_cache (demo_issue ''do it'')))"

definition demo_gateway :: "TaskAnalysisResult \<Rightarrow> (gateway_call list \<Rightarrow> pyval list) \<Rightarrow> gateway_env" where
  "demo_gateway t signals =
     \<lparr>ge_repr = \<lambda>_. [], ge_workflow_id = ''w'', ge_runners_importable = True, ge_signals = signals,
      ge_prepare = \<lambda>_. Inr (demo_issue ''do it''), ge_analyze = \<lambda>_. Inr t, ge_llm = \<lambda>_. Inl ''none'',
      ge_rules = \<lambda>_. Inr (PList []), ge_start = \<lambda>_. None, ge_child = \<lambda>_. Inl ''failed''\<rparr>"

lemma demo_task_analysed: "analysed_by_activity (demo_gateway demo_task signals)"
proof -
  let ?a = "analyze_task (demo_analyzer (Inr ''x'')
     (PDict [(''workflow_type'', PStr ''script_execute''), (''confidence'', PStr ''high''), (''command'', PStr ''make'')]))
     empty_cache (demo_issue ''do it'')"
  have "\<not> isl (fst ?a)" by code_simp
  then have "?a = (Inr demo_task, fst (snd ?a), snd (snd ?a))" unfolding demo_task_def by simp
  then have "\<exists>an cache ti posted c. analyze_task an cache ti = (Inr demo_task, posted, c)" by blast
  then show ?thesis by (simp add: analysed_by_activity_def demo_gateway_def)
qed

theorem gateway_starts_only_admitted_tasks_witness:
  "\<exists>spec x. StartChild spec (ExecutionArgs x) \<in> set (gateway_trace (demo_gateway demo_task (\<lambda>_. [])) demo_automation) \<and>
     cs_workflow_name spec = ''ExecutionRunWorkflow'' \<and> er_workdir x = Some ''/var/ai-runner/A-1/iter-1'' \<and> er_command x \<noteq> []"
proof -
  let ?env = "demo_gateway demo_task (\<lambda>_. [])"
  let ?a = "to_llm_analysis_result demo_task"
  let ?x = "execution_input ?env demo_automation ?a (build_description_override demo_task)"
  have s: "StartChild (build_child_spec ''w'' ?a) (ExecutionArgs ?x) \<in> set (gateway_trace ?env demo_automation)" by code_simp
  have "cs_workflow_name (build_child_spec ''w'' ?a) = ''ExecutionRunWorkflow''" "er_workdir ?x = Some ''/var/ai-runner/A-1/iter-1''"
    by code_simp+
  with s gateway_starts_only_admitted_tasks [OF demo_task_analysed s] show ?thesis by auto
qed

definition gateway_checks_once ::
  "gateway_env \<Rightarrow> AutomationWorkflowInput \<Rightarrow> gateway_run \<Rightarrow> (gateway_analysis \<times> DescriptionOverride) gated" where
  \<comment> \<open>the checks without the second loop of questions\<close>
  "gateway_checks_once env inp r =
     gbind (run_task_analyser env (perform env (AddComment AckComment) r)) (\<lambda>(t, ov) r1.
     gbind (capability_gate env inp (res_workflow_type (to_llm_analysis_result t)) r1) (\<lambda>_ r2.
     gbind (branch_gate env (to_llm_analysis_result t) r2) (\<lambda>_ r3. (Inr (to_llm_analysis_result t, ov), r3))))"

text \<open>
  The second round of questions of the gateway can never start: on the results of the activity its checks are those
  of a gateway without it, because a result that is ready has a confidence of at least 0.7 and so is never rated low.
\<close>

theorem second_question_loop_is_dead:
  assumes "analysed_by_activity env"
  shows "gateway_checks env inp r = gateway_checks_once env inp r"
proof -
  obtain x r1 where x: "run_task_analyser env (perform env (AddComment AckComment) r) = (x, r1)" by fastforce
  show ?thesis
  proof (cases x)
    case (Inr y)
    then obtain t ov where y: "x = Inr (t, ov)" by (cases y) auto
    with x have "handle_needs_info_loop env (to_llm_analysis_result t) r1 = (Inr (to_llm_analysis_result t), r1)"
      by (intro no_questions [OF assms]) simp
    with x y show ?thesis by (simp add: gateway_checks_def gateway_checks_once_def gbind_go)
  qed (simp add: x gateway_checks_def gateway_checks_once_def gbind_def)
qed

theorem second_question_loop_is_dead_witness:
  "gateway_checks (demo_gateway demo_task (\<lambda>_. [])) demo_automation initial_run =
     gateway_checks_once (demo_gateway demo_task (\<lambda>_. [])) demo_automation initial_run"
  by (rule second_question_loop_is_dead [OF demo_task_analysed])

lemma history_perform: "set (gr_history r) \<subseteq> set (gr_history (perform env c r))"
proof -
  have "set (gr_history r) \<subseteq> set (gr_history (foldl (info_received repr) r vs))" for repr r and vs :: "pyval list"
    by (induction vs arbitrary: r) (force simp: info_received_def Let_def)+
  from this [of "r\<lparr>gr_calls := gr_calls r @ [c]\<rparr>"] show ?thesis by (simp add: perform_def Let_def)
qed

lemma history_signal:
  assumes "PStr reply \<in> set (ge_signals env (gr_calls r @ [c]))" "reply \<noteq> []"
  shows "reply \<in> set (gr_history (perform env c r))"
proof -
  have "reply \<in> set (gr_history (foldl (info_received repr) r vs))" if "PStr reply \<in> set vs" for repr r and vs :: "pyval list"
    using that
  proof (induction vs rule: rev_induct)
    case (snoc v vs)
    then show ?case using assms(2) by (auto simp: info_received_def signal_text_def Let_def)
  qed simp
  with assms(1) show ?thesis by (simp add: perform_def Let_def)
qed

lemma await_info_unanswered: "ge_signals env (gr_calls r @ [WaitInfo]) = [] \<Longrightarrow> \<not> gr_info_received (await_info env r)"
  by (simp add: await_info_def perform_def Let_def)

lemma analyser_loop_unanswered:
  assumes "\<And>cs. ge_signals env (cs @ [WaitInfo]) = []"
  obtains stop r' where "analyser_loop env (Suc n) t r = (Inl stop, r')" "st_failure_reason stop = ''needs_info_timeout''"
    "st_decision stop = ''failed''" "set (gr_history r) \<subseteq> set (gr_history r')"
proof -
  let ?A = "AuditWrite (AnalyserParked (iteration_number n) (tr_workflow_type t) (tr_missing_fields t) (tr_confidence t) (tr_source t))"
  let ?r2 = "await_info env (perform env ?A r)"
  have no: "\<not> gr_info_received ?r2" by (rule await_info_unanswered) (simp only: assms)
  obtain summary where l: "analyser_loop env (Suc n) t r = stop_timed_out env (tr_workflow_type t) summary ?r2"
    unfolding analyser_loop.simps Let_def using no by (metis if_not_P)
  have "set (gr_history r) \<subseteq> set (gr_history ?r2)"
    using history_perform [of r env ?A]
      history_perform [of "(perform env ?A r)\<lparr>gr_info_received := False, gr_pending_comment_body := None\<rparr>" env WaitInfo]
    by (auto simp: await_info_def)
  moreover have "set (gr_history ?r2) \<subseteq> set (gr_history (snd (stop_timed_out env (tr_workflow_type t) summary ?r2)))"
    using history_perform by (simp add: stop_timed_out_def stopped_def stop_with_audit_def best_effort_jira_comment_def Let_def) blast
  ultimately show thesis
    using that l by (auto simp: stop_timed_out_def stopped_def stop_with_audit_def Let_def)
qed

text \<open>
  A reply that comes too early is lost. The analysis asks its question in a Jira comment, but the gateway forgets every
  reply it received before it starts to wait; when the user has answered by then (while the analysis was completing, or
  while the issue was moved and the audit entry written) and does not write again, the run ends as if there had been no
  answer, although the signal was delivered and is in the run's own history.
\<close>

theorem early_reply_is_lost:
  assumes "ge_prepare env [AddComment AckComment, PrepareInput []] = Inr ti"
    and "ge_analyze env [AddComment AckComment, PrepareInput [], AnalyzeTask ti] = Inr t"
    and "tr_status t = ''needs_info''"
    and "PStr reply \<in> set (ge_signals env [AddComment AckComment, PrepareInput [], AnalyzeTask ti])" "reply \<noteq> []"
    and "\<And>cs. ge_signals env (cs @ [WaitInfo]) = []"
  shows "ao_failure_reason (fst (run_gateway env inp initial_run)) = Some ''needs_info_timeout'' \<and>
    ao_child_workflow_id (fst (run_gateway env inp initial_run)) = None \<and>
    reply \<in> set (gr_history (snd (run_gateway env inp initial_run)))"
proof -
  let ?r1 = "perform env (PrepareInput []) (perform env (AddComment AckComment) initial_run)"
  let ?r2 = "perform env (AnalyzeTask ti) ?r1"
  have c1: "gr_calls ?r1 = [AddComment AckComment, PrepareInput []]" by (simp add: initial_run_def)
  then have c2: "gr_calls ?r2 = [AddComment AckComment, PrepareInput [], AnalyzeTask ti]" by simp
  have p: "prepare_and_analyse env None (perform env (AddComment AckComment) initial_run) = (Inr t, ?r2)"
    using assms(1,2) c1 c2 by (simp add: prepare_and_analyse_def Let_def)
  have h: "reply \<in> set (gr_history ?r2)" by (rule history_signal) (use assms(4,5) c1 in simp_all)
  obtain stop r' where l: "analyser_loop env (Suc 2) t (perform env (Transition ''needs_info'') ?r2) = (Inl stop, r')"
    and stop: "st_failure_reason stop = ''needs_info_timeout''"
    and h': "set (gr_history (perform env (Transition ''needs_info'') ?r2)) \<subseteq> set (gr_history r')"
    using assms(6) by (rule analyser_loop_unanswered)
  have "run_task_analyser env (perform env (AddComment AckComment) initial_run) = (Inl stop, r')"
    using p l assms(3) by (simp add: run_task_analyser_def gbind_def is_rejected_def NEEDS_INFO_MAX_ITERATIONS_def numeral_3_eq_3 numeral_2_eq_2)
  then have "gateway_gates env inp initial_run = (Inl stop, r')"
    by (simp add: gateway_gates_def gateway_checks_def gbind_def)
  moreover have "reply \<in> set (gr_history (perform env c r'))" for c
    using h h' history_perform [of ?r2 env "Transition ''needs_info''"] history_perform [of r' env c] by blast
  ultimately show ?thesis
    using stop by (simp add: run_gateway_def finalize_stop_def stop_to_output_def)
qed

definition demo_question :: TaskAnalysisResult where
  "demo_question = demo_task\<lparr>tr_accepted := False, tr_status := ''needs_info''\<rparr>"

definition demo_signals :: "gateway_call list \<Rightarrow> pyval list" where
  "demo_signals cs = (if cs \<noteq> [] \<and> List.last cs = AnalyzeTask (demo_issue ''do it'') then [PStr ''use main''] else [])"

theorem early_reply_is_lost_witness:
  "ao_failure_reason (fst (run_gateway (demo_gateway demo_question demo_signals) demo_automation initial_run)) = Some ''needs_info_timeout'' \<and>
   ''use main'' \<in> set (gr_history (snd (run_gateway (demo_gateway demo_question demo_signals) demo_automation initial_run)))"
proof -
  let ?env = "demo_gateway demo_question demo_signals"
  have "ge_prepare ?env [AddComment AckComment, PrepareInput []] = Inr (demo_issue ''do it'')"
    "ge_analyze ?env [AddComment AckComment, PrepareInput [], AnalyzeTask (demo_issue ''do it'')] = Inr demo_question"
    "tr_status demo_question = ''needs_info''"
    "PStr ''use main'' \<in> set (ge_signals ?env [AddComment AckComment, PrepareInput [], AnalyzeTask (demo_issue ''do it'')])"
    "\<And>cs. ge_signals ?env (cs @ [WaitInfo]) = []"
    by (simp_all add: demo_gateway_def demo_question_def demo_signals_def)
  from early_reply_is_lost [OF this(1-4) _ this(5), of demo_automation] show ?thesis by simp
qed

text \<open>
  A department without branch rules of its own has none at all: an empty list, or no list, in the configuration
  reaches the gateway as an empty list of rules, which allows every type on every branch; the pinned defaults that
  protect hotfix branches apply only when the rules cannot be loaded.
\<close>

theorem unconfigured_rules_open_every_branch:
  assumes "load_department_config file dept = Inr config" "\<not> truthy (get_or_none config ''branch_pattern_rules'')"
    and "ge_rules env cs = map_sum id PList (load_branch_pattern_rules file dept)" and "ge_rules env' cs' = Inl exc"
  shows "allowed (route_by_branch_pattern b wt (loaded_rules env cs)) \<and>
    \<not> allowed (route_by_branch_pattern ''hotfix/login'' ''code_change_commit_only'' (loaded_rules env' cs'))"
proof -
  have "load_branch_pattern_rules file dept = Inr []"
    using assms(1,2) by (cases "get_or_none config ''branch_pattern_rules''") (simp_all add: load_branch_pattern_rules_def)
  then have "loaded_rules env cs = []" using assms(3) by (simp add: loaded_rules_def coerce_rules_def iterate_def)
  moreover have "allowed (route_by_branch_pattern b wt [])"
    by (simp add: route_by_branch_pattern_def no_rule_matched_def)
  moreover have "\<not> allowed (route_by_branch_pattern ''hotfix/login'' ''code_change_commit_only'' DEFAULT_BRANCH_PATTERN_RULES)"
    by code_simp
  ultimately show ?thesis using assms(4) by (simp add: loaded_rules_def)
qed

theorem unconfigured_rules_open_every_branch_witness:
  "allowed (route_by_branch_pattern ''hotfix/login'' ''code_change_commit_only''
      (loaded_rules ((demo_gateway demo_task (\<lambda>_. []))\<lparr>ge_rules := \<lambda>_. Inr (PList [])\<rparr>) []))"
proof -
  have l: "load_department_config (Some (PDict [(''departments'', PList [PDict [(''id'', PStr ''d''), (''branch_pattern_rules'', PList [])]])])) ''d'' =
      Inr [(''id'', PStr ''d''), (''branch_pattern_rules'', PList [])]" by code_simp
  have n: "\<not> truthy (get_or_none [(''id'', PStr ''d''), (''branch_pattern_rules'', PList [])] ''branch_pattern_rules'')" by code_simp
  have "map_sum id PList (load_branch_pattern_rules (Some (PDict [(''departments'',
      PList [PDict [(''id'', PStr ''d''), (''branch_pattern_rules'', PList [])]])])) ''d'') = Inr (PList [])" by code_simp
  then have r: "ge_rules ((demo_gateway demo_task (\<lambda>_. []))\<lparr>ge_rules := \<lambda>_. Inr (PList [])\<rparr>) [] =
      map_sum id PList (load_branch_pattern_rules (Some (PDict [(''departments'',
        PList [PDict [(''id'', PStr ''d''), (''branch_pattern_rules'', PList [])]])])) ''d'')" by simp
  have f: "ge_rules ((demo_gateway demo_task (\<lambda>_. []))\<lparr>ge_rules := \<lambda>_. Inl ''down''\<rparr>) [] = Inl ''down''" by simp
  show ?thesis using unconfigured_rules_open_every_branch [OF l n r f] by blast
qed

end
