(* ===== verification/Code_Change.thy ===== *)
theory Code_Change
  imports Workflow_Identifiers Python_Text
begin

text \<open>
  What a code change is made of: branch names and commit messages
  (\<^verbatim>\<open>libs/temporal-shared/.../code_change.py\<close>), the tool that opens a pull request
  (\<^verbatim>\<open>libs/mcp_client/.../deployment_router.py\<close>), the scanner that looks for secrets before a commit
  (\<^verbatim>\<open>workers/agent-runner-worker/src/activities/precommit_scan.py\<close>) and the activity that asks the code
  generator for files (\<^verbatim>\<open>activities/opencode.py\<close>).

  A regular expression that is searched for is a predicate on the preceding character and the text from a position
  on; \<open>search\<close> tries every position. The responses of the generator and the files of its workspace are a record;
  \<open>json.loads\<close> and \<open>repr\<close> are parameters.
\<close>

section \<open>Branches and messages\<close>

datatype change_error = BadChangeKey pystr | InvalidIterationError int | InvalidBotEmailError pystr

definition BOT_COMMIT_PREFIX :: pystr where "BOT_COMMIT_PREFIX = ''[bot]''"

definition is_alpha :: "char \<Rightarrow> bool" where
  "is_alpha c \<longleftrightarrow> is_upper c \<or> is_lower c"

definition bot_email_re :: "pystr \<Rightarrow> bool" where
  \<comment> \<open>the local part and the domain hold no \<^verbatim>\<open>@\<close>, the last label of the domain no dot\<close>
  "bot_email_re s =
     (let b = at_dollar s;
          user = takeWhile (\<lambda>c. c \<noteq> CHR ''@'') b;
          domain = tl (dropWhile (\<lambda>c. c \<noteq> CHR ''@'') b);
          label = takeWhile (\<lambda>c. c \<noteq> CHR ''.'') (rev domain);
          host = tl (dropWhile (\<lambda>c. c \<noteq> CHR ''.'') (rev domain))
      in user \<noteq> [] \<and> list_all (\<lambda>c. is_alpha c \<or> is_digit c \<or> c \<in> set ''._%+-'') user \<and>
         host \<noteq> [] \<and> list_all (\<lambda>c. is_alpha c \<or> is_digit c \<or> c \<in> set ''.-'') host \<and>
         2 \<le> length label \<and> list_all is_alpha label)"

definition compute_branch_name :: "pystr \<Rightarrow> int \<Rightarrow> pystr list \<Rightarrow> change_error + pystr" where
  "compute_branch_name issue_key iteration existing =
     (if \<not> issue_key_re issue_key then Inl (BadChangeKey issue_key)
      else if iteration < 1 then Inl (InvalidIterationError iteration)
      else let bare = ''ai/'' @ issue_key
           in if iteration = 1 \<and> bare \<notin> set existing then Inr bare
              else Inr (bare @ ''-iter'' @ show_int iteration))"

definition rstrip :: "pystr \<Rightarrow> pystr" where
  "rstrip s = rev (lstrip (rev s))"

definition format_commit_message :: "pystr \<Rightarrow> pystr \<Rightarrow> int \<Rightarrow> pystr \<Rightarrow> change_error + pystr" where
  "format_commit_message message issue_key iteration bot_email =
     (if \<not> issue_key_re issue_key then Inl (BadChangeKey issue_key)
      else if iteration < 1 then Inl (InvalidIterationError iteration)
      else if \<not> bot_email_re bot_email then Inl (InvalidBotEmailError bot_email)
      else Inr (BOT_COMMIT_PREFIX @ '' '' @ rstrip message @ [newline, newline] @
                ''Co-authored-by: ai-bot <'' @ bot_email @ ''>''))"

definition BITBUCKET_CREATE_PR_CLOUD :: pystr where "BITBUCKET_CREATE_PR_CLOUD = ''bitbucket_create_pull_request_cloud''"

definition BITBUCKET_CREATE_PR_DC :: pystr where "BITBUCKET_CREATE_PR_DC = ''bitbucket_create_pull_request_dc''"

definition select_pr_create_tool :: "pystr \<Rightarrow> pystr option" where
  \<comment> \<open>\<open>None\<close> is the \<open>KeyError\<close>\<close>
  "select_pr_create_tool deployment =
     dict_get [(''cloud'', BITBUCKET_CREATE_PR_CLOUD), (''server'', BITBUCKET_CREATE_PR_DC)] deployment"

section \<open>Searching\<close>

fun search :: "(char option \<Rightarrow> pystr \<Rightarrow> bool) \<Rightarrow> char option \<Rightarrow> pystr \<Rightarrow> bool" where
  "search hit prev [] = hit prev []"
| "search hit prev (c # cs) = (hit prev (c # cs) \<or> search hit (Some c) cs)"

definition is_word :: "char \<Rightarrow> bool" where
  \<comment> \<open>\<^verbatim>\<open>\w\<close> on code points 0 to 255\<close>
  "is_word c \<longleftrightarrow>
     is_alpha c \<or> is_digit c \<or> c = CHR ''_'' \<or>
     (let n = (of_char c :: nat)
      in n \<in> {170, 178, 179, 181, 185, 186, 188, 189, 190} \<or> 192 \<le> n \<and> n \<noteq> 215 \<and> n \<noteq> 247)"

definition after_prefix :: "pystr \<Rightarrow> (pystr \<Rightarrow> bool) \<Rightarrow> pystr \<Rightarrow> bool" where
  "after_prefix p k s = (case strip_prefix p s of None \<Rightarrow> False | Some r \<Rightarrow> k r)"

definition starts_in :: "(char \<Rightarrow> bool) \<Rightarrow> pystr \<Rightarrow> bool" where
  \<comment> \<open>a class with \<^verbatim>\<open>+\<close> at the end of a pattern\<close>
  "starts_in cls s \<longleftrightarrow> s \<noteq> [] \<and> cls (hd s)"

definition aws_access_key :: "char option \<Rightarrow> pystr \<Rightarrow> bool" where
  "aws_access_key prev = after_prefix ''AKIA'' (\<lambda>r. 16 \<le> length (takeWhile (\<lambda>c. is_digit c \<or> is_upper c) r))"

definition atlassian_api_token :: "char option \<Rightarrow> pystr \<Rightarrow> bool" where
  "atlassian_api_token prev = after_prefix ''ATATT3x'' (starts_in (\<lambda>c. is_alpha c \<or> is_digit c \<or> c \<in> set ''_-''))"

definition bearer_token :: "char option \<Rightarrow> pystr \<Rightarrow> bool" where
  "bearer_token prev s \<longleftrightarrow>
     (case prev of None \<Rightarrow> True | Some c \<Rightarrow> \<not> is_word c) \<and>
     after_prefix ''Bearer'' (\<lambda>r. starts_in is_space r \<and>
       starts_in (\<lambda>c. is_alpha c \<or> is_digit c \<or> c \<in> set ''._-'') (dropWhile is_space r)) s"

definition is_quote :: "char \<Rightarrow> bool" where
  "is_quote c \<longleftrightarrow> c = CHR 0x27 \<or> c = CHR 0x22"

definition quoted :: "pystr \<Rightarrow> bool" where
  \<comment> \<open>a quote, at least one character that is none, a quote\<close>
  "quoted s \<longleftrightarrow>
     s \<noteq> [] \<and> is_quote (hd s) \<and> takeWhile (\<lambda>c. \<not> is_quote c) (tl s) \<noteq> [] \<and>
     dropWhile (\<lambda>c. \<not> is_quote c) (tl s) \<noteq> []"

definition generic_password :: "char option \<Rightarrow> pystr \<Rightarrow> bool" where
  "generic_password prev s \<longleftrightarrow>
     lower (take 8 s) = ''password'' \<and>
     after_prefix ''='' (\<lambda>r. quoted (dropWhile is_space r)) (dropWhile is_space (drop 8 s))"

section \<open>The scanner\<close>

definition SECRET_PATTERNS :: "(pystr \<times> (char option \<Rightarrow> pystr \<Rightarrow> bool)) list" where
  \<comment> \<open>in the order of their names\<close>
  "SECRET_PATTERNS =
     [(''atlassian_api_token'', atlassian_api_token), (''aws_access_key'', aws_access_key),
      (''bearer_token'', bearer_token), (''generic_password'', generic_password)]"

record ScanResult =
  scan_decision :: pystr
  matched_patterns :: "pystr list"

definition scan_diff :: "pystr \<Rightarrow> ScanResult" where
  "scan_diff diff =
     (let matched = map fst (filter (\<lambda>(name, hit). search hit None diff) SECRET_PATTERNS)
      in if matched = [] then \<lparr>scan_decision = ''pass'', matched_patterns = []\<rparr>
         else \<lparr>scan_decision = ''block'', matched_patterns = matched\<rparr>)"

datatype scan_audit = BlockAudit "pystr list" "pystr option" \<comment> \<open>patterns, workflow id\<close>

definition precommit_scanner :: "bool \<Rightarrow> pystr option \<Rightarrow> pystr \<Rightarrow> ScanResult \<times> scan_audit list" where
  \<comment> \<open>the logger may be absent; its exceptions are swallowed\<close>
  "precommit_scanner has_logger workflow_id diff =
     (let r = scan_diff diff
      in (r, if scan_decision r = ''block'' \<and> has_logger then [BlockAudit (matched_patterns r) workflow_id] else []))"

section \<open>Patterns and their context\<close>

text \<open>
  A pattern found in a text is found in every text that holds the first one on lines of its own: more text after a
  hit does not undo it, and a line break before it is as good as the start of the text.
\<close>

locale secret_pattern =
  fixes hit :: "char option \<Rightarrow> pystr \<Rightarrow> bool"
  assumes hit_append: "hit prev s \<Longrightarrow> hit prev (s @ t)"
    and hit_newline: "hit None s \<Longrightarrow> hit (Some newline) s"
begin

lemma search_append: "search hit prev s \<Longrightarrow> search hit prev (s @ t)"
proof (induction s arbitrary: prev)
  case Nil
  then have "hit prev t" using hit_append [of prev "[]" t] by simp
  then show ?case by (cases t) simp_all
next
  case (Cons c cs)
  then show ?case using hit_append [of prev "c # cs" t] by auto
qed

lemma search_after_newline: "search hit None s \<Longrightarrow> search hit (Some newline) s"
  by (cases s) (auto dest: hit_newline)

lemma search_later: "search hit (Some newline) s \<Longrightarrow> search hit prev (a @ newline # s)"
  by (induction a arbitrary: prev) simp_all

lemma search_embedded: "search hit None s \<Longrightarrow> search hit prev (a @ newline # s @ t)"
  by (intro search_later search_append search_after_newline)

end

lemma after_prefix_append:
  "after_prefix p k s \<Longrightarrow> (\<And>r. k r \<Longrightarrow> k (r @ t)) \<Longrightarrow> after_prefix p k (s @ t)"
  by (auto simp: after_prefix_def strip_prefix_Some split: option.splits)

lemma starts_in_append: "starts_in cls s \<Longrightarrow> starts_in cls (s @ t)"
  by (auto simp: starts_in_def)

lemma takeWhile_append_length: "n \<le> length (takeWhile P s) \<Longrightarrow> n \<le> length (takeWhile P (s @ t))"
  using length_takeWhile_le [of P s] by (auto simp: takeWhile_append)

lemma dropWhile_append_nonempty: "dropWhile P s \<noteq> [] \<Longrightarrow> dropWhile P (s @ t) = dropWhile P s @ t"
  by (induction s) auto

lemma starts_in_after_spaces:
  "starts_in cls (dropWhile P s) \<Longrightarrow> starts_in cls (dropWhile P (s @ t))"
  by (metis dropWhile_append_nonempty starts_in_append starts_in_def)

lemma quoted_append: "quoted s \<Longrightarrow> quoted (s @ t)"
proof -
  assume q: "quoted s"
  then have "takeWhile (\<lambda>c. \<not> is_quote c) (tl s) \<noteq> []" by (simp add: quoted_def)
  moreover from this have "tl s \<noteq> []" "\<not> is_quote (hd (tl s))" by (cases "tl s"; auto split: if_splits)+
  ultimately show ?thesis using q
    by (cases "tl s") (auto simp: quoted_def dropWhile_append_nonempty tl_append split: list.splits)
qed

lemma newline_not_word: "\<not> is_word newline"
  by (simp add: is_word_def is_alpha_def char_range_def newline_def)

interpretation aws: secret_pattern aws_access_key
  by unfold_locales (auto simp: aws_access_key_def intro!: after_prefix_append takeWhile_append_length)

interpretation atlassian: secret_pattern atlassian_api_token
  by unfold_locales (auto simp: atlassian_api_token_def intro!: after_prefix_append starts_in_append)

interpretation bearer: secret_pattern bearer_token
proof
  show "bearer_token prev (s @ t)" if "bearer_token prev s" for prev s t
    using that unfolding bearer_token_def
    by (auto intro!: after_prefix_append starts_in_append starts_in_after_spaces)
  show "bearer_token (Some newline) s" if "bearer_token None s" for s
    using that by (simp add: bearer_token_def newline_not_word)
qed

lemma generic_password_append: "generic_password prev s \<Longrightarrow> generic_password prev (s @ t)"
proof -
  assume g: "generic_password prev s"
  then have "length (lower (take 8 s)) = 8" by (simp add: generic_password_def)
  then have len: "8 \<le> length s" by (simp add: lower_def)
  have eq: "after_prefix ''='' (\<lambda>r. quoted (dropWhile is_space r)) (dropWhile is_space (drop 8 s))"
    using g by (simp add: generic_password_def)
  then have "dropWhile is_space (drop 8 s) \<noteq> []" by (cases "dropWhile is_space (drop 8 s)") (simp_all add: after_prefix_def)
  then have "dropWhile is_space (drop 8 (s @ t)) = dropWhile is_space (drop 8 s) @ t"
    using len by (simp add: dropWhile_append_nonempty)
  moreover have "quoted (dropWhile is_space r) \<Longrightarrow> quoted (dropWhile is_space (r @ t))" for r
    by (metis dropWhile_append_nonempty quoted_append quoted_def)
  ultimately have "after_prefix ''='' (\<lambda>r. quoted (dropWhile is_space r)) (dropWhile is_space (drop 8 (s @ t)))"
    using after_prefix_append [OF eq, of t] by simp
  with g len show ?thesis by (simp add: generic_password_def)
qed

interpretation password: secret_pattern generic_password
  by unfold_locales (use generic_password_append in \<open>auto simp: generic_password_def\<close>)

lemma scan_block_iff: "scan_decision (scan_diff s) = ''block'' \<longleftrightarrow> (\<exists>(n, hit) \<in> set SECRET_PATTERNS. search hit None s)"
  by (auto simp: scan_diff_def Let_def filter_empty_conv)

lemma scan_decision_cases: "scan_decision (scan_diff s) = ''pass'' \<or> scan_decision (scan_diff s) = ''block''"
  by (simp add: scan_diff_def Let_def)

lemma scan_embedded:
  assumes "scan_decision (scan_diff s) = ''block''"
  shows "scan_decision (scan_diff (a @ newline # s @ t)) = ''block''"
  using assms unfolding scan_block_iff SECRET_PATTERNS_def
  by (auto intro: aws.search_embedded atlassian.search_embedded bearer.search_embedded password.search_embedded)

section \<open>Paths\<close>

fun split_char :: "char \<Rightarrow> pystr \<Rightarrow> pystr list" where
  \<comment> \<open>\<open>s.split(c)\<close>\<close>
  "split_char d [] = [[]]"
| "split_char d (c # cs) =
     (if c = d then [] # split_char d cs
      else case split_char d cs of [] \<Rightarrow> [[c]] | l # ls \<Rightarrow> (c # l) # ls)"

definition clean_path :: "pystr \<Rightarrow> pystr" where
  \<comment> \<open>stripped, with slashes for backslashes\<close>
  "clean_path s = map (\<lambda>c. if c = CHR 0x5C then CHR ''/'' else c) (strip s)"

definition unsafe_path :: "pystr \<Rightarrow> bool" where
  "unsafe_path p \<longleftrightarrow> p = [] \<or> starts_with p ''/'' \<or> ''..'' \<in> set (split_char (CHR ''/'') p)"

definition safe_relative_path :: "(pyval \<Rightarrow> pystr) \<Rightarrow> pyval \<Rightarrow> pystr" where
  "safe_relative_path repr v =
     (let path = clean_path (py_str repr (or_value v (PStr []))) in if unsafe_path path then [] else path)"

section \<open>The code generator\<close>

record FileChange =
  fc_path :: pystr
  fc_action :: pystr
  fc_content :: pystr

record CodeResult =
  files_changed :: "FileChange list"
  diff_content :: pyval
  session_id :: pyval
  commit_files :: "FileChange list"

record oc_response =
  rs_status :: int
  rs_text :: pystr
  rs_json :: "pyval option" \<comment> \<open>\<open>None\<close> when the body is no JSON\<close>
  rs_content_type :: pystr

datatype oc_request =
    PostSession
  | PostMessage pystr
  | GetDiff pystr
  | DeleteSession pystr
  | CleanupDelete pystr

datatype oc_error =
    OpenCodeError pystr "int option"
  | OtherError pystr

record opencode_env =
  oc_repr :: "pyval \<Rightarrow> pystr"
  oc_loads :: "pystr \<Rightarrow> pyval option"
  oc_answer :: "oc_request \<Rightarrow> pystr + oc_response" \<comment> \<open>\<open>Inl\<close> a transport error\<close>
  oc_workspace :: "pystr \<Rightarrow> pystr" \<comment> \<open>the text of a file below the workspace, empty when it cannot be read\<close>
  oc_recent :: "pystr list" \<comment> \<open>the files changed since the message was sent\<close>

definition normalise_action :: "(pyval \<Rightarrow> pystr) \<Rightarrow> pyval \<Rightarrow> pystr" where
  "normalise_action repr v =
     (let action = lower (strip (py_str repr (or_value v (PStr ''modified''))))
      in if action \<in> set [''created'', ''create'', ''added'', ''add''] then ''create''
         else if action \<in> set [''deleted'', ''delete'', ''remove'', ''removed''] then ''delete''
         else ''update'')"

definition paths_from_unified_diff :: "pystr \<Rightarrow> pystr list" where
  "paths_from_unified_diff diff =
     foldl (\<lambda>paths line.
        case strip_prefix ''+++ b/'' line of
          None \<Rightarrow> paths
        | Some r \<Rightarrow> let path = safe_relative_path (\<lambda>_. []) (PStr r)
                    in if path = [] \<or> path \<in> set paths then paths else paths @ [path]) [] (splitlines diff)"

definition recent_workspace_entries :: "pystr list \<Rightarrow> pyval list" where
  "recent_workspace_entries rels =
     take 50 (map (\<lambda>p. PDict [(''path'', PStr p), (''action'', PStr ''modified'')])
       (filter (\<lambda>p. p \<noteq> []) (map (\<lambda>r. safe_relative_path (\<lambda>_. []) (PStr r)) rels)))"

definition dict_entries :: "pyval list \<Rightarrow> pyval pydict list" where
  \<comment> \<open>\<open>[entry for entry in xs if isinstance(entry, dict)]\<close>\<close>
  "dict_entries xs = List.map_filter as_dict xs"

definition assistant_text :: "pyval \<Rightarrow> pystr" where
  "assistant_text v =
     (case v of
        PDict d \<Rightarrow>
          (case get_or_none d ''parts'' of
             PList parts \<Rightarrow>
               join_with [newline] (List.map_filter (\<lambda>p.
                 if get_or_none p ''type'' = PStr ''text''
                 then (case get_or_none p ''text'' of PStr t \<Rightarrow> if t = [] then None else Some t | _ \<Rightarrow> None)
                 else None) (dict_entries parts))
           | _ \<Rightarrow> [])
      | _ \<Rightarrow> [])"

definition json_candidates :: "pystr \<Rightarrow> pystr list" where
  "json_candidates text =
     (let from_brace = dropWhile (\<lambda>c. c \<noteq> CHR ''{'') text;
          to_brace = rev (dropWhile (\<lambda>c. c \<noteq> CHR ''}'') (rev from_brace))
      in (if strip text = [] then [] else [strip text]) @
         (if from_brace = [] \<or> to_brace = [] then [] else [to_brace]))"

definition file_list :: "pyval pydict \<Rightarrow> pyval" where
  "file_list d = or_value (get_or_none d ''files'') (get_or_none d ''files_changed'')"

fun files_from_blobs :: "(pystr \<Rightarrow> pyval option) \<Rightarrow> pystr list \<Rightarrow> pyval pydict list" where
  "files_from_blobs loads [] = []"
| "files_from_blobs loads (b # bs) =
     (case loads b of
        Some (PDict d) \<Rightarrow> (case file_list d of PList fs \<Rightarrow> dict_entries fs | _ \<Rightarrow> files_from_blobs loads bs)
      | Some (PList xs) \<Rightarrow> (if dict_entries xs = [] then files_from_blobs loads bs else dict_entries xs)
      | _ \<Rightarrow> files_from_blobs loads bs)"

definition message_entries :: "(pystr \<Rightarrow> pyval option) \<Rightarrow> pyval \<Rightarrow> pyval pydict list" where
  "message_entries loads v =
     (case v of
        PDict d \<Rightarrow>
          (let candidates = d # List.map_filter (\<lambda>k. as_dict (get_or_none d k)) [''result'', ''message'', ''data'', ''output'']
           in case List.map_filter (\<lambda>c. case file_list c of PList fs \<Rightarrow> Some fs | _ \<Rightarrow> None) candidates of
                fs # _ \<Rightarrow> dict_entries fs
              | [] \<Rightarrow> if assistant_text v = [] then [] else files_from_blobs loads (json_candidates (assistant_text v)))
      | _ \<Rightarrow> [])"

definition raw_entries :: "opencode_env \<Rightarrow> pyval \<Rightarrow> oc_response \<Rightarrow> oc_error + pyval pydict list \<times> pyval" where
  \<comment> \<open>the entries and the text of the diff\<close>
  "raw_entries env message diff_resp =
     (let text = PStr (rs_text diff_resp);
          data = (if starts_with (rs_content_type diff_resp) ''application/json'' then rs_json diff_resp else None);
          from_message = message_entries (oc_loads env) message;
          chosen =
            (if from_message \<noteq> [] then Inr (from_message, text)
             else case data of
                    Some (PList (x # xs)) \<Rightarrow> Inr (dict_entries (x # xs), text)
                  | Some (PDict (p # d)) \<Rightarrow>
                      (case iterate (get_default (p # d) ''files'' (PList [])) of
                         None \<Rightarrow> Inl (OtherError ''TypeError'')
                       | Some xs \<Rightarrow> Inr (dict_entries xs, get_default (p # d) ''diff'' text))
                  | _ \<Rightarrow> Inr ([], text))
      in rbind chosen (\<lambda>(entries, diff).
           if entries \<noteq> [] then Inr (entries, diff)
           else case diff of
                  PStr s \<Rightarrow>
                    (let paths = paths_from_unified_diff s
                     in Inr (if paths \<noteq> [] then map (\<lambda>p. [(''path'', PStr p), (''action'', PStr ''modified'')]) paths
                             else dict_entries (recent_workspace_entries (oc_recent env)), diff))
                | _ \<Rightarrow> Inl (OtherError ''AttributeError'')))"

definition entry_change :: "opencode_env \<Rightarrow> pyval pydict \<Rightarrow> FileChange option" where
  "entry_change env entry =
     (let path = safe_relative_path (oc_repr env) (get_default entry ''path'' (PStr []));
          action = normalise_action (oc_repr env) (get_default entry ''action'' (PStr ''modified''));
          content = py_str (oc_repr env) (or_value (or_value (get_or_none entry ''content'') (get_or_none entry ''code'')) (PStr []))
      in if path = [] then None
         else Some \<lparr>fc_path = path, fc_action = action,
                    fc_content = (if action \<noteq> ''delete'' \<and> content = [] then oc_workspace env path else content)\<rparr>)"

definition committable :: "FileChange \<Rightarrow> bool" where
  "committable f \<longleftrightarrow> fc_action f = ''delete'' \<or> fc_content f \<noteq> []"

definition code_result :: "opencode_env \<Rightarrow> pyval \<Rightarrow> pyval \<Rightarrow> oc_response \<Rightarrow> oc_error + CodeResult" where
  "code_result env sid message diff_resp =
     rbind (raw_entries env message diff_resp) (\<lambda>(entries, diff).
       let changes = List.map_filter (entry_change env) entries
       in Inr \<lparr>files_changed = changes, diff_content = diff, session_id = sid, commit_files = filter committable changes\<rparr>)"

definition session_of :: "oc_response \<Rightarrow> oc_error + pyval" where
  \<comment> \<open>\<^verbatim>\<open>session_resp.json()["id"]\<close>\<close>
  "session_of r =
     (if rs_status r \<noteq> 200 then Inl (OpenCodeError (''Failed to create session: '' @ rs_text r) (Some (rs_status r)))
      else case rs_json r of
             None \<Rightarrow> Inl (OtherError ''JSONDecodeError'')
           | Some (PDict d) \<Rightarrow> (case dict_get d ''id'' of None \<Rightarrow> Inl (OtherError ''KeyError'') | Some v \<Rightarrow> Inr v)
           | Some _ \<Rightarrow> Inl (OtherError ''TypeError''))"

definition transport :: "pystr \<Rightarrow> oc_error" where
  "transport exc = OpenCodeError (''HTTP error communicating with OpenCode sidecar: '' @ exc) None"

definition fetch :: "opencode_env \<Rightarrow> oc_request \<Rightarrow> pystr \<Rightarrow> oc_error + oc_response" where
  \<comment> \<open>a request whose status has to be 200\<close>
  "fetch env req failure =
     (case oc_answer env req of
        Inl exc \<Rightarrow> Inl (transport exc)
      | Inr r \<Rightarrow> if rs_status r \<noteq> 200 then Inl (OpenCodeError (failure @ rs_text r) (Some (rs_status r))) else Inr r)"

definition opencode_generate_code :: "opencode_env \<Rightarrow> (oc_error + CodeResult) \<times> oc_request list" where
  "opencode_generate_code env =
     (case rbind (case oc_answer env PostSession of Inl exc \<Rightarrow> Inl (transport exc) | Inr r \<Rightarrow> Inr r) session_of of
        Inl e \<Rightarrow> (Inl e, [PostSession])
      | Inr sid \<Rightarrow>
          let s = py_str (oc_repr env) sid;
              cleanup = (if truthy sid then [CleanupDelete s] else [])
          in case fetch env (PostMessage s) ''Failed to send message: '' of
               Inl e \<Rightarrow> (Inl e, [PostSession, PostMessage s] @ cleanup)
             | Inr m \<Rightarrow>
                 (case rbind (fetch env (GetDiff s) ''Failed to retrieve diff: '')
                         (code_result env sid (case rs_json m of None \<Rightarrow> PNone | Some v \<Rightarrow> v)) of
                    Inl e \<Rightarrow> (Inl e, [PostSession, PostMessage s, GetDiff s] @ cleanup)
                  | Inr result \<Rightarrow>
                      (Inr result, [PostSession, PostMessage s, GetDiff s, DeleteSession s] @
                         (case oc_answer env (DeleteSession s) of Inl _ \<Rightarrow> cleanup | Inr _ \<Rightarrow> []))))"

section \<open>Lemmas\<close>

lemma split_char_sep: "d \<notin> set p \<Longrightarrow> split_char d (p @ d # r) = p # split_char d r"
  by (induction p) auto

lemma safe_path_cases:
  "safe_relative_path repr v = [] \<or> \<not> unsafe_path (safe_relative_path repr v)"
  by (simp add: safe_relative_path_def Let_def)

definition proper_change :: "FileChange \<Rightarrow> bool" where
  "proper_change f \<longleftrightarrow> \<not> unsafe_path (fc_path f) \<and> fc_action f \<in> set [''create'', ''update'', ''delete''] \<and> committable f"

lemma normalise_action_range: "normalise_action repr v \<in> set [''create'', ''update'', ''delete'']"
  by (simp add: normalise_action_def Let_def)

lemma entry_change_proper: "entry_change env e = Some f \<Longrightarrow> committable f \<Longrightarrow> proper_change f"
  using safe_path_cases [of "oc_repr env" "get_default e ''path'' (PStr [])"]
    normalise_action_range [of "oc_repr env" "get_default e ''action'' (PStr ''modified'')"]
  by (auto simp: entry_change_def proper_change_def Let_def simp del: list.set split: if_splits)

lemma code_result_files: "code_result env sid m d = Inr r \<Longrightarrow> f \<in> set (commit_files r) \<Longrightarrow> proper_change f"
  using entry_change_proper
  by (auto simp: code_result_def rbind_def List.map_filter_def Let_def split: sum.splits)

lemma code_result_diff:
  assumes "message_entries (oc_loads env) m \<noteq> []"
  shows "\<exists>r. code_result env sid m d = Inr r \<and> diff_content r = PStr (rs_text d)"
  using assms by (simp add: code_result_def raw_entries_def rbind_def Let_def)

lemma set_at_dollar: "set k \<subseteq> insert newline (set (at_dollar k))"
  by (cases k rule: rev_cases) (auto simp: at_dollar_def)

lemma key_no_letter_i: "issue_key_re k \<Longrightarrow> CHR ''i'' \<notin> set k"
proof -
  assume k: "issue_key_re k"
  have up: "\<not> is_upper (CHR ''i'')" "\<not> is_key_char (CHR ''i'')" "\<not> is_digit (CHR ''i'')" by (simp_all add: char_class_defs)
  obtain a c n where b: "split_dash (at_dollar k) = (a, c # n)" "is_long_key a" "is_numeral n"
    using k by (auto simp: issue_key_re_def split: prod.splits list.splits)
  then have "at_dollar k = a @ c # n" by (metis split_dash_def takeWhile_dropWhile_id prod.inject)
  moreover have "c = CHR ''-''" using b(1) by (auto simp: split_dash_def dropWhile_eq_Cons_conv)
  moreover have "CHR ''i'' \<notin> set a" using b(2) up by (cases a) (auto simp: list_all_iff)
  moreover have "CHR ''i'' \<notin> set n" using b(3) up by (cases n) (auto simp: list_all_iff)
  ultimately have "CHR ''i'' \<notin> set (at_dollar k)" by simp
  then show ?thesis using set_at_dollar [of k] by (auto simp: newline_def)
qed

lemma takeWhile_before: "c \<notin> set k \<Longrightarrow> takeWhile (\<lambda>x. x \<noteq> c) (k @ c # r) = k"
  by (induction k) auto

lemma iter_suffix: "''ai/'' @ k @ ''-iter'' @ r = ''ai/'' @ (k @ ''-'') @ CHR ''i'' # ''ter'' @ r"
  by simp

lemma branch_name_cases:
  assumes "compute_branch_name k n [] = Inr b"
  obtains "issue_key_re k" "n = 1" "b = ''ai/'' @ k"
    | "issue_key_re k" "1 < n" "b = ''ai/'' @ k @ ''-iter'' @ show_int n"
  using assms by (auto simp: compute_branch_name_def Let_def split: if_splits)

section \<open>Properties\<close>

text \<open>
  The branch of an issue and an iteration identifies both: two valid keys and iterations that give the same branch
  name are equal, so no iteration pushes over the branch of another one or of another issue.
\<close>

theorem branch_names_are_unique:
  assumes "compute_branch_name k n [] = Inr b" and "compute_branch_name k' n' [] = Inr b"
  shows "k = k' \<and> n = n'"
proof -
  have cut: "takeWhile (\<lambda>x. x \<noteq> CHR ''i'') (k @ ''-iter'' @ r) = k @ ''-''" if "issue_key_re k" for k r
    using takeWhile_before [of "CHR ''i''" "k @ ''-''" "''ter'' @ r"] key_no_letter_i [OF that] by simp
  have other: "k \<noteq> k' @ ''-iter'' @ r" if "issue_key_re k" for k k' r
    using key_no_letter_i [OF that] by auto
  from assms(1) show ?thesis
  proof (cases rule: branch_name_cases)
    case 1
    with assms(2) show ?thesis by (cases rule: branch_name_cases) (auto dest: other)
  next
    case 2
    from assms(2) show ?thesis
    proof (cases rule: branch_name_cases)
      case 1
      with 2 show ?thesis using other [OF 1(1)] by auto
    next
      case b2: 2
      have eq: "k @ ''-iter'' @ show_int n = k' @ ''-iter'' @ show_int n'" using 2(3) b2(3) by simp
      from arg_cong [OF this, of "takeWhile (\<lambda>x. x \<noteq> CHR ''i'')"] have "k = k'"
        using cut [OF 2(1), of "show_int n"] cut [OF b2(1), of "show_int n'"] by simp
      moreover from this eq have "show_int n = show_int n'" by simp
      then have "n = n'" using 2(2) b2(2) by (auto simp: show_int_def dest: show_nat_inj)
      ultimately show ?thesis by blast
    qed
  qed
qed

theorem branch_names_are_unique_witness:
  "compute_branch_name ''AB-1'' 2 [] = Inr ''ai/AB-1-iter2'' \<and>
   \<not> (\<exists>k n. compute_branch_name k n [] = Inr ''ai/AB-1-iter2'' \<and> (k, n) \<noteq> (''AB-1'', 2))"
proof -
  have "compute_branch_name ''AB-1'' 2 [] = Inr ''ai/AB-1-iter2''" by code_simp
  then show ?thesis using branch_names_are_unique [of _ _ "''ai/AB-1-iter2''" "''AB-1''" 2] by blast
qed

end
