(* ===== verification/Confluence_Docs.thy ===== *)
theory Confluence_Docs
  imports Code_Change
begin

text \<open>
  \<^verbatim>\<open>libs/temporal-shared/src/temporal_shared/confluence.py\<close> and \<^verbatim>\<open>confluence_dedup.py\<close>: titles and provenance
  footers of generated pages, and the three guards of an update (unchanged section, fresh edit by somebody else,
  probe page). The footer's fixed text is left out; a footer is the link it shows.
\<close>

section \<open>Dates\<close>

definition civil_of_days :: "int \<Rightarrow> int \<times> int \<times> int" where
  \<comment> \<open>year, month and day of a number of days since 1970-01-01 in the Gregorian calendar\<close>
  "civil_of_days n =
     (let z = n + 719468; era = z div 146097; doe = z mod 146097;
          yoe = (doe - doe div 1460 + doe div 36524 - doe div 146096) div 365;
          doy = doe - (365 * yoe + yoe div 4 - yoe div 100);
          mp = (5 * doy + 2) div 153;
          d = doy - (153 * mp + 2) div 5 + 1;
          m = (if mp < 10 then mp + 3 else mp - 9)
      in (yoe + era * 400 + (if m \<le> 2 then 1 else 0), m, d))"

definition pad2 :: "int \<Rightarrow> pystr" where
  "pad2 n = (if n < 10 then ''0'' else []) @ show_int n"

definition format_date :: "datetime \<Rightarrow> pystr" where
  \<comment> \<open>\<^verbatim>\<open>now.date().strftime("%Y-%m-%d")\<close>, times in microseconds since 1970\<close>
  "format_date now = (case civil_of_days (now div days 1) of (y, m, d) \<Rightarrow> show_int y @ ''-'' @ pad2 m @ ''-'' @ pad2 d)"

section \<open>Titles\<close>

datatype doc_error =
    InvalidTargetLangError pystr
  | InvalidTopicError pystr
  | InvalidJiraIssueLinkError pystr
  | EmptyArgument pystr

definition PAGE_TITLE_SEPARATOR :: pystr where "PAGE_TITLE_SEPARATOR = '' - ''"

definition PAGE_TITLE_MAX_LENGTH :: nat where "PAGE_TITLE_MAX_LENGTH = 255"

definition disallowed_title_char :: "char \<Rightarrow> bool" where
  "disallowed_title_char c \<longleftrightarrow>
     (of_char c :: nat) \<le> 31 \<or> (of_char c :: nat) = 127 \<or> c = CHR ''<'' \<or> c = CHR ''>'' \<or> c = CHR ''&'' \<or> c = CHR 0x22"

definition format_page_title :: "pystr \<Rightarrow> pystr \<Rightarrow> datetime \<Rightarrow> doc_error + pystr" where
  "format_page_title topic target_lang now =
     (if target_lang \<notin> set [''tr'', ''en''] then Inl (InvalidTargetLangError target_lang)
      else let cleaned = strip topic; title = cleaned @ PAGE_TITLE_SEPARATOR @ format_date now
           in if cleaned = [] \<or> list_ex disallowed_title_char cleaned \<or> PAGE_TITLE_MAX_LENGTH < length title
              then Inl (InvalidTopicError topic) else Inr title)"

section \<open>Provenance\<close>

definition is_host_char :: "char \<Rightarrow> bool" where
  "is_host_char c \<longleftrightarrow> is_alpha c \<or> is_digit c \<or> c = CHR ''.'' \<or> c = CHR ''-''"

definition browse_tail :: "pystr \<Rightarrow> bool" where
  \<comment> \<open>\<^verbatim>\<open>[A-Z][A-Z0-9_]+-\d+(?:[/?#][^\s]*)?$\<close> on a text without spaces\<close>
  "browse_tail t =
     (let k = takeWhile is_key_char t; r = dropWhile is_key_char t; n = takeWhile is_digit (tl r); e = dropWhile is_digit (tl r)
      in is_long_key k \<and> r \<noteq> [] \<and> hd r = CHR ''-'' \<and> n \<noteq> [] \<and> (e = [] \<or> hd e \<in> set ''/?#''))"

definition skip_port :: "pystr \<Rightarrow> pystr option" where
  \<comment> \<open>\<^verbatim>\<open>(?::\d+)?\<close>\<close>
  "skip_port r =
     (if r \<noteq> [] \<and> hd r = CHR '':'' then (if takeWhile is_digit (tl r) = [] then None else Some (dropWhile is_digit (tl r)))
      else Some r)"

definition jira_issue_link_re :: "pystr \<Rightarrow> bool" where
  \<comment> \<open>the pattern on a text without spaces\<close>
  "jira_issue_link_re s =
     (case strip_prefix ''https://'' s of
        None \<Rightarrow> False
      | Some r \<Rightarrow>
          takeWhile is_host_char r \<noteq> [] \<and>
          (case skip_port (dropWhile is_host_char r) of
             None \<Rightarrow> False
           | Some p \<Rightarrow> starts_with p ''/'' \<and> search (\<lambda>_. after_prefix ''/browse/'' browse_tail) None p))"

definition compute_provenance_footer :: "pystr \<Rightarrow> doc_error + pystr" where
  \<comment> \<open>the link in the footer\<close>
  "compute_provenance_footer link =
     (let cleaned = strip link
      in if cleaned = [] \<or> list_ex is_space cleaned \<or> list_ex disallowed_title_char cleaned \<or> \<not> jira_issue_link_re cleaned
         then Inl (InvalidJiraIssueLinkError link) else Inr cleaned)"

record page_body =
  pb_text :: pystr
  pb_footer :: "pystr option"

definition with_footer :: "pystr \<Rightarrow> pystr option \<Rightarrow> page_body" where
  \<comment> \<open>how the handlers append the footer: none without a link or when the link is refused\<close>
  "with_footer text link =
     \<lparr>pb_text = text,
      pb_footer = (case link of None \<Rightarrow> None
                   | Some l \<Rightarrow> (case compute_provenance_footer l of Inl _ \<Rightarrow> None | Inr f \<Rightarrow> Some f))\<rparr>"

section \<open>Guards\<close>

definition AUDIT_CONFLUENCE_SECTION_DEDUP_SKIP :: pystr where
  "AUDIT_CONFLUENCE_SECTION_DEDUP_SKIP = ''confluence_section_dedup_skip''"

definition AUDIT_CONFLUENCE_OVERWRITE_PROTECTED :: pystr where
  "AUDIT_CONFLUENCE_OVERWRITE_PROTECTED = ''confluence_overwrite_protected''"

definition DEFAULT_OVERWRITE_FRESHNESS :: timedelta where "DEFAULT_OVERWRITE_FRESHNESS = minutes 5"

definition PROBE_PAGE_TITLE_PREFIX :: pystr where "PROBE_PAGE_TITLE_PREFIX = ''_AI_PROBE_''"

record SkipDecision =
  skip :: bool
  audit_event :: "pystr option"

definition proceed :: SkipDecision where "proceed = \<lparr>skip = False, audit_event = None\<rparr>"

type_synonym section_key = "pystr \<times> pystr \<times> pystr \<times> pystr"

definition should_skip_section_update ::
  "pystr \<Rightarrow> pystr \<Rightarrow> pystr \<Rightarrow> pystr \<Rightarrow> section_key list \<Rightarrow> doc_error + SkipDecision" where
  "should_skip_section_update workflow_id page_id section_path content_hash hash_table =
     (if workflow_id = [] then Inl (EmptyArgument ''workflow_id'')
      else if page_id = [] then Inl (EmptyArgument ''page_id'')
      else if section_path = [] then Inl (EmptyArgument ''section_path'')
      else if content_hash = [] then Inl (EmptyArgument ''content_hash'')
      else if (workflow_id, page_id, section_path, content_hash) \<in> set hash_table
      then Inr \<lparr>skip = True, audit_event = Some AUDIT_CONFLUENCE_SECTION_DEDUP_SKIP\<rparr>
      else Inr proceed)"

definition should_skip_overwrite :: "pyval \<Rightarrow> datetime option \<Rightarrow> datetime \<Rightarrow> pystr list \<Rightarrow> timedelta \<Rightarrow> SkipDecision" where
  \<comment> \<open>the editor is an account id, or any other value the metadata holds; \<open>freshness\<close> is positive\<close>
  "should_skip_overwrite editor last_edit_at now bot_ids freshness =
     (case last_edit_at of
        None \<Rightarrow> proceed
      | Some t \<Rightarrow>
          if editor = PNone \<or> (\<exists>b \<in> set bot_ids. editor = PStr b) then proceed
          else if now - t < freshness \<and> 0 \<le> now - t
          then \<lparr>skip = True, audit_event = Some AUDIT_CONFLUENCE_OVERWRITE_PROTECTED\<rparr>
          else proceed)"

definition is_probe_page :: "pyval \<Rightarrow> bool" where
  "is_probe_page title = (case title of PStr s \<Rightarrow> starts_with s PROBE_PAGE_TITLE_PREFIX | _ \<Rightarrow> False)"

lemma format_page_title_bound: "format_page_title topic lang now = Inr t \<Longrightarrow> length t \<le> 255"
  by (auto simp: format_page_title_def PAGE_TITLE_MAX_LENGTH_def Let_def split: if_splits)

end
