(* ===== verification/Output_Limits.thy ===== *)
theory Output_Limits
  imports Output_Actions Code_Change
begin

text \<open>
  What limits the output of a run (\<^verbatim>\<open>libs/temporal-shared/src/temporal_shared\<close>): the redirection of oversized
  payloads and the final comment (\<^verbatim>\<open>output_size_cap.py\<close>), research results (\<^verbatim>\<open>research.py\<close>) and the suppression of
  repeated review findings (\<^verbatim>\<open>llm_dedup.py\<close>). The encoding of a payload as JSON is a parameter; a rendered source is
  a record, and a comment the list of its parts, so that the fixed wording is left out.
\<close>

section \<open>Oversized payloads\<close>

definition MAX_OUTPUT_BYTES :: nat where "MAX_OUTPUT_BYTES = 1048576"

definition SUMMARY_TRUNCATE_CHARS :: nat where "SUMMARY_TRUNCATE_CHARS = 256"

definition minio_key :: "pystr \<Rightarrow> nat \<Rightarrow> pystr" where
  "minio_key workflow_id idx = ''ai-runs/'' @ workflow_id @ ''/output-'' @ show_nat idx @ ''.json''"

definition build_summary :: "pystr \<Rightarrow> pystr" where
  "build_summary text = (if length text \<le> SUMMARY_TRUNCATE_CHARS then text else take SUMMARY_TRUNCATE_CHARS text)"

definition utf8_length :: "pystr \<Rightarrow> nat" where
  \<comment> \<open>\<^verbatim>\<open>len(s.encode("utf-8"))\<close> on code points 0 to 255\<close>
  "utf8_length s = sum_list (map (\<lambda>c. if (of_char c :: nat) < 128 then 1 else 2) s)"

definition measure_payload_bytes :: "((pystr \<times> pyval) list \<Rightarrow> pystr) \<Rightarrow> (pystr \<times> pyval) list \<Rightarrow> nat" where
  "measure_payload_bytes encode entries = utf8_length (encode entries)"

definition oversized :: "((pystr \<times> pyval) list \<Rightarrow> pystr) \<Rightarrow> OutputAction \<Rightarrow> bool" where
  "oversized encode a \<longleftrightarrow> MAX_OUTPUT_BYTES < measure_payload_bytes encode (payload a)"

definition redirected :: "((pystr \<times> pyval) list \<Rightarrow> pystr) \<Rightarrow> OutputAction \<Rightarrow> pystr \<Rightarrow> OutputAction" where
  \<comment> \<open>what \<open>redirect_oversized_payload\<close> returns once the callback has stored the payload\<close>
  "redirected encode a uri =
     a\<lparr>payload :=
        [(''summary'', PStr (build_summary (encode (payload a)))), (''minio_uri'', PStr uri),
         (''size_bytes'', PInt (int (measure_payload_bytes encode (payload a))))]\<rparr>"

section \<open>The final comment\<close>

definition final_comment_parts ::
  "pystr list \<Rightarrow> (pystr \<times> pystr) list \<Rightarrow> pystr list \<times> (pystr \<times> pystr) list" where
  \<comment> \<open>\<open>format_final_jira_comment\<close>: the steps of the first line and the failures of the second\<close>
  "final_comment_parts critical_done failed =
     (filter (\<lambda>n. n \<noteq> []) critical_done, filter (\<lambda>(n, _). n \<noteq> []) failed)"

section \<open>Research\<close>

record research_source =
  rs_title :: pystr
  rs_url :: pystr
  rs_accessed :: pystr

record source_line =
  sl_index :: nat
  sl_label :: pystr
  sl_url :: pystr
  sl_accessed :: "pystr option"

definition render_source :: "nat \<Rightarrow> research_source \<Rightarrow> source_line option" where
  \<comment> \<open>\<open>_coerce_source\<close> and the line of one source\<close>
  "render_source index s =
     (let title = strip (rs_title s); url = strip (rs_url s); accessed = strip (rs_accessed s)
      in if url = [] then None
         else Some \<lparr>sl_index = index, sl_label = (if title = [] then url else title), sl_url = url,
                    sl_accessed = (if accessed = [] then None else Some accessed)\<rparr>)"

definition rendered_sources :: "research_source list \<Rightarrow> source_line list" where
  "rendered_sources sources = List.map_filter (\<lambda>(i, s). render_source i s) (enumerate 1 sources)"

definition format_research_publish_confluence_body :: "pystr \<Rightarrow> research_source list \<Rightarrow> pystr \<times> source_line list" where
  "format_research_publish_confluence_body content sources = (rstrip content, rendered_sources sources)"

fun words_from :: "pystr \<Rightarrow> pystr \<Rightarrow> pystr list" where
  \<comment> \<open>\<open>str.split()\<close>; the current word is kept in reverse\<close>
  "words_from cur [] = (if cur = [] then [] else [rev cur])"
| "words_from cur (c # cs) =
     (if is_space c then (if cur = [] then words_from [] cs else rev cur # words_from [] cs) else words_from (c # cur) cs)"

definition truncate_words :: "pystr \<Rightarrow> nat \<Rightarrow> pystr \<times> bool" where
  "truncate_words text max_words =
     (if max_words = 0 then ([], text \<noteq> [])
      else let words = words_from [] text
           in if length words \<le> max_words then (join_with '' '' words, False)
              else (join_with '' '' (take max_words words), True))"

record research_comment =
  rc_summary :: pystr
  rc_sources :: "source_line list"
  rc_overflow :: bool

definition format_research_summary_jira_comment ::
  "pystr \<Rightarrow> research_source list \<Rightarrow> nat \<Rightarrow> nat \<Rightarrow> research_comment option \<times> bool" where
  \<comment> \<open>the comment (\<open>None\<close> is the fixed text of an empty result) and whether the full text has to be stored\<close>
  "format_research_summary_jira_comment summary sources max_words max_sources =
     (let (short, cut) = truncate_words (strip summary) max_words; lines = rendered_sources sources;
          overflow = (cut \<or> drop max_sources lines \<noteq> [])
      in if short = [] \<and> lines = [] then (None, False)
         else (Some \<lparr>rc_summary = short, rc_sources = take max_sources lines, rc_overflow = overflow\<rparr>, overflow))"

section \<open>Repeated findings\<close>

definition dedup_findings :: "pyval list \<Rightarrow> pyval pydict list \<Rightarrow> pyval pydict list" where
  \<comment> \<open>the hashes are the values of previous findings\<close>
  "dedup_findings previous findings =
     filter (\<lambda>f. truthy (get_or_none f ''hash'') \<and> get_or_none f ''hash'' \<notin> set previous) findings"

definition compute_diff_summary :: "pystr \<Rightarrow> pystr pydict \<Rightarrow> pystr \<Rightarrow> pystr \<times> pystr pydict" where
  \<comment> \<open>the last argument is what the callback would return\<close>
  "compute_diff_summary diff_hash cache fresh =
     (case dict_get cache diff_hash of Some s \<Rightarrow> (s, cache) | None \<Rightarrow> (fresh, dict_set diff_hash fresh cache))"

section \<open>Lemmas\<close>

lemma redirected_small_summary: "length (build_summary t) \<le> SUMMARY_TRUNCATE_CHARS"
  by (simp add: build_summary_def)

lemma words_no_space:
  "list_all (\<lambda>c. \<not> is_space c) cur \<Longrightarrow> \<forall>w \<in> set (words_from cur s). w \<noteq> [] \<and> list_all (\<lambda>c. \<not> is_space c) w"
proof (induction s arbitrary: cur)
  case Nil
  then show ?case by (simp add: list_all_rev)
next
  case (Cons c s)
  show ?case
  proof (cases "is_space c")
    case True
    then show ?thesis using Cons.IH [of "[]"] Cons.prems by (simp add: list_all_rev)
  next
    case False
    then show ?thesis using Cons.IH [of "c # cur"] Cons.prems by simp
  qed
qed

lemma length_map_filter: "length (List.map_filter f xs) \<le> length xs"
  by (simp add: List.map_filter_def)

lemma research_comment_bounds:
  assumes "format_research_summary_jira_comment s sources w n = (Some c, stored)"
  shows "length (rc_sources c) \<le> n \<and> stored = rc_overflow c \<and>
         (\<not> stored \<longrightarrow> rc_sources c = rendered_sources sources)"
  using assms by (auto simp: format_research_summary_jira_comment_def Let_def split: prod.splits if_splits)

end
