(* ===== verification/Agent_Values.thy ===== *)
theory Agent_Values
  imports Confluence_Docs Output_Limits Gateway_Workflow Iteration_State
begin

text \<open>
  How the agent runner reads the results of its activities
  (\<^verbatim>\<open>workers/agent-runner-worker/src/agent_runner/workflows/agent_runner_workflow.py\<close>): files, diffs, findings, pages,
  sections, search results, epic children and the prompts it sends. Activities are called by name, so a result is a
  decoded JSON value; the attribute look-ups the code tries on other objects find nothing on such a value.
\<close>

section \<open>Code generation\<close>

definition blank_if_none :: "pystr option \<Rightarrow> pystr" where
  \<comment> \<open>\<open>x or ''\<close>\<close>
  "blank_if_none x = (case x of None \<Rightarrow> [] | Some s \<Rightarrow> s)"

definition or_str :: "pystr \<Rightarrow> pystr \<Rightarrow> pystr" where
  "or_str a b = (if a = [] then b else a)"

definition answer_format :: pystr where
  "answer_format =
     ''Return JSON with files: [{path, content, action}], where action is create, update, or delete. '' @
     ''Do not omit file contents for create/update.''"

definition build_code_generation_prompt :: "AgentRunnerWorkflowInput \<Rightarrow> pystr" where
  "build_code_generation_prompt inp =
     (let a = ar_analysis inp; command = blank_if_none (ga_execution_command a)
      in join_with [newline]
           ([''Issue: '' @ ar_issue_key inp, ''Workflow: '' @ ar_workflow_type inp,
             ''Repository: '' @ or_str (blank_if_none (ar_target_repo inp)) (blank_if_none (res_target_repo a)),
             ''Branch: '' @ or_str (blank_if_none (ar_target_branch inp)) (blank_if_none (res_target_branch a)),
             ''Title: '' @ res_title a, ''Task details:'', res_rationale a] @
            (if command = [] then [] else [''Test command:'', command]) @ [answer_format]))"

definition retry_directive :: pystr where
  "retry_directive =
     ''IMPORTANT: A previous attempt returned no files. You MUST now '' @
     ''return at least one file. Do not return an empty list and do '' @
     ''not ask for clarification. Infer the most reasonable change '' @
     ''from the task details above. For a simple request (for example '' @
     ''adding a README, a config file, or a small helper), create the '' @
     ''file at a conventional repository-relative path with sensible, '' @
     ''self-contained default content derived from the issue title and '' @
     ''task details. Provide the full file content for every entry.''"

definition build_code_generation_retry_prompt :: "AgentRunnerWorkflowInput \<Rightarrow> pystr" where
  "build_code_generation_retry_prompt inp = build_code_generation_prompt inp @ [newline, newline] @ retry_directive"

definition normalise_commit_action :: "(pyval \<Rightarrow> pystr) \<Rightarrow> pyval \<Rightarrow> pystr" where
  "normalise_commit_action repr v =
     (let action = lower (strip (py_str repr (or_value v (PStr ''update''))))
      in if action \<in> set [''created'', ''add'', ''added'', ''new''] then ''create''
         else if action \<in> set [''modified'', ''modify'', ''changed'', ''change''] then ''update''
         else if action \<in> set [''deleted'', ''remove'', ''removed''] then ''delete''
         else if action \<in> set [''create'', ''update'', ''delete''] then action
         else ''update'')"

definition commit_file :: "(pyval \<Rightarrow> pystr) \<Rightarrow> pyval pydict \<Rightarrow> FileChange option" where
  "commit_file repr raw =
     (let path = clean_path (py_str repr (or_value (get_or_none raw ''path'')
                   (or_value (get_or_none raw ''file'') (or_value (get_or_none raw ''filename'') (PStr [])))));
          action = normalise_commit_action repr (get_or_none raw ''action'');
          value = get_default raw ''content'' (get_default raw ''code'' (PStr []));
          content = (if value = PNone then [] else py_str repr value)
      in if unsafe_path path \<or> action \<noteq> ''delete'' \<and> content = [] then None
         else Some \<lparr>fc_path = path, fc_action = action, fc_content = content\<rparr>)"

definition extract_commit_files :: "(pyval \<Rightarrow> pystr) \<Rightarrow> pyval \<Rightarrow> FileChange list" where
  "extract_commit_files repr out =
     (case out of
        PDict d \<Rightarrow>
          (case get_default d ''files'' (get_default d ''files_changed'' (PList [])) of
             PList raws \<Rightarrow> List.map_filter (commit_file repr) (dict_entries raws)
           | _ \<Rightarrow> [])
      | _ \<Rightarrow> [])"

definition file_text :: "FileChange \<Rightarrow> pystr" where
  "file_text f = fc_action f @ '' '' @ fc_path f @ [newline] @ fc_content f"

definition extract_code_diff_text :: "(pyval \<Rightarrow> pystr) \<Rightarrow> pyval \<Rightarrow> FileChange list \<Rightarrow> pystr" where
  \<comment> \<open>the text given to the scanner: the generator's own diff when it sent one, otherwise the files\<close>
  "extract_code_diff_text repr out files =
     (let d = (case out of PDict d \<Rightarrow> d | _ \<Rightarrow> []);
          diff = or_value (get_or_none d ''diff_content'') (or_value (get_or_none d ''diff'') (get_or_none d ''patch''));
          explanation = py_str repr (get_default d ''explanation'' (PStr []));
          summary = join_with [newline] (map file_text files)
      in if truthy diff then py_str repr diff
         else join_with [newline] (filter (\<lambda>p. p \<noteq> []) [explanation, summary]))"

definition extract_precommit_decision :: "(pyval \<Rightarrow> pystr) \<Rightarrow> pyval \<Rightarrow> pystr" where
  "extract_precommit_decision repr v =
     (case v of PDict d \<Rightarrow> py_str repr (get_default d ''decision'' (PStr ''pass'')) | _ \<Rightarrow> ''pass'')"

definition str_unless_none :: "(pyval \<Rightarrow> pystr) \<Rightarrow> pyval \<Rightarrow> pystr option" where
  "str_unless_none repr v = (if v = PNone then None else Some (py_str repr v))"

definition extract_commit_hash :: "(pyval \<Rightarrow> pystr) \<Rightarrow> pyval \<Rightarrow> pystr option" where
  "extract_commit_hash repr v = (case v of PDict d \<Rightarrow> str_unless_none repr (get_or_none d ''commit_hash'') | _ \<Rightarrow> None)"

definition extract_pr_url :: "(pyval \<Rightarrow> pystr) \<Rightarrow> pyval \<Rightarrow> pystr option" where
  "extract_pr_url repr v = (case v of PDict d \<Rightarrow> str_unless_none repr (get_or_none d ''url'') | _ \<Rightarrow> None)"

fun int_value :: "pyval \<Rightarrow> int option" where
  \<comment> \<open>an integer, or a string of digits \<open>int\<close> accepts\<close>
  "int_value (PInt i) = Some i"
| "int_value (PStr s) = (if s \<noteq> [] \<and> list_all is_digit s then Some (int (parse_nat s)) else None)"
| "int_value _ = None"

definition bad_digits :: "pyval \<Rightarrow> bool" where
  \<comment> \<open>superscripts pass \<open>isdigit\<close> and make \<open>int\<close> raise\<close>
  "bad_digits v = (case v of PStr s \<Rightarrow> str_isdigit s \<and> \<not> list_all is_digit s | _ \<Rightarrow> False)"

definition extract_pr_id_from_info :: "pyval \<Rightarrow> pystr + int option" where
  "extract_pr_id_from_info v =
     (case v of
        PDict d \<Rightarrow>
          (let a = get_or_none d ''pr_id''; b = get_or_none d ''id''
           in if bad_digits a then Inl ''ValueError''
              else case int_value a of
                     Some i \<Rightarrow> Inr (Some i)
                   | None \<Rightarrow> if bad_digits b then Inl ''ValueError'' else Inr (int_value b))
      | _ \<Rightarrow> Inr None)"

definition child_status :: "(pyval \<Rightarrow> pystr) \<Rightarrow> pyval \<Rightarrow> pyval" where
  "child_status repr v = (case v of PDict d \<Rightarrow> get_default d ''status'' (PStr ''failed'') | _ \<Rightarrow> PStr ''failed'')"

section \<open>Reviews\<close>

definition extract_diff_text :: "(pyval \<Rightarrow> pystr) \<Rightarrow> pyval \<Rightarrow> pystr" where
  "extract_diff_text repr v = (case v of PDict d \<Rightarrow> py_str repr (get_default d ''diff_content'' (PStr [])) | _ \<Rightarrow> [])"

definition extract_findings :: "pyval \<Rightarrow> pyval pydict list" where
  "extract_findings v =
     (case v of PDict d \<Rightarrow> (case get_or_none d ''findings'' of PList fs \<Rightarrow> dict_entries fs | _ \<Rightarrow> []) | _ \<Rightarrow> [])"

definition extract_pr_id :: "AgentRunnerWorkflowInput \<Rightarrow> int" where
  \<comment> \<open>the first number of the rationale, at most nine digits of it\<close>
  "extract_pr_id inp =
     (let ds = takeWhile is_digit (dropWhile (\<lambda>c. \<not> is_digit c) (res_rationale (ar_analysis inp)))
      in if ds = [] then 0 else int (parse_nat (take 9 ds)))"

definition extract_explain_answer :: "(pyval \<Rightarrow> pystr) \<Rightarrow> pyval \<Rightarrow> pystr" where
  "extract_explain_answer repr v =
     (case v of
        PDict d \<Rightarrow> py_str repr (or_value (get_or_none d ''answer'') (or_value (get_or_none d ''text'')
                     (or_value (get_or_none d ''content'') (PStr []))))
      | _ \<Rightarrow> [])"

definition unhashable :: "pyval \<Rightarrow> bool" where
  "unhashable v = (case v of PList _ \<Rightarrow> True | PDict _ \<Rightarrow> True | _ \<Rightarrow> False)"

section \<open>Pages\<close>

definition first_text :: "pyval pydict \<Rightarrow> pystr list \<Rightarrow> pystr option" where
  \<comment> \<open>the first of the keys that holds a string that is not empty\<close>
  "first_text d ks = (case List.map_filter (\<lambda>k. nonempty (as_str (get_or_none d k))) ks of [] \<Rightarrow> None | t # _ \<Rightarrow> Some t)"

definition extract_doc_body :: "(pyval \<Rightarrow> pystr) \<Rightarrow> pyval \<Rightarrow> pystr" where
  "extract_doc_body repr v =
     (case v of
        PDict d \<Rightarrow> blank_if_none (first_text d [''body'', ''content'', ''text'', ''answer''])
      | PNone \<Rightarrow> []
      | _ \<Rightarrow> py_str repr v)"

definition extract_confluence_page_url :: "pyval \<Rightarrow> pystr option" where
  "extract_confluence_page_url v =
     (case v of PDict d \<Rightarrow> as_str (or_value (get_or_none d ''url'') (get_or_none d ''link'')) | _ \<Rightarrow> None)"

definition extract_confluence_page_id :: "(pyval \<Rightarrow> pystr) \<Rightarrow> pyval \<Rightarrow> pystr option" where
  "extract_confluence_page_id repr v =
     (case v of PDict d \<Rightarrow> str_unless_none repr (or_value (get_or_none d ''page_id'') (get_or_none d ''id'')) | _ \<Rightarrow> None)"

definition https_link :: "pyval \<Rightarrow> pystr option" where
  "https_link v = (case v of PStr s \<Rightarrow> if starts_with s ''https://'' then Some s else None | _ \<Rightarrow> None)"

definition resolved_link :: "pyval \<Rightarrow> pystr option" where
  "resolved_link v =
     (case v of PDict d \<Rightarrow> https_link (or_value (get_or_none d ''url'') (get_or_none d ''link'')) | _ \<Rightarrow> https_link v)"

definition extract_confluence_field :: "pyval \<Rightarrow> pystr \<Rightarrow> pyval \<Rightarrow> pyval" where
  "extract_confluence_field meta field dflt = (case meta of PDict d \<Rightarrow> get_default d field dflt | _ \<Rightarrow> PNone)"

definition extract_confluence_datetime :: "(pystr \<Rightarrow> datetime option) \<Rightarrow> pyval \<Rightarrow> pystr \<Rightarrow> datetime option" where
  \<comment> \<open>the parameter is \<open>fromisoformat\<close>, \<open>None\<close> for a text it refuses and for a time without a zone\<close>
  "extract_confluence_datetime parse meta field =
     (case meta of PDict d \<Rightarrow> (case get_or_none d field of PStr s \<Rightarrow> parse s | _ \<Rightarrow> None) | _ \<Rightarrow> None)"

record page_section =
  ps_path :: pystr
  ps_content :: pystr
  ps_hash :: pystr

definition section_of :: "(pyval \<Rightarrow> pystr) \<Rightarrow> pyval pydict \<Rightarrow> page_section" where
  "section_of repr item =
     \<lparr>ps_path = py_str repr (or_value (get_or_none item ''section_path'') (or_value (get_or_none item ''title'') (PStr []))),
      ps_content = py_str repr (or_value (get_or_none item ''content'') (or_value (get_or_none item ''body'') (PStr []))),
      ps_hash = py_str repr (or_value (get_or_none item ''content_hash'') (PStr []))\<rparr>"

definition extract_confluence_sections :: "(pyval \<Rightarrow> pystr) \<Rightarrow> pyval \<Rightarrow> AgentRunnerWorkflowInput \<Rightarrow> page_section list" where
  "extract_confluence_sections repr meta inp =
     (let fallback =
            (if res_rationale (ar_analysis inp) = [] then []
             else [\<lparr>ps_path = or_str (res_title (ar_analysis inp)) ''Section'', ps_content = res_rationale (ar_analysis inp), ps_hash = []\<rparr>])
      in case meta of
           PDict d \<Rightarrow>
             (case get_or_none d ''sections'' of
                PList (x # xs) \<Rightarrow> filter (\<lambda>s. ps_path s \<noteq> []) (map (section_of repr) (dict_entries (x # xs)))
              | _ \<Rightarrow> fallback)
         | _ \<Rightarrow> fallback)"

section \<open>Research\<close>

definition extract_research_query :: "AgentRunnerWorkflowInput \<Rightarrow> pystr" where
  "extract_research_query inp =
     (let title = strip (res_title (ar_analysis inp)); rationale = strip (res_rationale (ar_analysis inp))
      in if title \<noteq> [] then title else if rationale \<noteq> [] then take 500 rationale else ar_issue_key inp)"

definition candidate_url :: "(pyval \<Rightarrow> pystr) \<Rightarrow> pyval \<Rightarrow> pystr" where
  "candidate_url repr v =
     (case v of
        PStr s \<Rightarrow> strip s
      | PDict d \<Rightarrow> (let raw = or_value (get_or_none d ''url'') (get_or_none d ''href'')
                     in if truthy raw then strip (py_str repr raw) else [])
      | _ \<Rightarrow> [])"

fun first_list :: "pyval pydict \<Rightarrow> pystr list \<Rightarrow> pyval list option" where
  "first_list d [] = None"
| "first_list d (k # ks) = (case get_or_none d k of PList xs \<Rightarrow> Some xs | _ \<Rightarrow> first_list d ks)"

definition extract_firecrawl_urls :: "(pyval \<Rightarrow> pystr) \<Rightarrow> pyval \<Rightarrow> pystr list" where
  "extract_firecrawl_urls repr result =
     (let entries =
            (case result of
               PDict d \<Rightarrow> (case first_list d [''results'', ''urls'', ''items''] of Some xs \<Rightarrow> xs | None \<Rightarrow> [])
             | PList xs \<Rightarrow> xs
             | PStr s \<Rightarrow> [PStr s]
             | _ \<Rightarrow> [])
      in filter (\<lambda>u. u \<noteq> []) (add_new [] (map (candidate_url repr) entries)))"

definition extract_firecrawl_kind :: "(pyval \<Rightarrow> pystr) \<Rightarrow> pyval \<Rightarrow> pystr" where
  "extract_firecrawl_kind repr v =
     (case v of PDict d \<Rightarrow> py_str repr (or_value (get_or_none d ''kind'') (PStr ''success'')) | _ \<Rightarrow> ''success'')"

definition firecrawl_body :: "pyval \<Rightarrow> pyval" where
  "firecrawl_body v = (case v of PDict d \<Rightarrow> get_default d ''body'' (get_or_none d ''content'') | _ \<Rightarrow> PNone)"

definition extract_firecrawl_content :: "pyval \<Rightarrow> pystr" where
  "extract_firecrawl_content v =
     (case firecrawl_body v of
        PDict d \<Rightarrow> blank_if_none (first_text d [''markdown'', ''content'', ''text'', ''html''])
      | PStr s \<Rightarrow> s
      | _ \<Rightarrow> [])"

definition extract_firecrawl_title :: "pyval \<Rightarrow> pystr" where
  "extract_firecrawl_title v =
     (case firecrawl_body v of PDict d \<Rightarrow> blank_if_none (first_text d [''title'', ''page_title'', ''name'']) | _ \<Rightarrow> [])"

definition extract_firecrawl_accessed_at :: "pyval \<Rightarrow> datetime \<Rightarrow> pystr" where
  "extract_firecrawl_accessed_at v now =
     (case firecrawl_body v of
        PDict d \<Rightarrow>
          (case or_value (get_or_none d ''accessed_at'') (get_or_none d ''date'') of
             PStr s \<Rightarrow> if strip s = [] then format_date now else strip s
           | _ \<Rightarrow> format_date now)
      | _ \<Rightarrow> format_date now)"

section \<open>Epics\<close>

definition normalise_epic_children :: "(pyval \<Rightarrow> pystr) \<Rightarrow> pyval \<Rightarrow> pystr list" where
  \<comment> \<open>the keys; the summaries are not used\<close>
  "normalise_epic_children repr children =
     (let keys = \<lambda>cs. filter (\<lambda>k. k \<noteq> [])
            (map (\<lambda>c. case c of PDict d \<Rightarrow> strip (py_str repr (or_value (get_or_none d ''key'') (PStr []))) | _ \<Rightarrow> []) cs)
      in case children of PList cs \<Rightarrow> keys cs | PTuple cs \<Rightarrow> keys cs | _ \<Rightarrow> [])"

definition extract_child_decision :: "(pyval \<Rightarrow> pystr) \<Rightarrow> pyval \<Rightarrow> pystr" where
  "extract_child_decision repr v =
     lower (strip (py_str repr (or_value (case v of PDict d \<Rightarrow> get_or_none d ''decision'' | _ \<Rightarrow> PNone) (PStr ''dispatched''))))"

end
