(* ===== verification/Agent_State.thy ===== *)
theory Agent_State
  imports Agent_Values
begin

text \<open>
  The state of \<open>AgentRunnerWorkflow\<close> (\<^verbatim>\<open>agent_runner_workflow.py\<close>), its signal handlers, its awaits and the awaits
  every handler shares: audit entries, comments, the warning after three iterations and calls of an LLM.

  A step is a function from a state to an exception or a value and the state after it. An await appends its call to
  \<open>as_calls\<close>; the environment says, as a function of the calls so far, what it yields and which signals are
  handled while it is pending, each at its own time. A signal carries a decoded JSON value. Exceptions keep the
  classes the workflow tells apart; all others are \<open>BodyError\<close> with their text. Texts of comments are values of
  \<open>agent_comment\<close>.
\<close>

section \<open>Constants\<close>

definition MAX_ITER :: int where "MAX_ITER = 5"

definition MAX_ACTIVITY_TOKEN_CAP :: nat where "MAX_ACTIVITY_TOKEN_CAP = 8000"

definition ITER_WARNING_THRESHOLD :: int where "ITER_WARNING_THRESHOLD = 3"

definition CANCEL_BY_END_USER_AUDIT_ACTION :: pystr where "CANCEL_BY_END_USER_AUDIT_ACTION = ''workflow_cancelled_by_end_user''"

definition CANCEL_BY_ADMIN_AUDIT_ACTION :: pystr where "CANCEL_BY_ADMIN_AUDIT_ACTION = ''workflow_cancelled_by_admin''"

definition CANCEL_ADMIN_ROLES :: "pystr list" where "CANCEL_ADMIN_ROLES = [''admin'', ''dept_admin'']"

definition audit_action_for_cancel_role :: "pystr \<Rightarrow> pystr" where
  "audit_action_for_cancel_role role =
     (if role \<in> set CANCEL_ADMIN_ROLES then CANCEL_BY_ADMIN_AUDIT_ACTION else CANCEL_BY_END_USER_AUDIT_ACTION)"

section \<open>Data\<close>

datatype agent_comment =
    IterWarningBanner
  | NoFilesGenerated
  | TestsFailed pystr
  | DraftPrOpened pystr
  | BranchReady pystr pystr
  | PageCreated pystr
  | ProbePageSkipped
  | OverwriteSkipped
  | NoSections
  | UpdateSummary "pystr list" "pystr list" \<comment> \<open>updated and skipped sections\<close>
  | ResearchPublished pystr
  | NoResearchSources
  | ResearchSummary "research_comment option" pystr \<comment> \<open>and the place of the full text, if any\<close>
  | DomainBlocked pystr
  | EpicEmpty
  | SubtaskFailed pystr nat nat nat \<comment> \<open>key, completed, total, skipped\<close>
  | SubtaskRejected pystr pystr nat nat nat
  | SubtaskDone nat nat pystr
  | EpicDone nat nat
  | Explanation pystr

datatype agent_call =
    SetAssignee
  | AgentComment agent_comment
  | AuditEmit pystr int
  | CompensationRun pystr pystr pystr \<comment> \<open>actor, role, reason\<close>
  | GenerateCode pystr
  | PrecommitScan pystr
  | CommitViaGit pystr pystr pystr "FileChange list" pystr \<comment> \<open>repository, branch, source branch, files, message\<close>
  | CreatePr pystr pystr pystr pystr pystr \<comment> \<open>tool, repository, branch, title, description\<close>
  | SupersedePr int int
  | FetchPrDiff pystr int
  | ReviewCode pyval
  | ExplainCode pystr pystr
  | AddPrComment int "pyval option" \<comment> \<open>\<open>None\<close> is the text for an empty finding\<close>
  | BuildIssueLink
  | GenerateDoc pystr pystr pystr
  | CreatePage pystr pystr page_body "source_line list"
  | GetPage pystr
  | UpdatePage pystr pystr page_body
  | FirecrawlSearch pystr
  | FirecrawlScrape pystr
  | PutResearchSummary pystr "research_source list"
  | ListEpicChildren
  | RunExecutionChild pystr pystr bool \<comment> \<open>workflow id, command, docker\<close>
  | RunGatewayChild pystr AutomationWorkflowInput
  | PutOutputAction pystr pystr
  | OutputActivity pystr "pyval list"
  | WaitForSignal

datatype agent_exn =
    CancelledViaSignal
  | OutOfScope
  | EpicSubtaskFailed pystr
  | OutputActionCriticalFailure
  | TokenCapExceeded nat
  | BodyError pystr

datatype agent_signal =
    CommentAdded pyval
  | FixTriggered pyval
  | ExplainTriggered pyval
  | CancelRequested pyval

record agent_state =
  as_iter :: IterationState
  as_previous_findings :: "pyval list"
  as_section_hashes :: "pystr list"
  as_partial :: "pystr list"
  as_signal_pending :: bool
  as_cancel_requested :: bool
  as_cancel_actor_id :: pystr
  as_cancel_actor_role :: pystr
  as_cancel_reason :: pystr
  as_compensation_running :: bool
  as_out_of_scope :: bool
  as_failure_reason :: "pystr option"
  as_pending_fix :: "pystr option"
  as_pending_explain :: "pystr option"
  as_pending_explain_text :: "pystr option"
  as_latest_comment :: pystr
  as_warned :: bool
  as_warning_pending :: bool
  as_pending_audits :: "pystr list"
  as_diff_summaries :: "pystr pydict"
  as_previous_pr_id :: "int option"
  as_last_commit_branch :: "pystr option"
  as_page_id :: "pystr option"
  as_log :: ApplyResult
  as_calls :: "agent_call list"

definition initial_agent :: agent_state where
  "initial_agent =
     \<lparr>as_iter = \<lparr>iter_count = 0, last_fix_trigger_at = None, test_results_by_diff_hash = [], explain_cache = [], needs_info_streak = 0\<rparr>,
      as_previous_findings = [], as_section_hashes = [], as_partial = [], as_signal_pending = False,
      as_cancel_requested = False, as_cancel_actor_id = [], as_cancel_actor_role = ''end_user'', as_cancel_reason = ''user_cancel'',
      as_compensation_running = False, as_out_of_scope = False, as_failure_reason = None, as_pending_fix = None,
      as_pending_explain = None, as_pending_explain_text = None, as_latest_comment = [], as_warned = False,
      as_warning_pending = False, as_pending_audits = [], as_diff_summaries = [], as_previous_pr_id = None,
      as_last_commit_branch = None, as_page_id = None,
      as_log = \<lparr>successful_critical = [], failed_critical = [], successful_best_effort = [], failed_best_effort = []\<rparr>,
      as_calls = []\<rparr>"

record agent_env =
  ae_repr :: "pyval \<Rightarrow> pystr"
  ae_workflow_id :: pystr
  ae_run_id :: pystr
  ae_signals :: "agent_call list \<Rightarrow> (datetime \<times> agent_signal) list"
  ae_clock :: "agent_call list \<Rightarrow> datetime"
  ae_answer :: "agent_call list \<Rightarrow> pystr + pyval"
  ae_sha256 :: "pystr \<Rightarrow> pystr"
  ae_parse_time :: "pystr \<Rightarrow> datetime option"
  ae_encode :: "(pystr \<times> pyval) list \<Rightarrow> pystr"

section \<open>Iterations\<close>

definition state_increment_iter :: "IterationState \<Rightarrow> IterationState" where
  "state_increment_iter s = s\<lparr>iter_count := iter_count s + 1\<rparr>"

definition state_record_fix_trigger :: "IterationState \<Rightarrow> datetime \<Rightarrow> IterationState" where
  "state_record_fix_trigger s now = s\<lparr>last_fix_trigger_at := Some now\<rparr>"

definition state_record_explain_answer :: "IterationState \<Rightarrow> pystr \<Rightarrow> pystr \<Rightarrow> datetime \<Rightarrow> IterationState" where
  \<comment> \<open>a plain dictionary, without the bound of \<open>record_explain_answer\<close>\<close>
  "state_record_explain_answer s h ans now =
     s\<lparr>explain_cache := dict_set h \<lparr>answer = ans, issued_at = now\<rparr> (explain_cache s)\<rparr>"

definition state_increment_needs_info :: "IterationState \<Rightarrow> IterationState" where
  "state_increment_needs_info s = s\<lparr>needs_info_streak := needs_info_streak s + 1\<rparr>"

definition state_reset_needs_info :: "IterationState \<Rightarrow> IterationState" where
  "state_reset_needs_info s = s\<lparr>needs_info_streak := 0\<rparr>"

definition state_record_test_result :: "IterationState \<Rightarrow> pystr \<Rightarrow> pystr \<Rightarrow> IterationState" where
  "state_record_test_result s h status =
     (if h = [] then s else s\<lparr>test_results_by_diff_hash := dict_set h status (test_results_by_diff_hash s)\<rparr>)"

definition advance_iter_with_banner_check :: "agent_state \<Rightarrow> agent_state" where
  "advance_iter_with_banner_check s =
     (let it = state_increment_iter (as_iter s)
      in s\<lparr>as_iter := it,
           as_warning_pending := (as_warning_pending s \<or> \<not> as_warned s \<and> ITER_WARNING_THRESHOLD \<le> iter_count it),
           as_signal_pending := True\<rparr>)"

definition go_out_of_scope :: "pystr \<Rightarrow> agent_state \<Rightarrow> agent_state" where
  "go_out_of_scope why s = s\<lparr>as_out_of_scope := True, as_failure_reason := Some why, as_signal_pending := True\<rparr>"

definition iter_refusal :: "IterationState \<Rightarrow> int \<Rightarrow> pystr option" where
  \<comment> \<open>\<open>decision.reason or "max_iter_reached"\<close> when the decision is against another iteration\<close>
  "iter_refusal it limit =
     (let d = should_advance_iter it limit
      in if advance d then None else Some (or_str (decision_reason d) ''max_iter_reached''))"

section \<open>Signals\<close>

definition coerce_comment_signal :: "(pyval \<Rightarrow> pystr) \<Rightarrow> pyval \<Rightarrow> pystr \<Rightarrow> pystr \<times> pystr option" where
  \<comment> \<open>the text and the hash of the diff; the actor is dropped by every caller\<close>
  "coerce_comment_signal repr v diff_field =
     (case v of
        PDict d \<Rightarrow>
          (let text = get_default d ''comment_text'' (PStr []);
               diff = get_or_none d diff_field;
               diff' = (if diff = PNone \<and> diff_field \<noteq> ''diff_hash'' then get_or_none d ''diff_hash'' else diff)
           in (if text = PNone then [] else py_str repr text, as_str diff'))
      | PNone \<Rightarrow> ([], None)
      | _ \<Rightarrow> (py_str repr v, None))"

definition coerce_cancel_signal :: "(pyval \<Rightarrow> pystr) \<Rightarrow> pyval \<Rightarrow> pystr \<times> pystr \<times> pystr" where
  "coerce_cancel_signal repr v =
     (case v of
        PDict d \<Rightarrow>
          (let field = \<lambda>k dflt. case get_default d k (PStr dflt) of PNone \<Rightarrow> dflt | x \<Rightarrow> py_str repr x;
               role = field ''actor_role'' ''end_user''
           in (field ''actor_id'' [],
               if role \<in> set (CANCEL_ADMIN_ROLES @ [''end_user'']) then role else ''end_user'',
               field ''reason'' ''user_cancel''))
      | _ \<Rightarrow> ([], ''end_user'', ''user_cancel''))"

definition stopped_agent :: "agent_state \<Rightarrow> bool" where
  "stopped_agent s \<longleftrightarrow> as_cancel_requested s \<or> as_out_of_scope s"

definition keep_text :: "pystr \<Rightarrow> agent_state \<Rightarrow> agent_state" where
  "keep_text text s = (if text = [] then s else s\<lparr>as_latest_comment := text\<rparr>)"

definition apply_fix_signal :: "datetime \<Rightarrow> pystr \<Rightarrow> pystr option \<Rightarrow> agent_state \<Rightarrow> agent_state" where
  "apply_fix_signal now text diff s =
     (if stopped_agent s then s
      else case iter_refusal (as_iter s) MAX_ITER of
             Some why \<Rightarrow> go_out_of_scope why s
           | None \<Rightarrow>
               if is_fix_debounced (as_iter s) now FIX_DEBOUNCE_WINDOW
               then s\<lparr>as_pending_audits := as_pending_audits s @ [''fix_debounce_dropped'']\<rparr>
               else
                 let s1 = s\<lparr>as_iter := state_reset_needs_info (as_iter s)\<rparr>
                 in if nonempty diff \<noteq> None \<and> fix_should_skip_retest (as_iter s1) (blank_if_none diff)
                    then s1\<lparr>as_iter := state_record_fix_trigger (as_iter s1) now, as_pending_fix := None,
                            as_pending_audits := as_pending_audits s1 @ [''fix_re_test_protected''], as_signal_pending := True\<rparr>
                    else
                      let s2 = keep_text text s1
                      in advance_iter_with_banner_check
                           (s2\<lparr>as_iter := state_record_fix_trigger (as_iter s2) now, as_pending_fix := diff\<rparr>))"

definition apply_explain_signal :: "datetime \<Rightarrow> pystr \<Rightarrow> pystr option \<Rightarrow> agent_state \<Rightarrow> agent_state" where
  "apply_explain_signal now text diff s =
     (if stopped_agent s then s
      else if nonempty diff \<noteq> None \<and> explain_should_skip_llm (as_iter s) (blank_if_none diff) now EXPLAIN_CACHE_TTL
      then s\<lparr>as_pending_explain := diff, as_pending_explain_text := Some text,
             as_pending_audits := as_pending_audits s @ [''explain_cache_hit''], as_signal_pending := True\<rparr>
      else
        let s1 = s\<lparr>as_iter := state_reset_needs_info (as_iter s)\<rparr>
        in case iter_refusal (as_iter s1) MAX_ITER of
             Some why \<Rightarrow> go_out_of_scope why s1
           | None \<Rightarrow> advance_iter_with_banner_check (s1\<lparr>as_pending_explain := diff, as_pending_explain_text := Some text\<rparr>))"

definition apply_needs_info_signal :: "pystr \<Rightarrow> agent_state \<Rightarrow> agent_state" where
  "apply_needs_info_signal text s =
     (if stopped_agent s then s
      else
        let s1 = keep_text text s; s2 = s1\<lparr>as_iter := state_increment_needs_info (as_iter s1)\<rparr>
        in if needs_info_should_terminate (as_iter s2) NEEDS_INFO_MAX_STREAK then go_out_of_scope ''needs_info_loop_cap'' s2
           else s2\<lparr>as_signal_pending := True\<rparr>)"

definition needs_info_keyword :: "pystr \<Rightarrow> bool" where
  "needs_info_keyword text \<longleftrightarrow>
     contains_sub ''[needsinfo]'' (lower text) \<or> contains_sub ''[needs_info]'' (lower text) \<or> contains_sub ''[needs-info]'' (lower text)"

definition comment_added :: "agent_env \<Rightarrow> datetime \<Rightarrow> pyval \<Rightarrow> agent_state \<Rightarrow> agent_state" where
  "comment_added env now v s =
     (if stopped_agent s then s
      else
        let (text, diff) = coerce_comment_signal (ae_repr env) v ''diff_hash''
        in if contains_sub ''[fix]'' (lower text) then apply_fix_signal now text diff s
           else if contains_sub ''[explain]'' (lower text) then apply_explain_signal now text diff s
           else if needs_info_keyword text then apply_needs_info_signal text s
           else
             let s1 = s\<lparr>as_iter := state_reset_needs_info (as_iter s)\<rparr>
             in case iter_refusal (as_iter s1) MAX_ITER of
                  Some why \<Rightarrow> go_out_of_scope why s1
                | None \<Rightarrow> advance_iter_with_banner_check (keep_text text s1))"

definition cancel_requested :: "agent_env \<Rightarrow> pyval \<Rightarrow> agent_state \<Rightarrow> agent_state" where
  "cancel_requested env v s =
     (if as_cancel_requested s \<or> as_compensation_running s then s
      else
        let (actor, role, why) = coerce_cancel_signal (ae_repr env) v
        in s\<lparr>as_cancel_requested := True, as_cancel_actor_id := actor, as_cancel_actor_role := role,
             as_cancel_reason := why, as_signal_pending := True\<rparr>)"

fun handle_signal :: "agent_env \<Rightarrow> agent_state \<Rightarrow> datetime \<times> agent_signal \<Rightarrow> agent_state" where
  "handle_signal env s (now, CommentAdded v) = comment_added env now v s"
| "handle_signal env s (now, FixTriggered v) =
     (if stopped_agent s then s
      else (case coerce_comment_signal (ae_repr env) v ''diff_hash'' of (text, diff) \<Rightarrow> apply_fix_signal now text diff s))"
| "handle_signal env s (now, ExplainTriggered v) =
     (if stopped_agent s then s
      else (case coerce_comment_signal (ae_repr env) v ''pr_diff_hash'' of (text, diff) \<Rightarrow> apply_explain_signal now text diff s))"
| "handle_signal env s (now, CancelRequested v) = cancel_requested env v s"

section \<open>Steps\<close>

type_synonym 'a agent = "agent_state \<Rightarrow> (agent_exn + 'a) \<times> agent_state"

definition areturn :: "'a \<Rightarrow> 'a agent" where
  "areturn a s = (Inr a, s)"

definition araise :: "agent_exn \<Rightarrow> 'a agent" where
  "araise e s = (Inl e, s)"

definition abind :: "'a agent \<Rightarrow> ('a \<Rightarrow> 'b agent) \<Rightarrow> 'b agent" where
  "abind m k s = (case m s of (Inl e, s') \<Rightarrow> (Inl e, s') | (Inr a, s') \<Rightarrow> k a s')"

definition athen :: "'a agent \<Rightarrow> 'b agent \<Rightarrow> 'b agent" where
  "athen m n = abind m (\<lambda>_. n)"

definition acatch :: "'a agent \<Rightarrow> (agent_exn \<Rightarrow> 'a agent) \<Rightarrow> 'a agent" where
  "acatch m h s = (case m s of (Inl e, s') \<Rightarrow> h e s' | (Inr a, s') \<Rightarrow> (Inr a, s'))"

definition amodify :: "(agent_state \<Rightarrow> agent_state) \<Rightarrow> unit agent" where
  "amodify f s = (Inr (), f s)"

definition aread :: "(agent_state \<Rightarrow> 'a agent) \<Rightarrow> 'a agent" where
  \<comment> \<open>a step that looks at the state first\<close>
  "aread f s = f s s"

definition awhen :: "bool \<Rightarrow> unit agent \<Rightarrow> unit agent" where
  "awhen b m = (if b then m else areturn ())"

definition alift :: "pystr + 'a \<Rightarrow> 'a agent" where
  \<comment> \<open>a call of a function that may raise\<close>
  "alift x = (case x of Inl e \<Rightarrow> araise (BodyError e) | Inr a \<Rightarrow> areturn a)"

fun afor :: "'a list \<Rightarrow> ('a \<Rightarrow> 'b agent) \<Rightarrow> 'b list agent" where
  "afor [] f = areturn []"
| "afor (x # xs) f = abind (f x) (\<lambda>y. abind (afor xs f) (\<lambda>ys. areturn (y # ys)))"

definition await :: "agent_env \<Rightarrow> agent_call \<Rightarrow> pyval agent" where
  "await env c s =
     (let s1 = s\<lparr>as_calls := as_calls s @ [c]\<rparr>;
          s2 = foldl (handle_signal env) s1 (ae_signals env (as_calls s1))
      in case ae_answer env (as_calls s1) of Inl e \<Rightarrow> (Inl (BodyError e), s2) | Inr v \<Rightarrow> (Inr v, s2))"

definition fail_with :: "pystr \<Rightarrow> agent_exn \<Rightarrow> 'a agent" where
  \<comment> \<open>\<open>self._failure_reason = reason; raise\<close>\<close>
  "fail_with why e = athen (amodify (\<lambda>s. s\<lparr>as_failure_reason := Some why\<rparr>)) (araise e)"

definition critical_call :: "agent_env \<Rightarrow> agent_call \<Rightarrow> pystr \<Rightarrow> pyval agent" where
  "critical_call env c why = acatch (await env c) (fail_with why)"

definition record_partial_failure :: "pystr \<Rightarrow> unit agent" where
  "record_partial_failure k = amodify (\<lambda>s. s\<lparr>as_partial := as_partial s @ [k]\<rparr>)"

definition emit_audit_action :: "agent_env \<Rightarrow> pystr \<Rightarrow> unit agent" where
  "emit_audit_action env action =
     aread (\<lambda>s. acatch (athen (await env (AuditEmit action (iter_count (as_iter s)))) (areturn ())) (\<lambda>_. areturn ()))"

definition post_jira_comment_best_effort :: "agent_env \<Rightarrow> agent_comment \<Rightarrow> unit agent" where
  "post_jira_comment_best_effort env c =
     acatch (athen (await env (AgentComment c)) (areturn ())) (\<lambda>_. record_partial_failure ''jira_comment'')"

definition execute_llm_activity :: "agent_env \<Rightarrow> agent_call \<Rightarrow> nat \<Rightarrow> pyval agent" where
  "execute_llm_activity env c tokens =
     (if MAX_ACTIVITY_TOKEN_CAP < tokens
      then athen (emit_audit_action env ''token_cap_exceeded'') (araise (TokenCapExceeded tokens))
      else await env c)"

definition critical_llm :: "agent_env \<Rightarrow> agent_call \<Rightarrow> nat \<Rightarrow> pystr \<Rightarrow> pyval agent" where
  "critical_llm env c tokens why =
     acatch (execute_llm_activity env c tokens) (\<lambda>e. case e of TokenCapExceeded n \<Rightarrow> araise e | _ \<Rightarrow> fail_with why e)"

definition maybe_post_iter_warning_banner :: "agent_env \<Rightarrow> unit agent" where
  "maybe_post_iter_warning_banner env =
     aread (\<lambda>s.
       if as_warned s then amodify (\<lambda>s. s\<lparr>as_warning_pending := False\<rparr>)
       else if \<not> as_warning_pending s then areturn ()
       else if iter_count (as_iter s) < ITER_WARNING_THRESHOLD then amodify (\<lambda>s. s\<lparr>as_warning_pending := False\<rparr>)
       else athen (amodify (\<lambda>s. s\<lparr>as_warned := True, as_warning_pending := False\<rparr>))
           (athen (acatch (athen (await env (AgentComment IterWarningBanner)) (areturn ())) (\<lambda>_. areturn ()))
                  (emit_audit_action env ''iter_warning_at_three_posted'')))"

definition drain_pending_audits :: "agent_env \<Rightarrow> unit agent" where
  "drain_pending_audits env =
     aread (\<lambda>s. athen (amodify (\<lambda>s. s\<lparr>as_pending_audits := []\<rparr>))
       (athen (afor (as_pending_audits s) (emit_audit_action env)) (areturn ())))"

definition set_assignee :: "agent_env \<Rightarrow> pyval agent" where
  "set_assignee env = critical_call env SetAssignee ''jira_assignee_failed''"

end
