(* ===== verification/Agent_Runner.thy ===== *)
theory Agent_Runner
  imports Agent_State
begin

text \<open>
  The handlers of \<open>AgentRunnerWorkflow\<close> (\<^verbatim>\<open>agent_runner_workflow.py\<close>), in the order of the code: output actions, code
  changes, reviews and explanations, Confluence pages, research, epics; then the dispatch on the workflow type, the end
  of a run and \<open>run\<close> itself. \<open>agent_output\<close> and \<open>agent_trace\<close> are what a run returns and the awaits it made.
\<close>

section \<open>Output actions\<close>

definition OUTPUT_ACTION_DISPATCH :: "pystr pydict" where
  "OUTPUT_ACTION_DISPATCH =
     [(''jira_comment'', ''jira_add_comment''), (''jira_attachment'', ''upload_artifact_to_jira''),
      (''bitbucket_create_pr'', ''bitbucket_open_pr''), (''confluence_create_page'', ''confluence_create_page''),
      (''confluence_update_page'', ''confluence_update_page''), (''slack_notify'', ''slack_notify''), (''email_notify'', ''email_notify'')]"

fun first_truthy :: "pyval pydict \<Rightarrow> pystr list \<Rightarrow> pyval \<Rightarrow> pyval" where
  \<comment> \<open>\<open>d.get(k1) or d.get(k2) or ... or v\<close>\<close>
  "first_truthy d [] v = v"
| "first_truthy d (k # ks) v = or_value (get_or_none d k) (first_truthy d ks v)"

definition title_or_key :: "AgentRunnerWorkflowInput \<Rightarrow> pystr" where
  "title_or_key inp = or_str (res_title (ar_analysis inp)) (ar_issue_key inp)"

definition comment_body :: "(pyval \<Rightarrow> pystr) \<Rightarrow> pyval pydict \<Rightarrow> pystr" where
  "comment_body repr d =
     (let body = first_truthy d [''body'', ''comment'', ''text'', ''content'', ''summary''] (PStr [])
      in if truthy (get_or_none d ''minio_uri'') \<and> truthy (get_or_none d ''summary'')
         then py_str repr body @ [newline, newline] @ ''Artifact: '' @ py_str repr (get_or_none d ''minio_uri'')
         else py_str repr body)"

definition action_args :: "agent_env \<Rightarrow> AgentRunnerWorkflowInput \<Rightarrow> pystr option \<Rightarrow> pystr \<Rightarrow> pyval pydict \<Rightarrow> pyval list option" where
  \<comment> \<open>\<open>None\<close> for a pull request without a source branch\<close>
  "action_args env inp last_branch k d =
     (let dept = PStr (ar_department_id inp);
          key = first_truthy d [''issue_key''] (PStr (ar_issue_key inp));
          title = first_truthy d [''title''] (PStr (title_or_key inp));
          content = first_truthy d [''content'', ''body'', ''text''] (PStr [])
      in if k = ''jira_comment'' then Some [key, PStr (comment_body (ae_repr env) d), dept]
         else if k = ''jira_attachment'' then
           Some [key, first_truthy d [''bucket''] (PStr ''ai-runs''), first_truthy d [''key'', ''minio_key''] (PStr []),
                 first_truthy d [''file_name'', ''filename''] (PStr ''result.md''), dept]
         else if k = ''confluence_create_page'' then
           Some [first_truthy d [''space_key'', ''space''] (PStr []), title, content, dept, get_or_none d ''parent_id'']
         else if k = ''confluence_update_page'' then
           Some [first_truthy d [''page_id'', ''id''] (PStr []), title, content, dept]
         else if k = ''bitbucket_create_pr'' then
           let repo = PDict [(''workspace'', first_truthy d [''workspace'', ''project_key''] (PStr [])),
                 (''repo_slug'', first_truthy d [''repo_slug'', ''repository''] (PStr (blank_if_none (ar_target_repo inp))))];
               source = first_truthy d [''source_branch'', ''from_branch''] (PStr (blank_if_none last_branch))
           in if \<not> truthy source then None
              else Some [repo, source,
                     first_truthy d [''target_branch'', ''to_branch''] (PStr (or_str (blank_if_none (ar_target_branch inp)) ''main'')),
                     title, first_truthy d [''description'', ''body''] (PStr []), dept]
         else Some [PDict d, dept])"

definition failure_text :: "agent_exn \<Rightarrow> pystr" where
  \<comment> \<open>the first line of the exception, at most 200 characters of it\<close>
  "failure_text e =
     (let t = (case e of BodyError m \<Rightarrow> or_str m ''ActivityError'' | _ \<Rightarrow> ''ActivityError'') in take 200 (hd (splitlines t)))"

definition after_create_pr :: "agent_env \<Rightarrow> pyval \<Rightarrow> unit agent" where
  "after_create_pr env v =
     abind (alift (extract_pr_id_from_info v)) (\<lambda>pr_id.
       athen (amodify (\<lambda>s. case pr_id of None \<Rightarrow> s | Some i \<Rightarrow> s\<lparr>as_previous_pr_id := Some i\<rparr>))
         (case nonempty (extract_pr_url (ae_repr env) v) of
            None \<Rightarrow> areturn ()
          | Some url \<Rightarrow> post_jira_comment_best_effort env (DraftPrOpened url)))"

definition apply_single_output_action :: "agent_env \<Rightarrow> AgentRunnerWorkflowInput \<Rightarrow> OutputAction \<Rightarrow> (bool \<times> pystr) agent" where
  "apply_single_output_action env inp a =
     (case dict_get OUTPUT_ACTION_DISPATCH (kind a) of
        None \<Rightarrow> areturn (False, ''no_dispatch_for_kind:'' @ kind a)
      | Some name \<Rightarrow>
          aread (\<lambda>s.
            case action_args env inp (as_last_commit_branch s) (kind a) (dict_of_items (payload a)) of
              None \<Rightarrow> areturn (False, ''bitbucket_create_pr_no_source_branch'')
            | Some args \<Rightarrow>
                abind (acatch (abind (await env (OutputActivity name args)) (\<lambda>v. areturn (Inr v))) (\<lambda>e. areturn (Inl (failure_text e))))
                  (\<lambda>r. case r of
                     Inl why \<Rightarrow> areturn (False, why)
                   | Inr v \<Rightarrow> athen (awhen (kind a = ''bitbucket_create_pr'') (after_create_pr env v)) (areturn (True, [])))))"

definition merge_output_actions_into_log :: "ApplyResult \<Rightarrow> unit agent" where
  "merge_output_actions_into_log r =
     amodify (\<lambda>s. s\<lparr>as_log :=
       \<lparr>successful_critical = successful_critical (as_log s) @ successful_critical r,
        failed_critical = failed_critical (as_log s) @ failed_critical r,
        successful_best_effort = successful_best_effort (as_log s) @ successful_best_effort r,
        failed_best_effort = failed_best_effort (as_log s) @ failed_best_effort r\<rparr>\<rparr>)"

definition critical_failure :: "ApplyResult \<Rightarrow> 'a agent" where
  "critical_failure r =
     athen (amodify (\<lambda>s. s\<lparr>as_failure_reason := Some ''output_action_critical_failed''\<rparr>))
       (athen (merge_output_actions_into_log r) (araise OutputActionCriticalFailure))"

fun apply_critical :: "agent_env \<Rightarrow> AgentRunnerWorkflowInput \<Rightarrow> ApplyResult \<Rightarrow> OutputAction list \<Rightarrow> ApplyResult agent" where
  "apply_critical env inp r [] = areturn r"
| "apply_critical env inp r (a # as) =
     abind (apply_single_output_action env inp a) (\<lambda>(ok, why).
       if ok then apply_critical env inp (r\<lparr>successful_critical := successful_critical r @ [kind a]\<rparr>) as
       else critical_failure (r\<lparr>failed_critical := failed_critical r @ [(kind a, why)]\<rparr>))"

fun apply_best_effort :: "agent_env \<Rightarrow> AgentRunnerWorkflowInput \<Rightarrow> ApplyResult \<Rightarrow> OutputAction list \<Rightarrow> ApplyResult agent" where
  "apply_best_effort env inp r [] = areturn r"
| "apply_best_effort env inp r (a # as) =
     abind (apply_single_output_action env inp a) (\<lambda>(ok, why).
       if ok then apply_best_effort env inp (r\<lparr>successful_best_effort := successful_best_effort r @ [kind a]\<rparr>) as
       else athen (record_partial_failure (kind a))
              (apply_best_effort env inp (r\<lparr>failed_best_effort := failed_best_effort r @ [(kind a, why)]\<rparr>) as))"

definition minio_offload :: "agent_env \<Rightarrow> pystr \<Rightarrow> pystr \<Rightarrow> pystr agent" where
  "minio_offload env key body =
     abind (await env (PutOutputAction key body)) (\<lambda>v.
       case nonempty (as_str v) of
         None \<Rightarrow> araise (BodyError ''minio_put_output_action must return a non-empty string'')
       | Some uri \<Rightarrow> areturn uri)"

definition redirect_oversized_payload :: "agent_env \<Rightarrow> nat \<Rightarrow> OutputAction \<Rightarrow> OutputAction agent" where
  "redirect_oversized_payload env idx a =
     (if ae_workflow_id env = [] then araise (BodyError ''workflow_id must not be empty'')
      else if \<not> oversized (ae_encode env) a then areturn a
      else abind (minio_offload env (minio_key (ae_workflow_id env) idx) (ae_encode env (payload a)))
             (\<lambda>uri. areturn (redirected (ae_encode env) a uri)))"

definition no_results :: ApplyResult where
  "no_results = \<lparr>successful_critical = [], failed_critical = [], successful_best_effort = [], failed_best_effort = []\<rparr>"

definition execute_output_actions :: "agent_env \<Rightarrow> AgentRunnerWorkflowInput \<Rightarrow> OutputAction list \<Rightarrow> unit agent" where
  "execute_output_actions env inp actions =
     abind (afor (enumerate 0 actions) (\<lambda>(i, a). redirect_oversized_payload env i a)) (\<lambda>corrected.
       case partition_actions corrected of
         Inl (UnclassifiedKind k) \<Rightarrow>
           critical_failure (no_results\<lparr>failed_critical := [(''partition'', ''ValueError: '' @ k)]\<rparr>)
       | Inr (critical, best_effort) \<Rightarrow>
           abind (apply_critical env inp no_results critical) (\<lambda>r1.
           abind (apply_best_effort env inp r1 best_effort) merge_output_actions_into_log))"

definition maybe_execute_llm_output_actions :: "agent_env \<Rightarrow> AgentRunnerWorkflowInput \<Rightarrow> unit agent" where
  "maybe_execute_llm_output_actions env inp =
     (if res_output_actions (ar_analysis inp) = [] then areturn ()
      else execute_output_actions env inp (res_output_actions (ar_analysis inp)))"

section \<open>Code changes\<close>

definition token_estimate :: "pystr \<Rightarrow> nat" where
  "token_estimate prompt = max 1 (length prompt div 4)"

definition check_branch_rules :: "agent_env \<Rightarrow> AgentRunnerWorkflowInput \<Rightarrow> unit agent" where
  \<comment> \<open>the pinned rules, whatever the department has configured\<close>
  "check_branch_rules env inp =
     (let branch = blank_if_none (ar_target_branch inp);
          d = route_by_branch_pattern branch (ar_workflow_type inp) DEFAULT_BRANCH_PATTERN_RULES
      in if branch = [] \<or> allowed d then areturn ()
         else athen (amodify (\<lambda>s. s\<lparr>as_out_of_scope := True, as_failure_reason := Some (reason d)\<rparr>))
                (athen (emit_audit_action env (reason d)) (araise OutOfScope)))"

definition generate_code :: "agent_env \<Rightarrow> pystr \<Rightarrow> pyval agent" where
  "generate_code env prompt = critical_llm env (GenerateCode prompt) (token_estimate prompt) ''opencode_generate_code_failed''"

definition generate_files :: "agent_env \<Rightarrow> AgentRunnerWorkflowInput \<Rightarrow> (FileChange list \<times> pyval) agent" where
  \<comment> \<open>a second attempt when the first yields no file\<close>
  "generate_files env inp =
     abind (generate_code env (build_code_generation_prompt inp)) (\<lambda>out.
       let files = extract_commit_files (ae_repr env) out
       in if files \<noteq> [] then areturn (files, out)
          else abind (generate_code env (build_code_generation_retry_prompt inp)) (\<lambda>again.
                 areturn (extract_commit_files (ae_repr env) again, again)))"

definition scan_files :: "agent_env \<Rightarrow> pyval \<Rightarrow> FileChange list \<Rightarrow> unit agent" where
  "scan_files env out files =
     abind (critical_call env (PrecommitScan (extract_code_diff_text (ae_repr env) out files)) ''precommit_scan_failed'') (\<lambda>v.
       if extract_precommit_decision (ae_repr env) v = ''block''
       then fail_with ''precommit_secret_leak_blocked'' (BodyError ''precommit_scanner blocked the commit (secret leak)'')
       else areturn ())"

definition source_branch_of :: "pystr \<Rightarrow> pystr" where
  "source_branch_of b = (if b = [] \<or> b = ''auto'' \<or> starts_with b ''ai/'' then ''develop'' else b)"

definition commit_step :: "agent_env \<Rightarrow> AgentRunnerWorkflowInput \<Rightarrow> pystr \<Rightarrow> FileChange list \<Rightarrow> pyval agent" where
  "commit_step env inp branch files =
     aread (\<lambda>s.
       case format_commit_message (or_str (res_title (ar_analysis inp)) ''AI-generated change'') (ar_issue_key inp)
              (max 1 (iter_count (as_iter s))) (''ai-bot@'' @ ar_department_id inp @ ''.local'') of
         Inl _ \<Rightarrow> fail_with ''bitbucket_commit_failed'' (BodyError ''ValueError'')
       | Inr message \<Rightarrow>
           critical_call env (CommitViaGit (blank_if_none (ar_target_repo inp)) branch
             (source_branch_of (blank_if_none (ar_target_branch inp))) files message) ''bitbucket_commit_failed'')"

definition run_execution_child :: "agent_env \<Rightarrow> AgentRunnerWorkflowInput \<Rightarrow> pystr \<Rightarrow> bool agent" where
  "run_execution_child env inp commit_hash =
     aread (\<lambda>s.
       abind (acatch (abind (await env (RunExecutionChild
                (''execution-'' @ ar_issue_key inp @ ''-iter'' @ show_int (iter_count (as_iter s)))
                (blank_if_none (ga_execution_command (ar_analysis inp))) (ga_needs_docker (ar_analysis inp))))
              (\<lambda>v. areturn (child_status (ae_repr env) v))) (\<lambda>_. areturn (PStr ''failed'')))
         (\<lambda>status.
            athen (amodify (\<lambda>s. s\<lparr>as_iter := state_record_test_result (as_iter s) commit_hash (py_str (ae_repr env) status)\<rparr>))
              (areturn (status = PStr ''passed''))))"

definition supersede_previous :: "agent_env \<Rightarrow> int option \<Rightarrow> unit agent" where
  "supersede_previous env new_id =
     aread (\<lambda>s.
       case (new_id, as_previous_pr_id s) of
         (Some new, Some old) \<Rightarrow>
           acatch (athen (await env (SupersedePr old new)) (areturn ())) (\<lambda>_. record_partial_failure ''iter_advance_pr_supersede'')
       | _ \<Rightarrow> areturn ())"

definition open_pull_request :: "agent_env \<Rightarrow> AgentRunnerWorkflowInput \<Rightarrow> pystr \<Rightarrow> unit agent" where
  "open_pull_request env inp branch =
     abind (critical_call env (CreatePr BITBUCKET_CREATE_PR_CLOUD (blank_if_none (ar_target_repo inp)) branch
              (''[bot] '' @ title_or_key inp) (or_str (res_rationale (ar_analysis inp)) ''AI-generated change.'')) ''bitbucket_open_pr_failed'')
       (\<lambda>info. abind (alift (extract_pr_id_from_info info)) (\<lambda>new_id.
          athen (supersede_previous env new_id)
         (athen (amodify (\<lambda>s. case new_id of None \<Rightarrow> s | Some i \<Rightarrow> s\<lparr>as_previous_pr_id := Some i\<rparr>))
         (athen (post_jira_comment_best_effort env
                   (DraftPrOpened (or_str (blank_if_none (extract_pr_url (ae_repr env) info)) branch)))
           (maybe_execute_llm_output_actions env inp)))))"

definition after_commit :: "agent_env \<Rightarrow> AgentRunnerWorkflowInput \<Rightarrow> bool \<Rightarrow> pystr \<Rightarrow> pystr \<Rightarrow> unit agent" where
  "after_commit env inp with_test branch commit_hash =
     (if with_test then
        abind (run_execution_child env inp commit_hash) (\<lambda>passed.
          if passed then open_pull_request env inp branch
          else athen (post_jira_comment_best_effort env (TestsFailed branch))
                 (amodify (\<lambda>s. s\<lparr>as_failure_reason := Some ''execution_run_failed''\<rparr>)))
      else
        aread (\<lambda>s.
          let (summary, cache) = compute_diff_summary commit_hash (as_diff_summaries s)
                (or_str (res_title (ar_analysis inp)) ''Degisiklik ozeti uretilemedi.'')
          in athen (amodify (\<lambda>s. s\<lparr>as_diff_summaries := cache\<rparr>))
            (athen (post_jira_comment_best_effort env (BranchReady branch summary)) (maybe_execute_llm_output_actions env inp))))"

definition commit_and_follow_up ::
  "agent_env \<Rightarrow> AgentRunnerWorkflowInput \<Rightarrow> bool \<Rightarrow> pystr \<Rightarrow> FileChange list \<Rightarrow> unit agent" where
  "commit_and_follow_up env inp with_test branch files =
     abind (commit_step env inp branch files) (\<lambda>info.
       athen (amodify (\<lambda>s. s\<lparr>as_last_commit_branch := Some branch\<rparr>))
         (after_commit env inp with_test branch (or_str (blank_if_none (extract_commit_hash (ae_repr env) info)) branch)))"

definition generate_and_commit :: "agent_env \<Rightarrow> AgentRunnerWorkflowInput \<Rightarrow> bool \<Rightarrow> pystr \<Rightarrow> unit agent" where
  "generate_and_commit env inp with_test branch =
     abind (generate_files env inp) (\<lambda>(files, out).
       if files = [] then
         athen (amodify (\<lambda>s. s\<lparr>as_failure_reason := Some ''code_generation_no_files''\<rparr>))
           (post_jira_comment_best_effort env NoFilesGenerated)
       else athen (scan_files env out files) (commit_and_follow_up env inp with_test branch files))"

definition handle_code_change_common :: "agent_env \<Rightarrow> AgentRunnerWorkflowInput \<Rightarrow> bool \<Rightarrow> unit agent" where
  "handle_code_change_common env inp with_test =
     athen (set_assignee env)
    (athen (check_branch_rules env inp)
    (aread (\<lambda>s.
       case compute_branch_name (ar_issue_key inp) (iter_count (as_iter s)) [] of
         Inl _ \<Rightarrow> araise (BodyError ''ValueError'')
       | Inr branch \<Rightarrow> generate_and_commit env inp with_test branch)))"

section \<open>Reviews and explanations\<close>

definition maybe_handle_explain :: "agent_env \<Rightarrow> unit agent" where
  "maybe_handle_explain env =
     aread (\<lambda>s.
       case nonempty (as_pending_explain s) of
         None \<Rightarrow> areturn ()
       | Some h \<Rightarrow>
           let text = blank_if_none (as_pending_explain_text s)
           in athen (amodify (\<lambda>s. s\<lparr>as_pending_explain := None, as_pending_explain_text := None\<rparr>))
             (case dict_get (explain_cache (as_iter s)) h of
                Some entry \<Rightarrow> post_jira_comment_best_effort env (Explanation (answer entry))
              | None \<Rightarrow>
                  abind (acatch (abind (execute_llm_activity env (ExplainCode h text) (token_estimate text)) (\<lambda>v. areturn (Some v)))
                           (\<lambda>e. case e of TokenCapExceeded n \<Rightarrow> araise e
                                | _ \<Rightarrow> athen (record_partial_failure ''explain_llm'') (areturn None)))
                    (\<lambda>r. case r of
                       None \<Rightarrow> areturn ()
                     | Some v \<Rightarrow>
                         let ans = extract_explain_answer (ae_repr env) v
                         in athen (amodify (\<lambda>s. s\<lparr>as_iter := state_record_explain_answer (as_iter s) h ans (ae_clock env (as_calls s))\<rparr>))
                              (post_jira_comment_best_effort env (Explanation ans)))))"

definition post_finding :: "agent_env \<Rightarrow> int \<Rightarrow> pyval pydict \<Rightarrow> unit agent" where
  "post_finding env pr_id f =
     (let body = or_value (get_or_none f ''body'') (get_or_none f ''message'')
      in abind (acatch (athen (await env (AddPrComment pr_id (if truthy body then Some body else None))) (areturn True))
                  (\<lambda>_. athen (record_partial_failure ''bitbucket_add_pr_comment'') (areturn False)))
           (\<lambda>ok. awhen (ok \<and> truthy (get_or_none f ''hash''))
              (amodify (\<lambda>s. s\<lparr>as_previous_findings := as_previous_findings s @ [get_or_none f ''hash'']\<rparr>))))"

definition new_findings :: "pyval list \<Rightarrow> pyval pydict list \<Rightarrow> pystr + pyval pydict list" where
  \<comment> \<open>\<open>dedup_findings\<close>; the look-up of an unhashable value in the set raises\<close>
  "new_findings previous findings =
     (if list_ex (\<lambda>f. truthy (get_or_none f ''hash'') \<and> unhashable (get_or_none f ''hash'')) findings then Inl ''TypeError''
      else Inr (dedup_findings previous findings))"

definition handle_pr_review :: "agent_env \<Rightarrow> AgentRunnerWorkflowInput \<Rightarrow> unit agent" where
  "handle_pr_review env inp =
     (let pr_id = extract_pr_id inp
      in abind (critical_call env (FetchPrDiff (blank_if_none (ar_target_repo inp)) pr_id) ''bitbucket_fetch_pr_diff_failed'') (\<lambda>diff.
         abind (critical_llm env (ReviewCode diff) (token_estimate (extract_diff_text (ae_repr env) diff)) ''llm_review_code_failed'') (\<lambda>review.
         aread (\<lambda>s.
         abind (alift (new_findings (as_previous_findings s) (extract_findings review))) (\<lambda>fs.
         athen (afor fs (post_finding env pr_id)) (maybe_handle_explain env))))))"

section \<open>Confluence\<close>

definition resolve_jira_issue_link :: "agent_env \<Rightarrow> pystr option agent" where
  "resolve_jira_issue_link env =
     acatch (abind (await env BuildIssueLink) (\<lambda>v. areturn (resolved_link v))) (\<lambda>_. areturn None)"

definition topic_of :: "AgentRunnerWorkflowInput \<Rightarrow> pystr" where
  "topic_of inp = or_str (strip (title_or_key inp)) (ar_issue_key inp)"

definition target_lang :: "AgentRunnerWorkflowInput \<Rightarrow> pystr" where
  "target_lang inp = (if ar_default_language inp \<in> set [''tr'', ''en''] then ar_default_language inp else ''tr'')"

definition page_title :: "agent_env \<Rightarrow> AgentRunnerWorkflowInput \<Rightarrow> pystr agent" where
  "page_title env inp =
     aread (\<lambda>s. case format_page_title (topic_of inp) (target_lang inp) (ae_clock env (as_calls s)) of
                  Inl _ \<Rightarrow> fail_with ''confluence_title_invalid'' (BodyError ''ValueError'')
                | Inr t \<Rightarrow> areturn t)"

definition create_page :: "agent_env \<Rightarrow> AgentRunnerWorkflowInput \<Rightarrow> pystr \<Rightarrow> page_body \<Rightarrow> source_line list \<Rightarrow> pystr agent" where
  \<comment> \<open>creates the page, remembers its id and yields the text that links to it\<close>
  "create_page env inp title body sources =
     abind (critical_call env (CreatePage (blank_if_none (res_target_space (ar_analysis inp))) title body sources)
              ''confluence_create_page_failed'') (\<lambda>info.
       athen (amodify (\<lambda>s. case nonempty (extract_confluence_page_id (ae_repr env) info) of
                            None \<Rightarrow> s | Some i \<Rightarrow> s\<lparr>as_page_id := Some i\<rparr>))
         (areturn (or_str (blank_if_none (extract_confluence_page_url info)) title)))"

definition handle_confluence_doc_create :: "agent_env \<Rightarrow> AgentRunnerWorkflowInput \<Rightarrow> unit agent" where
  "handle_confluence_doc_create env inp =
     (let rationale = res_rationale (ar_analysis inp); topic = topic_of inp
      in athen (set_assignee env)
        (abind (resolve_jira_issue_link env) (\<lambda>link.
         abind (page_title env inp) (\<lambda>title.
         abind (critical_llm env (GenerateDoc topic (target_lang inp) rationale)
                  (max 1 (length rationale div 4 + length topic div 4)) ''llm_generate_doc_failed'') (\<lambda>response.
         abind (create_page env inp title (with_footer (extract_doc_body (ae_repr env) response) link) []) (\<lambda>shown.
         athen (post_jira_comment_best_effort env (PageCreated shown)) (maybe_execute_llm_output_actions env inp)))))))"

definition hash_section :: "agent_env \<Rightarrow> page_section \<Rightarrow> pystr" where
  "hash_section env sec = (if ps_hash sec = [] then ae_sha256 env (ps_path sec @ [CHR 0x00] @ ps_content sec) else ps_hash sec)"

definition update_section :: "agent_env \<Rightarrow> pystr \<Rightarrow> pystr option \<Rightarrow> page_section \<Rightarrow> (bool \<times> bool) agent" where
  \<comment> \<open>whether the section was updated, and whether it was skipped\<close>
  "update_section env page_id link sec =
     (let h = hash_section env sec; wid = ae_workflow_id env
      in aread (\<lambda>s.
           case should_skip_section_update wid page_id (ps_path sec) h
                  (map (\<lambda>h'. (wid, page_id, ps_path sec, h')) (as_section_hashes s)) of
             Inl _ \<Rightarrow> araise (BodyError ''ValueError'')
           | Inr d \<Rightarrow>
               if skip d then
                 athen (emit_audit_action env (or_str (blank_if_none (audit_event d)) AUDIT_CONFLUENCE_SECTION_DEDUP_SKIP)) (areturn (False, True))
               else
                 acatch
                   (athen (await env (UpdatePage page_id (ps_path sec) (with_footer (ps_content sec) link)))
                     (athen (amodify (\<lambda>s. s\<lparr>as_section_hashes := as_section_hashes s @ [h]\<rparr>)) (areturn (True, False))))
                   (\<lambda>_. athen (record_partial_failure (''confluence_update_page:'' @ ps_path sec)) (areturn (False, False)))))"

definition update_sections :: "agent_env \<Rightarrow> AgentRunnerWorkflowInput \<Rightarrow> pystr \<Rightarrow> page_section list \<Rightarrow> unit agent" where
  "update_sections env inp page_id secs =
     abind (resolve_jira_issue_link env) (\<lambda>link.
     abind (afor secs (update_section env page_id link)) (\<lambda>rs.
       let paths = \<lambda>pick. map (ps_path \<circ> fst) (filter (pick \<circ> snd) (zip secs rs))
       in athen (post_jira_comment_best_effort env (UpdateSummary (paths fst) (paths snd)))
            (maybe_execute_llm_output_actions env inp)))"

definition handle_confluence_doc_update :: "agent_env \<Rightarrow> AgentRunnerWorkflowInput \<Rightarrow> unit agent" where
  \<comment> \<open>the accounts of the bots are the empty set\<close>
  "handle_confluence_doc_update env inp =
     (let page_id = blank_if_none (res_target_page_id (ar_analysis inp))
      in athen (set_assignee env)
        (if page_id = [] then fail_with ''confluence_page_id_missing'' (BodyError ''confluence_doc_update requires analysis.target_page_id'')
         else abind (critical_call env (GetPage page_id) ''confluence_get_page_failed'') (\<lambda>meta.
           let editor = extract_confluence_field meta ''last_editor_account_id'' PNone;
               edited = extract_confluence_datetime (ae_parse_time env) meta ''last_edit_at''
           in if is_probe_page (extract_confluence_field meta ''title'' (PStr [])) then
                athen (emit_audit_action env ''confluence_probe_page_skipped'') (post_jira_comment_best_effort env ProbePageSkipped)
              else if edited \<noteq> None \<and> unhashable editor then araise (BodyError ''TypeError'')
              else aread (\<lambda>s.
                let d = should_skip_overwrite editor edited (ae_clock env (as_calls s)) [] DEFAULT_OVERWRITE_FRESHNESS
                in if skip d then
                     athen (emit_audit_action env (or_str (blank_if_none (audit_event d)) AUDIT_CONFLUENCE_OVERWRITE_PROTECTED))
                       (post_jira_comment_best_effort env OverwriteSkipped)
                   else
                     case extract_confluence_sections (ae_repr env) meta inp of
                       [] \<Rightarrow> post_jira_comment_best_effort env NoSections
                     | sec # secs \<Rightarrow> update_sections env inp page_id (sec # secs)))))"

section \<open>Research\<close>

definition firecrawl_scrape_with_grace :: "agent_env \<Rightarrow> pystr \<Rightarrow> (pystr \<times> research_source) option agent" where
  "firecrawl_scrape_with_grace env url =
     abind (acatch (abind (await env (FirecrawlScrape url)) (\<lambda>v. areturn (Some v)))
              (\<lambda>_. athen (record_partial_failure (''firecrawl_scrape:'' @ url)) (areturn None)))
       (\<lambda>r. case r of
          None \<Rightarrow> areturn None
        | Some v \<Rightarrow>
            let k = extract_firecrawl_kind (ae_repr env) v
            in if k = ''egress_blocked'' then
                 athen (post_jira_comment_best_effort env (DomainBlocked url))
                   (athen (record_partial_failure (''firecrawl_blocked:'' @ url)) (areturn None))
               else if k \<noteq> ''success'' then areturn None
               else aread (\<lambda>s. areturn (Some (extract_firecrawl_content v,
                      \<lparr>rs_title = or_str (extract_firecrawl_title v) url, rs_url = url,
                       rs_accessed = extract_firecrawl_accessed_at v (ae_clock env (as_calls s))\<rparr>))))"

definition gather_sources :: "agent_env \<Rightarrow> AgentRunnerWorkflowInput \<Rightarrow> (pystr \<times> research_source list) agent" where
  \<comment> \<open>the search and its pages: their contents joined, and the sources\<close>
  "gather_sources env inp =
     abind (critical_call env (FirecrawlSearch (extract_research_query inp)) ''firecrawl_search_failed'') (\<lambda>result.
     abind (afor (extract_firecrawl_urls (ae_repr env) result) (firecrawl_scrape_with_grace env)) (\<lambda>rs.
       areturn (strip (join_with [newline, newline] (map fst (List.map_filter id rs))), map snd (List.map_filter id rs))))"

definition no_sources_found :: "agent_env \<Rightarrow> unit agent" where
  "no_sources_found env =
     athen (record_partial_failure ''research_no_sources'') (post_jira_comment_best_effort env NoResearchSources)"

definition handle_research_publish_confluence :: "agent_env \<Rightarrow> AgentRunnerWorkflowInput \<Rightarrow> unit agent" where
  "handle_research_publish_confluence env inp =
     athen (set_assignee env)
    (abind (resolve_jira_issue_link env) (\<lambda>link.
     abind (gather_sources env inp) (\<lambda>(content, sources).
       if sources = [] then no_sources_found env
       else
         let (text, lines) = format_research_publish_confluence_body content sources
         in abind (page_title env inp) (\<lambda>title.
            abind (create_page env inp title (with_footer text link) lines) (\<lambda>shown.
            athen (post_jira_comment_best_effort env (ResearchPublished shown)) (maybe_execute_llm_output_actions env inp))))))"

definition store_summary :: "agent_env \<Rightarrow> pystr \<Rightarrow> research_source list \<Rightarrow> pystr agent" where
  "store_summary env text sources =
     acatch (abind (await env (PutResearchSummary text sources)) (\<lambda>v. areturn (blank_if_none (as_str v))))
       (\<lambda>_. athen (record_partial_failure ''research_minio_offload'') (areturn []))"

definition handle_research_summary_jira :: "agent_env \<Rightarrow> AgentRunnerWorkflowInput \<Rightarrow> unit agent" where
  "handle_research_summary_jira env inp =
     athen (set_assignee env)
    (abind (gather_sources env inp) (\<lambda>(text, sources).
       if sources = [] then no_sources_found env
       else
         let (comment, stored) = format_research_summary_jira_comment text sources 500 5
         in abind (if stored then store_summary env text sources else areturn []) (\<lambda>uri.
            athen (critical_call env (AgentComment (ResearchSummary comment uri)) ''jira_comment_failed'')
              (maybe_execute_llm_output_actions env inp))))"

section \<open>Epics\<close>

definition subtask_child_input :: "AgentRunnerWorkflowInput \<Rightarrow> pystr \<Rightarrow> AutomationWorkflowInput" where
  "subtask_child_input inp key =
     \<lparr>aw_issue_key = key, aw_department_id = ar_department_id inp, aw_available_capabilities = ar_available_capabilities inp,
      aw_available_repos = ar_available_repos inp, aw_available_spaces = ar_available_spaces inp,
      aw_default_language = ar_default_language inp, aw_trigger_event = ''jira:issue_assigned'', aw_iteration = 1,
      aw_raw_event = None, aw_trace_id = ar_trace_id inp, aw_notify_on_success = False, aw_notify_channels = [],
      aw_slack_webhook = None, aw_notify_email = None\<rparr>"

definition subtask_workflow_id :: "agent_env \<Rightarrow> AgentRunnerWorkflowInput \<Rightarrow> pystr \<Rightarrow> nat \<Rightarrow> pystr" where
  "subtask_workflow_id env inp key index =
     ''multi-step-'' @ ar_issue_key inp @ ''-'' @ key @ ''-'' @ show_nat index @ ''-'' @ take 8 (ae_run_id env)"

definition STOPPING_DECISIONS :: "pystr list" where "STOPPING_DECISIONS = [''denied'', ''failed'', ''out_of_scope'']"

definition stop_epic :: "agent_env \<Rightarrow> pystr \<Rightarrow> agent_comment \<Rightarrow> 'a agent" where
  "stop_epic env key c =
     athen (amodify (\<lambda>s. s\<lparr>as_failure_reason := Some ''epic_subtask_failed''\<rparr>))
       (athen (post_jira_comment_best_effort env c) (araise (EpicSubtaskFailed key)))"

fun run_subtasks :: "agent_env \<Rightarrow> AgentRunnerWorkflowInput \<Rightarrow> nat \<Rightarrow> nat \<Rightarrow> pystr list \<Rightarrow> unit agent" where
  \<comment> \<open>the number of subtasks and of those completed, which is also the index of the next one\<close>
  "run_subtasks env inp cnt n [] = areturn ()"
| "run_subtasks env inp cnt n (key # keys) =
     abind (acatch (abind (await env (RunGatewayChild (subtask_workflow_id env inp key n) (subtask_child_input inp key)))
                     (\<lambda>v. areturn (extract_child_decision (ae_repr env) v)))
              (\<lambda>_. stop_epic env key (SubtaskFailed key n cnt (cnt - (n + 1)))))
       (\<lambda>decision.
          if decision \<in> set STOPPING_DECISIONS then stop_epic env key (SubtaskRejected key decision n cnt (cnt - (n + 1)))
          else athen (post_jira_comment_best_effort env (SubtaskDone (n + 1) cnt key)) (run_subtasks env inp cnt (n + 1) keys))"

definition handle_multi_step :: "agent_env \<Rightarrow> AgentRunnerWorkflowInput \<Rightarrow> unit agent" where
  "handle_multi_step env inp =
     athen (set_assignee env)
    (abind (critical_call env ListEpicChildren ''epic_children_lookup_failed'') (\<lambda>children.
       let keys = normalise_epic_children (ae_repr env) children
       in if keys = [] then
            athen (amodify (\<lambda>s. s\<lparr>as_failure_reason := Some ''epic_no_subtasks''\<rparr>)) (post_jira_comment_best_effort env EpicEmpty)
          else athen (run_subtasks env inp (length keys) 0 keys)
              (athen (post_jira_comment_best_effort env (EpicDone (length keys) (length keys)))
                 (maybe_execute_llm_output_actions env inp))))"

section \<open>The run\<close>

definition wait_for_signal :: "agent_env \<Rightarrow> unit agent" where
  \<comment> \<open>the types without a handler of their own\<close>
  "wait_for_signal env =
     athen (maybe_post_iter_warning_banner env)
    (athen (drain_pending_audits env)
    (aread (\<lambda>s0.
       abind (if stopped_agent s0 \<or> as_signal_pending s0 then areturn True
              else athen (acatch (athen (await env WaitForSignal) (areturn ())) (\<lambda>_. areturn ()))
                     (aread (\<lambda>s. areturn (stopped_agent s \<or> as_signal_pending s))))
         (\<lambda>woken.
            if \<not> woken then amodify (\<lambda>s. s\<lparr>as_out_of_scope := True, as_failure_reason := Some ''signal_wait_timeout''\<rparr>)
            else athen (amodify (\<lambda>s. s\<lparr>as_signal_pending := False\<rparr>))
                (athen (maybe_post_iter_warning_banner env)
                (athen (drain_pending_audits env)
                (aread (\<lambda>s. if as_cancel_requested s then araise CancelledViaSignal
                             else if as_out_of_scope s then araise OutOfScope else areturn ()))))))))"

definition dispatch_workflow_type :: "agent_env \<Rightarrow> AgentRunnerWorkflowInput \<Rightarrow> unit agent" where
  "dispatch_workflow_type env inp =
     (let t = ar_workflow_type inp
      in if t = ''code_change_with_test'' then handle_code_change_common env inp True
         else if t = ''code_change_commit_only'' then handle_code_change_common env inp False
         else if t = ''pr_review'' then handle_pr_review env inp
         else if t = ''confluence_doc_create'' then handle_confluence_doc_create env inp
         else if t = ''confluence_doc_update'' then handle_confluence_doc_update env inp
         else if t = ''research_publish_confluence'' then handle_research_publish_confluence env inp
         else if t = ''research_summary_jira'' then handle_research_summary_jira env inp
         else if t = ''multi_step'' then handle_multi_step env inp
         else wait_for_signal env)"

datatype agent_summary =
    MaxIterSummary
  | CancelledSummary
  | EpicStoppedSummary
  | TokenCapSummary nat
  | BodyErrorSummary agent_exn
  | FinalComment "pystr list" "(pystr \<times> pystr) list"
  | PartialSummary "pystr list"
  | CriticalFailedSummary
  | DoneSummary

record AgentRunnerWorkflowOutput =
  ro_status :: pystr
  ro_iter_count :: int
  ro_summary :: agent_summary
  ro_partial :: "pystr list"
  ro_failure_reason :: "pystr option"
  ro_page_id :: "pystr option"

definition build_output :: "pystr \<Rightarrow> agent_summary \<Rightarrow> agent_state \<Rightarrow> AgentRunnerWorkflowOutput \<times> agent_state" where
  "build_output status summary s =
     (\<lparr>ro_status = status, ro_iter_count = iter_count (as_iter s), ro_summary = summary, ro_partial = as_partial s,
       ro_failure_reason = as_failure_reason s, ro_page_id = as_page_id s\<rparr>, s)"

definition final_summary :: "pystr list \<Rightarrow> (pystr \<times> pystr) list \<Rightarrow> agent_summary option" where
  \<comment> \<open>\<open>None\<close> is the empty comment\<close>
  "final_summary steps failed =
     (case final_comment_parts steps failed of (xs, ys) \<Rightarrow> if xs = [] \<and> ys = [] then None else Some (FinalComment xs ys))"

definition run_compensation :: "agent_env \<Rightarrow> pystr \<Rightarrow> pystr \<Rightarrow> pystr \<Rightarrow> agent_state \<Rightarrow> agent_state" where
  \<comment> \<open>no cancellation is accepted from here on; a failing chain is ignored\<close>
  "run_compensation env actor role why s = snd (await env (CompensationRun actor role why) (s\<lparr>as_compensation_running := True\<rparr>))"

definition handle_cancel :: "agent_env \<Rightarrow> agent_state \<Rightarrow> AgentRunnerWorkflowOutput \<times> agent_state" where
  "handle_cancel env s =
     (let s1 = run_compensation env (as_cancel_actor_id s) (as_cancel_actor_role s) (as_cancel_reason s) s;
          s2 = snd (emit_audit_action env (audit_action_for_cancel_role (as_cancel_actor_role s1)) s1)
      in build_output ''cancelled'' CancelledSummary s2)"

definition handle_output_action_critical :: "agent_env \<Rightarrow> agent_state \<Rightarrow> AgentRunnerWorkflowOutput \<times> agent_state" where
  "handle_output_action_critical env s =
     (let s1 = run_compensation env [] ''system'' ''output_action_critical_failed'' s
      in build_output ''failed''
           (case final_summary (successful_critical (as_log s1)) (failed_critical (as_log s1) @ failed_best_effort (as_log s1)) of
              None \<Rightarrow> CriticalFailedSummary | Some c \<Rightarrow> c) s1)"

definition finish_completed :: "agent_state \<Rightarrow> AgentRunnerWorkflowOutput \<times> agent_state" where
  "finish_completed s =
     (let final = final_summary (successful_critical (as_log s)) (failed_best_effort (as_log s))
      in if as_partial s \<noteq> [] \<or> failed_best_effort (as_log s) \<noteq> []
         then build_output ''completed_with_partial_failure'' (case final of None \<Rightarrow> PartialSummary (as_partial s) | Some c \<Rightarrow> c) s
         else build_output ''completed'' (case final of None \<Rightarrow> DoneSummary | Some c \<Rightarrow> c) s)"

definition conclude :: "agent_env \<Rightarrow> (agent_exn + unit) \<times> agent_state \<Rightarrow> AgentRunnerWorkflowOutput \<times> agent_state" where
  \<comment> \<open>the exceptions of the dispatch, then its normal end\<close>
  "conclude env r =
     (case r of
        (Inl e, s) \<Rightarrow>
          (case e of
             CancelledViaSignal \<Rightarrow> handle_cancel env s
           | EpicSubtaskFailed k \<Rightarrow> build_output ''failed'' EpicStoppedSummary s
           | OutOfScope \<Rightarrow> build_output ''out_of_scope'' MaxIterSummary s
           | OutputActionCriticalFailure \<Rightarrow>
               handle_output_action_critical env
                 (s\<lparr>as_failure_reason := Some ''output_action_critical_failed'', as_cancel_reason := ''user_cancel''\<rparr>)
           | TokenCapExceeded n \<Rightarrow> build_output ''failed'' (TokenCapSummary n) (s\<lparr>as_failure_reason := Some ''token_cap_exceeded''\<rparr>)
           | BodyError m \<Rightarrow>
               build_output ''failed'' (BodyErrorSummary e)
                 (s\<lparr>as_failure_reason := Some (or_text (as_failure_reason s) ''agent_runner_body_error'')\<rparr>))
      | (Inr _, s) \<Rightarrow>
          if as_cancel_requested s then handle_cancel env s
          else if as_out_of_scope s then build_output ''out_of_scope'' MaxIterSummary s
          else finish_completed s)"

definition effective_max_iter :: "AgentRunnerWorkflowInput \<Rightarrow> int" where
  "effective_max_iter inp = (if 0 < ar_max_iter inp then min (ar_max_iter inp) Agent_State.MAX_ITER else Agent_State.MAX_ITER)"

definition run_agent :: "agent_env \<Rightarrow> AgentRunnerWorkflowInput \<Rightarrow> agent_state \<Rightarrow> AgentRunnerWorkflowOutput \<times> agent_state" where
  "run_agent env inp s =
     (let s1 = s\<lparr>as_iter := (as_iter s)\<lparr>iter_count := max 0 (ar_iteration inp - 1)\<rparr>\<rparr>
      in case iter_refusal (as_iter s1) (effective_max_iter inp) of
           Some why \<Rightarrow> build_output ''out_of_scope'' MaxIterSummary (s1\<lparr>as_out_of_scope := True, as_failure_reason := Some why\<rparr>)
         | None \<Rightarrow> conclude env (dispatch_workflow_type env inp (advance_iter_with_banner_check s1)))"

definition start_agent :: "agent_env \<Rightarrow> agent_state" where
  \<comment> \<open>signals that arrive with the start are handled before the run\<close>
  "start_agent env = foldl (handle_signal env) initial_agent (ae_signals env [])"

definition agent_output :: "agent_env \<Rightarrow> AgentRunnerWorkflowInput \<Rightarrow> AgentRunnerWorkflowOutput" where
  "agent_output env inp = fst (run_agent env inp (start_agent env))"

definition agent_trace :: "agent_env \<Rightarrow> AgentRunnerWorkflowInput \<Rightarrow> agent_call list" where
  "agent_trace env inp = as_calls (snd (run_agent env inp (start_agent env)))"

end
