(* ===== verification/Agent_Logic.thy ===== *)
theory Agent_Logic
  imports Agent_Runner
begin

text \<open>
  Reasoning about the steps of the agent runner. A relation between the states before and after a step that ignores
  everything but the calls made, the iteration and the cancellation is kept by the handlers that only make awaits that
  keep it. The interfaces are locales: \<open>state_preorder\<close> and \<open>step_relation\<close> for the ways to compose steps, \<open>auxiliary_relation\<close> for the steps that report and for output actions,
  \<open>run_relation\<close> for every handler but the commit and what follows it, \<open>coding_relation\<close> for the latter, and \<open>full_relation\<close> for the whole dispatch. Their instances say
  which calls are added, how iterations grow and what a cancellation leaves.
\<close>

section \<open>Relations kept by steps\<close>

named_theorems agent_rules \<open>introduction rules for relations kept by steps of the agent runner\<close>

definition kept :: "(agent_state \<Rightarrow> agent_state \<Rightarrow> bool) \<Rightarrow> 'a agent \<Rightarrow> bool" where
  "kept R m \<longleftrightarrow> (\<forall>s. R s (snd (m s)))"

fun special :: "agent_call \<Rightarrow> bool" where
  "special (CommitViaGit r b src fs msg) = True"
| "special (CompensationRun a role why) = True"
| "special _ = False"

fun auxiliary :: "agent_call \<Rightarrow> bool" where
  \<comment> \<open>the calls that only report, and those of the output actions\<close>
  "auxiliary (AgentComment c) = True"
| "auxiliary (AuditEmit a i) = True"
| "auxiliary SetAssignee = True"
| "auxiliary BuildIssueLink = True"
| "auxiliary (PutOutputAction k b) = True"
| "auxiliary (OutputActivity n as) = True"
| "auxiliary _ = False"

definition llm_size :: "agent_env \<Rightarrow> agent_call \<Rightarrow> nat option" where
  \<comment> \<open>the estimate of the tokens a call sends to an LLM\<close>
  "llm_size env c =
     (case c of
        GenerateCode p \<Rightarrow> Some (token_estimate p)
      | ReviewCode d \<Rightarrow> Some (token_estimate (extract_diff_text (ae_repr env) d))
      | ExplainCode h t \<Rightarrow> Some (token_estimate t)
      | GenerateDoc topic lang context \<Rightarrow> Some (max 1 (length context div 4 + length topic div 4))
      | _ \<Rightarrow> None)"

definition permitted :: "agent_env \<Rightarrow> agent_call \<Rightarrow> bool" where
  "permitted env c \<longleftrightarrow> \<not> special c \<and> (case llm_size env c of None \<Rightarrow> True | Some n \<Rightarrow> n \<le> MAX_ACTIVITY_TOKEN_CAP)"

fun is_create_pr :: "agent_call \<Rightarrow> bool" where
  "is_create_pr (CreatePr tool repo b title descr) = True"
| "is_create_pr _ = False"

definition routine :: "agent_env \<Rightarrow> agent_call \<Rightarrow> bool" where
  "routine env c \<longleftrightarrow> permitted env c \<and> \<not> is_create_pr c"

lemmas call_simps = routine_def permitted_def llm_size_def

lemma llm_no_pr: "llm_size env c = Some n \<Longrightarrow> \<not> is_create_pr c"
  by (cases c) (simp_all add: llm_size_def)

definition core ::
  "agent_state \<Rightarrow> agent_call list \<times> int \<times> bool \<times> pystr \<times> pystr \<times> pystr \<times> bool" where
  "core s = (as_calls s, iter_count (as_iter s), as_cancel_requested s, as_cancel_actor_id s, as_cancel_actor_role s,
             as_cancel_reason s, as_compensation_running s)"

lemmas core_simps = core_def state_record_test_result_def state_record_explain_answer_def

lemma kept_snd: "kept R m \<Longrightarrow> R s (snd (m s))"
  by (simp add: kept_def)

lemma kept_if [agent_rules]: "kept R m \<Longrightarrow> kept R n \<Longrightarrow> kept R (if b then m else n)"
  by simp

lemma kept_case_option [agent_rules]:
  "kept R f \<Longrightarrow> (\<And>x. kept R (g x)) \<Longrightarrow> kept R (case v of None \<Rightarrow> f | Some x \<Rightarrow> g x)"
  by (cases v) simp_all

lemma kept_case_prod [agent_rules]: "(\<And>x y. kept R (f x y)) \<Longrightarrow> kept R (case p of (x, y) \<Rightarrow> f x y)"
  by (cases p) simp

lemma kept_case_sum [agent_rules]:
  "(\<And>x. kept R (f x)) \<Longrightarrow> (\<And>x. kept R (g x)) \<Longrightarrow> kept R (case v of Inl x \<Rightarrow> f x | Inr x \<Rightarrow> g x)"
  by (cases v) simp_all

lemma kept_case_list [agent_rules]:
  "kept R f \<Longrightarrow> (\<And>x xs. kept R (g x xs)) \<Longrightarrow> kept R (case v of [] \<Rightarrow> f | x # xs \<Rightarrow> g x xs)"
  by (cases v) simp_all

lemma kept_case_exn [agent_rules]:
  "(\<And>n. kept R (h n)) \<Longrightarrow> kept R f \<Longrightarrow> kept R (case e of TokenCapExceeded n \<Rightarrow> h n | _ \<Rightarrow> f)"
  by (cases e) simp_all

lemma kept_case_error [agent_rules]:
  "(\<And>k. kept R (f k)) \<Longrightarrow> kept R (case e of UnclassifiedKind k \<Rightarrow> f k)"
  by (cases e) simp

lemma kept_aread [agent_rules]: "(\<And>s. kept R (f s)) \<Longrightarrow> kept R (aread f)"
  by (simp add: kept_def aread_def)

definition CODE_TYPES :: "pystr list" where
  "CODE_TYPES = [''code_change_with_test'', ''code_change_commit_only'']"

locale state_preorder =
  fixes R :: "agent_state \<Rightarrow> agent_state \<Rightarrow> bool"
  assumes refl: "R s s"
    and trans: "R s t \<Longrightarrow> R t u \<Longrightarrow> R s u"
begin

lemma return [agent_rules]: "kept R (areturn a)"
  by (simp add: kept_def areturn_def refl)

lemma raise [agent_rules]: "kept R (araise e)"
  by (simp add: kept_def araise_def refl)

lemma change: "(\<And>s. R s (f s)) \<Longrightarrow> kept R (amodify f)"
  by (simp add: kept_def amodify_def)

lemma bind [agent_rules]: "kept R m \<Longrightarrow> (\<And>a. kept R (k a)) \<Longrightarrow> kept R (abind m k)"
proof -
  assume m: "kept R m" and k: "\<And>a. kept R (k a)"
  have "R s (snd (abind m k s))" for s
    using kept_snd [OF m, of s] kept_snd [OF k] trans
    by (cases "m s"; cases "fst (m s)") (auto simp: abind_def)
  then show ?thesis by (simp add: kept_def)
qed

lemma and_then [agent_rules]: "kept R m \<Longrightarrow> kept R n \<Longrightarrow> kept R (athen m n)"
  by (simp add: athen_def bind)

lemma catch [agent_rules]: "kept R m \<Longrightarrow> (\<And>e. kept R (h e)) \<Longrightarrow> kept R (acatch m h)"
proof -
  assume m: "kept R m" and h: "\<And>e. kept R (h e)"
  have "R s (snd (acatch m h s))" for s
    using kept_snd [OF m, of s] kept_snd [OF h] trans
    by (cases "m s"; cases "fst (m s)") (auto simp: acatch_def)
  then show ?thesis by (simp add: kept_def)
qed

lemma guard [agent_rules]: "kept R m \<Longrightarrow> kept R (awhen b m)"
  by (simp add: awhen_def return)

lemma lift [agent_rules]: "kept R (alift x)"
  by (cases x) (simp_all add: alift_def return raise)

lemma loop [agent_rules]: "(\<And>x. kept R (f x)) \<Longrightarrow> kept R (afor xs f)"
  by (induction xs) (auto intro!: agent_rules)

lemma audit_entry: "(\<And>n. kept R (await env (AuditEmit a n))) \<Longrightarrow> kept R (emit_audit_action env a)"
  unfolding emit_audit_action_def by (rule agent_rules | assumption)+

end

locale step_relation = state_preorder +
  assumes same_core: "core s = core t \<Longrightarrow> R s t"
begin

lemma modify [agent_rules]: "(\<And>s. core s = core (f s)) \<Longrightarrow> kept R (amodify f)"
  by (rule change) (rule same_core)

lemma failing [agent_rules]: "kept R (fail_with why e)"
  unfolding fail_with_def by (rule agent_rules | simp add: core_simps)+

lemma partial [agent_rules]: "kept R (record_partial_failure k)"
  unfolding record_partial_failure_def by (rule agent_rules | simp add: core_simps)+

lemma banner_step:
  "kept R (await env (AgentComment IterWarningBanner)) \<Longrightarrow> (\<And>a n. kept R (await env (AuditEmit a n))) \<Longrightarrow>
   kept R (maybe_post_iter_warning_banner env)"
  unfolding maybe_post_iter_warning_banner_def by (rule agent_rules audit_entry | assumption | simp add: core_simps)+

lemma drain_step: "(\<And>a n. kept R (await env (AuditEmit a n))) \<Longrightarrow> kept R (drain_pending_audits env)"
  unfolding drain_pending_audits_def by (rule agent_rules audit_entry | assumption | simp add: core_simps)+

end

locale auxiliary_relation = step_relation +
  fixes env :: agent_env
  assumes auxiliary: "auxiliary c \<Longrightarrow> kept R (await env c)"
begin

lemma audit [agent_rules]: "kept R (emit_audit_action env a)"
  by (rule audit_entry) (simp add: auxiliary)

lemma comment [agent_rules]: "kept R (post_jira_comment_best_effort env c)"
  unfolding post_jira_comment_best_effort_def by (rule agent_rules auxiliary | simp)+

lemma assignee [agent_rules]: "kept R (set_assignee env)"
  unfolding set_assignee_def critical_call_def by (rule agent_rules auxiliary | simp)+

lemma banner [agent_rules]: "kept R (maybe_post_iter_warning_banner env)"
  by (rule banner_step) (simp_all add: auxiliary)

lemma drain [agent_rules]: "kept R (drain_pending_audits env)"
  by (rule drain_step) (simp add: auxiliary)

lemma create_pr_done [agent_rules]: "kept R (after_create_pr env v)"
  unfolding after_create_pr_def by (rule agent_rules | simp add: core_simps split: option.splits)+

lemma single_action [agent_rules]: "kept R (apply_single_output_action env inp a)"
  unfolding apply_single_output_action_def by (rule agent_rules auxiliary | simp)+

lemma merge_log [agent_rules]: "kept R (merge_output_actions_into_log r)"
  unfolding merge_output_actions_into_log_def by (rule agent_rules | simp add: core_simps)+

lemma critical_raise [agent_rules]: "kept R (critical_failure r)"
  unfolding critical_failure_def by (rule agent_rules | simp add: core_simps)+

lemma critical_actions [agent_rules]: "kept R (apply_critical env inp r as)"
  by (induction as arbitrary: r) (auto intro!: agent_rules simp: case_prod_beta)

lemma best_effort_actions [agent_rules]: "kept R (apply_best_effort env inp r as)"
  by (induction as arbitrary: r) (auto intro!: agent_rules simp: case_prod_beta)

lemma redirect [agent_rules]: "kept R (redirect_oversized_payload env i a)"
  unfolding redirect_oversized_payload_def minio_offload_def by (rule agent_rules auxiliary | simp)+

lemma output_actions [agent_rules]: "kept R (maybe_execute_llm_output_actions env inp)"
  unfolding maybe_execute_llm_output_actions_def execute_output_actions_def by (rule agent_rules)+

lemma link [agent_rules]: "kept R (resolve_jira_issue_link env)"
  unfolding resolve_jira_issue_link_def by (rule agent_rules auxiliary | simp)+

lemma no_files [agent_rules]:
  "kept R (athen (amodify (\<lambda>s. s\<lparr>as_failure_reason := Some ''code_generation_no_files''\<rparr>)) (post_jira_comment_best_effort env NoFilesGenerated))"
  by (rule agent_rules | simp add: core_simps)+

lemma stop [agent_rules]: "kept R (stop_epic env k c)"
  unfolding stop_epic_def by (rule agent_rules | simp add: core_simps)+

end

locale run_relation = auxiliary_relation +
  assumes ordinary: "routine env c \<Longrightarrow> kept R (await env c)"
begin

lemma critical [agent_rules]: "routine env c \<Longrightarrow> kept R (critical_call env c why)"
  unfolding critical_call_def by (rule agent_rules ordinary | assumption)+

lemma llm [agent_rules]: "\<not> special c \<Longrightarrow> llm_size env c = Some n \<Longrightarrow> kept R (execute_llm_activity env c n)"
  unfolding execute_llm_activity_def
  by (cases "MAX_ACTIVITY_TOKEN_CAP < n") (auto intro!: agent_rules ordinary simp: routine_def permitted_def dest: llm_no_pr)

lemma llm_critical [agent_rules]: "\<not> special c \<Longrightarrow> llm_size env c = Some n \<Longrightarrow> kept R (critical_llm env c n why)"
  unfolding critical_llm_def by (rule agent_rules | assumption)+

lemma branch_rules [agent_rules]: "kept R (check_branch_rules env inp)"
  unfolding check_branch_rules_def Let_def by (rule agent_rules | simp add: core_simps call_simps)+

lemma files [agent_rules]: "kept R (generate_files env inp)"
  unfolding generate_files_def generate_code_def Let_def by (rule agent_rules | simp add: call_simps)+

lemma scan [agent_rules]: "kept R (scan_files env out fs)"
  unfolding scan_files_def by (rule agent_rules | simp add: call_simps)+

lemma tests [agent_rules]: "kept R (run_execution_child env inp h)"
  unfolding run_execution_child_def by (rule agent_rules ordinary | simp add: core_simps call_simps)+

lemma explain [agent_rules]: "kept R (maybe_handle_explain env)"
  unfolding maybe_handle_explain_def Let_def by (rule agent_rules | simp add: core_simps call_simps)+

lemma finding [agent_rules]: "kept R (post_finding env i f)"
  unfolding post_finding_def Let_def by (rule agent_rules ordinary | simp add: core_simps call_simps)+

lemma review [agent_rules]: "kept R (handle_pr_review env inp)"
  unfolding handle_pr_review_def Let_def by (rule agent_rules | simp add: call_simps)+

lemma title [agent_rules]: "kept R (page_title env inp)"
  unfolding page_title_def by (rule agent_rules)+

lemma page [agent_rules]: "kept R (create_page env inp t b ls)"
  unfolding create_page_def by (rule agent_rules | simp add: core_simps call_simps split: option.splits)+

lemma doc_create [agent_rules]: "kept R (handle_confluence_doc_create env inp)"
  unfolding handle_confluence_doc_create_def Let_def by (rule agent_rules | simp add: call_simps)+

lemma one_section [agent_rules]: "kept R (update_section env p l sec)"
  unfolding update_section_def Let_def by (rule agent_rules ordinary | simp add: core_simps call_simps)+

lemma all_sections [agent_rules]: "kept R (update_sections env inp p secs)"
  unfolding update_sections_def Let_def by (rule agent_rules)+

lemma doc_update [agent_rules]: "kept R (handle_confluence_doc_update env inp)"
  unfolding handle_confluence_doc_update_def Let_def by (rule agent_rules | simp add: call_simps)+

lemma scrape [agent_rules]: "kept R (firecrawl_scrape_with_grace env u)"
  unfolding firecrawl_scrape_with_grace_def Let_def by (rule agent_rules ordinary | simp add: call_simps)+

lemma gather [agent_rules]: "kept R (gather_sources env inp)"
  unfolding gather_sources_def by (rule agent_rules | simp add: call_simps)+

lemma sourceless [agent_rules]: "kept R (no_sources_found env)"
  unfolding no_sources_found_def by (rule agent_rules)+

lemma publish [agent_rules]: "kept R (handle_research_publish_confluence env inp)"
  unfolding handle_research_publish_confluence_def Let_def by (rule agent_rules)+

lemma summarise [agent_rules]: "kept R (handle_research_summary_jira env inp)"
  unfolding handle_research_summary_jira_def store_summary_def Let_def by (rule agent_rules ordinary | simp add: call_simps)+

lemma subtasks [agent_rules]: "kept R (run_subtasks env inp cnt n ks)"
  by (induction ks arbitrary: n) (auto intro!: agent_rules ordinary simp: call_simps)

lemma epic [agent_rules]: "kept R (handle_multi_step env inp)"
  unfolding handle_multi_step_def Let_def by (rule agent_rules | simp add: core_simps call_simps)+

lemma wait [agent_rules]: "kept R (wait_for_signal env)"
  unfolding wait_for_signal_def by (rule agent_rules ordinary | simp add: core_simps call_simps)+

lemma after_pull_request:
  "kept R (abind (alift (extract_pr_id_from_info info)) (\<lambda>new_id. athen (supersede_previous env new_id)
     (athen (amodify (\<lambda>s. case new_id of None \<Rightarrow> s | Some i \<Rightarrow> s\<lparr>as_previous_pr_id := Some i\<rparr>))
     (athen (post_jira_comment_best_effort env c) (maybe_execute_llm_output_actions env inp)))))"
  unfolding supersede_previous_def by (rule agent_rules ordinary | simp add: core_simps call_simps split: option.splits)+

lemma after_untested_commit: "kept R (after_commit env inp False b h)"
  unfolding after_commit_def Let_def if_False by (rule agent_rules | simp add: core_simps)+

lemma tests_failed:
  "kept R (athen (post_jira_comment_best_effort env (TestsFailed b)) (amodify (\<lambda>s. s\<lparr>as_failure_reason := Some ''execution_run_failed''\<rparr>)))"
  by (rule agent_rules | simp add: core_simps)+

lemma not_code: "ar_workflow_type inp \<notin> set CODE_TYPES \<Longrightarrow> kept R (dispatch_workflow_type env inp)"
  by (simp add: dispatch_workflow_type_def CODE_TYPES_def Let_def)
     (intro kept_if conjI impI review doc_create doc_update publish summarise epic wait)

end

fun is_compensation :: "agent_call \<Rightarrow> bool" where
  "is_compensation (CompensationRun a r w) = True"
| "is_compensation _ = False"

locale coding_relation = run_relation +
  assumes allowed: "permitted env c \<Longrightarrow> kept R (await env c)"
begin

lemma pull_request [agent_rules]: "kept R (open_pull_request env inp b)"
  unfolding open_pull_request_def critical_call_def by (rule agent_rules after_pull_request allowed | simp add: call_simps)+

lemma follow_up [agent_rules]: "kept R (after_commit env inp t b h)"
  unfolding after_commit_def Let_def by (rule agent_rules | simp add: core_simps call_simps)+

end

locale full_relation = coding_relation +
  assumes every: "\<not> is_compensation c \<Longrightarrow> kept R (await env c)"
begin

lemma commit: "kept R (commit_and_follow_up env inp t b fs)"
  unfolding commit_and_follow_up_def commit_step_def critical_call_def by (rule agent_rules every | simp add: core_simps call_simps)+

lemma code_change: "kept R (handle_code_change_common env inp t)"
  unfolding handle_code_change_common_def generate_and_commit_def by (rule agent_rules commit | simp add: core_simps call_simps)+

lemma dispatch: "kept R (dispatch_workflow_type env inp)"
  unfolding dispatch_workflow_type_def Let_def by (rule agent_rules code_change)+

end

section \<open>Signals\<close>

definition progress :: "agent_state \<Rightarrow> agent_state \<Rightarrow> bool" where
  \<comment> \<open>iterations only grow, and never past the limit once below it; a cancellation is final, and none is taken
     while the compensation runs\<close>
  "progress s t \<longleftrightarrow>
     iter_count (as_iter s) \<le> iter_count (as_iter t) \<and>
     (iter_count (as_iter s) \<le> Agent_State.MAX_ITER \<longrightarrow> iter_count (as_iter t) \<le> Agent_State.MAX_ITER) \<and>
     as_compensation_running t = as_compensation_running s \<and>
     (as_cancel_requested s \<longrightarrow> as_cancel_requested t) \<and>
     (as_cancel_requested s \<or> as_compensation_running s \<longrightarrow>
        as_cancel_requested t = as_cancel_requested s \<and> as_cancel_actor_id t = as_cancel_actor_id s \<and>
        as_cancel_actor_role t = as_cancel_actor_role s \<and> as_cancel_reason t = as_cancel_reason s)"

lemma progress_trans: "progress s t \<Longrightarrow> progress t u \<Longrightarrow> progress s u"
  unfolding progress_def by auto

lemma progress_same: "core s = core t \<Longrightarrow> progress s t"
  by (simp add: core_def progress_def)

lemma foldl_closed: "(\<And>s x. R s (h s x)) \<Longrightarrow> (\<And>s. R s s) \<Longrightarrow> (\<And>s t u. R s t \<Longrightarrow> R t u \<Longrightarrow> R s u) \<Longrightarrow> R s (foldl h s xs)"
  by (induction xs arbitrary: s) (simp, metis foldl_Cons)

lemma iter_refusal_None: "iter_refusal it n = None \<longleftrightarrow> 0 < n \<and> iter_count it < n"
  by (simp add: iter_refusal_def should_advance_iter_def Let_def)

lemmas iter_updates = state_increment_iter_def state_record_fix_trigger_def state_increment_needs_info_def
  state_reset_needs_info_def advance_iter_with_banner_check_def keep_text_def go_out_of_scope_def Let_def

lemma progress_advance: "iter_count (as_iter s) < Agent_State.MAX_ITER \<Longrightarrow> progress s (advance_iter_with_banner_check s)"
  by (simp add: progress_def iter_updates)

lemma progress_fix: "progress s (apply_fix_signal now text diff s)"
  by (auto simp: apply_fix_signal_def progress_def iter_updates iter_refusal_None split: option.splits)

lemma progress_explain: "progress s (apply_explain_signal now text diff s)"
  by (auto simp: apply_explain_signal_def progress_def iter_updates iter_refusal_None split: option.splits)

lemma progress_needs_info: "progress s (apply_needs_info_signal text s)"
  by (simp add: apply_needs_info_signal_def progress_def iter_updates)

lemma progress_comment: "progress s (comment_added env now v s)"
proof -
  obtain body diff where c: "coerce_comment_signal (ae_repr env) v ''diff_hash'' = (body, diff)" by fastforce
  have plain: "progress s (case iter_refusal (as_iter (s\<lparr>as_iter := state_reset_needs_info (as_iter s)\<rparr>)) Agent_State.MAX_ITER of
      Some why \<Rightarrow> go_out_of_scope why (s\<lparr>as_iter := state_reset_needs_info (as_iter s)\<rparr>)
    | None \<Rightarrow> advance_iter_with_banner_check (keep_text body (s\<lparr>as_iter := state_reset_needs_info (as_iter s)\<rparr>)))"
    by (auto simp: progress_def iter_updates iter_refusal_None split: option.splits)
  have stay: "progress s s" by (simp add: progress_same)
  show ?thesis
    unfolding comment_added_def c Let_def case_prod_conv using stay plain progress_fix progress_explain progress_needs_info
    by auto
qed

lemma progress_cancel: "progress s (cancel_requested env v s)"
  by (auto simp: cancel_requested_def progress_def split: prod.splits)

lemma progress_signal: "progress s (handle_signal env s x)"
proof -
  obtain now sig where x: "x = (now, sig)" by fastforce
  show ?thesis unfolding x
    by (cases sig) (auto simp: progress_same progress_comment progress_fix progress_explain progress_cancel split: prod.splits)
qed

lemma progress_signals: "progress s (foldl (handle_signal env) s xs)"
  by (rule foldl_closed) (auto intro: progress_signal progress_same progress_trans)

lemma calls_signal [simp]: "as_calls (handle_signal env s x) = as_calls s"
proof -
  obtain now sig where x: "x = (now, sig)" by fastforce
  show ?thesis unfolding x
    by (cases sig) (auto simp: comment_added_def apply_fix_signal_def apply_explain_signal_def apply_needs_info_signal_def
        cancel_requested_def iter_updates split: prod.splits option.splits)
qed

lemma calls_signals [simp]: "as_calls (foldl (handle_signal env) s xs) = as_calls s"
  by (induction xs arbitrary: s) simp_all

lemma calls_await [simp]: "as_calls (snd (await env c s)) = as_calls s @ [c]"
  by (simp add: await_def Let_def split: sum.splits)

lemma progress_await: "progress s (snd (await env c s))"
proof -
  let ?s1 = "s\<lparr>as_calls := as_calls s @ [c]\<rparr>"
  have "progress s ?s1" by (simp add: progress_def)
  then have "progress s (foldl (handle_signal env) ?s1 xs)" for xs by (rule progress_trans [OF _ progress_signals])
  then show ?thesis by (simp add: await_def Let_def split: sum.splits)
qed

interpretation agent_progress: full_relation progress env for env
  by unfold_locales (auto simp: kept_def progress_same progress_await intro: progress_trans)

section \<open>Calls\<close>

definition adds :: "(agent_call \<Rightarrow> bool) \<Rightarrow> agent_state \<Rightarrow> agent_state \<Rightarrow> bool" where
  "adds P s t \<longleftrightarrow> (\<exists>cs. as_calls t = as_calls s @ cs \<and> list_all P cs)"

lemma adds_trans: "adds P s t \<Longrightarrow> adds P t u \<Longrightarrow> adds P s u"
  unfolding adds_def by (metis append.assoc list_all_append)

lemma adds_same: "core s = core t \<Longrightarrow> adds P s t"
  by (auto simp: adds_def core_def)

interpretation adding: step_relation "adds P" for P
  by unfold_locales (auto simp: adds_same intro: adds_trans)

lemma adds_await: "P c \<Longrightarrow> kept (adds P) (await env c)"
  by (simp add: kept_def adds_def)

lemma auxiliary_permitted: "auxiliary c \<Longrightarrow> permitted env c"
  by (cases c) (simp_all add: call_simps)

lemma auxiliary_routine: "auxiliary c \<Longrightarrow> routine env c"
  by (cases c) (simp_all add: call_simps)

interpretation agent_reports: auxiliary_relation "adds auxiliary" env for env
  by unfold_locales (rule adds_await)

interpretation agent_routine: run_relation "adds (\<lambda>c. \<not> is_create_pr c)" env for env
  by unfold_locales (auto intro!: adds_await dest: auxiliary_routine simp: routine_def)

interpretation agent_calls: coding_relation "adds (permitted env)" env for env
  by unfold_locales (auto intro: adds_await auxiliary_permitted simp: routine_def)

lemma special_if_compensation: "is_compensation c \<Longrightarrow> special c"
  by (cases c) simp_all

lemma permitted_no_compensation: "permitted env c \<Longrightarrow> \<not> is_compensation c"
  using special_if_compensation by (auto simp: permitted_def)

interpretation agent_forward: full_relation "adds (\<lambda>c. \<not> is_compensation c)" env for env
  by unfold_locales (auto intro: adds_await dest: permitted_no_compensation auxiliary_permitted simp: routine_def)

end
