(* ===== verification/Agent_Trace.thy ===== *)
theory Agent_Trace
  imports Agent_Logic
begin

text \<open>
  The shape of a run of the agent runner: it stops at once, or dispatches on the type of the workflow and ends in one of
  a few ways, each with its own last calls. What the dispatch reaches is stated with \<open>reaches\<close>.
\<close>

section \<open>Structure of a run\<close>

lemma await_calls: "await env c s = (x, t) \<Longrightarrow> as_calls t = as_calls s @ [c]"
  using calls_await [of env c s] by simp

lemma calls_emit_audit [simp]:
  "as_calls (snd (emit_audit_action env a s)) = as_calls s @ [AuditEmit a (iter_count (as_iter s))]"
  by (auto simp: emit_audit_action_def aread_def acatch_def athen_def abind_def areturn_def
      split: prod.splits sum.splits dest: await_calls)

lemma calls_compensation [simp]:
  "as_calls (run_compensation env a r w s) = as_calls s @ [CompensationRun a r w]"
  by (simp add: run_compensation_def)

lemma state_build_output [simp]: "snd (build_output st su s) = s"
  by (simp add: build_output_def)

lemma status_build_output [simp]:
  "ro_status (fst (build_output st su s)) = st" "ro_summary (fst (build_output st su s)) = su"
  "ro_iter_count (fst (build_output st su s)) = iter_count (as_iter s)"
  "ro_failure_reason (fst (build_output st su s)) = as_failure_reason s"
  by (simp_all add: build_output_def)

lemma finish_cases: "\<exists>st su. finish_completed s = build_output st su s \<and> st \<in> {''completed'', ''completed_with_partial_failure''}"
  by (auto simp: finish_completed_def Let_def)

lemma calls_finish [simp]: "snd (finish_completed s) = s"
  by (simp add: finish_completed_def Let_def)

lemma calls_start [simp]: "as_calls (start_agent env) = []"
  by (simp add: start_agent_def initial_agent_def)

lemma progress_iter: "progress s t \<Longrightarrow> iter_count (as_iter s) \<le> Agent_State.MAX_ITER \<Longrightarrow> iter_count (as_iter t) \<le> Agent_State.MAX_ITER"
  by (simp add: progress_def)

lemma iter_compensation:
  "iter_count (as_iter s) \<le> Agent_State.MAX_ITER \<Longrightarrow> iter_count (as_iter (run_compensation env a r w s)) \<le> Agent_State.MAX_ITER"
  using progress_iter [OF progress_await, of "s\<lparr>as_compensation_running := True\<rparr>"] by (simp add: run_compensation_def)

lemma iter_audit:
  "iter_count (as_iter s) \<le> Agent_State.MAX_ITER \<Longrightarrow> iter_count (as_iter (snd (emit_audit_action env a s))) \<le> Agent_State.MAX_ITER"
  by (rule progress_iter [OF kept_snd [OF agent_progress.audit]])

lemma output_iter: "ro_iter_count (fst (conclude env r)) = iter_count (as_iter (snd (conclude env r)))"
  by (cases r; cases "fst r"; cases "projl (fst r)")
     (auto simp: conclude_def handle_cancel_def handle_output_action_critical_def finish_completed_def Let_def)

lemma conclude_iter:
  "iter_count (as_iter (snd r)) \<le> Agent_State.MAX_ITER \<Longrightarrow> iter_count (as_iter (snd (conclude env r))) \<le> Agent_State.MAX_ITER"
  by (cases r; cases "fst r"; cases "projl (fst r)")
     (auto simp: conclude_def handle_cancel_def handle_output_action_critical_def Let_def intro!: iter_audit iter_compensation)

lemma run_agent_cases:
  obtains (refused) why s where
      "run_agent env inp (start_agent env) = build_output ''out_of_scope'' MaxIterSummary s" "as_calls s = []"
      "iter_count (as_iter s) = max 0 (ar_iteration inp - 1)" "as_failure_reason s = Some why"
    | (dispatched) s where "run_agent env inp (start_agent env) = conclude env (dispatch_workflow_type env inp s)"
      "as_calls s = []" "iter_count (as_iter s) = max 0 (ar_iteration inp - 1) + 1" "iter_count (as_iter s) \<le> Agent_State.MAX_ITER"
      "as_signal_pending s"
proof -
  let ?s1 = "(start_agent env)\<lparr>as_iter := (as_iter (start_agent env))\<lparr>iter_count := max 0 (ar_iteration inp - 1)\<rparr>\<rparr>"
  show thesis
  proof (cases "iter_refusal (as_iter ?s1) (effective_max_iter inp)")
    case None
    then have "max 0 (ar_iteration inp - 1) < effective_max_iter inp" by (simp add: iter_refusal_None)
    moreover have "effective_max_iter inp \<le> Agent_State.MAX_ITER" by (simp add: effective_max_iter_def)
    ultimately have "max 0 (ar_iteration inp - 1) + 1 \<le> Agent_State.MAX_ITER" by linarith
    then show thesis
      by (intro dispatched [of "advance_iter_with_banner_check ?s1"])
         (use None in \<open>simp_all add: run_agent_def iter_updates\<close>)
  next
    case (Some why)
    then show thesis by (intro refused [of "?s1\<lparr>as_out_of_scope := True, as_failure_reason := Some why\<rparr>" why]) (simp_all add: run_agent_def)
  qed
qed

section \<open>The end of a run\<close>

fun critical_summary :: "agent_summary \<Rightarrow> bool" where
  \<comment> \<open>the summaries of a run whose critical output action failed\<close>
  "critical_summary (FinalComment xs ys) = True"
| "critical_summary CriticalFailedSummary = True"
| "critical_summary _ = False"

definition compensated :: "AgentRunnerWorkflowOutput \<Rightarrow> bool" where
  "compensated out \<longleftrightarrow> ro_status out = ''cancelled'' \<or> ro_status out = ''failed'' \<and> critical_summary (ro_summary out)"

lemma final_summary_critical: "final_summary xs ys = Some c \<Longrightarrow> critical_summary c"
  by (auto simp: final_summary_def split: prod.splits if_splits)

lemma role_after_compensation:
  "as_cancel_actor_role (run_compensation env a r w s) = as_cancel_actor_role s"
  using progress_await [of "s\<lparr>as_compensation_running := True\<rparr>" env "CompensationRun a r w"]
  by (simp add: run_compensation_def progress_def)

lemma conclude_calls:
  obtains (cancelled) a r w n where "as_calls (snd (conclude env x)) = as_calls (snd x) @
        [CompensationRun a r w, AuditEmit (audit_action_for_cancel_role r) n]" "ro_status (fst (conclude env x)) = ''cancelled''"
    | (critical) "as_calls (snd (conclude env x)) = as_calls (snd x) @ [CompensationRun [] ''system'' ''output_action_critical_failed'']"
        "ro_status (fst (conclude env x)) = ''failed''" "critical_summary (ro_summary (fst (conclude env x)))"
    | (other) "as_calls (snd (conclude env x)) = as_calls (snd x)" "\<not> compensated (fst (conclude env x))"
proof -
  obtain r s where x: "x = (r, s)" by fastforce
  have cancel: thesis if "conclude env x = handle_cancel env s"
    using that cancelled x by (auto simp: handle_cancel_def Let_def role_after_compensation)
  have crit: thesis if "conclude env x = handle_output_action_critical env t" "as_calls t = as_calls s" for t
    using that critical x
    by (auto simp: handle_output_action_critical_def Let_def intro: final_summary_critical split: option.splits)
  have plain: thesis if "conclude env x = build_output st su t" "as_calls t = as_calls s" "st \<noteq> ''cancelled''"
      "st \<noteq> ''failed'' \<or> \<not> critical_summary su" for st su t
    using that other x by (simp add: compensated_def)
  show thesis
  proof (cases r)
    case (Inl e)
    then show thesis using x by (cases e) (auto simp: conclude_def intro: cancel crit plain)
  next
    case (Inr u)
    obtain st su where fin: "finish_completed s = build_output st su s" "st \<in> {''completed'', ''completed_with_partial_failure''}"
      using finish_cases by blast
    show thesis
    proof (cases "as_cancel_requested s")
      case True
      then show thesis using Inr x by (intro cancel) (simp add: conclude_def)
    next
      case False
      then show thesis using Inr x fin plain [of st su s] plain [of "''out_of_scope''" MaxIterSummary s]
        by (cases "as_out_of_scope s") (auto simp: conclude_def)
    qed
  qed
qed

lemma dispatch_no_compensation:
  "as_calls s = [] \<Longrightarrow> list_all (\<lambda>c. \<not> is_compensation c) (as_calls (snd (dispatch_workflow_type env inp s)))"
  using kept_snd [OF agent_forward.dispatch, of s env inp] by (auto simp: adds_def)

section \<open>An example\<close>

definition scripted_env :: "(agent_call \<Rightarrow> pystr + pyval) \<Rightarrow> (agent_call \<Rightarrow> (datetime \<times> agent_signal) list) \<Rightarrow> agent_env" where
  "scripted_env answers signals =
     \<lparr>ae_repr = (\<lambda>_. ''?''), ae_workflow_id = ''wf'', ae_run_id = ''run'',
      ae_signals = (\<lambda>cs. if cs = [] then [] else signals (last cs)), ae_clock = (\<lambda>_. 0),
      ae_answer = (\<lambda>cs. if cs = [] then Inl [] else answers (last cs)), ae_sha256 = id, ae_parse_time = (\<lambda>_. None),
      ae_encode = (\<lambda>_. [])\<rparr>"

definition agent_analysis :: "pystr \<Rightarrow> gateway_analysis" where
  "agent_analysis t =
     \<lparr>res_workflow_type = t, res_confidence = ''high'', res_target_repo = Some ''repo'', res_target_branch = Some ''main'',
      res_target_space = None, res_target_page_id = None, res_title = ''Title'', res_rationale = ''PR 7'',
      res_output_actions = [], res_needs_info_questions = [], res_token_usage = 0, ga_needs_docker = False,
      ga_needs_ssh = False, ga_execution_command = Some ''make''\<rparr>"

definition sample_input :: "pystr \<Rightarrow> AgentRunnerWorkflowInput" where
  "sample_input t =
     \<lparr>ar_parent_workflow_id = ''P'', ar_issue_key = ''AB-1'', ar_department_id = ''dept'', ar_workflow_type = t,
      ar_analysis = agent_analysis t, ar_target_repo = Some ''repo'', ar_target_branch = Some ''main'', ar_iteration = 1,
      ar_max_iter = 5, ar_default_language = ''tr'', ar_trace_id = [], ar_available_capabilities = [],
      ar_available_repos = [], ar_available_spaces = []\<rparr>"

section \<open>Milestones\<close>

definition reaches :: "(agent_call \<Rightarrow> bool) \<Rightarrow> (agent_call list \<Rightarrow> agent_call list \<Rightarrow> bool) \<Rightarrow> agent_state \<Rightarrow> agent_state \<Rightarrow> bool" where
  \<comment> \<open>only calls of the first kind are made, or together they are as the second argument says, given the calls before\<close>
  "reaches P Q s t \<longleftrightarrow> (\<exists>cs. as_calls t = as_calls s @ cs \<and> (list_all P cs \<or> Q (as_calls s) cs))"

locale milestone =
  fixes P :: "agent_call \<Rightarrow> bool" and Q :: "agent_call list \<Rightarrow> agent_call list \<Rightarrow> bool"
  assumes prefix: "list_all P p \<Longrightarrow> Q (before @ p) cs \<Longrightarrow> Q before (p @ cs)"
begin

lemma none: "adds P s t \<Longrightarrow> reaches P Q s t"
  by (auto simp: adds_def reaches_def)

lemma same: "reaches P Q s s"
  by (simp add: reaches_def)

lemma others: "kept (adds P) m \<Longrightarrow> reaches P Q s (snd (m s))"
  by (rule none) (rule kept_snd)

lemma step: "adds P s s1 \<Longrightarrow> reaches P Q s1 t \<Longrightarrow> reaches P Q s t"
  unfolding adds_def reaches_def using prefix by (metis append.assoc list_all_append)

lemma bind:
  assumes "kept (adds P) m" "\<And>a s1. m s = (Inr a, s1) \<Longrightarrow> reaches P Q s1 (snd (k a s1))"
  shows "reaches P Q s (snd (abind m k s))"
proof -
  obtain x s1 where m: "m s = (x, s1)" by fastforce
  have "adds P s s1" using kept_snd [OF assms(1), of s] m by simp
  then show ?thesis using step [OF _ assms(2)] none m by (cases x) (simp_all add: abind_def)
qed

end

lemma dispatch_reaches:
  assumes "\<And>s. ar_workflow_type inp \<notin> set CODE_TYPES \<Longrightarrow> reaches P Q s (snd (dispatch_workflow_type env inp s))"
    and "\<And>wt s. reaches P Q s (snd (handle_code_change_common env inp wt s))"
  shows "reaches P Q s (snd (dispatch_workflow_type env inp s))"
  using assms by (cases "ar_workflow_type inp \<in> set CODE_TYPES") (auto simp: dispatch_workflow_type_def Let_def CODE_TYPES_def)

end
