(* ===== verification/Agent_Changes.thy ===== *)
theory Agent_Changes
  imports Agent_Trace
begin

text \<open>
  The code changes of the agent runner: a commit follows a scan, a pull request follows passing tests.
\<close>

section \<open>Commits\<close>

lemma scan_passed:
  assumes "scan_files env out fs s = (Inr u, t)"
  shows "as_calls t = as_calls s @ [PrecommitScan (extract_code_diff_text (ae_repr env) out fs)] \<and>
    (\<exists>v. ae_answer env (as_calls t) = Inr v \<and> extract_precommit_decision (ae_repr env) v \<noteq> ''block'')"
  using assms
  by (auto simp: scan_files_def critical_call_def abind_def acatch_def await_def fail_with_def athen_def amodify_def araise_def
      areturn_def Let_def split: sum.splits if_splits)

lemma calls_critical [simp]: "as_calls (snd (critical_call env c why s)) = as_calls s @ [c]"
  by (auto simp: critical_call_def acatch_def fail_with_def athen_def abind_def amodify_def araise_def
      split: prod.splits sum.splits dest: await_calls)

definition commit_call :: "AgentRunnerWorkflowInput \<Rightarrow> pystr \<Rightarrow> FileChange list \<Rightarrow> pystr \<Rightarrow> agent_call" where
  "commit_call inp branch fs msg =
     CommitViaGit (blank_if_none (ar_target_repo inp)) branch (source_branch_of (blank_if_none (ar_target_branch inp))) fs msg"

lemma commit_step_calls:
  obtains "as_calls (snd (commit_step env inp b fs s)) = as_calls s" "\<exists>e. fst (commit_step env inp b fs s) = Inl e"
    | msg where "as_calls (snd (commit_step env inp b fs s)) = as_calls s @ [commit_call inp b fs msg]"
  by (cases "format_commit_message (or_str (res_title (ar_analysis inp)) ''AI-generated change'') (ar_issue_key inp)
         (max 1 (iter_count (as_iter s))) (''ai-bot@'' @ ar_department_id inp @ ''.local'')")
     (auto simp: commit_step_def aread_def fail_with_def athen_def abind_def amodify_def araise_def commit_call_def)

lemma after_commit_calls:
  obtains cs where "as_calls (snd (commit_and_follow_up env inp t b fs s)) = as_calls s @ cs" "list_all (permitted env) cs"
    | msg cs where "as_calls (snd (commit_and_follow_up env inp t b fs s)) = as_calls s @ commit_call inp b fs msg # cs"
        "list_all (permitted env) cs"
proof -
  let ?m = "commit_step env inp b fs s"
  let ?k = "\<lambda>info. athen (amodify (\<lambda>s. s\<lparr>as_last_commit_branch := Some b\<rparr>))
         (after_commit env inp t b (or_str (blank_if_none (extract_commit_hash (ae_repr env) info)) b))"
  have k: "kept (adds (permitted env)) (?k info)" for info
    by (rule agent_rules agent_calls.follow_up adding.and_then adding.modify | simp add: core_simps)+
  obtain x s1 where m: "?m = (x, s1)" by fastforce
  have step: "commit_and_follow_up env inp t b fs s = (case x of Inl e \<Rightarrow> (Inl e, s1) | Inr info \<Rightarrow> ?k info s1)"
    by (simp add: commit_and_follow_up_def abind_def m)
  have rest: "\<exists>cs. as_calls (snd (commit_and_follow_up env inp t b fs s)) = as_calls s1 @ cs \<and> list_all (permitted env) cs"
    using kept_snd [OF k] unfolding step by (cases x) (auto simp: adds_def)
  show thesis
    by (cases rule: commit_step_calls [of env inp b fs s]) (use rest m that in auto)
qed

definition clean_commit :: "agent_env \<Rightarrow> AgentRunnerWorkflowInput \<Rightarrow> agent_call list \<Rightarrow> agent_call list \<Rightarrow> bool" where
  \<comment> \<open>calls made after the given ones that hold one commit, right after the scan it depends on\<close>
  "clean_commit env inp before cs \<longleftrightarrow>
     (\<exists>p out b n fs msg q v.
        cs = p @ [PrecommitScan (extract_code_diff_text (ae_repr env) out fs), commit_call inp b fs msg] @ q \<and>
        list_all (permitted env) (p @ q) \<and>
        ae_answer env (before @ p @ [PrecommitScan (extract_code_diff_text (ae_repr env) out fs)]) = Inr v \<and>
        extract_precommit_decision (ae_repr env) v \<noteq> ''block'' \<and>
        fs = extract_commit_files (ae_repr env) out \<and> fs \<noteq> [] \<and>
        compute_branch_name (ar_issue_key inp) n [] = Inr b \<and>
        allowed (route_by_branch_pattern (blank_if_none (ar_target_branch inp)) (ar_workflow_type inp) DEFAULT_BRANCH_PATTERN_RULES))"

lemma abind_result:
  assumes "abind m k s = (x, t)"
  obtains e where "m s = (Inl e, t)" "x = Inl e" | a s1 where "m s = (Inr a, s1)" "k a s1 = (x, t)"
  using assms by (auto simp: abind_def split: prod.splits sum.splits)

lemma generated_files:
  assumes "generate_files env inp s = (Inr (fs, out), t)"
  shows "fs = extract_commit_files (ae_repr env) out"
  using assms by (auto simp: generate_files_def Let_def areturn_def split: if_splits elim!: abind_result)

lemma rules_passed:
  assumes "check_branch_rules env inp s = (Inr u, t)"
  shows "allowed (route_by_branch_pattern (blank_if_none (ar_target_branch inp)) (ar_workflow_type inp) DEFAULT_BRANCH_PATTERN_RULES)"
  using assms
  by (auto simp: check_branch_rules_def Let_def athen_def amodify_def araise_def abind_def route_by_branch_pattern_def no_rule_matched_def
      split: if_splits prod.splits sum.splits)

lemma clean_commit_prefix: "list_all (permitted env) p \<Longrightarrow> clean_commit env inp (before @ p) cs \<Longrightarrow> clean_commit env inp before (p @ cs)"
proof -
  assume p: "list_all (permitted env) p" and "clean_commit env inp (before @ p) cs"
  then obtain p' out b n fs msg q v where
    "cs = p' @ [PrecommitScan (extract_code_diff_text (ae_repr env) out fs), commit_call inp b fs msg] @ q"
    "list_all (permitted env) (p' @ q)"
    "ae_answer env ((before @ p) @ p' @ [PrecommitScan (extract_code_diff_text (ae_repr env) out fs)]) = Inr v"
    "extract_precommit_decision (ae_repr env) v \<noteq> ''block''" "fs = extract_commit_files (ae_repr env) out" "fs \<noteq> []"
    "compute_branch_name (ar_issue_key inp) n [] = Inr b"
    "allowed (route_by_branch_pattern (blank_if_none (ar_target_branch inp)) (ar_workflow_type inp) DEFAULT_BRANCH_PATTERN_RULES)"
    unfolding clean_commit_def by blast
  with p show ?thesis unfolding clean_commit_def by (intro exI [of _ "p @ p'"]) fastforce
qed

interpretation commit: milestone "permitted env" "clean_commit env inp" for env inp
  by unfold_locales (rule clean_commit_prefix)

lemma scan_then_commit:
  assumes "fs = extract_commit_files (ae_repr env) out" "fs \<noteq> []" "compute_branch_name (ar_issue_key inp) n [] = Inr b"
    and "allowed (route_by_branch_pattern (blank_if_none (ar_target_branch inp)) (ar_workflow_type inp) DEFAULT_BRANCH_PATTERN_RULES)"
  shows "reaches (permitted env) (clean_commit env inp) s (snd (athen (scan_files env out fs) (commit_and_follow_up env inp wt b fs) s))"
proof (cases "scan_files env out fs s")
  case (Pair x s1)
  let ?scan = "PrecommitScan (extract_code_diff_text (ae_repr env) out fs)"
  show ?thesis
  proof (cases x)
    case (Inl e)
    have "kept (adds (permitted env)) (scan_files env out fs)" by (rule agent_calls.scan)
    from kept_snd [OF this, of s] have "adds (permitted env) s s1" using Pair by simp
    then show ?thesis using Pair Inl by (simp add: athen_def abind_def commit.none)
  next
    case (Inr u)
    from scan_passed [OF Pair [unfolded Inr]] obtain v where v: "as_calls s1 = as_calls s @ [?scan]"
      "ae_answer env (as_calls s1) = Inr v" "extract_precommit_decision (ae_repr env) v \<noteq> ''block''" by blast
    have step: "athen (scan_files env out fs) (commit_and_follow_up env inp wt b fs) s = commit_and_follow_up env inp wt b fs s1"
      using Pair Inr by (simp add: athen_def abind_def)
    show ?thesis unfolding step
    proof (cases rule: after_commit_calls [of env inp wt b fs s1])
      case (1 cs)
      with v(1) show "reaches (permitted env) (clean_commit env inp) s (snd (commit_and_follow_up env inp wt b fs s1))"
        by (intro commit.none) (auto simp: adds_def call_simps)
    next
      case c: (2 msg q)
      have "clean_commit env inp (as_calls s) ([] @ [?scan, commit_call inp b fs msg] @ q)"
        unfolding clean_commit_def using v c(2) assms by fastforce
      with c(1) v(1) show "reaches (permitted env) (clean_commit env inp) s (snd (commit_and_follow_up env inp wt b fs s1))"
        by (auto simp: reaches_def)
    qed
  qed
qed

lemma code_change_commit:
  "reaches (permitted env) (clean_commit env inp) s (snd (handle_code_change_common env inp wt s))"
  unfolding handle_code_change_common_def athen_def [of "set_assignee env"]
proof (rule commit.bind [OF agent_calls.assignee])
  fix a s1
  show "reaches (permitted env) (clean_commit env inp) s1 (snd (athen (check_branch_rules env inp) (aread (\<lambda>s.
       case compute_branch_name (ar_issue_key inp) (iter_count (as_iter s)) [] of
         Inl _ \<Rightarrow> araise (BodyError ''ValueError'') | Inr branch \<Rightarrow> generate_and_commit env inp wt branch)) s1))"
    unfolding athen_def [of "check_branch_rules env inp"]
  proof (rule commit.bind [OF agent_calls.branch_rules])
    fix u s2 assume rules: "check_branch_rules env inp s1 = (Inr u, s2)"
    have "reaches (permitted env) (clean_commit env inp) s2 (snd (generate_and_commit env inp wt b s2))"
      if "compute_branch_name (ar_issue_key inp) n [] = Inr b" for b n
      unfolding generate_and_commit_def
    proof (rule commit.bind [OF agent_calls.files])
      fix p s3 assume "generate_files env inp s2 = (Inr p, s3)"
      moreover obtain fs out where "p = (fs, out)" by fastforce
      ultimately show "reaches (permitted env) (clean_commit env inp) s3 (snd ((case p of (files, out) \<Rightarrow>
          if files = [] then athen (amodify (\<lambda>s. s\<lparr>as_failure_reason := Some ''code_generation_no_files''\<rparr>))
            (post_jira_comment_best_effort env NoFilesGenerated)
          else athen (scan_files env out files) (commit_and_follow_up env inp wt b files)) s3))"
        using scan_then_commit [OF generated_files _ that rules_passed [OF rules]] commit.others [OF agent_calls.no_files]
        by auto
    qed
    then show "reaches (permitted env) (clean_commit env inp) s2 (snd (aread (\<lambda>s.
       case compute_branch_name (ar_issue_key inp) (iter_count (as_iter s)) [] of
         Inl _ \<Rightarrow> araise (BodyError ''ValueError'') | Inr branch \<Rightarrow> generate_and_commit env inp wt branch) s2))"
      by (auto simp: aread_def araise_def commit.same split: sum.splits)
  qed
qed

lemma dispatch_commit:
  "reaches (permitted env) (clean_commit env inp) s (snd (dispatch_workflow_type env inp s))"
  by (rule dispatch_reaches [OF commit.others [OF agent_calls.not_code] code_change_commit])

fun is_commit :: "agent_call \<Rightarrow> bool" where
  "is_commit (CommitViaGit r b src fs msg) = True"
| "is_commit _ = False"

lemma permitted_no_commit: "permitted env c \<Longrightarrow> \<not> is_commit c"
  by (cases c) (simp_all add: permitted_def)

lemma all_permitted_no_commit: "list_all (permitted env) cs \<Longrightarrow> list_all (\<lambda>c. \<not> is_commit c) cs"
  by (auto simp: list_all_iff dest: permitted_no_commit)

lemma commit_not_member: "list_all (\<lambda>c. \<not> is_commit c) cs \<Longrightarrow> CommitViaGit repo b src fs msg \<notin> set cs"
  by (induction cs) auto

lemma trace_calls:
  obtains cs tail where "agent_trace env inp = cs @ tail" "list_all (\<lambda>c. \<not> is_commit c) tail"
    "list_all (permitted env) cs \<or> clean_commit env inp [] cs"
proof (cases rule: run_agent_cases [of env inp])
  case (refused why s)
  then show thesis by (intro that [of "[]" "[]"]) (simp_all add: agent_trace_def)
next
  case (dispatched s)
  let ?x = "dispatch_workflow_type env inp s"
  obtain cs where cs: "as_calls (snd ?x) = cs" "list_all (permitted env) cs \<or> clean_commit env inp [] cs"
    using dispatch_commit [of env inp s] dispatched(2) by (auto simp: reaches_def)
  have "\<exists>tail. as_calls (snd (conclude env ?x)) = cs @ tail \<and> list_all (\<lambda>c. \<not> is_commit c) tail"
    by (cases rule: conclude_calls [of env ?x]) (use cs(1) in auto)
  then obtain tail where "agent_trace env inp = cs @ tail" "list_all (\<lambda>c. \<not> is_commit c) tail"
    by (auto simp: agent_trace_def dispatched(1))
  with that cs(2) show thesis by blast
qed

lemma normalise_commit_action_range: "normalise_commit_action repr v \<in> set [''create'', ''update'', ''delete'']"
  by (simp add: normalise_commit_action_def Let_def)

lemma commit_file_proper: "commit_file repr raw = Some f \<Longrightarrow> proper_change f"
  using normalise_commit_action_range [of repr "get_or_none raw ''action''"]
  by (auto simp: commit_file_def proper_change_def committable_def Let_def simp del: list.set split: if_splits)

lemma commit_files_proper: "list_all proper_change (extract_commit_files repr out)"
  using commit_file_proper by (auto simp: extract_commit_files_def List.map_filter_def list_all_iff split: pyval.splits)

lemma commit_in_clean:
  assumes "clean_commit env inp [] cs" "list_all (\<lambda>c. \<not> is_commit c) tail" "CommitViaGit repo b src fs msg \<in> set (cs @ tail)"
  obtains pre d v post n where "cs @ tail = pre @ [PrecommitScan d, CommitViaGit repo b src fs msg] @ post"
    "ae_answer env (pre @ [PrecommitScan d]) = Inr v" "extract_precommit_decision (ae_repr env) v \<noteq> ''block''"
    "fs \<noteq> []" "list_all proper_change fs" "compute_branch_name (ar_issue_key inp) n [] = Inr b"
    "allowed (route_by_branch_pattern (blank_if_none (ar_target_branch inp)) (ar_workflow_type inp) DEFAULT_BRANCH_PATTERN_RULES)"
    "list_all (\<lambda>c. \<not> is_commit c) (pre @ post)"
proof -
  from assms(1) obtain p out b' n fs' msg' q v where c:
    "cs = p @ [PrecommitScan (extract_code_diff_text (ae_repr env) out fs'), commit_call inp b' fs' msg'] @ q"
    "list_all (permitted env) (p @ q)"
    "ae_answer env (p @ [PrecommitScan (extract_code_diff_text (ae_repr env) out fs')]) = Inr v"
    "extract_precommit_decision (ae_repr env) v \<noteq> ''block''" "fs' = extract_commit_files (ae_repr env) out" "fs' \<noteq> []"
    "compute_branch_name (ar_issue_key inp) n [] = Inr b'"
    "allowed (route_by_branch_pattern (blank_if_none (ar_target_branch inp)) (ar_workflow_type inp) DEFAULT_BRANCH_PATTERN_RULES)"
    unfolding clean_commit_def by auto
  have rest: "list_all (\<lambda>c. \<not> is_commit c) (p @ q @ tail)" using all_permitted_no_commit [OF c(2)] assms(2) by simp
  from commit_not_member [OF rest] assms(3) c(1) have "CommitViaGit repo b src fs msg = commit_call inp b' fs' msg'" by auto
  then have eq: "commit_call inp b' fs' msg' = CommitViaGit repo b src fs msg" "b' = b" "fs' = fs" by (simp_all add: commit_call_def)
  show thesis
    by (rule that [of p _ "q @ tail" v n]) (use c rest commit_files_proper eq in \<open>auto simp: list_all_iff\<close>)
qed

text \<open>
  C2. Nothing is committed unscanned, untested against the pinned branch rules or outside the repository: a run makes
  at most one commit, immediately after a scan that answered anything but \<open>block\<close>, on a branch named after
  the issue, for a target the pinned rules allow, and its files have relative paths without \<open>..\<close>, one of three
  actions, and contents unless they are deleted.
\<close>

theorem commits_are_gated:
  assumes "CommitViaGit repo b src fs msg \<in> set (agent_trace env inp)"
  shows "\<exists>pre d v post n. agent_trace env inp = pre @ [PrecommitScan d, CommitViaGit repo b src fs msg] @ post \<and>
    ae_answer env (pre @ [PrecommitScan d]) = Inr v \<and> extract_precommit_decision (ae_repr env) v \<noteq> ''block'' \<and>
    fs \<noteq> [] \<and> list_all proper_change fs \<and> compute_branch_name (ar_issue_key inp) n [] = Inr b \<and>
    allowed (route_by_branch_pattern (blank_if_none (ar_target_branch inp)) (ar_workflow_type inp) DEFAULT_BRANCH_PATTERN_RULES) \<and>
    list_all (\<lambda>c. \<not> is_commit c) (pre @ post)"
proof -
  obtain cs tail where tr: "agent_trace env inp = cs @ tail" "list_all (\<lambda>c. \<not> is_commit c) tail"
    "list_all (permitted env) cs \<or> clean_commit env inp [] cs" by (rule trace_calls)
  from tr(3) have "clean_commit env inp [] cs"
  proof
    assume "list_all (permitted env) cs"
    then have "list_all (\<lambda>c. \<not> is_commit c) (cs @ tail)" using all_permitted_no_commit tr(2) by simp
    from commit_not_member [OF this] assms tr(1) show ?thesis by simp
  qed auto
  from commit_in_clean [OF this tr(2), of repo b src fs msg] assms tr(1) show ?thesis by metis
qed

definition coding_answers :: "agent_call \<Rightarrow> pystr + pyval" where
  "coding_answers c =
     (case c of
        GenerateCode p \<Rightarrow>
          Inr (PDict [(''files'', PList [PDict [(''path'', PStr ''a.py''), (''content'', PStr ''x = 1''), (''action'', PStr ''add'')]])])
      | PrecommitScan d \<Rightarrow> Inr (PDict [(''decision'', PStr ''pass'')])
      | RunExecutionChild w cmd docker \<Rightarrow> Inr (PDict [(''status'', PStr ''passed'')])
      | _ \<Rightarrow> Inr (PDict []))"

definition coding_env :: agent_env where
  "coding_env = scripted_env coding_answers (\<lambda>_. [])"

definition coding_input :: AgentRunnerWorkflowInput where
  "coding_input = (sample_input ''code_change_with_test'')\<lparr>ar_target_branch := Some ''ai/AB-1''\<rparr>"

lemma coding_trace_commits:
  "CommitViaGit ''repo'' ''ai/AB-1'' ''develop'' [\<lparr>fc_path = ''a.py'', fc_action = ''create'', fc_content = ''x = 1''\<rparr>]
     (''[bot] Title'' @ [newline, newline] @ ''Co-authored-by: ai-bot <ai-bot@dept.local>'')
   \<in> set (agent_trace coding_env coding_input)"
  by code_simp

theorem commits_are_gated_witness:
  "\<exists>repo b src fs msg pre d v post. agent_trace coding_env coding_input = pre @ [PrecommitScan d, CommitViaGit repo b src fs msg] @ post \<and>
    ae_answer coding_env (pre @ [PrecommitScan d]) = Inr v \<and> extract_precommit_decision (ae_repr coding_env) v \<noteq> ''block'' \<and>
    list_all proper_change fs"
  using commits_are_gated [OF coding_trace_commits] by metis

section \<open>Pull requests\<close>

definition tested_pr :: "agent_env \<Rightarrow> AgentRunnerWorkflowInput \<Rightarrow> agent_call list \<Rightarrow> agent_call list \<Rightarrow> bool" where
  \<comment> \<open>one pull request, right after the tests, right after the commit of its branch\<close>
  "tested_pr env inp before cs \<longleftrightarrow>
     (\<exists>p b fs msg w cmd docker v tool title descr q.
        cs = p @ [commit_call inp b fs msg, RunExecutionChild w cmd docker,
                  CreatePr tool (blank_if_none (ar_target_repo inp)) b title descr] @ q \<and>
        list_all (\<lambda>c. \<not> is_create_pr c) (p @ q) \<and>
        ae_answer env (before @ p @ [commit_call inp b fs msg, RunExecutionChild w cmd docker]) = Inr v \<and>
        child_status (ae_repr env) v = PStr ''passed'')"

lemma tested_pr_prefix:
  "list_all (\<lambda>c. \<not> is_create_pr c) p \<Longrightarrow> tested_pr env inp (before @ p) cs \<Longrightarrow> tested_pr env inp before (p @ cs)"
proof -
  assume p: "list_all (\<lambda>c. \<not> is_create_pr c) p" and "tested_pr env inp (before @ p) cs"
  then obtain p' b fs msg w cmd docker v tool title descr q where
    "cs = p' @ [commit_call inp b fs msg, RunExecutionChild w cmd docker, CreatePr tool (blank_if_none (ar_target_repo inp)) b title descr] @ q"
    "list_all (\<lambda>c. \<not> is_create_pr c) (p' @ q)"
    "ae_answer env ((before @ p) @ p' @ [commit_call inp b fs msg, RunExecutionChild w cmd docker]) = Inr v"
    "child_status (ae_repr env) v = PStr ''passed''"
    unfolding tested_pr_def by blast
  with p show ?thesis unfolding tested_pr_def by (intro exI [of _ "p @ p'"]) fastforce
qed

interpretation pull: milestone "\<lambda>c. \<not> is_create_pr c" "tested_pr env inp" for env inp
  by unfold_locales (rule tested_pr_prefix)

lemma tests_run:
  assumes "run_execution_child env inp h s = (x, t)"
  obtains w cmd docker where "as_calls t = as_calls s @ [RunExecutionChild w cmd docker]"
    "x = Inr True \<longrightarrow> (\<exists>v. ae_answer env (as_calls t) = Inr v \<and> child_status (ae_repr env) v = PStr ''passed'')"
  using assms
  by (auto simp: run_execution_child_def aread_def abind_def acatch_def athen_def amodify_def areturn_def await_def Let_def
      split: prod.splits sum.splits)

lemma pull_request_calls:
  obtains tool title descr cs where
    "as_calls (snd (open_pull_request env inp b s)) = as_calls s @ CreatePr tool (blank_if_none (ar_target_repo inp)) b title descr # cs"
    "list_all (\<lambda>c. \<not> is_create_pr c) cs"
proof -
  let ?c = "CreatePr BITBUCKET_CREATE_PR_CLOUD (blank_if_none (ar_target_repo inp)) b (''[bot] '' @ title_or_key inp)
    (or_str (res_rationale (ar_analysis inp)) ''AI-generated change.'')"
  let ?k = "\<lambda>info. abind (alift (extract_pr_id_from_info info)) (\<lambda>new_id. athen (supersede_previous env new_id)
         (athen (amodify (\<lambda>s. case new_id of None \<Rightarrow> s | Some i \<Rightarrow> s\<lparr>as_previous_pr_id := Some i\<rparr>))
         (athen (post_jira_comment_best_effort env (DraftPrOpened (or_str (blank_if_none (extract_pr_url (ae_repr env) info)) b)))
           (maybe_execute_llm_output_actions env inp))))"
  have k: "kept (adds (\<lambda>c. \<not> is_create_pr c)) (?k info)" for info
    by (rule agent_routine.after_pull_request)
  obtain x s1 where m: "critical_call env ?c ''bitbucket_open_pr_failed'' s = (x, s1)" by fastforce
  have "as_calls s1 = as_calls s @ [?c]" using calls_critical [of env ?c "''bitbucket_open_pr_failed''" s] unfolding m by simp
  moreover have "adds (\<lambda>c. \<not> is_create_pr c) s1 (snd (open_pull_request env inp b s))"
    using kept_snd [OF k, of s1] unfolding open_pull_request_def abind_def [of "critical_call env ?c w" for w] m
    by (cases x) (simp_all add: adding.refl)
  ultimately show thesis using that by (auto simp: adds_def)
qed

lemma after_commit_pr:
  assumes "as_calls s1 = as_calls s @ [commit_call inp b fs msg]"
  shows "reaches (\<lambda>c. \<not> is_create_pr c) (tested_pr env inp) s (snd (after_commit env inp wt b h s1))"
proof (cases wt)
  case False
  have "kept (adds (\<lambda>c. \<not> is_create_pr c)) (after_commit env inp False b h)" by (rule agent_routine.after_untested_commit)
  from kept_snd [OF this, of s1] have "adds (\<lambda>c. \<not> is_create_pr c) s (snd (after_commit env inp False b h s1))"
    using assms by (auto simp: adds_def commit_call_def)
  then show ?thesis using False by (simp add: pull.none)
next
  case True
  obtain x s2 where r: "run_execution_child env inp h s1 = (x, s2)" by fastforce
  obtain w cmd docker where t: "as_calls s2 = as_calls s1 @ [RunExecutionChild w cmd docker]"
    "x = Inr True \<longrightarrow> (\<exists>v. ae_answer env (as_calls s2) = Inr v \<and> child_status (ae_repr env) v = PStr ''passed'')"
    by (rule tests_run [OF r])
  have s2: "adds (\<lambda>c. \<not> is_create_pr c) s s2" using assms t(1) by (simp add: adds_def commit_call_def)
  show ?thesis
  proof (cases "x = Inr True")
    case passed: True
    obtain tool title descr q where q:
      "as_calls (snd (open_pull_request env inp b s2)) = as_calls s2 @ CreatePr tool (blank_if_none (ar_target_repo inp)) b title descr # q"
      "list_all (\<lambda>c. \<not> is_create_pr c) q" by (rule pull_request_calls)
    have step: "after_commit env inp wt b h s1 = open_pull_request env inp b s2" using True passed r by (simp add: after_commit_def abind_def)
    from t(2) passed obtain v where v: "ae_answer env (as_calls s2) = Inr v" "child_status (ae_repr env) v = PStr ''passed''" by blast
    have "tested_pr env inp (as_calls s) ([] @ [commit_call inp b fs msg, RunExecutionChild w cmd docker,
        CreatePr tool (blank_if_none (ar_target_repo inp)) b title descr] @ q)"
      unfolding tested_pr_def using q(2) v t(1) assms by fastforce
    then show ?thesis unfolding step reaches_def using q(1) t(1) assms by auto
  next
    case False
    then have "adds (\<lambda>c. \<not> is_create_pr c) s2 (snd (after_commit env inp wt b h s1))"
      using True r kept_snd [OF agent_routine.tests_failed [of env b], of s2]
      by (cases x) (auto simp: after_commit_def abind_def adding.refl)
    with s2 show ?thesis by (intro pull.none) (rule adds_trans)
  qed
qed

lemma commit_pr: "reaches (\<lambda>c. \<not> is_create_pr c) (tested_pr env inp) s (snd (commit_and_follow_up env inp wt b fs s))"
proof -
  obtain x s1 where m: "commit_step env inp b fs s = (x, s1)" by fastforce
  show ?thesis
  proof (cases rule: commit_step_calls [of env inp b fs s])
    case 1
    then show ?thesis using m by (auto simp: commit_and_follow_up_def abind_def reaches_def)
  next
    case (2 msg)
    then have s1: "as_calls (s1\<lparr>as_last_commit_branch := Some b\<rparr>) = as_calls s @ [commit_call inp b fs msg]" using m by simp
    have "reaches (\<lambda>c. \<not> is_create_pr c) (tested_pr env inp) s s1"
      using s1 by (intro pull.none) (simp add: adds_def commit_call_def)
    then show ?thesis using after_commit_pr [OF s1] m
      by (cases x) (simp_all add: commit_and_follow_up_def abind_def athen_def amodify_def)
  qed
qed

lemma code_change_pr: "reaches (\<lambda>c. \<not> is_create_pr c) (tested_pr env inp) s (snd (handle_code_change_common env inp wt s))"
proof -
  let ?R = "reaches (\<lambda>c. \<not> is_create_pr c) (tested_pr env inp)"
  have scanned: "?R t (snd (athen (scan_files env out fs) (commit_and_follow_up env inp wt b fs) t))" for t out fs b
    unfolding athen_def by (rule pull.bind [OF agent_routine.scan commit_pr])
  have files: "?R t (snd (generate_and_commit env inp wt b t))" for t b
    unfolding generate_and_commit_def
    by (rule pull.bind [OF agent_routine.files]) (auto intro: scanned pull.others [OF agent_routine.no_files])
  show ?thesis unfolding handle_code_change_common_def athen_def
    by (rule pull.bind [OF agent_routine.assignee], rule pull.bind [OF agent_routine.branch_rules])
       (auto simp: aread_def araise_def files pull.same split: sum.splits)
qed

lemma dispatch_pr: "reaches (\<lambda>c. \<not> is_create_pr c) (tested_pr env inp) s (snd (dispatch_workflow_type env inp s))"
  by (rule dispatch_reaches [OF pull.others [OF agent_routine.not_code] code_change_pr])

lemma trace_pr:
  obtains cs tail where "agent_trace env inp = cs @ tail" "list_all (\<lambda>c. \<not> is_create_pr c) tail"
    "list_all (\<lambda>c. \<not> is_create_pr c) cs \<or> tested_pr env inp [] cs"
proof (cases rule: run_agent_cases [of env inp])
  case (refused why s)
  then show thesis by (intro that [of "[]" "[]"]) (simp_all add: agent_trace_def)
next
  case (dispatched s)
  let ?x = "dispatch_workflow_type env inp s"
  have "\<exists>tail. as_calls (snd (conclude env ?x)) = as_calls (snd ?x) @ tail \<and> list_all (\<lambda>c. \<not> is_create_pr c) tail"
    by (cases rule: conclude_calls [of env ?x]) auto
  then show thesis using that dispatch_pr [of env inp s] dispatched(1,2) by (auto simp: reaches_def agent_trace_def)
qed

lemma pr_not_member: "list_all (\<lambda>c. \<not> is_create_pr c) cs \<Longrightarrow> CreatePr tool repo b title descr \<notin> set cs"
  by (induction cs) auto

text \<open>
  C5. The pull request that the coding step of the workflow opens is for tested code: a run makes at most one call that
  creates it, right after an execution whose status was \<open>passed\<close>, which came right after the commit of the same branch of
  the same repository. The claim is about these calls alone: a pull request that an output action of the analysis asks for is
  another call, and nothing is executed before it.
\<close>

theorem pull_requests_are_tested:
  assumes "CreatePr tool repo b title descr \<in> set (agent_trace env inp)"
  shows "\<exists>pre src fs msg w cmd docker v post.
    agent_trace env inp = pre @ [CommitViaGit repo b src fs msg, RunExecutionChild w cmd docker, CreatePr tool repo b title descr] @ post \<and>
    ae_answer env (pre @ [CommitViaGit repo b src fs msg, RunExecutionChild w cmd docker]) = Inr v \<and>
    child_status (ae_repr env) v = PStr ''passed'' \<and> list_all (\<lambda>c. \<not> is_create_pr c) (pre @ post)"
proof -
  obtain cs tail where tr: "agent_trace env inp = cs @ tail" "list_all (\<lambda>c. \<not> is_create_pr c) tail"
    "list_all (\<lambda>c. \<not> is_create_pr c) cs \<or> tested_pr env inp [] cs" by (rule trace_pr)
  with assms have "tested_pr env inp [] cs" by (auto simp: pr_not_member)
  then obtain p b' fs msg w cmd docker v tool' title' descr' q where c:
    "cs = p @ [commit_call inp b' fs msg, RunExecutionChild w cmd docker, CreatePr tool' (blank_if_none (ar_target_repo inp)) b' title' descr'] @ q"
    "list_all (\<lambda>c. \<not> is_create_pr c) (p @ q)"
    "ae_answer env (p @ [commit_call inp b' fs msg, RunExecutionChild w cmd docker]) = Inr v"
    "child_status (ae_repr env) v = PStr ''passed''"
    unfolding tested_pr_def by auto
  have rest: "list_all (\<lambda>c. \<not> is_create_pr c) (p @ q @ tail)" using c(2) tr(2) by simp
  from pr_not_member [OF rest] assms tr(1) c(1)
  have eq: "tool' = tool" "blank_if_none (ar_target_repo inp) = repo" "b' = b" "title' = title" "descr' = descr"
    by (auto simp: commit_call_def)
  show ?thesis
    by (rule exI [of _ p], rule exI [of _ "source_branch_of (blank_if_none (ar_target_branch inp))"])
       (use c tr(1) rest in \<open>auto simp: eq [symmetric] commit_call_def\<close>)
qed

lemma coding_trace_pr:
  "CreatePr BITBUCKET_CREATE_PR_CLOUD ''repo'' ''ai/AB-1'' ''[bot] Title'' ''PR 7'' \<in> set (agent_trace coding_env coding_input)"
  by code_simp

theorem pull_requests_are_tested_witness:
  "\<exists>pre repo b src fs msg w cmd docker post v pr.
    agent_trace coding_env coding_input = pre @ [CommitViaGit repo b src fs msg, RunExecutionChild w cmd docker, pr] @ post \<and>
    ae_answer coding_env (pre @ [CommitViaGit repo b src fs msg, RunExecutionChild w cmd docker]) = Inr v \<and>
    child_status (ae_repr coding_env) v = PStr ''passed'' \<and> is_create_pr pr"
  using pull_requests_are_tested [OF coding_trace_pr] is_create_pr.simps(1) by metis

end
