(* ===== verification/Agent_Epics.thy ===== *)
theory Agent_Epics
  imports Agent_Trace "HOL-Library.Sublist"
begin

text \<open>
  The epics of the agent runner: subtasks run one after the other, in the order the epic lists them, and the first that
  does not end well is the last.
\<close>

section \<open>Children of a run\<close>

fun child_key :: "agent_call \<Rightarrow> pystr option" where
  "child_key (RunGatewayChild w i) = Some (aw_issue_key i)"
| "child_key _ = None"

definition child_keys :: "agent_call list \<Rightarrow> pystr list" where
  "child_keys cs = List.map_filter child_key cs"

definition accepted :: "agent_env \<Rightarrow> agent_call list \<Rightarrow> bool" where
  \<comment> \<open>the last of the calls is a child that ended well\<close>
  "accepted env cs \<longleftrightarrow>
     (case ae_answer env cs of Inl e \<Rightarrow> False | Inr v \<Rightarrow> extract_child_decision (ae_repr env) v \<notin> set STOPPING_DECISIONS)"

fun children_ok :: "agent_env \<Rightarrow> bool \<Rightarrow> agent_call list \<Rightarrow> agent_call list \<Rightarrow> bool" where
  \<comment> \<open>after the given calls: every child ended well, but for the last one unless the flag is set\<close>
  "children_ok env b before [] = True"
| "children_ok env b before (c # cs) \<longleftrightarrow>
     (child_key c = None \<or> child_keys cs = [] \<and> \<not> b \<or> accepted env (before @ [c])) \<and> children_ok env b (before @ [c]) cs"

lemma child_keys_append [simp]: "child_keys (xs @ ys) = child_keys xs @ child_keys ys"
  by (simp add: child_keys_def List.map_filter_def)

lemma child_keys_simps [simp]:
  "child_keys [] = []" "child_keys (RunGatewayChild w i # cs) = aw_issue_key i # child_keys cs"
  "child_key c = None \<Longrightarrow> child_keys (c # cs) = child_keys cs"
  by (simp_all add: child_keys_def)

lemma no_children: "list_all (\<lambda>c. child_key c = None) cs \<Longrightarrow> child_keys cs = []"
  by (induction cs) auto

lemma children_ok_skip:
  "list_all (\<lambda>c. child_key c = None) p \<Longrightarrow> children_ok env b before (p @ cs) = children_ok env b (before @ p) cs"
  by (induction p arbitrary: before) auto

lemma children_ok_end:
  "list_all (\<lambda>c. child_key c = None) q \<Longrightarrow> children_ok env b before (cs @ q) = children_ok env b before cs"
proof (induction cs arbitrary: before)
  case Nil
  then show ?case using children_ok_skip [of q env b before "[]"] by simp
next
  case (Cons c cs)
  then show ?case by (simp add: no_children)
qed

lemma children_ok_weaken: "children_ok env True before cs \<Longrightarrow> children_ok env b before cs"
  by (induction cs arbitrary: before) auto

lemma auxiliary_no_child: "list_all auxiliary cs \<Longrightarrow> list_all (\<lambda>c. child_key c = None) cs"
proof -
  have "auxiliary c \<Longrightarrow> child_key c = None" for c by (cases c) simp_all
  then show "list_all auxiliary cs \<Longrightarrow> list_all (\<lambda>c. child_key c = None) cs" by (auto simp: list_all_iff)
qed

section \<open>Subtasks\<close>

definition epic_progress :: "agent_env \<Rightarrow> pystr list \<Rightarrow> bool \<Rightarrow> agent_state \<Rightarrow> agent_state \<Rightarrow> bool" where
  \<comment> \<open>a prefix of the subtasks has run, all of them when the run went on\<close>
  "epic_progress env ks ok s t \<longleftrightarrow>
     (\<exists>cs. as_calls t = as_calls s @ cs \<and> children_ok env ok (as_calls s) cs \<and> prefix (child_keys cs) ks \<and> (ok \<longrightarrow> child_keys cs = ks))"

lemma adds_auxiliary_comment: "adds auxiliary s (snd (post_jira_comment_best_effort env c s))"
  by (rule kept_snd [OF agent_reports.comment])

lemma comment_succeeds: "\<exists>t. post_jira_comment_best_effort env c s = (Inr (), t)"
  by (auto simp: post_jira_comment_best_effort_def acatch_def athen_def abind_def areturn_def record_partial_failure_def amodify_def
      split: prod.splits sum.splits)

lemma progress_stopped:
  assumes "as_calls s1 = as_calls s @ [RunGatewayChild w i]" "aw_issue_key i = k" "adds auxiliary s1 t"
  shows "epic_progress env (k # ks) False s t"
proof -
  obtain q where q: "as_calls t = as_calls s @ RunGatewayChild w i # q" "list_all (\<lambda>c. child_key c = None) q"
    using assms auxiliary_no_child by (auto simp: adds_def)
  moreover have "children_ok env False (as_calls s) (RunGatewayChild w i # q)"
    using q(2) children_ok_end [OF q(2), of env False _ "[]"] by (simp add: no_children)
  ultimately show ?thesis using assms(2) by (auto simp: epic_progress_def no_children)
qed

lemma progress_next:
  assumes "as_calls s1 = as_calls s @ [RunGatewayChild w i]" "aw_issue_key i = k" "accepted env (as_calls s1)"
    and "adds auxiliary s1 s2" "epic_progress env ks ok s2 t"
  shows "epic_progress env (k # ks) ok s t"
proof -
  obtain p where p: "as_calls s2 = as_calls s1 @ p" "list_all (\<lambda>c. child_key c = None) p"
    using assms(4) auxiliary_no_child by (auto simp: adds_def)
  obtain cs where cs: "as_calls t = as_calls s2 @ cs" "children_ok env ok (as_calls s2) cs" "prefix (child_keys cs) ks" "ok \<longrightarrow> child_keys cs = ks"
    using assms(5) by (auto simp: epic_progress_def)
  have "children_ok env ok (as_calls s) (RunGatewayChild w i # p @ cs)"
    using assms(1,3) p cs(2) by (simp add: children_ok_skip [OF p(2)])
  then show ?thesis using assms(1,2) p cs(1,3,4) unfolding epic_progress_def
    by (intro exI [of _ "RunGatewayChild w i # p @ cs"]) (simp add: no_children)
qed

lemma subtask_call:
  assumes "acatch (abind (await env c) (\<lambda>v. areturn (f v))) h s = (x, t)"
  obtains e s1 where "as_calls s1 = as_calls s @ [c]" "h (BodyError e) s1 = (x, t)"
    | v where "as_calls t = as_calls s @ [c]" "x = Inr (f v)" "ae_answer env (as_calls t) = Inr v"
proof -
  obtain y s1 where a: "await env c s = (y, s1)" by fastforce
  have s1: "as_calls s1 = as_calls s @ [c]" by (rule await_calls [OF a])
  have y: "y = (case ae_answer env (as_calls s1) of Inl e \<Rightarrow> Inl (BodyError e) | Inr v \<Rightarrow> Inr v)"
    using a s1 by (auto simp: await_def Let_def split: sum.splits)
  show thesis
  proof (cases "ae_answer env (as_calls s1)")
    case (Inl e)
    then show thesis using that(1) [OF s1, of e] a y assms by (simp add: acatch_def abind_def)
  next
    case (Inr v)
    then show thesis using that(2) [of v] s1 a y assms by (simp add: acatch_def abind_def areturn_def)
  qed
qed

lemma stop_epic_result: "stop_epic env k c s = (x, t) \<Longrightarrow> (\<exists>e. x = Inl e) \<and> adds auxiliary s t"
  using kept_snd [OF agent_reports.stop, of s env k c] comment_succeeds
  by (auto simp: stop_epic_def athen_def abind_def amodify_def araise_def split: prod.splits sum.splits)

lemma subtasks_progress:
  "run_subtasks env inp cnt n ks s = (x, t) \<Longrightarrow> epic_progress env ks (x = Inr ()) s t"
proof (induction ks arbitrary: n s)
  case Nil
  then show ?case by (simp add: areturn_def epic_progress_def)
next
  case (Cons k ks)
  let ?c = "RunGatewayChild (subtask_workflow_id env inp k n) (subtask_child_input inp k)"
  have key: "aw_issue_key (subtask_child_input inp k) = k" by (simp add: subtask_child_input_def)
  let ?m = "acatch (abind (await env ?c) (\<lambda>v. areturn (extract_child_decision (ae_repr env) v)))
    (\<lambda>_. stop_epic env k (SubtaskFailed k n cnt (cnt - (n + 1))))"
  obtain y s1 where m: "?m s = (y, s1)" by fastforce
  show ?case using m
  proof (cases rule: subtask_call)
    case (1 e s0)
    then obtain e where "y = Inl e" "adds auxiliary s0 s1" using stop_epic_result by blast
    with Cons.prems m have "x = Inl e" "t = s1" by (simp_all add: abind_def)
    then show ?thesis using progress_stopped [OF 1(1) key \<open>adds auxiliary s0 s1\<close>] by simp
  next
    case (2 v)
    show ?thesis
    proof (cases "extract_child_decision (ae_repr env) v \<in> set STOPPING_DECISIONS")
      case True
      with Cons.prems m 2 obtain c where "stop_epic env k c s1 = (x, t)" by (auto simp: abind_def)
      then obtain e where "x = Inl e" "adds auxiliary s1 t" using stop_epic_result by blast
      then show ?thesis using progress_stopped [OF 2(1) key] by simp
    next
      case False
      obtain s2 where s2: "post_jira_comment_best_effort env (SubtaskDone (n + 1) cnt k) s1 = (Inr (), s2)" using comment_succeeds by blast
      with Cons.prems m 2 False have "run_subtasks env inp cnt (n + 1) ks s2 = (x, t)" by (simp add: abind_def athen_def)
      from Cons.IH [OF this] show ?thesis
        using progress_next [OF 2(1) key] False 2(3) adds_auxiliary_comment [of s1 env "SubtaskDone (n + 1) cnt k"] s2
        by (simp add: accepted_def)
    qed
  qed
qed

section \<open>The epic\<close>

lemma await_then_critical:
  assumes "critical_call env c why s = (x, t)"
  shows "as_calls t = as_calls s @ [c]" "x = Inr v \<Longrightarrow> ae_answer env (as_calls t) = Inr v"
  using assms
  by (auto simp: critical_call_def acatch_def fail_with_def athen_def abind_def amodify_def araise_def await_def Let_def
      split: sum.splits prod.splits)

definition epic_keys :: "agent_env \<Rightarrow> pystr list" where
  \<comment> \<open>the subtasks the epic lists\<close>
  "epic_keys env = (case ae_answer env [SetAssignee, ListEpicChildren] of Inl e \<Rightarrow> [] | Inr v \<Rightarrow> normalise_epic_children (ae_repr env) v)"

lemma progress_idle: "adds auxiliary s t \<Longrightarrow> epic_progress env ks False s t \<and> (ks = [] \<longrightarrow> epic_progress env ks ok s t)"
proof -
  assume "adds auxiliary s t"
  then obtain cs where cs: "as_calls t = as_calls s @ cs" "list_all (\<lambda>c. child_key c = None) cs"
    using auxiliary_no_child by (auto simp: adds_def)
  then have "children_ok env b (as_calls s) cs" for b using children_ok_end [OF cs(2), of env b _ "[]"] by simp
  then show ?thesis using cs by (auto simp: epic_progress_def no_children)
qed

lemma progress_then:
  assumes "epic_progress env ks ok s t" "adds auxiliary t u" "ok' \<Longrightarrow> ok"
  shows "epic_progress env ks ok' s u"
proof -
  obtain cs where cs: "as_calls t = as_calls s @ cs" "children_ok env ok (as_calls s) cs" "prefix (child_keys cs) ks" "ok \<longrightarrow> child_keys cs = ks"
    using assms(1) by (auto simp: epic_progress_def)
  obtain q where q: "as_calls u = as_calls t @ q" "list_all (\<lambda>c. child_key c = None) q"
    using assms(2) auxiliary_no_child by (auto simp: adds_def)
  have "children_ok env ok' (as_calls s) (cs @ q)"
    using cs(2) assms(3) children_ok_weaken [of env "as_calls s" cs] by (cases ok; cases ok') (simp_all add: children_ok_end [OF q(2)])
  then show ?thesis using cs q assms(3) unfolding epic_progress_def by (intro exI [of _ "cs @ q"]) (auto simp: no_children)
qed

lemma progress_from:
  assumes "as_calls s1 = as_calls s @ p" "list_all (\<lambda>c. child_key c = None) p" "epic_progress env ks ok s1 t"
  shows "epic_progress env ks ok s t"
proof -
  obtain cs where "as_calls t = as_calls s1 @ cs" "children_ok env ok (as_calls s1) cs" "prefix (child_keys cs) ks" "ok \<longrightarrow> child_keys cs = ks"
    using assms(3) by (auto simp: epic_progress_def)
  then show ?thesis using assms(1,2) children_ok_skip [OF assms(2), of env ok "as_calls s" cs]
    unfolding epic_progress_def by (intro exI [of _ "p @ cs"]) (simp add: no_children)
qed

lemma after_subtasks:
  "kept (adds auxiliary) (athen (post_jira_comment_best_effort env c) (maybe_execute_llm_output_actions env inp))"
  by (rule adding.and_then agent_reports.comment agent_reports.output_actions)+

lemma no_subtasks:
  "kept (adds auxiliary) (athen (amodify (\<lambda>s. s\<lparr>as_failure_reason := Some ''epic_no_subtasks''\<rparr>)) (post_jira_comment_best_effort env EpicEmpty))"
  by (rule adding.and_then adding.modify agent_reports.comment | simp add: core_simps)+

lemma listed_progress:
  assumes "(if keys = [] then athen (amodify (\<lambda>s. s\<lparr>as_failure_reason := Some ''epic_no_subtasks''\<rparr>)) (post_jira_comment_best_effort env EpicEmpty)
      else athen (run_subtasks env inp (length keys) 0 keys)
        (athen (post_jira_comment_best_effort env c) (maybe_execute_llm_output_actions env inp))) s = (x, t)"
  shows "epic_progress env keys (x = Inr ()) s t"
proof (cases "keys = []")
  case True
  with assms kept_snd [OF no_subtasks, of s env] have "adds auxiliary s t" by simp
  with True progress_idle show ?thesis by blast
next
  case False
  obtain y s1 where r: "run_subtasks env inp (length keys) 0 keys s = (y, s1)" by fastforce
  note p = subtasks_progress [OF r]
  show ?thesis
  proof (cases y)
    case (Inl e)
    with assms False r p show ?thesis by (auto simp: athen_def abind_def)
  next
    case (Inr u)
    with assms False r have "athen (post_jira_comment_best_effort env c) (maybe_execute_llm_output_actions env inp) s1 = (x, t)"
      by (simp add: athen_def [of "run_subtasks env inp n i ks" for n i ks] abind_def)
    with kept_snd [OF after_subtasks, of s1 env c inp] have "adds auxiliary s1 t" by simp
    from progress_then [OF p this] Inr show ?thesis by simp
  qed
qed

lemma epic_handled:
  assumes "handle_multi_step env inp s = (x, t)" "as_calls s = []"
  shows "epic_progress env (epic_keys env) (x = Inr ()) s t"
proof -
  obtain y s1 where a: "set_assignee env s = (y, s1)" by fastforce
  have c1: "as_calls s1 = [SetAssignee]" using await_then_critical(1) [OF a [unfolded set_assignee_def]] assms(2) by simp
  show ?thesis
  proof (cases y)
    case (Inl e)
    then have "x = Inl e" "t = s1" using assms(1) a by (simp_all add: handle_multi_step_def athen_def abind_def)
    moreover have "adds auxiliary s s1" using assms(2) c1 by (simp add: adds_def)
    ultimately show ?thesis using progress_idle by auto
  next
    case (Inr v)
    obtain z s2 where l: "critical_call env ListEpicChildren ''epic_children_lookup_failed'' s1 = (z, s2)" by fastforce
    have c2: "as_calls s2 = as_calls s @ [SetAssignee, ListEpicChildren]" using await_then_critical(1) [OF l] c1 assms(2) by simp
    have step: "handle_multi_step env inp s = (case z of Inl e \<Rightarrow> (Inl e, s2) | Inr w \<Rightarrow>
      (let keys = normalise_epic_children (ae_repr env) w
       in if keys = [] then athen (amodify (\<lambda>s. s\<lparr>as_failure_reason := Some ''epic_no_subtasks''\<rparr>)) (post_jira_comment_best_effort env EpicEmpty)
          else athen (run_subtasks env inp (length keys) 0 keys) (athen (post_jira_comment_best_effort env (EpicDone (length keys) (length keys)))
                 (maybe_execute_llm_output_actions env inp))) s2)"
      using a Inr by (simp add: handle_multi_step_def athen_def [of "set_assignee env"] abind_def l)
    show ?thesis
    proof (cases z)
      case failed: (Inl e)
      then have "epic_progress env (epic_keys env) False s2 s2" using progress_idle [of s2 s2] adding.refl by blast
      then show ?thesis using progress_from [OF c2, of env "epic_keys env" False t] step assms(1) failed by simp
    next
      case (Inr w)
      then have "epic_keys env = normalise_epic_children (ae_repr env) w"
        using await_then_critical(2) [OF l] c2 assms(2) by (simp add: epic_keys_def)
      then have "epic_progress env (epic_keys env) (x = Inr ()) s2 t"
        using listed_progress [of "epic_keys env" env inp _ s2 x t] step assms(1) Inr by (simp only: sum.case Let_def)
      then show ?thesis using progress_from [OF c2] by simp
    qed
  qed
qed

lemma conclude_completed:
  "ro_status (fst (conclude env r)) \<in> set [''completed'', ''completed_with_partial_failure''] \<Longrightarrow> fst r = Inr ()"
  by (cases r; cases "fst r"; cases "projl (fst r)")
     (auto simp: conclude_def handle_cancel_def handle_output_action_critical_def Let_def)

lemma conclude_children:
  "\<exists>q. as_calls (snd (conclude env x)) = as_calls (snd x) @ q \<and> list_all (\<lambda>c. child_key c = None) q"
  by (cases rule: conclude_calls [of env x]) auto

text \<open>
  C15. The subtasks of an epic run one after the other in the order the epic lists them, and each starts only after all
  before it were dispatched or completed: a child that fails, is denied or is out of scope is the last one. When the
  run ends as completed, every listed subtask has run and ended well.
\<close>

theorem epics_run_in_order:
  assumes "ar_workflow_type inp = ''multi_step''"
  shows "children_ok env False [] (agent_trace env inp) \<and> prefix (child_keys (agent_trace env inp)) (epic_keys env) \<and>
    (ro_status (agent_output env inp) \<in> set [''completed'', ''completed_with_partial_failure''] \<longrightarrow>
      children_ok env True [] (agent_trace env inp) \<and> child_keys (agent_trace env inp) = epic_keys env)"
proof (cases rule: run_agent_cases [of env inp])
  case (refused why s)
  then show ?thesis by (simp add: agent_trace_def agent_output_def)
next
  case (dispatched s)
  obtain x t where d: "dispatch_workflow_type env inp s = (x, t)" by fastforce
  then have "handle_multi_step env inp s = (x, t)" using assms by (simp add: dispatch_workflow_type_def)
  from epic_handled [OF this dispatched(2)] dispatched(2) obtain cs where cs: "as_calls t = cs" "children_ok env (x = Inr ()) [] cs"
    "prefix (child_keys cs) (epic_keys env)" "x = Inr () \<longrightarrow> child_keys cs = epic_keys env" by (auto simp: epic_progress_def)
  obtain q where q: "agent_trace env inp = cs @ q" "list_all (\<lambda>c. child_key c = None) q"
    using conclude_children [of env "(x, t)"] cs(1) by (auto simp: agent_trace_def dispatched(1) d)
  have "children_ok env False [] cs" using cs(2) children_ok_weaken by (cases "x = Inr ()") simp_all
  moreover have "children_ok env True [] cs \<and> child_keys cs = epic_keys env" if "ro_status (agent_output env inp) \<in> set [''completed'', ''completed_with_partial_failure'']"
    using conclude_completed [of env "(x, t)"] that cs(2,4) by (simp add: agent_output_def dispatched(1) d)
  ultimately show ?thesis using cs(3) q(1) by (simp add: children_ok_end [OF q(2)] no_children [OF q(2)] del: list.set)
qed

definition epic_env :: agent_env where
  "epic_env =
     scripted_env (\<lambda>c. case c of
         ListEpicChildren \<Rightarrow> Inr (PList [PDict [(''key'', PStr ''AB-2'')], PDict [(''key'', PStr ''AB-3'')], PDict [(''key'', PStr ''AB-4'')]])
       | RunGatewayChild w i \<Rightarrow> Inr (PDict [(''decision'', PStr (if aw_issue_key i = ''AB-3'' then ''Denied'' else ''dispatched''))])
       | _ \<Rightarrow> Inr PNone) (\<lambda>_. [])"

theorem epics_run_in_order_witness:
  "child_keys (agent_trace epic_env (sample_input ''multi_step'')) = [''AB-2'', ''AB-3''] \<and>
   ro_status (agent_output epic_env (sample_input ''multi_step'')) = ''failed'' \<and>
   children_ok epic_env False [] (agent_trace epic_env (sample_input ''multi_step''))"
proof -
  have "ar_workflow_type (sample_input ''multi_step'') = ''multi_step''" by code_simp
  from epics_run_in_order [OF this, of epic_env] have "children_ok epic_env False [] (agent_trace epic_env (sample_input ''multi_step''))" by blast
  moreover have "child_keys (agent_trace epic_env (sample_input ''multi_step'')) = [''AB-2'', ''AB-3'']" by code_simp
  moreover have "ro_status (agent_output epic_env (sample_input ''multi_step'')) = ''failed''" by code_simp
  ultimately show ?thesis by simp
qed

end
