(* ===== verification/Agent_Properties.thy ===== *)
theory Agent_Properties
  imports Agent_Scan Agent_Epics
begin

text \<open>
  What a run of the agent runner guarantees, whatever its activities answer and whenever signals arrive: bounds on
  iterations and prompts; and where the handlers do not do what they are meant to.
\<close>

section \<open>Iterations\<close>

text \<open>
  C16. Whatever signals arrive, a run never counts more than five iterations; only a run that is started beyond the
  limit reports the number it was started with, and it stops at once as out of scope, without a single call.
\<close>

theorem agent_iterations_bounded:
  "ro_iter_count (agent_output env inp) \<le> Agent_State.MAX_ITER \<or>
   ro_iter_count (agent_output env inp) = ar_iteration inp - 1 \<and>
   ro_status (agent_output env inp) = ''out_of_scope'' \<and> agent_trace env inp = []"
proof (cases rule: run_agent_cases [of env inp])
  case (refused why s)
  then show ?thesis by (auto simp: agent_output_def agent_trace_def Agent_State.MAX_ITER_def max_def)
next
  case (dispatched s)
  have "iter_count (as_iter (snd (dispatch_workflow_type env inp s))) \<le> Agent_State.MAX_ITER"
    by (rule progress_iter [OF kept_snd [OF agent_progress.dispatch] dispatched(4)])
  then have "ro_iter_count (agent_output env inp) \<le> Agent_State.MAX_ITER"
    using conclude_iter output_iter by (simp add: agent_output_def dispatched(1))
  then show ?thesis by simp
qed

section \<open>Prompts\<close>

definition within_token_cap :: "agent_env \<Rightarrow> agent_call \<Rightarrow> bool" where
  "within_token_cap env c \<longleftrightarrow> (case llm_size env c of None \<Rightarrow> True | Some n \<Rightarrow> n \<le> MAX_ACTIVITY_TOKEN_CAP)"

lemma within_token_cap_plain [simp]:
  "within_token_cap env (PrecommitScan d)" "within_token_cap env (CommitViaGit repo b src fs msg)"
  "within_token_cap env (CompensationRun a r w)" "within_token_cap env (AuditEmit x i)"
  by (simp_all add: within_token_cap_def llm_size_def)

lemma permitted_within_cap: "list_all (permitted env) cs \<Longrightarrow> list_all (within_token_cap env) cs"
  by (auto simp: list_all_iff permitted_def within_token_cap_def)

lemma clean_commit_within_cap: "clean_commit env inp before cs \<Longrightarrow> list_all (within_token_cap env) cs"
  unfolding clean_commit_def by (auto dest!: permitted_within_cap simp: commit_call_def)

lemma conclude_within_cap:
  "list_all (within_token_cap env) (as_calls (snd x)) \<Longrightarrow> list_all (within_token_cap env) (as_calls (snd (conclude env x)))"
  by (cases rule: conclude_calls [of env x]) auto

text \<open>
  No call of an LLM in a run exceeds the cap of 8000 tokens, estimated at four characters each: the prompts of code
  generation, the diff under review, the question of an explanation, the topic and context of a document.
\<close>

theorem prompts_are_bounded:
  "list_all (within_token_cap env) (agent_trace env inp)"
proof (cases rule: run_agent_cases [of env inp])
  case (refused why s)
  then show ?thesis by (simp add: agent_trace_def)
next
  case (dispatched s)
  have "list_all (within_token_cap env) (as_calls (snd (dispatch_workflow_type env inp s)))"
    using dispatch_commit [of env inp s] dispatched(2) permitted_within_cap clean_commit_within_cap by (auto simp: reaches_def)
  then show ?thesis using conclude_within_cap by (simp add: agent_trace_def dispatched(1))
qed

section \<open>Types without a handler\<close>

definition HANDLED_TYPES :: "pystr list" where
  "HANDLED_TYPES =
     [''code_change_with_test'', ''code_change_commit_only'', ''pr_review'', ''confluence_doc_create'', ''confluence_doc_update'',
      ''research_publish_confluence'', ''research_summary_jira'', ''multi_step'']"

fun bookkeeping :: "agent_call \<Rightarrow> bool" where
  \<comment> \<open>the calls that neither fetch nor change anything but a comment and the audit log, and the compensation\<close>
  "bookkeeping (AgentComment c) = (c = IterWarningBanner)"
| "bookkeeping (AuditEmit a i) = True"
| "bookkeeping (CompensationRun a r w) = True"
| "bookkeeping _ = False"

lemma unhandled_dispatch: "ar_workflow_type inp \<notin> set HANDLED_TYPES \<Longrightarrow> dispatch_workflow_type env inp = wait_for_signal env"
  by (simp add: dispatch_workflow_type_def HANDLED_TYPES_def Let_def)

lemma adds_banner: "kept (adds bookkeeping) (maybe_post_iter_warning_banner env)"
  by (rule adding.banner_step) (simp_all add: adds_await)

lemma adds_drain: "kept (adds bookkeeping) (drain_pending_audits env)"
  by (rule adding.drain_step) (simp add: adds_await)

definition pending :: "agent_state \<Rightarrow> agent_state \<Rightarrow> bool" where
  "pending s t \<longleftrightarrow> (as_signal_pending s \<longrightarrow> as_signal_pending t)"

interpretation pending: state_preorder pending
  by unfold_locales (auto simp: pending_def)

lemma pending_signal: "pending s (handle_signal env s x)"
proof -
  obtain now sig where x: "x = (now, sig)" by fastforce
  show ?thesis unfolding x
    by (cases sig) (auto simp: pending_def comment_added_def apply_fix_signal_def apply_explain_signal_def apply_needs_info_signal_def
        cancel_requested_def iter_updates split: prod.splits option.splits)
qed

lemma pending_await: "kept pending (await env c)"
proof -
  have "pending t (foldl (handle_signal env) t xs)" for t xs
    by (rule foldl_closed) (auto intro: pending_signal pending.refl pending.trans)
  from this [of "s\<lparr>as_calls := as_calls s @ [c]\<rparr>" for s] show ?thesis
    by (simp add: kept_def await_def Let_def pending_def split: sum.splits)
qed

lemma pending_reports: "kept pending (maybe_post_iter_warning_banner env)" "kept pending (drain_pending_audits env)"
  unfolding maybe_post_iter_warning_banner_def drain_pending_audits_def
  by (rule kept_aread kept_if pending.and_then pending.catch pending.change pending.return pending.loop pending.audit_entry pending_await
      | simp add: pending_def)+

lemma waiting_rest:
  "kept (adds bookkeeping) (athen (amodify (\<lambda>s. s\<lparr>as_signal_pending := False\<rparr>)) (athen (maybe_post_iter_warning_banner env)
     (athen (drain_pending_audits env)
       (aread (\<lambda>s. if as_cancel_requested s then araise CancelledViaSignal else if as_out_of_scope s then araise OutOfScope else areturn ())))))"
  by (rule kept_aread kept_if adding.and_then adding.modify adding.raise adding.return adds_banner adds_drain | simp add: core_simps)+

lemma waiting_calls:
  assumes "as_signal_pending s"
  shows "adds bookkeeping s (snd (wait_for_signal env s))"
proof -
  obtain x s1 where b: "maybe_post_iter_warning_banner env s = (x, s1)" by fastforce
  have s1: "adds bookkeeping s s1" "as_signal_pending s1"
    using kept_snd [OF adds_banner, of s env] kept_snd [OF pending_reports(1), of s env] assms b by (simp_all add: pending_def)
  show ?thesis
  proof (cases x)
    case (Inl e)
    then show ?thesis using s1 b by (simp add: wait_for_signal_def athen_def abind_def)
  next
    case (Inr u)
    obtain y s2 where d: "drain_pending_audits env s1 = (y, s2)" by fastforce
    have s2: "adds bookkeeping s1 s2" "as_signal_pending s2"
      using kept_snd [OF adds_drain, of s1 env] kept_snd [OF pending_reports(2), of s1 env] s1(2) d by (simp_all add: pending_def)
    have "adds bookkeeping s s2" using adds_trans s1(1) s2(1) by blast
    moreover have "adds bookkeeping s2 (snd (wait_for_signal env s))" if "y = Inr ()"
      using kept_snd [OF waiting_rest, of s2 env] that s2(2) b Inr d
      by (simp add: wait_for_signal_def athen_def abind_def aread_def areturn_def)
    moreover have "snd (wait_for_signal env s) = s2" if "y = Inl e" for e
      using that b Inr d by (simp add: wait_for_signal_def athen_def abind_def)
    ultimately show ?thesis by (cases y) (simp, metis adds_trans old.unit.exhaust)
  qed
qed

lemma conclude_bookkeeping:
  "list_all bookkeeping (as_calls (snd x)) \<Longrightarrow> list_all bookkeeping (as_calls (snd (conclude env x)))"
  by (cases rule: conclude_calls [of env x]) auto

lemma unhandled_trace:
  assumes "ar_workflow_type inp \<notin> set HANDLED_TYPES"
  shows "list_all bookkeeping (agent_trace env inp)"
proof (cases rule: run_agent_cases [of env inp])
  case (refused why s)
  then show ?thesis by (simp add: agent_trace_def)
next
  case (dispatched s)
  then have "list_all bookkeeping (as_calls (snd (dispatch_workflow_type env inp s)))"
    using waiting_calls [of s env] unhandled_dispatch [OF assms] by (auto simp: adds_def)
  then show ?thesis using conclude_bookkeeping by (simp add: agent_trace_def dispatched(1))
qed

lemmas quiet_run = run_agent_def start_agent_def initial_agent_def iter_updates effective_max_iter_def iter_refusal_def should_advance_iter_def
  wait_for_signal_def maybe_post_iter_warning_banner_def drain_pending_audits_def athen_def abind_def aread_def areturn_def amodify_def

lemma quiet_unhandled_run:
  assumes "ar_workflow_type inp \<notin> set HANDLED_TYPES" "ae_signals env [] = []" "ar_iteration inp \<le> 1"
  shows "agent_trace env inp = [] \<and> ro_status (agent_output env inp) = ''completed''"
proof -
  have "0 < effective_max_iter inp" by (simp add: effective_max_iter_def Agent_State.MAX_ITER_def)
  then show ?thesis using assms
    by (simp add: agent_trace_def agent_output_def unhandled_dispatch quiet_run ITER_WARNING_THRESHOLD_def conclude_def
        stopped_agent_def finish_completed_def final_summary_def final_comment_parts_def)
qed

text \<open>
  The dispatch has no handler for the workflow types \<open>research_basic\<close> and \<open>research_with_web\<close>: they wait for a
  signal, and since the start of a run already counts as one, they do not even wait. Such a run only posts the warning
  of the third iteration, audit entries and a compensation; a first run that no signal disturbs makes no call at all
  and is reported as completed.
\<close>

theorem unhandled_types_do_nothing:
  assumes "ar_workflow_type inp \<notin> set HANDLED_TYPES"
  shows "list_all bookkeeping (agent_trace env inp) \<and>
    (ae_signals env [] = [] \<and> ar_iteration inp \<le> 1 \<longrightarrow> agent_trace env inp = [] \<and> ro_status (agent_output env inp) = ''completed'')"
  using unhandled_trace [OF assms] quiet_unhandled_run [OF assms] by blast

theorem unhandled_types_do_nothing_witness:
  "agent_trace coding_env (sample_input ''research_basic'') = [] \<and> ro_status (agent_output coding_env (sample_input ''research_basic'')) = ''completed''"
proof -
  have "ar_workflow_type (sample_input ''research_basic'') \<notin> set HANDLED_TYPES" by code_simp
  moreover have "ae_signals coding_env [] = []" "ar_iteration (sample_input ''research_basic'') \<le> 1" by code_simp+
  ultimately show ?thesis using unhandled_types_do_nothing by blast
qed
section \<open>Pull requests of output actions\<close>

lemma oversized_code [code]: "oversized encode a \<longleftrightarrow> (1048576 :: int) < int (measure_payload_bytes encode (payload a))"
  by (simp add: oversized_def MAX_OUTPUT_BYTES_def)

definition listed_pr_input :: AgentRunnerWorkflowInput where
  "listed_pr_input =
     (let inp = (sample_input ''code_change_commit_only'')\<lparr>ar_target_branch := Some ''ai/AB-1''\<rparr>
      in inp\<lparr>ar_analysis := (ar_analysis inp)
           \<lparr>res_output_actions := [\<lparr>kind = ''bitbucket_create_pr'', severity = ''critical'', payload = [(''title'', PStr ''T'')]\<rparr>]\<rparr>\<rparr>)"

definition is_execution :: "agent_call \<Rightarrow> bool" where
  "is_execution c \<longleftrightarrow> (case c of RunExecutionChild w cmd docker \<Rightarrow> True | _ \<Rightarrow> False)"

text \<open>
  The tests before a pull request are those of the coding step. When the analysis lists a pull request as an output action,
  the run opens it, by the activity \<open>bitbucket_open_pr\<close>, without having executed anything.
\<close>

theorem listed_pull_request_is_untested:
  "list_ex (\<lambda>c. case c of OutputActivity name args \<Rightarrow> name = ''bitbucket_open_pr'' | _ \<Rightarrow> False) (agent_trace coding_env listed_pr_input)
   \<and> \<not> list_ex is_execution (agent_trace coding_env listed_pr_input)
   \<and> ro_status (agent_output coding_env listed_pr_input) = ''completed''"
  by code_simp

end
