(* ===== verification/Agent_Cancellation.thy ===== *)
theory Agent_Cancellation
  imports Agent_Trace
begin

text \<open>
  Cancellation of a run of the agent runner
  (\<^verbatim>\<open>workers/agent-runner-worker/src/agent_runner/workflows/agent_runner_workflow.py\<close>), stated on the signals a run is
  sent: which exceptions the handlers raise (the locale \<open>exceptions\<close>), that the state holds the first cancellation that
  was delivered, and what becomes of it when the run ends.
\<close>

section \<open>Exceptions of the handlers\<close>

named_theorems avoid_rules \<open>steps that do not raise certain exceptions\<close>

definition avoids :: "agent_exn set \<Rightarrow> 'a agent \<Rightarrow> bool" where
  "avoids E m \<longleftrightarrow> (\<forall>s e. fst (m s) = Inl e \<longrightarrow> e \<notin> E)"

lemma avoidsD: "avoids E m \<Longrightarrow> fst (m s) = Inl e \<Longrightarrow> e \<notin> E"
  by (simp add: avoids_def)

lemma avoids_return [avoid_rules]: "avoids E (areturn a)"
  by (simp add: avoids_def areturn_def)

lemma avoids_modify [avoid_rules]: "avoids E (amodify f)"
  by (simp add: avoids_def amodify_def)

lemma avoids_raise: "e \<notin> E \<Longrightarrow> avoids E (araise e)"
  by (simp add: avoids_def araise_def)

lemma avoids_read [avoid_rules]: "(\<And>s. avoids E (f s)) \<Longrightarrow> avoids E (aread f)"
  by (simp add: avoids_def aread_def)

lemma avoids_bind [avoid_rules]: "avoids E m \<Longrightarrow> (\<And>a. avoids E (k a)) \<Longrightarrow> avoids E (abind m k)"
proof -
  assume m: "avoids E m" and k: "\<And>a. avoids E (k a)"
  have "e \<notin> E" if "fst (abind m k s) = Inl e" for s e
    using that avoidsD [OF m, of s] avoidsD [OF k] by (cases "m s"; cases "fst (m s)") (auto simp: abind_def)
  then show ?thesis by (simp add: avoids_def)
qed

lemma avoids_then [avoid_rules]: "avoids E m \<Longrightarrow> avoids E n \<Longrightarrow> avoids E (athen m n)"
  by (simp add: athen_def avoids_bind)

lemma avoids_catch [avoid_rules]: "avoids E m \<Longrightarrow> (\<And>e. e \<notin> E \<Longrightarrow> avoids E (h e)) \<Longrightarrow> avoids E (acatch m h)"
proof -
  assume m: "avoids E m" and h: "\<And>e. e \<notin> E \<Longrightarrow> avoids E (h e)"
  have "e \<notin> E" if "fst (acatch m h s) = Inl e" for s e
    using that avoidsD [OF m, of s] avoidsD [OF h] by (cases "m s"; cases "fst (m s)") (auto simp: acatch_def)
  then show ?thesis by (simp add: avoids_def)
qed

lemma avoids_when [avoid_rules]: "avoids E m \<Longrightarrow> avoids E (awhen b m)"
  by (simp add: awhen_def avoids_return)

lemma avoids_loop [avoid_rules]: "(\<And>x. avoids E (f x)) \<Longrightarrow> avoids E (afor xs f)"
  by (induction xs) (auto intro!: avoid_rules)

lemma avoids_fail [avoid_rules]: "e \<notin> E \<Longrightarrow> avoids E (fail_with why e)"
  unfolding fail_with_def by (intro avoid_rules avoids_raise)

lemma avoids_if [avoid_rules]: "avoids E m \<Longrightarrow> avoids E n \<Longrightarrow> avoids E (if b then m else n)"
  by simp

lemma avoids_case_option [avoid_rules]:
  "avoids E f \<Longrightarrow> (\<And>x. avoids E (g x)) \<Longrightarrow> avoids E (case v of None \<Rightarrow> f | Some x \<Rightarrow> g x)"
  by (cases v) simp_all

lemma avoids_case_prod [avoid_rules]: "(\<And>x y. avoids E (f x y)) \<Longrightarrow> avoids E (case p of (x, y) \<Rightarrow> f x y)"
  by (cases p) simp

lemma avoids_case_sum [avoid_rules]:
  "(\<And>x. avoids E (f x)) \<Longrightarrow> (\<And>x. avoids E (g x)) \<Longrightarrow> avoids E (case v of Inl x \<Rightarrow> f x | Inr x \<Rightarrow> g x)"
  by (cases v) simp_all

lemma avoids_case_list [avoid_rules]:
  "avoids E f \<Longrightarrow> (\<And>x xs. avoids E (g x xs)) \<Longrightarrow> avoids E (case v of [] \<Rightarrow> f | x # xs \<Rightarrow> g x xs)"
  by (cases v) simp_all

lemma avoids_case_exn [avoid_rules]:
  "(\<And>n. avoids E (h n)) \<Longrightarrow> avoids E f \<Longrightarrow> avoids E (case e of TokenCapExceeded n \<Rightarrow> h n | _ \<Rightarrow> f)"
  by (cases e) simp_all

lemma avoids_case_error [avoid_rules]:
  "(\<And>k. avoids E (f k)) \<Longrightarrow> avoids E (case e of UnclassifiedKind k \<Rightarrow> f k)"
  by (cases e) simp

locale exceptions =
  fixes E :: "agent_exn set"
  assumes body: "BodyError m \<notin> E" and tokens: "TokenCapExceeded n \<notin> E" and epic: "EpicSubtaskFailed k \<notin> E"
    and critical: "OutputActionCriticalFailure \<notin> E"
begin

lemma raises [avoid_rules]:
  "avoids E (araise (BodyError m))" "avoids E (araise (TokenCapExceeded n))" "avoids E (araise (EpicSubtaskFailed k))"
  "avoids E (araise OutputActionCriticalFailure)"
  by (simp_all add: avoids_raise body tokens epic critical)

lemmas others [avoid_rules] = body tokens epic critical

lemma lift [avoid_rules]: "avoids E (alift x)"
  by (cases x) (simp_all add: alift_def avoid_rules)

lemma awaits [avoid_rules]: "avoids E (await env c)"
  by (auto simp: avoids_def await_def Let_def body split: sum.splits)

lemma call [avoid_rules]: "avoids E (critical_call env c why)"
  unfolding critical_call_def by (rule avoid_rules | assumption)+

lemma reports [avoid_rules]:
  "avoids E (record_partial_failure k)" "avoids E (emit_audit_action env a)" "avoids E (post_jira_comment_best_effort env c)"
  "avoids E (maybe_post_iter_warning_banner env)" "avoids E (drain_pending_audits env)" "avoids E (set_assignee env)"
  unfolding record_partial_failure_def emit_audit_action_def post_jira_comment_best_effort_def maybe_post_iter_warning_banner_def
    drain_pending_audits_def set_assignee_def
  by (rule avoid_rules)+

lemma llm [avoid_rules]: "avoids E (execute_llm_activity env c n)"
  unfolding execute_llm_activity_def by (rule avoid_rules | simp add: avoid_rules)+

lemma llm_critical [avoid_rules]: "avoids E (critical_llm env c n why)"
  unfolding critical_llm_def by (rule avoid_rules avoids_raise | assumption)+

lemma single_action [avoid_rules]: "avoids E (apply_single_output_action env inp a)"
  unfolding apply_single_output_action_def after_create_pr_def by (rule avoid_rules)+

lemma critical_raise [avoid_rules]: "avoids E (critical_failure r)"
  unfolding critical_failure_def merge_output_actions_into_log_def by (rule avoid_rules)+

lemma critical_actions [avoid_rules]: "avoids E (apply_critical env inp r as)"
  by (induction as arbitrary: r) (auto intro!: avoid_rules simp: case_prod_beta)

lemma best_effort_actions [avoid_rules]: "avoids E (apply_best_effort env inp r as)"
  by (induction as arbitrary: r) (auto intro!: avoid_rules simp: case_prod_beta)

lemma output_actions [avoid_rules]: "avoids E (maybe_execute_llm_output_actions env inp)"
  unfolding maybe_execute_llm_output_actions_def execute_output_actions_def redirect_oversized_payload_def minio_offload_def
    merge_output_actions_into_log_def
  by (rule avoid_rules)+

lemma files [avoid_rules]: "avoids E (generate_files env inp)"
  unfolding generate_files_def generate_code_def Let_def by (rule avoid_rules)+

lemma pull_request [avoid_rules]: "avoids E (open_pull_request env inp b)"
  unfolding open_pull_request_def supersede_previous_def Let_def by (rule avoid_rules)+

lemma follow_up [avoid_rules]: "avoids E (after_commit env inp t b h)"
  unfolding after_commit_def run_execution_child_def Let_def by (rule avoid_rules)+

lemma commit [avoid_rules]: "avoids E (generate_and_commit env inp t b)"
  unfolding generate_and_commit_def commit_and_follow_up_def commit_step_def scan_files_def Let_def by (rule avoid_rules)+

lemma explain [avoid_rules]: "avoids E (maybe_handle_explain env)"
  unfolding maybe_handle_explain_def Let_def by (rule avoid_rules avoids_raise | assumption)+

lemma review [avoid_rules]: "avoids E (handle_pr_review env inp)"
  unfolding handle_pr_review_def post_finding_def Let_def by (rule avoid_rules)+

lemma page [avoid_rules]: "avoids E (create_page env inp t b ls)" "avoids E (page_title env inp)" "avoids E (resolve_jira_issue_link env)"
  unfolding create_page_def page_title_def resolve_jira_issue_link_def by (rule avoid_rules)+

lemma doc_create [avoid_rules]: "avoids E (handle_confluence_doc_create env inp)"
  unfolding handle_confluence_doc_create_def Let_def by (rule avoid_rules)+

lemma sections [avoid_rules]: "avoids E (update_sections env inp p secs)"
  unfolding update_sections_def update_section_def Let_def by (rule avoid_rules)+

lemma doc_update [avoid_rules]: "avoids E (handle_confluence_doc_update env inp)"
  unfolding handle_confluence_doc_update_def Let_def by (rule avoid_rules)+

lemma gather [avoid_rules]: "avoids E (gather_sources env inp)" "avoids E (no_sources_found env)"
  unfolding gather_sources_def no_sources_found_def firecrawl_scrape_with_grace_def Let_def by (rule avoid_rules)+

lemma research [avoid_rules]:
  "avoids E (handle_research_publish_confluence env inp)" "avoids E (handle_research_summary_jira env inp)"
  unfolding handle_research_publish_confluence_def handle_research_summary_jira_def store_summary_def Let_def by (rule avoid_rules)+

lemma stop [avoid_rules]: "avoids E (stop_epic env k c)"
  unfolding stop_epic_def by (rule avoid_rules)+

lemma subtasks [avoid_rules]: "avoids E (run_subtasks env inp cnt n ks)"
  by (induction ks arbitrary: n) (auto intro!: avoid_rules)

lemma epics [avoid_rules]: "avoids E (handle_multi_step env inp)"
  unfolding handle_multi_step_def Let_def by (rule avoid_rules)+

lemma branch_rules: "OutOfScope \<notin> E \<Longrightarrow> avoids E (check_branch_rules env inp)"
  unfolding check_branch_rules_def Let_def by (rule avoid_rules avoids_raise | assumption)+

lemma code_change: "OutOfScope \<notin> E \<Longrightarrow> avoids E (handle_code_change_common env inp t)"
  unfolding handle_code_change_common_def Let_def by (rule avoid_rules branch_rules | assumption)+

end













section \<open>Cancellations that were delivered\<close>















section \<open>The end of a cancelled run\<close>











end
