(* ===== verification/Execution_Run.thy ===== *)
theory Execution_Run
  imports Agent_Values
begin

text \<open>
  The workflows of the execution runner
  (\<^verbatim>\<open>workers/execution-runner-worker/src/workflows/execution_run_workflow.py\<close>): \<open>ExecutionRunWorkflow\<close>, which resolves a
  runner, waits until it is healthy, enforces the disk quota, runs a command over SSH or in a container and cleans up,
  and \<open>LegacyExecutionRunWorkflow\<close>, which also pushes a branch with injected credentials.

  A step maps the awaits made so far to a failure or a value and the awaits after it; the environment answers each
  await as a function of all of them. Activities are called by name and answer decoded JSON values. Timers and the
  timeouts of the command are part of the calls; log lines are not modelled.
\<close>

section \<open>Data\<close>

record execution_request = ExecutionRunWorkflowInput +
  \<comment> \<open>the fields of the input that the gateway leaves at their defaults\<close>
  xr_runner_id :: "pystr option"
  xr_heartbeat :: "int option"
  xr_quota_mb :: "rat option"

datatype exec_failure =
    RunnerResolutionFailed pystr \<comment> \<open>an activity error whose cause has the type \<open>RunnerResolutionError\<close>\<close>
  | ActivityFailed pystr
  | DiskQuotaExceeded
  | GitCredentialInjectionFailed
  | GitPushFailed int
  | PythonError pystr

datatype exec_call =
    ResolveRunner pystr
  | SshHealthcheck pyval "int option" pyval \<comment> \<open>host, port, runner\<close>
  | Sleep int \<comment> \<open>seconds\<close>
  | CheckDiskQuota pystr pystr rat \<comment> \<open>department, base directory, quota\<close>
  | SshRunTest pyval pystr "(pystr \<times> pystr) list" pystr "pystr option" pystr "pystr option" int int
      \<comment> \<open>runner, command, environment, artifact prefix, directory, parent, vault path, timeout, heartbeat\<close>
  | DockerHealthcheck pyval
  | DockerBuild pystr pystr pystr pyval \<comment> \<open>Dockerfile, tag, directory, runner\<close>
  | DockerRun pystr pystr pystr "pystr pydict" pyval \<comment> \<open>tag, command, directory, environment, runner\<close>
  | DockerCleanup pyval pyval pystr bool pyval \<comment> \<open>container, image, policy, success, runner\<close>
  | ApplyCleanupPolicy pystr pyval pystr "pystr option" "pystr option" \<comment> \<open>policy, exit code, directory, container, image\<close>
  | FetchSshCredentials pystr
  | SshConnectAndRun pystr pystr \<comment> \<open>command, directory\<close>
  | InjectGitCredentials pystr
  | CleanupGitCredentials
  | UploadArtifact pystr pystr \<comment> \<open>key, contents\<close>
  | SshCleanup pystr

record exec_env =
  xe_answer :: "exec_call list \<Rightarrow> exec_failure + pyval"
  xe_repr :: "pyval \<Rightarrow> pystr"

section \<open>Steps\<close>

type_synonym 'a exec = "exec_call list \<Rightarrow> (exec_failure + 'a) \<times> exec_call list"

definition xreturn :: "'a \<Rightarrow> 'a exec" where
  "xreturn a cs = (Inr a, cs)"

definition xraise :: "exec_failure \<Rightarrow> 'a exec" where
  "xraise e cs = (Inl e, cs)"

definition xbind :: "'a exec \<Rightarrow> ('a \<Rightarrow> 'b exec) \<Rightarrow> 'b exec" where
  "xbind m k cs = (case m cs of (Inl e, cs') \<Rightarrow> (Inl e, cs') | (Inr a, cs') \<Rightarrow> k a cs')"

definition xthen :: "'a exec \<Rightarrow> 'b exec \<Rightarrow> 'b exec" where
  "xthen m n = xbind m (\<lambda>_. n)"

definition xattempt :: "'a exec \<Rightarrow> (exec_failure + 'a) exec" where
  \<comment> \<open>\<open>try\<close>: the failure becomes a value\<close>
  "xattempt m cs = (case m cs of (x, cs') \<Rightarrow> (Inr x, cs'))"

definition xlift :: "exec_failure + 'a \<Rightarrow> 'a exec" where
  "xlift x cs = (x, cs)"

definition xawait :: "exec_env \<Rightarrow> exec_call \<Rightarrow> pyval exec" where
  "xawait env c cs = (xe_answer env (cs @ [c]), cs @ [c])"

definition xsleep :: "int \<Rightarrow> unit exec" where
  "xsleep n cs = (Inr (), cs @ [Sleep n])"

section \<open>Helpers\<close>

definition forward_slashes :: "pystr \<Rightarrow> pystr" where
  \<comment> \<open>\<^verbatim>\<open>s.replace("\\", "/")\<close>\<close>
  "forward_slashes s = map (\<lambda>c. if c = CHR 0x5C then CHR ''/'' else c) s"

definition is_iter_dir :: "pystr \<Rightarrow> bool" where
  "is_iter_dir p \<longleftrightarrow> starts_with p ''iter-''"

definition resolve_quota_base :: "pystr option \<Rightarrow> pystr" where
  "resolve_quota_base workdir =
     (let normalised = Iteration_Manager.rstrip_slash (forward_slashes (blank_if_none workdir))
      in if normalised = [] then []
         else
           let parts = split_char (CHR ''/'') normalised;
               parts1 = (if is_iter_dir (last parts) then butlast parts else parts);
               parts2 = (if 2 \<le> length parts1 then butlast parts1 else parts1);
               base = join_with ''/'' parts2;
               base' = (if starts_with normalised ''/'' \<and> \<not> starts_with base ''/'' then ''/'' @ base else base)
           in or_str base' normalised)"

definition int_of_str :: "pystr \<Rightarrow> int option" where
  \<comment> \<open>\<open>int(s)\<close>; \<open>None\<close> is the \<open>ValueError\<close>\<close>
  "int_of_str s =
     (let (sg, r) = take_sign (strip s); (ds, rest) = digit_part r
      in if ds = [] \<or> rest \<noteq> [] then None else Some (sg * int (parse_nat ds)))"

definition iteration_from_workdir :: "pystr option \<Rightarrow> int" where
  "iteration_from_workdir workdir =
     (let tail = last (split_char (CHR ''/'') (Iteration_Manager.rstrip_slash (forward_slashes (blank_if_none workdir))))
      in if blank_if_none workdir = [] \<or> \<not> is_iter_dir tail then 0
         else case int_of_str (drop 5 tail) of None \<Rightarrow> 0 | Some v \<Rightarrow> if v \<ge> 0 then v else 0)"

definition coerce_timeout :: "int option \<Rightarrow> int option" where
  "coerce_timeout v = (case v of None \<Rightarrow> None | Some n \<Rightarrow> if n \<le> 0 then None else Some n)"

definition result_field :: "pyval \<Rightarrow> pystr \<Rightarrow> pyval \<Rightarrow> pyval" where
  \<comment> \<open>\<open>_activity_result_field\<close>; a JSON value that is no object has no such attribute\<close>
  "result_field v k dflt = (case v of PDict d \<Rightarrow> get_default d k dflt | _ \<Rightarrow> dflt)"

definition derive_workdir :: "'z ExecutionRunWorkflowInput_scheme \<Rightarrow> pystr option \<Rightarrow> pystr option" where
  "derive_workdir inp base =
     (if blank_if_none base = [] \<or> er_parent_workflow_id inp = [] then er_workdir inp
      else case build_workspace_path (blank_if_none base) (er_parent_workflow_id inp) (iteration_from_workdir (er_workdir inp)) of
             Inl _ \<Rightarrow> er_workdir inp
           | Inr p \<Rightarrow> Some p)"

fun py_float :: "pyval \<Rightarrow> exec_failure + pyfloat" where
  \<comment> \<open>\<open>float(v)\<close>\<close>
  "py_float (PFloat r) = Inr (Fin r)"
| "py_float (PInt i) = Inr (Fin (of_int i))"
| "py_float (PBool b) = Inr (Fin (if b then 1 else 0))"
| "py_float (PStr s) = (case float_of_str s of None \<Rightarrow> Inl (PythonError ''ValueError'') | Some f \<Rightarrow> Inr f)"
| "py_float _ = Inl (PythonError ''TypeError'')"

fun py_int :: "pyval \<Rightarrow> exec_failure + int" where
  \<comment> \<open>\<open>int(v)\<close>\<close>
  "py_int (PInt i) = Inr i"
| "py_int (PBool b) = Inr (if b then 1 else 0)"
| "py_int (PFloat r) = Inr (if 0 \<le> r then \<lfloor>r\<rfloor> else \<lceil>r\<rceil>)"
| "py_int (PStr s) = (case int_of_str s of None \<Rightarrow> Inl (PythonError ''ValueError'') | Some i \<Rightarrow> Inr i)"
| "py_int _ = Inl (PythonError ''TypeError'')"

definition equals_zero :: "pyval \<Rightarrow> bool" where
  \<comment> \<open>\<open>v == 0\<close>\<close>
  "equals_zero v \<longleftrightarrow> v = PInt 0 \<or> v = PBool False \<or> v = PFloat 0"

definition should_cleanup :: "pystr \<Rightarrow> pyval \<Rightarrow> pystr + bool" where
  "should_cleanup policy exit_code =
     (if policy = ''always'' then Inr True
      else if policy = ''on_success'' then Inr (equals_zero exit_code)
      else if policy = ''never'' then Inr False
      else Inl ''ValueError'')"

section \<open>Choosing and probing a runner\<close>

record resolution =
  rr_id :: pyval
  rr_vault_path :: "pystr option"
  rr_base_path :: "pystr option"
  rr_host :: pyval
  rr_port :: "int option"

definition no_resolution :: "pystr option \<Rightarrow> resolution" where
  "no_resolution runner =
     \<lparr>rr_id = (case runner of None \<Rightarrow> PNone | Some r \<Rightarrow> PStr r), rr_vault_path = None, rr_base_path = None,
      rr_host = PNone, rr_port = None\<rparr>"

definition read_resolution :: "pyval \<Rightarrow> exec_failure + resolution" where
  "read_resolution v =
     (case v of
        PDict d \<Rightarrow>
          (case dict_get d ''runner_id'' of
             None \<Rightarrow> Inl (PythonError ''KeyError'')
           | Some rid \<Rightarrow>
               (case (if get_or_none d ''port'' = PNone then Inr None else map_sum id Some (py_int (get_or_none d ''port''))) of
                  Inl e \<Rightarrow> Inl e
                | Inr port \<Rightarrow>
                    Inr \<lparr>rr_id = rid, rr_vault_path = as_str (get_or_none d ''vault_path''),
                         rr_base_path = as_str (get_or_none d ''base_path''), rr_host = get_or_none d ''host'', rr_port = port\<rparr>))
      | _ \<Rightarrow> Inl (PythonError ''TypeError''))"

definition resolve_runner :: "exec_env \<Rightarrow> pystr \<Rightarrow> pyval exec" where
  \<comment> \<open>\<open>None\<close> after a failure of the infrastructure\<close>
  "resolve_runner env dept =
     xbind (xattempt (xawait env (ResolveRunner dept))) (\<lambda>r.
       case r of
         Inr v \<Rightarrow> xreturn v
       | Inl (RunnerResolutionFailed m) \<Rightarrow> xraise (RunnerResolutionFailed m)
       | Inl _ \<Rightarrow> xreturn PNone)"

definition choose_runner :: "exec_env \<Rightarrow> 'z execution_request_scheme \<Rightarrow> resolution exec" where
  "choose_runner env inp =
     (if er_department_id inp \<noteq> [] \<and> blank_if_none (xr_runner_id inp) = [] then
        xbind (resolve_runner env (er_department_id inp)) (\<lambda>v.
          if v = PNone then xreturn (no_resolution (xr_runner_id inp)) else xlift (read_resolution v))
      else xreturn (no_resolution (xr_runner_id inp)))"

definition HEALTHCHECK_INITIAL_BACKOFF :: int where "HEALTHCHECK_INITIAL_BACKOFF = 60"

definition HEALTHCHECK_MAX_WAIT :: int where "HEALTHCHECK_MAX_WAIT = 1800"

definition HEALTHCHECK_MAX_RETRIES :: nat where "HEALTHCHECK_MAX_RETRIES = 6"

definition probe_result :: "exec_failure + pyval \<Rightarrow> exec_failure + pyval pydict" where
  "probe_result r =
     (case r of
        Inl _ \<Rightarrow> Inr [(''healthy'', PBool False), (''error'', PStr ''activity_failed'')]
      | Inr (PDict d) \<Rightarrow> Inr d
      | Inr _ \<Rightarrow> Inl (PythonError ''AttributeError''))"

definition says_healthy :: "pyval pydict \<Rightarrow> bool" where
  "says_healthy d \<longleftrightarrow> truthy (get_default d ''healthy'' (PBool False))"

fun probe_runner :: "exec_env \<Rightarrow> pyval \<Rightarrow> int option \<Rightarrow> pyval \<Rightarrow> int \<Rightarrow> nat \<Rightarrow> bool exec" where
  \<comment> \<open>the loop with the retries left; the host is overwritten after every probe\<close>
  "probe_runner env runner port host backoff retries =
     xbind (xattempt (xawait env (SshHealthcheck host port runner))) (\<lambda>r.
     xbind (xlift (probe_result r)) (\<lambda>d.
       if says_healthy d then xreturn True
       else case retries of
              0 \<Rightarrow> xreturn False
            | Suc n \<Rightarrow>
                xthen (xsleep backoff)
                  (probe_runner env runner port (get_default d ''host'' (PStr ''unknown'')) (min (2 * backoff) HEALTHCHECK_MAX_WAIT) n)))"

declare probe_runner.simps [simp del]

definition wait_for_healthy_runner :: "exec_env \<Rightarrow> resolution \<Rightarrow> bool exec" where
  "wait_for_healthy_runner env r =
     probe_runner env (rr_id r) (rr_port r) (rr_host r) HEALTHCHECK_INITIAL_BACKOFF HEALTHCHECK_MAX_RETRIES"

section \<open>Disk quota\<close>

definition quota_allowed :: "pyval \<Rightarrow> bool option" where
  \<comment> \<open>\<open>None\<close>: no \<open>DiskQuotaResult\<close>\<close>
  "quota_allowed v = (case v of PDict d \<Rightarrow> (case dict_get d ''allowed'' of Some (PBool b) \<Rightarrow> Some b | _ \<Rightarrow> None) | _ \<Rightarrow> None)"

definition quota_refuses :: "exec_failure + pyval \<Rightarrow> bool" where
  "quota_refuses r \<longleftrightarrow> (case r of Inl _ \<Rightarrow> False | Inr v \<Rightarrow> quota_allowed v = Some False)"

definition quota_gate :: "exec_env \<Rightarrow> rat option \<Rightarrow> pystr \<Rightarrow> pystr option \<Rightarrow> unit exec" where
  "quota_gate env quota dept workdir =
     (case quota of
        None \<Rightarrow> xreturn ()
      | Some q \<Rightarrow>
          if dept = [] then xreturn ()
          else xbind (xattempt (xawait env (CheckDiskQuota dept (resolve_quota_base workdir) q))) (\<lambda>r.
                 if quota_refuses r then xraise DiskQuotaExceeded else xreturn ()))"

definition enforce_disk_quota :: "exec_env \<Rightarrow> 'z execution_request_scheme \<Rightarrow> unit exec" where
  "enforce_disk_quota env inp = quota_gate env (xr_quota_mb inp) (er_department_id inp) (er_workdir inp)"

section \<open>Containers\<close>

definition docker_failure :: "pyval \<Rightarrow> pyfloat \<Rightarrow> pystr \<Rightarrow> pyval pydict \<times> pyfloat" where
  \<comment> \<open>the result dictionary of a failed chain, its duration kept apart\<close>
  "docker_failure runner duration why =
     ([(''status'', PStr ''failed''), (''exit_code'', PNone), (''stdout_uri'', PNone), (''stderr_uri'', PNone),
       (''runner_id'', runner), (''failure_reason'', PStr why)], duration)"

definition docker_result :: "pyval \<Rightarrow> pyfloat \<Rightarrow> pyval \<Rightarrow> pyval pydict \<times> pyfloat" where
  "docker_result runner duration run =
     (let code = result_field run ''exit_code'' PNone;
          log = result_field run ''log_artifact_uri'' PNone;
          passed = equals_zero code
      in ([(''status'', PStr (if passed then ''passed'' else ''failed'')), (''exit_code'', code), (''stdout_uri'', log),
           (''stderr_uri'', log), (''runner_id'', runner),
           (''failure_reason'', if passed then PNone else PStr ''non_zero_exit'')], duration))"

definition docker_outcome ::
  "pyval \<Rightarrow> pyval \<Rightarrow> exec_failure + pyval \<Rightarrow> pyval \<times> (exec_failure + pyval pydict \<times> pyfloat)" where
  \<comment> \<open>the body of the \<open>try\<close>: the container it has learnt of and how it ends\<close>
  "docker_outcome runner build r =
     (case r of
        Inl e \<Rightarrow> (PNone, Inl e)
      | Inr run \<Rightarrow>
          (or_value (result_field run ''container_id'' PNone) PNone,
           map_sum id (\<lambda>duration. docker_result runner duration run) (py_float (result_field build ''duration_seconds'' (PFloat 0)))))"

definition outcome_passed :: "exec_failure + pyval pydict \<times> pyfloat \<Rightarrow> bool" where
  "outcome_passed x = (case x of Inl _ \<Rightarrow> False | Inr (d, _) \<Rightarrow> get_or_none d ''status'' = PStr ''passed'')"

definition docker_policy :: "(pystr \<times> pystr) list \<Rightarrow> pystr" where
  "docker_policy environment = (case dict_get (dict_of_items environment) ''CLEANUP_POLICY'' of None \<Rightarrow> ''on_success'' | Some p \<Rightarrow> p)"

definition docker_run_and_cleanup ::
  "exec_env \<Rightarrow> 'z ExecutionRunWorkflowInput_scheme \<Rightarrow> pystr \<Rightarrow> pyval \<Rightarrow> pystr \<Rightarrow> pyval \<Rightarrow> (pyval pydict \<times> pyfloat) exec" where
  "docker_run_and_cleanup env inp command runner tag build =
     xbind (xattempt (xawait env (DockerRun tag (or_str command ''echo \"no command supplied\"'') (blank_if_none (er_workdir inp))
              (dict_of_items (er_environment inp)) runner))) (\<lambda>r.
       let (container, outcome) = docker_outcome runner build r
       in xthen (xattempt (xawait env (DockerCleanup (or_value container (PStr [])) (result_field build ''image_id'' PNone)
                   (docker_policy (er_environment inp)) (outcome_passed outcome) runner)))
            (xlift outcome))"

definition run_docker_chain ::
  "exec_env \<Rightarrow> 'z ExecutionRunWorkflowInput_scheme \<Rightarrow> pystr \<Rightarrow> pyval \<Rightarrow> (pyval pydict \<times> pyfloat) exec" where
  "run_docker_chain env inp command runner =
     (let tag = or_str (blank_if_none (er_docker_image_tag inp)) (''ai-bot-'' @ lower (er_parent_workflow_id inp) @ '':latest'');
          dockerfile = or_str (blank_if_none (er_docker_dockerfile_path inp)) ''Dockerfile''
      in xbind (xattempt (xawait env (DockerHealthcheck runner))) (\<lambda>r.
           if (case r of Inl _ \<Rightarrow> True | Inr v \<Rightarrow> \<not> truthy v) then xreturn (docker_failure runner (Fin 0) ''docker_daemon_unavailable'')
           else xbind (xawait env (DockerBuild dockerfile tag (blank_if_none (er_workdir inp)) runner)) (\<lambda>build.
             if \<not> truthy (result_field build ''success'' (PBool False)) then
               xbind (xlift (py_float (result_field build ''duration_seconds'' (PFloat 0)))) (\<lambda>duration.
                 xreturn (docker_failure runner duration ''docker_build_failed''))
             else docker_run_and_cleanup env inp command runner tag build)))"

section \<open>The workflow\<close>

record ExecutionRunWorkflowOutput =
  xo_status :: pyval
  xo_exit_code :: pyval
  xo_stdout_uri :: pyval
  xo_stderr_uri :: pyval
  xo_duration :: pyfloat
  xo_runner_id :: pyval
  xo_failure_reason :: pyval

definition unreachable_output :: "pyval \<Rightarrow> ExecutionRunWorkflowOutput" where
  "unreachable_output runner =
     \<lparr>xo_status = PStr ''failed'', xo_exit_code = PNone, xo_stdout_uri = PNone, xo_stderr_uri = PNone, xo_duration = Fin 0,
      xo_runner_id = runner, xo_failure_reason = PStr ''runner_unreachable''\<rparr>"

definition NOOP_TEST_DEFAULT_COMMAND :: pystr where "NOOP_TEST_DEFAULT_COMMAND = ''echo \"ok\"''"

definition effective_command :: "'z ExecutionRunWorkflowInput_scheme \<Rightarrow> pystr" where
  "effective_command inp =
     (if er_workflow_type inp = ''noop_test'' \<and> er_command inp = [] then NOOP_TEST_DEFAULT_COMMAND else er_command inp)"

definition start_to_close :: "'z ExecutionRunWorkflowInput_scheme \<Rightarrow> int" where
  "start_to_close inp =
     (case coerce_timeout (er_start_to_close_timeout inp) of
        Some n \<Rightarrow> n
      | None \<Rightarrow> if er_workflow_type inp = ''noop_test'' then 30 else 1800)"

definition heartbeat :: "'z execution_request_scheme \<Rightarrow> int" where
  "heartbeat inp = (case coerce_timeout (xr_heartbeat inp) of Some n \<Rightarrow> n | None \<Rightarrow> 90)"

definition run_over_ssh :: "exec_env \<Rightarrow> 'z execution_request_scheme \<Rightarrow> resolution \<Rightarrow> (pyval pydict \<times> pyfloat) exec" where
  \<comment> \<open>the activity and the reading of its duration, the only field whose conversion can fail\<close>
  "run_over_ssh env inp r =
     xbind (xawait env (SshRunTest (rr_id r) (effective_command inp) (er_environment inp) (er_artifact_minio_prefix inp)
              (er_workdir inp) (er_parent_workflow_id inp) (rr_vault_path r) (start_to_close inp) (heartbeat inp))) (\<lambda>v.
       case v of
         PDict d \<Rightarrow> xbind (xlift (py_float (get_default d ''duration_seconds'' (PFloat 0)))) (\<lambda>duration. xreturn (d, duration))
       | _ \<Rightarrow> xraise (PythonError ''AttributeError''))"

definition cleanup_policy_of :: "(pystr \<times> pystr) list \<Rightarrow> pystr" where
  "cleanup_policy_of environment =
     (let d = dict_of_items environment
      in case dict_get d ''CLEANUP_POLICY'' of
           Some p \<Rightarrow> p
         | None \<Rightarrow> (case dict_get d ''cleanup_policy'' of Some p \<Rightarrow> p | None \<Rightarrow> ''on_success''))"

definition apply_cleanup_policy :: "exec_env \<Rightarrow> 'z ExecutionRunWorkflowInput_scheme \<Rightarrow> pyval \<Rightarrow> unit exec" where
  "apply_cleanup_policy env inp exit_code =
     (let d = dict_of_items (er_environment inp)
      in xthen (xattempt (xawait env (ApplyCleanupPolicy (cleanup_policy_of (er_environment inp)) exit_code
                  (blank_if_none (er_workdir inp)) (dict_get d ''CONTAINER_ID'') (dict_get d ''IMAGE_ID''))))
           (xreturn ()))"

definition execution_output :: "pyval \<Rightarrow> pyval pydict \<times> pyfloat \<Rightarrow> ExecutionRunWorkflowOutput" where
  "execution_output runner r =
     (case r of (d, duration) \<Rightarrow>
        \<lparr>xo_status = get_default d ''status'' (PStr ''failed''), xo_exit_code = get_or_none d ''exit_code'',
         xo_stdout_uri = get_or_none d ''stdout_uri'', xo_stderr_uri = get_or_none d ''stderr_uri'', xo_duration = duration,
         xo_runner_id = get_default d ''runner_id'' runner, xo_failure_reason = get_or_none d ''failure_reason''\<rparr>)"

definition run_on_runner :: "exec_env \<Rightarrow> 'z execution_request_scheme \<Rightarrow> resolution \<Rightarrow> ExecutionRunWorkflowOutput exec" where
  \<comment> \<open>\<open>run\<close> once the runner is healthy; the directory is already the effective one\<close>
  "run_on_runner env inp r =
     xthen (enforce_disk_quota env inp)
    (xbind (if er_needs_docker inp then run_docker_chain env inp (effective_command inp) (rr_id r) else run_over_ssh env inp r) (\<lambda>res.
       xthen (apply_cleanup_policy env inp (get_or_none (fst res) ''exit_code'')) (xreturn (execution_output (rr_id r) res))))"

definition run_execution :: "exec_env \<Rightarrow> 'z execution_request_scheme \<Rightarrow> ExecutionRunWorkflowOutput exec" where
  "run_execution env inp =
     xbind (choose_runner env inp) (\<lambda>r.
     xbind (wait_for_healthy_runner env r) (\<lambda>healthy.
       if \<not> healthy then xreturn (unreachable_output (rr_id r))
       else run_on_runner env (inp\<lparr>er_workdir := derive_workdir inp (rr_base_path r)\<rparr>) r))"

definition execution_trace :: "exec_env \<Rightarrow> 'z execution_request_scheme \<Rightarrow> exec_call list" where
  "execution_trace env inp = snd (run_execution env inp [])"

section \<open>The legacy workflow\<close>

record ExecutionRunInput =
  lg_workflow_id :: pystr
  lg_test_command :: pystr
  lg_workspace_path :: pystr
  lg_cleanup_policy :: pystr
  lg_git_push_required :: bool
  lg_git_push_branch :: "pystr option"
  lg_dept_id :: "pystr option"
  lg_workspace_quota_mb :: "rat option"

record ExecutionRunResult =
  lo_exit_code :: pyval
  lo_stdout_key :: pystr
  lo_stderr_key :: pystr
  lo_exit_code_key :: pystr
  lo_cleanup_performed :: bool

definition push_branch :: "exec_env \<Rightarrow> pystr \<Rightarrow> pystr \<Rightarrow> pystr \<Rightarrow> unit exec" where
  \<comment> \<open>the body of the \<open>try\<close>\<close>
  "push_branch env dept branch workspace =
     xbind (xawait env (InjectGitCredentials dept)) (\<lambda>inj.
       if \<not> truthy (result_field inj ''success'' (PBool False)) then xraise GitCredentialInjectionFailed
       else xbind (xawait env (SshConnectAndRun (''git push origin '' @ branch) workspace)) (\<lambda>res.
         case res of
           PDict d \<Rightarrow>
             xbind (xlift (py_int (get_default d ''exit_code'' (PInt (-1))))) (\<lambda>code.
               if code \<noteq> 0 then xraise (GitPushFailed code) else xreturn ())
         | _ \<Rightarrow> xraise (PythonError ''AttributeError'')))"

definition inject_push_and_cleanup :: "exec_env \<Rightarrow> pystr \<Rightarrow> pystr \<Rightarrow> pystr \<Rightarrow> unit exec" where
  "inject_push_and_cleanup env dept branch workspace =
     xbind (xattempt (push_branch env dept branch workspace)) (\<lambda>r.
       xthen (xattempt (xawait env CleanupGitCredentials)) (xlift r))"

definition item :: "pyval \<Rightarrow> pystr \<Rightarrow> exec_failure + pyval" where
  \<comment> \<open>\<open>v[k]\<close>\<close>
  "item v k = (case v of
     PDict d \<Rightarrow> (case dict_get d k of None \<Rightarrow> Inl (PythonError ''KeyError'') | Some x \<Rightarrow> Inr x) | _ \<Rightarrow> Inl (PythonError ''TypeError''))"

definition encode :: "pyval \<Rightarrow> exec_failure + pystr" where
  \<comment> \<open>\<open>v.encode("utf-8")\<close> of a field that is a string by its annotation\<close>
  "encode v = (case v of PStr s \<Rightarrow> Inr s | _ \<Rightarrow> Inl (PythonError ''AttributeError''))"

definition upload_artifacts :: "exec_env \<Rightarrow> pystr \<Rightarrow> pyval \<Rightarrow> pyval \<Rightarrow> pyval \<Rightarrow> unit exec" where
  "upload_artifacts env wid out err code =
     xbind (xlift (encode out)) (\<lambda>o1.
     xthen (xawait env (UploadArtifact (execution_artifact_key wid ''stdout.log'') o1))
    (xbind (xlift (encode err)) (\<lambda>e1.
     xthen (xawait env (UploadArtifact (execution_artifact_key wid ''stderr.log'') e1))
    (xthen (xawait env (UploadArtifact (execution_artifact_key wid ''exit_code.txt'') (py_str (xe_repr env) code))) (xreturn ())))))"

definition legacy_cleanup :: "exec_env \<Rightarrow> ExecutionRunInput \<Rightarrow> pyval \<Rightarrow> bool exec" where
  "legacy_cleanup env inp code =
     (case should_cleanup (lg_cleanup_policy inp) code of
        Inl e \<Rightarrow> xraise (PythonError e)
      | Inr False \<Rightarrow> xreturn False
      | Inr True \<Rightarrow>
          xbind (xattempt (xawait env (SshCleanup (lg_workspace_path inp)))) (\<lambda>r.
            xreturn (case r of Inl _ \<Rightarrow> False | Inr _ \<Rightarrow> True)))"

definition finish_legacy :: "exec_env \<Rightarrow> ExecutionRunInput \<Rightarrow> pyval \<Rightarrow> pyval \<Rightarrow> pyval \<Rightarrow> ExecutionRunResult exec" where
  \<comment> \<open>the push, the artifacts and the clean-up\<close>
  "finish_legacy env inp out err code =
     xthen (if lg_git_push_required inp \<and> blank_if_none (lg_dept_id inp) \<noteq> [] \<and> blank_if_none (lg_git_push_branch inp) \<noteq> []
            then inject_push_and_cleanup env (blank_if_none (lg_dept_id inp)) (blank_if_none (lg_git_push_branch inp)) (lg_workspace_path inp)
            else xreturn ())
    (xthen (upload_artifacts env (lg_workflow_id inp) out err code)
    (xbind (legacy_cleanup env inp code) (\<lambda>cleaned.
       xreturn \<lparr>lo_exit_code = code, lo_stdout_key = execution_artifact_key (lg_workflow_id inp) ''stdout.log'',
                lo_stderr_key = execution_artifact_key (lg_workflow_id inp) ''stderr.log'',
                lo_exit_code_key = execution_artifact_key (lg_workflow_id inp) ''exit_code.txt'', lo_cleanup_performed = cleaned\<rparr>)))"

definition run_legacy :: "exec_env \<Rightarrow> ExecutionRunInput \<Rightarrow> ExecutionRunResult exec" where
  "run_legacy env inp =
     xbind (xawait env (FetchSshCredentials (lg_workflow_id inp))) (\<lambda>cred.
     xthen (xlift (item cred ''host''))
    (xthen (quota_gate env (lg_workspace_quota_mb inp) (blank_if_none (lg_dept_id inp)) (Some (lg_workspace_path inp)))
    (xbind (xawait env (SshConnectAndRun (lg_test_command inp) (lg_workspace_path inp))) (\<lambda>res.
     xbind (xlift (item res ''stdout'')) (\<lambda>out.
     xbind (xlift (item res ''stderr'')) (\<lambda>err.
     xbind (xlift (item res ''exit_code'')) (\<lambda>code. finish_legacy env inp out err code)))))))"

definition legacy_trace :: "exec_env \<Rightarrow> ExecutionRunInput \<Rightarrow> exec_call list" where
  "legacy_trace env inp = snd (run_legacy env inp [])"

end
