(* ===== verification/Execution_Logic.thy ===== *)
theory Execution_Logic
  imports Execution_Run
begin

text \<open>
  A weakest-precondition calculus for the steps of \<^verbatim>\<open>Execution_Run\<close> and the facts about the phases of a run that the
  properties share: what probing a runner does, what a history that clears a runner for work is, and that the later
  phases of the workflow only work on a cleared history.
\<close>

section \<open>Weakest preconditions\<close>

named_theorems xwp_step \<open>weakest preconditions of the steps\<close>

definition xwp :: "'a exec \<Rightarrow> (exec_failure + 'a \<Rightarrow> exec_call list \<Rightarrow> bool) \<Rightarrow> exec_call list \<Rightarrow> bool" where
  "xwp m Q cs \<longleftrightarrow> Q (fst (m cs)) (snd (m cs))"

lemmas step_defs = xreturn_def xraise_def xlift_def xawait_def xsleep_def xattempt_def

lemma xwp_return [xwp_step]: "xwp (xreturn a) Q cs \<longleftrightarrow> Q (Inr a) cs"
  by (simp add: xwp_def step_defs)

lemma xwp_raise [xwp_step]: "xwp (xraise e) Q cs \<longleftrightarrow> Q (Inl e) cs"
  by (simp add: xwp_def step_defs)

lemma xwp_lift [xwp_step]: "xwp (xlift x) Q cs \<longleftrightarrow> Q x cs"
  by (simp add: xwp_def step_defs)

lemma xwp_await [xwp_step]: "xwp (xawait env c) Q cs \<longleftrightarrow> Q (xe_answer env (cs @ [c])) (cs @ [c])"
  by (simp add: xwp_def step_defs)

lemma xwp_sleep [xwp_step]: "xwp (xsleep n) Q cs \<longleftrightarrow> Q (Inr ()) (cs @ [Sleep n])"
  by (simp add: xwp_def step_defs)

lemma xwp_attempt [xwp_step]: "xwp (xattempt m) Q cs \<longleftrightarrow> xwp m (\<lambda>x. Q (Inr x)) cs"
  by (simp add: xwp_def step_defs split: prod.splits)

lemma xwp_bind [xwp_step]:
  "xwp (xbind m k) Q cs \<longleftrightarrow> xwp m (\<lambda>x cs'. case x of Inl e \<Rightarrow> Q (Inl e) cs' | Inr a \<Rightarrow> xwp (k a) Q cs') cs"
  by (simp add: xwp_def xbind_def split: prod.splits sum.splits)

lemma xwp_then [xwp_step]:
  "xwp (xthen m n) Q cs \<longleftrightarrow> xwp m (\<lambda>x cs'. case x of Inl e \<Rightarrow> Q (Inl e) cs' | Inr _ \<Rightarrow> xwp n Q cs') cs"
  by (simp add: xthen_def xwp_bind)

lemma xwp_if [xwp_step]: "xwp (if b then m else n) Q cs \<longleftrightarrow> (if b then xwp m Q cs else xwp n Q cs)"
  by simp

lemma xwp_mono: "xwp m P cs \<Longrightarrow> (\<And>x cs'. P x cs' \<Longrightarrow> Q x cs') \<Longrightarrow> xwp m Q cs"
  by (simp add: xwp_def)

lemma xwp_seq:
  assumes "xwp m P cs" "\<And>e cs'. P (Inl e) cs' \<Longrightarrow> Q (Inl e) cs'" "\<And>a cs'. P (Inr a) cs' \<Longrightarrow> xwp (k a) Q cs'"
  shows "xwp (xbind m k) Q cs"
  unfolding xwp_bind by (rule xwp_mono [OF assms(1)]) (use assms(2,3) in \<open>auto split: sum.split\<close>)

lemma xwp_seq_then:
  assumes "xwp m P cs" "\<And>e cs'. P (Inl e) cs' \<Longrightarrow> Q (Inl e) cs'" "\<And>a cs'. P (Inr a) cs' \<Longrightarrow> xwp n Q cs'"
  shows "xwp (xthen m n) Q cs"
  unfolding xthen_def by (rule xwp_seq [OF assms])

lemma xwp_conj: "xwp m P cs \<Longrightarrow> xwp m Q cs \<Longrightarrow> xwp m (\<lambda>x cs'. P x cs' \<and> Q x cs') cs"
  by (simp add: xwp_def)

lemma xwp_result: "xwp m Q cs \<Longrightarrow> m cs = (x, cs') \<Longrightarrow> Q x cs'"
  by (simp add: xwp_def)

section \<open>Kinds of calls\<close>

fun is_probe :: "exec_call \<Rightarrow> bool" where
  "is_probe (SshHealthcheck _ _ _) = True"
| "is_probe _ = False"

fun work_runner :: "exec_call \<Rightarrow> pyval option" where
  \<comment> \<open>the runner a call puts to work: the test command, or a command of the container chain\<close>
  "work_runner (SshRunTest r _ _ _ _ _ _ _ _) = Some r"
| "work_runner (DockerHealthcheck r) = Some r"
| "work_runner (DockerBuild _ _ _ r) = Some r"
| "work_runner (DockerRun _ _ _ _ r) = Some r"
| "work_runner _ = None"

fun work_dir :: "exec_call \<Rightarrow> pystr option" where
  "work_dir (SshRunTest _ _ _ _ d _ _ _ _) = Some (blank_if_none d)"
| "work_dir (DockerBuild _ _ d _) = Some d"
| "work_dir (DockerRun _ _ d _ _) = Some d"
| "work_dir _ = None"

definition required_check :: "'z execution_request_scheme \<Rightarrow> pystr \<Rightarrow> exec_call set" where
  \<comment> \<open>the quota check due before work in a directory\<close>
  "required_check inp d =
     (case xr_quota_mb inp of
        None \<Rightarrow> {}
      | Some m \<Rightarrow> if er_department_id inp = [] then {} else {CheckDiskQuota (er_department_id inp) (resolve_quota_base (Some d)) m})"

lemma resolve_quota_base_blank [simp]: "resolve_quota_base (Some (blank_if_none d)) = resolve_quota_base d"
  by (cases d) (simp_all add: resolve_quota_base_def blank_if_none_def)

lemma required_check_workdir [simp]: "required_check (inp\<lparr>er_workdir := w\<rparr>) = required_check inp"
  by (rule ext) (simp add: required_check_def split: option.split)

fun sleeps_of :: "exec_call list \<Rightarrow> int list" where
  "sleeps_of [] = []"
| "sleeps_of (Sleep n # cs) = n # sleeps_of cs"
| "sleeps_of (_ # cs) = sleeps_of cs"

lemma sleeps_of_append [simp]: "sleeps_of (cs @ ds) = sleeps_of cs @ sleeps_of ds"
  by (induction cs rule: sleeps_of.induct) auto

section \<open>Cleared histories\<close>

definition at_every_call :: "(exec_call list \<Rightarrow> exec_call \<Rightarrow> bool) \<Rightarrow> exec_call list \<Rightarrow> bool" where
  \<comment> \<open>a relation between every call and the calls before it\<close>
  "at_every_call P cs \<longleftrightarrow> (\<forall>p c q. cs = p @ c # q \<longrightarrow> P p c)"

lemma snoc_split: "cs @ [c] = p @ d # q \<longleftrightarrow> (q = [] \<and> cs = p \<and> c = d) \<or> (\<exists>q'. q = q' @ [c] \<and> cs = p @ d # q')"
  by (cases q rule: rev_cases) auto

lemma at_every_call_snoc: "at_every_call P (cs @ [c]) \<longleftrightarrow> at_every_call P cs \<and> P cs c"
  unfolding at_every_call_def snoc_split by blast

lemma at_every_callD: "at_every_call P (p @ c # q) \<Longrightarrow> P p c"
  by (simp add: at_every_call_def)

lemma at_every_call_Nil [simp]: "at_every_call P []"
  by (simp add: at_every_call_def)

definition cleared_by :: "exec_env \<Rightarrow> exec_call list \<Rightarrow> exec_call list \<Rightarrow> pyval \<Rightarrow> bool" where
  \<comment> \<open>after \<open>p\<close> a probe of the runner found it healthy, and nothing in the rest \<open>q\<close> takes that back\<close>
  "cleared_by env p q r \<longleftrightarrow>
     (\<exists>h port d. xe_answer env (p @ [SshHealthcheck h port r]) = Inr (PDict d) \<and> says_healthy d
        \<and> (\<exists>q'. q = SshHealthcheck h port r # q' \<and> list_all (Not \<circ> is_probe) q'))"

definition cleared :: "exec_env \<Rightarrow> exec_call list \<Rightarrow> pyval \<Rightarrow> bool" where
  "cleared env cs r \<longleftrightarrow> (\<exists>p q. cs = p @ q \<and> cleared_by env p q r)"

fun quota_accepted :: "exec_env \<Rightarrow> exec_call list \<Rightarrow> exec_call \<Rightarrow> bool" where
  "quota_accepted env p (CheckDiskQuota dept base m) \<longleftrightarrow> \<not> quota_refuses (xe_answer env (p @ [CheckDiskQuota dept base m]))"
| "quota_accepted env p _ \<longleftrightarrow> True"

definition within_quota :: "exec_env \<Rightarrow> exec_call list \<Rightarrow> bool" where
  "within_quota env = at_every_call (quota_accepted env)"

definition work_allowed :: "exec_env \<Rightarrow> (pystr \<Rightarrow> exec_call set) \<Rightarrow> exec_call list \<Rightarrow> exec_call \<Rightarrow> bool" where
  "work_allowed env need p c \<longleftrightarrow>
     (\<forall>r. work_runner c = Some r \<longrightarrow> cleared env p r \<and> within_quota env p) \<and> (\<forall>d. work_dir c = Some d \<longrightarrow> need d \<subseteq> set p)"

definition gated :: "exec_env \<Rightarrow> (pystr \<Rightarrow> exec_call set) \<Rightarrow> exec_call list \<Rightarrow> bool" where
  "gated env need = at_every_call (work_allowed env need)"

lemma cleared_snoc: "cleared env cs r \<Longrightarrow> \<not> is_probe c \<Longrightarrow> cleared env (cs @ [c]) r"
  unfolding cleared_def cleared_by_def
  apply clarsimp
  subgoal for p h port d q'
    by (rule exI [of _ p]) auto
  done

lemma cleared_probe:
  "xe_answer env (cs @ [SshHealthcheck h port r]) = Inr (PDict d) \<Longrightarrow> says_healthy d \<Longrightarrow> cleared env (cs @ [SshHealthcheck h port r]) r"
  unfolding cleared_def cleared_by_def by fastforce

lemma within_quota_snoc: "within_quota env (cs @ [c]) \<longleftrightarrow> within_quota env cs \<and> quota_accepted env cs c"
  by (simp add: within_quota_def at_every_call_snoc)

lemma gated_snoc: "gated env need (cs @ [c]) \<longleftrightarrow> gated env need cs \<and> work_allowed env need cs c"
  by (simp add: gated_def at_every_call_snoc)

lemma gated_Nil [simp]: "gated env need []" and within_quota_Nil [simp]: "within_quota env []"
  by (simp_all add: gated_def within_quota_def)

lemma work_allowed_idle: "work_runner c = None \<Longrightarrow> work_dir c = None \<Longrightarrow> work_allowed env need p c"
  by (simp add: work_allowed_def)

lemmas gate_steps = gated_snoc within_quota_snoc cleared_snoc work_allowed_def

section \<open>Probing\<close>

fun backoffs :: "int \<Rightarrow> nat \<Rightarrow> int list" where
  "backoffs b 0 = []"
| "backoffs b (Suc n) = b # backoffs (min (2 * b) HEALTHCHECK_MAX_WAIT) n"

lemma length_backoffs [simp]: "length (backoffs b n) = n"
  by (induction b n rule: backoffs.induct) auto

lemma backoff_schedule:
  "backoffs HEALTHCHECK_INITIAL_BACKOFF HEALTHCHECK_MAX_RETRIES = [60, 120, 240, 480, 960, 1800]"
  by (simp add: HEALTHCHECK_INITIAL_BACKOFF_def HEALTHCHECK_MAX_RETRIES_def HEALTHCHECK_MAX_WAIT_def eval_nat_numeral)

lemma xwp_probe_runner:
  "xwp (probe_runner env runner port host b n) Q cs \<longleftrightarrow>
     (let c = SshHealthcheck host port runner; cs' = cs @ [c]
      in case probe_result (xe_answer env cs') of
           Inl e \<Rightarrow> Q (Inl e) cs'
         | Inr d \<Rightarrow>
             if says_healthy d then Q (Inr True) cs'
             else case n of
                    0 \<Rightarrow> Q (Inr False) cs'
                  | Suc m \<Rightarrow>
                      xwp (probe_runner env runner port (get_default d ''host'' (PStr ''unknown'')) (min (2 * b) HEALTHCHECK_MAX_WAIT) m)
                        Q (cs' @ [Sleep b]))"
  by (subst probe_runner.simps) (simp add: xwp_step Let_def split: sum.splits nat.splits)

lemma probe_result_healthy: "probe_result r = Inr d \<Longrightarrow> says_healthy d \<Longrightarrow> r = Inr (PDict d)"
  by (auto simp: probe_result_def says_healthy_def get_default_def split: sum.splits pyval.splits)

definition probing :: "exec_env \<Rightarrow> (pystr \<Rightarrow> exec_call set) \<Rightarrow> pyval \<Rightarrow> int \<Rightarrow> nat \<Rightarrow> exec_call list \<Rightarrow> exec_failure + bool \<Rightarrow> exec_call list \<Rightarrow> bool" where
  \<comment> \<open>how a history grows while a runner is probed\<close>
  "probing env need runner b n cs x cs' \<longleftrightarrow>
     (\<exists>k\<le>n. sleeps_of cs' = sleeps_of cs @ take k (backoffs b n)
        \<and> length (filter is_probe cs') = length (filter is_probe cs) + Suc k
        \<and> (x = Inr False \<longrightarrow> k = n))
     \<and> (gated env need cs \<and> within_quota env cs \<longrightarrow> gated env need cs' \<and> within_quota env cs')
     \<and> (x = Inr True \<longrightarrow> cleared env cs' runner)"

lemma probing_stop:
  assumes "x = Inr False \<longrightarrow> n = 0" "x = Inr True \<longrightarrow> cleared env (cs @ [SshHealthcheck h port r]) runner"
  shows "probing env need runner b n cs x (cs @ [SshHealthcheck h port r])"
  unfolding probing_def using assms by (intro conjI exI [of _ 0]) (auto simp: gate_steps)

lemma probing_again:
  assumes "probing env need runner (min (2 * b) HEALTHCHECK_MAX_WAIT) m ((cs @ [SshHealthcheck h port r]) @ [Sleep b]) x cs'"
  shows "probing env need runner b (Suc m) cs x cs'"
proof -
  from assms obtain k where k: "k \<le> m"
    "sleeps_of cs' = sleeps_of ((cs @ [SshHealthcheck h port r]) @ [Sleep b]) @ take k (backoffs (min (2 * b) HEALTHCHECK_MAX_WAIT) m)"
    "length (filter is_probe cs') = length (filter is_probe ((cs @ [SshHealthcheck h port r]) @ [Sleep b])) + Suc k" "x = Inr False \<longrightarrow> k = m"
    and g: "gated env need ((cs @ [SshHealthcheck h port r]) @ [Sleep b]) \<and> within_quota env ((cs @ [SshHealthcheck h port r]) @ [Sleep b])
      \<longrightarrow> gated env need cs' \<and> within_quota env cs'"
    and c: "x = Inr True \<longrightarrow> cleared env cs' runner"
    unfolding probing_def by blast
  show ?thesis
    unfolding probing_def
  proof (intro conjI exI [of _ "Suc k"])
    show "gated env need cs \<and> within_quota env cs \<longrightarrow> gated env need cs' \<and> within_quota env cs'"
      using g by (simp only: gated_snoc within_quota_snoc) (simp add: work_allowed_def)
  qed (use k c in auto)
qed

lemma probe_runner_probing: "xwp (probe_runner env runner port host b n) (probing env need runner b n cs) cs"
proof (induction n arbitrary: host b cs)
  case 0
  then show ?case
    by (subst xwp_probe_runner) (auto simp: Let_def split: sum.splits intro!: probing_stop cleared_probe dest: probe_result_healthy)
next
  case (Suc n)
  show ?case
    by (subst xwp_probe_runner)
       (auto simp: Let_def split: sum.splits intro!: probing_stop cleared_probe dest: probe_result_healthy
          intro: xwp_mono [OF Suc.IH] probing_again [simplified])
qed

section \<open>Working on a cleared runner\<close>

definition ready :: "exec_env \<Rightarrow> (pystr \<Rightarrow> exec_call set) \<Rightarrow> pyval \<Rightarrow> pystr \<Rightarrow> exec_call list \<Rightarrow> bool" where
  "ready env need r d cs \<longleftrightarrow> gated env need cs \<and> within_quota env cs \<and> cleared env cs r \<and> need d \<subseteq> set cs"

definition harmless :: "pyval \<Rightarrow> pystr \<Rightarrow> exec_call \<Rightarrow> bool" where
  \<comment> \<open>no probe, no quota check and no work elsewhere\<close>
  "harmless r d c \<longleftrightarrow>
     \<not> is_probe c \<and> (\<forall>env p. quota_accepted env p c) \<and> work_runner c \<in> {None, Some r} \<and> work_dir c \<in> {None, Some d}"

lemma ready_snoc: "ready env need r d cs \<Longrightarrow> harmless r d c \<Longrightarrow> ready env need r d (cs @ [c])"
  unfolding ready_def harmless_def by (auto simp: gate_steps)

lemma ready_append: "ready env need r d cs \<Longrightarrow> list_all (harmless r d) ds \<Longrightarrow> ready env need r d (cs @ ds)"
  by (induction ds rule: rev_induct) (simp_all del: append_assoc add: append_assoc [symmetric] ready_snoc)

lemma harmless_calls [simp]:
  "harmless r d (DockerHealthcheck r)" "harmless r d (DockerBuild f t d r)" "harmless r d (DockerRun t c d e r)"
  "harmless r d (DockerCleanup container img policy success r')" "harmless r d (ApplyCleanupPolicy policy code w container' image')"
  "harmless r (blank_if_none w') (SshRunTest r c e' prefix w' parent vault timeout heart)"
  by (simp_all add: harmless_def)

lemma enforce_disk_quota_ready:
  assumes "gated env (required_check inp) cs" "within_quota env cs" "cleared env cs r"
  shows "xwp (enforce_disk_quota env inp)
           (\<lambda>x cs'. gated env (required_check inp) cs' \<and> (x = Inr () \<longrightarrow> ready env (required_check inp) r (blank_if_none (er_workdir inp)) cs')) cs"
  using assms
  by (auto simp: enforce_disk_quota_def quota_gate_def xwp_step ready_def gate_steps required_check_def split: option.split)

lemma docker_chain_ready:
  assumes "ready env need r (blank_if_none (er_workdir inp)) cs"
  shows "xwp (run_docker_chain env inp command r) (\<lambda>x. ready env need r (blank_if_none (er_workdir inp))) cs"
  using assms
  by (auto simp: run_docker_chain_def docker_run_and_cleanup_def xwp_step Let_def ready_append split: sum.splits prod.splits)

lemma run_over_ssh_ready:
  assumes "ready env need (rr_id r) (blank_if_none (er_workdir inp)) cs"
  shows "xwp (run_over_ssh env inp r) (\<lambda>x. ready env need (rr_id r) (blank_if_none (er_workdir inp))) cs"
  using assms by (auto simp: run_over_ssh_def xwp_step ready_append split: sum.splits pyval.splits)

lemma apply_cleanup_ready:
  assumes "ready env need r d cs"
  shows "xwp (apply_cleanup_policy env inp code) (\<lambda>x. ready env need r d) cs"
  using assms by (auto simp: apply_cleanup_policy_def Let_def xwp_step ready_append)

lemma ready_gated: "ready env need r d cs \<Longrightarrow> gated env need cs"
  by (simp add: ready_def)

lemma run_on_runner_gated:
  assumes "gated env (required_check inp) cs" "within_quota env cs" "cleared env cs (rr_id r)"
  shows "xwp (run_on_runner env inp r) (\<lambda>x. gated env (required_check inp)) cs"
proof -
  let ?ready = "ready env (required_check inp) (rr_id r) (blank_if_none (er_workdir inp))"
  have work: "xwp (if er_needs_docker inp then run_docker_chain env inp (effective_command inp) (rr_id r) else run_over_ssh env inp r)
      (\<lambda>x. ?ready) cs'" if "?ready cs'" for cs'
    using that by (simp add: docker_chain_ready run_over_ssh_ready)
  show ?thesis
    unfolding run_on_runner_def
    by (rule xwp_seq_then [OF enforce_disk_quota_ready [OF assms]], simp, rule xwp_seq [OF work], simp, simp add: ready_gated,
        rule xwp_seq_then [OF apply_cleanup_ready], assumption, simp_all add: ready_gated xwp_step)
qed

lemma choose_runner_calls: "xwp (choose_runner env inp) (\<lambda>x cs'. cs' = cs \<or> (\<exists>d. cs' = cs @ [ResolveRunner d])) cs"
  by (auto simp: choose_runner_def resolve_runner_def xwp_step split: sum.split exec_failure.split)

lemma gated_resolve [simp]: "gated env need [ResolveRunner d]" and within_quota_resolve [simp]: "within_quota env [ResolveRunner d]"
  using gated_snoc [of env need "[]" "ResolveRunner d"] within_quota_snoc [of env "[]" "ResolveRunner d"]
  by (simp_all add: work_allowed_def)

definition on_start :: "exec_call list \<Rightarrow> bool" where
  "on_start cs \<longleftrightarrow> cs = [] \<or> (\<exists>d. cs = [ResolveRunner d])"

lemma run_execution_by_phases:
  assumes "\<And>r cs. on_start cs \<Longrightarrow> xwp (wait_for_healthy_runner env r) (P r) cs"
    and "\<And>e cs. on_start cs \<Longrightarrow> Q (Inl e) cs"
    and "\<And>r e cs. P r (Inl e) cs \<Longrightarrow> Q (Inl e) cs"
    and "\<And>r cs. P r (Inr False) cs \<Longrightarrow> Q (Inr (unreachable_output (rr_id r))) cs"
    and "\<And>r cs. P r (Inr True) cs \<Longrightarrow> xwp (run_on_runner env (inp\<lparr>er_workdir := derive_workdir inp (rr_base_path r)\<rparr>) r) Q cs"
  shows "xwp (run_execution env inp) Q []"
  unfolding run_execution_def
proof (rule xwp_seq [OF choose_runner_calls])
  fix r cs
  assume "cs = [] \<or> (\<exists>d. cs = [] @ [ResolveRunner d])"
  then have "on_start cs" by (simp add: on_start_def)
  then show "xwp (xbind (wait_for_healthy_runner env r) (\<lambda>healthy. if \<not> healthy then xreturn (unreachable_output (rr_id r))
      else run_on_runner env (inp\<lparr>er_workdir := derive_workdir inp (rr_base_path r)\<rparr>) r)) Q cs"
    by (rule xwp_seq [OF assms(1)]) (auto simp: xwp_step intro: assms(3-5))
qed (auto simp: on_start_def intro: assms(2))

lemma run_execution_gated: "xwp (run_execution env inp) (\<lambda>x. gated env (required_check inp)) []"
proof (rule run_execution_by_phases)
  show "xwp (wait_for_healthy_runner env r) (\<lambda>x cs'. gated env (required_check inp) cs' \<and> within_quota env cs'
      \<and> (x = Inr True \<longrightarrow> cleared env cs' (rr_id r))) cs" if "on_start cs" for r cs
    unfolding wait_for_healthy_runner_def
    by (rule xwp_mono [OF probe_runner_probing [where need = "required_check inp"]])
       (use that in \<open>auto simp: probing_def on_start_def\<close>)
  show "xwp (run_on_runner env (inp\<lparr>er_workdir := derive_workdir inp (rr_base_path r)\<rparr>) r) (\<lambda>x. gated env (required_check inp)) cs"
    if "gated env (required_check inp) cs \<and> within_quota env cs \<and> (Inr True = Inr True \<longrightarrow> cleared env cs (rr_id r))" for r cs
    using that run_on_runner_gated [of env "inp\<lparr>er_workdir := derive_workdir inp (rr_base_path r)\<rparr>" cs r] by simp
qed (auto simp: on_start_def)

end
