(* ===== verification/Shell_Commands.thy ===== *)
theory Shell_Commands
  imports Agent_Values
begin

text \<open>
  The command lines the execution runner sends to a host: quoting, environment assignments, the working directory
  (\<^verbatim>\<open>workers/execution-runner-worker/src/activities/ssh.py\<close>) and the command that starts a container
  (\<^verbatim>\<open>activities/docker.py\<close>). As a reference there is a reader for the fragment of the POSIX shell language these lines use:
  words of unquoted safe characters, single and double quotes, blanks and the operator \<^verbatim>\<open>&&\<close>; it refuses every other
  unquoted character.
\<close>

section \<open>Quoting\<close>

definition single_quote :: char where "single_quote = CHR 0x27"

definition double_quote :: char where "double_quote = CHR 0x22"

definition is_shell_safe :: "char \<Rightarrow> bool" where
  \<comment> \<open>the complement of \<^verbatim>\<open>[^\w@%+=:,./-]\<close> over ASCII\<close>
  "is_shell_safe c \<longleftrightarrow> is_lower c \<or> is_upper c \<or> is_digit c \<or> c \<in> set ''_@%+=:,./-''"

definition shlex_quote :: "pystr \<Rightarrow> pystr" where
  \<comment> \<open>\<open>shlex.quote\<close>\<close>
  "shlex_quote s =
     (if s = [] then [single_quote, single_quote]
      else if list_all is_shell_safe s then s
      else [single_quote]
         @ concat (map (\<lambda>c. if c = single_quote then [single_quote, double_quote, single_quote, double_quote, single_quote] else [c]) s)
         @ [single_quote])"

section \<open>Commands over SSH\<close>

definition bad_name_char :: "char \<Rightarrow> bool" where
  "bad_name_char c \<longleftrightarrow> c \<in> {CHR ''='', CHR '' '', CHR 0x09, CHR 0x0A, CHR 0x27, CHR 0x22}"

definition env_assignment :: "pystr \<times> pystr \<Rightarrow> pystr + pystr" where
  "env_assignment kv =
     (if fst kv = [] \<or> list_ex bad_name_char (fst kv) then Inl ''ValueError'' else Inr (fst kv @ ''='' @ shlex_quote (snd kv)))"

definition shell_quote_environment :: "(pystr \<times> pystr) list \<Rightarrow> pystr + pystr" where
  "shell_quote_environment env =
     (if env = [] then Inr [] else rbind (rmap env_assignment (sorted_items env)) (\<lambda>parts. Inr (join_with '' '' parts @ '' '')))"

definition build_full_command :: "pystr \<Rightarrow> pystr option \<Rightarrow> pystr \<Rightarrow> pystr" where
  "build_full_command command workdir env_prefix =
     (let body = env_prefix @ command; q = shlex_quote (blank_if_none workdir)
      in if blank_if_none workdir \<noteq> [] then ''mkdir -p '' @ q @ '' && cd '' @ q @ '' && '' @ body else body)"

section \<open>Commands for containers\<close>

record DockerRunInput =
  dr_image :: pystr
  dr_command :: pystr
  dr_workspace_path :: pystr
  dr_environment :: "pystr pydict"
  dr_cpu_limit :: pystr \<comment> \<open>the number as \<open>str\<close> prints it\<close>
  dr_memory_limit_mb :: int

definition docker_env_args :: "pystr pydict \<Rightarrow> pystr list" where
  "docker_env_args environment = map (\<lambda>(k, v). ''--env '' @ shlex_quote (k @ ''='' @ v)) environment"

definition docker_run_parts :: "pystr pydict \<Rightarrow> DockerRunInput \<Rightarrow> pystr list" where
  "docker_run_parts environment inp =
     (let w = shlex_quote (dr_workspace_path inp)
      in [''docker run'', ''--cpus='' @ dr_cpu_limit inp, ''--memory='' @ show_int (dr_memory_limit_mb inp) @ ''m'',
          ''-v '' @ w @ '':'' @ w @ '':rw'', ''-w '' @ w]
         @ docker_env_args environment
         @ [''--rm=false'', shlex_quote (dr_image inp), ''sh -c '' @ shlex_quote (dr_command inp)])"

definition docker_run_cmd :: "DockerRunInput \<Rightarrow> pystr" where
  \<comment> \<open>the command \<open>docker_run_container\<close> executes\<close>
  "docker_run_cmd inp = join_with '' '' (docker_run_parts (dr_environment inp) inp)"

definition build_docker_run_command :: "DockerRunInput \<Rightarrow> pystr" where
  "build_docker_run_command inp = join_with '' '' (docker_run_parts (sorted_items (dr_environment inp)) inp)"

section \<open>Reading shell commands\<close>

datatype quoting = Plain | Single | Double

definition double_special :: "char \<Rightarrow> bool" where
  "double_special c \<longleftrightarrow> c \<in> {CHR ''$'', CHR 0x60, CHR 0x5C}"

fun sh_lex :: "quoting \<Rightarrow> pystr \<Rightarrow> (pystr \<times> pystr) option" where
  \<comment> \<open>one word and the rest, which is empty or starts with a blank\<close>
  "sh_lex Plain [] = Some ([], [])"
| "sh_lex Single [] = None"
| "sh_lex Double [] = None"
| "sh_lex Plain (c # cs) =
     (if c = single_quote then sh_lex Single cs
      else if c = double_quote then sh_lex Double cs
      else if is_shell_safe c then map_option (apfst (Cons c)) (sh_lex Plain cs)
      else if c = CHR '' '' then Some ([], c # cs) else None)"
| "sh_lex Single (c # cs) = (if c = single_quote then sh_lex Plain cs else map_option (apfst (Cons c)) (sh_lex Single cs))"
| "sh_lex Double (c # cs) =
     (if c = double_quote then sh_lex Plain cs
      else if double_special c then None else map_option (apfst (Cons c)) (sh_lex Double cs))"

datatype sh_token = Word pystr | And

definition ends_word :: "pystr \<Rightarrow> bool" where
  "ends_word r \<longleftrightarrow> r = [] \<or> hd r = CHR '' ''"

definition sh_token :: "pystr \<Rightarrow> (sh_token \<times> pystr) option" where
  "sh_token s =
     (case strip_prefix ''&&'' s of
        Some r \<Rightarrow> if ends_word r then Some (And, r) else None
      | None \<Rightarrow> map_option (apfst Word) (sh_lex Plain s))"

fun sh_tokens :: "nat \<Rightarrow> pystr \<Rightarrow> (sh_token list \<times> pystr) option" where
  \<comment> \<open>so many tokens, each with the blank after it\<close>
  "sh_tokens 0 s = Some ([], s)"
| "sh_tokens (Suc n) s =
     (case sh_token s of None \<Rightarrow> None | Some (t, r) \<Rightarrow> map_option (apfst (Cons t)) (sh_tokens n (tl r)))"

definition is_name_char :: "char \<Rightarrow> bool" where
  "is_name_char c \<longleftrightarrow> is_lower c \<or> is_upper c \<or> is_digit c \<or> c = CHR ''_''"

definition is_name :: "pystr \<Rightarrow> bool" where
  \<comment> \<open>a name of the POSIX shell: the only words before \<^verbatim>\<open>=\<close> that make an assignment\<close>
  "is_name k \<longleftrightarrow> k \<noteq> [] \<and> \<not> is_digit (hd k) \<and> list_all is_name_char k"

definition sh_assignment :: "pystr \<Rightarrow> ((pystr \<times> pystr) \<times> pystr) option" where
  \<comment> \<open>an unquoted name, \<^verbatim>\<open>=\<close> and a word, with the rest\<close>
  "sh_assignment s =
     (let k = takeWhile is_name_char s; r = dropWhile is_name_char s
      in if is_name k \<and> r \<noteq> [] \<and> hd r = CHR ''='' then map_option (\<lambda>(v, rest). ((k, v), rest)) (sh_lex Plain (tl r)) else None)"

fun sh_assignments :: "nat \<Rightarrow> pystr \<Rightarrow> ((pystr \<times> pystr) list \<times> pystr) option" where
  \<comment> \<open>so many assignments, each with the blank after it\<close>
  "sh_assignments 0 s = Some ([], s)"
| "sh_assignments (Suc n) s =
     (case sh_assignment s of None \<Rightarrow> None | Some (a, r) \<Rightarrow> map_option (apfst (Cons a)) (sh_assignments n (tl r)))"

section \<open>What the shell reads\<close>

lemma shell_safe_quotes [simp]: "\<not> is_shell_safe single_quote" "\<not> is_shell_safe double_quote" "\<not> is_shell_safe (CHR '' '')"
    "\<not> is_shell_safe (CHR ''&'')"
  and quotes_differ [simp]: "single_quote \<noteq> double_quote" "double_quote \<noteq> single_quote"
    "CHR '' '' \<noteq> single_quote" "CHR '' '' \<noteq> double_quote" "CHR ''&'' \<noteq> single_quote" "CHR ''&'' \<noteq> double_quote"
  and double_special_quotes [simp]: "\<not> double_special single_quote"
  by (simp_all add: is_shell_safe_def single_quote_def double_quote_def char_range_def double_special_def)

lemma prepend_nothing [simp]: "map_option (apfst ((@) [])) x = x" "map_option (apfst (\<lambda>a. a)) x = x"
  by (cases x; auto)+

lemma prepend_twice [simp]: "map_option (apfst f) (map_option (apfst g) x) = map_option (apfst (\<lambda>a. f (g a))) x"
  by (cases x) (auto simp: apfst_def)

lemma prepend_lists: "(@) [x] = Cons x" "(@) (xs @ ys) = (\<lambda>a. xs @ ys @ a)"
  by auto

lemma sh_lex_safe: "list_all is_shell_safe s \<Longrightarrow> sh_lex Plain (s @ t) = map_option (apfst ((@) s)) (sh_lex Plain t)"
proof (induction s)
  case (Cons c s)
  then have "c \<noteq> single_quote" "c \<noteq> double_quote" by auto
  with Cons show ?case by simp
qed simp

lemma sh_lex_quoted:
  "sh_lex Single (concat (map (\<lambda>c. if c = single_quote then [single_quote, double_quote, single_quote, double_quote, single_quote] else [c]) s)
     @ single_quote # t) = map_option (apfst ((@) s)) (sh_lex Plain t)"
  by (induction s) simp_all

lemma sh_lex_shlex_quote: "sh_lex Plain (shlex_quote s @ t) = map_option (apfst ((@) s)) (sh_lex Plain t)"
  using sh_lex_quoted [of s t] by (simp add: shlex_quote_def sh_lex_safe)

lemma sh_lex_blank [simp]: "sh_lex Plain (CHR '' '' # t) = Some ([], CHR '' '' # t)"
  by simp

lemma sh_token_word: "sh_lex Plain s = Some (w, r) \<Longrightarrow> sh_token s = Some (Word w, r)"
  by (cases s) (auto simp: sh_token_def split: if_splits)

definition reads :: "pystr \<Rightarrow> sh_token list \<Rightarrow> bool" where
  \<comment> \<open>before the end or a blank the shell reads the text as these tokens\<close>
  "reads s ts \<longleftrightarrow> (\<forall>n r. ends_word r \<longrightarrow> sh_tokens (length ts + n) (s @ r) = map_option (apfst ((@) ts)) (sh_tokens n (tl r)))"

lemma sh_lex_end: "ends_word r \<Longrightarrow> sh_lex Plain r = Some ([], r)"
  by (cases r) (auto simp: ends_word_def)

lemma ends_word_simps [simp]: "ends_word []" "ends_word (CHR '' '' # r)"
  by (simp_all add: ends_word_def)

lemma reads_word: "(\<And>r. ends_word r \<Longrightarrow> sh_lex Plain (s @ r) = Some (w, r)) \<Longrightarrow> reads s [Word w]"
  by (simp add: reads_def sh_token_word prepend_lists)

lemma reads_safe: "list_all is_shell_safe s \<Longrightarrow> reads s [Word s]"
  by (rule reads_word) (simp add: sh_lex_safe sh_lex_end)

lemma reads_quote: "reads (shlex_quote s) [Word s]"
  by (rule reads_word) (simp add: sh_lex_shlex_quote sh_lex_end)

lemma reads_and: "reads ''&&'' [And]"
  by (simp add: reads_def sh_token_def prepend_lists)

lemma reads_append: "reads s ts \<Longrightarrow> reads s' ts' \<Longrightarrow> reads (s @ CHR '' '' # s') (ts @ ts')"
  unfolding reads_def by (simp add: add.assoc prepend_lists)

lemma reads_join: "list_all2 reads ps tss \<Longrightarrow> ps \<noteq> [] \<Longrightarrow> reads (join_with '' '' ps) (concat tss)"
proof (induction ps tss rule: list_all2_induct)
  case (Cons p ps ts tss)
  then show ?case by (cases ps) (auto intro: reads_append)
qed simp

lemma reads_line: "reads s ts \<Longrightarrow> k = length ts \<Longrightarrow> sh_tokens k s = Some (ts, [])"
  unfolding reads_def by (elim allE [of _ 0] allE [of _ "[]"]) simp

lemma reads_before: "reads s ts \<Longrightarrow> k = length ts \<Longrightarrow> sh_tokens k (s @ CHR '' '' # r) = Some (ts, r)"
  unfolding reads_def by (elim allE [of _ 0] allE [of _ "CHR '' '' # r"]) simp

lemma safe_constants:
  "list_all is_shell_safe ''mkdir''" "list_all is_shell_safe ''-p''" "list_all is_shell_safe ''cd''" "list_all is_shell_safe ''docker''"
  "list_all is_shell_safe ''run''" "list_all is_shell_safe ''-v''" "list_all is_shell_safe ''-w''" "list_all is_shell_safe ''--env''"
  "list_all is_shell_safe ''--rm=false''" "list_all is_shell_safe ''sh''" "list_all is_shell_safe ''-c''" "list_all is_shell_safe ''--cpus=''"
  "list_all is_shell_safe ''--memory=''" "list_all is_shell_safe ''m''" "list_all is_shell_safe '':rw''" "list_all is_shell_safe '':''"
  "list_all is_shell_safe ''=''"
  by (simp_all add: is_shell_safe_def char_range_def)

lemmas reads_rules = reads_append reads_quote reads_and safe_constants [THEN reads_safe]

text \<open>
  The working directory reaches the shell as one word. Whatever characters the directory holds, the command line for
  a non-empty directory reads as \<^verbatim>\<open>mkdir -p D && cd D &&\<close> with exactly this directory as \<open>D\<close>, followed by the environment
  assignments and the command.
\<close>
theorem directory_is_one_word:
  assumes "d \<noteq> []"
  shows "sh_tokens 7 (build_full_command command (Some d) prefix) =
           Some ([Word ''mkdir'', Word ''-p'', Word d, And, Word ''cd'', Word d, And], prefix @ command)"
proof -
  have "reads (''mkdir'' @ CHR '' '' # ''-p'' @ CHR '' '' # shlex_quote d @ CHR '' '' # ''&&'' @ CHR '' '' # ''cd'' @ CHR '' '' # shlex_quote d
      @ CHR '' '' # ''&&'') ([Word ''mkdir''] @ [Word ''-p''] @ [Word d] @ [And] @ [Word ''cd''] @ [Word d] @ [And])"
    by (intro reads_rules)
  from reads_before [OF this, of 7 "prefix @ command"] assms show ?thesis
    by (simp add: build_full_command_def blank_if_none_def Let_def)
qed

theorem directory_is_one_word_witness:
  "sh_tokens 7 (build_full_command ''make'' (Some ''/w/it's; rm -rf *'') ''A=1 '') =
     Some ([Word ''mkdir'', Word ''-p'', Word ''/w/it's; rm -rf *'', And, Word ''cd'', Word ''/w/it's; rm -rf *'', And], ''A=1 make'')"
  using directory_is_one_word [of "''/w/it's; rm -rf *''" "''make''" "''A=1 ''"] by simp

lemma length_insert_key [simp]: "length (insert_key p qs) = Suc (length qs)"
  by (induction p qs rule: insert_key.induct) auto

lemma length_sorted_items [simp]: "length (sorted_items d) = length d"
  by (induction d) (auto simp: sorted_items_def)

lemma name_accepted: "is_name k \<Longrightarrow> env_assignment (k, v) = Inr (k @ ''='' @ shlex_quote v)"
proof -
  have "\<not> bad_name_char c" if "is_name_char c" for c
    using that by (auto simp: is_name_char_def bad_name_char_def char_range_def)
  then show ?thesis if "is_name k"
    using that by (auto simp: is_name_def env_assignment_def list_all_iff list_ex_iff)
qed

lemma names_accepted:
  "list_all (is_name \<circ> fst) kvs \<Longrightarrow> rmap env_assignment kvs = Inr (map (\<lambda>(k, v). k @ ''='' @ shlex_quote v) kvs)"
  by (induction kvs) (auto simp: name_accepted)

lemma sh_assignment_read:
  assumes "is_name k"
  shows "sh_assignment (k @ ''='' @ shlex_quote v @ CHR '' '' # r) = Some ((k, v), CHR '' '' # r)"
proof -
  have "\<not> is_name_char (CHR ''='')" by (simp add: is_name_char_def char_range_def)
  then have "takeWhile is_name_char (k @ ''='' @ t) = k" "dropWhile is_name_char (k @ ''='' @ t) = ''='' @ t" for t
    using assms by (auto simp: is_name_def list_all_iff takeWhile_append2 dropWhile_append2)
  with assms sh_lex_shlex_quote [of v "CHR '' '' # r"] show ?thesis by (simp add: sh_assignment_def)
qed

lemma sh_assignments_read:
  "list_all (is_name \<circ> fst) kvs \<Longrightarrow>
     sh_assignments (length kvs) (concat (map (\<lambda>(k, v). k @ ''='' @ shlex_quote v @ '' '') kvs) @ rest) = Some (kvs, rest)"
proof (induction kvs)
  case (Cons kv kvs)
  obtain k v where "kv = (k, v)" by (cases kv)
  with Cons sh_assignment_read [of k v "concat (map (\<lambda>(k, v). k @ ''='' @ shlex_quote v @ '' '') kvs) @ rest"]
  show ?case by simp
qed simp

lemma join_with_blank: "ps \<noteq> [] \<Longrightarrow> join_with '' '' ps @ '' '' = concat (map (\<lambda>p. p @ '' '') ps)"
proof (induction ps)
  case (Cons p ps)
  then show ?case by (cases ps) auto
qed simp

text \<open>
  C18. The environment of a command reaches it unchanged. When the names are names of the shell (a letter or an
  underscore, then letters, digits and underscores), the prefix is built, and the shell reads it as one assignment for
  every variable, in the order of the names, with exactly the values of the request, whatever characters they hold, and
  then the command follows. (Other names pass the check of the code, and for them nothing of the kind holds.)
\<close>
theorem environment_is_unchanged:
  assumes "list_all (is_name \<circ> fst) env"
  shows "\<exists>prefix. shell_quote_environment env = Inr prefix
       \<and> (\<forall>command. sh_assignments (length env) (prefix @ command) = Some (sorted_items env, command))"
proof (cases "env = []")
  case True
  then show ?thesis by (simp add: shell_quote_environment_def sorted_items_def)
next
  case False
  let ?kvs = "sorted_items env"
  have names: "list_all (is_name \<circ> fst) ?kvs" using assms by (simp add: list_all_iff set_sorted_items)
  have "?kvs \<noteq> []" using False length_sorted_items [of env] by (metis length_0_conv)
  then have "shell_quote_environment env = Inr (concat (map (\<lambda>(k, v). k @ ''='' @ shlex_quote v @ '' '') ?kvs))"
    using False by (simp add: shell_quote_environment_def names_accepted [OF names] join_with_blank comp_def case_prod_unfold)
  with sh_assignments_read [OF names] show ?thesis by simp
qed

theorem environment_is_unchanged_witness:
  "\<exists>prefix. shell_quote_environment [(''B'', ''1''), (''A_2'', ''x; y'')] = Inr prefix
     \<and> sh_assignments 2 (prefix @ ''make'') = Some ([(''A_2'', ''x; y''), (''B'', ''1'')], ''make'')"
proof -
  have "list_all (is_name \<circ> fst) [(''B'', ''1''), (''A_2'', ''x; y'')]"
    "sorted_items [(''B'', ''1''), (''A_2'', ''x; y'')] = [(''A_2'', ''x; y''), (''B'', ''1'')]"
    by code_simp+
  with environment_is_unchanged [of "[(''B'', ''1''), (''A_2'', ''x; y'')]"] show ?thesis by (auto simp: numeral_2_eq_2)
qed

lemma safe_show_nat: "list_all is_shell_safe (show_nat n)"
  using show_nat_digits [of n] by (auto simp: list_all_iff is_shell_safe_def)

lemma safe_show_int: "list_all is_shell_safe (show_int i)"
  by (auto simp: show_int_def safe_show_nat) (simp_all add: is_shell_safe_def)

lemma reads_volume: "reads (shlex_quote w @ '':'' @ shlex_quote w @ '':rw'') [Word (w @ '':'' @ w @ '':rw'')]"
  by (rule reads_word)
     (simp only: append_assoc sh_lex_shlex_quote sh_lex_safe safe_constants, simp add: sh_lex_end)

definition docker_words :: "pystr pydict \<Rightarrow> DockerRunInput \<Rightarrow> pystr list" where
  "docker_words environment inp =
     [''docker'', ''run'', ''--cpus='' @ dr_cpu_limit inp, ''--memory='' @ show_int (dr_memory_limit_mb inp) @ ''m'',
      ''-v'', dr_workspace_path inp @ '':'' @ dr_workspace_path inp @ '':rw'', ''-w'', dr_workspace_path inp]
     @ concat (map (\<lambda>(k, v). [''--env'', k @ ''='' @ v]) environment)
     @ [''--rm=false'', dr_image inp, ''sh'', ''-c'', dr_command inp]"

lemma reads_two: "reads s [Word u] \<Longrightarrow> reads t [Word v] \<Longrightarrow> reads (s @ CHR '' '' # t) [Word u, Word v]"
  using reads_append [of s "[Word u]" t "[Word v]"] by simp

lemma docker_env_reads:
  "list_all2 reads (docker_env_args environment) (map (\<lambda>(k, v). [Word ''--env'', Word (k @ ''='' @ v)]) environment)"
proof -
  have "reads (''--env'' @ CHR '' '' # shlex_quote (k @ ''='' @ v)) [Word ''--env'', Word (k @ ''='' @ v)]" for k v
    by (intro reads_two reads_rules)
  then show ?thesis by (auto simp: docker_env_args_def list.rel_map intro!: list.rel_refl)
qed

lemma docker_parts_read:
  assumes "list_all is_shell_safe (dr_cpu_limit inp)"
  shows "reads (join_with '' '' (docker_run_parts environment inp)) (map Word (docker_words environment inp))"
proof -
  let ?w = "shlex_quote (dr_workspace_path inp)"
  let ?head = "[[Word ''docker'', Word ''run''], [Word (''--cpus='' @ dr_cpu_limit inp)],
      [Word (''--memory='' @ show_int (dr_memory_limit_mb inp) @ ''m'')],
      [Word ''-v'', Word (dr_workspace_path inp @ '':'' @ dr_workspace_path inp @ '':rw'')], [Word ''-w'', Word (dr_workspace_path inp)]]"
  let ?tail = "[[Word ''--rm=false''], [Word (dr_image inp)], [Word ''sh'', Word ''-c'', Word (dr_command inp)]]"
  have a: "reads (''docker'' @ CHR '' '' # ''run'') [Word ''docker'', Word ''run'']"
    and b: "reads (''-v'' @ CHR '' '' # ?w @ '':'' @ ?w @ '':rw'') [Word ''-v'', Word (dr_workspace_path inp @ '':'' @ dr_workspace_path inp @ '':rw'')]"
    and c: "reads (''-w'' @ CHR '' '' # ?w) [Word ''-w'', Word (dr_workspace_path inp)]"
    by (intro reads_two reads_rules reads_volume)+
  have d: "reads (''sh'' @ CHR '' '' # ''-c'' @ CHR '' '' # shlex_quote (dr_command inp)) ([Word ''sh''] @ [Word ''-c''] @ [Word (dr_command inp)])"
    by (intro reads_rules)
  have e: "reads (''--cpus='' @ dr_cpu_limit inp) [Word (''--cpus='' @ dr_cpu_limit inp)]"
    "reads (''--memory='' @ show_int (dr_memory_limit_mb inp) @ ''m'') [Word (''--memory='' @ show_int (dr_memory_limit_mb inp) @ ''m'')]"
    using assms safe_constants by (intro reads_safe; simp add: safe_show_int)+
  have "list_all2 reads (docker_run_parts environment inp)
      (?head @ map (\<lambda>(k, v). [Word ''--env'', Word (k @ ''='' @ v)]) environment @ ?tail)"
    unfolding docker_run_parts_def Let_def
    by (intro list_all2_appendI docker_env_reads)
       (use a b c d e reads_safe [OF safe_constants(9)] reads_quote in simp_all)
  from reads_join [OF this] show ?thesis
    by (simp add: docker_run_parts_def Let_def docker_words_def map_concat comp_def case_prod_unfold)
qed

text \<open>
  A container is started with exactly the arguments of the request. The command line of \<open>docker run\<close> reads as the
  intended words: image, command, directory and every environment entry are one word each, whatever characters they
  hold. The helper that renders the command for inspection gives the same words with the environment in sorted order.
\<close>
theorem container_arguments_are_words:
  assumes "list_all is_shell_safe (dr_cpu_limit inp)"
  shows "sh_tokens (length (docker_words (dr_environment inp) inp)) (docker_run_cmd inp) = Some (map Word (docker_words (dr_environment inp) inp), [])
       \<and> sh_tokens (length (docker_words (dr_environment inp) inp)) (build_docker_run_command inp)
           = Some (map Word (docker_words (sorted_items (dr_environment inp)) inp), [])"
proof -
  have "length (docker_words (sorted_items (dr_environment inp)) inp) = length (docker_words (dr_environment inp) inp)"
    by (simp add: docker_words_def length_concat comp_def case_prod_unfold sum_list_triv)
  then show ?thesis
    unfolding docker_run_cmd_def build_docker_run_command_def by (intro conjI reads_line docker_parts_read assms) simp_all
qed

definition hostile_run :: DockerRunInput where
  "hostile_run =
     \<lparr>dr_image = ''img'', dr_command = ''echo $HOME'', dr_workspace_path = ''/w'', dr_environment = [(''B'', ''x y''), (''A'', '''')],
      dr_cpu_limit = ''2.0'', dr_memory_limit_mb = 2048\<rparr>"

theorem container_arguments_are_words_witness:
  "sh_tokens 17 (docker_run_cmd hostile_run) =
     Some (map Word [''docker'', ''run'', ''--cpus=2.0'', ''--memory=2048m'', ''-v'', ''/w:/w:rw'', ''-w'', ''/w'', ''--env'', ''B=x y'',
       ''--env'', ''A='', ''--rm=false'', ''img'', ''sh'', ''-c'', ''echo $HOME''], [])"
proof -
  have "length (docker_words (dr_environment hostile_run) hostile_run) = 17"
    "docker_words (dr_environment hostile_run) hostile_run =
       [''docker'', ''run'', ''--cpus=2.0'', ''--memory=2048m'', ''-v'', ''/w:/w:rw'', ''-w'', ''/w'', ''--env'', ''B=x y'',
        ''--env'', ''A='', ''--rm=false'', ''img'', ''sh'', ''-c'', ''echo $HOME'']"
    by code_simp+
  moreover have "list_all is_shell_safe (dr_cpu_limit hostile_run)" by code_simp
  ultimately show ?thesis using container_arguments_are_words [of hostile_run] by metis
qed

end
