(* ===== verification/Execution_Activities.thy ===== *)
theory Execution_Activities
  imports Execution_Run Shell_Commands Output_Limits
begin

text \<open>
  The activities of the execution runner (\<^verbatim>\<open>workers/execution-runner-worker/src/activities\<close>): credentials from the vault,
  commands over SSH, the probe of a host, the disk quota, the cleanup policies, containers and injected Git credentials.

  What is outside the worker is an argument: the process environment, the answers of the vault and of the object store,
  and the remote host as a function from commands to results. Log lines and heartbeats are not modelled; texts of
  exceptions of libraries are arguments where the code looks at them.
\<close>

section \<open>Settings\<close>

type_synonym settings = "pystr \<Rightarrow> pystr option"

definition setting :: "settings \<Rightarrow> pystr \<Rightarrow> pystr \<Rightarrow> pystr" where
  \<comment> \<open>\<open>os.environ.get(name, default)\<close>\<close>
  "setting g name dflt = (case g name of None \<Rightarrow> dflt | Some v \<Rightarrow> v)"

section \<open>Credentials\<close>

record SSHCred =
  sc_host :: pystr
  sc_port :: int
  sc_user :: pystr
  sc_private_key :: pystr

datatype vault_error =
    NoVaultToken
  | VaultTransport pystr
  | SecretNotFound pystr
  | VaultStatus int pystr
  | InvalidJson
  | MissingData
  | MissingDataData
  | MissingFields "pystr list"
  | InvalidPort
  | PortOutOfRange int

record http_answer =
  ha_status :: int
  ha_json :: "pyval option" \<comment> \<open>\<open>None\<close>: no JSON\<close>

definition ok_status :: "int \<Rightarrow> bool" where
  "ok_status n \<longleftrightarrow> 200 \<le> n \<and> n < 300"

definition dict_field :: "pyval \<Rightarrow> pystr \<Rightarrow> pyval pydict option" where
  \<comment> \<open>the object under a key of an object\<close>
  "dict_field v k = Option.bind (as_dict v) (\<lambda>d. as_dict (get_or_none d k))"

definition read_kv2_secret :: "(pystr \<Rightarrow> pystr + http_answer) \<Rightarrow> pystr \<Rightarrow> pystr \<Rightarrow> pystr \<Rightarrow> vault_error + pyval pydict" where
  "read_kv2_secret get addr mount path =
     (let place = mount @ ''/data/'' @ path
      in case get (addr @ ''/v1/'' @ place) of
           Inl e \<Rightarrow> Inl (VaultTransport e)
         | Inr a \<Rightarrow>
             if ha_status a = 404 then Inl (SecretNotFound place)
             else if \<not> ok_status (ha_status a) then Inl (VaultStatus (ha_status a) place)
             else case ha_json a of
                    None \<Rightarrow> Inl InvalidJson
                  | Some v \<Rightarrow>
                      (case dict_field v ''data'' of
                         None \<Rightarrow> Inl MissingData
                       | Some outer \<Rightarrow>
                           (case as_dict (get_or_none outer ''data'') of None \<Rightarrow> Inl MissingDataData | Some d \<Rightarrow> Inr d)))"

definition REQUIRED_FIELDS :: "pystr list" where
  "REQUIRED_FIELDS = [''host'', ''port'', ''user'', ''private_key'']"

definition secret_path :: "settings \<Rightarrow> pystr option \<Rightarrow> pystr" where
  "secret_path g vault_path =
     (if blank_if_none vault_path \<noteq> [] then
        dropWhile (\<lambda>c. c = CHR ''/'')
          (strip (case strip_prefix ''vault:'' (blank_if_none vault_path) of Some r \<Rightarrow> r | None \<Rightarrow> blank_if_none vault_path))
      else setting g ''VAULT_SSH_SECRET_PATH'' ''ssh/runner/current'')"

definition ssh_cred_of :: "(pyval \<Rightarrow> pystr) \<Rightarrow> pyval pydict \<Rightarrow> vault_error + SSHCred" where
  "ssh_cred_of repr secret =
     (let absent = filter (\<lambda>f. \<not> truthy (get_or_none secret f)) REQUIRED_FIELDS
      in if absent \<noteq> [] then Inl (MissingFields absent)
         else case py_int (get_or_none secret ''port'') of
                Inl _ \<Rightarrow> Inl InvalidPort
              | Inr port \<Rightarrow>
                  if \<not> (1 \<le> port \<and> port \<le> 65535) then Inl (PortOutOfRange port)
                  else Inr \<lparr>sc_host = py_str repr (get_or_none secret ''host''), sc_port = port,
                            sc_user = py_str repr (get_or_none secret ''user''),
                            sc_private_key = py_str repr (get_or_none secret ''private_key'')\<rparr>)"

definition vault_fetch_ssh_credentials ::
  "settings \<Rightarrow> (pyval \<Rightarrow> pystr) \<Rightarrow> (pystr \<Rightarrow> pystr + http_answer) \<Rightarrow> pystr option \<Rightarrow> vault_error + SSHCred" where
  "vault_fetch_ssh_credentials g repr get vault_path =
     (if setting g ''VAULT_TOKEN'' [] = [] then Inl NoVaultToken
      else rbind (read_kv2_secret get (Iteration_Manager.rstrip_slash (setting g ''VAULT_ADDR'' ''http://vault:8200''))
                    (setting g ''VAULT_KV_MOUNT'' ''secret'') (secret_path g vault_path))
                 (ssh_cred_of repr))"

section \<open>Commands over SSH\<close>

record RunResult =
  rn_stdout :: pystr
  rn_stderr :: pystr
  rn_exit_code :: int

datatype ssh_failure =
    KeyUnreadable pystr
  | AuthenticationFailed pystr
  | SshFailure pystr
  | SshTimeout int
  | NetworkFailure pystr

fun ssh_cause :: "ssh_failure \<Rightarrow> pystr" where
  \<comment> \<open>the \<open>cause\<close> of the \<open>SSHActivityError\<close>\<close>
  "ssh_cause (KeyUnreadable e) = ''unable to parse private key: '' @ e"
| "ssh_cause (AuthenticationFailed e) = ''authentication failed: '' @ e"
| "ssh_cause (SshFailure e) = ''SSH error: '' @ e"
| "ssh_cause (SshTimeout n) = ''connection or command timed out after '' @ show_int n @ ''s''"
| "ssh_cause (NetworkFailure e) = ''network error: '' @ e"

type_synonym remote = "SSHCred \<Rightarrow> pystr \<Rightarrow> int \<Rightarrow> ssh_failure + RunResult"

definition ssh_execute_command :: "remote \<Rightarrow> SSHCred \<Rightarrow> pystr \<Rightarrow> pystr \<Rightarrow> int \<Rightarrow> ssh_failure + RunResult" where
  "ssh_execute_command remote cred command workspace_path timeout =
     remote cred (if workspace_path \<noteq> [] then ''cd '' @ workspace_path @ '' && '' @ command else command) timeout"

definition DEFAULT_BUCKET :: pystr where "DEFAULT_BUCKET = ''ai-runs''"

definition strip_slashes :: "pystr \<Rightarrow> pystr" where
  "strip_slashes s = Iteration_Manager.rstrip_slash (dropWhile (\<lambda>c. c = CHR ''/'') s)"

definition bucket_and_key_from_prefix :: "pystr \<Rightarrow> pystr \<times> pystr" where
  "bucket_and_key_from_prefix prefix =
     (let raw = strip_slashes (strip (case strip_prefix ''s3://'' prefix of Some r \<Rightarrow> r | None \<Rightarrow> prefix))
      in if raw = [] then (DEFAULT_BUCKET, [])
         else if CHR ''/'' \<in> set raw then
           (takeWhile (\<lambda>c. c \<noteq> CHR ''/'') raw, Iteration_Manager.rstrip_slash (tl (dropWhile (\<lambda>c. c \<noteq> CHR ''/'') raw)))
         else (raw, []))"

definition build_artifact_uri :: "pystr \<Rightarrow> pystr \<Rightarrow> pystr" where
  "build_artifact_uri bucket key = ''s3://'' @ bucket @ ''/'' @ key"

definition resolve_command_timeout_seconds :: "settings \<Rightarrow> int" where
  "resolve_command_timeout_seconds g =
     (case int_of_str (setting g ''SSH_COMMAND_TIMEOUT_S'' []) of None \<Rightarrow> 1800 | Some v \<Rightarrow> if v \<le> 0 then 1800 else v)"

definition minio_configured :: "settings \<Rightarrow> bool" where
  "minio_configured g \<longleftrightarrow> setting g ''MINIO_ROOT_USER'' [] \<noteq> [] \<and> setting g ''MINIO_ROOT_PASSWORD'' [] \<noteq> []"

type_synonym store = "pystr \<Rightarrow> pystr \<Rightarrow> pystr \<Rightarrow> pystr + int" \<comment> \<open>bucket, key, contents: an exception or a status\<close>

definition upload_text_artifact :: "settings \<Rightarrow> store \<Rightarrow> pystr \<Rightarrow> pystr \<Rightarrow> pystr \<Rightarrow> pystr + pystr option" where
  "upload_text_artifact g put bucket key contents =
     (if \<not> minio_configured g then Inr None
      else case put bucket key contents of
             Inl e \<Rightarrow> Inl e
           | Inr status \<Rightarrow> Inr (if ok_status status then Some (build_artifact_uri bucket key) else None))"

definition run_outcome :: "ssh_failure + RunResult \<Rightarrow> pystr \<times> int option \<times> pystr \<times> pystr \<times> pystr option" where
  \<comment> \<open>status, exit code, standard output, standard error, failure reason\<close>
  "run_outcome r =
     (case r of
        Inr res \<Rightarrow>
          (if rn_exit_code res = 0 then (''passed'', Some 0, rn_stdout res, rn_stderr res, None)
           else (''failed'', Some (rn_exit_code res), rn_stdout res, rn_stderr res, Some ''non_zero_exit''))
      | Inl e \<Rightarrow>
          if contains_sub ''timed out'' (lower (ssh_cause e)) then (''timeout'', None, [], ssh_cause e, Some ''timeout'')
          else (''failed'', None, [], ssh_cause e, Some ''runner_unreachable''))"

definition opt_str :: "pystr option \<Rightarrow> pyval" where
  "opt_str x = (case x of None \<Rightarrow> PNone | Some s \<Rightarrow> PStr s)"

definition ssh_result ::
  "pystr \<Rightarrow> int option \<Rightarrow> pystr option \<Rightarrow> pystr option \<Rightarrow> rat \<Rightarrow> pyval \<Rightarrow> pystr option \<Rightarrow> pyval" where
  "ssh_result status code out err duration runner why =
     PDict [(''status'', PStr status), (''exit_code'', case code of None \<Rightarrow> PNone | Some n \<Rightarrow> PInt n), (''stdout_uri'', opt_str out),
            (''stderr_uri'', opt_str err), (''duration_seconds'', PFloat duration), (''runner_id'', runner), (''failure_reason'', opt_str why)]"

definition artifact_key :: "pystr \<Rightarrow> pystr \<Rightarrow> pystr" where
  "artifact_key key_prefix name = (if key_prefix \<noteq> [] then key_prefix @ ''/'' @ name else name)"

definition ssh_command :: "pystr \<Rightarrow> pystr option \<Rightarrow> pystr \<Rightarrow> pystr" where
  \<comment> \<open>the command given to \<open>_ssh_execute_command\<close>, always with an empty workspace path\<close>
  "ssh_command command workdir env_prefix =
     (if env_prefix = [] \<and> blank_if_none workdir = [] then command else build_full_command command workdir env_prefix)"

definition ssh_run_test ::
  "settings \<Rightarrow> (pystr option \<Rightarrow> 'e + SSHCred) \<Rightarrow> remote \<Rightarrow> store \<Rightarrow> rat \<Rightarrow> pyval \<Rightarrow> pystr \<Rightarrow> (pystr \<times> pystr) list \<Rightarrow> pystr \<Rightarrow> pystr option \<Rightarrow>
     pystr option \<Rightarrow> pystr + pyval" where
  \<comment> \<open>\<open>Inl\<close> is an exception that leaves the activity\<close>
  "ssh_run_test g creds remote put duration runner command env prefix workdir vault_path =
     (case bucket_and_key_from_prefix prefix of (bucket, key_prefix) \<Rightarrow>
      case creds vault_path of
        Inl _ \<Rightarrow> Inr (ssh_result ''failed'' None None None 0 runner (Some ''runner_unreachable''))
      | Inr cred \<Rightarrow>
          rbind (shell_quote_environment env) (\<lambda>env_prefix.
            case run_outcome (ssh_execute_command remote cred (ssh_command command workdir env_prefix) [] (resolve_command_timeout_seconds g)) of
              (status, code, out, err, why) \<Rightarrow>
                rbind (upload_text_artifact g put bucket (artifact_key key_prefix ''stdout.txt'') out) (\<lambda>out_uri.
                rbind (upload_text_artifact g put bucket (artifact_key key_prefix ''stderr.txt'') err) (\<lambda>err_uri.
                  Inr (if (out_uri = None \<or> err_uri = None) \<and> status = ''passed''
                       then ssh_result ''failed'' code out_uri err_uri duration runner (Some ''artifact_upload_failed'')
                       else ssh_result status code out_uri err_uri duration runner why)))))"

definition ssh_connect_and_run :: "remote \<Rightarrow> SSHCred \<Rightarrow> pystr \<Rightarrow> pystr \<Rightarrow> int \<Rightarrow> exec_failure + pyval" where
  "ssh_connect_and_run remote cred command workspace_path timeout_minutes =
     (case ssh_execute_command remote cred command workspace_path (timeout_minutes * 60) of
        Inl e \<Rightarrow> Inl (ActivityFailed (ssh_cause e))
      | Inr x \<Rightarrow> Inr (PDict [(''stdout'', PStr (rn_stdout x)), (''stderr'', PStr (rn_stderr x)), (''exit_code'', PInt (rn_exit_code x))]))"

definition ssh_cleanup_command :: "pystr \<Rightarrow> pystr" where
  \<comment> \<open>the command of \<open>ssh_cleanup\<close>, whose failures are swallowed\<close>
  "ssh_cleanup_command workspace_path = ''rm -rf '' @ workspace_path"

section \<open>Probes\<close>

definition env_ssh_host :: "settings \<Rightarrow> pystr" where
  "env_ssh_host g = or_str (strip (setting g ''SSH_HOST'' [])) (or_str (strip (setting g ''SSH_HOST_1'' [])) ''localhost'')"

definition resolve_ssh_host :: "settings \<Rightarrow> pyval \<Rightarrow> int option \<Rightarrow> exec_failure + pystr \<times> int" where
  "resolve_ssh_host g host port =
     (if truthy host then
        (case host of
           PStr h \<Rightarrow> Inr (strip h, case port of None \<Rightarrow> 22 | Some p \<Rightarrow> p)
         | _ \<Rightarrow> Inl (PythonError ''AttributeError''))
      else Inr (env_ssh_host g, case int_of_str (setting g ''SSH_PORT_DEFAULT'' ''22'') of None \<Rightarrow> 22 | Some p \<Rightarrow> p))"

definition resolve_connect_timeout :: "settings \<Rightarrow> pyfloat" where
  "resolve_connect_timeout g =
     (case float_of_str (setting g ''SSH_CONNECT_TIMEOUT_S'' ''15'') of None \<Rightarrow> Fin 15 | Some v \<Rightarrow> py_max v (Fin 1))"

definition ssh_healthcheck ::
  "settings \<Rightarrow> (pystr \<Rightarrow> int \<Rightarrow> pyfloat \<Rightarrow> pystr option) \<Rightarrow> pyval \<Rightarrow> int option \<Rightarrow> exec_failure + pyval" where
  \<comment> \<open>\<open>connect\<close> is the error of a TCP connection, if any\<close>
  "ssh_healthcheck g connect host port =
     rbind (resolve_ssh_host g host port) (\<lambda>(h, p).
       let err = connect h p (resolve_connect_timeout g)
       in Inr (PDict [(''healthy'', PBool (err = None)), (''host'', PStr h), (''port'', PInt p), (''error'', opt_str err)]))"

section \<open>Disk quota\<close>

datatype quota_note =
    QuotaFine
  | QuotaCheckFailed pystr
  | QuotaExceeded

record DiskQuotaResult =
  dq_allowed :: bool
  dq_usage_mb :: pyfloat
  dq_quota_mb :: "rat option"
  dq_error :: quota_note
  dq_warning_sent :: bool
  dq_cleanup_candidates :: "pystr list"

definition quota_ssh :: "(pystr option \<Rightarrow> vault_error + SSHCred) \<Rightarrow> remote \<Rightarrow> pystr \<Rightarrow> pystr + RunResult" where
  \<comment> \<open>\<open>_execute_ssh_command\<close>; the error is the kind of the cause\<close>
  "quota_ssh creds remote command =
     (case creds None of
        Inl _ \<Rightarrow> Inl ''SSH credential fetch failed''
      | Inr cred \<Rightarrow>
          (case ssh_execute_command remote cred command [] 30 of
             Inl e \<Rightarrow> Inl (''SSH execution failed: '' @ ssh_cause e)
           | Inr r \<Rightarrow> Inr r))"

definition usage_command :: "pystr \<Rightarrow> pystr" where
  "usage_command base = ''if [ -d '' @ base @ '' ]; then du -sm '' @ base @ '' 2>/dev/null | awk '{print $1}'; else echo 0; fi''"

definition get_disk_usage_mb :: "(pystr \<Rightarrow> pystr + RunResult) \<Rightarrow> pystr \<Rightarrow> pystr + pyfloat" where
  "get_disk_usage_mb run base =
     rbind (run (usage_command base)) (\<lambda>r.
       if rn_exit_code r \<noteq> 0 then Inl ''du command failed''
       else case float_of_str (strip (rn_stdout r)) of None \<Rightarrow> Inl ''unable to parse disk usage'' | Some u \<Rightarrow> Inr u)"

definition candidates_command :: "pystr \<Rightarrow> pystr" where
  "candidates_command base =
     ''find '' @ base @ '' -maxdepth 1 -mindepth 1 -type d -mmin +4320 -printf '%f'' @ [CHR 0x5C] @ ''n' 2>/dev/null || true''"

definition get_cleanup_candidates :: "(pystr \<Rightarrow> pystr + RunResult) \<Rightarrow> pystr \<Rightarrow> pystr list" where
  "get_cleanup_candidates run base =
     (case run (candidates_command base) of
        Inl _ \<Rightarrow> []
      | Inr r \<Rightarrow>
          if rn_exit_code r \<noteq> 0 \<or> strip (rn_stdout r) = [] then []
          else filter (\<lambda>l. l \<noteq> []) (map strip (splitlines (strip (rn_stdout r)))))"

definition should_send_warning :: "pystr + http_answer \<Rightarrow> bool" where
  "should_send_warning a =
     (case a of
        Inl _ \<Rightarrow> True
      | Inr r \<Rightarrow>
          if ha_status r = 200
          then (case Option.bind (ha_json r) as_dict of None \<Rightarrow> True | Some d \<Rightarrow> truthy (get_default d ''should_warn'' (PBool True)))
          else True)"

definition send_warning :: "rat \<Rightarrow> pystr + int \<Rightarrow> bool" where
  \<comment> \<open>the percentage of an empty quota cannot be computed, which counts as not sent\<close>
  "send_warning quota posted = (quota \<noteq> 0 \<and> (case posted of Inl _ \<Rightarrow> False | Inr status \<Rightarrow> ok_status status))"

definition float_le :: "pyfloat \<Rightarrow> pyfloat \<Rightarrow> bool" where
  "float_le x y \<longleftrightarrow> float_less x y \<or> (x = y \<and> x \<noteq> NaN)"

definition check_disk_quota ::
  "(pystr \<Rightarrow> pystr + RunResult) \<Rightarrow> pystr + http_answer \<Rightarrow> pystr + int \<Rightarrow> pystr \<Rightarrow> rat option \<Rightarrow> DiskQuotaResult" where
  "check_disk_quota run warned posted base quota =
     (let result = (\<lambda>ok usage note sent cands. \<lparr>dq_allowed = ok, dq_usage_mb = usage, dq_quota_mb = quota, dq_error = note,
                       dq_warning_sent = sent, dq_cleanup_candidates = cands\<rparr>)
      in case quota of
           None \<Rightarrow> result True (Fin 0) QuotaFine False []
         | Some q \<Rightarrow>
             (case get_disk_usage_mb run base of
                Inl e \<Rightarrow> result True (Fin 0) (QuotaCheckFailed e) False []
              | Inr usage \<Rightarrow>
                  if float_less (Fin q) usage then result False usage QuotaExceeded False []
                  else if float_le (Fin (q * 4 / 5)) usage
                  then result True usage QuotaFine (should_send_warning warned \<and> send_warning q posted) (get_cleanup_candidates run base)
                  else result True usage QuotaFine False []))"

definition quota_value :: "DiskQuotaResult \<Rightarrow> pyval" where
  \<comment> \<open>the part of the result the workflow reads\<close>
  "quota_value r = PDict [(''allowed'', PBool (dq_allowed r))]"

section \<open>Cleanup policies\<close>

definition normalize_policy :: "pystr \<Rightarrow> pystr" where
  "normalize_policy policy = (let p = lower (strip policy) in if p = ''delete_on_success'' then ''on_success'' else p)"

datatype skip_reason = PolicyOnSuccess pyval | PolicyNever | UnknownPolicy pystr | VaultLookupFailed

definition policy_decision :: "pystr \<Rightarrow> pyval \<Rightarrow> skip_reason option" where
  \<comment> \<open>\<open>_should_cleanup\<close> of \<^verbatim>\<open>cleanup.py\<close>: why not\<close>
  "policy_decision policy code =
     (if policy = ''always'' then None
      else if policy = ''on_success'' then (if code \<noteq> PNone \<and> equals_zero code then None else Some (PolicyOnSuccess code))
      else if policy = ''never'' then Some PolicyNever
      else Some (UnknownPolicy policy))"

datatype cleanup_action = DockerRm | DockerRmi | WorkspaceRm

datatype session = BadKey | Unreachable | Session

record cleanup_host =
  \<comment> \<open>opening a session for containers and for the workspace, and a command: an exception, or its exit code\<close>
  ch_docker :: session
  ch_workspace :: session
  ch_exec :: "pystr \<Rightarrow> int option"

record CleanupPolicyResult =
  cp_performed :: bool
  cp_policy :: pystr
  cp_actions :: "cleanup_action list"
  cp_skipped :: "skip_reason option"
  cp_errors :: nat \<comment> \<open>the number of error texts\<close>

definition ssh_docker_cleanup :: "cleanup_host \<Rightarrow> pystr \<Rightarrow> pystr \<Rightarrow> cleanup_action list \<times> nat" where
  "ssh_docker_cleanup h container image_id =
     (if container = [] \<and> image_id = [] then ([], 0)
      else if ch_docker h \<noteq> Session then ([], 1)
      else
        let rmi = (if image_id = [] then ([], 0)
                   else case ch_exec h (''docker rmi '' @ shlex_quote image_id) of
                          None \<Rightarrow> ([], 1) | Some code \<Rightarrow> if code = 0 then ([DockerRmi], 0) else ([], 1))
        in if container = [] then rmi
           else case ch_exec h (''docker rm -f '' @ shlex_quote container) of
                  None \<Rightarrow> ([], 1)
                | Some code \<Rightarrow> if code = 0 then (DockerRm # fst rmi, snd rmi) else (fst rmi, Suc (snd rmi)))"

definition ssh_rm_workspace :: "cleanup_host \<Rightarrow> pystr \<Rightarrow> bool" where
  "ssh_rm_workspace h path \<longleftrightarrow> ch_workspace h = Session \<and> ch_exec h (''rm -rf '' @ shlex_quote path) = Some 0"

definition cleanup_activity :: "cleanup_host option \<Rightarrow> pystr \<Rightarrow> pyval \<Rightarrow> pystr \<Rightarrow> pystr option \<Rightarrow> pystr option \<Rightarrow> CleanupPolicyResult" where
  \<comment> \<open>the activity \<open>apply_cleanup_policy\<close>; without a host the lookup of the credentials has failed\<close>
  "cleanup_activity host policy code workspace container image_id =
     (let p = normalize_policy policy;
          skipped = (\<lambda>why. \<lparr>cp_performed = False, cp_policy = p, cp_actions = [], cp_skipped = Some why, cp_errors = 0\<rparr>)
      in case policy_decision p code of
           Some why \<Rightarrow> skipped why
         | None \<Rightarrow>
             (case host of
                None \<Rightarrow> skipped VaultLookupFailed
              | Some h \<Rightarrow>
                  let (acts, errs) = ssh_docker_cleanup h (blank_if_none container) (blank_if_none image_id);
                      acts' = acts @ (if workspace \<noteq> [] \<and> ssh_rm_workspace h workspace then [WorkspaceRm] else []);
                      errs' = errs + (if workspace \<noteq> [] \<and> \<not> ssh_rm_workspace h workspace then 1 else 0)
                  in \<lparr>cp_performed = (acts' \<noteq> []), cp_policy = p, cp_actions = acts', cp_skipped = None, cp_errors = errs'\<rparr>))"

section \<open>Containers\<close>

definition should_perform_cleanup :: "pystr \<Rightarrow> bool \<Rightarrow> bool" where
  "should_perform_cleanup policy succeeded =
     (if policy = ''always'' then True else if policy = ''on_success'' then succeeded else False)"

type_synonym docker_host = "pystr \<Rightarrow> int \<Rightarrow> pystr + pystr \<times> pystr \<times> int"
  \<comment> \<open>\<open>_ssh_exec\<close>: command and timeout to an error text, or output, errors and exit code\<close>

record DockerBuildInput =
  db_dockerfile_path :: pystr
  db_image_tag :: pystr
  db_workspace_path :: pystr
  db_build_timeout :: int

record DockerBuildResult =
  bo_success :: bool
  bo_image_id :: "pystr option"
  bo_error :: "pystr option"
  bo_duration :: rat

definition build_command :: "DockerBuildInput \<Rightarrow> pystr" where
  "build_command inp =
     ''cd '' @ shlex_quote (db_workspace_path inp) @ '' && docker build -t '' @ shlex_quote (db_image_tag inp)
     @ '' -f '' @ shlex_quote (db_dockerfile_path inp) @ '' .''"

definition image_of_line :: "pystr \<Rightarrow> pystr option option" where
  \<comment> \<open>\<open>None\<close>: look at the next line; otherwise the image that ends the search, if any\<close>
  "image_of_line line =
     (let l = strip line; ws = words_from [] l
      in if starts_with l ''sha256:'' then Some (Some l)
         else if contains_sub ''successfully built'' (lower l) then Some (if ws = [] then None else Some (last ws))
         else if contains_sub ''writing image'' (lower l)
         then (case find (\<lambda>w. starts_with w ''sha256:'') ws of Some w \<Rightarrow> Some (Some w) | None \<Rightarrow> None)
         else None)"

fun first_image :: "pystr list \<Rightarrow> pystr option" where
  "first_image [] = None"
| "first_image (l # ls) = (case image_of_line l of Some x \<Rightarrow> x | None \<Rightarrow> first_image ls)"

definition build_error :: "DockerBuildInput \<Rightarrow> pystr \<Rightarrow> pystr \<Rightarrow> int \<Rightarrow> pystr" where
  "build_error inp out err code =
     (let combined = lower (out @ [newline] @ err)
      in if contains_sub ''no such file'' combined \<or> contains_sub ''not found'' combined
         then ''Dockerfile not found: '' @ db_dockerfile_path inp
         else if contains_sub ''timed out'' combined then ''Build timeout after '' @ show_int (db_build_timeout inp) @ ''s''
         else if err \<noteq> [] then take 1000 err else ''Build failed with exit code '' @ show_int code)"

definition docker_build_image :: "docker_host option \<Rightarrow> rat \<Rightarrow> DockerBuildInput \<Rightarrow> DockerBuildResult" where
  "docker_build_image host duration inp =
     (let failed = (\<lambda>e. \<lparr>bo_success = False, bo_image_id = None, bo_error = Some e, bo_duration = duration\<rparr>)
      in case host of
           None \<Rightarrow> failed ''SSH credential fetch failed''
         | Some run \<Rightarrow>
             (case run (build_command inp) (db_build_timeout inp) of
                Inl e \<Rightarrow> failed e
              | Inr (out, err, code) \<Rightarrow>
                  if code \<noteq> 0 then failed (build_error inp out err code)
                  else \<lparr>bo_success = True, bo_image_id = Some (or_str (blank_if_none (first_image (rev (splitlines out)))) (db_image_tag inp)),
                        bo_error = None, bo_duration = duration\<rparr>))"

record DockerRunResult =
  do_container_id :: pystr
  do_exit_code :: int
  do_stdout :: pystr
  do_stderr :: pystr
  do_log_uri :: "pystr option"

definition log_key :: "pystr \<Rightarrow> pystr \<Rightarrow> int \<Rightarrow> pystr" where
  "log_key workflow container now =
     ''docker-logs/'' @ or_str container (or_str workflow ''unknown'') @ ''/'' @ show_int now @ ''/container.log''"

definition upload_logs_to_minio :: "settings \<Rightarrow> store \<Rightarrow> int \<Rightarrow> pystr \<Rightarrow> pystr \<Rightarrow> pystr \<Rightarrow> pystr option" where
  "upload_logs_to_minio g put now logs workflow container =
     (if logs = [] \<or> \<not> minio_configured g then None
      else case put DEFAULT_BUCKET (log_key workflow container now) logs of
             Inl _ \<Rightarrow> None
           | Inr status \<Rightarrow> if ok_status status then Some (build_artifact_uri DEFAULT_BUCKET (log_key workflow container now)) else None)"

definition newest_container :: "docker_host \<Rightarrow> pystr" where
  "newest_container run = (case run ''docker ps -lq'' 30 of Inl _ \<Rightarrow> [] | Inr (out, _, code) \<Rightarrow> if code = 0 then strip out else [])"

definition docker_run_container ::
  "settings \<Rightarrow> store \<Rightarrow> int \<Rightarrow> docker_host option \<Rightarrow> pystr \<Rightarrow> int \<Rightarrow> DockerRunInput \<Rightarrow> DockerRunResult" where
  "docker_run_container g put now host workflow timeout inp =
     (let failed = (\<lambda>e. \<lparr>do_container_id = [], do_exit_code = -1, do_stdout = [], do_stderr = e, do_log_uri = None\<rparr>)
      in case host of
           None \<Rightarrow> failed ''SSH credential fetch failed''
         | Some run \<Rightarrow>
             (case run (docker_run_cmd inp) (min timeout 7200) of
                Inl e \<Rightarrow> failed e
              | Inr (out, err, code) \<Rightarrow>
                  let c = newest_container run
                  in \<lparr>do_container_id = c, do_exit_code = code, do_stdout = out, do_stderr = err,
                      do_log_uri = upload_logs_to_minio g put now out workflow c\<rparr>))"

definition docker_run_value :: "DockerRunResult \<Rightarrow> pyval" where
  "docker_run_value r =
     PDict [(''container_id'', PStr (do_container_id r)), (''exit_code'', PInt (do_exit_code r)), (''stdout'', PStr (do_stdout r)),
            (''stderr'', PStr (do_stderr r)), (''log_artifact_uri'', opt_str (do_log_uri r))]"

definition docker_cleanup_commands :: "pystr \<Rightarrow> pystr option \<Rightarrow> pystr \<Rightarrow> bool \<Rightarrow> pystr list" where
  \<comment> \<open>the commands \<open>docker_cleanup_container\<close> sends, each of them whether or not the one before succeeds\<close>
  "docker_cleanup_commands container image_id policy succeeded =
     (if \<not> should_perform_cleanup policy succeeded then []
      else (if container \<noteq> [] then [''docker rm -f '' @ shlex_quote container] else [])
         @ (if blank_if_none image_id \<noteq> [] then [''docker rmi '' @ shlex_quote (blank_if_none image_id)] else []))"

definition docker_daemon_healthcheck :: "docker_host option \<Rightarrow> bool" where
  "docker_daemon_healthcheck host =
     (case host of None \<Rightarrow> False | Some run \<Rightarrow> (case run ''docker info'' 15 of Inl _ \<Rightarrow> False | Inr (_, _, code) \<Rightarrow> code = 0))"

definition stop_command :: "pystr \<Rightarrow> int \<Rightarrow> pystr" where
  "stop_command container grace = ''docker stop -t '' @ show_int grace @ '' '' @ shlex_quote container"

definition docker_stop_container :: "docker_host option \<Rightarrow> pystr \<Rightarrow> int \<Rightarrow> pystr + unit" where
  "docker_stop_container host container grace =
     (case host of
        None \<Rightarrow> Inl ''RuntimeError''
      | Some run \<Rightarrow> (case run (stop_command container grace) (grace + 30) of Inl e \<Rightarrow> Inl e | Inr _ \<Rightarrow> Inr ()))"

section \<open>Choosing a runner\<close>

record runner_row =
  rw_runner_id :: pystr
  rw_host :: pystr
  rw_port :: int
  rw_username :: pystr
  rw_base_path :: "pystr option"
  rw_vault_path :: pystr

definition fetch_runners :: "pystr + runner_row list \<Rightarrow> pystr + runner_row list \<Rightarrow> pystr + runner_row list" where
  \<comment> \<open>the answers of the query for the least busy runner and of the query by priority\<close>
  "fetch_runners least_busy by_priority =
     (case least_busy of
        Inr rows \<Rightarrow> Inr rows
      | Inl e \<Rightarrow>
          if contains_sub ''workflow_executions'' (lower e) \<or> contains_sub ''does not exist'' (lower e) then by_priority else Inl e)"

definition runner_value :: "runner_row \<Rightarrow> pyval" where
  \<comment> \<open>\<open>RunnerResolution.to_dict\<close>\<close>
  "runner_value r =
     PDict [(''runner_id'', PStr (rw_runner_id r)), (''host'', PStr (rw_host r)), (''port'', PInt (rw_port r)),
            (''username'', PStr (rw_username r)), (''base_path'', PStr (or_str (blank_if_none (rw_base_path r)) ''/var/ai-runner'')),
            (''vault_path'', PStr (rw_vault_path r))]"

definition resolve_runner_activity :: "pystr + runner_row list \<Rightarrow> pystr + runner_row list \<Rightarrow> pystr \<Rightarrow> exec_failure + pyval" where
  "resolve_runner_activity least_busy by_priority dept =
     (case fetch_runners least_busy by_priority of
        Inl e \<Rightarrow> Inl (ActivityFailed e)
      | Inr [] \<Rightarrow> Inl (RunnerResolutionFailed (''No active runner assigned to dept '' @ dept))
      | Inr (r # rs) \<Rightarrow> Inr (runner_value r))"

section \<open>Git credentials\<close>

definition CREDENTIAL_MASK :: pystr where "CREDENTIAL_MASK = ''***''"

definition mask_credential_value :: "pystr \<Rightarrow> pystr" where
  "mask_credential_value v = (if length v \<le> 2 then CREDENTIAL_MASK else hd v # CREDENTIAL_MASK)"

datatype vault_reply = ReplyTimeout | ReplyError | Reply http_answer

datatype attempt = GaveUp | TryAgain | GotCredentials pystr pystr | NotJson

definition read_reply :: "(pyval \<Rightarrow> pystr) \<Rightarrow> vault_reply \<Rightarrow> attempt" where
  "read_reply repr r =
     (case r of
        Reply a \<Rightarrow>
          if ha_status a = 404 then GaveUp
          else if \<not> ok_status (ha_status a) then TryAgain
          else (case ha_json a of
                  None \<Rightarrow> NotJson
                | Some v \<Rightarrow>
                    (case Option.bind (dict_field v ''data'') (\<lambda>outer. as_dict (get_or_none outer ''data'')) of
                       None \<Rightarrow> TryAgain
                     | Some d \<Rightarrow>
                         (let user = get_default d ''username'' (PStr []); pw = get_default d ''app_password'' (PStr [])
                          in if truthy user \<and> truthy pw then GotCredentials (py_str repr user) (py_str repr pw) else TryAgain)))
      | _ \<Rightarrow> TryAgain)"

definition VAULT_MAX_RETRIES :: nat where "VAULT_MAX_RETRIES = 2"

fun fetch_credentials :: "(pyval \<Rightarrow> pystr) \<Rightarrow> vault_reply list \<Rightarrow> (pystr \<times> pystr) option" where
  \<comment> \<open>the loop over the replies to the attempts; \<open>None\<close> is the \<open>CredentialInjectorError\<close>\<close>
  "fetch_credentials repr [] = None"
| "fetch_credentials repr (r # rs) =
     (case read_reply repr r of
        GotCredentials u p \<Rightarrow> Some (u, p)
      | TryAgain \<Rightarrow> fetch_credentials repr rs
      | _ \<Rightarrow> None)"

definition helper_script :: "pystr \<Rightarrow> pystr \<Rightarrow> int \<Rightarrow> pystr" where
  \<comment> \<open>\<open>_build_credential_helper_script\<close>\<close>
  "helper_script user pw ttl_minutes =
     (let nl = [CHR 0x5C, CHR ''n'']
      in ''git config --global credential.helper 'cache --timeout='' @ show_int (ttl_minutes * 60) @ ''' && printf 'protocol=https'' @ nl
         @ ''host=bitbucket.org'' @ nl @ ''username='' @ user @ nl @ ''password='' @ pw @ nl @ nl @ ''' | git credential approve'')"

definition credential_cleanup_script :: pystr where
  "credential_cleanup_script =
     ''git credential-cache exit 2>/dev/null; git config --global --unset credential.helper 2>/dev/null; true''"

definition inject_git_credentials ::
  "settings \<Rightarrow> (pyval \<Rightarrow> pystr) \<Rightarrow> vault_reply list \<Rightarrow> (pystr option \<Rightarrow> vault_error + SSHCred) \<Rightarrow> remote \<Rightarrow> int \<Rightarrow> bool \<times> pystr option" where
  \<comment> \<open>success and the masked user name; only the first three replies are asked for\<close>
  "inject_git_credentials g repr replies creds remote ttl =
     (if setting g ''VAULT_TOKEN'' [] = [] then (False, None)
      else case fetch_credentials repr (take (Suc VAULT_MAX_RETRIES) replies) of
             None \<Rightarrow> (False, None)
           | Some (u, p) \<Rightarrow>
               (case creds None of
                  Inl _ \<Rightarrow> (False, None)
                | Inr cred \<Rightarrow>
                    (case ssh_execute_command remote cred (helper_script u p ttl) [] 30 of
                       Inl _ \<Rightarrow> (False, None)
                     | Inr r \<Rightarrow> (rn_exit_code r = 0, Some (mask_credential_value u)))))"

section \<open>The activities as an environment\<close>

record exec_world =
  \<comment> \<open>everything outside the worker, as functions of the calls so far\<close>
  ew_settings :: settings
  ew_repr :: "pyval \<Rightarrow> pystr"
  ew_parent :: pystr \<comment> \<open>the parent workflow id of the run\<close>
  ew_down :: "exec_call list \<Rightarrow> exec_failure option" \<comment> \<open>a call that fails without running, or by a timeout\<close>
  ew_least_busy :: "exec_call list \<Rightarrow> pystr + runner_row list"
  ew_by_priority :: "exec_call list \<Rightarrow> pystr + runner_row list"
  ew_connect :: "exec_call list \<Rightarrow> pystr \<Rightarrow> int \<Rightarrow> pyfloat \<Rightarrow> pystr option"
  ew_vault :: "exec_call list \<Rightarrow> pystr \<Rightarrow> pystr + http_answer"
  ew_remote :: "exec_call list \<Rightarrow> remote"
  ew_store :: "exec_call list \<Rightarrow> store"
  ew_duration :: "exec_call list \<Rightarrow> rat"
  ew_now :: "exec_call list \<Rightarrow> int"
  ew_docker :: "exec_call list \<Rightarrow> docker_host option"
  ew_warned :: "exec_call list \<Rightarrow> pystr + http_answer"
  ew_posted :: "exec_call list \<Rightarrow> pystr + int"
  ew_cleanup :: "exec_call list \<Rightarrow> cleanup_host option"
  ew_replies :: "exec_call list \<Rightarrow> vault_reply list"
  ew_other :: "exec_call list \<Rightarrow> exec_failure + pyval" \<comment> \<open>commands, uploads and the clean-up of the legacy workflow\<close>

definition world_creds :: "exec_world \<Rightarrow> exec_call list \<Rightarrow> pystr option \<Rightarrow> vault_error + SSHCred" where
  "world_creds w cs = vault_fetch_ssh_credentials (ew_settings w) (ew_repr w) (ew_vault w cs)"

definition build_value :: "DockerBuildResult \<Rightarrow> pyval" where
  "build_value r =
     PDict [(''success'', PBool (bo_success r)), (''image_id'', opt_str (bo_image_id r)), (''error'', opt_str (bo_error r)),
            (''duration_seconds'', PFloat (bo_duration r))]"

definition container_input :: "pystr \<Rightarrow> pystr \<Rightarrow> pystr \<Rightarrow> pystr pydict \<Rightarrow> DockerRunInput" where
  "container_input tag command d environment =
     \<lparr>dr_image = tag, dr_command = command, dr_workspace_path = d, dr_environment = environment, dr_cpu_limit = ''2.0'', dr_memory_limit_mb = 2048\<rparr>"

definition cred_value :: "SSHCred \<Rightarrow> pyval" where
  "cred_value c =
     PDict [(''host'', PStr (sc_host c)), (''port'', PInt (sc_port c)), (''user'', PStr (sc_user c)), (''private_key'', PStr (sc_private_key c))]"

fun activity_result :: "exec_world \<Rightarrow> exec_call list \<Rightarrow> exec_call \<Rightarrow> exec_failure + pyval" where
  "activity_result w cs (ResolveRunner dept) = resolve_runner_activity (ew_least_busy w cs) (ew_by_priority w cs) dept"
| "activity_result w cs (SshHealthcheck host port runner) = ssh_healthcheck (ew_settings w) (ew_connect w cs) host port"
| "activity_result w cs (CheckDiskQuota dept base quota) =
     Inr (quota_value (check_disk_quota (quota_ssh (world_creds w cs) (ew_remote w cs)) (ew_warned w cs) (ew_posted w cs) base (Some quota)))"
| "activity_result w cs (SshRunTest runner command env prefix workdir parent vault_path timeout beat) =
     map_sum ActivityFailed id
       (ssh_run_test (ew_settings w) (world_creds w cs) (ew_remote w cs) (ew_store w cs) (ew_duration w cs) runner command env prefix workdir vault_path)"
| "activity_result w cs (DockerHealthcheck runner) = Inr (PBool (docker_daemon_healthcheck (ew_docker w cs)))"
| "activity_result w cs (DockerBuild dockerfile tag d runner) =
     Inr (build_value (docker_build_image (ew_docker w cs) (ew_duration w cs)
       \<lparr>db_dockerfile_path = dockerfile, db_image_tag = tag, db_workspace_path = d, db_build_timeout = 300\<rparr>))"
| "activity_result w cs (DockerRun tag command d environment runner) =
     Inr (docker_run_value (docker_run_container (ew_settings w) (ew_store w cs) (ew_now w cs) (ew_docker w cs) (ew_parent w) 1800
       (container_input tag command d environment)))"
| "activity_result w cs (DockerCleanup container image_id policy success runner) = Inr PNone"
| "activity_result w cs (ApplyCleanupPolicy policy code d container image_id) =
     Inr (PBool (cp_performed (cleanup_activity (ew_cleanup w cs) policy code d container image_id)))"
| "activity_result w cs (FetchSshCredentials wid) =
     (case world_creds w cs None of Inl _ \<Rightarrow> Inl (ActivityFailed ''CredentialResolutionError'') | Inr c \<Rightarrow> Inr (cred_value c))"
| "activity_result w cs (InjectGitCredentials dept) =
     (let r = inject_git_credentials (ew_settings w) (ew_repr w) (ew_replies w cs) (world_creds w cs) (ew_remote w cs) 15
      in Inr (PDict [(''success'', PBool (fst r)), (''masked_username'', opt_str (snd r))]))"
| "activity_result w cs CleanupGitCredentials = Inr PNone"
| "activity_result w cs c = ew_other w (cs @ [c])"

definition activity_env :: "exec_world \<Rightarrow> exec_env" where
  "activity_env w =
     \<lparr>xe_answer = (\<lambda>cs. case ew_down w cs of Some e \<Rightarrow> Inl e | None \<Rightarrow> activity_result w (butlast cs) (last cs)), xe_repr = ew_repr w\<rparr>"

lemma activity_env_answer [simp]:
  "xe_answer (activity_env w) (cs @ [c]) = (case ew_down w (cs @ [c]) of Some e \<Rightarrow> Inl e | None \<Rightarrow> activity_result w cs c)"
  by (simp add: activity_env_def split: option.split)

end
