(* ===== verification/Execution_Properties.thy ===== *)
theory Execution_Properties
  imports Execution_Logic Execution_Activities
begin

text \<open>
  Properties of the workflows of the execution runner: work is gated by a healthy probe and by the disk quota, probing
  is bounded, containers and credentials are cleaned up.
\<close>

section \<open>Calls after probing\<close>

fun is_container_run :: "exec_call \<Rightarrow> bool" where
  "is_container_run (DockerRun _ _ _ _ _) = True"
| "is_container_run _ = False"

fun is_sleep :: "exec_call \<Rightarrow> bool" where
  "is_sleep (Sleep _) = True"
| "is_sleep _ = False"

definition quiet :: "exec_call \<Rightarrow> bool" where
  "quiet c \<longleftrightarrow> \<not> is_probe c \<and> \<not> is_sleep c"

definition appended :: "(exec_failure + 'a \<Rightarrow> exec_call list \<Rightarrow> bool) \<Rightarrow> exec_call list \<Rightarrow> exec_failure + 'a \<Rightarrow> exec_call list \<Rightarrow> bool" where
  \<comment> \<open>the calls a step appends to a history\<close>
  "appended P cs x cs' \<longleftrightarrow> (\<exists>ds. cs' = cs @ ds \<and> P x ds)"

lemma appended_seq:
  assumes "xwp m (appended P cs) cs" "\<And>e ds. P (Inl e) ds \<Longrightarrow> Q (Inl e) ds"
    "\<And>a ds. P (Inr a) ds \<Longrightarrow> xwp (k a) (appended (\<lambda>x es. Q x (ds @ es)) (cs @ ds)) (cs @ ds)"
  shows "xwp (xbind m k) (appended Q cs) cs"
proof (rule xwp_seq [OF assms(1)])
  fix a cs'
  assume "appended P cs (Inr a) cs'"
  then obtain ds where "cs' = cs @ ds" "P (Inr a) ds" unfolding appended_def by blast
  with assms(3) [of a ds] show "xwp (k a) (appended Q cs) cs'"
    by (auto simp: appended_def elim!: xwp_mono)
qed (use assms(2) in \<open>auto simp: appended_def\<close>)

lemma appended_self [simp]: "appended P cs x cs \<longleftrightarrow> P x []" and appended_list [simp]: "appended P cs x (cs @ ds) \<longleftrightarrow> P x ds"
  by (simp_all add: appended_def)

lemma quiet_calls [simp]:
  "quiet (CheckDiskQuota dept base m)" "quiet (DockerHealthcheck r)" "quiet (DockerBuild f t d r)" "quiet (DockerRun t c d e r)"
  "quiet (DockerCleanup container img policy success r)" "quiet (ApplyCleanupPolicy policy code w container' image')"
  "quiet (SshRunTest r c e' prefix w' parent vault timeout heart)"
  by (simp_all add: quiet_def)

definition quiet_work :: "exec_failure + 'a \<Rightarrow> exec_call list \<Rightarrow> bool" where
  "quiet_work x ds \<longleftrightarrow> list_all quiet ds \<and> (\<forall>a. x = Inr a \<longrightarrow> (\<exists>c\<in>set ds. work_runner c \<noteq> None))"

lemma run_on_runner_quiet: "xwp (run_on_runner env inp r) (appended quiet_work cs) cs"
  by (auto simp: run_on_runner_def enforce_disk_quota_def quota_gate_def run_docker_chain_def docker_run_and_cleanup_def run_over_ssh_def
      apply_cleanup_policy_def xwp_step Let_def quiet_work_def split: sum.split option.split prod.split pyval.split)

lemma quiet_sleeps: "list_all quiet ds \<Longrightarrow> sleeps_of ds = []"
  by (induction ds rule: sleeps_of.induct) (auto simp: quiet_def)

lemma quiet_probes: "list_all quiet ds \<Longrightarrow> filter is_probe ds = []"
  by (induction ds) (auto simp: quiet_def)

definition probed :: "exec_failure + ExecutionRunWorkflowOutput \<Rightarrow> exec_call list \<Rightarrow> bool" where
  "probed x cs \<longleftrightarrow>
     (\<exists>k\<le>6. sleeps_of cs = take k (backoffs HEALTHCHECK_INITIAL_BACKOFF HEALTHCHECK_MAX_RETRIES) \<and> length (filter is_probe cs) \<le> Suc k
        \<and> ((\<exists>out. x = Inr out) \<and> list_all (\<lambda>c. work_runner c = None) cs \<longrightarrow> k = 6))"

lemma run_execution_probed: "xwp (run_execution env inp) probed []"
proof (rule run_execution_by_phases)
  let ?P = "\<lambda>x cs. \<exists>k\<le>6. sleeps_of cs = take k (backoffs HEALTHCHECK_INITIAL_BACKOFF HEALTHCHECK_MAX_RETRIES)
        \<and> length (filter is_probe cs) \<le> Suc k \<and> (x = Inr False \<longrightarrow> k = 6)"
  show "xwp (wait_for_healthy_runner env r) ?P cs" if "on_start cs" for r cs
    unfolding wait_for_healthy_runner_def
    by (rule xwp_mono [OF probe_runner_probing])
       (use that in \<open>fastforce simp: probing_def on_start_def HEALTHCHECK_MAX_RETRIES_def\<close>)
  show "xwp (run_on_runner env (inp\<lparr>er_workdir := derive_workdir inp (rr_base_path r)\<rparr>) r) probed cs" if "?P (Inr True) cs" for r cs
    by (rule xwp_mono [OF run_on_runner_quiet])
       (use that in \<open>fastforce simp: probed_def appended_def quiet_work_def quiet_sleeps quiet_probes list_all_iff\<close>)
qed (auto simp: on_start_def probed_def)

section \<open>Properties\<close>

text \<open>
  C7. Work is gated. Whenever a run puts a runner to work (a test command over SSH, or a check, build or run of a
  container), the last probe before it was of this runner and found it healthy, no quota check before it refused, and
  when the request carries a quota for its department, the quota of the directory the work runs in has been checked.
\<close>
theorem execution_is_gated:
  assumes "execution_trace env inp = pre @ c # post" and "work_runner c = Some r"
  shows "(\<exists>p h port d q. pre = p @ SshHealthcheck h port r # q \<and> xe_answer env (p @ [SshHealthcheck h port r]) = Inr (PDict d)
            \<and> says_healthy d \<and> list_all (Not \<circ> is_probe) q)
       \<and> (\<forall>p q dept base m. pre = p @ CheckDiskQuota dept base m # q \<longrightarrow> \<not> quota_refuses (xe_answer env (p @ [CheckDiskQuota dept base m])))
       \<and> (\<forall>m dir. xr_quota_mb inp = Some m \<and> er_department_id inp \<noteq> [] \<and> work_dir c = Some dir \<longrightarrow>
            CheckDiskQuota (er_department_id inp) (resolve_quota_base (Some dir)) m \<in> set pre)"
proof -
  have "gated env (required_check inp) (execution_trace env inp)"
    using run_execution_gated [of env inp] by (simp add: xwp_def execution_trace_def)
  then have allowed: "work_allowed env (required_check inp) pre c" unfolding assms gated_def by (rule at_every_callD)
  then have "within_quota env pre" using assms(2) by (simp add: work_allowed_def)
  then have "\<not> quota_refuses (xe_answer env (p @ [CheckDiskQuota dept base m]))" if "pre = p @ CheckDiskQuota dept base m # q" for p q dept base m
    unfolding that within_quota_def by (drule_tac at_every_callD) simp
  moreover have "required_check inp dir \<subseteq> set pre" if "work_dir c = Some dir" for dir
    using allowed that by (simp add: work_allowed_def)
  moreover have "cleared env pre r" using allowed assms(2) by (simp add: work_allowed_def)
  ultimately show ?thesis unfolding cleared_def cleared_by_def required_check_def by fastforce
qed

text \<open>
  C26. Probing is bounded. A run probes at most seven times and waits between the probes along the schedule 60, 120, 240,
  480, 960 and 1800 seconds; a run that returns an output without having put a runner to work has waited through all of
  it, 3660 seconds. (A run that raises, because no runner can be resolved or the quota is exceeded, may have waited less.)
\<close>
theorem probing_is_bounded:
  "(\<exists>k\<le>6. sleeps_of (execution_trace env inp) = take k [60, 120, 240, 480, 960, 1800]
      \<and> length (filter is_probe (execution_trace env inp)) \<le> Suc k
      \<and> ((\<exists>out. fst (run_execution env inp []) = Inr out) \<and> list_all (\<lambda>c. work_runner c = None) (execution_trace env inp) \<longrightarrow>
          k = 6 \<and> sum_list (sleeps_of (execution_trace env inp)) = 3660))"
  using run_execution_probed [of env inp] unfolding xwp_def probed_def execution_trace_def backoff_schedule
  by (elim exE conjE, intro exI conjI impI) auto

section \<open>A lost runner\<close>

fun probes_unknown :: "exec_call \<Rightarrow> bool" where
  "probes_unknown (SshHealthcheck h _ _) \<longleftrightarrow> h = PStr ''unknown''"
| "probes_unknown _ \<longleftrightarrow> True"

definition probe_ran :: "exec_world \<Rightarrow> exec_call list \<Rightarrow> exec_call \<Rightarrow> bool" where
  "probe_ran w p c \<longleftrightarrow> (is_probe c \<longrightarrow> ew_down w (p @ [c]) = None)"

definition no_failed_probe :: "exec_world \<Rightarrow> exec_call list \<Rightarrow> bool" where
  "no_failed_probe w = at_every_call (probe_ran w)"

definition lost_runner :: "exec_world \<Rightarrow> exec_call list \<Rightarrow> bool" where
  "lost_runner w cs \<longleftrightarrow> (\<exists>p c q. cs = p @ c # q \<and> no_failed_probe w p \<and> list_all probes_unknown q)"

definition unknown_unreachable :: "exec_world \<Rightarrow> bool" where
  \<comment> \<open>no host is called \<^verbatim>\<open>unknown\<close>\<close>
  "unknown_unreachable w \<longleftrightarrow> (\<forall>cs port t. ew_connect w cs ''unknown'' port t \<noteq> None)"

lemma no_failed_probe_snoc:
  "no_failed_probe w (cs @ [c]) \<longleftrightarrow> no_failed_probe w cs \<and> (is_probe c \<longrightarrow> ew_down w (cs @ [c]) = None)"
  by (simp add: no_failed_probe_def at_every_call_snoc probe_ran_def)

lemma no_failed_probeD: "no_failed_probe w (p @ c # q) \<Longrightarrow> is_probe c \<Longrightarrow> ew_down w (p @ [c]) = None"
  unfolding no_failed_probe_def by (drule at_every_callD) (simp add: probe_ran_def)

lemma no_failed_probe_start: "on_start cs \<Longrightarrow> no_failed_probe w cs"
  unfolding on_start_def no_failed_probe_def
proof (elim disjE exE)
  show "at_every_call (probe_ran w) cs" if "cs = [ResolveRunner d]" for d
    using that at_every_call_snoc [of "probe_ran w" "[]" "ResolveRunner d"] by (simp add: probe_ran_def)
qed simp

lemma no_failed_probe_quiet: "no_failed_probe w cs \<Longrightarrow> list_all quiet ds \<Longrightarrow> no_failed_probe w (cs @ ds)"
  by (induction ds rule: rev_induct)
     (auto simp: quiet_def no_failed_probe_snoc append_assoc [symmetric] simp del: append_assoc)

lemma probe_unknown_result:
  assumes "unknown_unreachable w"
  shows "\<exists>d. probe_result (xe_answer (activity_env w) (cs @ [SshHealthcheck (PStr ''unknown'') port r])) = Inr d \<and> \<not> says_healthy d
           \<and> get_default d ''host'' (PStr ''unknown'') = PStr ''unknown''"
proof -
  have [simp]: "strip ''unknown'' = ''unknown''" by code_simp
  show ?thesis
    using assms unfolding unknown_unreachable_def
    by (auto simp: probe_result_def ssh_healthcheck_def resolve_ssh_host_def says_healthy_def get_default_def dict_get_def rbind_def Let_def
        split: option.split)
qed

lemma probe_unknown:
  assumes "unknown_unreachable w"
  shows "xwp (probe_runner (activity_env w) r port (PStr ''unknown'') b n)
           (appended (\<lambda>x ds. x = Inr False \<and> list_all probes_unknown ds) cs) cs"
proof (induction n arbitrary: b cs)
  case 0
  from probe_unknown_result [OF assms] obtain d where
    "probe_result (xe_answer (activity_env w) (cs @ [SshHealthcheck (PStr ''unknown'') port r])) = Inr d" "\<not> says_healthy d" by blast
  then show ?case by (subst xwp_probe_runner) (simp add: Let_def)
next
  case (Suc n)
  from probe_unknown_result [OF assms] obtain d where
    "probe_result (xe_answer (activity_env w) (cs @ [SshHealthcheck (PStr ''unknown'') port r])) = Inr d" "\<not> says_healthy d"
    "get_default d ''host'' (PStr ''unknown'') = PStr ''unknown''" by blast
  moreover have "xwp (probe_runner (activity_env w) r port (PStr ''unknown'') b' n)
      (appended (\<lambda>x ds. x = Inr False \<and> list_all probes_unknown ds) cs) (cs @ [SshHealthcheck (PStr ''unknown'') port r, Sleep b])" for b'
    by (rule xwp_mono [OF Suc.IH]) (auto simp: appended_def)
  ultimately show ?case by (subst xwp_probe_runner) (simp add: Let_def)
qed

lemma failed_probe_result:
  "\<exists>d. probe_result (Inl e) = Inr d \<and> \<not> says_healthy d \<and> get_default d ''host'' (PStr ''unknown'') = PStr ''unknown''"
  by (simp add: probe_result_def says_healthy_def get_default_def dict_get_def)

lemma probe_runner_lost:
  assumes "unknown_unreachable w"
  shows "no_failed_probe w cs \<Longrightarrow>
    xwp (probe_runner (activity_env w) r port host b n) (\<lambda>x cs'. no_failed_probe w cs' \<or> (x = Inr False \<and> lost_runner w cs')) cs"
proof (induction n arbitrary: host b cs)
  case 0
  let ?c = "SshHealthcheck host port r"
  show ?case
  proof (cases "ew_down w (cs @ [?c])")
    case None
    with 0 have "no_failed_probe w (cs @ [?c])" by (simp add: no_failed_probe_snoc)
    then show ?thesis by (subst xwp_probe_runner) (simp add: Let_def split: sum.split)
  next
    case (Some e)
    from 0 have "lost_runner w (cs @ [?c])" unfolding lost_runner_def by fastforce
    with Some failed_probe_result [of e] show ?thesis by (subst xwp_probe_runner) (auto simp: Let_def)
  qed
next
  case (Suc n)
  let ?c = "SshHealthcheck host port r" and ?Q = "\<lambda>x cs'. no_failed_probe w cs' \<or> (x = Inr False \<and> lost_runner w cs')"
  show ?case
  proof (cases "ew_down w (cs @ [?c])")
    case None
    then have ok: "no_failed_probe w (cs @ [?c])" "no_failed_probe w (cs @ [?c, Sleep b])"
      using Suc.prems no_failed_probe_snoc [of w "cs @ [?c]" "Sleep b"] by (simp_all add: no_failed_probe_snoc)
    from Suc.IH [OF ok(2)] ok(1) show ?thesis
      by (subst xwp_probe_runner) (simp add: Let_def split: sum.split)
  next
    case (Some e)
    have "xwp (probe_runner (activity_env w) r port (PStr ''unknown'') b' n) ?Q (cs @ [?c, Sleep b])" for b'
    proof (rule xwp_mono [OF probe_unknown [OF assms]])
      fix x cs'
      assume "appended (\<lambda>x ds. x = Inr False \<and> list_all probes_unknown ds) (cs @ [?c, Sleep b]) x cs'"
      then obtain ds where "cs' = cs @ ?c # Sleep b # ds" "x = Inr False" "list_all probes_unknown (Sleep b # ds)"
        by (auto simp: appended_def)
      with Suc.prems show "?Q x cs'" unfolding lost_runner_def by blast
    qed
    with Some failed_probe_result [of e] show ?thesis by (subst xwp_probe_runner) (auto simp: Let_def)
  qed
qed

definition lost_ends :: "exec_world \<Rightarrow> exec_failure + ExecutionRunWorkflowOutput \<Rightarrow> exec_call list \<Rightarrow> bool" where
  "lost_ends w x cs \<longleftrightarrow> no_failed_probe w cs \<or> ((\<exists>r. x = Inr (unreachable_output r)) \<and> lost_runner w cs)"

lemma run_execution_lost:
  assumes "unknown_unreachable w"
  shows "xwp (run_execution (activity_env w) inp) (lost_ends w) []"
proof (rule run_execution_by_phases)
  show "xwp (wait_for_healthy_runner (activity_env w) r) (\<lambda>x cs'. no_failed_probe w cs' \<or> (x = Inr False \<and> lost_runner w cs')) cs"
    if "on_start cs" for r cs
    unfolding wait_for_healthy_runner_def by (rule probe_runner_lost [OF assms no_failed_probe_start [OF that]])
  show "xwp (run_on_runner (activity_env w) (inp\<lparr>er_workdir := derive_workdir inp (rr_base_path r)\<rparr>) r) (lost_ends w) cs"
    if "no_failed_probe w cs \<or> (Inr True = Inr False \<and> lost_runner w cs)" for r cs
    by (rule xwp_mono [OF run_on_runner_quiet])
       (use that in \<open>auto simp: lost_ends_def appended_def quiet_work_def no_failed_probe_quiet\<close>)
qed (auto simp: lost_ends_def no_failed_probe_start)

lemma lost_runner_after:
  assumes "lost_runner w (pre @ c # post)" "is_probe c" "ew_down w (pre @ [c]) \<noteq> None"
  shows "list_all probes_unknown post"
proof -
  from assms(1) obtain p d q where split: "pre @ c # post = p @ d # q" "no_failed_probe w p" "list_all probes_unknown q"
    unfolding lost_runner_def by blast
  have "(\<exists>us. p = pre @ c # us) \<or> (\<exists>us. q = us @ post)"
  proof -
    from split(1) obtain us where "(pre = p @ us \<and> us @ c # post = d # q) \<or> (pre @ us = p \<and> c # post = us @ d # q)"
      unfolding append_eq_append_conv2 by blast
    then show ?thesis by (cases us) (auto intro: exI [of _ "tl us @ [c]"])
  qed
  then consider us where "p = pre @ c # us" | us where "q = us @ post" by blast
  then show ?thesis
  proof cases
    case 1
    with split(2) assms(2,3) no_failed_probeD [of w pre c us] show ?thesis by simp
  next
    case 2
    with split(3) show ?thesis by simp
  qed
qed

text \<open>
  One failed probe loses the runner. When the probe activity itself fails once during a run, every later probe of the
  run goes to a host called \<^verbatim>\<open>unknown\<close>, whatever host the runner has; so unless such a host exists the run ends as
  unreachable, even if the runner accepts connections all the time.
\<close>
theorem failed_probe_loses_runner:
  assumes "unknown_unreachable w"
    and "execution_trace (activity_env w) inp = pre @ c # post" and "is_probe c" and "ew_down w (pre @ [c]) \<noteq> None"
  shows "(\<exists>r. fst (run_execution (activity_env w) inp []) = Inr (unreachable_output r)) \<and> list_all probes_unknown post"
proof -
  have "lost_ends w (fst (run_execution (activity_env w) inp [])) (pre @ c # post)"
    using run_execution_lost [OF assms(1), of inp] assms(2) by (simp add: xwp_def execution_trace_def)
  moreover have "\<not> no_failed_probe w (pre @ c # post)" using assms(3,4) no_failed_probeD [of w pre c post] by auto
  ultimately show ?thesis using lost_runner_after [OF _ assms(3,4), of post] unfolding lost_ends_def by simp
qed

section \<open>Concrete runs\<close>

definition calm_world :: exec_world where
  \<comment> \<open>a configured worker whose runner is up and whose commands succeed\<close>
  "calm_world =
     \<lparr>ew_settings = (\<lambda>k. if k = ''VAULT_TOKEN'' \<or> k = ''MINIO_ROOT_USER'' \<or> k = ''MINIO_ROOT_PASSWORD'' then Some ''x'' else None),
      ew_repr = (\<lambda>_. []), ew_parent = ''AB-1'', ew_down = (\<lambda>_. None),
      ew_least_busy = (\<lambda>_. Inr [\<lparr>rw_runner_id = ''r1'', rw_host = ''h1'', rw_port = 22, rw_username = ''u'', rw_base_path = Some ''/w'', rw_vault_path = ''p''\<rparr>]),
      ew_by_priority = (\<lambda>_. Inr []), ew_connect = (\<lambda>_ h _ _. if h = ''unknown'' then Some ''no such host'' else None),
      ew_vault = (\<lambda>_ _. Inr \<lparr>ha_status = 200, ha_json = Some (PDict [(''data'', PDict [(''data'', PDict
        [(''host'', PStr ''h1''), (''port'', PInt 22), (''user'', PStr ''u''), (''private_key'', PStr ''k'')])])])\<rparr>),
      ew_remote = (\<lambda>_ _ _ _. Inr \<lparr>rn_stdout = ''10'', rn_stderr = [], rn_exit_code = 0\<rparr>), ew_store = (\<lambda>_ _ _ _. Inr 200),
      ew_duration = (\<lambda>_. 1), ew_now = (\<lambda>_. 0), ew_docker = (\<lambda>_. Some (\<lambda>_ _. Inr (''c1'', [], 0))), ew_warned = (\<lambda>_. Inl []),
      ew_posted = (\<lambda>_. Inr 200), ew_cleanup = (\<lambda>_. Some \<lparr>ch_docker = Session, ch_workspace = Session, ch_exec = (\<lambda>_. Some 0)\<rparr>),
      ew_replies = (\<lambda>_. []), ew_other = (\<lambda>_. Inr PNone)\<rparr>"

definition plain_request :: execution_request where
  "plain_request =
     \<lparr>er_parent_workflow_id = ''AB-1'', er_command = ''make test'', er_workdir = None, er_environment = [(''A'', ''1'')],
      er_artifact_minio_prefix = ''s3://b/k'', er_department_id = ''d1'', er_workflow_type = ''code_change'', er_start_to_close_timeout = None,
      er_trace_id = [], er_needs_docker = False, er_docker_image_tag = None, er_docker_dockerfile_path = None,
      xr_runner_id = None, xr_heartbeat = None, xr_quota_mb = Some 100\<rparr>"

definition dark_world :: exec_world where
  \<comment> \<open>no host accepts connections\<close>
  "dark_world = calm_world\<lparr>ew_connect := (\<lambda>_ _ _ _. Some ''refused'')\<rparr>"

definition flaky_world :: exec_world where
  \<comment> \<open>the runner is up; only the first probe activity fails\<close>
  "flaky_world = calm_world\<lparr>ew_down := (\<lambda>cs. if length cs = 2 then Some (ActivityFailed ''heartbeat timeout'') else None)\<rparr>"

lemma concrete_runs:
  "(let r = run_execution (activity_env calm_world) plain_request []
    in (map_sum (\<lambda>_. ()) xo_status (fst r), snd r)) =
   (Inr (PStr ''passed''),
     [ResolveRunner ''d1'', SshHealthcheck (PStr ''h1'') (Some 22) (PStr ''r1''), CheckDiskQuota ''d1'' ''/w'' 100]
     @ SshRunTest (PStr ''r1'') ''make test'' [(''A'', ''1'')] ''s3://b/k'' (Some ''/w/AB-1/iter-0'') ''AB-1'' (Some ''p'') 1800 90
     # [ApplyCleanupPolicy ''on_success'' (PInt 0) ''/w/AB-1/iter-0'' None None])
   \<and> (let r = run_execution (activity_env dark_world) plain_request []
      in map_sum (\<lambda>_. ()) xo_runner_id (fst r) = Inr (PStr ''r1'') \<and> list_all (\<lambda>c. work_runner c = None) (snd r))
   \<and> execution_trace (activity_env flaky_world) plain_request =
     [ResolveRunner ''d1''] @ SshHealthcheck (PStr ''h1'') (Some 22) (PStr ''r1'')
     # concat (map (\<lambda>n. [Sleep n, SshHealthcheck (PStr ''unknown'') (Some 22) (PStr ''r1'')]) [60, 120, 240, 480, 960, 1800])
   \<and> execution_trace (activity_env calm_world) (plain_request\<lparr>er_needs_docker := True\<rparr>) =
     [ResolveRunner ''d1'', SshHealthcheck (PStr ''h1'') (Some 22) (PStr ''r1''), CheckDiskQuota ''d1'' ''/w'' 100, DockerHealthcheck (PStr ''r1''),
      DockerBuild ''Dockerfile'' ''ai-bot-ab-1:latest'' ''/w/AB-1/iter-0'' (PStr ''r1'')]
     @ DockerRun ''ai-bot-ab-1:latest'' ''make test'' ''/w/AB-1/iter-0'' [(''A'', ''1'')] (PStr ''r1'')
     # [DockerCleanup (PStr ''c1'') (PStr ''ai-bot-ab-1:latest'') ''on_success'' True (PStr ''r1''),
        ApplyCleanupPolicy ''on_success'' (PInt 0) ''/w/AB-1/iter-0'' None None]"
  by code_simp

lemmas calm_run = concrete_runs [THEN conjunct1, unfolded Let_def prod.inject]
lemmas calm_status = calm_run [THEN conjunct1] and calm_trace = calm_run [THEN conjunct2, folded execution_trace_def]
lemmas dark_run = concrete_runs [THEN conjunct2, THEN conjunct1, unfolded Let_def, folded execution_trace_def]
lemmas flaky_trace = concrete_runs [THEN conjunct2, THEN conjunct2, THEN conjunct1]
lemmas container_trace = concrete_runs [THEN conjunct2, THEN conjunct2, THEN conjunct2]

theorem execution_is_gated_witness:
  "\<exists>p h port d q. [ResolveRunner ''d1'', SshHealthcheck (PStr ''h1'') (Some 22) (PStr ''r1''), CheckDiskQuota ''d1'' ''/w'' 100]
       = p @ SshHealthcheck h port (PStr ''r1'') # q \<and> says_healthy d"
  using execution_is_gated [OF calm_trace, of "PStr ''r1''"] by auto

theorem probing_is_bounded_witness: "sum_list (sleeps_of (execution_trace (activity_env dark_world) plain_request)) = 3660"
proof -
  have "\<exists>out. fst (run_execution (activity_env dark_world) plain_request []) = Inr out"
    using dark_run [THEN conjunct1] by (cases "fst (run_execution (activity_env dark_world) plain_request [])") auto
  then show ?thesis using probing_is_bounded [of "activity_env dark_world" plain_request] dark_run [THEN conjunct2] by auto
qed

theorem failed_probe_loses_runner_witness:
  "\<exists>r. fst (run_execution (activity_env flaky_world) plain_request []) = Inr (unreachable_output r)"
proof -
  have "unknown_unreachable flaky_world" by (simp add: unknown_unreachable_def flaky_world_def calm_world_def)
  from failed_probe_loses_runner [OF this flaky_trace] show ?thesis by (simp add: flaky_world_def)
qed

section \<open>Outcomes\<close>

fun program_of :: "exec_call \<Rightarrow> pystr option" where
  \<comment> \<open>the command a call runs on the host or in a container\<close>
  "program_of (SshRunTest _ command _ _ _ _ _ _ _) = Some command"
| "program_of (DockerRun _ command _ _ _) = Some command"
| "program_of _ = None"

fun exited_with :: "exec_world \<Rightarrow> exec_call list \<Rightarrow> exec_call \<Rightarrow> int \<Rightarrow> bool" where
  \<comment> \<open>the host was reached and answers that the command of the call ended with this code\<close>
  "exited_with w cs (SshRunTest _ command env _ workdir _ vault_path _ _) n \<longleftrightarrow>
     (\<exists>cred prefix res. world_creds w cs vault_path = Inr cred \<and> shell_quote_environment env = Inr prefix
        \<and> ew_remote w cs cred (ssh_command command workdir prefix) (resolve_command_timeout_seconds (ew_settings w)) = Inr res
        \<and> rn_exit_code res = n)"
| "exited_with w cs (DockerRun tag command d environment _) n \<longleftrightarrow>
     (\<exists>host out err. ew_docker w cs = Some host \<and> host (docker_run_cmd (container_input tag command d environment)) 1800 = Inr (out, err, n))"
| "exited_with w cs _ n \<longleftrightarrow> False"

lemma ssh_run_test_passed:
  assumes "ssh_run_test g creds remote put duration runner command env prefix workdir vault = Inr (PDict d)"
    and "get_default d ''status'' (PStr ''failed'') = PStr ''passed''"
  shows "get_or_none d ''exit_code'' = PInt 0"
    and "\<exists>cred p res. creds vault = Inr cred \<and> shell_quote_environment env = Inr p
           \<and> remote cred (ssh_command command workdir p) (resolve_command_timeout_seconds g) = Inr res \<and> rn_exit_code res = 0"
proof -
  obtain b k where bk: "bucket_and_key_from_prefix prefix = (b, k)" by fastforce
  have status: "status = ''passed''" "get_or_none d ''exit_code'' = (case code of None \<Rightarrow> PNone | Some n \<Rightarrow> PInt n)"
    if "PDict d = ssh_result status code out err dur runner why" for status code out err dur why
    using that assms(2) by (simp_all add: ssh_result_def get_default_def get_or_none_def dict_get_def)
  have "\<not> isl (creds vault)"
  proof
    assume "isl (creds vault)"
    then have "PDict d = ssh_result ''failed'' None None None 0 runner (Some ''runner_unreachable'')"
      using assms(1) by (auto simp: ssh_run_test_def bk isl_def)
    from status(1) [OF this] show False by simp
  qed
  then obtain cred where cred: "creds vault = Inr cred" by (cases "creds vault") auto
  obtain p where p: "shell_quote_environment env = Inr p" using assms(1) by (auto simp: ssh_run_test_def bk cred rbind_eq_Inr)
  obtain st code out err why where
    run: "run_outcome (ssh_execute_command remote cred (ssh_command command workdir p) [] (resolve_command_timeout_seconds g)) = (st, code, out, err, why)"
    by (metis prod_cases5)
  from assms(1) obtain out_uri err_uri where
    "(if (out_uri = None \<or> err_uri = None) \<and> st = ''passed''
       then ssh_result ''failed'' code out_uri err_uri duration runner (Some ''artifact_upload_failed'')
       else ssh_result st code out_uri err_uri duration runner why) = PDict d"
    by (auto simp: ssh_run_test_def bk cred p run rbind_eq_Inr)
  then have "PDict d = ssh_result st code out_uri err_uri duration runner why"
    using status(1) [of "''failed''" code out_uri err_uri duration "Some ''artifact_upload_failed''"] by (auto split: if_splits)
  from status [OF this] have st: "st = ''passed''" "get_or_none d ''exit_code'' = (case code of None \<Rightarrow> PNone | Some n \<Rightarrow> PInt n)"
    by simp_all
  from run st(1) obtain res where "remote cred (ssh_command command workdir p) (resolve_command_timeout_seconds g) = Inr res" "rn_exit_code res = 0" "code = Some 0"
    by (auto simp: run_outcome_def ssh_execute_command_def split: sum.splits if_splits)
  with st(2) cred p show "get_or_none d ''exit_code'' = PInt 0"
    "\<exists>cred p res. creds vault = Inr cred \<and> shell_quote_environment env = Inr p
       \<and> remote cred (ssh_command command workdir p) (resolve_command_timeout_seconds g) = Inr res \<and> rn_exit_code res = 0" by auto
qed

definition idle :: "exec_call list \<Rightarrow> bool" where
  "idle = list_all (\<lambda>c. program_of c = None)"

definition ran_ok :: "exec_world \<Rightarrow> pystr \<Rightarrow> exec_call list \<Rightarrow> bool" where
  \<comment> \<open>one call ran a program: it was this command, and it ended with zero\<close>
  "ran_ok w command cs \<longleftrightarrow>
     (\<exists>pre c post. cs = pre @ c # post \<and> program_of c = Some command \<and> exited_with w pre c 0 \<and> idle (pre @ post))"

lemma idle_simps [simp]: "idle []" "idle (cs @ ds) \<longleftrightarrow> idle cs \<and> idle ds" "idle (c # cs) \<longleftrightarrow> program_of c = None \<and> idle cs"
  by (simp_all add: idle_def)

lemma ran_ok_here: "idle cs \<Longrightarrow> program_of c = Some command \<Longrightarrow> exited_with w cs c 0 \<Longrightarrow> ran_ok w command (cs @ [c])"
  unfolding ran_ok_def by (intro exI [of _ cs] exI [of _ c] exI [of _ "[]"]) simp

lemma ran_ok_append: "ran_ok w command cs \<Longrightarrow> idle ds \<Longrightarrow> ran_ok w command (cs @ ds)"
  unfolding ran_ok_def by (elim exE, rename_tac pre c post, rule_tac x = pre in exI, rule_tac x = c in exI, rule_tac x = "post @ ds" in exI) simp

definition honest :: "exec_world \<Rightarrow> pystr \<Rightarrow> exec_failure + pyval pydict \<times> pyfloat \<Rightarrow> exec_call list \<Rightarrow> bool" where
  "honest w command x cs \<longleftrightarrow>
     (\<forall>d t. x = Inr (d, t) \<longrightarrow> get_default d ''status'' (PStr ''failed'') = PStr ''passed'' \<longrightarrow>
        get_or_none d ''exit_code'' = PInt 0 \<and> ran_ok w command cs)"

lemma honest_error [simp]: "honest w command (Inl e) cs"
  by (simp add: honest_def)

lemma map_sum_Inr_iff: "map_sum f id x = Inr v \<longleftrightarrow> x = Inr v"
  by (cases x) auto

lemma honest_ssh:
  assumes "idle cs"
  shows "xwp (run_over_ssh (activity_env w) inp r) (honest w (effective_command inp)) cs"
proof -
  let ?c = "SshRunTest (rr_id r) (effective_command inp) (er_environment inp) (er_artifact_minio_prefix inp)
              (er_workdir inp) (er_parent_workflow_id inp) (rr_vault_path r) (start_to_close inp) (heartbeat inp)"
  have "honest w (effective_command inp) (Inr (d, t)) (cs @ [?c])"
    if "ssh_run_test (ew_settings w) (world_creds w cs) (ew_remote w cs) (ew_store w cs) (ew_duration w cs) (rr_id r) (effective_command inp)
          (er_environment inp) (er_artifact_minio_prefix inp) (er_workdir inp) (rr_vault_path r) = Inr (PDict d)" for d t
    using ssh_run_test_passed [OF that] ran_ok_here [OF assms, of ?c] by (auto simp: honest_def)
  then show ?thesis
    by (auto simp: run_over_ssh_def xwp_step map_sum_Inr_iff split: sum.split pyval.split option.split)
qed

lemma honest_failure [simp]: "honest w command (Inr (docker_failure runner t why)) cs"
  by (simp add: honest_def docker_failure_def get_default_def dict_get_def)

lemma honest_docker_result:
  "(n = 0 \<Longrightarrow> ran_ok w command cs) \<Longrightarrow> result_field run ''exit_code'' PNone = PInt n \<Longrightarrow>
   honest w command (Inr (docker_result runner t run)) cs"
  by (simp add: honest_def docker_result_def get_default_def dict_get_def get_or_none_def equals_zero_def Let_def)

lemma docker_run_exit: "result_field (docker_run_value r) ''exit_code'' PNone = PInt (do_exit_code r)"
  by (simp add: result_field_def docker_run_value_def get_default_def dict_get_def)

lemma container_exited:
  "do_exit_code (docker_run_container g put now host workflow 1800 inp) = 0 \<Longrightarrow>
   \<exists>run out err. host = Some run \<and> run (docker_run_cmd inp) 1800 = Inr (out, err, 0)"
  by (auto simp: docker_run_container_def Let_def split: option.splits sum.splits)

lemma honest_container:
  assumes "idle cs"
  shows "xwp (docker_run_and_cleanup (activity_env w) inp command r tag build)
           (honest w (or_str command ''echo \"no command supplied\"'')) cs"
proof -
  let ?p = "or_str command ''echo \"no command supplied\"''"
  let ?c = "DockerRun tag ?p (blank_if_none (er_workdir inp)) (dict_of_items (er_environment inp)) r"
  have "honest w ?p (map_sum id (\<lambda>t. docker_result runner t (docker_run_value v)) y) (cs @ [?c, e])"
    if v: "v = docker_run_container (ew_settings w) (ew_store w cs) (ew_now w cs) (ew_docker w cs) (ew_parent w) 1800
              (container_input tag ?p (blank_if_none (er_workdir inp)) (dict_of_items (er_environment inp)))"
      and e: "program_of e = None" for runner v y e
  proof (cases y)
    case (Inr t)
    have "ran_ok w ?p (cs @ [?c, e])" if "do_exit_code v = 0"
    proof -
      have "exited_with w cs ?c 0" using that container_exited unfolding v by auto
      then have "ran_ok w ?p (cs @ [?c])" using assms by (intro ran_ok_here) simp_all
      from ran_ok_append [OF this, of "[e]"] e show ?thesis by simp
    qed
    with Inr honest_docker_result [OF _ docker_run_exit] show ?thesis by simp
  qed simp
  then show ?thesis
    by (auto simp: docker_run_and_cleanup_def xwp_step Let_def docker_outcome_def split: option.split)
qed

lemma honest_docker:
  assumes "idle cs"
  shows "xwp (run_docker_chain (activity_env w) inp command r) (honest w (or_str command ''echo \"no command supplied\"'')) cs"
  using assms by (auto simp: run_docker_chain_def xwp_step Let_def honest_container split: sum.split option.split)

definition requested_program :: "'z execution_request_scheme \<Rightarrow> pystr" where
  \<comment> \<open>the command of the request, with the defaults of the smoke test and of containers\<close>
  "requested_program inp =
     (let command = (if er_workflow_type inp = ''noop_test'' \<and> er_command inp = [] then NOOP_TEST_DEFAULT_COMMAND else er_command inp)
      in if er_needs_docker inp \<and> command = [] then ''echo \"no command supplied\"'' else command)"

lemma requested_program_workdir [simp]: "requested_program (inp\<lparr>er_workdir := d\<rparr>) = requested_program inp"
  by (simp add: requested_program_def)

definition passed_means_zero :: "exec_world \<Rightarrow> pystr \<Rightarrow> exec_failure + ExecutionRunWorkflowOutput \<Rightarrow> exec_call list \<Rightarrow> bool" where
  "passed_means_zero w command x cs \<longleftrightarrow>
     (\<forall>out. x = Inr out \<longrightarrow> xo_status out = PStr ''passed'' \<longrightarrow> xo_exit_code out = PInt 0 \<and> ran_ok w command cs)"

lemma honest_output:
  "honest w command (Inr res) cs \<Longrightarrow> idle ds \<Longrightarrow> passed_means_zero w command (Inr (execution_output runner res)) (cs @ ds)"
  by (cases res) (auto simp: honest_def passed_means_zero_def execution_output_def ran_ok_append)

lemma run_on_runner_honest:
  assumes "idle cs"
  shows "xwp (run_on_runner (activity_env w) inp r) (passed_means_zero w (requested_program inp)) cs"
  unfolding run_on_runner_def
proof (rule xwp_seq_then [where P = "\<lambda>_. idle"])
  show "xwp (enforce_disk_quota (activity_env w) inp) (\<lambda>_. idle) cs"
    using assms by (simp add: enforce_disk_quota_def quota_gate_def xwp_step split: option.split)
  show "xwp (xbind (if er_needs_docker inp then run_docker_chain (activity_env w) inp (effective_command inp) (rr_id r) else run_over_ssh (activity_env w) inp r)
      (\<lambda>res. xthen (apply_cleanup_policy (activity_env w) inp (get_or_none (fst res) ''exit_code'')) (xreturn (execution_output (rr_id r) res))))
      (passed_means_zero w (requested_program inp)) cs'" if "idle cs'" for cs'
  proof (rule xwp_seq [where P = "honest w (requested_program inp)"])
    have "requested_program inp = (if er_needs_docker inp then or_str (effective_command inp) ''echo \"no command supplied\"'' else effective_command inp)"
      by (simp add: requested_program_def effective_command_def or_str_def)
    then show "xwp (if er_needs_docker inp then run_docker_chain (activity_env w) inp (effective_command inp) (rr_id r) else run_over_ssh (activity_env w) inp r)
        (honest w (requested_program inp)) cs'"
      using honest_docker [OF that, of w inp "effective_command inp" "rr_id r"] honest_ssh [OF that, of w inp r] by simp
    show "xwp (xthen (apply_cleanup_policy (activity_env w) inp (get_or_none (fst res) ''exit_code'')) (xreturn (execution_output (rr_id r) res)))
        (passed_means_zero w (requested_program inp)) cs''" if "honest w (requested_program inp) (Inr res) cs''" for res cs''
      using that by (auto simp: apply_cleanup_policy_def xwp_step Let_def honest_output)
  qed (simp add: passed_means_zero_def)
qed (simp add: passed_means_zero_def)

lemma probe_runner_idle: "idle cs \<Longrightarrow> xwp (probe_runner env runner port host b n) (\<lambda>_. idle) cs"
proof (induction n arbitrary: host b cs)
  case 0
  then show ?case by (subst xwp_probe_runner) (simp add: Let_def split: sum.split)
next
  case (Suc n)
  then show ?case by (subst xwp_probe_runner) (auto simp: Let_def split: sum.split)
qed

text \<open>
  C14. A run is reported as passed only when its command really exited with code zero, for commands over SSH and in
  containers, whatever the hosts, the vault and the object store answer: the run made exactly one call that runs a
  program, of the command of the request; the host was reached in it and answered that the command ended with code zero,
  and that code is the one reported.
\<close>
theorem passed_runs_exited_zero:
  assumes "fst (run_execution (activity_env w) inp []) = Inr out" and "xo_status out = PStr ''passed''"
  shows "xo_exit_code out = PInt 0 \<and>
    (\<exists>pre c post. execution_trace (activity_env w) inp = pre @ c # post \<and> program_of c = Some (requested_program inp)
       \<and> exited_with w pre c 0 \<and> list_all (\<lambda>c. program_of c = None) (pre @ post))"
proof -
  have "xwp (run_execution (activity_env w) inp) (passed_means_zero w (requested_program inp)) []"
  proof (rule run_execution_by_phases [where P = "\<lambda>_ _. idle"])
    show "xwp (wait_for_healthy_runner (activity_env w) r) (\<lambda>_. idle) cs" if "on_start cs" for r cs
      using that by (auto simp: wait_for_healthy_runner_def on_start_def intro: probe_runner_idle)
    show "xwp (run_on_runner (activity_env w) (inp\<lparr>er_workdir := derive_workdir inp (rr_base_path r)\<rparr>) r)
        (passed_means_zero w (requested_program inp)) cs" if "idle cs" for r cs
      using run_on_runner_honest [OF that, of w "inp\<lparr>er_workdir := derive_workdir inp (rr_base_path r)\<rparr>" r]
      by simp
  qed (simp_all add: passed_means_zero_def unreachable_output_def)
  with assms show ?thesis by (simp add: xwp_def passed_means_zero_def ran_ok_def idle_def execution_trace_def)
qed

theorem passed_runs_exited_zero_witness:
  "\<exists>pre c post. execution_trace (activity_env calm_world) plain_request = pre @ c # post \<and> program_of c = Some ''make test''
     \<and> exited_with calm_world pre c 0"
proof -
  from calm_status obtain out where out: "fst (run_execution (activity_env calm_world) plain_request []) = Inr out" "xo_status out = PStr ''passed''"
    by (cases "fst (run_execution (activity_env calm_world) plain_request [])") auto
  have "requested_program plain_request = ''make test''" by (simp add: requested_program_def plain_request_def)
  with passed_runs_exited_zero [OF out] show ?thesis by auto
qed

section \<open>Containers\<close>

fun cleans_up :: "exec_env \<Rightarrow> exec_call list \<Rightarrow> exec_call \<Rightarrow> exec_call \<Rightarrow> bool" where
  \<comment> \<open>the second call cleans up the container of the first, as a success only when it exited with zero\<close>
  "cleans_up env p (DockerRun t c d e r) (DockerCleanup container img policy ok r') \<longleftrightarrow>
     r' = r
     \<and> (\<forall>run. xe_answer env (p @ [DockerRun t c d e r]) = Inr run \<longrightarrow> container = or_value (result_field run ''container_id'' PNone) (PStr []))
     \<and> (ok \<longrightarrow> (\<exists>run. xe_answer env (p @ [DockerRun t c d e r]) = Inr run \<and> equals_zero (result_field run ''exit_code'' PNone)))"
| "cleans_up env p _ _ \<longleftrightarrow> False"

definition followed :: "(exec_call list \<Rightarrow> exec_call \<Rightarrow> exec_call \<Rightarrow> bool) \<Rightarrow> exec_call list \<Rightarrow> bool" where
  "followed P cs \<longleftrightarrow> (\<forall>p c q. cs = p @ c # q \<longrightarrow> is_container_run c \<longrightarrow> (\<exists>d q'. q = d # q' \<and> P p c d))"

lemma followedD: "followed P (p @ c # q) \<Longrightarrow> is_container_run c \<Longrightarrow> \<exists>d q'. q = d # q' \<and> P p c d"
  unfolding followed_def by blast

lemma followed_Nil [simp]: "followed P []"
  by (simp add: followed_def)

lemma followed_snoc: "followed P cs \<Longrightarrow> \<not> is_container_run c \<Longrightarrow> followed P (cs @ [c])"
  unfolding followed_def snoc_split by fastforce

lemma followed_pair:
  assumes "followed P cs" "P cs c d" "\<not> is_container_run d"
  shows "followed P (cs @ [c, d])"
  unfolding followed_def
proof (intro allI impI)
  fix p b q
  assume split: "cs @ [c, d] = p @ b # q" and run: "is_container_run b"
  from split have "(cs @ [c]) @ [d] = p @ b # q" by simp
  with assms(3) run obtain q' where q': "q = q' @ [d]" "cs @ [c] = p @ b # q'" unfolding snoc_split by blast
  from q'(2) consider "q' = []" "cs = p" "c = b" | q'' where "q' = q'' @ [c]" "cs = p @ b # q''" unfolding snoc_split by blast
  then show "\<exists>d q'. q = d # q' \<and> P p b d"
  proof cases
    case 1
    with q'(1) assms(2) show ?thesis by simp
  next
    case 2
    with assms(1) run obtain e r where "q'' = e # r" "P p b e" unfolding followed_def by blast
    with 2 q'(1) show ?thesis by simp
  qed
qed

lemma followed_append: "followed P cs \<Longrightarrow> list_all (Not \<circ> is_container_run) ds \<Longrightarrow> followed P (cs @ ds)"
  by (induction ds rule: rev_induct) (simp_all del: append_assoc add: append_assoc [symmetric] followed_snoc)

lemma outcome_passed_zero:
  "outcome_passed (map_sum id (\<lambda>t. docker_result runner t run) y) \<Longrightarrow> equals_zero (result_field run ''exit_code'' PNone)"
  by (cases y) (auto simp: outcome_passed_def docker_result_def get_or_none_def dict_get_def Let_def split: if_splits)

lemma cleanup_call: "cleans_up env cs (DockerRun t c d e r)
    (DockerCleanup (or_value (fst (docker_outcome runner build (xe_answer env (cs @ [DockerRun t c d e r])))) (PStr [])) img policy
       (outcome_passed (snd (docker_outcome runner build (xe_answer env (cs @ [DockerRun t c d e r]))))) r)"
  by (auto simp: docker_outcome_def or_value_def dest: outcome_passed_zero split: sum.splits) (simp add: outcome_passed_def)

lemma docker_followed:
  assumes "followed (cleans_up env) cs"
  shows "xwp (docker_run_and_cleanup env inp command r tag build) (\<lambda>_. followed (cleans_up env)) cs"
  using assms
  by (auto simp: docker_run_and_cleanup_def xwp_step Let_def case_prod_unfold split: sum.split simp del: cleans_up.simps
      intro!: followed_pair cleanup_call)

lemma run_on_runner_followed:
  assumes "followed (cleans_up env) cs"
  shows "xwp (run_on_runner env inp r) (\<lambda>_. followed (cleans_up env)) cs"
proof -
  let ?F = "\<lambda>_ :: exec_failure + _. followed (cleans_up env)"
  have quota: "xwp (enforce_disk_quota env inp) ?F cs"
    using assms by (auto simp: enforce_disk_quota_def quota_gate_def xwp_step followed_append split: option.split sum.split)
  have docker: "xwp (run_docker_chain env inp command (rr_id r)) ?F cs'" if "followed (cleans_up env) cs'" for command cs'
    using that by (auto simp: run_docker_chain_def xwp_step Let_def followed_append docker_followed split: sum.split)
  have ssh: "xwp (run_over_ssh env inp r) ?F cs'" if "followed (cleans_up env) cs'" for cs'
    using that by (auto simp: run_over_ssh_def xwp_step followed_append split: sum.split pyval.split)
  have clean: "xwp (apply_cleanup_policy env inp code) ?F cs'" if "followed (cleans_up env) cs'" for code cs'
    using that by (auto simp: apply_cleanup_policy_def xwp_step Let_def followed_append)
  show ?thesis
    unfolding run_on_runner_def
    by (rule xwp_seq_then [OF quota], simp, rule xwp_seq [where P = ?F], simp add: docker ssh, simp,
        rule xwp_seq_then [OF clean], simp_all add: xwp_step)
qed

lemma no_container_while_probing: "on_start cs \<Longrightarrow> followed P cs"
  using followed_append [of P "[]" cs] by (auto simp: on_start_def)

lemma probe_runner_followed: "followed P cs \<Longrightarrow> xwp (probe_runner env runner port host b n) (\<lambda>_. followed P) cs"
proof (induction n arbitrary: host b cs)
  case 0
  then show ?case by (subst xwp_probe_runner) (simp add: Let_def followed_append split: sum.split)
next
  case (Suc n)
  then show ?case by (subst xwp_probe_runner) (auto simp: Let_def followed_append split: sum.split)
qed

text \<open>
  C17. Containers are cleaned up. Right after every call that runs a container comes the call that cleans it up, on the
  same runner, for the container the run reported; it is told of a success only when the container exited with code
  zero. This also holds when the run of the container fails or its result cannot be read.
\<close>
theorem containers_are_cleaned_up:
  assumes "execution_trace env inp = pre @ DockerRun t c d e r # post"
  shows "\<exists>container img policy ok post'. post = DockerCleanup container img policy ok r # post'
     \<and> (\<forall>run. xe_answer env (pre @ [DockerRun t c d e r]) = Inr run \<longrightarrow> container = or_value (result_field run ''container_id'' PNone) (PStr []))
     \<and> (ok \<longrightarrow> (\<exists>run. xe_answer env (pre @ [DockerRun t c d e r]) = Inr run \<and> equals_zero (result_field run ''exit_code'' PNone)))"
proof -
  have "xwp (run_execution env inp) (\<lambda>_. followed (cleans_up env)) []"
    by (rule run_execution_by_phases [where P = "\<lambda>_ _. followed (cleans_up env)"])
       (simp_all add: wait_for_healthy_runner_def probe_runner_followed no_container_while_probing run_on_runner_followed)
  then have "followed (cleans_up env) (pre @ DockerRun t c d e r # post)"
    using assms by (simp add: xwp_def execution_trace_def)
  then obtain x post' where "post = x # post'" "cleans_up env pre (DockerRun t c d e r) x" by (drule_tac followedD) auto
  then show ?thesis by (cases x) auto
qed

theorem containers_are_cleaned_up_witness:
  "\<exists>run. xe_answer (activity_env calm_world)
      ([ResolveRunner ''d1'', SshHealthcheck (PStr ''h1'') (Some 22) (PStr ''r1''), CheckDiskQuota ''d1'' ''/w'' 100, DockerHealthcheck (PStr ''r1''),
        DockerBuild ''Dockerfile'' ''ai-bot-ab-1:latest'' ''/w/AB-1/iter-0'' (PStr ''r1'')]
       @ [DockerRun ''ai-bot-ab-1:latest'' ''make test'' ''/w/AB-1/iter-0'' [(''A'', ''1'')] (PStr ''r1'')]) = Inr run
     \<and> equals_zero (result_field run ''exit_code'' PNone)"
  using containers_are_cleaned_up [OF container_trace] by blast

section \<open>Credentials of the legacy workflow\<close>

fun is_inject :: "exec_call \<Rightarrow> bool" where
  "is_inject (InjectGitCredentials _) = True"
| "is_inject _ = False"

abbreviation push_call :: "ExecutionRunInput \<Rightarrow> exec_call" where
  "push_call inp \<equiv> SshConnectAndRun (''git push origin '' @ blank_if_none (lg_git_push_branch inp)) (lg_workspace_path inp)"

definition pushed :: "exec_env \<Rightarrow> exec_call list \<Rightarrow> bool" where
  \<comment> \<open>the last call of the history, a push, answered with exit code zero\<close>
  "pushed env cs \<longleftrightarrow> (\<exists>d. xe_answer env cs = Inr (PDict d) \<and> py_int (get_default d ''exit_code'' (PInt (-1))) = Inr 0)"

definition injected :: "exec_env \<Rightarrow> exec_call list \<Rightarrow> bool" where
  "injected env cs \<longleftrightarrow> (\<exists>v. xe_answer env cs = Inr v \<and> truthy (result_field v ''success'' (PBool False)))"

definition push_round :: "exec_env \<Rightarrow> ExecutionRunInput \<Rightarrow> exec_call list \<Rightarrow> pystr \<Rightarrow> exec_failure + unit \<Rightarrow> exec_call list \<Rightarrow> bool" where
  "push_round env inp cs dept x ds \<longleftrightarrow>
     (\<exists>mid. ds = InjectGitCredentials dept # mid @ [CleanupGitCredentials]
        \<and> (mid = [] \<or> mid = [push_call inp] \<and> injected env (cs @ [InjectGitCredentials dept]))
        \<and> (x = Inr () \<longrightarrow> mid \<noteq> [] \<and> pushed env (cs @ [InjectGitCredentials dept, push_call inp])))"

lemma push_round_calls:
  "xwp (inject_push_and_cleanup env dept (blank_if_none (lg_git_push_branch inp)) (lg_workspace_path inp)) (appended (push_round env inp cs dept) cs) cs"
  by (auto simp: inject_push_and_cleanup_def push_branch_def xwp_step push_round_def injected_def pushed_def split: sum.split pyval.split)

definition legacy_shape :: "exec_env \<Rightarrow> ExecutionRunInput \<Rightarrow> exec_call list \<Rightarrow> bool" where
  "legacy_shape env inp cs \<longleftrightarrow>
     list_all (Not \<circ> is_inject) cs
     \<or> (\<exists>a dept ds b x. cs = a @ ds @ b \<and> push_round env inp a dept x ds \<and> list_all (Not \<circ> is_inject) a \<and> list_all (Not \<circ> is_inject) b
          \<and> (b \<noteq> [] \<longrightarrow> x = Inr ()))"

lemma legacy_shapeI:
  "push_round env inp a dept x ds \<Longrightarrow> list_all (Not \<circ> is_inject) a \<Longrightarrow> list_all (Not \<circ> is_inject) b \<Longrightarrow> (b \<noteq> [] \<Longrightarrow> x = Inr ()) \<Longrightarrow>
     legacy_shape env inp (a @ ds @ b)"
  unfolding legacy_shape_def by blast

definition injection_free :: "'a exec \<Rightarrow> bool" where
  "injection_free m \<longleftrightarrow> (\<forall>cs. xwp m (appended (\<lambda>_. list_all (Not \<circ> is_inject)) cs) cs)"

lemma injection_free_parts:
  "injection_free (upload_artifacts env wid out err code)" "injection_free (legacy_cleanup env inp code)"
  by (auto simp: injection_free_def upload_artifacts_def legacy_cleanup_def xwp_step split: sum.split bool.split)

lemma injection_free_then: "injection_free m \<Longrightarrow> (\<And>a. injection_free (k a)) \<Longrightarrow> injection_free (xbind m k)"
  unfolding injection_free_def
  by (intro allI appended_seq [where P = "\<lambda>_. list_all (Not \<circ> is_inject)"]) (auto simp: list_all_append elim!: allE xwp_mono simp: appended_def)

lemma injection_free_return: "injection_free (xreturn a)"
  by (simp add: injection_free_def xwp_step)

lemma after_push:
  assumes "injection_free m" and "list_all (Not \<circ> is_inject) cs \<or> (\<exists>a dept ds. cs = a @ ds \<and> push_round env inp a dept (Inr ()) ds \<and> list_all (Not \<circ> is_inject) a)"
  shows "xwp m (\<lambda>_. legacy_shape env inp) cs"
proof (rule xwp_mono [OF spec [OF assms(1) [unfolded injection_free_def]]])
  fix x cs'
  assume "appended (\<lambda>_. list_all (Not \<circ> is_inject)) cs x cs'"
  then obtain b where b: "cs' = cs @ b" "list_all (Not \<circ> is_inject) b" unfolding appended_def by blast
  from assms(2) show "legacy_shape env inp cs'"
  proof
    assume "list_all (Not \<circ> is_inject) cs"
    with b show ?thesis by (simp add: legacy_shape_def)
  next
    assume "\<exists>a dept ds. cs = a @ ds \<and> push_round env inp a dept (Inr ()) ds \<and> list_all (Not \<circ> is_inject) a"
    then obtain a dept ds where "cs = a @ ds" "push_round env inp a dept (Inr ()) ds" "list_all (Not \<circ> is_inject) a" by blast
    with b legacy_shapeI [of env inp a dept "Inr ()" ds b] show ?thesis by simp
  qed
qed

lemma push_then:
  assumes "injection_free m" "list_all (Not \<circ> is_inject) cs"
  shows "xwp (xthen (inject_push_and_cleanup env dept (blank_if_none (lg_git_push_branch inp)) (lg_workspace_path inp)) m) (\<lambda>_. legacy_shape env inp) cs"
proof (rule xwp_seq_then [OF push_round_calls])
  show "legacy_shape env inp cs'" if "appended (push_round env inp cs dept) cs (Inl e) cs'" for e cs'
  proof -
    from that obtain ds where "cs' = cs @ ds" "push_round env inp cs dept (Inl e) ds" unfolding appended_def by blast
    with legacy_shapeI [of env inp cs dept "Inl e" ds "[]"] assms(2) show ?thesis by simp
  qed
  show "xwp m (\<lambda>_. legacy_shape env inp) cs'" if "appended (push_round env inp cs dept) cs (Inr u) cs'" for u cs'
    using that assms(2) by (intro after_push [OF assms(1)]) (auto simp: appended_def)
qed

lemma shape_without_injection: "list_all (Not \<circ> is_inject) cs \<Longrightarrow> legacy_shape env inp cs"
  by (simp add: legacy_shape_def)

lemma finish_legacy_shape:
  assumes "list_all (Not \<circ> is_inject) cs"
  shows "xwp (finish_legacy env inp out err code) (\<lambda>_. legacy_shape env inp) cs"
proof -
  have tail: "injection_free (xthen (upload_artifacts env wid out err code) (xbind (legacy_cleanup env inp code) (\<lambda>c. xreturn (f c))))"
    for wid and f :: "bool \<Rightarrow> ExecutionRunResult"
    unfolding xthen_def by (intro injection_free_then injection_free_parts injection_free_return)
  show ?thesis
    unfolding finish_legacy_def using push_then [OF tail assms] after_push [OF tail] assms by (simp add: xwp_then xwp_return)
qed

lemma run_legacy_shape: "xwp (run_legacy env inp) (\<lambda>_. legacy_shape env inp) []"
  by (auto simp: run_legacy_def quota_gate_def xwp_step finish_legacy_shape shape_without_injection split: sum.split option.split)

lemma first_injection:
  assumes "a @ (InjectGitCredentials dept # rest) = pre @ InjectGitCredentials d # post"
    and "list_all (Not \<circ> is_inject) a" and "list_all (Not \<circ> is_inject) rest"
  shows "a = pre \<and> dept = d \<and> rest = post"
proof -
  from assms(1) obtain us where "(a = pre @ us \<and> us @ InjectGitCredentials dept # rest = InjectGitCredentials d # post)
      \<or> (a @ us = pre \<and> InjectGitCredentials dept # rest = us @ InjectGitCredentials d # post)"
    unfolding append_eq_append_conv2 by blast
  with assms(2,3) show ?thesis by (cases us) auto
qed

text \<open>
  C13. Injected credentials are removed. In a run of the legacy workflow credentials are injected at most once; after the
  injection comes at most the push, which happens only when the injection reported success, and then the removal of the
  credentials. Anything after that, that is the storage of artifacts and the clean-up, happens only when the push exited
  with code zero.
\<close>
theorem injected_credentials_are_removed:
  assumes "legacy_trace env inp = pre @ InjectGitCredentials d # post"
  shows "\<exists>mid post'. post = mid @ CleanupGitCredentials # post' \<and> list_all (Not \<circ> is_inject) (pre @ post')
     \<and> (mid = [] \<or> mid = [push_call inp] \<and> injected env (pre @ [InjectGitCredentials d]))
     \<and> (post' \<noteq> [] \<longrightarrow> mid = [push_call inp] \<and> pushed env (pre @ [InjectGitCredentials d, push_call inp]))"
proof -
  have "legacy_shape env inp (legacy_trace env inp)"
    using run_legacy_shape [of env inp] by (simp add: xwp_def legacy_trace_def)
  moreover have "\<not> list_all (Not \<circ> is_inject) (legacy_trace env inp)" using assms by simp
  ultimately obtain a dept ds b x where s: "pre @ InjectGitCredentials d # post = a @ ds @ b" "push_round env inp a dept x ds"
    "list_all (Not \<circ> is_inject) a" "list_all (Not \<circ> is_inject) b" "b \<noteq> [] \<longrightarrow> x = Inr ()"
    unfolding legacy_shape_def assms by blast
  from s(2) obtain mid where mid: "ds = InjectGitCredentials dept # mid @ [CleanupGitCredentials]"
    "mid = [] \<or> mid = [push_call inp] \<and> injected env (a @ [InjectGitCredentials dept])"
    "x = Inr () \<longrightarrow> mid \<noteq> [] \<and> pushed env (a @ [InjectGitCredentials dept, push_call inp])"
    unfolding push_round_def by blast
  have "a @ InjectGitCredentials dept # (mid @ CleanupGitCredentials # b) = pre @ InjectGitCredentials d # post"
    using s(1) mid(1) by simp
  moreover have "list_all (Not \<circ> is_inject) (mid @ CleanupGitCredentials # b)" using mid(2) s(4) by auto
  ultimately have eq: "a = pre \<and> dept = d \<and> mid @ CleanupGitCredentials # b = post" using first_injection s(3) by blast
  then show ?thesis using mid(2,3) s(3-5) by (intro exI [of _ mid] exI [of _ b]) auto
qed

definition legacy_request :: ExecutionRunInput where
  "legacy_request =
     \<lparr>lg_workflow_id = ''w'', lg_test_command = ''make'', lg_workspace_path = ''/w'', lg_cleanup_policy = ''always'', lg_git_push_required = True,
      lg_git_push_branch = Some ''b'', lg_dept_id = Some ''d1'', lg_workspace_quota_mb = None\<rparr>"

definition legacy_env :: exec_env where
  "legacy_env =
     \<lparr>xe_answer = (\<lambda>cs. case last cs of
        InjectGitCredentials _ \<Rightarrow> Inr (PDict [(''success'', PBool True)])
      | _ \<Rightarrow> Inr (PDict [(''host'', PStr ''h''), (''stdout'', PStr []), (''stderr'', PStr []), (''exit_code'', PInt 0)])), xe_repr = (\<lambda>_. [])\<rparr>"

lemma legacy_calls:
  "legacy_trace legacy_env legacy_request =
     [FetchSshCredentials ''w'', SshConnectAndRun ''make'' ''/w''] @ InjectGitCredentials ''d1''
     # [push_call legacy_request, CleanupGitCredentials, UploadArtifact (execution_artifact_key ''w'' ''stdout.log'') [],
        UploadArtifact (execution_artifact_key ''w'' ''stderr.log'') [], UploadArtifact (execution_artifact_key ''w'' ''exit_code.txt'') ''0'',
        SshCleanup ''/w'']"
  by code_simp

theorem injected_credentials_are_removed_witness:
  "injected legacy_env ([FetchSshCredentials ''w'', SshConnectAndRun ''make'' ''/w''] @ [InjectGitCredentials ''d1''])"
  using injected_credentials_are_removed [OF legacy_calls] by auto

section \<open>Policies and quotas\<close>

text \<open>
  The three places that decide about cleaning up agree: for each of the policies always, on_success and never, and
  for every exit code, the legacy workflow, the cleanup activity and the container activity (told of a success exactly
  when the exit code is zero) take the same decision. For any other policy the first raises, the others never clean up,
  and only the cleanup activity accepts the spelling delete_on_success.
\<close>
theorem cleanup_decisions_agree:
  "(policy = ''always'' \<or> policy = ''on_success'' \<or> policy = ''never'' \<longrightarrow>
      should_cleanup policy code = Inr (should_perform_cleanup policy (equals_zero code))
      \<and> (policy_decision (normalize_policy policy) code = None) = should_perform_cleanup policy (equals_zero code))
   \<and> (policy \<noteq> ''always'' \<and> policy \<noteq> ''on_success'' \<and> policy \<noteq> ''never'' \<longrightarrow>
      should_cleanup policy code = Inl ''ValueError'' \<and> \<not> should_perform_cleanup policy (equals_zero code))
   \<and> (policy_decision (normalize_policy ''delete_on_success'') code = None) = equals_zero code"
proof -
  have norm: "normalize_policy ''always'' = ''always''" "normalize_policy ''on_success'' = ''on_success''" "normalize_policy ''never'' = ''never''"
    "normalize_policy ''delete_on_success'' = ''on_success''"
    by code_simp+
  have "\<not> equals_zero PNone" by (simp add: equals_zero_def)
  then show ?thesis by (auto simp: should_cleanup_def should_perform_cleanup_def policy_decision_def norm)
qed

theorem cleanup_decisions_agree_witness:
  "should_cleanup ''on_success'' (PInt 0) = Inr True \<and> policy_decision (normalize_policy ''on_success'') (PInt 0) = None"
  using cleanup_decisions_agree [of "''on_success''" "PInt 0"] by (simp add: should_perform_cleanup_def equals_zero_def)

text \<open>
  The disk quota. A department is refused exactly when the measured usage is above the quota; when the usage cannot be
  measured, or is no number, the run is allowed.
\<close>
theorem quota_refusal:
  "(\<not> dq_allowed (check_disk_quota run warned posted base (Some q)) \<longleftrightarrow>
      (\<exists>u. get_disk_usage_mb run base = Inr u \<and> (u = PosInf \<or> (\<exists>v. u = Fin v \<and> q < v))))
   \<and> (dq_error (check_disk_quota run warned posted base (Some q)) = QuotaExceeded \<longleftrightarrow>
        \<not> dq_allowed (check_disk_quota run warned posted base (Some q)))"
proof -
  have "float_less (Fin q) u \<longleftrightarrow> u = PosInf \<or> (\<exists>v. u = Fin v \<and> q < v)" for u
    by (cases u) auto
  then show ?thesis by (auto simp: check_disk_quota_def Let_def split: sum.split)
qed

end
