(* ===== verification/Runner_Health.thy ===== *)
theory Runner_Health
  imports Execution_Activities
begin

text \<open>
  The scheduled probe of the SSH runner
  (\<^verbatim>\<open>workers/execution-runner-worker/src/workflows/ssh_healthcheck_cron.py\<close>). One run takes the state of the run before as a
  dictionary, probes the host and returns the new state; three failures in a row mark the runner as unhealthy, two
  successes restore it. All calls but the probe are best effort, so a run is the list of its calls and the new state.
\<close>

section \<open>State\<close>

record HealthcheckState =
  hs_failures :: int
  hs_successes :: int
  hs_is_healthy :: bool
  hs_last_check :: "pystr option"

record state_dict =
  \<comment> \<open>the serialised state; a key may be absent\<close>
  sd_failures :: "int option"
  sd_successes :: "int option"
  sd_is_healthy :: "bool option"
  sd_last_check :: "pystr option"

definition initial_health :: HealthcheckState where
  "initial_health = \<lparr>hs_failures = 0, hs_successes = 0, hs_is_healthy = True, hs_last_check = None\<rparr>"

definition deserialize_state :: "state_dict option \<Rightarrow> HealthcheckState" where
  "deserialize_state x =
     (case x of
        None \<Rightarrow> initial_health
      | Some d \<Rightarrow>
          \<lparr>hs_failures = (case sd_failures d of None \<Rightarrow> 0 | Some n \<Rightarrow> n), hs_successes = (case sd_successes d of None \<Rightarrow> 0 | Some n \<Rightarrow> n),
           hs_is_healthy = (case sd_is_healthy d of None \<Rightarrow> True | Some b \<Rightarrow> b), hs_last_check = sd_last_check d\<rparr>)"

definition serialize_state :: "HealthcheckState \<Rightarrow> state_dict" where
  "serialize_state s =
     \<lparr>sd_failures = Some (hs_failures s), sd_successes = Some (hs_successes s), sd_is_healthy = Some (hs_is_healthy s), sd_last_check = hs_last_check s\<rparr>"

lemma deserialize_serialize [simp]: "deserialize_state (Some (serialize_state s)) = s"
  by (simp add: deserialize_state_def serialize_state_def)

section \<open>One run\<close>

definition UNHEALTHY_THRESHOLD :: int where "UNHEALTHY_THRESHOLD = 3"

definition RECOVERY_THRESHOLD :: int where "RECOVERY_THRESHOLD = 2"

datatype alert = CheckFailed pyval | RunnerUnhealthy | RunnerRecovered | CheckDelayed int

datatype health_call =
    ProbeHost
  | RecordResult pyval pyval pyval pyval \<comment> \<open>host, port, healthy, error\<close>
  | SendAlert pyval pyval alert
  | UpdateStatus pyval pyval pystr pystr \<comment> \<open>host, port, status, action\<close>

definition probe_answer :: "exec_failure + pyval \<Rightarrow> pyval pydict" where
  \<comment> \<open>\<open>_execute_healthcheck\<close>; the activity answers an object\<close>
  "probe_answer r =
     (case r of
        Inr (PDict d) \<Rightarrow> d
      | _ \<Rightarrow> [(''healthy'', PBool False), (''host'', PStr ''unknown''), (''port'', PInt 22), (''error'', PStr ''healthcheck_activity_failed'')])"

definition check_for_delay :: "(pystr \<Rightarrow> int option) \<Rightarrow> int \<Rightarrow> HealthcheckState \<Rightarrow> health_call list" where
  \<comment> \<open>times in seconds; a time that cannot be read is ignored\<close>
  "check_for_delay parse now s =
     (case hs_last_check s of
        None \<Rightarrow> []
      | Some t \<Rightarrow>
          if t = [] then []
          else case parse t of
                 None \<Rightarrow> []
               | Some before \<Rightarrow> if now - before > 420 then [SendAlert (PStr ''unknown'') (PInt 0) (CheckDelayed (now - before - 300))] else [])"

definition handle_success :: "pystr \<Rightarrow> HealthcheckState \<Rightarrow> HealthcheckState" where
  "handle_success now_iso s =
     s\<lparr>hs_failures := 0, hs_last_check := Some now_iso, hs_successes := (if hs_is_healthy s then 0 else hs_successes s + 1)\<rparr>"

definition handle_failure :: "pystr \<Rightarrow> HealthcheckState \<Rightarrow> HealthcheckState" where
  "handle_failure now_iso s = s\<lparr>hs_failures := hs_failures s + 1, hs_successes := 0, hs_last_check := Some now_iso\<rparr>"

definition apply_thresholds :: "pyval \<Rightarrow> pyval \<Rightarrow> HealthcheckState \<Rightarrow> HealthcheckState \<times> health_call list" where
  "apply_thresholds host port s =
     (if \<not> hs_is_healthy s \<and> hs_successes s \<ge> RECOVERY_THRESHOLD then
        (s\<lparr>hs_is_healthy := True, hs_failures := 0, hs_successes := 0\<rparr>,
         [UpdateStatus host port ''healthy'' ''unblock_tasks'', SendAlert host port RunnerRecovered])
      else if hs_is_healthy s \<and> hs_failures s \<ge> UNHEALTHY_THRESHOLD then
        (s\<lparr>hs_is_healthy := False, hs_successes := 0\<rparr>,
         [UpdateStatus host port ''unhealthy'' ''block_new_tasks'', SendAlert host port RunnerUnhealthy])
      else (s, []))"

definition health_step :: "pystr \<Rightarrow> pyval pydict \<Rightarrow> HealthcheckState \<Rightarrow> HealthcheckState \<times> health_call list" where
  \<comment> \<open>what a run does with the answer of the probe\<close>
  "health_step now_iso d s =
     (let healthy = get_default d ''healthy'' (PBool False);
          host = get_default d ''host'' (PStr ''unknown'');
          port = get_default d ''port'' (PInt 22);
          err = get_or_none d ''error'';
          (s', calls) =
            (if truthy healthy then (handle_success now_iso s, [])
             else (handle_failure now_iso s, [SendAlert host port (CheckFailed (or_value err (PStr ''unknown'')))]));
          (s'', calls') = apply_thresholds host port s'
      in (s'', [RecordResult host port healthy err] @ calls @ calls'))"

definition healthcheck_run ::
  "(pystr \<Rightarrow> int option) \<Rightarrow> int \<Rightarrow> pystr \<Rightarrow> exec_failure + pyval \<Rightarrow> state_dict option \<Rightarrow> state_dict \<times> health_call list" where
  "healthcheck_run parse now now_iso answered x =
     (let s = deserialize_state x;
          (s', calls) = health_step now_iso (probe_answer answered) s
      in (serialize_state s', check_for_delay parse now s @ [ProbeHost] @ calls))"

section \<open>Successive runs\<close>

record check =
  ck_now :: int
  ck_iso :: pystr
  ck_answer :: "exec_failure + pyval"

definition check_ok :: "check \<Rightarrow> bool" where
  "check_ok c = truthy (get_default (probe_answer (ck_answer c)) ''healthy'' (PBool False))"

definition run_check :: "(pystr \<Rightarrow> int option) \<Rightarrow> check \<Rightarrow> state_dict option \<Rightarrow> state_dict \<times> health_call list" where
  "run_check parse c x = healthcheck_run parse (ck_now c) (ck_iso c) (ck_answer c) x"

fun chained_runs :: "(pystr \<Rightarrow> int option) \<Rightarrow> check list \<Rightarrow> state_dict option" where
  \<comment> \<open>the state after the checks, the newest first, when every run gets the state of the run before\<close>
  "chained_runs parse [] = None"
| "chained_runs parse (c # cs) = Some (fst (run_check parse c (chained_runs parse cs)))"

definition scheduled_runs :: "(pystr \<Rightarrow> int option) \<Rightarrow> check list \<Rightarrow> health_call list" where
  \<comment> \<open>the calls of the runs of the schedule, which starts the workflow without an argument\<close>
  "scheduled_runs parse cs = concat (map (\<lambda>c. snd (run_check parse c None)) cs)"

section \<open>The thresholds as a specification\<close>

fun runner_status :: "bool list \<Rightarrow> bool" where
  \<comment> \<open>the status after the results, the newest first: changed by three failures or by two successes in a row\<close>
  "runner_status [] = True"
| "runner_status (r # rs) =
     (if runner_status rs then r \<or> length rs < 2 \<or> rs ! 0 \<or> rs ! 1
      else r \<and> rs \<noteq> [] \<and> rs ! 0)"

definition health_inv :: "bool list \<Rightarrow> HealthcheckState \<Rightarrow> bool" where
  \<comment> \<open>how the counters abstract the results so far\<close>
  "health_inv rs s \<longleftrightarrow>
     hs_is_healthy s = runner_status rs
     \<and> (hs_is_healthy s \<longrightarrow> hs_failures s = int (length (takeWhile Not rs)) \<and> hs_failures s < 3 \<and> hs_successes s = 0)
     \<and> (\<not> hs_is_healthy s \<longrightarrow> hs_successes s = int (length (takeWhile id rs)) \<and> hs_successes s < 2)"

lemma health_inv_initial: "health_inv [] initial_health"
  by (simp add: health_inv_def initial_health_def)

definition moved :: "bool list \<Rightarrow> bool \<Rightarrow> health_call list \<Rightarrow> bool" where
  \<comment> \<open>the status is updated exactly when the specification changes\<close>
  "moved rs r calls \<longleftrightarrow>
     ((\<exists>h p. UpdateStatus h p ''unhealthy'' ''block_new_tasks'' \<in> set calls) \<longleftrightarrow> runner_status rs \<and> \<not> runner_status (r # rs))
     \<and> ((\<exists>h p. UpdateStatus h p ''healthy'' ''unblock_tasks'' \<in> set calls) \<longleftrightarrow> \<not> runner_status rs \<and> runner_status (r # rs))"

lemma two_leading: "length (takeWhile P rs) < 2 \<longleftrightarrow> \<not> (2 \<le> length rs \<and> P (rs ! 0) \<and> P (rs ! 1))"
  by (cases rs; cases "tl rs") auto

lemma some_leading: "length (takeWhile P rs) = 0 \<longleftrightarrow> \<not> (rs \<noteq> [] \<and> P (rs ! 0))"
  by (cases rs) auto

lemma health_step_inv:
  assumes "health_inv rs s"
  shows "health_inv (truthy (get_default d ''healthy'' (PBool False)) # rs) (fst (health_step now_iso d s))
       \<and> moved rs (truthy (get_default d ''healthy'' (PBool False))) (snd (health_step now_iso d s))"
proof (cases "truthy (get_default d ''healthy'' (PBool False))")
  case True
  show ?thesis
    using assms two_leading [of id rs] some_leading [of id rs]
    by (auto simp: Suc_le_eq health_step_def True Let_def handle_success_def apply_thresholds_def health_inv_def moved_def RECOVERY_THRESHOLD_def UNHEALTHY_THRESHOLD_def)
next
  case False
  show ?thesis
    using assms two_leading [of Not rs] some_leading [of Not rs]
    by (auto simp: health_step_def False Let_def handle_failure_def apply_thresholds_def health_inv_def moved_def RECOVERY_THRESHOLD_def UNHEALTHY_THRESHOLD_def)
qed

lemma run_check_step:
  "deserialize_state (Some (fst (run_check parse c x))) = fst (health_step (ck_iso c) (probe_answer (ck_answer c)) (deserialize_state x))"
  by (simp add: run_check_def healthcheck_run_def Let_def case_prod_unfold)

lemma run_check_calls:
  "snd (run_check parse c x) =
     check_for_delay parse (ck_now c) (deserialize_state x) @ [ProbeHost] @ snd (health_step (ck_iso c) (probe_answer (ck_answer c)) (deserialize_state x))"
  by (simp add: run_check_def healthcheck_run_def Let_def case_prod_unfold)

lemma no_update_in_delay [simp]: "UpdateStatus h p st a \<notin> set (check_for_delay parse now s)"
  by (simp add: check_for_delay_def split: option.split)

lemma chained_runs_inv: "health_inv (map check_ok cs) (deserialize_state (chained_runs parse cs))"
proof (induction cs)
  case Nil
  then show ?case by (simp add: deserialize_state_def health_inv_initial)
next
  case (Cons c cs)
  from health_step_inv [OF Cons.IH, of "probe_answer (ck_answer c)" "ck_iso c"] show ?case
    by (simp add: run_check_step check_ok_def)
qed

text \<open>
  C33. The scheduled probe implements its thresholds, when each run gets the state of the run before: the runner counts as
  healthy after a sequence of checks exactly when the specification says so, where three failures in a row make it
  unhealthy and then two successes in a row make it healthy again; and a run blocks or unblocks the runner exactly when
  its check changes the status.
\<close>
theorem chained_checks_follow_thresholds:
  "hs_is_healthy (deserialize_state (chained_runs parse cs)) = runner_status (map check_ok cs)
   \<and> ((\<exists>h p. UpdateStatus h p ''unhealthy'' ''block_new_tasks'' \<in> set (snd (run_check parse c (chained_runs parse cs))))
        \<longleftrightarrow> runner_status (map check_ok cs) \<and> \<not> runner_status (map check_ok (c # cs)))
   \<and> ((\<exists>h p. UpdateStatus h p ''healthy'' ''unblock_tasks'' \<in> set (snd (run_check parse c (chained_runs parse cs))))
        \<longleftrightarrow> \<not> runner_status (map check_ok cs) \<and> runner_status (map check_ok (c # cs)))"
  using chained_runs_inv [of cs parse] health_step_inv [OF chained_runs_inv [of cs parse], of "probe_answer (ck_answer c)" "ck_iso c"]
  by (simp add: run_check_calls moved_def check_ok_def health_inv_def del: runner_status.simps)

text \<open>
  C39. As it is scheduled, the probe never blocks a runner. The schedule starts every run without a state, so each check is
  the first one: whatever the results are, no run ever updates the status of the runner.
\<close>
theorem scheduled_checks_never_block: "UpdateStatus h p st a \<notin> set (scheduled_runs parse cs)"
proof -
  have "UpdateStatus h p st a \<notin> set (snd (health_step iso d initial_health))" for iso d
    by (simp add: health_step_def Let_def handle_success_def handle_failure_def apply_thresholds_def initial_health_def
        RECOVERY_THRESHOLD_def UNHEALTHY_THRESHOLD_def)
  then show ?thesis by (auto simp: scheduled_runs_def run_check_calls deserialize_state_def)
qed

end
