(* ===== verification/Workspace_Cleanup.thy ===== *)
theory Workspace_Cleanup
  imports Execution_Activities
begin

text \<open>
  The scheduled eviction of workspaces: the workflow
  (\<^verbatim>\<open>workers/automation-worker/src/automation_worker/workflows/workspace_cleanup.py\<close>) that probes the disk of the runner,
  warns, and prunes the oldest iteration directories until the usage is below a threshold, and its activities
  (\<^verbatim>\<open>workers/execution-runner-worker/src/activities/workspace_cleanup.py\<close>). Percentages are rationals, rounded to one decimal
  as the code rounds them; the remote host and the dashboard are parameters.
\<close>

section \<open>Data\<close>

record WorkspaceDiskSnapshot =
  ws_base_path :: pystr
  ws_total_mb :: int
  ws_used_mb :: int
  ws_usage_pct :: rat
  ws_warn_pct :: int
  ws_evict_pct :: int
  ws_error :: "pystr option"

record WorkspaceIterEntry =
  we_path :: pystr
  we_issue_key :: pystr
  we_iter_n :: int
  we_mtime :: int
  we_size_mb :: int

record WorkspacePruneResult =
  wp_path :: pystr
  wp_success :: bool
  wp_freed_mb :: int
  wp_error :: "pystr option"

record WorkspaceCleanupReport =
  wr_probed :: bool
  wr_initial_pct :: rat
  wr_final_pct :: rat
  wr_warned :: bool
  wr_pruned_paths :: "pystr list"
  wr_pruned_count :: nat
  wr_freed_mb_total :: int
  wr_errors :: "WorkspacePruneResult list"
  wr_snapshot_error :: "pystr option"

definition round1 :: "rat \<Rightarrow> rat" where
  \<comment> \<open>\<open>round(x, 1)\<close>, ties to even\<close>
  "round1 x =
     (let y = x * 10; n = \<lfloor>y\<rfloor>; r = y - of_int n
      in of_int (if r < 1 / 2 then n else if r > 1 / 2 then n + 1 else if even n then n else n + 1) / 10)"

definition usage_percent :: "int \<Rightarrow> int \<Rightarrow> rat" where
  "usage_percent used tot = round1 (of_int used / of_int tot * 100)"

section \<open>Activities\<close>

definition nonempty_or :: "pystr \<Rightarrow> pystr \<Rightarrow> pystr" where
  "nonempty_or a b = (if a \<noteq> [] then a else b)"

definition resolve_runner_base_path :: "settings \<Rightarrow> pystr" where
  "resolve_runner_base_path g =
     Iteration_Manager.rstrip_slash (nonempty_or (strip (setting g ''RUNNER_BASE_PATH'' []))
       (nonempty_or (strip (setting g ''SSH_BASE_PATH'' [])) ''/var/ai-runner''))"

definition parse_pct :: "settings \<Rightarrow> pystr \<Rightarrow> int \<Rightarrow> int" where
  "parse_pct g name dflt =
     (case int_of_str (strip (setting g name [])) of None \<Rightarrow> dflt | Some v \<Rightarrow> if v < 1 \<or> v > 99 then dflt else v)"

definition resolve_thresholds :: "settings \<Rightarrow> int \<times> int" where
  "resolve_thresholds g =
     (let warn = parse_pct g ''RUNNER_DISK_WARN_PCT'' 80; evict = parse_pct g ''RUNNER_DISK_EVICT_PCT'' 90
      in if evict \<le> warn then (80, 90) else (warn, evict))"

type_synonym shell = "pystr \<Rightarrow> pystr \<Rightarrow> int \<Rightarrow> pystr + RunResult"

definition cleanup_ssh :: "(pystr option \<Rightarrow> vault_error + SSHCred) \<Rightarrow> remote \<Rightarrow> shell" where
  \<comment> \<open>\<open>_ssh_exec\<close> of a label, a command and a timeout; the left values are the texts of a \<open>WorkspaceCleanupError\<close>\<close>
  "cleanup_ssh creds remote label command timeout =
     (case creds None of
        Inl _ \<Rightarrow> Inl ''SSH credential fetch failed''
      | Inr cred \<Rightarrow>
          (case ssh_execute_command remote cred command [] timeout of
             Inl e \<Rightarrow> Inl (''SSH execution failed ('' @ label @ ''): '' @ ssh_cause e)
           | Inr r \<Rightarrow> Inr r))"

definition read_df :: "pystr \<Rightarrow> (int \<times> int) option" where
  \<comment> \<open>total and used megabytes of a line of \<^verbatim>\<open>df -P -m\<close>\<close>
  "read_df line =
     (let ws = words_from [] line
      in if length ws < 5 then None
         else case (int_of_str (ws ! 1), int_of_str (ws ! 2)) of (Some t, Some u) \<Rightarrow> Some (t, u) | _ \<Rightarrow> None)"

definition probe_workspace_disk_usage :: "settings \<Rightarrow> shell \<Rightarrow> WorkspaceDiskSnapshot" where
  "probe_workspace_disk_usage g run =
     (let base = resolve_runner_base_path g;
          (warn, evict) = resolve_thresholds g;
          failed = (\<lambda>e. \<lparr>ws_base_path = base, ws_total_mb = 0, ws_used_mb = 0, ws_usage_pct = 0, ws_warn_pct = warn, ws_evict_pct = evict,
                        ws_error = Some e\<rparr>)
      in case run ''workspace_disk_probe'' (''df -P -m '' @ base @ '' 2>/dev/null | tail -n 1'') 30 of
           Inl e \<Rightarrow> failed e
         | Inr r \<Rightarrow>
             if rn_exit_code r \<noteq> 0 then failed (''df exit_code='' @ show_int (rn_exit_code r) @ '': '' @ take 200 (rn_stderr r))
             else if strip (rn_stdout r) = [] then failed ''df returned empty output''
             else case read_df (strip (rn_stdout r)) of
                    None \<Rightarrow> failed ''unparsable df output''
                  | Some (tot, used) \<Rightarrow>
                      \<lparr>ws_base_path = base, ws_total_mb = tot, ws_used_mb = used,
                       ws_usage_pct = (if tot > 0 then usage_percent used tot else 0), ws_warn_pct = warn, ws_evict_pct = evict, ws_error = None\<rparr>)"

definition iter_dir_pattern :: "pystr \<Rightarrow> (pystr \<times> int) option" where
  \<comment> \<open>\<open>_ITER_DIR_PATTERN\<close>: issue and iteration of a path\<close>
  "iter_dir_pattern path =
     (let parts = split_char (CHR ''/'') path
      in if length parts < 3 then None
         else let n = last parts; issue = last (butlast parts); above = join_with ''/'' (butlast (butlast parts))
              in case strip_prefix ''iter-'' n of
                   None \<Rightarrow> None
                 | Some ds \<Rightarrow>
                     if above \<noteq> [] \<and> issue_key_ok issue \<and> ds \<noteq> [] \<and> list_all is_digit ds then Some (issue, int (parse_nat ds)) else None)"

definition int_of_float :: "pyfloat option \<Rightarrow> pystr + int" where
  \<comment> \<open>\<open>int(float(s))\<close> with the \<open>ValueError\<close> turned into zero; infinities raise \<open>OverflowError\<close>\<close>
  "int_of_float x =
     (case x of
        Some (Fin r) \<Rightarrow> Inr (if 0 \<le> r then \<lfloor>r\<rfloor> else \<lceil>r\<rceil>)
      | Some PosInf \<Rightarrow> Inl ''OverflowError''
      | Some NegInf \<Rightarrow> Inl ''OverflowError''
      | _ \<Rightarrow> Inr 0)"

definition iter_size :: "shell \<Rightarrow> pystr \<Rightarrow> pystr + int" where
  "iter_size run path =
     (case run ''workspace_iter_size'' (''du -sm '' @ path @ '' 2>/dev/null | awk '{print $1}'' @ [CHR 0x27]) 30 of
        Inl _ \<Rightarrow> Inr 0
      | Inr r \<Rightarrow> if rn_exit_code r = 0 \<and> strip (rn_stdout r) \<noteq> [] then int_of_float (float_of_str (strip (rn_stdout r))) else Inr 0)"

definition entry_of_line :: "shell \<Rightarrow> pystr \<Rightarrow> pystr + WorkspaceIterEntry option" where
  "entry_of_line run line =
     (if CHR 0x09 \<notin> set line then Inr None
      else let stamp = takeWhile (\<lambda>c. c \<noteq> CHR 0x09) line; path = strip (tl (dropWhile (\<lambda>c. c \<noteq> CHR 0x09) line))
           in rbind (int_of_float (float_of_str (strip stamp))) (\<lambda>mtime.
                case iter_dir_pattern path of
                  None \<Rightarrow> Inr None
                | Some (issue, n) \<Rightarrow>
                    rbind (iter_size run path) (\<lambda>size.
                      Inr (Some \<lparr>we_path = path, we_issue_key = issue, we_iter_n = n, we_mtime = mtime, we_size_mb = size\<rparr>))))"

definition list_command :: "pystr \<Rightarrow> pystr" where
  "list_command base =
     ''find '' @ base @ '' -mindepth 2 -maxdepth 2 -type d -name 'iter-*' -printf '%T@'' @ [CHR 0x5C] @ ''t%p'' @ [CHR 0x5C]
     @ ''n' 2>/dev/null | sort -n''"

definition list_workspace_iter_dirs_oldest_first :: "settings \<Rightarrow> shell \<Rightarrow> pystr + WorkspaceIterEntry list" where
  "list_workspace_iter_dirs_oldest_first g run =
     (case run ''workspace_list_iter_dirs'' (list_command (resolve_runner_base_path g)) 60 of
        Inl _ \<Rightarrow> Inr []
      | Inr r \<Rightarrow>
          if rn_exit_code r \<noteq> 0 \<or> strip (rn_stdout r) = [] then Inr []
          else rbind (rmap (entry_of_line run) (splitlines (strip (rn_stdout r))))
                 (\<lambda>es. Inr (sort_key we_mtime (map the (filter (\<lambda>e. e \<noteq> None) es)))))"

definition safe_to_prune :: "pystr \<Rightarrow> pystr \<Rightarrow> bool" where
  "safe_to_prune path base \<longleftrightarrow>
     path \<noteq> [] \<and> base \<noteq> [] \<and> ''..'' \<notin> set (split_char (CHR ''/'') path)
     \<and> starts_with path (Iteration_Manager.rstrip_slash base @ ''/'') \<and> contains_sub ''/iter-'' path"

definition measure_script :: "pystr \<Rightarrow> pystr" where
  "measure_script path =
     ''if [ -d '' @ path @ '' ]; then   SIZE=$(du -sm '' @ path @ '' 2>/dev/null | awk '{print $1}' || echo 0);   ''"

definition removal_script :: "pystr \<Rightarrow> pystr" where
  "removal_script path = ''rm -rf '' @ path @ '' && echo \"FREED=${SIZE}\" || echo \"FREED=0\"; else   echo \"FREED=0\"; fi''"

definition prune_command :: "pystr \<Rightarrow> pystr" where
  "prune_command path = measure_script path @ removal_script path"

fun freed_of_lines :: "int \<Rightarrow> pystr list \<Rightarrow> int" where
  "freed_of_lines n [] = n"
| "freed_of_lines n (l # ls) =
     freed_of_lines (case strip_prefix ''FREED='' (strip l) of
         None \<Rightarrow> n | Some v \<Rightarrow> (case int_of_str v of None \<Rightarrow> 0 | Some i \<Rightarrow> i)) ls"

datatype prune_effect = RanCommand pystr | WroteAudit bool int \<comment> \<open>success, freed megabytes\<close>

definition prune_result :: "pystr \<Rightarrow> bool \<Rightarrow> int \<Rightarrow> pystr option \<Rightarrow> WorkspacePruneResult" where
  "prune_result path ok freed e = \<lparr>wp_path = path, wp_success = ok, wp_freed_mb = freed, wp_error = e\<rparr>"

definition freed_mb :: "int \<Rightarrow> RunResult \<Rightarrow> int" where
  "freed_mb expected r =
     (let freed = freed_of_lines 0 (splitlines (strip (rn_stdout r))) in if freed = 0 \<and> expected > 0 then expected else freed)"

definition prune_workspace_iter :: "settings \<Rightarrow> shell \<Rightarrow> WorkspaceIterEntry \<Rightarrow> WorkspacePruneResult \<times> prune_effect list" where
  \<comment> \<open>the payload is the path, the issue, the iteration and the size of an entry; the text of a refusal leaves the paths out\<close>
  "prune_workspace_iter g run e =
     (let path = strip (we_path e)
      in if \<not> safe_to_prune path (resolve_runner_base_path g) then (prune_result path False 0 (Some ''refused unsafe prune path''), [])
         else case run (''workspace_prune_'' @ strip (we_issue_key e)) (prune_command path) 300 of
                Inl why \<Rightarrow> (prune_result path False 0 (Some why), [RanCommand (prune_command path), WroteAudit False 0])
              | Inr r \<Rightarrow>
                  if rn_exit_code r \<noteq> 0 then
                    (prune_result path False 0 (Some (''rm -rf exit_code='' @ show_int (rn_exit_code r) @ '': '' @ take 200 (rn_stderr r))),
                     [RanCommand (prune_command path), WroteAudit False 0])
                  else (prune_result path True (freed_mb (we_size_mb e) r) None,
                        [RanCommand (prune_command path), WroteAudit True (freed_mb (we_size_mb e) r)]))"

record warning_answer =
  wa_sent :: bool
  wa_status_code :: "int option"
  wa_error :: "pystr option"

definition emit_workspace_disk_warning :: "(WorkspaceDiskSnapshot \<Rightarrow> pystr + int) \<Rightarrow> WorkspaceDiskSnapshot \<Rightarrow> warning_answer" where
  \<comment> \<open>\<open>post\<close> sends the snapshot to the dashboard; its exceptions are left values\<close>
  "emit_workspace_disk_warning post snap =
     (case post snap of
        Inl e \<Rightarrow> \<lparr>wa_sent = False, wa_status_code = None, wa_error = Some e\<rparr>
      | Inr code \<Rightarrow>
          let sent = 200 \<le> code \<and> code < 300
          in \<lparr>wa_sent = sent, wa_status_code = Some code, wa_error = (if sent then None else Some (''HTTP '' @ show_int code))\<rparr>)"

section \<open>The workflow\<close>

definition MAX_PRUNES_PER_TICK :: nat where "MAX_PRUNES_PER_TICK = 50"

datatype cleanup_call = ProbeDisk | EmitWarning WorkspaceDiskSnapshot | ListDirs | Prune WorkspaceIterEntry

record cleanup_env =
  ce_probe :: "pystr + WorkspaceDiskSnapshot"
  ce_warn :: "WorkspaceDiskSnapshot \<Rightarrow> pystr + warning_answer"
  ce_list :: "pystr + WorkspaceIterEntry list"
  ce_prune :: "WorkspaceIterEntry list \<Rightarrow> WorkspaceIterEntry \<Rightarrow> pystr + WorkspacePruneResult" \<comment> \<open>after the prunes before it\<close>

record prune_state =
  ps_tried :: "WorkspaceIterEntry list"
  ps_pruned :: "pystr list"
  ps_count :: nat
  ps_freed :: int
  ps_used :: int
  ps_pct :: rat
  ps_errors :: "WorkspacePruneResult list"

definition coerce_snapshot :: "WorkspaceDiskSnapshot \<Rightarrow> WorkspaceDiskSnapshot" where
  "coerce_snapshot d =
     d\<lparr>ws_warn_pct := (if ws_warn_pct d = 0 then 80 else ws_warn_pct d), ws_evict_pct := (if ws_evict_pct d = 0 then 90 else ws_evict_pct d),
       ws_error := (if ws_error d = Some [] then None else ws_error d)\<rparr>"

definition coerce_prune_result :: "WorkspacePruneResult \<Rightarrow> WorkspacePruneResult" where
  "coerce_prune_result d = d\<lparr>wp_error := (if wp_error d = Some [] then None else wp_error d)\<rparr>"

definition prune_one :: "cleanup_env \<Rightarrow> int \<Rightarrow> WorkspaceIterEntry \<Rightarrow> prune_state \<Rightarrow> prune_state" where
  "prune_one env tot e s =
     (let s' = s\<lparr>ps_tried := ps_tried s @ [e]\<rparr>
      in case ce_prune env (ps_tried s) e of
           Inl why \<Rightarrow> s'\<lparr>ps_errors := ps_errors s @ [\<lparr>wp_path = we_path e, wp_success = False, wp_freed_mb = 0, wp_error = Some why\<rparr>]\<rparr>
         | Inr d \<Rightarrow>
             let r = coerce_prune_result d
             in if wp_success r then
               let used = max 0 (ps_used s - wp_freed_mb r)
               in s'\<lparr>ps_pruned := ps_pruned s @ [wp_path r], ps_count := Suc (ps_count s), ps_freed := ps_freed s + wp_freed_mb r,
                     ps_used := used, ps_pct := usage_percent used tot\<rparr>
             else s'\<lparr>ps_errors := ps_errors s @ [r]\<rparr>)"

fun prune_loop :: "cleanup_env \<Rightarrow> int \<Rightarrow> int \<Rightarrow> WorkspaceIterEntry list \<Rightarrow> prune_state \<Rightarrow> prune_state" where
  "prune_loop env limit tot [] s = s"
| "prune_loop env limit tot (e # es) s =
     (if ps_pct s < of_int limit then s
      else if ps_count s \<ge> MAX_PRUNES_PER_TICK then s
      else prune_loop env limit tot es (prune_one env tot e s))"

definition prune_start :: "WorkspaceDiskSnapshot \<Rightarrow> prune_state" where
  "prune_start snap =
     \<lparr>ps_tried = [], ps_pruned = [], ps_count = 0, ps_freed = 0, ps_used = ws_used_mb snap, ps_pct = ws_usage_pct snap, ps_errors = []\<rparr>"

definition idle_report :: "bool \<Rightarrow> rat \<Rightarrow> bool \<Rightarrow> pystr option \<Rightarrow> WorkspaceCleanupReport" where
  "idle_report probed pct warned why =
     \<lparr>wr_probed = probed, wr_initial_pct = pct, wr_final_pct = pct, wr_warned = warned, wr_pruned_paths = [], wr_pruned_count = 0,
      wr_freed_mb_total = 0, wr_errors = [], wr_snapshot_error = why\<rparr>"

definition run_evictions :: "cleanup_env \<Rightarrow> WorkspaceDiskSnapshot \<Rightarrow> WorkspaceIterEntry list \<Rightarrow> prune_state" where
  "run_evictions env snap entries =
     prune_loop env (ws_evict_pct snap) (if ws_total_mb snap > 0 then ws_total_mb snap else 1) entries (prune_start snap)"

definition eviction_report :: "WorkspaceDiskSnapshot \<Rightarrow> bool \<Rightarrow> prune_state \<Rightarrow> WorkspaceCleanupReport" where
  "eviction_report snap warned s =
     \<lparr>wr_probed = True, wr_initial_pct = ws_usage_pct snap, wr_final_pct = ps_pct s, wr_warned = warned,
      wr_pruned_paths = ps_pruned s, wr_pruned_count = ps_count s, wr_freed_mb_total = ps_freed s,
      wr_errors = ps_errors s, wr_snapshot_error = None\<rparr>"

definition evict_phase :: "cleanup_env \<Rightarrow> WorkspaceDiskSnapshot \<Rightarrow> bool \<Rightarrow> WorkspaceCleanupReport \<times> cleanup_call list" where
  \<comment> \<open>listing and pruning\<close>
  "evict_phase env snap warned =
     (case ce_list env of
        Inl _ \<Rightarrow> (idle_report True (ws_usage_pct snap) warned None, [ListDirs])
      | Inr entries \<Rightarrow>
          if entries = [] then (idle_report True (ws_usage_pct snap) warned None, [ListDirs])
          else let s = run_evictions env snap entries in (eviction_report snap warned s, ListDirs # map Prune (ps_tried s)))"

definition warned_by :: "pystr + warning_answer \<Rightarrow> bool" where
  \<comment> \<open>the activity returned, whatever it says\<close>
  "warned_by a \<longleftrightarrow> (case a of Inl _ \<Rightarrow> False | Inr _ \<Rightarrow> True)"

definition cleanup_run :: "cleanup_env \<Rightarrow> WorkspaceCleanupReport \<times> cleanup_call list" where
  "cleanup_run env =
     (case ce_probe env of
        Inl e \<Rightarrow> (idle_report False 0 False (Some (''probe_failed: '' @ e)), [ProbeDisk])
      | Inr d \<Rightarrow>
          let snap = coerce_snapshot d
          in if ws_error snap \<noteq> None then (idle_report False 0 False (ws_error snap), [ProbeDisk])
             else if ws_usage_pct snap < of_int (ws_warn_pct snap) then (idle_report True (ws_usage_pct snap) False None, [ProbeDisk])
             else
               let warned = warned_by (ce_warn env snap)
               in if ws_usage_pct snap < of_int (ws_evict_pct snap)
                  then (idle_report True (ws_usage_pct snap) warned None, [ProbeDisk, EmitWarning snap])
                  else (fst (evict_phase env snap warned), [ProbeDisk, EmitWarning snap] @ snd (evict_phase env snap warned)))"

definition cleanup_world :: "settings \<Rightarrow> (WorkspaceIterEntry list \<Rightarrow> shell) \<Rightarrow> (WorkspaceDiskSnapshot \<Rightarrow> pystr + int) \<Rightarrow> cleanup_env" where
  \<comment> \<open>the workflow on its own activities; the host may answer differently after each prune\<close>
  "cleanup_world g run post =
     \<lparr>ce_probe = Inr (probe_workspace_disk_usage g (run [])),
      ce_warn = (\<lambda>snap. Inr (emit_workspace_disk_warning post snap)),
      ce_list = list_workspace_iter_dirs_oldest_first g (run []),
      ce_prune = (\<lambda>tried e. Inr (fst (prune_workspace_iter g (run tried) e)))\<rparr>"

fun prune_effects :: "settings \<Rightarrow> (WorkspaceIterEntry list \<Rightarrow> shell) \<Rightarrow> WorkspaceIterEntry list \<Rightarrow> WorkspaceIterEntry list \<Rightarrow> prune_effect list" where
  "prune_effects g run tried [] = []"
| "prune_effects g run tried (e # es) = snd (prune_workspace_iter g (run tried) e) @ prune_effects g run (tried @ [e]) es"

definition prune_script :: "bool \<Rightarrow> bool \<Rightarrow> pystr \<Rightarrow> RunResult" where
  \<comment> \<open>what \<open>prune_command\<close> prints for a directory that exists or not, is removed or not, and whose measured \<^verbatim>\<open>du\<close> prints as \<open>measured\<close>\<close>
  "prune_script there removed measured =
     \<lparr>rn_stdout = ''FREED='' @ (if there \<and> removed then measured else ''0'') @ [newline], rn_stderr = [], rn_exit_code = 0\<rparr>"

section \<open>The loop takes the shortest sufficient prefix\<close>

fun prunes :: "cleanup_call list \<Rightarrow> WorkspaceIterEntry list" where
  "prunes [] = []"
| "prunes (Prune e # cs) = e # prunes cs"
| "prunes (_ # cs) = prunes cs"

lemma prunes_map [simp]: "prunes (map Prune es) = es"
  by (induction es) auto

definition enough :: "int \<Rightarrow> prune_state \<Rightarrow> bool" where
  "enough limit s \<longleftrightarrow> ps_pct s < of_int limit \<or> MAX_PRUNES_PER_TICK \<le> ps_count s"

lemma prune_loop_prefix:
  "\<exists>k\<le>length es. prune_loop env limit tot es s = fold (prune_one env tot) (take k es) s
     \<and> (\<forall>j<k. \<not> enough limit (fold (prune_one env tot) (take j es) s))
     \<and> (k < length es \<longrightarrow> enough limit (fold (prune_one env tot) (take k es) s))"
proof (induction es arbitrary: s)
  case (Cons e es)
  show ?case
  proof (cases "enough limit s")
    case True
    then have "prune_loop env limit tot (e # es) s = s"
      by (auto simp: enough_def)
    with True show ?thesis
      by (intro exI [of _ 0]) simp
  next
    case False
    then have loop: "prune_loop env limit tot (e # es) s = prune_loop env limit tot es (prune_one env tot e s)"
      by (auto simp: enough_def)
    obtain k where k: "k \<le> length es"
        "prune_loop env limit tot es (prune_one env tot e s) = fold (prune_one env tot) (take k es) (prune_one env tot e s)"
        "\<forall>j<k. \<not> enough limit (fold (prune_one env tot) (take j es) (prune_one env tot e s))"
        "k < length es \<longrightarrow> enough limit (fold (prune_one env tot) (take k es) (prune_one env tot e s))"
      using Cons.IH [of "prune_one env tot e s"] by blast
    have "\<not> enough limit (fold (prune_one env tot) (take j (e # es)) s)" if "j < Suc k" for j
      using that False k(3) by (cases j) auto
    with k loop show ?thesis
      by (intro exI [of _ "Suc k"]) auto
  qed
qed simp

definition tally :: "prune_state \<Rightarrow> bool" where
  "tally s \<longleftrightarrow> ps_count s = length (ps_pruned s) \<and> ps_count s + length (ps_errors s) = length (ps_tried s)"

lemma tried_prune_one [simp]: "ps_tried (prune_one env tot e s) = ps_tried s @ [e]"
  by (simp add: prune_one_def Let_def split: sum.splits)

lemma tried_fold [simp]: "ps_tried (fold (prune_one env tot) es s) = ps_tried s @ es"
  by (induction es arbitrary: s) auto

lemma tally_prune_one: "tally s \<Longrightarrow> tally (prune_one env tot e s)"
  by (auto simp: tally_def prune_one_def Let_def split: sum.splits)

lemma tally_fold: "tally s \<Longrightarrow> tally (fold (prune_one env tot) es s)"
  by (induction es arbitrary: s) (auto intro: tally_prune_one)

lemma count_prune_one: "ps_count (prune_one env tot e s) \<le> Suc (ps_count s)"
  by (simp add: prune_one_def Let_def split: sum.splits)

lemma count_prune_loop: "ps_count s \<le> MAX_PRUNES_PER_TICK \<Longrightarrow> ps_count (prune_loop env limit tot es s) \<le> MAX_PRUNES_PER_TICK"
proof (induction es arbitrary: s)
  case (Cons e es)
  have "ps_count (prune_one env tot e s) \<le> MAX_PRUNES_PER_TICK" if "ps_count s < MAX_PRUNES_PER_TICK"
    using that count_prune_one [of env tot e s] by simp
  with Cons show ?case by auto
qed simp

section \<open>Paths\<close>

lemma split_char_nonempty [simp]: "split_char d s \<noteq> []"
  by (induction s) (auto split: list.splits)

lemma join_split_char [simp]: "join_with [d] (split_char d s) = s"
proof (induction s)
  case (Cons c s)
  then show ?case by (cases "split_char d s") auto
qed simp

lemma join_with_snoc: "xs \<noteq> [] \<Longrightarrow> join_with sep (xs @ [x]) = join_with sep xs @ sep @ x"
  by (induction xs rule: induct_list012) auto

lemma iter_dir_pattern_shape:
  assumes "iter_dir_pattern path = Some (issue, n)"
  shows "\<exists>above ds. path = above @ ''/'' @ issue @ ''/iter-'' @ ds \<and> above \<noteq> [] \<and> issue_key_ok issue
           \<and> ds \<noteq> [] \<and> list_all is_digit ds \<and> n = int (parse_nat ds)"
proof -
  define parts where "parts = split_char (CHR ''/'') path"
  have long: "3 \<le> length parts"
    using assms by (auto simp: iter_dir_pattern_def parts_def [symmetric] Let_def split: if_splits)
  then obtain front i d where parts: "parts = front @ [i, d]" "front \<noteq> []"
    by (cases parts rule: rev_cases; cases "butlast parts" rule: rev_cases) fastforce+
  have "path = join_with ''/'' (front @ [i, d])"
    unfolding parts(1) [symmetric] parts_def by simp
  also have "\<dots> = join_with ''/'' front @ ''/'' @ i @ ''/'' @ d"
    using join_with_snoc [of "front @ [i]" "''/''" d] join_with_snoc [of front "''/''" i] parts(2) by simp
  finally have path: "path = join_with ''/'' front @ ''/'' @ i @ ''/'' @ d" .
  obtain ds where "strip_prefix ''iter-'' d = Some ds" "join_with ''/'' front \<noteq> []" "issue_key_ok i" "ds \<noteq> []" "list_all is_digit ds"
      "issue = i" "n = int (parse_nat ds)"
    using assms unfolding iter_dir_pattern_def parts_def [symmetric] parts(1)
    by (auto simp: Let_def butlast_append split: if_splits option.splits)
  then show ?thesis
    unfolding path strip_prefix_Some by (intro exI [of _ "join_with ''/'' front"] exI [of _ ds]) simp
qed

lemma strip_idem [simp]: "strip (strip s) = strip s"
proof -
  have fixed: "lstrip t = t" if "t = [] \<or> \<not> is_space (hd t)" for t
    using that by (cases t) (auto simp: lstrip_def)
  have head: "lstrip t = [] \<or> \<not> is_space (hd (lstrip t))" for t
    unfolding lstrip_def using hd_dropWhile by blast
  obtain v where v: "rev (lstrip s) = v @ lstrip (rev (lstrip s))"
    unfolding lstrip_def by (metis takeWhile_dropWhile_id)
  then have "lstrip s = rev (lstrip (rev (lstrip s))) @ rev v"
    by (metis rev_append rev_rev_ident)
  then have "strip s = [] \<or> \<not> is_space (hd (strip s))"
    using head [of s] unfolding strip_def by (metis hd_append2 append_is_Nil_conv)
  then have "lstrip (strip s) = strip s"
    by (rule fixed)
  moreover have "lstrip (lstrip (rev (lstrip s))) = lstrip (rev (lstrip s))"
    by (rule fixed) (rule head)
  ultimately show ?thesis
    by (simp add: strip_def)
qed

lemma entry_of_line_pattern:
  "entry_of_line run line = Inr (Some e) \<Longrightarrow> iter_dir_pattern (we_path e) = Some (we_issue_key e, we_iter_n e) \<and> strip (we_path e) = we_path e"
  by (auto simp: entry_of_line_def Let_def rbind_eq_Inr split: if_splits option.splits)

lemma list_dirs_sound:
  assumes "list_workspace_iter_dirs_oldest_first g run = Inr es"
  shows "sorted (map we_mtime es)"
    and "e \<in> set es \<Longrightarrow> iter_dir_pattern (we_path e) = Some (we_issue_key e, we_iter_n e) \<and> strip (we_path e) = we_path e"
proof -
  show "sorted (map we_mtime es)"
    using assms by (auto simp: list_workspace_iter_dirs_oldest_first_def rbind_eq_Inr split: sum.splits if_splits)
  assume e: "e \<in> set es"
  with assms have "\<exists>(r :: RunResult) ms. rmap (entry_of_line run) (splitlines (strip (rn_stdout r))) = Inr ms \<and> Some e \<in> set ms"
    by (auto simp: list_workspace_iter_dirs_oldest_first_def rbind_eq_Inr split: sum.splits if_splits) blast
  then obtain line where "entry_of_line run line = Inr (Some e)"
    by (auto simp: rmap_Inr list_all2_conv_all_nth in_set_conv_nth)
  then show "iter_dir_pattern (we_path e) = Some (we_issue_key e, we_iter_n e) \<and> strip (we_path e) = we_path e"
    by (rule entry_of_line_pattern)
qed

section \<open>Evictions\<close>

definition evicts :: "cleanup_env \<Rightarrow> (WorkspaceDiskSnapshot \<times> WorkspaceIterEntry list) option" where
  \<comment> \<open>what a run starts to prune, when it does\<close>
  "evicts env =
     (case (ce_probe env, ce_list env) of
        (Inr d, Inr es) \<Rightarrow>
          let snap = coerce_snapshot d
          in if ws_error snap = None \<and> of_int (ws_warn_pct snap) \<le> ws_usage_pct snap \<and> of_int (ws_evict_pct snap) \<le> ws_usage_pct snap
             then Some (snap, es) else None
      | _ \<Rightarrow> None)"

definition disk_mb :: "WorkspaceDiskSnapshot \<Rightarrow> int" where
  "disk_mb snap = (if ws_total_mb snap > 0 then ws_total_mb snap else 1)"

definition pruned_state :: "cleanup_env \<Rightarrow> WorkspaceDiskSnapshot \<Rightarrow> WorkspaceIterEntry list \<Rightarrow> prune_state" where
  "pruned_state env snap es = fold (prune_one env (disk_mb snap)) es (prune_start snap)"

lemma evicts_None:
  "evicts env = None \<Longrightarrow> prunes (snd (cleanup_run env)) = [] \<and> wr_pruned_paths (fst (cleanup_run env)) = []"
  by (auto simp: evicts_def cleanup_run_def evict_phase_def idle_report_def Let_def split: sum.splits if_splits)

lemma evicts_Some:
  assumes "evicts env = Some (snap, es)"
  shows "prunes (snd (cleanup_run env)) = ps_tried (run_evictions env snap es)"
    and "wr_pruned_paths (fst (cleanup_run env)) = ps_pruned (run_evictions env snap es)"
    and "wr_pruned_count (fst (cleanup_run env)) = ps_count (run_evictions env snap es)"
    and "wr_errors (fst (cleanup_run env)) = ps_errors (run_evictions env snap es)"
    and "wr_final_pct (fst (cleanup_run env)) = ps_pct (run_evictions env snap es)"
    and "wr_freed_mb_total (fst (cleanup_run env)) = ps_freed (run_evictions env snap es)"
  using assms
  by (auto simp: evicts_def cleanup_run_def evict_phase_def eviction_report_def idle_report_def run_evictions_def prune_start_def Let_def
      split: sum.splits if_splits)

lemma run_evictions_prefix:
  obtains k where "k \<le> length es" "run_evictions env snap es = pruned_state env snap (take k es)"
    "\<And>j. j < k \<Longrightarrow> \<not> enough (ws_evict_pct snap) (pruned_state env snap (take j es))"
    "k < length es \<Longrightarrow> enough (ws_evict_pct snap) (pruned_state env snap (take k es))"
  using prune_loop_prefix [of es env "ws_evict_pct snap" "disk_mb snap" "prune_start snap"]
  unfolding run_evictions_def pruned_state_def disk_mb_def by blast

lemma tally_pruned_state: "tally (pruned_state env snap es)"
  unfolding pruned_state_def by (rule tally_fold) (simp add: tally_def prune_start_def)

lemma tried_pruned_state [simp]: "ps_tried (pruned_state env snap es) = es"
  by (simp add: pruned_state_def prune_start_def)

definition freed_of_answer :: "pystr + WorkspacePruneResult \<Rightarrow> int list" where
  \<comment> \<open>the megabytes an answer reports as freed, when it reports success\<close>
  "freed_of_answer a = (case a of Inl _ \<Rightarrow> [] | Inr d \<Rightarrow> if wp_success d then [wp_freed_mb d] else [])"

fun freed_by :: "cleanup_env \<Rightarrow> WorkspaceIterEntry list \<Rightarrow> WorkspaceIterEntry list \<Rightarrow> int list" where
  \<comment> \<open>the freed megabytes of the successful answers, in order, when the directories are tried one after the other\<close>
  "freed_by env tried [] = []"
| "freed_by env tried (e # es) = freed_of_answer (ce_prune env tried e) @ freed_by env (tried @ [e]) es"

definition used_after :: "WorkspaceDiskSnapshot \<Rightarrow> int list \<Rightarrow> int" where
  \<comment> \<open>the used megabytes of the probe less what was freed, never below zero\<close>
  "used_after snap fs = foldl (\<lambda>used freed. max 0 (used - freed)) (ws_used_mb snap) fs"

definition estimated_usage :: "WorkspaceDiskSnapshot \<Rightarrow> int list \<Rightarrow> rat" where
  \<comment> \<open>the probed percentage, and from the first removal on that of the estimated use\<close>
  "estimated_usage snap fs = (if fs = [] then ws_usage_pct snap else usage_percent (used_after snap fs) (disk_mb snap))"

definition freed_enough :: "cleanup_env \<Rightarrow> WorkspaceDiskSnapshot \<Rightarrow> WorkspaceIterEntry list \<Rightarrow> bool" where
  "freed_enough env snap es \<longleftrightarrow>
     estimated_usage snap (freed_by env [] es) < of_int (ws_evict_pct snap) \<or> 50 \<le> length (freed_by env [] es)"

lemma freed_by_snoc: "freed_by env tried (es @ [e]) = freed_by env tried es @ freed_of_answer (ce_prune env (tried @ es) e)"
  by (induction es arbitrary: tried) simp_all

lemma pruned_state_spec:
  "ps_count (pruned_state env snap es) = length (freed_by env [] es) \<and> ps_used (pruned_state env snap es) = used_after snap (freed_by env [] es)
   \<and> ps_pct (pruned_state env snap es) = estimated_usage snap (freed_by env [] es) \<and> ps_freed (pruned_state env snap es) = sum_list (freed_by env [] es)"
proof (induction es rule: rev_induct)
  case Nil
  show ?case by (simp add: pruned_state_def prune_start_def used_after_def estimated_usage_def)
next
  case (snoc e es)
  have "pruned_state env snap (es @ [e]) = prune_one env (disk_mb snap) e (pruned_state env snap es)"
    by (simp add: pruned_state_def)
  with snoc show ?case
    by (simp add: prune_one_def freed_by_snoc freed_of_answer_def used_after_def estimated_usage_def coerce_prune_result_def Let_def
        split: sum.split)
qed

lemma enough_iff: "enough (ws_evict_pct snap) (pruned_state env snap es) \<longleftrightarrow> freed_enough env snap es"
  using pruned_state_spec [of env snap es] by (simp add: enough_def freed_enough_def MAX_PRUNES_PER_TICK_def)

text \<open>
  C27. A run of the cleanup prunes nothing unless the probe succeeded with a usage of at least both thresholds and the listing
  succeeded. Otherwise the directories it tries are the shortest prefix of the listing, in its order, after which the estimated usage
  is below the eviction threshold or fifty were removed, and all of it if no prefix suffices. The estimated usage is computed from
  the probe and the answers of the removals alone: the used megabytes less what each successful removal reports as freed, as a
  percentage of the disk. The report gives the last estimate, the number of successful removals, at most fifty, and the sum of what
  they freed, and counts every other directory tried as an error.
\<close>

theorem evictions_are_ordered_and_bounded:
  "case evicts env of
     None \<Rightarrow> prunes (snd (cleanup_run env)) = [] \<and> wr_pruned_paths (fst (cleanup_run env)) = []
   | Some (snap, es) \<Rightarrow>
       \<exists>k\<le>length es. prunes (snd (cleanup_run env)) = take k es
         \<and> (\<forall>j<k. \<not> freed_enough env snap (take j es))
         \<and> (k < length es \<longrightarrow> freed_enough env snap (take k es))
         \<and> (let r = fst (cleanup_run env); fs = freed_by env [] (take k es)
            in wr_final_pct r = estimated_usage snap fs \<and> wr_freed_mb_total r = sum_list fs
               \<and> wr_pruned_count r = length fs \<and> length fs \<le> 50
               \<and> length (wr_pruned_paths r) = length fs \<and> length fs + length (wr_errors r) = k)"
proof (cases "evicts env")
  case None
  then show ?thesis by (simp add: evicts_None)
next
  case (Some p)
  obtain snap es where p: "p = (snap, es)" by (cases p)
  with Some have ev: "evicts env = Some (snap, es)" by simp
  obtain k where k: "k \<le> length es" "run_evictions env snap es = pruned_state env snap (take k es)"
      "\<And>j. j < k \<Longrightarrow> \<not> freed_enough env snap (take j es)" "k < length es \<Longrightarrow> freed_enough env snap (take k es)"
    using run_evictions_prefix [where es = es and env = env and snap = snap] unfolding enough_iff by blast
  have "ps_count (run_evictions env snap es) \<le> MAX_PRUNES_PER_TICK"
    unfolding run_evictions_def by (rule count_prune_loop) (simp add: prune_start_def)
  moreover have "tally (run_evictions env snap es)"
    unfolding k(2) by (rule tally_pruned_state)
  ultimately show ?thesis
    using k pruned_state_spec [of env snap "take k es"]
    unfolding ev option.case prod.case Let_def evicts_Some [OF ev]
    by (intro exI [of _ k]) (simp add: tally_def MAX_PRUNES_PER_TICK_def)
qed

definition disk_dir :: "pystr \<Rightarrow> int \<Rightarrow> int \<Rightarrow> WorkspaceIterEntry" where
  "disk_dir issue n mb =
     \<lparr>we_path = ''/var/ai-runner/'' @ issue @ ''/iter-'' @ show_int n, we_issue_key = issue, we_iter_n = n, we_mtime = 100 * n, we_size_mb = mb\<rparr>"

definition disk_dirs :: "WorkspaceIterEntry list" where
  "disk_dirs = [disk_dir ''PAY-1'' 1 30, disk_dir ''PAY-2'' 2 40, disk_dir ''PAY-3'' 3 10, disk_dir ''PAY-4'' 4 20]"

definition disk_snapshot :: WorkspaceDiskSnapshot where
  "disk_snapshot =
     \<lparr>ws_base_path = ''/var/ai-runner'', ws_total_mb = 1000, ws_used_mb = 935, ws_usage_pct = 187 / 2, ws_warn_pct = 80, ws_evict_pct = 90,
      ws_error = None\<rparr>"

definition disk_env :: cleanup_env where
  \<comment> \<open>the second directory cannot be removed\<close>
  "disk_env =
     \<lparr>ce_probe = Inr disk_snapshot, ce_warn = (\<lambda>_. Inl ''timeout''), ce_list = Inr disk_dirs,
      ce_prune = (\<lambda>tried e. if length tried = 1 then Inl ''timeout'' else Inr (prune_result (we_path e) True (we_size_mb e) None))\<rparr>"

lemma disk_evicts: "evicts disk_env = Some (disk_snapshot, disk_dirs)"
  by code_simp

lemma disk_enough: "map (\<lambda>j. freed_enough disk_env disk_snapshot (take j disk_dirs)) [0, 1, 2, 3] = [False, False, False, True]"
  "freed_by disk_env [] (take 3 disk_dirs) = [30, 10]" "estimated_usage disk_snapshot [30, 10] = 179 / 2"
  by code_simp+

theorem evictions_are_ordered_and_bounded_witness:
  "prunes (snd (cleanup_run disk_env)) = take 3 disk_dirs
   \<and> wr_final_pct (fst (cleanup_run disk_env)) = 179 / 2 \<and> wr_freed_mb_total (fst (cleanup_run disk_env)) = 40
   \<and> length (wr_errors (fst (cleanup_run disk_env))) = 1"
proof -
  have len: "length disk_dirs = 4"
    by (simp add: disk_dirs_def)
  obtain k where k: "prunes (snd (cleanup_run disk_env)) = take k disk_dirs" "k \<le> 4"
      "\<forall>j<k. \<not> freed_enough disk_env disk_snapshot (take j disk_dirs)"
      "k < 4 \<longrightarrow> freed_enough disk_env disk_snapshot (take k disk_dirs)"
      "wr_final_pct (fst (cleanup_run disk_env)) = estimated_usage disk_snapshot (freed_by disk_env [] (take k disk_dirs))"
      "wr_freed_mb_total (fst (cleanup_run disk_env)) = sum_list (freed_by disk_env [] (take k disk_dirs))"
      "length (freed_by disk_env [] (take k disk_dirs)) + length (wr_errors (fst (cleanup_run disk_env))) = k"
    using evictions_are_ordered_and_bounded [of disk_env] unfolding disk_evicts option.case prod.case len Let_def by blast
  have "k \<noteq> 0" "k \<noteq> 1" "k \<noteq> 2" "\<not> 3 < k"
    using k(3,4) disk_enough(1) by (cases "k = 0"; auto)+
  then have "k = 3"
    by simp
  with k disk_enough(2,3) show ?thesis by simp
qed

section \<open>What is removed\<close>

lemma ran_command_is_safe:
  "RanCommand c \<in> set (snd (prune_workspace_iter g run e))
   \<Longrightarrow> c = prune_command (strip (we_path e)) \<and> safe_to_prune (strip (we_path e)) (resolve_runner_base_path g)"
  by (auto simp: prune_workspace_iter_def Let_def split: if_splits sum.splits)

lemma prune_effects_safe:
  "RanCommand c \<in> set (prune_effects g run tried es)
   \<Longrightarrow> \<exists>e\<in>set es. c = prune_command (strip (we_path e)) \<and> safe_to_prune (strip (we_path e)) (resolve_runner_base_path g)"
  by (induction es arbitrary: tried) (auto dest: ran_command_is_safe)

lemma prunes_of_world:
  "\<exists>k es. prunes (snd (cleanup_run (cleanup_world g run post))) = take k es
     \<and> (es = [] \<or> list_workspace_iter_dirs_oldest_first g (run []) = Inr es)"
proof (cases "evicts (cleanup_world g run post)")
  case None
  then show ?thesis by (auto simp: evicts_None)
next
  case (Some p)
  obtain snap es where p: "p = (snap, es)" by (cases p)
  with Some have ev: "evicts (cleanup_world g run post) = Some (snap, es)" by simp
  then have "list_workspace_iter_dirs_oldest_first g (run []) = Inr es"
    by (auto simp: evicts_def cleanup_world_def Let_def split: sum.splits if_splits)
  moreover obtain k where "run_evictions (cleanup_world g run post) snap es = pruned_state (cleanup_world g run post) snap (take k es)"
    using run_evictions_prefix by blast
  ultimately show ?thesis
    unfolding evicts_Some [OF ev] by auto
qed

lemma removal_of_safe_path:
  assumes "list_all is_shell_safe path"
  shows "sh_tokens 4 (removal_script path) =
    Some ([Word ''rm'', Word ''-rf'', Word path, And], ''echo \"FREED=${SIZE}\" || echo \"FREED=0\"; else   echo \"FREED=0\"; fi'')"
proof -
  have "list_all is_shell_safe ''rm''" "list_all is_shell_safe ''-rf''"
    by (simp_all add: is_shell_safe_def char_range_def)
  then have "reads (''rm'' @ CHR '' '' # ''-rf'' @ CHR '' '' # path @ CHR '' '' # ''&&'') ([Word ''rm''] @ [Word ''-rf''] @ [Word path] @ [And])"
    using assms by (intro reads_append reads_and reads_safe)
  from reads_before [OF this, of 4] show ?thesis by (simp add: removal_script_def)
qed

text \<open>
  C22. On its own activities, whatever the remote host lists, the cleanup prunes in the order of the modification times, and every
  command it runs is the script of a listed path that ends in \<^verbatim>\<open>/KEY-N/iter-M\<close>, begins with the configured base path and has no
  component \<^verbatim>\<open>..\<close>. When the path consists of characters that need no quoting, the shell reads the removal in that script as
  \<^verbatim>\<open>rm -rf\<close> of exactly this one path. (The path is not quoted, so nothing of the kind holds for a path with a blank.)
\<close>

theorem evictions_stay_in_workspace:
  fixes g run post
  defines "es \<equiv> prunes (snd (cleanup_run (cleanup_world g run post)))"
  shows "sorted (map we_mtime es) \<and>
    (\<forall>c. RanCommand c \<in> set (prune_effects g run [] es) \<longrightarrow>
       (\<exists>e above ds rest. e \<in> set es \<and> c = measure_script (we_path e) @ removal_script (we_path e)
          \<and> we_path e = above @ ''/'' @ we_issue_key e @ ''/iter-'' @ ds \<and> issue_key_ok (we_issue_key e) \<and> ds \<noteq> [] \<and> list_all is_digit ds
          \<and> resolve_runner_base_path g \<noteq> [] \<and> we_path e = Iteration_Manager.rstrip_slash (resolve_runner_base_path g) @ ''/'' @ rest
          \<and> ''..'' \<notin> set (split_char (CHR ''/'') (we_path e))
          \<and> (list_all is_shell_safe (we_path e) \<longrightarrow>
               (\<exists>more. sh_tokens 4 (removal_script (we_path e)) = Some ([Word ''rm'', Word ''-rf'', Word (we_path e), And], more)))))"
proof -
  obtain k all where all: "es = take k all" "all = [] \<or> list_workspace_iter_dirs_oldest_first g (run []) = Inr all"
    unfolding es_def using prunes_of_world by blast
  then have "sorted (map we_mtime all)"
    by (auto dest: list_dirs_sound(1))
  then have ord: "sorted (map we_mtime es)"
    unfolding all(1) take_map [symmetric] by (rule sorted_wrt_take)
  have listed: "iter_dir_pattern (we_path e) = Some (we_issue_key e, we_iter_n e) \<and> strip (we_path e) = we_path e" if "e \<in> set es" for e
    using all that list_dirs_sound(2) by (fastforce dest: in_set_takeD)
  have "\<exists>e above ds rest. e \<in> set es \<and> c = measure_script (we_path e) @ removal_script (we_path e)
          \<and> we_path e = above @ ''/'' @ we_issue_key e @ ''/iter-'' @ ds \<and> issue_key_ok (we_issue_key e) \<and> ds \<noteq> [] \<and> list_all is_digit ds
          \<and> resolve_runner_base_path g \<noteq> [] \<and> we_path e = Iteration_Manager.rstrip_slash (resolve_runner_base_path g) @ ''/'' @ rest
          \<and> ''..'' \<notin> set (split_char (CHR ''/'') (we_path e))"
    if "RanCommand c \<in> set (prune_effects g run [] es)" for c
  proof -
    obtain e where e: "e \<in> set es" "c = prune_command (strip (we_path e))" "safe_to_prune (strip (we_path e)) (resolve_runner_base_path g)"
      using prune_effects_safe [OF \<open>RanCommand c \<in> _\<close>] by blast
    obtain above ds where "we_path e = above @ ''/'' @ we_issue_key e @ ''/iter-'' @ ds" "issue_key_ok (we_issue_key e)"
        "ds \<noteq> []" "list_all is_digit ds"
      using iter_dir_pattern_shape listed [OF e(1)] by blast
    moreover obtain rest where "we_path e = Iteration_Manager.rstrip_slash (resolve_runner_base_path g) @ ''/'' @ rest"
      using e(3) listed [OF e(1)] by (auto simp: safe_to_prune_def starts_with_iff)
    ultimately show ?thesis
      using e listed [OF e(1)] unfolding safe_to_prune_def prune_command_def by metis
  qed
  with ord show ?thesis by (metis removal_of_safe_path)
qed

definition disk_result :: "pystr \<Rightarrow> RunResult" where
  "disk_result out = \<lparr>rn_stdout = out, rn_stderr = [], rn_exit_code = 0\<rparr>"

definition disk_settings :: settings where
  "disk_settings name = (if name = ''RUNNER_BASE_PATH'' then Some ''/r'' else None)"

definition disk_run :: "WorkspaceIterEntry list \<Rightarrow> shell" where
  \<comment> \<open>a full disk with one directory\<close>
  "disk_run tried label command timeout =
     (if starts_with label ''workspace_disk'' then Inr (disk_result (''d 10 9 1 90% /''))
      else if starts_with label ''workspace_list'' then Inr (disk_result (''7'' @ [CHR 0x09] @ ''/r/P-7/iter-2''))
      else if starts_with label ''workspace_iter'' then Inr (disk_result (''6''))
      else Inr (prune_script True True ''6''))"

definition disk_entry :: WorkspaceIterEntry where
  "disk_entry = \<lparr>we_path = ''/r/P-7/iter-2'', we_issue_key = ''P-7'', we_iter_n = 2, we_mtime = 7, we_size_mb = 6\<rparr>"

lemma disk_listed: "list_workspace_iter_dirs_oldest_first disk_settings (disk_run []) = Inr [disk_entry]"
  by code_simp

lemma disk_probed: "probe_workspace_disk_usage disk_settings (disk_run []) = \<lparr>ws_base_path = ''/r'', ws_total_mb = 10, ws_used_mb = 9, ws_usage_pct = 90, ws_warn_pct = 80, ws_evict_pct = 90, ws_error = None\<rparr>"
  by code_simp

definition disk_pruned :: "WorkspaceIterEntry list" where
  "disk_pruned = prunes (snd (cleanup_run (cleanup_world disk_settings disk_run (\<lambda>_. Inr 200))))"

lemma disk_pruned: "disk_pruned = [disk_entry]"
  by (simp add: disk_pruned_def cleanup_run_def cleanup_world_def disk_listed disk_probed coerce_snapshot_def evict_phase_def run_evictions_def prune_start_def MAX_PRUNES_PER_TICK_def Let_def)

lemma disk_pruned_removes: "\<exists>c. RanCommand c \<in> set (prune_effects disk_settings disk_run [] disk_pruned)"
proof -
  have "safe_to_prune (strip (we_path disk_entry)) (resolve_runner_base_path disk_settings)" by code_simp
  then show ?thesis
    by (auto simp: disk_pruned prune_workspace_iter_def Let_def split: sum.splits)
qed

theorem evictions_stay_in_workspace_witness:
  "\<exists>c e rest more. RanCommand c \<in> set (prune_effects disk_settings disk_run [] disk_pruned) \<and> e \<in> set disk_pruned
     \<and> we_path e = Iteration_Manager.rstrip_slash (resolve_runner_base_path disk_settings) @ ''/'' @ rest
     \<and> c = measure_script (we_path e) @ removal_script (we_path e)
     \<and> sh_tokens 4 (removal_script (we_path e)) = Some ([Word ''rm'', Word ''-rf'', Word (we_path e), And], more)"
proof -
  obtain c where c: "RanCommand c \<in> set (prune_effects disk_settings disk_run [] disk_pruned)"
    using disk_pruned_removes by blast
  have safe: "list_all is_shell_safe (we_path e)" if "e \<in> set disk_pruned" for e
    using that by (simp add: disk_pruned disk_entry_def is_shell_safe_def char_range_def)
  show ?thesis
    using evictions_stay_in_workspace [of disk_settings disk_run "\<lambda>_. Inr 200"] c safe unfolding disk_pruned_def by blast
qed

text \<open>
  The path is put into the script without quotes. A listed path with a blank passes every check although the shell reads
  it as two: with the base \<^verbatim>\<open>/r\<close> and the listed path \<^verbatim>\<open>/r/x /etc/P-1/iter-1\<close> the removal is of \<^verbatim>\<open>/r/x\<close> and of
  \<^verbatim>\<open>/etc/P-1/iter-1\<close>.
\<close>

theorem blank_in_path_escapes_workspace:
  "snd (prune_workspace_iter disk_settings run (disk_entry\<lparr>we_path := ''/r/x /etc/P-1/iter-1''\<rparr>)) \<noteq> []
   \<and> iter_dir_pattern ''/r/x /etc/P-1/iter-1'' = Some (''P-1'', 1)
   \<and> (\<exists>more. sh_tokens 5 (removal_script ''/r/x /etc/P-1/iter-1'') =
        Some ([Word ''rm'', Word ''-rf'', Word ''/r/x'', Word ''/etc/P-1/iter-1'', And], more))"
proof -
  have "strip ''/r/x /etc/P-1/iter-1'' = ''/r/x /etc/P-1/iter-1''" "iter_dir_pattern ''/r/x /etc/P-1/iter-1'' = Some (''P-1'', 1)"
    "safe_to_prune ''/r/x /etc/P-1/iter-1'' (resolve_runner_base_path disk_settings)"
    "map_option fst (sh_tokens 5 (removal_script ''/r/x /etc/P-1/iter-1'')) =
       Some [Word ''rm'', Word ''-rf'', Word ''/r/x'', Word ''/etc/P-1/iter-1'', And]"
    by code_simp+
  then show ?thesis
    by (auto simp: prune_workspace_iter_def Let_def split: sum.split)
qed

text \<open>
  C40. The script of a prune prints \<^verbatim>\<open>FREED=0\<close> and exits with zero also when \<^verbatim>\<open>rm\<close> fails, and the activity takes that for a
  directory that was gone: a directory of positive size that could not be removed is reported and audited as pruned, with its whole size as
  freed, and the workflow lowers its estimate of the usage by it.
\<close>

theorem failed_removal_counts_as_freed:
  assumes "safe_to_prune (strip (we_path e)) (resolve_runner_base_path g)" "0 < we_size_mb e"
    and "\<And>label command timeout. run tried label command timeout = Inr (prune_script True False measured)"
    and "ps_tried s = tried"
  shows "prune_workspace_iter g (run tried) e =
           (prune_result (strip (we_path e)) True (we_size_mb e) None,
            [RanCommand (prune_command (strip (we_path e))), WroteAudit True (we_size_mb e)])
         \<and> ps_used (prune_one (cleanup_world g run post) tot e s) = max 0 (ps_used s - we_size_mb e)
         \<and> ps_pruned (prune_one (cleanup_world g run post) tot e s) = ps_pruned s @ [strip (we_path e)]"
proof -
  have "freed_of_lines 0 (splitlines (strip (rn_stdout (prune_script True False measured)))) = 0"
    unfolding prune_script_def by code_simp
  then have "freed_mb (we_size_mb e) (prune_script True False measured) = we_size_mb e"
    using assms(2) by (simp add: freed_mb_def)
  moreover have "rn_exit_code (prune_script True False measured) = 0"
    by (simp add: prune_script_def)
  ultimately have "prune_workspace_iter g (run tried) e =
           (prune_result (strip (we_path e)) True (we_size_mb e) None,
            [RanCommand (prune_command (strip (we_path e))), WroteAudit True (we_size_mb e)])"
    using assms(1,3) by (simp add: prune_workspace_iter_def Let_def)
  then show ?thesis
    using assms(4) by (simp add: prune_one_def cleanup_world_def coerce_prune_result_def prune_result_def Let_def)
qed

theorem failed_removal_counts_as_freed_witness:
  "prune_workspace_iter (\<lambda>_. None) ((\<lambda>_ _ _ _. Inr (prune_script True False ''60'')) ([] :: WorkspaceIterEntry list)) (disk_dir ''PAY-7'' 2 60) =
     (prune_result ''/var/ai-runner/PAY-7/iter-2'' True 60 None,
      [RanCommand (prune_command ''/var/ai-runner/PAY-7/iter-2''), WroteAudit True 60])"
proof -
  have "safe_to_prune (strip (we_path (disk_dir ''PAY-7'' 2 60))) (resolve_runner_base_path (\<lambda>_. None))"
    "strip (we_path (disk_dir ''PAY-7'' 2 60)) = ''/var/ai-runner/PAY-7/iter-2''"
    by code_simp+
  moreover have "we_size_mb (disk_dir ''PAY-7'' 2 60) = 60"
    by (simp add: disk_dir_def)
  ultimately show ?thesis
    using failed_removal_counts_as_freed [of "disk_dir ''PAY-7'' 2 60" "\<lambda>_. None" "\<lambda>_ _ _ _. Inr (prune_script True False ''60'')" "[]" "''60''"
        "prune_start disk_snapshot"]
    by (simp add: prune_start_def)
qed

end
