(* ===== verification/Audit_Prune.thy ===== *)
theory Audit_Prune
  imports Execution_Run "HOL-Library.Product_Lexorder"
begin

text \<open>
  The daily retention of the audit log: the workflow
  (\<^verbatim>\<open>workers/automation-worker/src/automation_worker/workflows/audit_prune.py\<close>), which looks up the retention, archives the rows
  older than the cutoff and deletes them, and its activities
  (\<^verbatim>\<open>workers/automation-worker/src/automation_worker/activities/audit_prune.py\<close>). Times are integers in microseconds. The locale
  \<open>keyset_pagination\<close> states what reading a table page by page returns; the theorems show that no run, whatever its attempts and
  failures, loses a row of the audit log.
\<close>

section \<open>Tables\<close>

record audit_row =
  ar_id :: int
  ar_created_at :: int
  ar_body :: pystr \<comment> \<open>the other columns\<close>

record cost_row =
  cr_id :: int
  cr_created_at :: int

record audit_store =
  as_audit :: "audit_row list"
  as_cost :: "cost_row list"
  as_objects :: "(pystr \<times> audit_row list) list" \<comment> \<open>objects of the archive by key: the rows of their lines\<close>

section \<open>The retention\<close>

definition DEFAULT_RETENTION_DAYS :: int where "DEFAULT_RETENTION_DAYS = 90"

definition parse_positive_int :: "int option \<Rightarrow> int option" where
  \<comment> \<open>of \<open>int(value)\<close>, \<open>None\<close> when that raises\<close>
  "parse_positive_int v = (case v of None \<Rightarrow> None | Some i \<Rightarrow> if i \<le> 0 then None else Some i)"

definition parse_positive_str :: "pystr option \<Rightarrow> int option" where
  "parse_positive_str v = parse_positive_int (case v of None \<Rightarrow> None | Some s \<Rightarrow> int_of_str s)"

record retention_sources =
  rt_provider :: "(pystr + int option) option"
  rt_env :: "pystr option" \<comment> \<open>\<^verbatim>\<open>RETENTION_DAYS\<close>\<close>
  rt_flag :: "(pystr + (pystr option \<times> bool) option) option"
    \<comment> \<open>the row of the flag, with its description and whether it is enabled; \<open>None\<close> without a pool\<close>

definition provider_days :: "retention_sources \<Rightarrow> int option" where
  "provider_days src = (case rt_provider src of Some (Inr v) \<Rightarrow> parse_positive_int v | _ \<Rightarrow> None)"

definition flag_days :: "retention_sources \<Rightarrow> int option" where
  "flag_days src = (case rt_flag src of Some (Inr (Some (d, enabled))) \<Rightarrow> if enabled then parse_positive_str d else None | _ \<Rightarrow> None)"

definition get_retention_setting :: "retention_sources \<Rightarrow> int" where
  "get_retention_setting src =
     (case provider_days src of
        Some d \<Rightarrow> d
      | None \<Rightarrow> (case parse_positive_str (rt_env src) of
                  Some d \<Rightarrow> d
                | None \<Rightarrow> (case flag_days src of Some d \<Rightarrow> d | None \<Rightarrow> DEFAULT_RETENTION_DAYS)))"

definition retention_days :: "int \<Rightarrow> int" where
  \<comment> \<open>the workflow's own check of the answer\<close>
  "retention_days raw = (if raw > 0 then raw else DEFAULT_RETENTION_DAYS)"

definition day_us :: int where "day_us = 86400000000"

definition cutoff_of :: "int \<Rightarrow> int \<Rightarrow> int" where
  "cutoff_of now raw = now - retention_days raw * day_us"

section \<open>The archive\<close>

definition ARCHIVE_BATCH_SIZE :: nat where "ARCHIVE_BATCH_SIZE = 5000"

definition row_key :: "audit_row \<Rightarrow> int \<times> int" where
  "row_key r = (ar_created_at r, ar_id r)"

definition fetch_page :: "audit_row list \<Rightarrow> int \<Rightarrow> nat \<Rightarrow> (int \<times> int) option \<Rightarrow> audit_row list" where
  \<comment> \<open>the two queries of the loop: rows older than the cutoff behind the last key, in the order of the keys\<close>
  "fetch_page rows cutoff batch last_key =
     take batch (sort_key row_key
       (filter (\<lambda>r. ar_created_at r < cutoff \<and> (case last_key of None \<Rightarrow> True | Some k \<Rightarrow> k < row_key r)) rows))"

lemma fetch_page_beyond:
  assumes "fetch_page rows cutoff batch last_key \<noteq> []"
  defines "k \<equiv> row_key (last (fetch_page rows cutoff batch last_key))"
  shows "length (filter (\<lambda>r. ar_created_at r < cutoff \<and> k < row_key r) rows)
    < length (filter (\<lambda>r. ar_created_at r < cutoff \<and> (case last_key of None \<Rightarrow> True | Some k \<Rightarrow> k < row_key r)) rows)"
proof -
  let ?P = "\<lambda>r. ar_created_at r < cutoff \<and> (case last_key of None \<Rightarrow> True | Some k \<Rightarrow> k < row_key r)"
  let ?l = "last (fetch_page rows cutoff batch last_key)"
  have "?l \<in> set (fetch_page rows cutoff batch last_key)" using assms(1) by simp
  then have l: "?l \<in> set (filter ?P rows)"
    unfolding fetch_page_def by (auto dest!: in_set_takeD)
  have "filter (\<lambda>r. ar_created_at r < cutoff \<and> k < row_key r) rows = filter (\<lambda>r. k < row_key r) (filter ?P rows)"
    using l by (auto simp: k_def intro!: filter_cong split: option.splits)
  also have "length \<dots> < length (filter ?P rows)"
    using l by (intro length_filter_less) (auto simp: k_def)
  finally show ?thesis .
qed

function archive_pages :: "audit_row list \<Rightarrow> int \<Rightarrow> nat \<Rightarrow> (int \<times> int) option \<Rightarrow> audit_row list" where
  "archive_pages rows cutoff batch last_key =
     (let page = fetch_page rows cutoff batch last_key
      in if page = [] then []
         else page @ (if length page < batch then [] else archive_pages rows cutoff batch (Some (row_key (last page)))))"
  by pat_completeness auto
termination
  by (relation "measure (\<lambda>(rows, cutoff, batch, last_key).
        length (filter (\<lambda>r. ar_created_at r < cutoff \<and> (case last_key of None \<Rightarrow> True | Some k \<Rightarrow> k < row_key r)) rows))")
     (use fetch_page_beyond in auto)

declare archive_pages.simps [simp del]

record minio_settings =
  ms_endpoint :: pystr
  ms_access_key :: pystr
  ms_secret_key :: pystr

datatype put_outcome =
    PutAnswered int \<comment> \<open>status code\<close>
  | PutBroken pystr bool \<comment> \<open>transport failure; whether the object was stored nevertheless\<close>

datatype audit_failure = SettingsIncomplete | SettingsMissing | PutFailed int | TransportFailure pystr | DatabaseFailure | LookupFailed | AttemptsExhausted

definition minio_put_object :: "minio_settings \<Rightarrow> put_outcome \<Rightarrow> (audit_failure + unit) \<times> bool" where
  \<comment> \<open>the result and whether the object is stored\<close>
  "minio_put_object m out =
     (if ms_access_key m = [] \<or> ms_secret_key m = [] \<or> ms_endpoint m = [] then (Inl SettingsIncomplete, False)
      else case out of
             PutBroken e stored \<Rightarrow> (Inl (TransportFailure e), stored)
           | PutAnswered code \<Rightarrow> if 200 \<le> code \<and> code < 300 then (Inr (), True) else (Inl (PutFailed code), False))"

record AuditArchiveResult =
  aa_archived_rows :: nat
  aa_archive_uri :: pystr

definition AUDIT_ARCHIVE_BUCKET :: pystr where "AUDIT_ARCHIVE_BUCKET = ''audit-archive''"

definition store_object :: "pystr \<Rightarrow> audit_row list \<Rightarrow> audit_store \<Rightarrow> audit_store" where
  "store_object k rows s = s\<lparr>as_objects := dict_set k rows (as_objects s)\<rparr>"

definition archive_audit_to_minio ::
  "(int \<Rightarrow> pystr) \<Rightarrow> minio_settings option \<Rightarrow> int \<Rightarrow> put_outcome \<Rightarrow> audit_store \<Rightarrow> (audit_failure + AuditArchiveResult) \<times> audit_store" where
  \<comment> \<open>\<open>key_of\<close> is \<open>_build_archive_key\<close>: the date of the cutoff and eight digits of a hash of it\<close>
  "archive_audit_to_minio key_of settings cutoff out s =
     (let rows = archive_pages (as_audit s) cutoff ARCHIVE_BATCH_SIZE None
      in if rows = [] then (Inr \<lparr>aa_archived_rows = 0, aa_archive_uri = []\<rparr>, s)
         else case settings of
                None \<Rightarrow> (Inl SettingsMissing, s)
              | Some m \<Rightarrow>
                  let (r, stored) = minio_put_object m out; s' = (if stored then store_object (key_of cutoff) rows s else s)
                  in case r of
                       Inl e \<Rightarrow> (Inl e, s')
                     | Inr _ \<Rightarrow> (Inr \<lparr>aa_archived_rows = length rows, aa_archive_uri = ''s3://'' @ AUDIT_ARCHIVE_BUCKET @ ''/'' @ key_of cutoff\<rparr>, s'))"

section \<open>The deletion\<close>

definition parse_delete_count :: "pystr \<Rightarrow> int" where
  "parse_delete_count status =
     (let parts = words_from [] (strip status)
      in if parts = [] then 0 else case int_of_str (last parts) of None \<Rightarrow> 0 | Some n \<Rightarrow> max n 0)"

definition delete_tag :: "nat \<Rightarrow> pystr" where
  \<comment> \<open>the command tag of a \<^verbatim>\<open>DELETE\<close>\<close>
  "delete_tag n = ''DELETE '' @ show_nat n"

definition delete_audit_older_than :: "int \<Rightarrow> bool \<Rightarrow> audit_store \<Rightarrow> (audit_failure + int) \<times> audit_store" where
  \<comment> \<open>both statements in a transaction that commits or fails as a whole\<close>
  "delete_audit_older_than cutoff commits s =
     (if \<not> commits then (Inl DatabaseFailure, s)
      else (Inr (parse_delete_count (delete_tag (length (filter (\<lambda>r. ar_created_at r < cutoff) (as_audit s))))),
            s\<lparr>as_audit := filter (\<lambda>r. \<not> ar_created_at r < cutoff) (as_audit s),
              as_cost := filter (\<lambda>r. \<not> cr_created_at r < cutoff) (as_cost s)\<rparr>))"

section \<open>The workflow\<close>

definition insert_audit :: "audit_row \<Rightarrow> audit_store \<Rightarrow> audit_store" where
  \<comment> \<open>an insert by another part of the platform; the primary key refuses a second row of an id\<close>
  "insert_audit r s = (if ar_id r \<in> ar_id ` set (as_audit s) then s else s\<lparr>as_audit := as_audit s @ [r]\<rparr>)"

record 'o attempt =
  at_arrivals :: "audit_row list" \<comment> \<open>rows written before the attempt\<close>
  at_outcome :: 'o
  at_lost :: bool \<comment> \<open>the answer of the worker is lost\<close>

definition MAX_ATTEMPTS :: nat where "MAX_ATTEMPTS = 3"

fun attempts :: "('o \<Rightarrow> audit_store \<Rightarrow> (audit_failure + 'a) \<times> audit_store) \<Rightarrow> 'o attempt list \<Rightarrow> audit_store \<Rightarrow> (audit_failure + 'a) \<times> audit_store" where
  "attempts act [] s = (Inl AttemptsExhausted, s)"
| "attempts act (a # as) s =
     (let (r, s') = act (at_outcome a) (fold insert_audit (at_arrivals a) s)
      in case r of
           Inl e \<Rightarrow> if as = [] then (Inl e, s') else attempts act as s'
         | Inr v \<Rightarrow> if at_lost a then attempts act as s' else (Inr v, s'))"

record prune_run =
  pr_now :: int
  pr_retention :: "audit_failure + int" \<comment> \<open>the answer of the look-up\<close>
  pr_archive :: "put_outcome attempt list"
  pr_delete :: "bool attempt list"

record AuditPruneReport =
  ap_archived_rows :: nat
  ap_deleted_rows :: int
  ap_cutoff :: int
  ap_retention_days :: int
  ap_archive_uri :: pystr

definition audit_prune ::
  "(int \<Rightarrow> pystr) \<Rightarrow> minio_settings option \<Rightarrow> prune_run \<Rightarrow> audit_store \<Rightarrow> (audit_failure + AuditPruneReport) \<times> audit_store \<times> audit_failure list" where
  \<comment> \<open>the result, the store and the alarms sent\<close>
  "audit_prune key_of settings env s =
     (case pr_retention env of
        Inl e \<Rightarrow> (Inl e, s, [])
      | Inr raw \<Rightarrow>
          let cutoff = cutoff_of (pr_now env) raw;
              (archived, s1) = attempts (archive_audit_to_minio key_of settings cutoff) (take MAX_ATTEMPTS (pr_archive env)) s
          in case archived of
               Inl e \<Rightarrow> (Inl e, s1, [e])
             | Inr a \<Rightarrow>
                 let (deleted, s2) = attempts (delete_audit_older_than cutoff) (take MAX_ATTEMPTS (pr_delete env)) s1
                 in case deleted of
                      Inl e \<Rightarrow> (Inl e, s2, [e])
                    | Inr n \<Rightarrow> (Inr \<lparr>ap_archived_rows = aa_archived_rows a, ap_deleted_rows = n, ap_cutoff = cutoff,
                                    ap_retention_days = retention_days raw, ap_archive_uri = aa_archive_uri a\<rparr>, s2, []))"

section \<open>Reading a table page by page\<close>

text \<open>
  What a loop over pages returns, for any table: \<open>behind s l\<close> are the rows of the table \<open>s\<close> behind a key, in the order of their
  keys, and \<open>pages s l\<close> is the loop that takes a batch of them and continues behind the last one.
\<close>

locale keyset_pagination =
  fixes key :: "'r \<Rightarrow> 'k :: linorder" and valid :: "'s \<Rightarrow> bool"
    and behind :: "'s \<Rightarrow> 'k option \<Rightarrow> 'r list" and pages :: "'s \<Rightarrow> 'k option \<Rightarrow> 'r list" and batch :: nat
  assumes positive: "0 < batch"
    and ordered: "valid s \<Longrightarrow> sorted_wrt (\<lambda>x y. key x < key y) (behind s l)"
    and behind_row: "x \<in> set (behind s l) \<Longrightarrow> behind s (Some (key x)) = filter (\<lambda>r. key x < key r) (behind s l)"
    and loop: "pages s l =
      (let page = take batch (behind s l)
       in if page = [] then []
          else page @ (if length page < batch then [] else pages s (Some (key (last page)))))"
begin

lemma filter_behind_last:
  assumes "sorted_wrt (\<lambda>x y. key x < key y) xs" "0 < n" "n \<le> length xs"
  shows "filter (\<lambda>r. key (last (take n xs)) < key r) xs = drop n xs"
proof -
  let ?p = "take n xs" and ?k = "key (last (take n xs))"
  have ne: "?p \<noteq> []" using assms(2,3) by auto
  have "sorted_wrt (\<lambda>x y. key x < key y) (?p @ drop n xs)" using assms(1) by simp
  then have cross: "\<forall>x\<in>set ?p. \<forall>y\<in>set (drop n xs). key x < key y" and p: "sorted_wrt (\<lambda>x y. key x < key y) ?p"
    by (auto simp only: sorted_wrt_append)
  have "\<not> ?k < key r" if "r \<in> set ?p" for r
  proof -
    have "sorted_wrt (\<lambda>x y. key x < key y) (butlast ?p @ [last ?p])" using p ne by simp
    then have "\<forall>x\<in>set (butlast ?p). key x < ?k" by (simp only: sorted_wrt_append) simp
    moreover have "r \<in> set (butlast ?p) \<or> r = last ?p"
      using that ne by (metis append_butlast_last_id in_set_conv_decomp set_ConsD rotate1.simps(2) set_rotate1)
    ultimately show ?thesis by auto
  qed
  then have "filter (\<lambda>r. ?k < key r) ?p = []" by (simp add: filter_empty_conv)
  moreover have "filter (\<lambda>r. ?k < key r) (drop n xs) = drop n xs"
    using cross ne by (simp add: filter_id_conv)
  ultimately show ?thesis
    by (metis append_take_drop_id filter_append self_append_conv2)
qed

lemma pages_are_all: "valid s \<Longrightarrow> pages s l = behind s l"
proof (induction "length (behind s l)" arbitrary: l rule: less_induct)
  case less
  let ?b = "behind s l"
  show ?case
  proof (cases "length ?b < batch")
    case True
    then show ?thesis by (subst loop) (simp add: Let_def)
  next
    case False
    let ?k = "Some (key (last (take batch ?b)))"
    have ne: "take batch ?b \<noteq> []" using False positive by auto
    then have "last (take batch ?b) \<in> set ?b" by (meson in_set_takeD last_in_set)
    then have rest: "behind s ?k = drop batch ?b"
      using filter_behind_last [OF ordered [OF less.prems], of batch l] False positive by (simp add: behind_row)
    have "pages s ?k = behind s ?k"
      by (rule less.hyps) (use rest False positive less.prems in auto)
    then show ?thesis
      using False ne by (subst loop) (simp add: Let_def rest)
  qed
qed

end

definition rows_behind :: "audit_row list \<times> int \<Rightarrow> (int \<times> int) option \<Rightarrow> audit_row list" where
  "rows_behind t l =
     sort_key row_key (filter (\<lambda>r. ar_created_at r < snd t \<and> (case l of None \<Rightarrow> True | Some k \<Rightarrow> k < row_key r)) (fst t))"

lemma distinct_row_keys: "distinct (map ar_id rows) \<Longrightarrow> distinct (map row_key rows)"
  by (auto simp: distinct_map row_key_def inj_on_def)

interpretation archive: keyset_pagination row_key "\<lambda>t. distinct (map ar_id (fst t))" rows_behind
  "\<lambda>t l. archive_pages (fst t) (snd t) ARCHIVE_BATCH_SIZE l" ARCHIVE_BATCH_SIZE
proof
  show "0 < ARCHIVE_BATCH_SIZE" by (simp add: ARCHIVE_BATCH_SIZE_def)
next
  fix t :: "audit_row list \<times> int" and l
  let ?P = "\<lambda>r. ar_created_at r < snd t \<and> (case l of None \<Rightarrow> True | Some k \<Rightarrow> k < row_key r)"
  assume "distinct (map ar_id (fst t))"
  then have "distinct (map row_key (filter ?P (fst t)))"
    by (intro distinct_map_filter distinct_row_keys)
  then have "distinct (map row_key (rows_behind t l))"
    by (simp add: rows_behind_def distinct_map)
  then have "sorted_wrt (<) (map row_key (rows_behind t l))"
    by (simp add: strict_sorted_iff rows_behind_def)
  then show "sorted_wrt (\<lambda>x y. row_key x < row_key y) (rows_behind t l)"
    by (simp add: sorted_wrt_map)
next
  fix x and t :: "audit_row list \<times> int" and l
  assume x: "x \<in> set (rows_behind t l)"
  then have "filter (\<lambda>r. ar_created_at r < snd t \<and> row_key x < row_key r) (fst t) =
      filter (\<lambda>r. row_key x < row_key r) (filter (\<lambda>r. ar_created_at r < snd t \<and> (case l of None \<Rightarrow> True | Some k \<Rightarrow> k < row_key r)) (fst t))"
    by (auto simp: rows_behind_def intro!: filter_cong split: option.splits)
  then show "rows_behind t (Some (row_key x)) = filter (\<lambda>r. row_key x < row_key r) (rows_behind t l)"
    by (simp add: rows_behind_def filter_sort)
next
  fix t :: "audit_row list \<times> int" and l
  show "archive_pages (fst t) (snd t) ARCHIVE_BATCH_SIZE l =
      (let page = take ARCHIVE_BATCH_SIZE (rows_behind t l)
       in if page = [] then []
          else page @ (if length page < ARCHIVE_BATCH_SIZE then [] else archive_pages (fst t) (snd t) ARCHIVE_BATCH_SIZE (Some (row_key (last page)))))"
    unfolding archive_pages.simps [of "fst t" "snd t" ARCHIVE_BATCH_SIZE l] by (simp add: fetch_page_def rows_behind_def)
qed

definition older :: "audit_store \<Rightarrow> int \<Rightarrow> audit_row list" where
  "older s cutoff = filter (\<lambda>r. ar_created_at r < cutoff) (as_audit s)"

abbreviation distinct_ids :: "audit_store \<Rightarrow> bool" where
  "distinct_ids s \<equiv> distinct (map ar_id (as_audit s))"

lemma archive_reads_older:
  "distinct_ids s \<Longrightarrow> archive_pages (as_audit s) cutoff ARCHIVE_BATCH_SIZE None = sort_key row_key (older s cutoff)"
  using archive.pages_are_all [of "(as_audit s, cutoff)" None] by (simp add: rows_behind_def older_def)

section \<open>The deletion counts\<close>

lemma digit_not_space: "is_digit c \<Longrightarrow> \<not> is_space c"
  by (auto simp: char_class_defs is_space_def)

lemma digit_part_digits: "list_all is_digit ds \<Longrightarrow> digit_part ds = (ds, [])"
  by (induction ds rule: digit_part.induct) (auto simp: char_class_defs)

lemma strip_digits:
  assumes "list_all is_digit ds"
  shows "strip ds = ds"
proof -
  have id: "lstrip es = es" if "list_all is_digit es" for es
    using that by (cases es) (auto simp: lstrip_def dest: digit_not_space)
  show ?thesis
    using assms id [of "rev ds"] id [of ds] by (simp add: strip_def list_all_iff)
qed

lemma words_from_digits: "list_all is_digit ds \<Longrightarrow> ds \<noteq> [] \<or> cur \<noteq> [] \<Longrightarrow> words_from cur ds = [rev cur @ ds]"
  by (induction ds arbitrary: cur) (auto dest: digit_not_space)

lemma int_of_show_nat: "int_of_str (show_nat n) = Some (int n)"
proof -
  have ds: "list_all is_digit (show_nat n)" by (rule show_nat_digits)
  then have "is_digit (hd (show_nat n))" by (cases "show_nat n") auto
  then have "take_sign (show_nat n) = (1, show_nat n)"
    by (auto simp: take_sign_def char_class_defs)
  then show ?thesis
    by (simp add: int_of_str_def strip_digits [OF ds] digit_part_digits [OF ds])
qed

lemma parse_delete_tag: "parse_delete_count (delete_tag n) = int n"
proof -
  have ds: "list_all is_digit (show_nat n)" by (rule show_nat_digits)
  then have "\<not> is_space (last (show_nat n))"
    by (intro digit_not_space) (simp add: list_all_iff)
  then have "lstrip (rev (delete_tag n)) = rev (delete_tag n)"
    by (cases "show_nat n" rule: rev_cases) (auto simp: delete_tag_def lstrip_def)
  moreover have "lstrip (delete_tag n) = delete_tag n"
    by (simp add: delete_tag_def lstrip_def is_space_def)
  ultimately have "strip (delete_tag n) = delete_tag n"
    by (simp add: strip_def)
  moreover have "words_from [] (delete_tag n) = [''DELETE'', show_nat n]"
    using words_from_digits [OF ds, of "[]"] by (simp add: delete_tag_def is_space_def)
  ultimately show ?thesis
    by (simp add: parse_delete_count_def int_of_show_nat)
qed

section \<open>What attempts keep\<close>

definition held :: "audit_store \<Rightarrow> audit_row \<Rightarrow> bool" where
  "held s r \<longleftrightarrow> r \<in> set (as_audit s) \<or> (\<exists>k rows. dict_get (as_objects s) k = Some rows \<and> r \<in> set rows)"

definition recent :: "int \<Rightarrow> 'o attempt \<Rightarrow> bool" where
  "recent now a \<longleftrightarrow> (\<forall>r\<in>set (at_arrivals a). now \<le> ar_created_at r)"

lemma attempts_invariant:
  assumes "attempts act as s = (r, s')" "I s"
    and "\<And>a st. a \<in> set as \<Longrightarrow> I st \<Longrightarrow> I (fold insert_audit (at_arrivals a) st)"
    and "\<And>out st. I st \<Longrightarrow> I (snd (act out st))"
    and "\<And>out st v st'. I st \<Longrightarrow> act out st = (Inr v, st') \<Longrightarrow> Q v st'"
  shows "I s' \<and> (\<forall>v. r = Inr v \<longrightarrow> Q v s')"
  using assms(1-3)
proof (induction as arbitrary: s)
  case (Cons a as)
  obtain x st where act: "act (at_outcome a) (fold insert_audit (at_arrivals a) s) = (x, st)"
    by (cases "act (at_outcome a) (fold insert_audit (at_arrivals a) s)")
  have before: "I (fold insert_audit (at_arrivals a) s)"
    using Cons.prems by simp
  then have st: "I st"
    using assms(4) [of "fold insert_audit (at_arrivals a) s" "at_outcome a"] act by simp
  have rest: "I s' \<and> (\<forall>v. r = Inr v \<longrightarrow> Q v s')" if "attempts act as st = (r, s')"
    by (rule Cons.IH [OF that st]) (use Cons.prems(3) in auto)
  show ?case
    using Cons.prems(1) st rest assms(5) [OF before] act
    by (auto simp: Let_def split: sum.splits if_splits)
qed auto

lemma insert_audit_simps [simp]:
  "as_objects (insert_audit r s) = as_objects s"
  "distinct_ids s \<Longrightarrow> distinct_ids (insert_audit r s)"
  "set (as_audit s) \<subseteq> set (as_audit (insert_audit r s))"
  "cutoff \<le> ar_created_at r \<Longrightarrow> older (insert_audit r s) cutoff = older s cutoff"
  by (auto simp: insert_audit_def older_def)

lemma arrivals_simps [simp]:
  "as_objects (fold insert_audit rs s) = as_objects s"
  "distinct_ids s \<Longrightarrow> distinct_ids (fold insert_audit rs s)"
  by (induction rs arbitrary: s) auto

lemma arrivals_keep: "set (as_audit s) \<subseteq> set (as_audit (fold insert_audit rs s))"
proof (induction rs arbitrary: s)
  case (Cons r rs)
  then show ?case using insert_audit_simps(3) [of s r] by fastforce
qed simp

lemma arrivals_older: "(\<And>r. r \<in> set rs \<Longrightarrow> cutoff \<le> ar_created_at r) \<Longrightarrow> older (fold insert_audit rs s) cutoff = older s cutoff"
  by (induction rs arbitrary: s) auto

lemma cutoff_past: "cutoff_of now raw < now"
  by (simp add: cutoff_of_def retention_days_def day_us_def DEFAULT_RETENTION_DAYS_def)

lemma recent_older: "recent now a \<Longrightarrow> cutoff \<le> now \<Longrightarrow> older (fold insert_audit (at_arrivals a) s) cutoff = older s cutoff"
  by (rule arrivals_older) (auto simp: recent_def)

section \<open>The archive holds what is deleted\<close>

definition archiving :: "pystr \<Rightarrow> int \<Rightarrow> audit_store \<Rightarrow> audit_store \<Rightarrow> bool" where
  \<comment> \<open>between the store before the archive and the one after some attempts\<close>
  "archiving k cutoff s st \<longleftrightarrow>
     distinct_ids st \<and> older st cutoff = older s cutoff \<and> set (as_audit s) \<subseteq> set (as_audit st)
     \<and> (\<forall>k'. dict_get (as_objects st) k' = dict_get (as_objects s) k' \<or> k' = k \<and> dict_get (as_objects st) k' = Some (sort_key row_key (older s cutoff)))"

definition archived :: "pystr \<Rightarrow> int \<Rightarrow> audit_store \<Rightarrow> AuditArchiveResult \<Rightarrow> audit_store \<Rightarrow> bool" where
  "archived k cutoff s a st \<longleftrightarrow>
     aa_archived_rows a = length (older s cutoff)
     \<and> (older s cutoff = [] \<or> dict_get (as_objects st) k = Some (sort_key row_key (older s cutoff)))"

lemma sort_key_Nil [simp]: "sort_key f xs = [] \<longleftrightarrow> xs = []"
  by (metis length_0_conv length_sort)

lemma archive_step:
  assumes "archiving (key_of cutoff) cutoff s st"
  shows "archiving (key_of cutoff) cutoff s (snd (archive_audit_to_minio key_of settings cutoff out st))"
    and "archive_audit_to_minio key_of settings cutoff out st = (Inr a, st') \<Longrightarrow> archived (key_of cutoff) cutoff s a st'"
proof -
  have rows: "archive_pages (as_audit st) cutoff ARCHIVE_BATCH_SIZE None = sort_key row_key (older s cutoff)"
    using assms by (simp add: archive_reads_older archiving_def)
  show "archiving (key_of cutoff) cutoff s (snd (archive_audit_to_minio key_of settings cutoff out st))"
    using assms unfolding archive_audit_to_minio_def rows
    by (auto simp: archiving_def store_object_def older_def Let_def split: option.splits prod.splits sum.splits)
  show "archived (key_of cutoff) cutoff s a st'" if "archive_audit_to_minio key_of settings cutoff out st = (Inr a, st')"
    using that unfolding archive_audit_to_minio_def rows
    by (auto simp: archived_def store_object_def minio_put_object_def Let_def split: option.splits prod.splits sum.splits if_splits put_outcome.splits)
qed

definition deleting :: "int \<Rightarrow> audit_store \<Rightarrow> audit_store \<Rightarrow> bool" where
  \<comment> \<open>between the store before the deletion and the one after some attempts\<close>
  "deleting cutoff s st \<longleftrightarrow>
     distinct_ids st \<and> as_objects st = as_objects s \<and> (\<forall>r\<in>set (as_audit s). r \<in> set (as_audit st) \<or> ar_created_at r < cutoff)
     \<and> (older st cutoff = older s cutoff \<or> older st cutoff = [])"

lemma delete_step:
  assumes "deleting cutoff s st"
  shows "deleting cutoff s (snd (delete_audit_older_than cutoff commits st))"
    and "delete_audit_older_than cutoff commits st = (Inr n, st') \<Longrightarrow> older st' cutoff = [] \<and> (n = length (older s cutoff) \<or> n = 0)"
  using assms by (auto simp: deleting_def delete_audit_older_than_def older_def [symmetric] parse_delete_tag distinct_map_filter split: if_splits)
     (auto simp: older_def)

lemma delete_attempts_count:
  assumes "attempts (delete_audit_older_than cutoff) as s = (Inr n, s')" "\<And>a. a \<in> set as \<Longrightarrow> recent now a \<and> \<not> at_lost a" "cutoff \<le> now"
  shows "n = length (older s cutoff)"
  using assms(1,2)
proof (induction as arbitrary: s)
  case (Cons a as)
  let ?st = "fold insert_audit (at_arrivals a) s"
  have same: "older ?st cutoff = older s cutoff" and kept: "\<not> at_lost a"
    using Cons.prems(2) assms(3) by (auto intro: recent_older)
  show ?case
  proof (cases "at_outcome a")
    case True
    then show ?thesis
      using Cons.prems(1) same kept by (simp add: delete_audit_older_than_def parse_delete_tag older_def)
  next
    case False
    then have "attempts (delete_audit_older_than cutoff) as ?st = (Inr n, s')"
      using Cons.prems(1) by (simp add: delete_audit_older_than_def [of cutoff False] split: if_splits)
    then show ?thesis
      using Cons.IH [of ?st] Cons.prems(2) same by simp
  qed
qed simp

definition undisturbed :: "prune_run \<Rightarrow> bool" where
  \<comment> \<open>rows written during the run carry its time or a later one\<close>
  "undisturbed env \<longleftrightarrow> list_all (recent (pr_now env)) (pr_archive env) \<and> list_all (recent (pr_now env)) (pr_delete env)"

lemma archive_attempts:
  assumes "attempts (archive_audit_to_minio key_of settings cutoff) as s = (r, s')" "distinct_ids s"
    and "\<And>a. a \<in> set as \<Longrightarrow> recent now a" "cutoff \<le> now"
  shows "archiving (key_of cutoff) cutoff s s' \<and> (\<forall>a. r = Inr a \<longrightarrow> archived (key_of cutoff) cutoff s a s')"
proof (rule attempts_invariant [OF assms(1)])
  show "archiving (key_of cutoff) cutoff s s" using assms(2) by (simp add: archiving_def)
next
  fix a st assume "a \<in> set as" "archiving (key_of cutoff) cutoff s st"
  then show "archiving (key_of cutoff) cutoff s (fold insert_audit (at_arrivals a) st)"
    using assms(3,4) arrivals_keep [of st "at_arrivals a"] recent_older [of now a cutoff st] unfolding archiving_def by auto
qed (auto dest: archive_step)

lemma delete_attempts:
  assumes "attempts (delete_audit_older_than cutoff) as s = (r, s')" "distinct_ids s"
    and "\<And>a. a \<in> set as \<Longrightarrow> recent now a" "cutoff \<le> now"
  shows "deleting cutoff s s' \<and> (\<forall>n. r = Inr n \<longrightarrow> older s' cutoff = [] \<and> (n = length (older s cutoff) \<or> n = 0))"
proof (rule attempts_invariant [OF assms(1)])
  show "deleting cutoff s s" using assms(2) by (simp add: deleting_def)
next
  fix a st assume "a \<in> set as" "deleting cutoff s st"
  then show "deleting cutoff s (fold insert_audit (at_arrivals a) st)"
    using assms(3,4) arrivals_keep [of st "at_arrivals a"] recent_older [of now a cutoff st] unfolding deleting_def by auto
qed (auto dest: delete_step)

lemma undisturbed_recent:
  assumes "undisturbed env"
  shows "a \<in> set (take n (pr_archive env)) \<Longrightarrow> recent (pr_now env) a" and "b \<in> set (take n (pr_delete env)) \<Longrightarrow> recent (pr_now env) b"
  using assms by (auto simp: undisturbed_def list_all_iff dest: in_set_takeD)

definition run_keys :: "(int \<Rightarrow> pystr) \<Rightarrow> prune_run \<Rightarrow> pystr list" where
  \<comment> \<open>the key a run may write\<close>
  "run_keys key_of env = (case pr_retention env of Inl _ \<Rightarrow> [] | Inr raw \<Rightarrow> [key_of (cutoff_of (pr_now env) raw)])"

lemma archived_is_held: "r \<in> set (older s cutoff) \<Longrightarrow> archived k cutoff s a st \<Longrightarrow> as_objects st' = as_objects st \<Longrightarrow> held st' r"
  unfolding archived_def held_def by (metis list.distinct(1) list.set_cases set_sort)

lemma audit_prune_keeps:
  assumes run: "audit_prune key_of settings env s = (res, s', alarms)" and s: "distinct_ids s" and env: "undisturbed env"
    and fresh: "\<And>k. k \<in> set (run_keys key_of env) \<Longrightarrow> dict_get (as_objects s) k = None"
  shows "distinct_ids s' \<and> (\<forall>r. held s r \<longrightarrow> held s' r)
    \<and> (\<forall>k. k \<notin> set (run_keys key_of env) \<longrightarrow> dict_get (as_objects s') k = dict_get (as_objects s) k)"
proof (cases "pr_retention env")
  case (Inl e)
  with run s show ?thesis by (simp add: audit_prune_def)
next
  case (Inr raw)
  let ?c = "cutoff_of (pr_now env) raw"
  let ?k = "key_of ?c"
  obtain x s1 where arch: "attempts (archive_audit_to_minio key_of settings ?c) (take MAX_ATTEMPTS (pr_archive env)) s = (x, s1)"
    by (cases "attempts (archive_audit_to_minio key_of settings ?c) (take MAX_ATTEMPTS (pr_archive env)) s")
  have now: "?c \<le> pr_now env" using cutoff_past [of "pr_now env" raw] by simp
  have s1: "archiving ?k ?c s s1" "\<And>a. x = Inr a \<Longrightarrow> archived ?k ?c s a s1"
    using archive_attempts [OF arch s undisturbed_recent(1) [OF env] now] by auto
  have none: "dict_get (as_objects s) ?k = None" and keys: "run_keys key_of env = [?k]"
    using fresh Inr by (auto simp: run_keys_def)
  have objects: "dict_get (as_objects s1) k = dict_get (as_objects s) k" if "k \<noteq> ?k" for k
    using s1(1) that by (auto simp: archiving_def)
  have kept1: "held s1 r" if "held s r" for r
    using that s1(1) objects none unfolding held_def archiving_def by (metis option.distinct(1) subsetD)
  show ?thesis
  proof (cases x)
    case (Inl e)
    with run arch Inr have "s' = s1" by (simp add: audit_prune_def)
    with s1(1) kept1 objects show ?thesis by (simp add: archiving_def keys)
  next
    case (Inr a)
    obtain y s2 where del: "attempts (delete_audit_older_than ?c) (take MAX_ATTEMPTS (pr_delete env)) s1 = (y, s2)"
      by (cases "attempts (delete_audit_older_than ?c) (take MAX_ATTEMPTS (pr_delete env)) s1")
    have s': "s' = s2"
      using run arch Inr \<open>pr_retention env = Inr raw\<close> del by (auto simp: audit_prune_def Let_def split: sum.splits)
    have d: "deleting ?c s1 s2"
      using delete_attempts [OF del _ undisturbed_recent(2) [OF env] now] s1(1) by (auto simp: archiving_def)
    have "held s2 r" if "held s r" for r
    proof (cases "r \<in> set (older s ?c)")
      case True
      then show ?thesis using archived_is_held s1(2) [OF Inr] d by (auto simp: deleting_def)
    next
      case False
      have "r \<notin> set (older s1 ?c)" using False s1(1) by (simp add: archiving_def)
      with kept1 [OF that] d show ?thesis by (auto simp: held_def deleting_def older_def)
    qed
    then show ?thesis using d objects by (simp add: s' keys deleting_def)
  qed
qed

fun prune_days :: "(int \<Rightarrow> pystr) \<Rightarrow> minio_settings option \<Rightarrow> (audit_row list \<times> prune_run) list \<Rightarrow> audit_store \<Rightarrow> audit_store" where
  \<comment> \<open>rows arrive, then the cron runs, and so on\<close>
  "prune_days key_of settings [] s = s"
| "prune_days key_of settings ((rows, env) # ticks) s =
     prune_days key_of settings ticks (fst (snd (audit_prune key_of settings env (fold insert_audit rows s))))"

definition day_keys :: "(int \<Rightarrow> pystr) \<Rightarrow> (audit_row list \<times> prune_run) list \<Rightarrow> pystr list" where
  "day_keys key_of ticks = concat (map (\<lambda>d. run_keys key_of (snd d)) ticks)"

text \<open>
  C8. No audit row is lost. Over any sequence of runs of the retention, with any failures, retries, lost answers and uploads that break
  after the object was stored, a row that was in the table or in an object of the archive is in one of them at the end, provided that the rows
  written during a run carry its time or a later one, ids are unique and no two runs use the same archive key.
\<close>

theorem no_audit_row_is_lost:
  assumes "distinct_ids s" "\<And>d. d \<in> set ticks \<Longrightarrow> undisturbed (snd d)"
    and "distinct (day_keys key_of ticks)" "\<And>k. k \<in> set (day_keys key_of ticks) \<Longrightarrow> dict_get (as_objects s) k = None"
    and "held s r"
  shows "held (prune_days key_of settings ticks s) r"
  using assms
proof (induction ticks arbitrary: s)
  case (Cons d ticks)
  obtain rows env where d: "d = (rows, env)" by (cases d)
  let ?s = "fold insert_audit rows s"
  obtain res s' alarms where run: "audit_prune key_of settings env ?s = (res, s', alarms)"
    by (cases "audit_prune key_of settings env ?s")
  have step: "distinct_ids s'" "\<And>r. held ?s r \<Longrightarrow> held s' r"
      "\<And>k. k \<notin> set (run_keys key_of env) \<Longrightarrow> dict_get (as_objects s') k = dict_get (as_objects s) k"
    using audit_prune_keeps [OF run] Cons.prems(1,4) Cons.prems(2) [of d] by (simp_all add: d day_keys_def)
  have "held ?s r" using Cons.prems(5) arrivals_keep [of s rows] by (auto simp: held_def)
  moreover have keys: "day_keys key_of (d # ticks) = run_keys key_of env @ day_keys key_of ticks"
    by (simp add: d day_keys_def)
  have "dict_get (as_objects s') k = None" if "k \<in> set (day_keys key_of ticks)" for k
    using that Cons.prems(3,4) step(3) [of k] unfolding keys by auto
  moreover have "distinct (day_keys key_of ticks)" "\<And>d. d \<in> set ticks \<Longrightarrow> undisturbed (snd d)"
    using Cons.prems(2,3) unfolding keys by auto
  ultimately have "held (prune_days key_of settings ticks s') r"
    using step(1,2) by (intro Cons.IH) auto
  then show ?case by (simp add: d run)
qed simp

text \<open>
  C28. A run that returns has archived and deleted exactly the rows older than its cutoff, which lies at least a day in
  the past: of the rows the table held, those from the cutoff on are still there and the older ones are gone, no older
  row is left at all, the object of the run holds the older ones in the order of time and id, none twice, the report
  counts them as archived, and no alarm is sent. The number reported as deleted is the same, or it is zero when the
  answer of a deletion was lost and the deletion repeated. (The ids of the table are distinct, and rows written during
  the run carry its time or a later one.)
\<close>

theorem audit_prune_report:
  assumes run: "audit_prune key_of settings env s = (Inr rep, s', alarms)" and s: "distinct_ids s" and env: "undisturbed env"
  shows "alarms = [] \<and> ap_cutoff rep + day_us \<le> pr_now env \<and> older s' (ap_cutoff rep) = []
    \<and> (\<forall>r\<in>set (as_audit s). r \<in> set (as_audit s') \<longleftrightarrow> ap_cutoff rep \<le> ar_created_at r)
    \<and> ap_archived_rows rep = length (older s (ap_cutoff rep))
    \<and> (older s (ap_cutoff rep) = []
       \<or> dict_get (as_objects s') (key_of (ap_cutoff rep)) = Some (sort_key row_key (older s (ap_cutoff rep))))
    \<and> (ap_deleted_rows rep = length (older s (ap_cutoff rep)) \<or> ap_deleted_rows rep = 0 \<and> (\<exists>a\<in>set (pr_delete env). at_lost a))"
proof -
  obtain raw where raw: "pr_retention env = Inr raw"
    using run by (auto simp: audit_prune_def split: sum.splits)
  let ?c = "cutoff_of (pr_now env) raw"
  obtain x s1 where arch: "attempts (archive_audit_to_minio key_of settings ?c) (take MAX_ATTEMPTS (pr_archive env)) s = (x, s1)"
    by (cases "attempts (archive_audit_to_minio key_of settings ?c) (take MAX_ATTEMPTS (pr_archive env)) s")
  obtain y s2 where del: "attempts (delete_audit_older_than ?c) (take MAX_ATTEMPTS (pr_delete env)) s1 = (y, s2)"
    by (cases "attempts (delete_audit_older_than ?c) (take MAX_ATTEMPTS (pr_delete env)) s1")
  from run raw arch del obtain a n where res: "x = Inr a" "y = Inr n" "s' = s2" "alarms = []"
      "ap_archived_rows rep = aa_archived_rows a" "ap_deleted_rows rep = n" "ap_cutoff rep = ?c"
    by (auto simp: audit_prune_def Let_def split: sum.splits)
  have now: "?c \<le> pr_now env" using cutoff_past [of "pr_now env" raw] by simp
  have s1: "archiving (key_of ?c) ?c s s1" "archived (key_of ?c) ?c s a s1"
    using archive_attempts [OF arch s undisturbed_recent(1) [OF env] now] res(1) by auto
  then have same: "older s1 ?c = older s ?c" "distinct_ids s1" by (simp_all add: archiving_def)
  have d: "deleting ?c s1 s2" "older s2 ?c = []" "n = length (older s ?c) \<or> n = 0"
    using delete_attempts [OF del same(2) undisturbed_recent(2) [OF env] now] res(2) same(1) by auto
  have "n = length (older s ?c)" if "\<not> (\<exists>a\<in>set (pr_delete env). at_lost a)"
    using delete_attempts_count [OF del [unfolded res(2)], of "pr_now env"] that undisturbed_recent(2) [OF env] now same(1)
    by (auto dest: in_set_takeD)
  moreover have "r \<in> set (as_audit s') \<longleftrightarrow> ?c \<le> ar_created_at r" if "r \<in> set (as_audit s)" for r
    using that s1(1) d(1,2) res(3) by (auto simp: archiving_def deleting_def older_def filter_empty_conv not_less)
  moreover have "?c + day_us \<le> pr_now env"
    by (simp add: cutoff_of_def retention_days_def day_us_def DEFAULT_RETENTION_DAYS_def)
  ultimately show ?thesis
    using s1(2) d(1-3) res by (auto simp: archived_def deleting_def)
qed

definition sample_row :: "int \<Rightarrow> int \<Rightarrow> audit_row" where
  "sample_row i day = \<lparr>ar_id = i, ar_created_at = day * day_us, ar_body = ''approve''\<rparr>"

definition sample_store :: audit_store where
  "sample_store = \<lparr>as_audit = [sample_row 1 5, sample_row 2 99], as_cost = [], as_objects = []\<rparr>"

definition sample_run :: "int \<Rightarrow> prune_run" where
  \<comment> \<open>the first upload breaks, and so does the first deletion\<close>
  "sample_run day =
     \<lparr>pr_now = day * day_us, pr_retention = Inr 90,
      pr_archive = [\<lparr>at_arrivals = [], at_outcome = PutBroken ''reset'' True, at_lost = False\<rparr>,
                    \<lparr>at_arrivals = [sample_row 3 day], at_outcome = PutAnswered 200, at_lost = False\<rparr>],
      pr_delete = [\<lparr>at_arrivals = [], at_outcome = False, at_lost = False\<rparr>, \<lparr>at_arrivals = [], at_outcome = True, at_lost = False\<rparr>]\<rparr>"

definition sample_settings :: minio_settings where
  "sample_settings = \<lparr>ms_endpoint = ''minio:9000'', ms_access_key = ''a'', ms_secret_key = ''s''\<rparr>"

lemma sample_facts:
  "distinct_ids sample_store" "undisturbed (sample_run day)" "held sample_store (sample_row 1 5)"
  by (simp_all add: sample_store_def sample_row_def undisturbed_def sample_run_def recent_def held_def)

lemma sample_keys: "day_keys show_int [([], sample_run 100), ([], sample_run 101)] = [show_int (10 * day_us), show_int (11 * day_us)]"
  by (simp add: day_keys_def run_keys_def sample_run_def cutoff_of_def retention_days_def)

theorem no_audit_row_is_lost_witness:
  "held (prune_days show_int (Some sample_settings) [([], sample_run 100), ([], sample_run 101)] sample_store) (sample_row 1 5)"
proof (rule no_audit_row_is_lost)
  have "show_int (10 * day_us) \<noteq> show_int (11 * day_us)"
    by (auto simp: show_int_def day_us_def dest: show_nat_inj)
  then show "distinct (day_keys show_int [([], sample_run 100), ([], sample_run 101)])"
    unfolding sample_keys by simp
  show "dict_get (as_objects sample_store) k = None" for k
    by (simp add: sample_store_def dict_get_def)
qed (use sample_facts in auto)

lemma sample_returns: "\<exists>rep s' alarms. audit_prune show_int (Some sample_settings) (sample_run 100) sample_store = (Inr rep, s', alarms)
    \<and> older sample_store (ap_cutoff rep) = [sample_row 1 5]"
proof -
  have "archive_pages (as_audit st) cutoff ARCHIVE_BATCH_SIZE None = sort_key row_key (older st cutoff)" if "distinct_ids st" for st cutoff
    using that by (rule archive_reads_older)
  then show ?thesis
    by (simp add: audit_prune_def sample_run_def sample_store_def sample_row_def sample_settings_def cutoff_of_def retention_days_def day_us_def
        MAX_ATTEMPTS_def numeral_3_eq_3 archive_audit_to_minio_def minio_put_object_def older_def store_object_def insert_audit_def
        delete_audit_older_than_def Let_def)
qed

theorem audit_prune_report_witness:
  "\<exists>rep s' alarms. audit_prune show_int (Some sample_settings) (sample_run 100) sample_store = (Inr rep, s', alarms)
     \<and> alarms = [] \<and> ap_archived_rows rep = 1 \<and> dict_get (as_objects s') (show_int (ap_cutoff rep)) = Some [sample_row 1 5]
     \<and> sample_row 1 5 \<notin> set (as_audit s') \<and> sample_row 2 99 \<in> set (as_audit s')"
proof -
  obtain rep s' alarms where run: "audit_prune show_int (Some sample_settings) (sample_run 100) sample_store = (Inr rep, s', alarms)"
      and old: "older sample_store (ap_cutoff rep) = [sample_row 1 5]"
    using sample_returns by blast
  have "ap_cutoff rep \<le> ar_created_at (sample_row 2 99)" "\<not> ap_cutoff rep \<le> ar_created_at (sample_row 1 5)"
    "sample_row 2 99 \<in> set (as_audit sample_store)" "sample_row 1 5 \<in> set (as_audit sample_store)"
    using old by (auto simp: older_def sample_store_def sample_row_def split: if_splits)
  then show ?thesis
    using audit_prune_report [OF run sample_facts(1,2)] run old by auto
qed

end
