(* ===== verification/Repo_Resolver.thy ===== *)
theory Repo_Resolver
  imports Description_Parser
begin

text \<open>
  The repository of a task: the activity that resolves it from the structured field, the labels, the description, the department's
  mappings or a parser (\<^verbatim>\<open>workers/automation-worker/src/automation_worker/activities/repo_resolver.py\<close>), and the parser the worker
  installs (\<open>SimpleRepoParser\<close> of \<^verbatim>\<open>activities/platform_io.py\<close>). The theorems show that whatever is resolved is a repository of the
  department, and that every other outcome asks the user exactly once.
\<close>

section \<open>Mappings\<close>

datatype repo_entry = NoRepo | NullRepo | Repo pystr
  \<comment> \<open>the entry \<^verbatim>\<open>bitbucket_repo\<close> of a mapping: missing, \<open>None\<close> or a string\<close>

fun entry_repo :: "repo_entry \<Rightarrow> pystr" where
  \<comment> \<open>the entry as a truth value: empty for the entries that count as false\<close>
  "entry_repo (Repo r) = r"
| "entry_repo _ = []"

fun extract_from :: "pystr list \<Rightarrow> repo_entry list \<Rightarrow> pystr list" where
  "extract_from seen [] = []"
| "extract_from seen (m # ms) =
     (if entry_repo m \<noteq> [] \<and> entry_repo m \<notin> set seen then entry_repo m # extract_from (entry_repo m # seen) ms
      else extract_from seen ms)"

definition extract_allowed_repos :: "repo_entry list \<Rightarrow> pystr list" where
  "extract_allowed_repos = extract_from []"

definition same_repo :: "pystr \<Rightarrow> pystr \<Rightarrow> bool" where
  "same_repo a b \<longleftrightarrow> lower (strip a) = lower (strip b)"

fun is_repo_in_allowed_list :: "pystr \<Rightarrow> repo_entry list \<Rightarrow> pystr + bool" where
  \<comment> \<open>an entry that is \<open>None\<close> has no \<open>strip\<close>\<close>
  "is_repo_in_allowed_list r [] = Inr False"
| "is_repo_in_allowed_list r (NullRepo # ms) = Inl ''AttributeError''"
| "is_repo_in_allowed_list r (m # ms) = (if same_repo (entry_repo m) r then Inr True else is_repo_in_allowed_list r ms)"

section \<open>Labels and descriptions\<close>

definition REPO_WORDS :: "pystr list" where
  "REPO_WORDS = [''repo'', ''repository'', ''bitbucket_repo'', ''target_repo'']"

fun repo_from_labels :: "pystr list \<Rightarrow> pystr option" where
  "repo_from_labels [] = None"
| "repo_from_labels (l # ls) =
     (let name = takeWhile (\<lambda>c. c \<noteq> CHR '':'') l; value = strip (drop (Suc (length name)) l)
      in if CHR '':'' \<in> set l \<and> lower (strip name) \<in> set REPO_WORDS \<and> value \<noteq> [] then Some value else repo_from_labels ls)"

definition after_word :: "pystr \<Rightarrow> pystr \<Rightarrow> pystr option" where
  \<comment> \<open>behind a keyword in any case and a colon\<close>
  "after_word s w =
     (if lower (take (length w) s) = w
      then (case lstrip (drop (length w) s) of c # rest \<Rightarrow> if c = CHR '':'' then Some (lstrip rest) else None | [] \<Rightarrow> None)
      else None)"

definition ends_line :: "pystr \<Rightarrow> bool" where
  \<comment> \<open>\<^verbatim>\<open>\s*$\<close>\<close>
  "ends_line s \<longleftrightarrow> newline \<in> set (takeWhile is_space s) \<or> list_all is_space s"

definition repo_line :: "bool \<Rightarrow> pystr \<Rightarrow> pystr option" where
  \<comment> \<open>the pattern at the start of a line; \<open>whole\<close> if nothing may follow on the line of the name\<close>
  "repo_line whole s =
     (case first_some (map (after_word (lstrip s)) REPO_WORDS) of
        None \<Rightarrow> None
      | Some rest \<Rightarrow>
          let r = takeWhile (\<lambda>c. \<not> is_space c) rest
          in if r \<noteq> [] \<and> (whole \<longrightarrow> ends_line (drop (length r) rest)) then Some r else None)"

fun repo_search :: "bool \<Rightarrow> bool \<Rightarrow> pystr \<Rightarrow> pystr option" where
  \<comment> \<open>\<open>search\<close> from a position, with whether a line starts there\<close>
  "repo_search whole start s =
     (case (if start then repo_line whole s else None) of
        Some r \<Rightarrow> Some r
      | None \<Rightarrow> (case s of [] \<Rightarrow> None | c # cs \<Rightarrow> repo_search whole (c = newline) cs))"

definition repo_from_description :: "(pystr \<Rightarrow> pyval option) option \<Rightarrow> pystr \<Rightarrow> pystr option" where
  "repo_from_description yaml description =
     (case parse_description_frontmatter yaml (Some description) of
        Some fm \<Rightarrow>
          (case fm_repo fm of
             Some r \<Rightarrow> if strip r \<noteq> [] then Some (strip r) else repo_search True True description
           | None \<Rightarrow> repo_search True True description)
      | None \<Rightarrow> repo_search True True description)"

section \<open>The parser of the worker\<close>

definition parse_repo_from_description :: "pystr \<Rightarrow> repo_entry list \<Rightarrow> pystr option \<times> rat" where
  \<comment> \<open>\<open>SimpleRepoParser\<close>\<close>
  "parse_repo_from_description description mappings =
     (case repo_search False True description of
        Some r \<Rightarrow> (Some (strip r), 95 / 100)
      | None \<Rightarrow>
          let repos = map strip (filter (\<lambda>r. r \<noteq> []) (map entry_repo mappings))
          in if length repos = 1 then (Some (hd repos), 9 / 10) else (None, 0))"

section \<open>The activity\<close>

record RepoResolveInput =
  ri_structured_field_value :: "pystr option"
  ri_description :: pystr
  ri_repo_mappings :: "repo_entry list"
  ri_labels :: "pystr list"

datatype repo_error = NotAllowed pystr | ParseFailed pystr

record RepoResolveResult =
  ro_resolved :: bool
  ro_repo_url :: "pystr option"
  ro_confidence :: rat
  ro_needs_user_input :: bool
  ro_error :: "repo_error option"

datatype repo_effect = AskComment | RejectedComment pystr "pystr list" | NeedsInfo
  \<comment> \<open>comments and the transition, whose failures are swallowed\<close>

definition CONFIDENCE_THRESHOLD :: rat where "CONFIDENCE_THRESHOLD = 8 / 10"

type_synonym repo_parser = "pystr \<Rightarrow> repo_entry list \<Rightarrow> pystr + pystr option \<times> rat"

definition resolved_with :: "pystr \<Rightarrow> rat \<Rightarrow> RepoResolveResult \<times> repo_effect list" where
  "resolved_with r c =
     (\<lparr>ro_resolved = True, ro_repo_url = Some r, ro_confidence = c, ro_needs_user_input = False, ro_error = None\<rparr>, [])"

definition rejected :: "RepoResolveInput \<Rightarrow> pystr \<Rightarrow> rat \<Rightarrow> RepoResolveResult \<times> repo_effect list" where
  "rejected inp r c =
     (\<lparr>ro_resolved = False, ro_repo_url = None, ro_confidence = c, ro_needs_user_input = True, ro_error = Some (NotAllowed r)\<rparr>,
      [RejectedComment r (extract_allowed_repos (ri_repo_mappings inp))])"

definition checked :: "RepoResolveInput \<Rightarrow> pystr \<Rightarrow> rat \<Rightarrow> pystr + RepoResolveResult \<times> repo_effect list" where
  \<comment> \<open>the check against the mappings, the same in each phase\<close>
  "checked inp r c =
     rbind (is_repo_in_allowed_list r (ri_repo_mappings inp)) (\<lambda>ok. Inr (if ok then resolved_with r c else rejected inp r c))"

definition resolve_by_parser :: "repo_parser \<Rightarrow> RepoResolveInput \<Rightarrow> pystr + RepoResolveResult \<times> repo_effect list" where
  "resolve_by_parser parser inp =
     (case parser (ri_description inp) (ri_repo_mappings inp) of
        Inl e \<Rightarrow>
          Inr (\<lparr>ro_resolved = False, ro_repo_url = None, ro_confidence = 0, ro_needs_user_input = True, ro_error = Some (ParseFailed e)\<rparr>,
               [AskComment])
      | Inr (r, c) \<Rightarrow>
          if r = None \<or> r = Some [] \<or> c < CONFIDENCE_THRESHOLD
          then Inr (\<lparr>ro_resolved = False, ro_repo_url = r, ro_confidence = c, ro_needs_user_input = True, ro_error = None\<rparr>,
                    [AskComment, NeedsInfo])
          else checked inp (the r) c)"

definition described_repo :: "(pystr \<Rightarrow> pyval option) option \<Rightarrow> RepoResolveInput \<Rightarrow> pystr option" where
  "described_repo yaml inp =
     (case repo_from_labels (ri_labels inp) of Some r \<Rightarrow> Some r | None \<Rightarrow> repo_from_description yaml (ri_description inp))"

definition resolve_repo_field ::
  "(pystr \<Rightarrow> pyval option) option \<Rightarrow> repo_parser \<Rightarrow> RepoResolveInput \<Rightarrow> pystr + RepoResolveResult \<times> repo_effect list" where
  "resolve_repo_field yaml parser inp =
     (let field = (case ri_structured_field_value inp of None \<Rightarrow> [] | Some v \<Rightarrow> strip v);
          allowed = extract_allowed_repos (ri_repo_mappings inp)
      in if field \<noteq> [] then checked inp field 1
         else case described_repo yaml inp of
                Some r \<Rightarrow> checked inp r 1
              | None \<Rightarrow> if length allowed = 1 then Inr (resolved_with (hd allowed) (9 / 10)) else resolve_by_parser parser inp)"

section \<open>Only repositories of the department\<close>

lemma is_repo_in_allowed_list_True:
  "is_repo_in_allowed_list r ms = Inr True \<Longrightarrow> \<exists>m\<in>set ms. same_repo (entry_repo m) r"
  by (induction r ms rule: is_repo_in_allowed_list.induct) (auto split: if_splits)

lemma extract_from_sound: "r \<in> set (extract_from seen ms) \<Longrightarrow> r \<noteq> [] \<and> Repo r \<in> set ms"
proof (induction ms arbitrary: seen)
  case (Cons m ms)
  then show ?case by (cases m) (auto split: if_splits)
qed simp

definition in_mappings :: "RepoResolveInput \<Rightarrow> pystr \<Rightarrow> bool" where
  "in_mappings inp r \<longleftrightarrow> (\<exists>m\<in>set (ri_repo_mappings inp). same_repo (entry_repo m) r)"

definition settled :: "RepoResolveInput \<Rightarrow> RepoResolveResult \<times> repo_effect list \<Rightarrow> bool" where
  \<comment> \<open>resolved to a repository of the mappings, or one question to the user\<close>
  "settled inp out \<longleftrightarrow>
     (if ro_resolved (fst out)
      then \<not> ro_needs_user_input (fst out) \<and> ro_confidence (fst out) \<ge> CONFIDENCE_THRESHOLD \<and> snd out = []
           \<and> (\<exists>r. ro_repo_url (fst out) = Some r \<and> in_mappings inp r)
      else ro_needs_user_input (fst out) \<and> length (filter (\<lambda>e. e \<noteq> NeedsInfo) (snd out)) = 1)"

lemma settled_resolved: "in_mappings inp r \<Longrightarrow> c \<ge> CONFIDENCE_THRESHOLD \<Longrightarrow> settled inp (resolved_with r c)"
  by (simp add: settled_def resolved_with_def)

lemma settled_rejected: "settled inp (rejected inp r c)"
  by (simp add: settled_def rejected_def)

lemma settled_checked: "checked inp r c = Inr out \<Longrightarrow> c \<ge> CONFIDENCE_THRESHOLD \<Longrightarrow> settled inp out"
  using is_repo_in_allowed_list_True [of r "ri_repo_mappings inp"]
  by (auto simp: checked_def rbind_eq_Inr in_mappings_def intro: settled_resolved settled_rejected split: if_splits)

lemma settled_parser: "resolve_by_parser parser inp = Inr out \<Longrightarrow> settled inp out"
  by (auto simp: resolve_by_parser_def settled_def [of inp "(_, _)"] intro: settled_checked split: sum.splits prod.splits if_splits)

lemma single_in_mappings:
  assumes "length (extract_allowed_repos (ri_repo_mappings inp)) = 1"
  shows "in_mappings inp (hd (extract_allowed_repos (ri_repo_mappings inp)))"
proof -
  have "hd (extract_allowed_repos (ri_repo_mappings inp)) \<in> set (extract_allowed_repos (ri_repo_mappings inp))"
    using assms by (intro hd_in_set) auto
  then have "Repo (hd (extract_allowed_repos (ri_repo_mappings inp))) \<in> set (ri_repo_mappings inp)"
    unfolding extract_allowed_repos_def by (blast dest: extract_from_sound)
  then show ?thesis by (force simp: same_repo_def in_mappings_def)
qed

text \<open>
  C21. Whatever the fields, the labels, the description and the parser say, a repository is resolved only if an entry of the
  department's mappings names it, up to case and surrounding blanks, with a confidence of at least 0.8 and without a message; every other
  outcome needs the user's input and posts exactly one comment.
\<close>

theorem resolved_repo_is_allowed:
  assumes "resolve_repo_field yaml parser inp = Inr out"
  shows "settled inp out"
proof -
  let ?field = "case ri_structured_field_value inp of None \<Rightarrow> [] | Some v \<Rightarrow> strip v"
  have high: "(1 :: rat) \<ge> CONFIDENCE_THRESHOLD" "(9 / 10 :: rat) \<ge> CONFIDENCE_THRESHOLD"
    by (simp_all add: CONFIDENCE_THRESHOLD_def)
  show ?thesis
  proof (cases "?field = []")
    case False
    then show ?thesis
      using assms high(1) by (auto simp: resolve_repo_field_def Let_def intro: settled_checked)
  next
    case True
    show ?thesis
    proof (cases "described_repo yaml inp")
      case (Some r)
      then show ?thesis
        using assms True high(1) by (auto simp: resolve_repo_field_def Let_def intro: settled_checked)
    next
      case None
      then show ?thesis
        using assms True high(2) settled_resolved [OF single_in_mappings]
        by (auto simp: resolve_repo_field_def Let_def intro: settled_parser split: if_splits)
    qed
  qed
qed

definition sample_input :: RepoResolveInput where
  "sample_input =
     \<lparr>ri_structured_field_value = None, ri_description = ''Fix it'' @ [newline] @ '' Repo: pay/api'' @ [newline] @ ''soon'',
      ri_repo_mappings = [Repo ''web'', Repo ''PAY/api ''], ri_labels = [''urgent'', ''repo:'']\<rparr>"

lemma sample_resolves: "resolve_repo_field None (\<lambda>d ms. Inr (parse_repo_from_description d ms)) sample_input = Inr (resolved_with ''pay/api'' 1)"
  by code_simp

theorem resolved_repo_is_allowed_witness: "in_mappings sample_input ''pay/api''"
  using resolved_repo_is_allowed [OF sample_resolves] by (simp add: settled_def resolved_with_def)

text \<open>
  The search for a line with a repository, against inputs that are not whole lines: the activity's own pattern takes a name only if it ends
  its line, the parser's takes the first word, and a name on the next line is found by both.
\<close>

lemma repo_search_examples:
  "repo_search True True (''Repository : a b'') = None" "repo_search False True (''Repository : a b'') = Some ''a''"
  "repo_search True True (''REPO:'' @ [newline] @ ''x'' @ [newline]) = Some ''x''" "repo_search True True ''my repo: x'' = None"
  by code_simp+

end
