(* ===== verification/Credential_Resolver.thy ===== *)
theory Credential_Resolver
  imports Platform_Prelude
begin

text \<open>
  Credentials of departments and of users: the resolver with its cache
  (\<^verbatim>\<open>services/automation-service/src/decision/credential_resolver.py\<close>). The database, the vault and the clock are part of each
  call, so that they may change between calls; times are integers in microseconds. The theorems show that the scopes are kept apart and
  that a credential is never served later than five minutes after it was read.
\<close>

section \<open>Data\<close>

record AtlassianCredential =
  ac_url :: pystr
  ac_username :: pystr
  ac_personal_token :: pystr

record CachedEntry =
  ce_credential :: AtlassianCredential
  ce_cached_at :: int
  ce_vault_created_time :: "pystr option"

datatype scope = Org | User

type_synonym cache_key = "scope \<times> pystr \<times> pystr" \<comment> \<open>scope, department or session, service\<close>
type_synonym cred_cache = "cache_key \<rightharpoonup> CachedEntry"

definition CACHE_TTL :: int where "CACHE_TTL = 300 * 1000000"

definition USER_PATH_INFIX :: pystr where "USER_PATH_INFIX = ''atlassian/_user''"

datatype cred_error =
    BadScope pystr
  | MissingSession
  | NoBotRegistration
  | ScopeViolation scope pystr
  | VaultPathNotFound pystr
  | IncompleteSecret pystr "pystr list"
  | VaultRaised pystr

datatype meta_answer = MetaUnsupported | MetaMissing | MetaFound "pystr pydict" "pystr option"
  \<comment> \<open>a client without metadata, no secret, or a secret with its creation time\<close>

record resolver_call =
  rc_dept :: pystr
  rc_service :: pystr
  rc_scope :: pystr
  rc_session :: "pystr option"
  rc_now :: int
  rc_bots :: "pystr \<Rightarrow> pystr \<Rightarrow> pystr option" \<comment> \<open>the reference of a department's bot\<close>
  rc_meta :: "pystr \<Rightarrow> pystr + meta_answer"
  rc_read :: "pystr \<Rightarrow> pystr + pystr pydict option"

datatype cred_effect = ReadVault pystr | AuditViolation scope pystr | AuditRefreshed scope pystr pystr

section \<open>Paths\<close>

definition build_user_session_path :: "pystr \<Rightarrow> pystr \<Rightarrow> pystr" where
  "build_user_session_path session service = ''secret/atlassian/_user_session/'' @ session @ ''/'' @ service"

definition scope_of :: "pystr \<Rightarrow> cred_error + scope" where
  "scope_of s =
     (if s = ''bot'' \<or> s = ''org'' then Inr Org else if s = ''user'' then Inr User else Inl (BadScope s))"

definition guard_path :: "scope \<Rightarrow> pystr \<Rightarrow> cred_error + pystr" where
  "guard_path sc path =
     (if contains_sub USER_PATH_INFIX path = (sc = User) then Inr path else Inl (ScopeViolation sc path))"

definition target :: "resolver_call \<Rightarrow> cred_error + cache_key \<times> pystr" where
  \<comment> \<open>the key of the cache and the path of the secret, after the checks of the scope\<close>
  "target c =
     rbind (scope_of (rc_scope c)) (\<lambda>sc.
       case sc of
         User \<Rightarrow>
           (case rc_session c of
              None \<Rightarrow> Inl MissingSession
            | Some session \<Rightarrow>
                if session = [] then Inl MissingSession
                else rbind (guard_path User (build_user_session_path session (rc_service c))) (\<lambda>p. Inr ((User, session, rc_service c), p)))
       | Org \<Rightarrow>
           (case rc_bots c (rc_dept c) (rc_service c) of
              None \<Rightarrow> Inl NoBotRegistration
            | Some ref \<Rightarrow> rbind (guard_path Org ref) (\<lambda>p. Inr ((Org, rc_dept c, rc_service c), p))))"

section \<open>Secrets\<close>

definition read_secret_with_metadata :: "resolver_call \<Rightarrow> pystr \<Rightarrow> pystr + (pystr pydict \<times> pystr option) option" where
  "read_secret_with_metadata c path =
     rbind (rc_meta c path) (\<lambda>m.
       case m of
         MetaMissing \<Rightarrow> Inr None
       | MetaFound d t \<Rightarrow> Inr (Some (d, if t = Some [] then None else t))
       | MetaUnsupported \<Rightarrow> rbind (rc_read c path) (\<lambda>d. Inr (map_option (\<lambda>s. (s, None)) d)))"

definition secret_field :: "pystr pydict \<Rightarrow> pystr \<Rightarrow> pystr" where
  "secret_field d k = (case dict_get d k of None \<Rightarrow> [] | Some v \<Rightarrow> v)"

definition missing_fields :: "pystr pydict \<Rightarrow> pystr list" where
  "missing_fields d = filter (\<lambda>k. secret_field d k = []) [''url'', ''username'', ''personal_token'']"

definition credential_of :: "pystr pydict \<Rightarrow> AtlassianCredential" where
  "credential_of d =
     \<lparr>ac_url = secret_field d ''url'', ac_username = secret_field d ''username'', ac_personal_token = secret_field d ''personal_token''\<rparr>"

definition refreshed :: "CachedEntry option \<Rightarrow> pystr option \<Rightarrow> bool" where
  \<comment> \<open>both creation times are known and the new one is later in the order of strings\<close>
  "refreshed cached t =
     (case (cached, t) of
        (Some e, Some new) \<Rightarrow>
          (case ce_vault_created_time e of
             Some old \<Rightarrow> old \<noteq> [] \<and> new \<noteq> [] \<and> lexordp (\<lambda>a b. (of_char a :: nat) < of_char b) old new
           | None \<Rightarrow> False)
      | _ \<Rightarrow> False)"

section \<open>The resolver\<close>

definition fetch_credential ::
  "resolver_call \<Rightarrow> cache_key \<Rightarrow> pystr \<Rightarrow> cred_cache \<Rightarrow> (cred_error + AtlassianCredential) \<times> cred_cache \<times> cred_effect list" where
  \<comment> \<open>\<open>get\<close> behind the cache\<close>
  "fetch_credential c k path cache =
     (case read_secret_with_metadata c path of
        Inl e \<Rightarrow> (Inl (VaultRaised e), cache, [ReadVault path])
      | Inr None \<Rightarrow> (Inl (VaultPathNotFound path), cache(k := None), [ReadVault path])
      | Inr (Some (d, t)) \<Rightarrow>
          if missing_fields d \<noteq> [] then (Inl (IncompleteSecret path (missing_fields d)), cache, [ReadVault path])
          else (Inr (credential_of d),
                cache(k \<mapsto> \<lparr>ce_credential = credential_of d, ce_cached_at = rc_now c, ce_vault_created_time = t\<rparr>),
                ReadVault path # (if refreshed (cache k) t then [AuditRefreshed (fst k) (rc_dept c) (rc_service c)] else [])))"

definition cached_credential :: "int \<Rightarrow> CachedEntry option \<Rightarrow> AtlassianCredential option" where
  "cached_credential now e =
     (case e of None \<Rightarrow> None | Some x \<Rightarrow> if now - ce_cached_at x < CACHE_TTL then Some (ce_credential x) else None)"

definition get_credential :: "resolver_call \<Rightarrow> cred_cache \<Rightarrow> (cred_error + AtlassianCredential) \<times> cred_cache \<times> cred_effect list" where
  "get_credential c cache =
     (case target c of
        Inl e \<Rightarrow> (Inl e, cache, (case e of ScopeViolation sc p \<Rightarrow> [AuditViolation sc p] | _ \<Rightarrow> []))
      | Inr (k, path) \<Rightarrow>
          (case cached_credential (rc_now c) (cache k) of
             Some cr \<Rightarrow> (Inr cr, cache, [])
           | None \<Rightarrow> fetch_credential c k path cache))"

definition list_dept_bots :: "'r list option \<Rightarrow> 'r list \<Rightarrow> 'r list \<times> 'r list option" where
  \<comment> \<open>the rows of the bots; the first answer of the database is kept for good\<close>
  "list_dept_bots cached rows = (case cached of Some rs \<Rightarrow> (rs, cached) | None \<Rightarrow> (rows, Some rows))"

fun get_all :: "resolver_call list \<Rightarrow> cred_cache \<Rightarrow> cred_cache" where
  "get_all [] cache = cache"
| "get_all (c # cs) cache = get_all cs (fst (snd (get_credential c cache)))"

section \<open>What the cache holds\<close>

definition read_by :: "resolver_call \<Rightarrow> cache_key \<Rightarrow> AtlassianCredential \<Rightarrow> bool" where
  \<comment> \<open>a call for the key that found the credential in the vault, at a path of its scope\<close>
  "read_by c k cr \<longleftrightarrow>
     (\<exists>path d t. target c = Inr (k, path) \<and> read_secret_with_metadata c path = Inr (Some (d, t)) \<and> missing_fields d = [] \<and> cr = credential_of d
        \<and> contains_sub USER_PATH_INFIX path = (fst k = User))"

definition cache_from :: "resolver_call list \<Rightarrow> cred_cache \<Rightarrow> bool" where
  \<comment> \<open>every entry was read by one of the calls, at the time it carries\<close>
  "cache_from cs cache \<longleftrightarrow> (\<forall>k e. cache k = Some e \<longrightarrow> (\<exists>c\<in>set cs. read_by c k (ce_credential e) \<and> ce_cached_at e = rc_now c))"

lemma guard_path_scope: "guard_path sc path = Inr p \<Longrightarrow> p = path \<and> contains_sub USER_PATH_INFIX p = (sc = User)"
  by (auto simp: guard_path_def split: if_splits)

lemma target_scope: "target c = Inr (k, path) \<Longrightarrow> contains_sub USER_PATH_INFIX path = (fst k = User)"
proof -
  assume "target c = Inr (k, path)"
  then obtain sc where "scope_of (rc_scope c) = Inr sc" and t: "target c = Inr (k, path)"
    by (auto simp: target_def rbind_eq_Inr)
  then show ?thesis
    by (cases sc) (auto simp: target_def rbind_eq_Inr dest!: guard_path_scope split: option.splits if_splits)
qed

lemma cache_from_get:
  assumes "cache_from cs cache"
  shows "cache_from (cs @ [c]) (fst (snd (get_credential c cache)))"
proof -
  have old: "\<exists>c'\<in>set (cs @ [c]). read_by c' k (ce_credential e) \<and> ce_cached_at e = rc_now c'" if "cache k = Some e" for k e
    using assms that unfolding cache_from_def by (metis Un_iff set_append)
  show ?thesis
  proof (cases "target c")
    case (Inl e)
    then show ?thesis using old by (auto simp: get_credential_def cache_from_def)
  next
    case (Inr kp)
    obtain k path where kp: "kp = (k, path)" by (cases kp)
    have read: "read_by c k (credential_of d)" if "read_secret_with_metadata c path = Inr (Some (d, t))" "missing_fields d = []" for d t
      using that Inr target_scope [of c k path] unfolding read_by_def kp by blast
    show ?thesis
      using old read Inr
      by (auto simp: get_credential_def fetch_credential_def cache_from_def kp split: option.splits sum.splits if_splits)
  qed
qed

lemma cache_from_all: "cache_from cs cache \<Longrightarrow> cache_from (cs @ ds) (get_all ds cache)"
proof (induction ds arbitrary: cs cache)
  case (Cons d ds)
  then show ?case using Cons.IH [OF cache_from_get [OF Cons.prems, of d]] by simp
qed simp

section \<open>Scopes and freshness\<close>

lemma get_credential_source:
  assumes "cache_from cs cache" "get_credential c cache = (Inr cr, cache', effects)"
  shows "\<exists>k path. target c = Inr (k, path) \<and> (\<exists>c'\<in>set (cs @ [c]). read_by c' k cr \<and> rc_now c - rc_now c' < CACHE_TTL)"
proof -
  obtain k path where t: "target c = Inr (k, path)"
    using assms(2) by (auto simp: get_credential_def split: sum.splits)
  show ?thesis
  proof (cases "cached_credential (rc_now c) (cache k)")
    case (Some cr')
    then obtain e where e: "cache k = Some e" "cr' = ce_credential e" "rc_now c - ce_cached_at e < CACHE_TTL"
      by (auto simp: cached_credential_def split: option.splits if_splits)
    then obtain c' where "c' \<in> set cs" "read_by c' k (ce_credential e)" "ce_cached_at e = rc_now c'"
      using assms(1) unfolding cache_from_def by blast
    moreover have "cr = cr'" using assms(2) t Some by (simp add: get_credential_def)
    ultimately show ?thesis using t e by auto
  next
    case None
    then have "fetch_credential c k path cache = (Inr cr, cache', effects)"
      using assms(2) t by (simp add: get_credential_def)
    then have "read_by c k cr"
      using t target_scope [OF t] by (auto simp: fetch_credential_def read_by_def split: sum.splits option.splits if_splits)
    with t show ?thesis by (auto simp: CACHE_TTL_def)
  qed
qed

text \<open>
  C9. Credentials are scoped and fresh. Starting with an empty cache, after any calls, whatever the database and the vault answer each time:
  a credential the resolver returns was read from the vault by this call or by an earlier one for the same scope, department or session and
  service, less than five minutes before, at a path that lies below the user sessions exactly for the user scope. And the resolver
  reads no other path than the one its call is for, under the same condition.
\<close>

theorem credentials_are_scoped_and_fresh:
  assumes "get_credential c (get_all cs Map.empty) = (res, cache', effects)"
  shows "(\<forall>cr. res = Inr cr \<longrightarrow>
           (\<exists>k path. target c = Inr (k, path) \<and> (\<exists>c'\<in>set (cs @ [c]). read_by c' k cr \<and> rc_now c - rc_now c' < CACHE_TTL)))
    \<and> (\<forall>p. ReadVault p \<in> set effects \<longrightarrow> (\<exists>k. target c = Inr (k, p) \<and> contains_sub USER_PATH_INFIX p = (fst k = User)))"
proof -
  have "cache_from cs (get_all cs Map.empty)"
    using cache_from_all [of "[]" Map.empty cs] by (simp add: cache_from_def)
  then have "\<exists>k path. target c = Inr (k, path) \<and> (\<exists>c'\<in>set (cs @ [c]). read_by c' k cr \<and> rc_now c - rc_now c' < CACHE_TTL)" if "res = Inr cr" for cr
    using get_credential_source assms that by blast
  moreover have "\<exists>k. target c = Inr (k, p) \<and> contains_sub USER_PATH_INFIX p = (fst k = User)" if rd: "ReadVault p \<in> set effects" for p
  proof -
    obtain k path where t: "target c = Inr (k, path)"
      using assms rd by (auto simp: get_credential_def split: sum.splits cred_error.splits)
    moreover have "p = path"
      using assms rd t by (auto simp: get_credential_def fetch_credential_def split: option.splits sum.splits if_splits)
    ultimately show ?thesis using target_scope by blast
  qed
  ultimately show ?thesis by blast
qed

definition sample_call :: "int \<Rightarrow> pystr \<Rightarrow> resolver_call" where
  \<comment> \<open>a department's credential whose token is rotated after a second\<close>
  "sample_call s scope_name =
     \<lparr>rc_dept = ''pay'', rc_service = ''jira'', rc_scope = scope_name, rc_session = Some ''s1'', rc_now = s * 1000000,
      rc_bots = (\<lambda>_ _. Some ''secret/atlassian/pay/jira''),
      rc_meta = (\<lambda>_. Inr (MetaFound [(''url'', ''u''), (''username'', ''bot''), (''personal_token'', if s \<le> 1 then ''old'' else ''new'')] (Some ''t''))),
      rc_read = (\<lambda>_. Inr None)\<rparr>"

lemma sample_get:
  "get_credential (sample_call 200 ''bot'') (get_all [sample_call 0 ''org'', sample_call 1 ''user''] Map.empty) =
     (Inr \<lparr>ac_url = ''u'', ac_username = ''bot'', ac_personal_token = ''old''\<rparr>, get_all [sample_call 0 ''org'', sample_call 1 ''user''] Map.empty, [])"
  by (simp add: sample_call_def get_credential_def target_def scope_of_def guard_path_def USER_PATH_INFIX_def build_user_session_path_def
      starts_with_def cached_credential_def CACHE_TTL_def fetch_credential_def read_secret_with_metadata_def missing_fields_def secret_field_def dict_get_def
      credential_of_def refreshed_def)

theorem credentials_are_scoped_and_fresh_witness:
  "\<exists>c'\<in>set [sample_call 0 ''org'', sample_call 1 ''user'', sample_call 200 ''bot''].
     read_by c' (Org, ''pay'', ''jira'') \<lparr>ac_url = ''u'', ac_username = ''bot'', ac_personal_token = ''old''\<rparr>"
proof -
  have "target (sample_call 200 ''bot'') = Inr ((Org, ''pay'', ''jira''), ''secret/atlassian/pay/jira'')"
    by (simp add: sample_call_def target_def scope_of_def guard_path_def USER_PATH_INFIX_def starts_with_def)
  then show ?thesis
    using credentials_are_scoped_and_fresh [OF sample_get] by auto
qed

end
