(* ===== verification/Output_Execution.thy ===== *)
theory Output_Execution
  imports Gateway_Workflow Execution_Run
begin

text \<open>
  The execution of output actions: the activity the gateway ends with
  (\<^verbatim>\<open>workers/automation-worker/src/automation_worker/activities/output_actions.py\<close>). The MCP caller is an environment that answers
  each call from the list of calls so far. The theorems show that a batch stays within its department and its size whatever the actions
  say, and that a failing action does not keep the others from running.
\<close>

section \<open>Calls\<close>

record mcp_call =
  mc_tool :: pystr
  mc_params :: "pyval pydict"
  mc_dept :: pystr

datatype mcp_answer = Answered pyval | TimedOut | Raised pystr

type_synonym mcp_caller = "mcp_call list \<Rightarrow> mcp_answer" \<comment> \<open>the calls up to and including the one that is answered\<close>

datatype action_status = Success | Failed pystr | Timeout

record OutputAction =
  oa_type :: ActionType
  oa_params :: "pyval pydict"
  oa_index :: int

record ActionResult =
  ax_type :: ActionType
  ax_index :: int
  ax_status :: action_status

record ExecutionBatchResult =
  eb_results :: "ActionResult list"
  eb_all_succeeded :: bool
  eb_failed_actions :: "ActionResult list"

definition MAX_ACTIONS_PER_BATCH :: nat where "MAX_ACTIONS_PER_BATCH = 20"

section \<open>Reading actions\<close>

definition ACTION_VALUES :: "(pystr \<times> ActionType) list" where
  "ACTION_VALUES =
     [(''jira_comment'', JIRA_COMMENT), (''jira_attachment'', JIRA_ATTACHMENT), (''bitbucket_commit'', BITBUCKET_COMMIT),
      (''bitbucket_pr'', BITBUCKET_PR), (''confluence_page'', CONFLUENCE_PAGE), (''jira_transition'', JIRA_TRANSITION)]"

definition action_of_str :: "pystr \<Rightarrow> ActionType option" where
  "action_of_str s =
     dict_get ACTION_VALUES
       (if s = ''bitbucket_create_pr'' then ''bitbucket_pr''
        else if s = ''confluence_create_page'' \<or> s = ''confluence_update_page'' then ''confluence_page'' else s)"

fun joined_strings :: "pyval list \<Rightarrow> pystr option" where
  \<comment> \<open>the concatenation if all are strings\<close>
  "joined_strings [] = Some []"
| "joined_strings (PStr s # vs) = map_option (\<lambda>r. s @ r) (joined_strings vs)"
| "joined_strings (_ # vs) = None"

fun coerce_action_type :: "(pyval \<Rightarrow> pystr) \<Rightarrow> pyval \<Rightarrow> ActionType option" where
  "coerce_action_type repr (PStr s) = action_of_str s"
| "coerce_action_type repr (PDict d) =
     action_of_str (py_str repr (or_value (get_or_none d ''value'') (or_value (get_or_none d ''type'') (get_or_none d ''name''))))"
| "coerce_action_type repr (PList vs) =
     (case (if vs = [] then None else Option.bind (joined_strings vs) action_of_str) of
        Some t \<Rightarrow> Some t
      | None \<Rightarrow> first_some (map (coerce_action_type repr) vs))"
| "coerce_action_type repr _ = None"

definition normalise_action :: "(pyval \<Rightarrow> pystr) \<Rightarrow> int \<Rightarrow> pyval \<Rightarrow> OutputAction option" where
  "normalise_action repr fallback raw =
     (case raw of
        PDict d \<Rightarrow>
          map_option (\<lambda>t.
            \<lparr>oa_type = t, oa_params = (case get_or_none d ''params'' of PDict p \<Rightarrow> p | _ \<Rightarrow> []),
             oa_index = (case py_int (get_default d ''index'' (PInt fallback)) of Inr i \<Rightarrow> i | Inl _ \<Rightarrow> fallback)\<rparr>)
            (coerce_action_type repr (get_or_none d ''type''))
      | _ \<Rightarrow> None)"

fun normalise_from :: "(pyval \<Rightarrow> pystr) \<Rightarrow> int \<Rightarrow> pyval list \<Rightarrow> OutputAction list" where
  "normalise_from repr n [] = []"
| "normalise_from repr n (v # vs) =
     (case normalise_action repr n v of None \<Rightarrow> normalise_from repr (n + 1) vs | Some a \<Rightarrow> a # normalise_from repr (n + 1) vs)"

definition actions_to_execute :: "(pyval \<Rightarrow> pystr) \<Rightarrow> pyval list \<Rightarrow> OutputAction list" where
  "actions_to_execute repr raw = sort_key oa_index (take MAX_ACTIONS_PER_BATCH (normalise_from repr 0 raw))"

section \<open>Handlers\<close>

definition drop_control_params :: "pyval pydict \<Rightarrow> bool \<Rightarrow> pyval pydict" where
  "drop_control_params d keep_issue_key =
     filter (\<lambda>kv. fst kv \<noteq> ''dept_id'' \<and> (keep_issue_key \<or> fst kv \<noteq> ''issue_key'')) d"

definition alias_param :: "pystr \<Rightarrow> pystr \<Rightarrow> pyval pydict \<Rightarrow> pyval pydict" where
  \<comment> \<open>the value of \<open>other\<close> under \<open>k\<close> where \<open>k\<close> is missing\<close>
  "alias_param k other d =
     (case dict_get d k of
        Some _ \<Rightarrow> d
      | None \<Rightarrow> (case dict_get d other of None \<Rightarrow> d | Some v \<Rightarrow> dict_set k v d))"

type_synonym handler_run = "mcp_answer \<times> mcp_call list" \<comment> \<open>how the handler ended, and all calls so far\<close>

definition call_tool :: "mcp_caller \<Rightarrow> pystr \<Rightarrow> pystr \<Rightarrow> pyval pydict \<Rightarrow> mcp_call list \<Rightarrow> handler_run" where
  "call_tool mcp dept tool params cs =
     (let c = \<lparr>mc_tool = tool, mc_params = params, mc_dept = dept\<rparr> in (mcp (cs @ [c]), cs @ [c]))"

definition handle_jira_attachment :: "mcp_caller \<Rightarrow> pystr \<Rightarrow> pyval pydict \<Rightarrow> mcp_call list \<Rightarrow> handler_run" where
  "handle_jira_attachment mcp dept params cs =
     (let d = drop_control_params params True
      in call_tool mcp dept (if dict_get d ''bucket'' \<noteq> None \<and> dict_get d ''key'' \<noteq> None then ''upload_artifact_to_jira'' else ''jira_add_attachment'') d cs)"

definition handle_bitbucket_pr :: "mcp_caller \<Rightarrow> pystr \<Rightarrow> pyval pydict \<Rightarrow> mcp_call list \<Rightarrow> handler_run" where
  "handle_bitbucket_pr mcp dept params cs =
     call_tool mcp dept ''bitbucket_create_pr'' (alias_param ''to_branch'' ''target'' (alias_param ''from_branch'' ''source'' (drop_control_params params False))) cs"

definition handle_bitbucket_commit :: "mcp_caller \<Rightarrow> pystr \<Rightarrow> pyval pydict \<Rightarrow> mcp_call list \<Rightarrow> handler_run" where
  "handle_bitbucket_commit mcp dept params cs =
     call_tool mcp dept ''bitbucket_put_file_content''
       (alias_param ''branch'' ''target_branch'' (alias_param ''message'' ''commit_message'' (alias_param ''file_path'' ''path'' (drop_control_params params False)))) cs"

definition handle_confluence_page :: "mcp_caller \<Rightarrow> pystr \<Rightarrow> pyval pydict \<Rightarrow> mcp_call list \<Rightarrow> handler_run" where
  "handle_confluence_page mcp dept params cs =
     (let d = drop_control_params params False
      in call_tool mcp dept (if truthy (get_or_none d ''page_id'') then ''confluence_update_page'' else ''confluence_create_page'') d cs)"

definition without_status :: "pyval pydict \<Rightarrow> pyval pydict" where
  "without_status d = dict_del ''status'' (dict_del ''target_status'' d)"

definition handle_jira_transition :: "(pyval \<Rightarrow> pystr) \<Rightarrow> mcp_caller \<Rightarrow> pystr \<Rightarrow> pyval pydict \<Rightarrow> mcp_call list \<Rightarrow> handler_run" where
  "handle_jira_transition repr mcp dept params cs =
     (let d = drop_control_params params True; issue = py_str repr (get_default d ''issue_key'' (PStr []))
      in if truthy (get_or_none d ''transition_id'') then call_tool mcp dept ''jira_transition_issue'' (without_status d) cs
         else
           let wanted = py_str repr (or_value (get_default d ''target_status'' (PStr [])) (get_default d ''status'' (PStr [])));
               (a, cs1) = call_tool mcp dept ''jira_get_transitions'' [(''issue_key'', PStr issue)] cs
           in case a of
                Answered v \<Rightarrow>
                  (case match_transition_id repr (coerce_transitions v) wanted of
                     None \<Rightarrow> (Answered (PDict [(''skipped'', PBool True), (''reason'', PStr ''no_matching_transition'')]), cs1)
                   | Some t \<Rightarrow> call_tool mcp dept ''jira_transition_issue'' (without_status (dict_set ''transition_id'' (PStr t) d)) cs1)
              | _ \<Rightarrow> (a, cs1))"

definition handle :: "(pyval \<Rightarrow> pystr) \<Rightarrow> mcp_caller \<Rightarrow> pystr \<Rightarrow> OutputAction \<Rightarrow> mcp_call list \<Rightarrow> handler_run" where
  "handle repr mcp dept a =
     (case oa_type a of
        JIRA_COMMENT \<Rightarrow> call_tool mcp dept ''jira_add_comment'' (drop_control_params (oa_params a) True)
      | JIRA_ATTACHMENT \<Rightarrow> handle_jira_attachment mcp dept (oa_params a)
      | BITBUCKET_COMMIT \<Rightarrow> handle_bitbucket_commit mcp dept (oa_params a)
      | BITBUCKET_PR \<Rightarrow> handle_bitbucket_pr mcp dept (oa_params a)
      | CONFLUENCE_PAGE \<Rightarrow> handle_confluence_page mcp dept (oa_params a)
      | JIRA_TRANSITION \<Rightarrow> handle_jira_transition repr mcp dept (oa_params a))"

fun status_of :: "mcp_answer \<Rightarrow> action_status" where
  "status_of (Answered _) = Success"
| "status_of TimedOut = Timeout"
| "status_of (Raised e) = Failed e"

definition execute_single_action :: "(pyval \<Rightarrow> pystr) \<Rightarrow> mcp_caller \<Rightarrow> pystr \<Rightarrow> OutputAction \<Rightarrow> mcp_call list \<Rightarrow> ActionResult \<times> mcp_call list" where
  "execute_single_action repr mcp dept a cs =
     (let (r, cs') = handle repr mcp dept a cs in (\<lparr>ax_type = oa_type a, ax_index = oa_index a, ax_status = status_of r\<rparr>, cs'))"

fun execute_each :: "(pyval \<Rightarrow> pystr) \<Rightarrow> mcp_caller \<Rightarrow> pystr \<Rightarrow> OutputAction list \<Rightarrow> mcp_call list \<Rightarrow> ActionResult list \<times> mcp_call list" where
  "execute_each repr mcp dept [] cs = ([], cs)"
| "execute_each repr mcp dept (a # as) cs =
     (let (r, cs1) = execute_single_action repr mcp dept a cs; (rs, cs2) = execute_each repr mcp dept as cs1 in (r # rs, cs2))"

definition execute_output_actions ::
  "(pyval \<Rightarrow> pystr) \<Rightarrow> (ActionResult list \<Rightarrow> pystr) \<Rightarrow> mcp_caller \<Rightarrow> pystr \<Rightarrow> pystr \<Rightarrow> pyval list \<Rightarrow> ExecutionBatchResult \<times> mcp_call list" where
  \<comment> \<open>\<open>summary\<close> is the text of the failure comment\<close>
  "execute_output_actions repr summary mcp issue dept raw =
     (if raw = [] then (\<lparr>eb_results = [], eb_all_succeeded = True, eb_failed_actions = []\<rparr>, [])
      else
        let (results, cs) = execute_each repr mcp dept (actions_to_execute repr raw) [];
            failed = filter (\<lambda>r. ax_status r \<noteq> Success) results;
            cs' = (if failed = [] then cs
                   else snd (call_tool mcp dept ''jira_add_comment'' [(''issue_key'', PStr issue), (''body'', PStr (summary failed))] cs))
        in (\<lparr>eb_results = results, eb_all_succeeded = (failed = []), eb_failed_actions = failed\<rparr>, cs'))"

section \<open>A batch stays within its department\<close>

definition JIRA_TOOLS :: "pystr list" where
  "JIRA_TOOLS = [''jira_add_comment'', ''jira_add_attachment'', ''upload_artifact_to_jira'', ''jira_get_transitions'', ''jira_transition_issue'']"

definition OTHER_TOOLS :: "pystr list" where
  "OTHER_TOOLS = [''bitbucket_create_pr'', ''bitbucket_put_file_content'', ''confluence_create_page'', ''confluence_update_page'']"

definition contained :: "pystr \<Rightarrow> mcp_call \<Rightarrow> bool" where
  \<comment> \<open>a call of a known tool for the department, which the parameters cannot change, nor the issue outside Jira\<close>
  "contained dept c \<longleftrightarrow>
     mc_dept c = dept \<and> dict_get (mc_params c) ''dept_id'' = None
     \<and> (mc_tool c \<in> set JIRA_TOOLS \<or> mc_tool c \<in> set OTHER_TOOLS \<and> dict_get (mc_params c) ''issue_key'' = None)"

definition extends :: "pystr \<Rightarrow> nat \<Rightarrow> mcp_call list \<Rightarrow> mcp_call list \<Rightarrow> bool" where
  "extends dept n cs cs' \<longleftrightarrow> (\<exists>new. cs' = cs @ new \<and> length new \<le> n \<and> list_all (contained dept) new)"

lemma extends_trans: "extends dept m cs cs1 \<Longrightarrow> extends dept n cs1 cs2 \<Longrightarrow> extends dept (m + n) cs cs2"
  unfolding extends_def by auto

lemma extends_call: "contained dept \<lparr>mc_tool = tool, mc_params = params, mc_dept = dept\<rparr> \<Longrightarrow> 1 \<le> n \<Longrightarrow> extends dept n cs (snd (call_tool mcp dept tool params cs))"
  by (simp add: extends_def call_tool_def Let_def)

lemma dropped_params [simp]:
  "dict_get (drop_control_params d keep) ''dept_id'' = None" "dict_get (drop_control_params d False) ''issue_key'' = None"
  by (auto simp: dict_get_def drop_control_params_def map_of_eq_None_iff)

lemma dict_get_alias: "j \<noteq> k \<Longrightarrow> dict_get (alias_param k other d) j = dict_get d j"
  by (simp add: alias_param_def split: option.splits)

lemma dict_get_without_status: "dict_get d j = None \<Longrightarrow> dict_get (without_status d) j = None"
  by (auto simp: without_status_def dict_del_def dict_get_def map_of_eq_None_iff)

lemmas containment = contained_def JIRA_TOOLS_def OTHER_TOOLS_def dict_get_alias dict_get_without_status

lemma handle_jira_transition_extends: "extends dept 2 cs (snd (handle_jira_transition repr mcp dept params cs))"
proof -
  have transition: "contained dept \<lparr>mc_tool = ''jira_transition_issue'', mc_params = without_status d, mc_dept = dept\<rparr>" if "dict_get d ''dept_id'' = None" for d
    using that by (simp add: containment)
  have listing: "contained dept \<lparr>mc_tool = ''jira_get_transitions'', mc_params = [(''issue_key'', v)], mc_dept = dept\<rparr>" for v
    by (simp add: containment dict_get_def)
  show ?thesis
    using extends_trans [OF extends_call [OF listing, of 1] extends_call [OF transition, of _ 1]] extends_call [OF transition, of _ 2] extends_call [OF listing, of 2]
    unfolding handle_jira_transition_def Let_def
    by (auto simp: numeral_2_eq_2 call_tool_def Let_def split: mcp_answer.splits option.splits)
qed

lemma handle_extends: "extends dept 2 cs (snd (handle repr mcp dept a cs))"
  by (cases "oa_type a")
     (auto simp: handle_def handle_jira_attachment_def handle_bitbucket_pr_def handle_bitbucket_commit_def handle_confluence_page_def containment Let_def
       intro!: extends_call handle_jira_transition_extends)

lemma execute_each_extends: "extends dept (2 * length as) cs (snd (execute_each repr mcp dept as cs))"
proof (induction as arbitrary: cs)
  case Nil
  then show ?case by (simp add: extends_def)
next
  case (Cons a as)
  have "snd (execute_each repr mcp dept (a # as) cs) = snd (execute_each repr mcp dept as (snd (handle repr mcp dept a cs)))"
    by (simp add: execute_single_action_def Let_def split: prod.splits)
  then show ?case
    using extends_trans [OF handle_extends [of dept cs repr mcp a] Cons.IH] by simp
qed

lemma execute_each_results:
  "map (\<lambda>r. (ax_type r, ax_index r)) (fst (execute_each repr mcp dept as cs)) = map (\<lambda>a. (oa_type a, oa_index a)) as"
  by (induction as arbitrary: cs) (auto simp: execute_single_action_def Let_def case_prod_beta)

definition failure_comment :: "(ActionResult list \<Rightarrow> pystr) \<Rightarrow> pystr \<Rightarrow> pystr \<Rightarrow> ExecutionBatchResult \<Rightarrow> mcp_call list" where
  "failure_comment summary issue dept r =
     (if eb_all_succeeded r then []
      else [\<lparr>mc_tool = ''jira_add_comment'', mc_params = [(''issue_key'', PStr issue), (''body'', PStr (summary (eb_failed_actions r)))], mc_dept = dept\<rparr>])"

lemma execute_output_actions_eq:
  "execute_output_actions repr summary mcp issue dept raw = (r, calls) \<Longrightarrow> raw \<noteq> []
   \<Longrightarrow> eb_results r = fst (execute_each repr mcp dept (actions_to_execute repr raw) [])
     \<and> calls = snd (execute_each repr mcp dept (actions_to_execute repr raw) []) @ failure_comment summary issue dept r
     \<and> eb_failed_actions r = filter (\<lambda>x. ax_status x \<noteq> Success) (eb_results r) \<and> eb_all_succeeded r = (eb_failed_actions r = [])"
  by (auto simp: execute_output_actions_def failure_comment_def call_tool_def Let_def split: prod.splits)

text \<open>
  C20. A batch of output actions is contained. Whatever the actions say and whatever the tools answer, at most twenty actions run, in the
  order of their indices, each once and with one result, also after a failure; every call is of one of nine tools, for the department
  of the batch, with no department among its parameters, and none of the issue outside Jira; there are at most forty-one calls, and the
  last is a comment on the issue exactly when an action did not succeed.
\<close>

theorem output_batch_is_contained:
  assumes "execute_output_actions repr summary mcp issue dept raw = (r, calls)"
  defines "as \<equiv> actions_to_execute repr raw"
  shows "map (\<lambda>x. (ax_type x, ax_index x)) (eb_results r) = map (\<lambda>a. (oa_type a, oa_index a)) as
    \<and> sorted (map oa_index as) \<and> length as \<le> MAX_ACTIONS_PER_BATCH
    \<and> eb_failed_actions r = filter (\<lambda>x. ax_status x \<noteq> Success) (eb_results r) \<and> eb_all_succeeded r = (eb_failed_actions r = [])
    \<and> list_all (contained dept) calls \<and> length calls \<le> 41
    \<and> (\<exists>own. calls = own @ failure_comment summary issue dept r)"
proof (cases "raw = []")
  case True
  with assms(1) show ?thesis
    by (auto simp: execute_output_actions_def as_def actions_to_execute_def failure_comment_def)
next
  case False
  have size: "length as \<le> MAX_ACTIONS_PER_BATCH" "sorted (map oa_index as)"
    by (simp_all add: as_def actions_to_execute_def)
  obtain new where new: "snd (execute_each repr mcp dept as []) = new" "length new \<le> 2 * length as" "list_all (contained dept) new"
    using execute_each_extends [of dept as "[]" repr mcp] by (auto simp: extends_def)
  have comment: "list_all (contained dept) (failure_comment summary issue dept r)" "length (failure_comment summary issue dept r) \<le> 1"
    by (simp_all add: failure_comment_def containment)
  show ?thesis
    using execute_output_actions_eq [OF assms(1) False] execute_each_results [of repr mcp dept as "[]"] size new comment
    unfolding as_def [symmetric] MAX_ACTIONS_PER_BATCH_def by auto
qed

definition sample_actions :: "pyval list" where
  \<comment> \<open>a commit that asks for another department, something that is no action, and a comment to run before it\<close>
  "sample_actions =
     [PDict [(''type'', PStr ''bitbucket_commit''), (''index'', PInt 2), (''params'', PDict [(''dept_id'', PStr ''hr''), (''path'', PStr ''f'')])],
      PInt 7,
      PDict [(''type'', PList [PStr ''jira_'', PStr ''comment'']), (''index'', PStr ''1''), (''params'', PDict [(''body'', PStr ''hi'')])]]"

lemma sample_batch:
  "execute_output_actions (\<lambda>_. []) (\<lambda>_. ''failed'') (\<lambda>cs. if length cs = 1 then TimedOut else Answered PNone) ''P-1'' ''pay'' sample_actions =
     (\<lparr>eb_results = [\<lparr>ax_type = JIRA_COMMENT, ax_index = 1, ax_status = Timeout\<rparr>, \<lparr>ax_type = BITBUCKET_COMMIT, ax_index = 2, ax_status = Success\<rparr>],
       eb_all_succeeded = False, eb_failed_actions = [\<lparr>ax_type = JIRA_COMMENT, ax_index = 1, ax_status = Timeout\<rparr>]\<rparr>,
      [\<lparr>mc_tool = ''jira_add_comment'', mc_params = [(''body'', PStr ''hi'')], mc_dept = ''pay''\<rparr>,
       \<lparr>mc_tool = ''bitbucket_put_file_content'', mc_params = [(''path'', PStr ''f''), (''file_path'', PStr ''f'')], mc_dept = ''pay''\<rparr>,
       \<lparr>mc_tool = ''jira_add_comment'', mc_params = [(''issue_key'', PStr ''P-1''), (''body'', PStr ''failed'')], mc_dept = ''pay''\<rparr>])"
  by code_simp

theorem output_batch_is_contained_witness:
  "contained ''pay'' \<lparr>mc_tool = ''bitbucket_put_file_content'', mc_params = [(''path'', PStr ''f''), (''file_path'', PStr ''f'')], mc_dept = ''pay''\<rparr>"
  using output_batch_is_contained [OF sample_batch] by simp

end
