(* ===== verification/Spec2Isabelle.thy ===== *)
theory Spec2Isabelle
  imports Workflow_Identifiers Capability_Gate Multi_Step Branch_Rules Iteration_State
    Output_Actions Task_Analysis Approval_Gate Llm_Fallback Webhook_Event Burst_Window Burst_Debounce
    Webhook_Filters Loop_Guard Budget_Policy Replay_Dedup Auth_Policy License_Cap
    Concurrency_Cap Webhook_Dispatcher Webhook_Pipeline Iteration_Manager Iteration_Workflow Gateway_Workflow
    Agent_Properties Agent_Cancellation Execution_Properties Runner_Health Workspace_Cleanup Audit_Prune Repo_Resolver Credential_Resolver Output_Execution
begin

text \<open>
  \<^bold>\<open>A verification of the decision logic of the Atlassian AI workflow platform.\<close>

  The platform turns Jira and Bitbucket events into LLM-driven work. A webhook reaches the automation
  service, which authenticates it, drops repeated, self-inflicted and bursty deliveries, finds the
  department of the assigned bot and starts or signals a Temporal workflow
  (\<^verbatim>\<open>services/automation-service\<close>). The gateway workflow lets an LLM analyse the task, checks the
  capabilities of the department and the branch rules and starts a child workflow
  (\<^verbatim>\<open>workers/automation-worker\<close>, \<^verbatim>\<open>libs/temporal-shared\<close>); the agent runner does the work: it generates,
  scans and commits code, reviews pull requests, writes Confluence pages, researches and runs epics
  (\<^verbatim>\<open>workers/agent-runner-worker\<close>). Commands run on remote hosts, over SSH or in containers
  (\<^verbatim>\<open>workers/execution-runner-worker\<close>); scheduled workflows probe these hosts, evict workspaces and prune the audit log.
  Calls to the LLM go through a factory that
  fails over to a second provider (\<^verbatim>\<open>libs/llm-orchestrator\<close>); budgets, licence caps, concurrency caps
  and roles limit what is started and by whom. All file names are relative to \<^verbatim>\<open>src/\<close>; in the table,
  \<open>automation\<close> stands for \<^verbatim>\<open>services/automation-service/src\<close>, \<open>shared\<close> for
  \<^verbatim>\<open>libs/temporal-shared/src/temporal_shared\<close>, \<open>worker\<close> for
  \<^verbatim>\<open>workers/automation-worker/src/automation_worker\<close> and \<open>runner\<close> for \<^verbatim>\<open>workers/agent-runner-worker/src\<close>.

  \<^bold>\<open>Theories.\<close>

  \<^item> \<open>Platform_Prelude\<close>: strings, numerals, dictionaries, JSON values, results, runs of operations, and
    the interface \<open>stateful_component\<close> (initial states, steps, an invariant), of which the approval gate,
    the LLM factory and the debounce coordinator are instances.
  \<^item> \<open>Workflow_Identifiers\<close> (\<open>shared\<close> identifiers.py): formatting and parsing of workflow ids. Parsing
    inverts formatting, so ids determine their targets; the one format that is not injective.
  \<^item> \<open>Capability_Gate\<close> (\<open>shared\<close> capabilities.py, \<open>automation\<close> decision/capability_gate.py): what a
    department can do and what a workflow type needs. Interface \<open>capability_gate_spec\<close>; the two gates
    agree, and the missing set is exactly what has to be added.
  \<^item> \<open>Multi_Step\<close> (\<open>shared\<close> multi_step.py), \<open>Branch_Rules\<close> (branch_rules.py; interface
    \<open>first_match_router\<close>), \<open>Output_Actions\<close> (output_actions.py), \<open>Task_Analysis\<close> (task_analysis.py):
    the plan of child workflows, the routing by branch pattern, the split of output actions, and the
    parser of the LLM's analysis with the contract of what it accepts.
  \<^item> \<open>Iteration_State\<close> (\<open>shared\<close> iteration.py; interface \<open>lossy_cache\<close>): the iteration record of an issue
    and its bounded cache of answers, evicted oldest first and never stale.
  \<^item> \<open>Approval_Gate\<close> (\<^verbatim>\<open>workers/automation-worker/.../workflows/approval_gate.py\<close>): the workflow as a state
    machine over signals, activity ends, evaluations and the timer; under every event sequence it returns
    only a skip, a timeout or the decision of an authorised user, with the matching trail of effects.
  \<^item> \<open>Llm_Fallback\<close> (\<^verbatim>\<open>libs/llm-orchestrator/.../fallback.py\<close>): retries, the switch to the fallback, the
    health probe and the HTTP provider, with exact counts of calls and waits.
  \<^item> \<open>Webhook_Event\<close>, \<open>Webhook_Filters\<close> (\<open>automation\<close> automation_service/webhook_filters.py): normalised
    events and the filter chain; what passes, and that the burst stage sees survivors only. The
    interface to the burst stage is \<open>burst_callback\<close>.
  \<^item> \<open>Burst_Window\<close> (automation_service/burst_window.py), \<open>Burst_Debounce\<close>
    (automation_service/burst_debounce.py): coalescing per issue. The first is refined to a window
    specification over the deliveries of one issue; the second accounts for every delivery exactly once
    under every interleaving of requests, timers, flush tasks and shutdown.
  \<^item> \<open>Loop_Guard\<close> (webhooks/loop_guard.py, decision/loop_guard.py): bot events, storms and blocks, with
    every database call, the audit logger and the notifier allowed to be missing or to fail. A storm blocks its issue for five
    minutes over every sequence of events.
  \<^item> \<open>Replay_Dedup\<close> (automation_service/processed_events.py, decision/replay.py, webhooks/dedup.py;
    interface \<open>claim_store\<close>): the three stores against repeated deliveries.
  \<^item> \<open>Budget_Policy\<close> (automation_service/budget/policy.py), \<open>License_Cap\<close> (middleware/license_cap.py),
    \<open>Concurrency_Cap\<close> (concurrency.py), \<open>Auth_Policy\<close> (\<^verbatim>\<open>libs/auth-shared/.../policy.py\<close>): the limits.
  \<^item> \<open>Webhook_Dispatcher\<close> (webhooks/dispatcher.py): which department an event belongs to and what is
    started or signalled, on top of the loop guard's payload, the budget check and the concurrency cap. What is requested of
    Temporal is stated against a specification of its own: bot tables, costs against caps, authors, counts.
  \<^item> \<open>Webhook_Pipeline\<close> (webhooks/pipeline.py): deduplication, loop guard and dispatcher in sequence, and
    the HTTP endpoint; interface \<open>pipeline_frame\<close> (what a list of stages leaves alone). Its theorems are
    end to end: one event is acted upon once, a bot's event never reaches the dispatcher, what the
    sender is told.
  \<^item> \<open>Python_Text\<close>: what the workers use of Python's strings, floats and dictionaries.
  \<^item> \<open>Description_Parser\<close>, \<open>Task_Analyzer\<close>, \<open>Analysis_Input\<close> (\<open>worker\<close> activities/description_parser.py,
    task_analyzer.py, platform_io.py): from the description of an issue to the analysis of its task. Every
    field is in its range, every result satisfies the contract of the gateway, and nothing of a department's
    configuration but the fields meant for it reaches a prompt.
  \<^item> \<open>Workflow_Registry\<close>, \<open>Gateway_Workflow\<close> (\<open>worker\<close> workflows/automation_workflow.py): the gateway as a
    function of an environment that answers its awaits and says which signals arrive while each is pending,
    with the list of its calls. A child is started only for an admitted task, every run is accounted for in
    the audit log and in one notification, and makes at most 37 awaits.
  \<^item> \<open>Iteration_Manager\<close>, \<open>Iteration_Workflow\<close> (\<open>worker\<close> activities/iteration_manager.py,
    workflows/iteration_workflow.py): the table of iterations under interleaved executions, and the workflow
    that allocates one.
  \<^item> \<open>Code_Change\<close> (\<open>shared\<close> code_change.py, \<open>runner\<close> activities/precommit_scan.py, opencode.py; interface
    \<open>secret_pattern\<close>), \<open>Confluence_Docs\<close> (confluence.py, confluence_dedup.py), \<open>Output_Limits\<close>
    (output_size_cap.py, research.py, llm_dedup.py): branch names and commit messages, the scanner and its
    patterns, the code generator, page titles and overwrite protection, size caps.
  \<^item> \<open>Agent_Values\<close>, \<open>Agent_State\<close>, \<open>Agent_Runner\<close> (\<open>runner\<close>
    agent_runner/workflows/agent_runner_workflow.py): how the agent runner reads results; its state, signals
    and awaits; its handlers and its run. A step is a function from a state to an exception or a value and the
    next state.
  \<^item> \<open>Agent_Logic\<close>: the logic of these steps, as locales of relations between states that composed steps keep
    (\<open>state_preorder\<close>, \<open>step_relation\<close>, \<open>auxiliary_relation\<close>, \<open>run_relation\<close>, \<open>coding_relation\<close>,
    \<open>full_relation\<close>). \<open>Agent_Trace\<close>: the shape of a run and the interface \<open>milestone\<close> for a distinguished
    sequence of calls. \<open>Agent_Changes\<close>: a commit follows its scan, a pull request its tests. \<open>Agent_Scan\<close>: from
    the generator's files to the scanner and the commit. \<open>Agent_Epics\<close>: the order of subtasks.
    \<open>Agent_Cancellation\<close>: what becomes of a request to cancel, from the signal to the compensation; a handler that is cancelled
    leaves by its own exception (locale \<open>exceptions\<close>). \<open>Agent_Properties\<close>: bounds on iterations and prompts, types without a
    handler, pull requests of output actions.
  \<^item> \<open>Execution_Run\<close> (\<^verbatim>\<open>workers/execution-runner-worker/src/workflows\<close>): the execution workflow and its legacy
    variant, as functions from a list of awaits to a failure or a value and a longer list. \<open>Execution_Logic\<close>: a calculus of
    weakest preconditions over these lists, with the predicates "gated", "cleared" and "within quota". \<open>Shell_Commands\<close>: the quoting
    of commands and a lexer of the shell that reads words and assignments back. \<open>Execution_Activities\<close> (\<^verbatim>\<open>activities/\<close> vault.py, ssh.py,
    ssh_healthcheck.py, disk_quota.py, cleanup.py, docker.py, runner_resolver.py, credential_injector.py): what answers the awaits.
    \<open>Execution_Properties\<close>: a command runs only on a runner that was probed healthy and within the quota, there are at most seven
    probes, a passed run ran the requested command and its host answered code zero, containers and injected credentials are removed.
  \<^item> \<open>Runner_Health\<close> (ssh_healthcheck_cron.py), \<open>Workspace_Cleanup\<close> (workspace_cleanup.py of both workers), \<open>Audit_Prune\<close>
    (audit_prune.py; interface \<open>keyset_pagination\<close>): the scheduled workflows. The counters of the probe refine a specification by
    thresholds; evictions are the shortest prefix of the oldest directories that frees enough by what the removals report, and a path without
    characters that need quoting is removed below the base path and alone; a retention run deletes the rows before its cutoff and no
    others, and no audit row is lost over any sequence of runs with failures, retries and lost answers.
  \<^item> \<open>Repo_Resolver\<close> (\<open>worker\<close> activities/repo_resolver.py), \<open>Output_Execution\<close> (activities/output_actions.py),
    \<open>Credential_Resolver\<close> (\<open>automation\<close> decision/credential_resolver.py): only repositories of the department are resolved, a batch of
    output actions stays within its department and its size, credentials are scoped and at most five minutes old.
  \<^item> This theory: how three components read one decision comment, and what the dispatcher's iteration
    workflow does with its input.

  \<^bold>\<open>Correspondence.\<close> A definition has the name of the code it models, without a leading underscore. Data
  classes are records, enumerations and unions datatypes. A stateful object is a record threaded through
  its operations; a workflow also threads the list of its awaits, and its environment is a function of that
  list; a table is a dictionary by its primary key or a list of rows, and a query the filter it
  states. Each await that can suspend in the middle of a critical sequence (the approval gate, the
  debounce coordinator) splits the operation into steps, and theorems quantify over all sequences of
  steps; elsewhere an operation runs under a lock or touches no shared state between awaits and is one
  step. A call that may raise is either a parameter of the operation or a flag of a fault record, so the
  branches that swallow exceptions are covered. Exceptions are the left values of sums.

  \<^bold>\<open>Conventions.\<close> Strings are lists of code points 0 to 255; the few literals outside that range are
  transliterated. \<open>Decimal\<close> and \<open>float\<close> values are exact
  rationals, times integers in microseconds. Arguments have the types their annotations say. Regular
  expressions of the sources are written out as predicates; those supplied by users, \<open>json.loads\<close>,
  \<open>fromisoformat\<close>, the JSON encoder, SHA-256, \<open>repr\<close>, LLM providers, HTTP responses and Temporal's answers
  are parameters, of which
  nothing is assumed unless a theorem says so. No definition uses fuel: every loop is structural or has a
  measure, and every operation is total.

  \<^bold>\<open>Flaws the theorems exhibit.\<close> Several theorems state behaviour the code does not intend: a second
  signal erases a pending approval; a decision comment is taken by a running gateway, or read differently by
  dispatcher and gate; a raising dispatch or a failed start is acknowledged and then deduplicated; a lone
  event is dispatched twice; an expired row or a failed look-up switches a guard off; budget checks differ at
  zero caps; workflow ids of Bitbucket pull requests collide; an iteration the dispatcher starts is always
  declined; a failed LLM call rejects a task; epics are never detected; an early reply is lost; a department
  without branch rules has every branch open; the scan of a change can miss what is committed; two kinds of
  research do nothing; one failed probe loses the runner; the scheduled probe never blocks a dead runner; a directory that
  could not be removed counts as freed; a directory with a blank in its path makes the removal leave the workspace; a pull request
  listed as an output action is opened untested.

  \<^bold>\<open>Bounds.\<close> Times of waits and the numbers of probes, attempts, pages and calls are those of the code: seven probes per
  execution, three attempts of an activity of the retention, pages of 5000 rows, twenty actions of a batch. Elsewhere the retries and
  timeouts of activities are not modelled; their outcome is an answer of the environment.

  \<^bold>\<open>Not modelled.\<close> Log lines, metrics and most message texts; token and HMAC verification; the legacy webhook handlers, the
  admin and assistant services, notification and storage clients and the signing of their requests; the start-up of the services. The
  compensation chain is an activity of the agent runner, whose outcome is an answer of its environment; the product-owner review, the
  repository sync and the cancellation are endpoints of the service that the modelled parts do not call; the retention of branches and the rotation of webhook secrets call activities that no worker registers. \<^verbatim>\<open>workflows/multi_step_workflow.py\<close> is
  not valid Python and has no behaviour to model. The rest of the repository is wiring, HTTP endpoints and database access around these parts,
  dashboards and scripts.
\<close>

section \<open>One decision, read by three components\<close>

lemma lower_Cons: "lower (c # cs) = lower_char c # lower cs"
  by (simp add: lower_def)

lemma decision_token_approve:
  assumes "contains_sub ''[approve]'' (lower b)" and "\<not> contains_sub ''[reject]'' (lower b)"
  shows "decision_token b = ''approve''"
  using assms
proof (induction b)
  case Nil
  then show ?case by (simp add: lower_def starts_with_def)
next
  case (Cons c cs)
  then show ?case by (cases "starts_with (lower (c # cs)) ''[approve]''") (auto simp: lower_Cons)
qed

lemma decision_token_reject:
  assumes "contains_sub ''[reject]'' (lower b)" and "\<not> contains_sub ''[approve]'' (lower b)"
  shows "decision_token b = ''reject''"
  using assms
proof (induction b)
  case Nil
  then show ?case by (simp add: lower_def starts_with_def)
next
  case (Cons c cs)
  then show ?case by (cases "starts_with (lower (c # cs)) ''[reject]''") (auto simp: lower_Cons)
qed

text \<open>
  The loop guard, the dispatcher and the approval gate read a decision comment alike, except one that
  holds both words: the guard exempts exactly the comments the dispatcher forwards, those are exactly the
  comments the gate takes for a decision, and the decision the dispatcher writes to the audit trail is
  the one the gate acts on whenever only one of the two words occurs.
\<close>

theorem decision_comments_agree:
  "approval_gate_pattern b = is_approval_comment b \<and>
   parse_approval_decision b =
     (if contains_sub ''[approve]'' (lower b) \<and> contains_sub ''[reject]'' (lower b) then Some ''approve''
      else if is_approval_comment b then Some (decision_token b) else None)"
  by (auto simp: approval_gate_pattern_def is_approval_comment_def parse_approval_decision_def Let_def
      decision_token_approve decision_token_reject)

text \<open>
  A comment that rejects first and mentions the other word later approves the commit: the dispatcher
  audits the forwarded decision as \<open>reject\<close>, and the waiting gate, on that very text from an authorised
  user, returns an approval.
\<close>

theorem reject_first_comment_approves:
  assumes "phase s = Waiting" and "u \<in> set (approvers inp)"
    and "decision_token b = ''reject''" and "contains_sub ''[approve]'' (lower b)"
    and "has_audit_logger t" and "Loop_Guard.comment_body p = Some b"
  shows "dict_get (ae_payload (last (audit_events (forward_approval_signal env p d t)))) ''decision'' =
           Some (PStr ''reject'') \<and>
         (\<exists>r. phase (run_ops (gate_step rx inp) s [Approval_Gate.Signal u b, Evaluate, ActivityEnd ok, ActivityEnd ok']) =
            Returned r \<and> approved r \<and> approver_id r = Some u)"
proof
  show "dict_get (ae_payload (last (audit_events (forward_approval_signal env p d t)))) ''decision'' = Some (PStr ''reject'')"
    using assms(3,5,6) by (simp add: forward_approval_signal_def audit_def call_temporal_def event_fields_def Let_def)
next
  have "parse_approval_decision b = Some ''approve''"
    using assms(4) by (simp add: parse_approval_decision_def Let_def)
  then show "\<exists>r. phase (run_ops (gate_step rx inp) s [Approval_Gate.Signal u b, Evaluate, ActivityEnd ok, ActivityEnd ok']) =
      Returned r \<and> approved r \<and> approver_id r = Some u"
    using assms(1,2)
    by (simp add: gate_step_def approval_received_def has_authorized_decision_def is_authorized_approver_def
        run_decide_def Let_def)
qed

theorem reject_first_comment_approves_witness:
  "\<exists>r. phase (run_ops (gate_step demo_rx demo_input) (init_gate\<lparr>phase := Waiting\<rparr>)
      [Approval_Gate.Signal ''alice'' ''[reject] do not [approve]'', Evaluate, ActivityEnd True, ActivityEnd True]) =
      Returned r \<and> approved r"
proof -
  let ?b = "''[reject] do not [approve]''"
  have w: "phase (init_gate\<lparr>phase := Waiting\<rparr>) = Waiting" and u: "''alice'' \<in> set (approvers demo_input)"
    by (simp_all add: demo_input_def)
  have t: "decision_token ?b = ''reject''" and c: "contains_sub ''[approve]'' (lower ?b)" by code_simp+
  have a: "has_audit_logger demo_dispatcher" by (simp add: demo_dispatcher_def)
  have b: "Loop_Guard.comment_body (demo_comment ''A-1'' ?b) = Some ?b" by (simp add: demo_comment_def)
  show ?thesis
    using reject_first_comment_approves [OF w u t c a b, of demo_env "''dev''" demo_rx True True] by blast
qed

section \<open>From the dispatcher to the iteration\<close>

lemma dispatched_input_declined:
  "\<exists>out. run_iteration repr base ienv (iteration_input p d) t = (out, [], t) \<and>
         io_decision out = ''unauthorized'' \<and> io_reason out = ''not_authorized''"
proof -
  have "\<not> may_iterate (prepare_input (coerce_input repr (iteration_input p d)))"
    by (simp add: may_iterate_def prepare_input_def coerce_input_def iteration_input_def get_or_none_def approvers_of_def
        is_authorized_for_iterate_def)
  then show ?thesis
    by (simp add: run_iteration_def prepare_iteration_def Let_def declined_def unauthorized_result_def)
qed

text \<open>
  An iteration that the dispatcher authorises and starts never runs: the input it passes holds
  neither the reporter nor the department's configuration, so the workflow's own authorisation check
  refuses every author, whatever the table and whatever fails, and starts no child.
\<close>

theorem dispatched_iteration_is_declined:
  assumes "dispatch env p s = (Inr r, s')" and "action r = ''iteration_started''"
  shows "\<exists>w q inp ok. last (temporal_calls s') = StartWorkflow ''IterationWorkflow'' w q (PDict inp) ok \<and>
    (\<exists>out. run_iteration repr base ienv inp t = (out, [], t) \<and>
       io_decision out = ''unauthorized'' \<and> io_reason out = ''not_authorized'')"
  using dispatch_iteration_started [OF assms] dispatched_input_declined by blast

theorem dispatched_iteration_is_declined_witness:
  "\<exists>r s' w q inp ok out. dispatch demo_env (demo_comment ''B-2'' ''[iterate]'') demo_dispatcher = (Inr r, s') \<and>
     last (temporal_calls s') = StartWorkflow ''IterationWorkflow'' w q (PDict inp) ok \<and>
     run_iteration (\<lambda>_. []) ''/r''
       \<lparr>ie_activity = pr_env (demo_process ''a''), ie_read_raises = False, ie_insert_fails = False, ie_start_raises = False,
        ie_child_result = Some ()\<rparr> inp [] = (out, [], []) \<and> io_decision out = ''unauthorized''"
proof -
  have "case dispatch demo_env (demo_comment ''B-2'' ''[iterate]'') demo_dispatcher of
      (Inl _, _) \<Rightarrow> False | (Inr r, _) \<Rightarrow> action r = ''iteration_started''" by code_simp
  then obtain r s' where d: "dispatch demo_env (demo_comment ''B-2'' ''[iterate]'') demo_dispatcher = (Inr r, s')"
    and a: "action r = ''iteration_started''" by (auto split: prod.splits sum.splits)
  from dispatched_iteration_is_declined [OF d a] d show ?thesis by blast
qed

end
